(* ===== verification/Prelude.thy ===== *)
theory Prelude
  imports "HOL-Library.Word"
begin

text \<open>
  Prelude of the development: names for the Rust integer types, saturating
  arithmetic, the bit-set operations the source obtains from its flag types, and
  the generic facts about lists and options the component theories share.

  Rust's \<open>u8\<close>, \<open>u16\<close>, \<open>u32\<close>, \<open>u64\<close> are words of that width, \<open>usize\<close> indices are
  natural numbers. A flag type of the source (\<open>FaultFlags\<close>, \<open>PreArmFlags\<close>, ...) is the
  word behind its \<open>bits()\<close>; \<open>contains\<close>, \<open>insert\<close>, \<open>remove\<close>, \<open>set\<close>, \<open>intersects\<close>,
  \<open>is_empty\<close> and \<open>-\<close> are the documented bitwise operations on that word.
\<close>

unbundle bit_operations_syntax

type_synonym u8 = "8 word"
type_synonym u16 = "16 word"
type_synonym u32 = "32 word"
type_synonym u64 = "64 word"

named_theorems flag_simps \<open>membership of single flags after the flag operations\<close>
named_theorems arith_defs \<open>definitions of the saturating operations\<close>

text \<open>\<open>Result<T, E>\<close> is a sum with the error on the left.\<close>

type_synonym ('a, 'e) result = "'e + 'a"

abbreviation Ok :: "'a \<Rightarrow> ('a, 'e) result" where
  "Ok \<equiv> Inr"

abbreviation Err :: "'e \<Rightarrow> ('a, 'e) result" where
  "Err \<equiv> Inl"

definition is_ok :: "('a, 'e) result \<Rightarrow> bool" where
  "is_ok r = (case r of Inl _ \<Rightarrow> False | Inr _ \<Rightarrow> True)"

lemma is_ok_simps [simp]: "is_ok (Ok x)" "\<not> is_ok (Err e)"
  by (simp_all add: is_ok_def)

lemma is_ok_iff: "is_ok r \<longleftrightarrow> (\<exists>x. r = Ok x)"
  by (cases r) simp_all

section \<open>Saturating arithmetic\<close>

definition sat_add :: "'a::len word \<Rightarrow> 'a word \<Rightarrow> 'a word" where
  [arith_defs]: "sat_add a b = (if unat a + unat b < 2 ^ LENGTH('a) then a + b else - 1)"

definition sat_sub :: "'a::len word \<Rightarrow> 'a word \<Rightarrow> 'a word" where
  [arith_defs]: "sat_sub a b = (if b \<le> a then a - b else 0)"

lemma unat_sat_add:
  "unat (sat_add a b) = min (unat a + unat b) (2 ^ LENGTH('a) - 1)" for a b :: "'a::len word"
  by (auto simp: sat_add_def unat_word_ariths unsigned_minus_1_eq_mask mask_eq_exp_minus_1 min_def)

lemma unat_sat_sub: "unat (sat_sub a b) = unat a - unat b"
  by (auto simp: sat_sub_def unat_sub word_le_nat_alt)

lemma sat_add_ge: "a \<le> sat_add a b" for a b :: "'a::len word"
proof -
  have "unat a < 2 ^ LENGTH('a)" by (rule unsigned_less)
  then have "unat a \<le> 2 ^ LENGTH('a) - 1" by linarith
  then show ?thesis by (simp add: word_le_nat_alt unat_sat_add)
qed

lemma sat_add_le_sum: "unat (sat_add a b) \<le> unat a + unat b"
  by (simp add: unat_sat_add)

section \<open>Flag words\<close>

text \<open>\<open>1 << k\<close>\<close>

definition flag :: "nat \<Rightarrow> 'a::len word" where
  "flag k = push_bit k 1"

definition flag_contains :: "'a::len word \<Rightarrow> 'a word \<Rightarrow> bool" where
  "flag_contains s f \<longleftrightarrow> s AND f = f"

definition flag_intersects :: "'a::len word \<Rightarrow> 'a word \<Rightarrow> bool" where
  "flag_intersects s f \<longleftrightarrow> s AND f \<noteq> 0"

definition flag_insert :: "'a::len word \<Rightarrow> 'a word \<Rightarrow> 'a word" where
  "flag_insert s f = s OR f"

definition flag_remove :: "'a::len word \<Rightarrow> 'a word \<Rightarrow> 'a word" where
  "flag_remove s f = s AND NOT f"

definition flag_set :: "'a::len word \<Rightarrow> 'a word \<Rightarrow> bool \<Rightarrow> 'a word" where
  "flag_set s f b = (if b then flag_insert s f else flag_remove s f)"

definition flag_diff :: "'a::len word \<Rightarrow> 'a word \<Rightarrow> 'a word" where
  "flag_diff s f = s AND NOT f"

lemma bit_flag [flag_simps]: "bit (flag k :: 'a::len word) n \<longleftrightarrow> n = k \<and> k < LENGTH('a)"
  by (auto simp: flag_def bit_simps)

lemma bit_flag_insert [flag_simps]: "bit (flag_insert s f) n \<longleftrightarrow> bit s n \<or> bit f n"
  by (simp add: flag_insert_def bit_or_iff)

lemma bit_flag_remove [flag_simps]:
  "bit (flag_remove s f) n \<longleftrightarrow> bit s n \<and> \<not> bit f n" for s :: "'a::len word"
  by (auto simp: flag_remove_def bit_simps dest: bit_imp_le_length)

lemma bit_flag_diff [flag_simps]:
  "bit (flag_diff s f) n \<longleftrightarrow> bit s n \<and> \<not> bit f n" for s :: "'a::len word"
  by (auto simp: flag_diff_def bit_simps dest: bit_imp_le_length)

lemma bit_flag_set [flag_simps]:
  "bit (flag_set s f b) n \<longleftrightarrow> (if bit f n then b else bit s n)"
  by (auto simp: flag_set_def flag_simps)

lemmas [flag_simps] = bit_or_iff

lemma flag_eq_iff: "k < LENGTH('a) \<Longrightarrow> flag j = (flag k :: 'a::len word) \<longleftrightarrow> j = k"
  by (metis bit_flag)

lemma flag_contains_iff: "flag_contains s f \<longleftrightarrow> (\<forall>n. bit f n \<longrightarrow> bit s n)"
  by (auto simp: flag_contains_def bit_eq_iff bit_and_iff dest: bit_imp_le_length)

lemma flag_contains_flag [flag_simps]:
  "k < LENGTH('a) \<Longrightarrow> flag_contains s (flag k) \<longleftrightarrow> bit s k" for s :: "'a::len word"
  by (auto simp: flag_contains_iff flag_simps)

lemma flag_contains_or [flag_simps]:
  "flag_contains s (f OR g) \<longleftrightarrow> flag_contains s f \<and> flag_contains s g"
  by (auto simp: flag_contains_iff bit_or_iff)

lemma flag_contains_self [simp]: "flag_contains s s"
  by (simp add: flag_contains_def)

lemma flag_contains_0 [simp]: "flag_contains s 0"
  by (simp add: flag_contains_def)

lemma flag_contains_trans: "flag_contains a b \<Longrightarrow> flag_contains b c \<Longrightarrow> flag_contains a c"
  by (auto simp: flag_contains_iff)

lemma flag_contains_antisym: "flag_contains a b \<Longrightarrow> flag_contains b a \<Longrightarrow> a = b"
  by (auto simp: flag_contains_iff bit_eq_iff)

lemma flag_diff_eq_0_iff: "flag_diff f s = 0 \<longleftrightarrow> flag_contains s f" for s :: "'a::len word"
  by (auto simp: flag_contains_iff bit_eq_iff flag_simps dest: bit_imp_le_length)

lemma flag_intersects_iff: "flag_intersects s f \<longleftrightarrow> (\<exists>n. bit s n \<and> bit f n)"
  by (auto simp: flag_intersects_def bit_eq_iff bit_and_iff dest: bit_imp_le_length)

lemma flag_intersects_or [flag_simps]:
  "flag_intersects s (f OR g) \<longleftrightarrow> flag_intersects s f \<or> flag_intersects s g"
  by (auto simp: flag_intersects_iff bit_or_iff)

lemma flag_intersects_flag [flag_simps]:
  "k < LENGTH('a) \<Longrightarrow> flag_intersects s (flag k) \<longleftrightarrow> bit s k" for s :: "'a::len word"
  by (auto simp: flag_intersects_iff flag_simps)

lemma flag_insert_contains [simp]: "flag_contains (flag_insert s f) f"
  by (auto simp: flag_contains_iff flag_simps)

lemma flag_insert_nonzero: "f \<noteq> 0 \<Longrightarrow> flag_insert s f \<noteq> 0"
  by (auto simp: flag_insert_def bit_eq_iff bit_or_iff)

lemma bit_or_flag [flag_simps]:
  "bit (w OR flag i) j \<longleftrightarrow> bit w j \<or> (j = i \<and> i < LENGTH('a))" for w :: "'a::len word"
  by (auto simp: bit_or_iff flag_simps)

lemma or_flag_nonzero: "i < LENGTH('a) \<Longrightarrow> w OR flag i \<noteq> 0" for w :: "'a::len word"
  by (metis bit_or_flag bit_0_eq bot_apply bot_bool_def)

lemma flag_nonzero: "k < LENGTH('a) \<Longrightarrow> (flag k :: 'a::len word) \<noteq> 0"
  using or_flag_nonzero [of k "0 :: 'a word"] by simp

section \<open>Population count and Hamming distance\<close>

definition count_ones :: "'a::len word \<Rightarrow> nat" where
  "count_ones w = length (filter (bit w) [0..<LENGTH('a)])"

lemma count_ones_card: "count_ones w = card {n. bit w n}"
proof -
  have "distinct (filter (bit w) [0..<LENGTH('a)])" by simp
  then have "count_ones w = card (set (filter (bit w) [0..<LENGTH('a)]))"
    unfolding count_ones_def by (rule distinct_card [symmetric])
  also have "set (filter (bit w) [0..<LENGTH('a)]) = {n. bit w n}"
    by (auto dest: bit_imp_le_length)
  finally show ?thesis .
qed

lemma finite_bits [simp]: "finite {n. bit w n}" for w :: "'a::len word"
  by (rule finite_subset [of _ "{..<LENGTH('a)}"]) (auto dest: bit_imp_le_length)

lemma count_ones_le: "count_ones w \<le> LENGTH('a)" for w :: "'a::len word"
  unfolding count_ones_def by (rule order_trans [OF length_filter_le]) simp

lemma count_ones_eq_0_iff: "count_ones w = 0 \<longleftrightarrow> w = 0"
proof -
  have "count_ones w = 0 \<longleftrightarrow> {n. bit w n} = {}"
    unfolding count_ones_card by (rule card_0_eq) simp
  also have "\<dots> \<longleftrightarrow> w = 0" by (auto simp: bit_eq_iff [of w] dest: bit_imp_le_length)
  finally show ?thesis .
qed

lemma count_ones_0 [simp]: "count_ones 0 = 0"
  by (simp add: count_ones_eq_0_iff)

lemma count_ones_xor_commute: "count_ones (a XOR b) = count_ones (b XOR a)"
  by (simp add: xor.commute)

lemma count_ones_xor_triangle:
  "count_ones (a XOR c) \<le> count_ones (a XOR b) + count_ones (b XOR c)" for a b c :: "'a::len word"
proof -
  have "{n. bit (a XOR c) n} \<subseteq> {n. bit (a XOR b) n} \<union> {n. bit (b XOR c) n}"
    by (auto simp: bit_simps)
  then have "card {n. bit (a XOR c) n} \<le> card ({n. bit (a XOR b) n} \<union> {n. bit (b XOR c) n})"
    by (rule card_mono [rotated]) simp
  also have "\<dots> \<le> card {n. bit (a XOR b) n} + card {n. bit (b XOR c) n}"
    by (rule card_Un_le)
  finally show ?thesis by (simp add: count_ones_card)
qed

section \<open>Lists used as fixed-size arrays\<close>

text \<open>
  A Rust array \<open>[T; N]\<close> is a list of length N; \<open>find_idx\<close> is \<open>iter().position(..)\<close>.
\<close>

fun find_idx :: "('a \<Rightarrow> bool) \<Rightarrow> 'a list \<Rightarrow> nat option" where
  "find_idx P [] = None"
| "find_idx P (x # xs) = (if P x then Some 0 else map_option Suc (find_idx P xs))"

lemma find_idx_None_iff: "find_idx P xs = None \<longleftrightarrow> (\<forall>x \<in> set xs. \<not> P x)"
  by (induction xs) auto

lemma find_idx_Some_iff:
  "find_idx P xs = Some i \<longleftrightarrow> i < length xs \<and> P (xs ! i) \<and> (\<forall>j < i. \<not> P (xs ! j))"
proof (induction xs arbitrary: i)
  case Nil
  show ?case by simp
next
  case (Cons x xs)
  show ?case
    by (cases i) (auto simp: Cons.IH less_Suc_eq_0_disj)
qed

lemma find_idx_SomeD:
  assumes "find_idx P xs = Some i"
  shows "i < length xs" "P (xs ! i)"
  using assms by (auto simp: find_idx_Some_iff)

section \<open>Little-endian bytes\<close>

text \<open>\<open>to_le_bytes\<close>: the bytes of a word, least significant first.\<close>

definition le_bytes :: "'a::len word \<Rightarrow> u8 list" where
  "le_bytes w = map (\<lambda>i. ucast (drop_bit (8 * i) w)) [0..<LENGTH('a) div 8]"

lemma le_bytes_length [simp]: "length (le_bytes (w :: 'a::len word)) = LENGTH('a) div 8"
  by (simp add: le_bytes_def)

lemma le_bytes_inj:
  fixes v w :: "'a::len word"
  assumes "le_bytes v = le_bytes w" "8 dvd LENGTH('a)"
  shows "v = w"
proof (rule bit_eqI)
  fix n assume "possible_bit TYPE('a word) n"
  then have n: "n < LENGTH('a)" by simp
  have i: "n div 8 < LENGTH('a) div 8" using n assms(2) by (auto elim!: dvdE)
  have "le_bytes v ! (n div 8) = le_bytes w ! (n div 8)" using assms(1) by simp
  then have e: "(ucast (drop_bit (8 * (n div 8)) v) :: u8) = ucast (drop_bit (8 * (n div 8)) w)"
    using i by (simp add: le_bytes_def)
  have b: "bit (ucast (drop_bit (8 * (n div 8)) u) :: u8) (n mod 8) = bit u n" for u :: "'a word"
    by (simp add: bit_ucast_iff bit_drop_bit_eq)
  show "bit v n = bit w n" using b [of v] b [of w] e by simp
qed

lemma le_bytes_append_inj:
  fixes v w :: "'a::len word"
  assumes "le_bytes v @ r = le_bytes w @ s" "8 dvd LENGTH('a)"
  shows "v = w \<and> r = s"
  using assms by (auto simp: append_eq_append_conv dest: le_bytes_inj)

end
