(* ===== verification/F32.thy ===== *)
theory F32
  imports Prelude
begin

text \<open>
  IEEE-754 binary32, the source's \<open>Scalar = f32\<close>. A value is its 32-bit pattern
  (\<open>f32::to_bits\<close>), so equality of the model is equality of representations and
  \<open>f32_eq\<close> is the language's \<open>==\<close>. Every finite value is an integer multiple of
  \<open>2 ^ -149\<close>; \<open>f32_scaled\<close> is that integer, and an arithmetic operation is the exact
  operation on it followed by one rounding to nearest, ties to even.

  Where the language leaves the payload of a NaN result open the model returns the
  canonical quiet NaN; where \<open>f32::max\<close> and \<open>f32::min\<close> may return either zero of
  \<open>{-0.0, 0.0}\<close> the model returns the first argument.
\<close>

type_synonym f32 = "32 word"

section \<open>Fields and classes\<close>

definition f32_sign :: "f32 \<Rightarrow> bool" where
  "f32_sign x = bit x 31"

definition f32_mag :: "f32 \<Rightarrow> int" where
  "f32_mag x = uint (take_bit 31 x)"

definition f32_is_nan :: "f32 \<Rightarrow> bool" where
  "f32_is_nan x \<longleftrightarrow> 0x7F800000 < f32_mag x"

definition f32_is_inf :: "f32 \<Rightarrow> bool" where
  "f32_is_inf x \<longleftrightarrow> f32_mag x = 0x7F800000"

definition f32_is_finite :: "f32 \<Rightarrow> bool" where
  "f32_is_finite x \<longleftrightarrow> f32_mag x < 0x7F800000"

definition f32_pack :: "bool \<Rightarrow> int \<Rightarrow> f32" where
  "f32_pack neg m = (if neg then 0x80000000 else 0) + word_of_int m"

definition f32_nan :: f32 where
  "f32_nan = 0x7FC00000"

definition f32_neg :: "f32 \<Rightarrow> f32" where
  "f32_neg x = x XOR 0x80000000"

definition f32_abs :: "f32 \<Rightarrow> f32" where
  "f32_abs x = take_bit 31 x"

section \<open>Comparison\<close>

text \<open>The order of the non-NaN values is the order of this integer; both zeros map to 0.\<close>

definition f32_key :: "f32 \<Rightarrow> int" where
  "f32_key x = (if f32_sign x then - f32_mag x else f32_mag x)"

definition f32_eq :: "f32 \<Rightarrow> f32 \<Rightarrow> bool" where
  "f32_eq a b \<longleftrightarrow> \<not> f32_is_nan a \<and> \<not> f32_is_nan b \<and> f32_key a = f32_key b"

definition f32_lt :: "f32 \<Rightarrow> f32 \<Rightarrow> bool" where
  "f32_lt a b \<longleftrightarrow> \<not> f32_is_nan a \<and> \<not> f32_is_nan b \<and> f32_key a < f32_key b"

definition f32_le :: "f32 \<Rightarrow> f32 \<Rightarrow> bool" where
  "f32_le a b \<longleftrightarrow> \<not> f32_is_nan a \<and> \<not> f32_is_nan b \<and> f32_key a \<le> f32_key b"

definition f32_max :: "f32 \<Rightarrow> f32 \<Rightarrow> f32" where
  "f32_max a b =
     (if f32_is_nan a then b else if f32_is_nan b then a else if f32_lt a b then b else a)"

definition f32_min :: "f32 \<Rightarrow> f32 \<Rightarrow> f32" where
  "f32_min a b =
     (if f32_is_nan a then b else if f32_is_nan b then a else if f32_lt b a then b else a)"

text \<open>
  \<open>f32::clamp\<close>. The standard library asserts \<open>lo <= hi\<close>; every call site of the source
  passes such bounds, and the lemmas about it carry that as a premise.
\<close>

definition f32_clamp :: "f32 \<Rightarrow> f32 \<Rightarrow> f32 \<Rightarrow> f32" where
  "f32_clamp x lo hi =
     (let y = (if f32_lt x lo then lo else x) in if f32_lt hi y then hi else y)"

section \<open>Rounding and arithmetic\<close>

fun bitlen :: "int \<Rightarrow> nat" where
  "bitlen n = (if n \<le> 0 then 0 else Suc (bitlen (n div 2)))"

declare bitlen.simps [simp del]

definition round_div_even :: "int \<Rightarrow> int \<Rightarrow> int" where
  "round_div_even n d =
     (let q = n div d; r = n mod d
      in if d < 2 * r \<or> (2 * r = d \<and> odd q) then q + 1 else q)"

text \<open>
  The magnitude bits of the value \<open>num / den\<close> in units of \<open>2 ^ -149\<close>. With \<open>k\<close> bits
  dropped the significand \<open>q\<close> has at most 24 bits, and adding \<open>k * 2 ^ 23\<close> writes the
  exponent field; a carry out of \<open>q\<close> moves to the next exponent by itself, and a result
  past the largest finite value saturates at the infinity pattern.
\<close>

definition f32_round_mag :: "int \<Rightarrow> int \<Rightarrow> int" where
  "f32_round_mag num den =
     (let k = bitlen (num div den) - 24
      in min (round_div_even num (den * 2 ^ k) + int k * 2 ^ 23) 0x7F800000)"

definition f32_scaled_mag :: "int \<Rightarrow> int" where
  "f32_scaled_mag m =
     (let e = m div 2 ^ 23; f = m mod 2 ^ 23
      in if e = 0 then f else (2 ^ 23 + f) * 2 ^ nat (e - 1))"

definition f32_scaled :: "f32 \<Rightarrow> int" where
  "f32_scaled x =
     (if f32_sign x then - f32_scaled_mag (f32_mag x) else f32_scaled_mag (f32_mag x))"

definition f32_add :: "f32 \<Rightarrow> f32 \<Rightarrow> f32" where
  "f32_add a b =
     (if f32_is_nan a \<or> f32_is_nan b then f32_nan
      else if f32_is_inf a
        then (if f32_is_inf b \<and> f32_sign a \<noteq> f32_sign b then f32_nan else a)
      else if f32_is_inf b then b
      else (let s = f32_scaled a + f32_scaled b
            in if s = 0 then f32_pack (f32_sign a \<and> f32_sign b) 0
               else f32_pack (s < 0) (f32_round_mag \<bar>s\<bar> 1)))"

definition f32_sub :: "f32 \<Rightarrow> f32 \<Rightarrow> f32" where
  "f32_sub a b = f32_add a (f32_neg b)"

definition f32_mul :: "f32 \<Rightarrow> f32 \<Rightarrow> f32" where
  "f32_mul a b =
     (let neg = (f32_sign a \<noteq> f32_sign b)
      in if f32_is_nan a \<or> f32_is_nan b then f32_nan
         else if f32_is_inf a \<or> f32_is_inf b
           then (if f32_mag a = 0 \<or> f32_mag b = 0 then f32_nan else f32_pack neg 0x7F800000)
         else f32_pack neg (f32_round_mag \<bar>f32_scaled a * f32_scaled b\<bar> (2 ^ 149)))"

definition f32_div :: "f32 \<Rightarrow> f32 \<Rightarrow> f32" where
  "f32_div a b =
     (let neg = (f32_sign a \<noteq> f32_sign b)
      in if f32_is_nan a \<or> f32_is_nan b then f32_nan
         else if f32_is_inf a then (if f32_is_inf b then f32_nan else f32_pack neg 0x7F800000)
         else if f32_is_inf b then f32_pack neg 0
         else if f32_mag b = 0
           then (if f32_mag a = 0 then f32_nan else f32_pack neg 0x7F800000)
         else f32_pack neg
                (f32_round_mag (\<bar>f32_scaled a\<bar> * 2 ^ 149) \<bar>f32_scaled b\<bar>))"

text \<open>A decimal literal \<open>num / den\<close> of the source, rounded as the compiler rounds it.\<close>

definition f32_lit :: "int \<Rightarrow> int \<Rightarrow> f32" where
  "f32_lit num den = f32_pack False (f32_round_mag (num * 2 ^ 149) den)"

section \<open>Fields of packed values\<close>

abbreviation INF_MAG :: int where "INF_MAG \<equiv> 0x7F800000"

lemma f32_mag_range [simp]: "0 \<le> f32_mag x" "f32_mag x < 2 ^ 31"
  using take_bit_int_less_exp [of 31 "uint x"] by (simp_all add: f32_mag_def unsigned_take_bit_eq)

lemma f32_pack_fields:
  assumes "0 \<le> m" "m \<le> INF_MAG"
  shows "f32_sign (f32_pack n m) = n" "f32_mag (f32_pack n m) = m"
proof -
  have u: "uint (word_of_int m :: f32) = m"
    using assms by (simp add: uint_word_of_int take_bit_int_eq_self)
  have b: "\<not> bit (word_of_int m :: f32) 31"
  proof -
    have "\<not> bit m 31" using assms by (simp add: bit_iff_odd div_pos_pos_trivial)
    then show ?thesis by (simp only: bit_word_of_int_iff) simp
  qed
  have t: "uint (take_bit 31 (word_of_int m :: f32)) = m"
    using assms by (simp add: unsigned_take_bit_eq u take_bit_int_eq_self)
  have flag31: "(0x80000000 :: f32) = flag 31" by (simp add: flag_def)
  have bits: "bit (0x80000000 :: f32) k \<longleftrightarrow> k = 31" for k
    unfolding flag31 by (simp add: flag_simps)
  have dis: "(0x80000000 :: f32) + word_of_int m = 0x80000000 OR word_of_int m"
    by (rule disjunctive_add_eq_or, rule bit_eqI) (simp only: bit_and_iff bits, simp add: b)
  show "f32_sign (f32_pack n m) = n"
    by (cases n) (simp_all add: f32_pack_def f32_sign_def dis bit_or_iff bits b)
  have "take_bit 31 (0x80000000 OR word_of_int m :: f32) = take_bit 31 (word_of_int m)"
    by (rule bit_eqI) (auto simp: bit_simps bits)
  then show "f32_mag (f32_pack n m) = m"
    by (cases n) (simp_all add: f32_pack_def f32_mag_def dis t)
qed

section \<open>Rounding\<close>

lemma bitlen_0 [simp]: "n \<le> 0 \<Longrightarrow> bitlen n = 0"
  by (simp add: bitlen.simps)

lemma bitlen_bounds: "0 < n \<Longrightarrow> 2 ^ (bitlen n - 1) \<le> n \<and> n < 2 ^ bitlen n \<and> 0 < bitlen n"
proof (induction n rule: bitlen.induct)
  case (1 n)
  show ?case
  proof (cases "n = 1")
    case True
    then show ?thesis by (simp add: bitlen.simps)
  next
    case False
    with 1 have "0 < n div 2" by linarith
    with 1 have IH: "2 ^ (bitlen (n div 2) - 1) \<le> n div 2" "n div 2 < 2 ^ bitlen (n div 2)"
      "0 < bitlen (n div 2)" by auto
    have e: "bitlen n = Suc (bitlen (n div 2))" using 1 by (simp add: bitlen.simps [of n])
    obtain k where k: "bitlen (n div 2) = Suc k" using IH(3) by (cases "bitlen (n div 2)") auto
    have "2 * 2 ^ k \<le> n" "n < 2 * 2 ^ Suc k"
      using IH(1,2) by (simp_all add: k)
    then show ?thesis by (simp add: e k)
  qed
qed

lemma bitlen_le_iff: "0 < n \<Longrightarrow> bitlen n \<le> k \<longleftrightarrow> n < 2 ^ k"
proof
  assume n: "0 < n"
  assume "bitlen n \<le> k"
  then have "(2::int) ^ bitlen n \<le> 2 ^ k" by simp
  with bitlen_bounds [OF n] show "n < 2 ^ k" by linarith
next
  assume n: "0 < n" and "n < 2 ^ k"
  with bitlen_bounds [OF n] have "(2::int) ^ (bitlen n - 1) < 2 ^ k" by linarith
  then show "bitlen n \<le> k" by simp
qed

lemma round_div_even_bounds:
  assumes "0 < d"
  shows "n div d \<le> round_div_even n d" "round_div_even n d \<le> n div d + 1"
  by (auto simp: round_div_even_def Let_def)

lemma round_div_even_exact: "0 < d \<Longrightarrow> round_div_even (q * d) d = q"
  by (auto simp: round_div_even_def Let_def)

lemma round_div_even_mono:
  assumes "0 < d" "a \<le> b"
  shows "round_div_even a d \<le> round_div_even b d"
proof (cases "a div d = b div d")
  case True
  have "a mod d \<le> b mod d"
    using True assms by (simp add: minus_div_mult_eq_mod [symmetric])
  with True show ?thesis by (auto simp: round_div_even_def Let_def)
next
  case False
  have "a div d \<le> b div d" using assms by (simp add: zdiv_mono1)
  with False have "a div d + 1 \<le> b div d" by simp
  with round_div_even_bounds [OF assms(1), of a] round_div_even_bounds [OF assms(1), of b]
  show ?thesis by linarith
qed

lemma f32_round_mag_le: "f32_round_mag n d \<le> INF_MAG"
  by (simp add: f32_round_mag_def Let_def)

lemma f32_round_mag_nonneg: "0 \<le> n \<Longrightarrow> 0 < d \<Longrightarrow> 0 \<le> f32_round_mag n d"
proof -
  assume "0 \<le> n" "0 < d"
  then have "0 \<le> round_div_even n (d * 2 ^ k)" for k
    using round_div_even_bounds(1) [of "d * 2 ^ k" n] pos_imp_zdiv_nonneg_iff [of "d * 2 ^ k" n]
    by (smt (verit) zero_less_mult_iff zero_less_power)
  then show ?thesis by (simp add: f32_round_mag_def Let_def)
qed


lemma zdiv_less_iff: "0 < d \<Longrightarrow> n div d < q \<longleftrightarrow> n < q * d" for n d q :: int
proof
  assume d: "0 < d" and lt: "n div d < q"
  then have "(n div d) * d \<le> (q - 1) * d" by simp
  moreover have "n < (n div d) * d + d" using d pos_mod_bound [of d n] div_mult_mod_eq [of n d] by linarith
  ultimately show "n < q * d" by (simp add: algebra_simps)
next
  assume d: "0 < d" and lt: "n < q * d"
  have "(n div d) * d \<le> n" using d pos_mod_sign [of d n] div_mult_mod_eq [of n d] by linarith
  with lt have "(n div d) * d < q * d" by linarith
  with d show "n div d < q" by simp
qed

lemma f32_round_mag_mono:
  assumes "0 \<le> a" "a \<le> b" "0 < d"
  shows "f32_round_mag a d \<le> f32_round_mag b d"
proof -
  define k l where "k = bitlen (a div d) - 24" and "l = bitlen (b div d) - 24"
  have ab: "a div d \<le> b div d" using assms by (simp add: zdiv_mono1)
  have a0: "0 \<le> a div d" using assms by (simp add: pos_imp_zdiv_nonneg_iff)
  have kl: "k \<le> l"
  proof (cases "a div d = 0")
    case True
    then show ?thesis by (simp add: k_def)
  next
    case False
    with a0 ab have "0 < a div d" "0 < b div d" by linarith+
    then have "bitlen (a div d) \<le> bitlen (b div d)"
      using bitlen_le_iff [of "a div d"] bitlen_bounds [of "b div d"] ab by fastforce
    then show ?thesis by (simp add: k_def l_def)
  qed
  have "round_div_even a (d * 2 ^ k) + int k * 2 ^ 23 \<le> round_div_even b (d * 2 ^ l) + int l * 2 ^ 23"
  proof (cases "k = l")
    case True
    then show ?thesis using assms by (simp add: round_div_even_mono)
  next
    case False
    with kl have lt: "k < l" by simp
    \<comment> \<open>the smaller operand rounds to at most \<open>2 ^ 24\<close>, the larger to at least \<open>2 ^ 23\<close>\<close>
    have bl: "0 < b div d" "24 + l = bitlen (b div d)"
      using lt by (auto simp: l_def) (metis bitlen_0 diff_0_eq_0 not_le not_less_zero)
    have "2 ^ (bitlen (b div d) - 1) \<le> b div d" using bitlen_bounds [OF bl(1)] by simp
    then have "2 ^ (23 + l) \<le> b div d" by (simp flip: bl(2))
    then have "2 ^ (23 + l) div 2 ^ l \<le> (b div d) div 2 ^ l"
      by (rule zdiv_mono1) simp
    then have "2 ^ 23 \<le> (b div d) div 2 ^ l"
      by (simp add: power_add)
    then have b_ge: "2 ^ 23 \<le> round_div_even b (d * 2 ^ l)"
      using round_div_even_bounds(1) [of "d * 2 ^ l" b] assms by (simp add: zdiv_zmult2_eq)
    have "a div d < 2 ^ (24 + k)"
    proof (cases "a div d = 0")
      case False
      with a0 have "0 < a div d" by simp
      moreover have "bitlen (a div d) \<le> 24 + k" by (simp add: k_def)
      ultimately show ?thesis by (simp add: bitlen_le_iff)
    qed simp
    then have "(a div d) div 2 ^ k < 2 ^ 24"
      by (simp add: zdiv_less_iff power_add)
    then have "round_div_even a (d * 2 ^ k) \<le> 2 ^ 24"
      using round_div_even_bounds(2) [of "d * 2 ^ k" a] assms by (simp add: zdiv_zmult2_eq)
    moreover have "int k + 1 \<le> int l" using lt by simp
    ultimately show ?thesis using b_ge by (simp add: algebra_simps)
  qed
  then show ?thesis
    by (simp add: f32_round_mag_def Let_def k_def [symmetric] l_def [symmetric])
qed


text \<open>A value that is representable is rounded to itself.\<close>

lemma f32_scaled_mag_nonneg [simp]: "0 \<le> m \<Longrightarrow> 0 \<le> f32_scaled_mag m"
  by (auto simp: f32_scaled_mag_def Let_def)

lemma f32_round_mag_exact:
  assumes "0 \<le> m" "m < INF_MAG"
  shows "f32_round_mag (f32_scaled_mag m) 1 = m"
proof -
  define e f where "e = m div 2 ^ 23" and "f = m mod 2 ^ 23"
  have m: "m = e * 2 ^ 23 + f" "0 \<le> f" "f < 2 ^ 23" "0 \<le> e"
    using assms by (simp_all add: e_def f_def pos_imp_zdiv_nonneg_iff)
  show ?thesis
  proof (cases "e = 0")
    case True
    then have s: "f32_scaled_mag m = f" by (simp add: f32_scaled_mag_def e_def f_def)
    have "bitlen f \<le> 24" using m by (cases "f = 0") (simp_all add: bitlen_le_iff)
    then have "f32_round_mag f 1 = f"
      using m True assms round_div_even_exact [of 1 f] by (simp add: f32_round_mag_def Let_def)
    then show ?thesis unfolding s using m True by simp
  next
    case False
    define k where "k = nat (e - 1)"
    have s: "f32_scaled_mag m = (2 ^ 23 + f) * 2 ^ k"
      using False by (simp add: f32_scaled_mag_def e_def f_def k_def)
    have pos: "0 < (2 ^ 23 + f) * 2 ^ k" using m by simp
    have lo: "\<not> bitlen ((2 ^ 23 + f) * 2 ^ k) \<le> 23 + k"
    proof -
      have "2 ^ 23 * 2 ^ k \<le> (2 ^ 23 + f) * 2 ^ k" using m by simp
      then show ?thesis unfolding bitlen_le_iff [OF pos] by (simp add: power_add)
    qed
    have hi: "bitlen ((2 ^ 23 + f) * 2 ^ k) \<le> 24 + k"
    proof -
      have "(2 ^ 23 + f) * 2 ^ k < 2 ^ 24 * 2 ^ k" using m by simp
      then show ?thesis unfolding bitlen_le_iff [OF pos] by (simp add: power_add)
    qed
    from lo hi have "bitlen ((2 ^ 23 + f) * 2 ^ k) - 24 = k" by simp
    then have "f32_round_mag (f32_scaled_mag m) 1 = min (2 ^ 23 + f + int k * 2 ^ 23) INF_MAG"
      by (simp add: s f32_round_mag_def Let_def round_div_even_exact)
    moreover have "int k = e - 1" using False m by (simp add: k_def)
    ultimately show ?thesis using m assms by (simp add: algebra_simps)
  qed
qed

section \<open>Order\<close>

text \<open>The rounded value of the exact sum \<open>s\<close>, as an order key.\<close>

definition f32_round_key :: "int \<Rightarrow> int" where
  "f32_round_key s = (if s < 0 then - f32_round_mag \<bar>s\<bar> 1 else f32_round_mag \<bar>s\<bar> 1)"

lemma f32_round_mag_0 [simp]: "0 < d \<Longrightarrow> f32_round_mag 0 d = 0"
  by (simp add: f32_round_mag_def round_div_even_def)

lemma f32_round_key_mono:
  assumes "a \<le> b" shows "f32_round_key a \<le> f32_round_key b"
proof (cases "a < 0"; cases "b < 0")
  assume "a < 0" "b < 0"
  then show ?thesis using assms f32_round_mag_mono [of "\<bar>b\<bar>" "\<bar>a\<bar>" 1] by (simp add: f32_round_key_def)
next
  assume "a < 0" "\<not> b < 0"
  then show ?thesis
    using f32_round_mag_nonneg [of "\<bar>a\<bar>" 1] f32_round_mag_nonneg [of "\<bar>b\<bar>" 1]
    by (simp add: f32_round_key_def)
next
  assume "\<not> a < 0" "\<not> b < 0"
  then show ?thesis using assms f32_round_mag_mono [of "\<bar>a\<bar>" "\<bar>b\<bar>" 1] by (simp add: f32_round_key_def)
qed (use assms in simp)

lemma f32_round_key_scaled: "f32_is_finite x \<Longrightarrow> f32_round_key (f32_scaled x) = f32_key x"
proof -
  assume fin: "f32_is_finite x"
  have r: "f32_round_mag (f32_scaled_mag (f32_mag x)) 1 = f32_mag x"
    using fin by (intro f32_round_mag_exact) (simp_all add: f32_is_finite_def)
  have nn: "0 \<le> f32_scaled_mag (f32_mag x)" by simp
  show ?thesis
  proof (cases "f32_scaled_mag (f32_mag x) = 0")
    case True
    with r have "f32_mag x = 0" by simp
    with True show ?thesis by (simp add: f32_round_key_def f32_scaled_def f32_key_def)
  next
    case False
    with nn have "0 < f32_scaled_mag (f32_mag x)" by linarith
    with r show ?thesis by (simp add: f32_round_key_def f32_scaled_def f32_key_def)
  qed
qed

text \<open>Addition of finite values: the key of the result is the rounded exact sum.\<close>

lemma f32_add_key:
  assumes "f32_is_finite a" "f32_is_finite b"
  shows "f32_key (f32_add a b) = f32_round_key (f32_scaled a + f32_scaled b)"
    and "\<not> f32_is_nan (f32_add a b)"
proof -
  let ?s = "f32_scaled a + f32_scaled b"
  have n: "\<not> f32_is_nan a" "\<not> f32_is_nan b" "\<not> f32_is_inf a" "\<not> f32_is_inf b"
    using assms by (simp_all add: f32_is_finite_def f32_is_nan_def f32_is_inf_def)
  have "0 \<le> f32_round_mag \<bar>?s\<bar> 1" by (rule f32_round_mag_nonneg) simp_all
  note p = f32_pack_fields [OF this f32_round_mag_le]
  show "f32_key (f32_add a b) = f32_round_key ?s"
    using n p f32_pack_fields [of 0]
    by (auto simp: f32_add_def Let_def f32_key_def f32_round_key_def)
  show "\<not> f32_is_nan (f32_add a b)"
    using n p f32_pack_fields [of 0] f32_round_mag_le [of "\<bar>?s\<bar>" 1]
    by (auto simp: f32_add_def Let_def f32_is_nan_def)
qed


lemma f32_mag_key: "f32_mag x = \<bar>f32_key x\<bar>"
  by (simp add: f32_key_def)

lemma f32_finite_key: "f32_is_finite x \<longleftrightarrow> \<bar>f32_key x\<bar> < INF_MAG"
  by (simp add: f32_is_finite_def f32_mag_key)

lemma f32_nan_key: "f32_is_nan x \<longleftrightarrow> INF_MAG < \<bar>f32_key x\<bar>"
  by (simp add: f32_is_nan_def f32_mag_key)

lemma f32_finite_not_nan: "f32_is_finite x \<Longrightarrow> \<not> f32_is_nan x"
  by (simp add: f32_is_finite_def f32_is_nan_def)

lemma f32_scaled_mag_0 [simp]: "f32_scaled_mag 0 = 0"
  by (simp add: f32_scaled_mag_def)

lemma f32_scaled_mono:
  assumes "f32_is_finite a" "f32_is_finite b" "f32_key a \<le> f32_key b"
  shows "f32_scaled a \<le> f32_scaled b"
proof (rule ccontr)
  assume c: "\<not> f32_scaled a \<le> f32_scaled b"
  then have "f32_round_key (f32_scaled b) \<le> f32_round_key (f32_scaled a)"
    by (simp add: f32_round_key_mono)
  with assms have k: "f32_key a = f32_key b" by (simp add: f32_round_key_scaled)
  have "f32_mag a = f32_mag b \<and> (f32_sign a = f32_sign b \<or> f32_mag b = 0)"
    using k f32_mag_range(1) [of a] f32_mag_range(1) [of b]
    unfolding f32_key_def by (smt (verit))
  then have "f32_scaled a = f32_scaled b"
    by (auto simp: f32_scaled_def)
  with c show False by simp
qed

lemma f32_neg_fields: "f32_sign (f32_neg x) \<longleftrightarrow> \<not> f32_sign x" "f32_mag (f32_neg x) = f32_mag x"
proof -
  have flag31: "(0x80000000 :: f32) = flag 31" by (simp add: flag_def)
  have bits: "bit (0x80000000 :: f32) k \<longleftrightarrow> k = 31" for k
    unfolding flag31 by (simp add: flag_simps)
  show "f32_sign (f32_neg x) \<longleftrightarrow> \<not> f32_sign x"
    unfolding f32_sign_def f32_neg_def by (simp only: bit_xor_iff bits) simp
  have "take_bit 31 (x XOR 0x80000000) = take_bit 31 x"
    by (rule bit_eqI) (simp only: bit_take_bit_iff bit_xor_iff bits, auto)
  then show "f32_mag (f32_neg x) = f32_mag x" by (simp add: f32_mag_def f32_neg_def)
qed

lemma f32_neg_simps [simp]:
  "f32_key (f32_neg x) = - f32_key x" "f32_is_nan (f32_neg x) = f32_is_nan x"
  "f32_is_finite (f32_neg x) = f32_is_finite x" "f32_is_inf (f32_neg x) = f32_is_inf x"
  by (simp_all add: f32_key_def f32_is_nan_def f32_is_finite_def f32_is_inf_def f32_neg_fields)

lemma f32_neg_scaled [simp]: "f32_scaled (f32_neg x) = - f32_scaled x"
  by (simp add: f32_scaled_def f32_neg_fields)

lemma f32_add_mono:
  assumes "f32_is_finite a" "f32_is_finite b" "f32_is_finite c" "f32_le b c"
  shows "f32_le (f32_add a b) (f32_add a c)"
  using assms f32_scaled_mono [of b c]
  by (auto simp: f32_le_def f32_add_key intro!: f32_round_key_mono)

text \<open>\<open>clamp\<close> with ordered bounds: a number is brought between them, a NaN stays.\<close>

lemma f32_clamp_bounds:
  assumes "f32_le lo hi" "\<not> f32_is_nan x"
  shows "f32_le lo (f32_clamp x lo hi)" "f32_le (f32_clamp x lo hi) hi"
  using assms by (auto simp: f32_clamp_def f32_le_def f32_lt_def Let_def)

lemma f32_clamp_nan: "f32_is_nan x \<Longrightarrow> f32_clamp x lo hi = x"
  by (simp add: f32_clamp_def f32_lt_def)

lemma f32_clamp_inside: "f32_le lo x \<Longrightarrow> f32_le x hi \<Longrightarrow> f32_clamp x lo hi = x"
  by (auto simp: f32_clamp_def f32_le_def f32_lt_def)

lemma f32_clamp_cases: "f32_clamp x lo hi = x \<or> f32_clamp x lo hi = lo \<or> f32_clamp x lo hi = hi"
  by (simp add: f32_clamp_def Let_def)

lemma f32_le_finite:
  assumes "f32_le lo x" "f32_le x hi" "f32_is_finite lo" "f32_is_finite hi"
  shows "f32_is_finite x"
  using assms by (auto simp: f32_le_def f32_finite_key)

lemma f32_le_trans: "f32_le a b \<Longrightarrow> f32_le b c \<Longrightarrow> f32_le a c"
  by (auto simp: f32_le_def)

lemma f32_le_refl: "\<not> f32_is_nan a \<Longrightarrow> f32_le a a"
  by (simp add: f32_le_def)

lemma f32_not_lt: "\<not> f32_is_nan a \<Longrightarrow> \<not> f32_is_nan b \<Longrightarrow> \<not> f32_lt a b \<longleftrightarrow> f32_le b a"
  by (auto simp: f32_lt_def f32_le_def)

lemma f32_key_consts [simp]:
  "f32_key 0 = 0" "f32_key 0x3F800000 = 0x3F800000" "f32_scaled 0 = 0"
  by code_simp+

section \<open>Magnitude bounds\<close>

text \<open>
  \<open>f32_within n x\<close> says \<open>|x| <= 2 ^ n\<close>. The bounds of a sum, product, quotient and of the
  comparisons follow from those of the operands, so a computation whose inputs are bounded is
  finite throughout, whatever its rounding errors.
\<close>

named_theorems within_intros \<open>bounds of a result from the bounds of its operands\<close>

definition f32_within :: "nat \<Rightarrow> f32 \<Rightarrow> bool" where
  "f32_within n x \<longleftrightarrow> f32_mag x \<le> (127 + int n) * 2 ^ 23"

lemma f32_within_finite: "f32_within n x \<Longrightarrow> n \<le> 127 \<Longrightarrow> f32_is_finite x"
  by (simp add: f32_within_def f32_is_finite_def)

lemma f32_within_mono: "f32_within n x \<Longrightarrow> n \<le> m \<Longrightarrow> f32_within m x"
  by (simp add: f32_within_def)

lemma f32_scaled_mag_pow: "f32_scaled_mag ((127 + int n) * 2 ^ 23) = 2 ^ (149 + n)"
proof -
  have "f32_scaled_mag ((127 + int n) * 2 ^ 23) = 2 ^ 23 * 2 ^ nat (126 + int n)"
    by (simp add: f32_scaled_mag_def Let_def)
  also have "nat (126 + int n) = 126 + n" by simp
  finally have "f32_scaled_mag ((127 + int n) * 2 ^ 23) = 2 ^ 23 * 2 ^ (126 + n)" .
  moreover have "149 + n = 23 + (126 + n)" by simp
  ultimately show ?thesis by (simp only: power_add)
qed

lemma f32_abs_scaled: "\<bar>f32_scaled x\<bar> = f32_scaled_mag (f32_mag x)"
  by (simp add: f32_scaled_def)

lemma f32_scaled_mag_mono:
  assumes "0 \<le> a" "a \<le> b" "b < INF_MAG"
  shows "f32_scaled_mag a \<le> f32_scaled_mag b"
proof -
  have p: "f32_sign (f32_pack False m) = False" "f32_mag (f32_pack False m) = m" if "m \<in> {a, b}" for m
    using that assms f32_pack_fields [of m False] by auto
  have "f32_scaled (f32_pack False a) \<le> f32_scaled (f32_pack False b)"
    using assms by (intro f32_scaled_mono) (simp_all add: f32_is_finite_def f32_key_def p)
  then show ?thesis by (simp add: f32_scaled_def p)
qed

lemma f32_within_scaled:
  assumes "f32_within n x" "n \<le> 127"
  shows "\<bar>f32_scaled x\<bar> \<le> 2 ^ (149 + n)"
proof -
  have "f32_scaled_mag (f32_mag x) \<le> f32_scaled_mag ((127 + int n) * 2 ^ 23)"
    using assms by (intro f32_scaled_mag_mono) (simp_all add: f32_within_def)
  then show ?thesis by (simp only: f32_abs_scaled f32_scaled_mag_pow)
qed

lemma round_mag_bound:
  assumes "0 \<le> s" "s \<le> 2 ^ (149 + n)" "n \<le> 127"
  shows "f32_round_mag s 1 \<le> (127 + int n) * 2 ^ 23"
proof -
  have "f32_round_mag s 1 \<le> f32_round_mag (2 ^ (149 + n)) 1"
    using assms by (intro f32_round_mag_mono) simp_all
  also have "f32_round_mag (f32_scaled_mag ((127 + int n) * 2 ^ 23)) 1 = (127 + int n) * 2 ^ 23"
    using assms by (intro f32_round_mag_exact) simp_all
  then have "f32_round_mag (2 ^ (149 + n)) 1 = (127 + int n) * 2 ^ 23"
    by (simp only: f32_scaled_mag_pow)
  finally show ?thesis .
qed

lemma round_div_even_scale: "0 < d \<Longrightarrow> round_div_even (n * d) (d * e) = round_div_even n e" for d :: int
proof -
  assume d: "0 < d"
  have q: "n * d div (d * e) = n div e" "n * d mod (d * e) = d * (n mod e)"
    using d div_mult_mult1 [of d n e] mult_mod_right [of d n e] mult.commute [of n d] by simp_all
  have "d * e < 2 * (d * (n mod e)) \<longleftrightarrow> e < 2 * (n mod e)"
    "2 * (d * (n mod e)) = d * e \<longleftrightarrow> 2 * (n mod e) = e"
    unfolding mult.left_commute [of 2 d] using d by simp_all
  then show ?thesis by (simp only: round_div_even_def Let_def q)
qed

lemma f32_round_mag_scale: "0 < d \<Longrightarrow> f32_round_mag (n * d) d = f32_round_mag n 1"
  using round_div_even_scale [of d n] by (simp add: f32_round_mag_def Let_def)

lemma f32_within_add [within_intros]:
  assumes "f32_within n a" "f32_within n b" "n < 127"
  shows "f32_within (Suc n) (f32_add a b)"
proof -
  have "\<bar>f32_scaled a + f32_scaled b\<bar> \<le> 2 ^ (149 + n) + 2 ^ (149 + n)"
    using f32_within_scaled [OF assms(1)] f32_within_scaled [OF assms(2)] assms(3) by linarith
  also have "\<dots> = 2 ^ (149 + Suc n)" unfolding add_Suc_right power_Suc by (rule mult_2 [symmetric])
  finally have b: "f32_round_mag \<bar>f32_scaled a + f32_scaled b\<bar> 1 \<le> (127 + int (Suc n)) * 2 ^ 23"
    using assms(3) by (intro round_mag_bound) simp_all
  have abs_key: "\<bar>f32_round_key s\<bar> = f32_round_mag \<bar>s\<bar> 1" for s
    using f32_round_mag_nonneg [of "\<bar>s\<bar>" 1] by (cases "s < 0") (simp_all add: f32_round_key_def)
  have "f32_is_finite a" "f32_is_finite b" using assms f32_within_finite by auto
  then have "f32_mag (f32_add a b) = f32_round_mag \<bar>f32_scaled a + f32_scaled b\<bar> 1"
    by (simp only: f32_mag_key f32_add_key abs_key)
  with b show ?thesis by (simp add: f32_within_def)
qed

lemma f32_within_neg [within_intros]: "f32_within n a \<Longrightarrow> f32_within n (f32_neg a)"
  by (simp add: f32_within_def f32_neg_fields)

lemma f32_within_sub [within_intros]:
  "f32_within n a \<Longrightarrow> f32_within n b \<Longrightarrow> n < 127 \<Longrightarrow> f32_within (Suc n) (f32_sub a b)"
  by (simp add: f32_sub_def f32_within_add f32_within_neg)

lemma f32_within_mul [within_intros]:
  assumes "f32_within n a" "f32_within m b" "n + m \<le> 127"
  shows "f32_within (n + m) (f32_mul a b)"
proof -
  let ?p = "\<bar>f32_scaled a * f32_scaled b\<bar>"
  have "?p \<le> 2 ^ (149 + n) * 2 ^ (149 + m)"
    using f32_within_scaled [OF assms(1)] f32_within_scaled [OF assms(2)] assms(3)
    by (simp only: abs_mult) (intro mult_mono, simp_all)
  also have "\<dots> = 2 ^ (149 + (n + m)) * 2 ^ 149" by (simp add: power_add)
  finally have "f32_round_mag ?p (2 ^ 149) \<le> f32_round_mag (2 ^ (149 + (n + m)) * 2 ^ 149) (2 ^ 149)"
    by (intro f32_round_mag_mono) simp_all
  also have "\<dots> = f32_round_mag (2 ^ (149 + (n + m))) 1" by (rule f32_round_mag_scale) simp
  also have "\<dots> \<le> (127 + int (n + m)) * 2 ^ 23" using assms(3) by (intro round_mag_bound) simp_all
  finally have r: "f32_round_mag ?p (2 ^ 149) \<le> (127 + int (n + m)) * 2 ^ 23" .
  have "f32_is_finite a" "f32_is_finite b" using assms f32_within_finite by auto
  then have "f32_mag (f32_mul a b) = f32_round_mag ?p (2 ^ 149)"
    using f32_pack_fields(2) [OF f32_round_mag_nonneg f32_round_mag_le, of ?p "2 ^ 149"]
    by (simp add: f32_mul_def Let_def f32_is_nan_def f32_is_inf_def f32_is_finite_def)
  with r show ?thesis by (simp add: f32_within_def)
qed

lemma f32_within_max [within_intros]: "f32_within n a \<Longrightarrow> f32_within n b \<Longrightarrow> f32_within n (f32_max a b)"
  by (simp add: f32_max_def)

lemma f32_within_min [within_intros]: "f32_within n a \<Longrightarrow> f32_within n b \<Longrightarrow> f32_within n (f32_min a b)"
  by (simp add: f32_min_def)


lemma f32_within_div [within_intros]:
  assumes "f32_within n a" "n \<le> 127" "f32_le 0x3F800000 b" "f32_is_finite b"
  shows "f32_within n (f32_div a b)"
proof -
  let ?n = "\<bar>f32_scaled a\<bar>" let ?d = "\<bar>f32_scaled b\<bar>"
  have fa: "f32_is_finite a" using assms f32_within_finite by auto
  have one: "f32_scaled 0x3F800000 = 2 ^ 149" "f32_key 0x3F800000 = 0x3F800000" "f32_is_finite 0x3F800000" by code_simp+
  have "f32_scaled 0x3F800000 \<le> f32_scaled b"
    using assms one by (intro f32_scaled_mono) (simp_all add: f32_le_def)
  then have d: "2 ^ 149 \<le> ?d" by (simp only: one)
  have pos: "0 < ?d" by (rule less_le_trans [OF _ d]) simp
  have "f32_round_mag (?n * 2 ^ 149) ?d \<le> f32_round_mag (?n * ?d) ?d"
    by (intro f32_round_mag_mono mult_left_mono d pos) simp_all
  also have "\<dots> = f32_round_mag ?n 1" by (rule f32_round_mag_scale [OF pos])
  also have "\<dots> \<le> (127 + int n) * 2 ^ 23"
    using f32_within_scaled [OF assms(1,2)] assms(2) by (intro round_mag_bound) simp_all
  finally have r: "f32_round_mag (?n * 2 ^ 149) ?d \<le> (127 + int n) * 2 ^ 23" .
  have nn: "0 \<le> f32_round_mag (?n * 2 ^ 149) ?d" using pos by (intro f32_round_mag_nonneg) simp_all
  have "f32_mag b \<noteq> 0" using assms(3) by (auto simp: f32_le_def f32_mag_key one)
  then have "f32_mag (f32_div a b) = f32_round_mag (?n * 2 ^ 149) ?d"
    using fa assms(4) f32_pack_fields(2) [OF nn f32_round_mag_le]
    by (simp add: f32_div_def Let_def f32_is_nan_def f32_is_inf_def f32_is_finite_def)
  with r show ?thesis by (simp add: f32_within_def)
qed

section \<open>Rounding error\<close>

lemma round_div_even_half:
  assumes "0 < d" shows "2 * (round_div_even n d * d) \<le> 2 * n + d"
proof -
  define q r where "q = n div d" and "r = n mod d"
  have n: "q * d + r = n" and r: "0 \<le> r" using assms by (simp_all add: q_def r_def)
  have "round_div_even n d = (if d < 2 * r \<or> (2 * r = d \<and> odd q) then q + 1 else q)"
    by (simp add: round_div_even_def q_def r_def Let_def)
  then have "round_div_even n d = q \<or> (round_div_even n d = q + 1 \<and> d \<le> 2 * r)" by auto
  then show ?thesis
  proof
    assume "round_div_even n d = q"
    then have "round_div_even n d * d = q * d" by simp
    then show ?thesis using n r assms by linarith
  next
    assume a: "round_div_even n d = q + 1 \<and> d \<le> 2 * r"
    then have "round_div_even n d * d = q * d + d" by (simp add: distrib_right)
    then show ?thesis using a n by linarith
  qed
qed

text \<open>A significand \<open>q\<close> of up to 24 bits with \<open>k\<close> dropped bits has the value \<open>q * 2 ^ k\<close>.\<close>

lemma f32_scaled_mag_parts:
  assumes "2 ^ 23 \<le> q" "q \<le> 2 ^ 24"
  shows "f32_scaled_mag (q + int k * 2 ^ 23) = q * 2 ^ k"
proof (cases "q = 2 ^ 24")
  case True
  have "(q + int k * 2 ^ 23) div 2 ^ 23 = int k + 2" "(q + int k * 2 ^ 23) mod 2 ^ 23 = 0"
    using True by simp_all
  moreover have "nat (int k + 2 - 1) = Suc k" by simp
  ultimately show ?thesis using True by (simp add: f32_scaled_mag_def Let_def)
next
  case False
  obtain f where f: "q = 2 ^ 23 + f" by (metis add.commute diff_add_cancel)
  with assms False have b: "0 \<le> f" "f < 2 ^ 23" by simp_all
  have e: "q + int k * 2 ^ 23 = f + (int k + 1) * 2 ^ 23" by (simp add: f)
  have "(f + (int k + 1) * 2 ^ 23) div 2 ^ 23 = int k + 1" "(f + (int k + 1) * 2 ^ 23) mod 2 ^ 23 = f"
    using b by (simp_all only: div_mult_self1 mod_mult_self1) simp_all
  then show ?thesis unfolding e by (simp add: f32_scaled_mag_def Let_def f)
qed

lemma f32_round_mag_error:
  assumes "0 < n" "n < 2 ^ b" "24 \<le> b" "b \<le> 276"
  shows "2 * f32_scaled_mag (f32_round_mag n 1) \<le> 2 * n + 2 ^ (b - 24)"
proof (cases "bitlen n \<le> 24")
  case True
  then have n: "n < 2 ^ 24" using assms(1) by (simp add: bitlen_le_iff)
  have r: "round_div_even n 1 = n" using round_div_even_exact [of 1 n] by simp
  have "f32_scaled_mag n = n"
  proof (cases "n < 2 ^ 23")
    case True
    then show ?thesis using assms(1) by (simp add: f32_scaled_mag_def Let_def div_pos_pos_trivial)
  next
    case False
    then show ?thesis using n f32_scaled_mag_parts [of n 0] by simp
  qed
  then show ?thesis using True n r by (simp add: f32_round_mag_def Let_def)
next
  case False
  define k where "k = bitlen n - 24"
  have k: "bitlen n = 24 + k" "0 < k" using False by (simp_all add: k_def)
  have bl: "bitlen n \<le> b" using assms by (simp add: bitlen_le_iff)
  have lo: "2 ^ (23 + k) \<le> n" and hi: "n < 2 ^ (24 + k)" using bitlen_bounds [OF assms(1)] k by auto
  let ?q = "round_div_even n (2 ^ k)"
  have "2 ^ 23 \<le> n div 2 ^ k" "n div 2 ^ k < 2 ^ 24"
    using lo hi zdiv_mono1 [of "2 ^ 23 * 2 ^ k" n "2 ^ k"] by (simp_all add: power_add zdiv_less_iff)
  then have q: "2 ^ 23 \<le> ?q" "?q \<le> 2 ^ 24" using round_div_even_bounds [of "2 ^ k" n] by simp_all
  have "int k * 2 ^ 23 \<le> 252 * 2 ^ 23" using bl assms(4) k by simp
  then have "f32_round_mag n 1 = ?q + int k * 2 ^ 23"
    using q by (simp add: f32_round_mag_def Let_def k_def [symmetric])
  then have "f32_scaled_mag (f32_round_mag n 1) = ?q * 2 ^ k"
    using f32_scaled_mag_parts [OF q] by simp
  moreover have "2 * (?q * 2 ^ k) \<le> 2 * n + 2 ^ k" by (rule round_div_even_half) simp
  moreover have "(2::int) ^ k \<le> 2 ^ (b - 24)" using bl k by simp
  ultimately show ?thesis by linarith
qed

lemma f32_scaled_key: "0 \<le> f32_key x \<Longrightarrow> f32_scaled x = f32_scaled_mag (f32_key x)"
proof -
  assume k: "0 \<le> f32_key x"
  show ?thesis
  proof (cases "f32_sign x")
    case True
    then have "f32_mag x = 0" using k f32_mag_range(1) [of x] by (simp add: f32_key_def)
    then show ?thesis by (simp add: f32_scaled_def f32_key_def)
  qed (simp add: f32_scaled_def f32_key_def)
qed

section \<open>Numbers\<close>

lemma f32_abs_key [simp]: "f32_key (f32_abs x) = \<bar>f32_key x\<bar>" "f32_is_nan (f32_abs x) = f32_is_nan x"
proof -
  have "\<not> f32_sign (f32_abs x)" by (simp add: f32_sign_def f32_abs_def bit_simps)
  moreover have m: "f32_mag (f32_abs x) = f32_mag x"
    by (simp add: f32_mag_def f32_abs_def)
  ultimately show "f32_key (f32_abs x) = \<bar>f32_key x\<bar>" by (simp add: f32_key_def)
  show "f32_is_nan (f32_abs x) = f32_is_nan x" by (simp add: f32_is_nan_def m)
qed

lemma f32_round_key_minus: "f32_round_key (- s) = - f32_round_key s"
  by (auto simp: f32_round_key_def)

lemma f32_nan_nan [simp]: "f32_is_nan f32_nan"
  by code_simp

lemma f32_not_finite: "\<not> f32_is_finite x \<longleftrightarrow> f32_is_nan x \<or> f32_is_inf x"
  by (auto simp: f32_is_finite_def f32_is_nan_def f32_is_inf_def)

lemma f32_add_number:
  assumes "f32_is_finite a" "\<not> f32_is_nan b" shows "\<not> f32_is_nan (f32_add a b)"
proof (cases "f32_is_finite b")
  case True
  with assms show ?thesis by (simp add: f32_add_key)
next
  case False
  with assms have "f32_is_inf b" by (auto simp: f32_not_finite)
  moreover have "\<not> f32_is_inf a" "\<not> f32_is_nan a"
    using assms(1) by (simp_all add: f32_is_inf_def f32_is_finite_def f32_is_nan_def)
  ultimately show ?thesis using assms(2) by (simp add: f32_add_def)
qed

lemma f32_mul_number:
  assumes "\<not> f32_is_nan a" "f32_is_finite b" "f32_is_finite a \<or> f32_key b \<noteq> 0"
  shows "\<not> f32_is_nan (f32_mul a b)"
proof (cases "f32_is_inf a")
  case True
  with assms have "f32_mag b \<noteq> 0" "f32_mag a \<noteq> 0" "\<not> f32_is_nan b"
    by (auto simp: f32_is_inf_def f32_is_finite_def f32_mag_key f32_finite_not_nan)
  then show ?thesis
    using True assms f32_pack_fields [of INF_MAG] by (simp add: f32_mul_def f32_is_nan_def Let_def)
next
  case False
  have "\<not> f32_is_inf b" "\<not> f32_is_nan b" using assms(2) by (simp_all add: f32_is_inf_def f32_is_finite_def f32_is_nan_def)
  moreover have "0 \<le> f32_round_mag \<bar>f32_scaled a * f32_scaled b\<bar> (2 ^ 149)"
    by (rule f32_round_mag_nonneg) simp_all
  note p = f32_pack_fields(2) [OF this f32_round_mag_le]
  ultimately show ?thesis
    using False assms(1) f32_round_mag_le [of "\<bar>f32_scaled a * f32_scaled b\<bar>" "2 ^ 149"]
    by (simp add: f32_mul_def Let_def f32_is_nan_def p)
qed

lemma f32_nan_operand:
  "f32_is_nan a \<or> f32_is_nan b \<Longrightarrow> f32_is_nan (f32_add a b)"
  "f32_is_nan a \<or> f32_is_nan b \<Longrightarrow> f32_is_nan (f32_sub a b)"
  "f32_is_nan a \<or> f32_is_nan b \<Longrightarrow> f32_is_nan (f32_mul a b)"
  by (auto simp: f32_add_def f32_sub_def f32_mul_def)

lemma f32_cmp_numbers:
  "f32_lt a b \<Longrightarrow> \<not> f32_is_nan a" "f32_lt a b \<Longrightarrow> \<not> f32_is_nan b"
  "f32_le a b \<Longrightarrow> \<not> f32_is_nan a" "f32_le a b \<Longrightarrow> \<not> f32_is_nan b"
  by (simp_all add: f32_lt_def f32_le_def)

text \<open>A value within symmetric bounds, or NaN.\<close>

definition f32_bounded :: "f32 \<Rightarrow> f32 \<Rightarrow> bool" where
  "f32_bounded c x \<longleftrightarrow> f32_is_nan x \<or> f32_le (f32_neg c) x \<and> f32_le x c"

lemma f32_clamp_bounded: "f32_le 0 c \<Longrightarrow> f32_bounded c (f32_clamp x (f32_neg c) c)"
  by (auto simp: f32_bounded_def f32_clamp_def f32_lt_def f32_le_def Let_def)

lemma f32_clamp_between:
  "f32_le lo hi \<Longrightarrow> f32_is_nan (f32_clamp x lo hi) \<or> f32_le lo (f32_clamp x lo hi) \<and> f32_le (f32_clamp x lo hi) hi"
  using f32_clamp_bounds [of lo hi x] by (cases "f32_is_nan x") (auto simp: f32_clamp_nan)

end
