(* ===== verification/MavlinkWire.thy ===== *)
theory MavlinkWire
  imports F32
begin

text \<open>
  The byte layer of the MAVLink codec (\<open>mavlink/protocol.rs\<close>): little-endian reads and writes, the
  X.25 checksum, the frame header and the truncation of trailing zero payload bytes.

  A buffer is a list of bytes; a write returns the updated buffer. Signed fields are bit patterns
  (\<open>i8\<close>, \<open>i16\<close>, \<open>i32\<close> of the source are words of that width), so the source's \<open>as\<close> casts between
  signed and unsigned are the identity.
\<close>

type_synonym byte = u8
type_synonym i8 = "8 word"
type_synonym i16 = "16 word"
type_synonym i32 = "32 word"

section \<open>Constants\<close>

definition MAVLINK_STX_V2 :: byte where "MAVLINK_STX_V2 = 0xFD"

definition MAX_PAYLOAD_LEN :: nat where "MAX_PAYLOAD_LEN = 255"

definition MAVLINK_SIGNATURE_LEN :: nat where "MAVLINK_SIGNATURE_LEN = 13"

definition MAVLINK_IFLAG_SIGNED :: byte where "MAVLINK_IFLAG_SIGNED = 0x01"

definition MavHeader_SIZE :: nat where "MavHeader_SIZE = 10"

section \<open>Reading\<close>

definition read_u16_le :: "byte list \<Rightarrow> nat \<Rightarrow> u16" where
  "read_u16_le buf offset = ucast (buf ! offset) OR push_bit 8 (ucast (buf ! (offset + 1)))"

definition read_i16_le :: "byte list \<Rightarrow> nat \<Rightarrow> i16" where
  "read_i16_le buf offset = read_u16_le buf offset"

definition read_u32_le :: "byte list \<Rightarrow> nat \<Rightarrow> u32" where
  "read_u32_le buf offset =
     ucast (buf ! offset) OR push_bit 8 (ucast (buf ! (offset + 1)))
     OR push_bit 16 (ucast (buf ! (offset + 2))) OR push_bit 24 (ucast (buf ! (offset + 3)))"

definition read_i32_le :: "byte list \<Rightarrow> nat \<Rightarrow> i32" where
  "read_i32_le buf offset = read_u32_le buf offset"

definition read_u64_le :: "byte list \<Rightarrow> nat \<Rightarrow> u64" where
  "read_u64_le buf offset =
     ucast (buf ! offset) OR push_bit 8 (ucast (buf ! (offset + 1)))
     OR push_bit 16 (ucast (buf ! (offset + 2))) OR push_bit 24 (ucast (buf ! (offset + 3)))
     OR push_bit 32 (ucast (buf ! (offset + 4))) OR push_bit 40 (ucast (buf ! (offset + 5)))
     OR push_bit 48 (ucast (buf ! (offset + 6))) OR push_bit 56 (ucast (buf ! (offset + 7)))"

definition read_f32_le :: "byte list \<Rightarrow> nat \<Rightarrow> f32" where
  "read_f32_le buf offset = read_u32_le buf offset"

section \<open>Writing\<close>

definition write_u16_le :: "byte list \<Rightarrow> nat \<Rightarrow> u16 \<Rightarrow> byte list" where
  "write_u16_le buf offset val =
     buf[offset := ucast (val AND 0xFF), offset + 1 := ucast (drop_bit 8 val AND 0xFF)]"

definition write_i16_le :: "byte list \<Rightarrow> nat \<Rightarrow> i16 \<Rightarrow> byte list" where
  "write_i16_le buf offset val = write_u16_le buf offset val"

definition write_u32_le :: "byte list \<Rightarrow> nat \<Rightarrow> u32 \<Rightarrow> byte list" where
  "write_u32_le buf offset val =
     buf[offset := ucast (val AND 0xFF), offset + 1 := ucast (drop_bit 8 val AND 0xFF),
         offset + 2 := ucast (drop_bit 16 val AND 0xFF), offset + 3 := ucast (drop_bit 24 val AND 0xFF)]"

definition write_i32_le :: "byte list \<Rightarrow> nat \<Rightarrow> i32 \<Rightarrow> byte list" where
  "write_i32_le buf offset val = write_u32_le buf offset val"

definition write_u64_le :: "byte list \<Rightarrow> nat \<Rightarrow> u64 \<Rightarrow> byte list" where
  "write_u64_le buf offset val =
     buf[offset := ucast (val AND 0xFF), offset + 1 := ucast (drop_bit 8 val AND 0xFF),
         offset + 2 := ucast (drop_bit 16 val AND 0xFF), offset + 3 := ucast (drop_bit 24 val AND 0xFF),
         offset + 4 := ucast (drop_bit 32 val AND 0xFF), offset + 5 := ucast (drop_bit 40 val AND 0xFF),
         offset + 6 := ucast (drop_bit 48 val AND 0xFF), offset + 7 := ucast (drop_bit 56 val AND 0xFF)]"

definition write_f32_le :: "byte list \<Rightarrow> nat \<Rightarrow> f32 \<Rightarrow> byte list" where
  "write_f32_le buf offset val = write_u32_le buf offset val"

text \<open>\<open>for i in 0..n { buf[offset + i] = text[i]; }\<close>\<close>

primrec write_text :: "byte list \<Rightarrow> nat \<Rightarrow> byte list \<Rightarrow> nat \<Rightarrow> byte list" where
  "write_text buf offset text 0 = buf"
| "write_text buf offset text (Suc n) = (write_text buf offset text n)[offset + n := text ! n]"

section \<open>Checksum\<close>

definition crc_accumulate :: "byte \<Rightarrow> u16 \<Rightarrow> u16" where
  "crc_accumulate b crc =
     (let tmp = ucast (b XOR ucast crc) :: u16;
          tmp = tmp XOR (push_bit 4 tmp AND 0xFF)
      in drop_bit 8 crc XOR push_bit 8 tmp XOR push_bit 3 tmp XOR drop_bit 4 tmp)"

definition compute_crc :: "byte list \<Rightarrow> byte \<Rightarrow> u16" where
  "compute_crc data crc_extra = crc_accumulate crc_extra (fold crc_accumulate data 0xFFFF)"

section \<open>Frame header and end\<close>

definition write_header :: "byte list \<Rightarrow> byte \<Rightarrow> byte \<Rightarrow> byte \<Rightarrow> byte \<Rightarrow> u32 \<Rightarrow> byte list" where
  "write_header buf payload_len seq sys_id comp_id msgid =
     buf[0 := MAVLINK_STX_V2, 1 := payload_len, 2 := 0, 3 := 0, 4 := seq, 5 := sys_id, 6 := comp_id,
         7 := ucast (msgid AND 0xFF), 8 := ucast (drop_bit 8 msgid AND 0xFF),
         9 := ucast (drop_bit 16 msgid AND 0xFF)]"

text \<open>\<open>while payload_end > MavHeader::SIZE + 1 && buf[payload_end - 1] == 0 { payload_end -= 1; }\<close>\<close>

primrec trim_payload :: "byte list \<Rightarrow> nat \<Rightarrow> nat" where
  "trim_payload buf 0 = 0"
| "trim_payload buf (Suc n) =
     (if MavHeader_SIZE + 1 < Suc n \<and> buf ! n = 0 then trim_payload buf n else Suc n)"

definition write_crc :: "byte list \<Rightarrow> nat \<Rightarrow> byte \<Rightarrow> byte list \<times> nat" where
  "write_crc buf offset crc_extra =
     (let payload_end = trim_payload buf offset;
          b1 = buf[1 := of_nat (payload_end - MavHeader_SIZE)];
          crc = compute_crc (drop 1 (take payload_end b1)) crc_extra
      in (b1[payload_end := ucast (crc AND 0xFF), payload_end + 1 := ucast (drop_bit 8 crc AND 0xFF)],
          payload_end + 2))"

section \<open>Contiguous writes\<close>

text \<open>Every write of the codec puts a block of bytes at an offset, and consecutive blocks join.\<close>

definition put :: "byte list \<Rightarrow> nat \<Rightarrow> byte list \<Rightarrow> byte list" where
  "put buf off xs = take off buf @ xs @ drop (off + length xs) buf"

named_theorems put_simps \<open>writes as blocks, and blocks joined\<close>

lemma put_length [simp]: "off + length xs \<le> length buf \<Longrightarrow> length (put buf off xs) = length buf"
  by (simp add: put_def)

lemma put_nil [simp]: "put buf off [] = buf"
  by (simp add: put_def)

lemma put_single: "off < length buf \<Longrightarrow> buf[off := x] = put buf off [x]"
  by (simp add: put_def upd_conv_take_nth_drop)

lemma put_put:
  "off' = off + length xs \<Longrightarrow> off' + length ys \<le> length buf \<Longrightarrow> put (put buf off xs) off' ys = put buf off (xs @ ys)"
  by (simp add: put_def ac_simps)

lemma put_update: "off' = off + length xs \<Longrightarrow> off' < length buf \<Longrightarrow> (put buf off xs)[off' := y] = put buf off (xs @ [y])"
  by (simp add: put_single put_put)

lemma low_byte: "ucast (v AND 0xFF) = (ucast v :: byte)" for v :: "'a::len word"
proof -
  have m: "(0xFF :: 'a word) = mask 8" by (simp add: mask_eq_exp_minus_1)
  show ?thesis
    unfolding m take_bit_eq_mask [symmetric]
    by (rule bit_eqI) (auto simp: bit_simps dest: bit_imp_le_length)
qed

lemma le_bytes_words:
  "le_bytes (a :: u16) = [ucast a, ucast (drop_bit 8 a)]"
  "le_bytes (b :: u32) = [ucast b, ucast (drop_bit 8 b), ucast (drop_bit 16 b), ucast (drop_bit 24 b)]"
  "le_bytes (c :: u64) = [ucast c, ucast (drop_bit 8 c), ucast (drop_bit 16 c), ucast (drop_bit 24 c),
     ucast (drop_bit 32 c), ucast (drop_bit 40 c), ucast (drop_bit 48 c), ucast (drop_bit 56 c)]"
  by (simp_all add: le_bytes_def upt_rec)

lemma write_put:
  "off + 2 \<le> length buf \<Longrightarrow> write_u16_le buf off a = put buf off (le_bytes a)"
  "off + 2 \<le> length buf \<Longrightarrow> write_i16_le buf off a = put buf off (le_bytes a)"
  "off + 4 \<le> length buf \<Longrightarrow> write_u32_le buf off b = put buf off (le_bytes b)"
  "off + 4 \<le> length buf \<Longrightarrow> write_i32_le buf off b = put buf off (le_bytes b)"
  "off + 4 \<le> length buf \<Longrightarrow> write_f32_le buf off b = put buf off (le_bytes b)"
  "off + 8 \<le> length buf \<Longrightarrow> write_u64_le buf off c = put buf off (le_bytes c)"
  by (simp_all add: write_u16_le_def write_i16_le_def write_u32_le_def write_i32_le_def write_f32_le_def
      write_u64_le_def le_bytes_words put_single put_put low_byte)

lemma write_text_put: "off + n \<le> length buf \<Longrightarrow> n \<le> length t \<Longrightarrow> write_text buf off t n = put buf off (take n t)"
  by (induction n) (simp_all add: put_update take_Suc_conv_app_nth)

definition header_bytes :: "byte \<Rightarrow> byte \<Rightarrow> byte \<Rightarrow> byte \<Rightarrow> u32 \<Rightarrow> byte list" where
  "header_bytes len seq sys_id comp_id msgid =
     [MAVLINK_STX_V2, len, 0, 0, seq, sys_id, comp_id, ucast (msgid AND 0xFF),
      ucast (drop_bit 8 msgid AND 0xFF), ucast (drop_bit 16 msgid AND 0xFF)]"

lemma header_length [simp]: "length (header_bytes len seq sys_id comp_id msgid) = 10"
  by (simp add: header_bytes_def)

lemma write_header_put:
  "10 \<le> length buf \<Longrightarrow> write_header buf len seq sys_id comp_id msgid = put buf 0 (header_bytes len seq sys_id comp_id msgid)"
proof -
  assume l: "10 \<le> length buf"
  then have "buf[0 := MAVLINK_STX_V2] = put buf 0 [MAVLINK_STX_V2]" by (intro put_single) (cases buf; simp)
  then show ?thesis using l by (simp only: write_header_def) (simp add: header_bytes_def put_single put_put)
qed

section \<open>Words from bytes\<close>

text \<open>The \<open>n\<close> bytes at an offset.\<close>

definition slice :: "nat \<Rightarrow> nat \<Rightarrow> byte list \<Rightarrow> byte list" where
  "slice n off buf = take n (drop off buf)"

lemma slice_simps:
  "length xs \<le> off \<Longrightarrow> slice n off (xs @ ys) = slice n (off - length xs) ys"
  "length xs = n \<Longrightarrow> slice n 0 (xs @ ys) = xs"
  "length xs = n \<Longrightarrow> slice n 0 xs = xs"
  "0 < off \<Longrightarrow> slice n off (x # ys) = slice n (off - 1) ys"
  by (auto simp: slice_def drop_Cons')

lemma nth_blocks:
  "length xs \<le> k \<Longrightarrow> (xs @ ys) ! k = ys ! (k - length xs)"
  "0 < k \<Longrightarrow> (x # ys) ! k = ys ! (k - 1)"
  by (simp_all add: nth_append)

definition u16_of :: "byte list \<Rightarrow> u16" where "u16_of xs = read_u16_le xs 0"
definition u32_of :: "byte list \<Rightarrow> u32" where "u32_of xs = read_u32_le xs 0"
definition u64_of :: "byte list \<Rightarrow> u64" where "u64_of xs = read_u64_le xs 0"

lemma read_words:
  "off + 2 \<le> length buf \<Longrightarrow> read_u16_le buf off = u16_of (slice 2 off buf)"
  "off + 2 \<le> length buf \<Longrightarrow> read_i16_le buf off = u16_of (slice 2 off buf)"
  "off + 4 \<le> length buf \<Longrightarrow> read_u32_le buf off = u32_of (slice 4 off buf)"
  "off + 4 \<le> length buf \<Longrightarrow> read_i32_le buf off = u32_of (slice 4 off buf)"
  "off + 4 \<le> length buf \<Longrightarrow> read_f32_le buf off = u32_of (slice 4 off buf)"
  "off + 8 \<le> length buf \<Longrightarrow> read_u64_le buf off = u64_of (slice 8 off buf)"
  by (simp_all add: read_u16_le_def read_i16_le_def read_u32_le_def read_i32_le_def read_f32_le_def
      read_u64_le_def u16_of_def u32_of_def u64_of_def slice_def)

lemma word_of_le_bytes [simp]:
  "u16_of (le_bytes a) = a" "u32_of (le_bytes b) = b" "u64_of (le_bytes c) = c"
proof -
  show "u16_of (le_bytes a) = a"
    by (rule bit_eqI) (auto simp: u16_of_def read_u16_le_def le_bytes_words bit_simps)
  show "u32_of (le_bytes b) = b"
  proof (rule bit_eqI)
    fix n assume "possible_bit TYPE(u32) n"
    then consider "n < 8" | m where "n = 8 + m" "m < 8" | m where "n = 16 + m" "m < 8" | m where "n = 24 + m" "m < 8"
      using le_Suc_ex [of 8 n] le_Suc_ex [of 16 n] le_Suc_ex [of 24 n] by (fastforce simp: not_less [symmetric])
    then show "bit (u32_of (le_bytes b)) n = bit b n"
      by cases (simp_all add: u32_of_def read_u32_le_def le_bytes_words bit_simps)
  qed
  show "u64_of (le_bytes c) = c"
  proof (rule bit_eqI)
    fix n assume n: "possible_bit TYPE(u64) n"
    define k m where "k = n div 8" and "m = n mod 8"
    have "n = 8 * k + m" "m < 8" "k < 8" using n by (simp_all add: k_def m_def div_less_iff_less_mult)
    moreover from this have "k = 0 \<or> k = 1 \<or> k = 2 \<or> k = 3 \<or> k = 4 \<or> k = 5 \<or> k = 6 \<or> k = 7" by arith
    ultimately show "bit (u64_of (le_bytes c)) n = bit c n"
      by (elim disjE) (simp_all add: u64_of_def read_u64_le_def le_bytes_words bit_simps)
  qed
qed

end
