(* ===== verification/Enums.thy ===== *)
theory Enums
  imports Prelude
begin

text \<open>
  The center-coded enumerations of \<open>control/enums.rs\<close>, \<open>kernel_types.rs\<close> and
  \<open>kernel_types/init_state.rs\<close>: their variants, discriminants, 16-bit center codes, the
  nearest-center decoder, the strict and the error-correcting decoders. The locale
  \<open>center_coded\<close> states what a code table promises and derives the decoder's correctness
  once; each enumeration is an interpretation of it on its own table.
\<close>

datatype enum_error = EnumValidationError

section \<open>The nearest-center scan\<close>

definition center_step :: "u16 \<Rightarrow> ('a \<times> u16) \<Rightarrow> ('a \<times> u8 \<times> bool) \<Rightarrow> ('a \<times> u8 \<times> bool)" where
  "center_step v entry best =
     (let d = (word_of_nat (count_ones (v XOR snd entry)) :: u8)
      in if d < fst (snd best) then (fst entry, d, v = snd entry) else best)"

definition center_scan :: "('a \<times> u16) list \<Rightarrow> 'a \<Rightarrow> u16 \<Rightarrow> ('a \<times> u8 \<times> bool)" where
  "center_scan codes first v = fold (center_step v) codes (first, 255, False)"

definition strict_of :: "('a \<times> u8 \<times> bool) \<Rightarrow> ('a, enum_error) result" where
  "strict_of r = (if snd (snd r) then Ok (fst r) else Err EnumValidationError)"

definition ecc_of :: "('a \<times> u8 \<times> bool) \<Rightarrow> ('a \<times> u8, enum_error) result" where
  "ecc_of r = (if fst (snd r) \<le> 2 then Ok (fst r, fst (snd r)) else Err EnumValidationError)"

section \<open>Control mode\<close>

datatype control_mode =
  Rate | Attitude | AltitudeHold | PositionHold | VelocityControl | DeviationTracking

definition control_mode_is_valid_discriminant :: "control_mode \<Rightarrow> bool" where
  "control_mode_is_valid_discriminant m \<longleftrightarrow>
     m = Rate \<or> m = Attitude \<or> m = AltitudeHold \<or> m = PositionHold
     \<or> m = VelocityControl \<or> m = DeviationTracking"

definition control_mode_codes :: "(control_mode \<times> u16) list" where
  "control_mode_codes =
     [(Rate, 0x0000), (Attitude, 0x2222), (AltitudeHold, 0x4444), (PositionHold, 0x6666),
      (VelocityControl, 0x8888), (DeviationTracking, 0xAAAA)]"

definition control_mode_decode_center :: "u16 \<Rightarrow> control_mode \<times> u8 \<times> bool" where
  "control_mode_decode_center v = center_scan control_mode_codes Rate v"

fun control_mode_to_code :: "control_mode \<Rightarrow> u16" where
  "control_mode_to_code Rate = 0x0000"
| "control_mode_to_code Attitude = 0x2222"
| "control_mode_to_code AltitudeHold = 0x4444"
| "control_mode_to_code PositionHold = 0x6666"
| "control_mode_to_code VelocityControl = 0x8888"
| "control_mode_to_code DeviationTracking = 0xAAAA"

definition control_mode_try_from_u16 :: "u16 \<Rightarrow> (control_mode, enum_error) result" where
  "control_mode_try_from_u16 v = strict_of (control_mode_decode_center v)"

definition control_mode_try_from_u8 :: "u8 \<Rightarrow> (control_mode, enum_error) result" where
  "control_mode_try_from_u8 v =
     (if v = 0 then Ok Rate else if v = 1 then Ok Attitude else if v = 2 then Ok AltitudeHold
      else if v = 3 then Ok PositionHold else if v = 4 then Ok VelocityControl
      else if v = 5 then Ok DeviationTracking else Err EnumValidationError)"

text \<open>\<open>as u8\<close>\<close>

fun control_mode_disc :: "control_mode \<Rightarrow> u8" where
  "control_mode_disc Rate = 0"
| "control_mode_disc Attitude = 1"
| "control_mode_disc AltitudeHold = 2"
| "control_mode_disc PositionHold = 3"
| "control_mode_disc VelocityControl = 4"
| "control_mode_disc DeviationTracking = 5"

section \<open>Control law\<close>

datatype control_law = Primary | Alternate | Direct | Backup

fun control_law_disc :: "control_law \<Rightarrow> u8" where
  "control_law_disc Primary = 0"
| "control_law_disc Alternate = 1"
| "control_law_disc Direct = 2"
| "control_law_disc Backup = 3"

definition control_law_codes :: "(control_law \<times> u16) list" where
  "control_law_codes =
     [(Primary, 0x0000), (Alternate, 0x5555), (Direct, 0xAAAA), (Backup, 0xFFFF)]"

definition severity :: "control_law \<Rightarrow> u8" where
  "severity l = control_law_disc l"

definition control_law_decode_center :: "u16 \<Rightarrow> control_law \<times> u8 \<times> bool" where
  "control_law_decode_center v = center_scan control_law_codes Primary v"

fun control_law_to_code :: "control_law \<Rightarrow> u16" where
  "control_law_to_code Primary = 0x0000"
| "control_law_to_code Alternate = 0x5555"
| "control_law_to_code Direct = 0xAAAA"
| "control_law_to_code Backup = 0xFFFF"

definition control_law_try_from_with_ecc :: "u16 \<Rightarrow> (control_law \<times> u8, enum_error) result" where
  "control_law_try_from_with_ecc v = ecc_of (control_law_decode_center v)"

definition control_law_try_from_u16 :: "u16 \<Rightarrow> (control_law, enum_error) result" where
  "control_law_try_from_u16 v = strict_of (control_law_decode_center v)"

definition control_law_try_from_u8 :: "u8 \<Rightarrow> (control_law, enum_error) result" where
  "control_law_try_from_u8 v =
     (if v = 0 then Ok Primary else if v = 1 then Ok Alternate else if v = 2 then Ok Direct
      else if v = 3 then Ok Backup else Err EnumValidationError)"

text \<open>The derived \<open>Ord\<close> compares discriminants.\<close>

instantiation control_law :: linorder
begin

definition less_eq_control_law :: "control_law \<Rightarrow> control_law \<Rightarrow> bool" where
  "less_eq_control_law a b \<longleftrightarrow> control_law_disc a \<le> control_law_disc b"

definition less_control_law :: "control_law \<Rightarrow> control_law \<Rightarrow> bool" where
  "less_control_law a b \<longleftrightarrow> control_law_disc a < control_law_disc b"

instance
proof
  fix a b :: control_law
  show "a \<le> b \<Longrightarrow> b \<le> a \<Longrightarrow> a = b"
    by (cases a; cases b) (simp_all add: less_eq_control_law_def word_le_nat_alt)
qed (auto simp: less_eq_control_law_def less_control_law_def)

end

lemma severity_le_iff: "severity a \<le> severity b \<longleftrightarrow> a \<le> b"
  by (simp add: severity_def less_eq_control_law_def)

lemma severity_less_iff: "severity a < severity b \<longleftrightarrow> a < b"
  by (simp add: severity_def less_control_law_def)

lemma control_law_le_Backup [simp]: "l \<le> Backup"
  by (cases l) (simp_all add: less_eq_control_law_def)

lemma Primary_le [simp]: "Primary \<le> l"
  by (cases l) (simp_all add: less_eq_control_law_def)

section \<open>Safety level\<close>

datatype safety_level =
  FlightNormal | FlightMarginal | FlightUrgent | FlightEmergency

definition safety_level_codes :: "(safety_level \<times> u16) list" where
  "safety_level_codes =
     [(FlightNormal, 0x0000),
      (FlightMarginal, 0x5555),
      (FlightUrgent, 0xAAAA),
      (FlightEmergency, 0xFFFF)]"

definition safety_level_decode_center :: "u16 \<Rightarrow> safety_level \<times> u8 \<times> bool" where
  "safety_level_decode_center v = center_scan safety_level_codes FlightNormal v"

fun safety_level_to_code :: "safety_level \<Rightarrow> u16" where
  "safety_level_to_code FlightNormal = 0x0000"
| "safety_level_to_code FlightMarginal = 0x5555"
| "safety_level_to_code FlightUrgent = 0xAAAA"
| "safety_level_to_code FlightEmergency = 0xFFFF"

definition safety_level_try_from_u16 :: "u16 \<Rightarrow> (safety_level, enum_error) result" where
  "safety_level_try_from_u16 v = strict_of (safety_level_decode_center v)"

definition safety_level_try_from_u8 :: "u8 \<Rightarrow> (safety_level, enum_error) result" where
  "safety_level_try_from_u8 v =
     (if v = 0 then Ok FlightNormal
      else if v = 1 then Ok FlightMarginal
      else if v = 2 then Ok FlightUrgent
      else if v = 3 then Ok FlightEmergency else Err EnumValidationError)"

fun safety_level_disc :: "safety_level \<Rightarrow> u8" where
  "safety_level_disc FlightNormal = 0"
| "safety_level_disc FlightMarginal = 1"
| "safety_level_disc FlightUrgent = 2"
| "safety_level_disc FlightEmergency = 3"

section \<open>Command source\<close>

datatype command_source =
  Pilot | Autopilot | Gcs | Failsafe

definition command_source_is_valid_discriminant :: "command_source \<Rightarrow> bool" where
  "command_source_is_valid_discriminant m \<longleftrightarrow> m = Pilot \<or> m = Autopilot \<or> m = Gcs \<or> m = Failsafe"

definition command_source_codes :: "(command_source \<times> u16) list" where
  "command_source_codes =
     [(Pilot, 0x0000),
      (Autopilot, 0x5555),
      (Gcs, 0xAAAA),
      (Failsafe, 0xFFFF)]"

definition command_source_decode_center :: "u16 \<Rightarrow> command_source \<times> u8 \<times> bool" where
  "command_source_decode_center v = center_scan command_source_codes Pilot v"

fun command_source_to_code :: "command_source \<Rightarrow> u16" where
  "command_source_to_code Pilot = 0x0000"
| "command_source_to_code Autopilot = 0x5555"
| "command_source_to_code Gcs = 0xAAAA"
| "command_source_to_code Failsafe = 0xFFFF"

definition command_source_try_from_u16 :: "u16 \<Rightarrow> (command_source, enum_error) result" where
  "command_source_try_from_u16 v = strict_of (command_source_decode_center v)"

definition command_source_try_from_u8 :: "u8 \<Rightarrow> (command_source, enum_error) result" where
  "command_source_try_from_u8 v =
     (if v = 0 then Ok Pilot
      else if v = 1 then Ok Autopilot
      else if v = 2 then Ok Gcs
      else if v = 3 then Ok Failsafe else Err EnumValidationError)"

fun command_source_disc :: "command_source \<Rightarrow> u8" where
  "command_source_disc Pilot = 0"
| "command_source_disc Autopilot = 1"
| "command_source_disc Gcs = 2"
| "command_source_disc Failsafe = 3"

section \<open>Configuration mode\<close>

datatype config_mode =
  Hover | Cruise | Transition | DegradedConfig

definition config_mode_is_valid_discriminant :: "config_mode \<Rightarrow> bool" where
  "config_mode_is_valid_discriminant m \<longleftrightarrow> m = Hover \<or> m = Cruise \<or> m = Transition \<or> m = DegradedConfig"

definition config_mode_codes :: "(config_mode \<times> u16) list" where
  "config_mode_codes =
     [(Hover, 0x0000),
      (Cruise, 0x5555),
      (Transition, 0xAAAA),
      (DegradedConfig, 0xFFFF)]"

definition config_mode_decode_center :: "u16 \<Rightarrow> config_mode \<times> u8 \<times> bool" where
  "config_mode_decode_center v = center_scan config_mode_codes Hover v"

fun config_mode_to_code :: "config_mode \<Rightarrow> u16" where
  "config_mode_to_code Hover = 0x0000"
| "config_mode_to_code Cruise = 0x5555"
| "config_mode_to_code Transition = 0xAAAA"
| "config_mode_to_code DegradedConfig = 0xFFFF"

definition config_mode_try_from_u16 :: "u16 \<Rightarrow> (config_mode, enum_error) result" where
  "config_mode_try_from_u16 v = strict_of (config_mode_decode_center v)"

definition config_mode_try_from_u8 :: "u8 \<Rightarrow> (config_mode, enum_error) result" where
  "config_mode_try_from_u8 v =
     (if v = 0 then Ok Hover
      else if v = 1 then Ok Cruise
      else if v = 2 then Ok Transition
      else if v = 3 then Ok DegradedConfig else Err EnumValidationError)"

fun config_mode_disc :: "config_mode \<Rightarrow> u8" where
  "config_mode_disc Hover = 0"
| "config_mode_disc Cruise = 1"
| "config_mode_disc Transition = 2"
| "config_mode_disc DegradedConfig = 3"

text \<open>\<open>DegradedConfig\<close> is \<open>ConfigMode::Degraded\<close>; the plain name is \<open>ChannelHealthV1::Degraded\<close>.\<close>

section \<open>Channel health\<close>

datatype channel_health =
  Operative | Degraded | Failed | Offline

definition channel_health_codes :: "(channel_health \<times> u16) list" where
  "channel_health_codes =
     [(Operative, 0x0000),
      (Degraded, 0x5555),
      (Failed, 0xAAAA),
      (Offline, 0xFFFF)]"

definition channel_health_decode_center :: "u16 \<Rightarrow> channel_health \<times> u8 \<times> bool" where
  "channel_health_decode_center v = center_scan channel_health_codes Operative v"

fun channel_health_to_code :: "channel_health \<Rightarrow> u16" where
  "channel_health_to_code Operative = 0x0000"
| "channel_health_to_code Degraded = 0x5555"
| "channel_health_to_code Failed = 0xAAAA"
| "channel_health_to_code Offline = 0xFFFF"

definition channel_health_try_from_u16 :: "u16 \<Rightarrow> (channel_health, enum_error) result" where
  "channel_health_try_from_u16 v = strict_of (channel_health_decode_center v)"

definition channel_health_try_from_u8 :: "u8 \<Rightarrow> (channel_health, enum_error) result" where
  "channel_health_try_from_u8 v =
     (if v = 0 then Ok Operative
      else if v = 1 then Ok Degraded
      else if v = 2 then Ok Failed
      else if v = 3 then Ok Offline else Err EnumValidationError)"

fun channel_health_disc :: "channel_health \<Rightarrow> u8" where
  "channel_health_disc Operative = 0"
| "channel_health_disc Degraded = 1"
| "channel_health_disc Failed = 2"
| "channel_health_disc Offline = 3"

section \<open>Initialisation state\<close>

datatype init_state =
  PowerOn | ConfigLoading | SensorInit | EstimatorConverging | PreArm | Ready | Armed | Disarmed | Fault

definition init_state_codes :: "(init_state \<times> u16) list" where
  "init_state_codes =
     [(PowerOn, 0x0000),
      (ConfigLoading, 0x1C71),
      (SensorInit, 0x38E2),
      (EstimatorConverging, 0x5553),
      (PreArm, 0x71C4),
      (Ready, 0x8E35),
      (Armed, 0xAAA6),
      (Disarmed, 0xC717),
      (Fault, 0xE388)]"

definition init_state_decode_center :: "u16 \<Rightarrow> init_state \<times> u8 \<times> bool" where
  "init_state_decode_center v = center_scan init_state_codes PowerOn v"

fun init_state_to_code :: "init_state \<Rightarrow> u16" where
  "init_state_to_code PowerOn = 0x0000"
| "init_state_to_code ConfigLoading = 0x1C71"
| "init_state_to_code SensorInit = 0x38E2"
| "init_state_to_code EstimatorConverging = 0x5553"
| "init_state_to_code PreArm = 0x71C4"
| "init_state_to_code Ready = 0x8E35"
| "init_state_to_code Armed = 0xAAA6"
| "init_state_to_code Disarmed = 0xC717"
| "init_state_to_code Fault = 0xE388"

definition init_state_try_from_u16 :: "u16 \<Rightarrow> (init_state, enum_error) result" where
  "init_state_try_from_u16 v = strict_of (init_state_decode_center v)"

definition init_state_try_from_u8 :: "u8 \<Rightarrow> (init_state, enum_error) result" where
  "init_state_try_from_u8 v =
     (if v = 0 then Ok PowerOn
      else if v = 1 then Ok ConfigLoading
      else if v = 2 then Ok SensorInit
      else if v = 3 then Ok EstimatorConverging
      else if v = 4 then Ok PreArm
      else if v = 5 then Ok Ready
      else if v = 6 then Ok Armed
      else if v = 7 then Ok Disarmed
      else if v = 8 then Ok Fault else Err EnumValidationError)"

fun init_state_disc :: "init_state \<Rightarrow> u8" where
  "init_state_disc PowerOn = 0"
| "init_state_disc ConfigLoading = 1"
| "init_state_disc SensorInit = 2"
| "init_state_disc EstimatorConverging = 3"
| "init_state_disc PreArm = 4"
| "init_state_disc Ready = 5"
| "init_state_disc Armed = 6"
| "init_state_disc Disarmed = 7"
| "init_state_disc Fault = 8"

definition allows_active_control :: "init_state \<Rightarrow> bool" where
  "allows_active_control s = (case s of Armed \<Rightarrow> True | _ \<Rightarrow> False)"

definition forced_control_law :: "init_state \<Rightarrow> control_law option" where
  "forced_control_law s = (if allows_active_control s then None else Some Backup)"

lemma allows_active_control_iff [simp]: "allows_active_control s \<longleftrightarrow> s = Armed"
  by (cases s) (simp_all add: allows_active_control_def)

section \<open>What a code table promises\<close>

lemma center_step_cases:
  obtains "unat (fst (snd best)) > count_ones (v XOR snd entry)"
    "center_step v entry best = (fst entry, word_of_nat (count_ones (v XOR snd entry)), v = snd entry)"
  | "unat (fst (snd best)) \<le> count_ones (v XOR snd entry)" "center_step v entry best = best"
proof -
  have le: "count_ones (v XOR snd entry) \<le> 16"
    using count_ones_le [of "v XOR snd entry"] by simp
  then have "unat (word_of_nat (count_ones (v XOR snd entry)) :: u8) = count_ones (v XOR snd entry)"
    by (simp add: unat_of_nat)
  then show ?thesis
    using that by (cases "count_ones (v XOR snd entry) < unat (fst (snd best))")
      (auto simp: center_step_def Let_def word_less_nat_alt)
qed

lemma center_fold_spec:
  assumes "r = fold (center_step v) cs best"
  shows "(r = best \<or> (\<exists>(e, c) \<in> set cs. r = (e, word_of_nat (count_ones (v XOR c)), v = c)))
    \<and> unat (fst (snd r)) \<le> unat (fst (snd best))
    \<and> (\<forall>(e, c) \<in> set cs. unat (fst (snd r)) \<le> count_ones (v XOR c))"
  using assms
proof (induction cs arbitrary: best)
  case Nil
  then show ?case by simp
next
  case (Cons x cs)
  have u: "unat (word_of_nat (count_ones (v XOR c)) :: u8) = count_ones (v XOR c)" for c
    using count_ones_le [of "v XOR c"] by (simp add: unat_of_nat)
  have IH: "(r = center_step v x best \<or> (\<exists>(e, c) \<in> set cs. r = (e, word_of_nat (count_ones (v XOR c)), v = c)))
    \<and> unat (fst (snd r)) \<le> unat (fst (snd (center_step v x best)))
    \<and> (\<forall>(e, c) \<in> set cs. unat (fst (snd r)) \<le> count_ones (v XOR c))"
    using Cons.IH [of "center_step v x best"] Cons.prems by simp
  show ?case
  proof (cases rule: center_step_cases [where v = v and best = best and entry = x])
    case 1
    with IH show ?thesis by (cases x) (auto simp: u)
  next
    case 2
    with IH show ?thesis by (cases x) auto
  qed
qed

lemma center_scan_nearest:
  assumes "codes \<noteq> []"
  obtains e c where "(e, c) \<in> set codes"
    "center_scan codes first v = (e, word_of_nat (count_ones (v XOR c)), v = c)"
    "\<And>e' c'. (e', c') \<in> set codes \<Longrightarrow> count_ones (v XOR c) \<le> count_ones (v XOR c')"
proof -
  define r where "r = fold (center_step v) codes (first, 255, False)"
  note spec = center_fold_spec [OF r_def]
  have u: "unat (word_of_nat (count_ones (v XOR c)) :: u8) = count_ones (v XOR c)" for c
    using count_ones_le [of "v XOR c"] by (simp add: unat_of_nat)
  obtain e0 c0 where "(e0, c0) \<in> set codes" using assms by (cases codes) auto
  then have "unat (fst (snd r)) \<le> 16"
    using spec count_ones_le [of "v XOR c0"] by fastforce
  then have "r \<noteq> (first, 255, False)" by auto
  then obtain e c where ec: "(e, c) \<in> set codes" "r = (e, word_of_nat (count_ones (v XOR c)), v = c)"
    using spec by auto
  moreover have "count_ones (v XOR c) \<le> count_ones (v XOR c')" if "(e', c') \<in> set codes" for e' c'
  proof -
    have "unat (fst (snd r)) \<le> count_ones (v XOR c')" using spec that by blast
    then show ?thesis by (simp add: ec(2) u)
  qed
  ultimately show ?thesis using that by (simp add: center_scan_def r_def)
qed

locale center_coded =
  fixes codes :: "('a \<times> u16) list" and first :: 'a and to_code :: "'a \<Rightarrow> u16" and dmin :: nat
  assumes table: "(e, c) \<in> set codes \<longleftrightarrow> c = to_code e"
    and distance: "e \<noteq> e' \<Longrightarrow> dmin \<le> count_ones (to_code e XOR to_code e')"
    and positive: "0 < dmin"
begin

lemma nearest:
  obtains e where "center_scan codes first v = (e, word_of_nat (count_ones (v XOR to_code e)), v = to_code e)"
    "\<And>e'. count_ones (v XOR to_code e) \<le> count_ones (v XOR to_code e')"
proof -
  have "codes \<noteq> []" using table by (metis empty_iff list.set(1))
  then obtain e c where ec: "(e, c) \<in> set codes"
    "center_scan codes first v = (e, word_of_nat (count_ones (v XOR c)), v = c)"
    "\<And>e' c'. (e', c') \<in> set codes \<Longrightarrow> count_ones (v XOR c) \<le> count_ones (v XOR c')"
    by (rule center_scan_nearest [where first = first and v = v]) simp
  have "c = to_code e" using ec(1) by (simp add: table)
  then show ?thesis using ec(2,3) table by (intro that) simp_all
qed

lemma corrects:
  assumes "2 * count_ones (v XOR to_code e) < dmin"
  shows "center_scan codes first v = (e, word_of_nat (count_ones (v XOR to_code e)), v = to_code e)"
proof -
  obtain n where n: "center_scan codes first v = (n, word_of_nat (count_ones (v XOR to_code n)), v = to_code n)"
    "\<And>e'. count_ones (v XOR to_code n) \<le> count_ones (v XOR to_code e')"
    using nearest [of v] by blast
  have "n = e"
  proof (rule ccontr)
    assume "n \<noteq> e"
    then have "dmin \<le> count_ones (to_code n XOR to_code e)" by (rule distance)
    also have "\<dots> \<le> count_ones (to_code n XOR v) + count_ones (v XOR to_code e)"
      by (rule count_ones_xor_triangle)
    also have "\<dots> \<le> 2 * count_ones (v XOR to_code e)"
      using n(2) [of e] by (simp add: count_ones_xor_commute [of "to_code n"])
    finally show False using assms by simp
  qed
  with n show ?thesis by simp
qed

lemma decode_to_code: "center_scan codes first (to_code e) = (e, 0, True)"
  using corrects [of "to_code e" e] positive by simp

lemma to_code_inj: "to_code e = to_code e' \<longleftrightarrow> e = e'"
  using decode_to_code by (metis fst_conv)

lemma strict_Ok_iff: "strict_of (center_scan codes first v) = Ok e \<longleftrightarrow> v = to_code e"
proof -
  obtain n where n: "center_scan codes first v = (n, word_of_nat (count_ones (v XOR to_code n)), v = to_code n)"
    using nearest [of v] by blast
  show ?thesis
  proof (cases "v = to_code n")
    case True
    then show ?thesis by (simp add: decode_to_code strict_of_def to_code_inj)
  next
    case False
    then have "v \<noteq> to_code e" using n decode_to_code [of e] by auto
    with False show ?thesis by (simp add: n strict_of_def)
  qed
qed

lemma ecc_Ok_iff:
  assumes "5 \<le> dmin"
  shows "ecc_of (center_scan codes first v) = Ok (e, d) \<longleftrightarrow>
    count_ones (v XOR to_code e) \<le> 2 \<and> unat d = count_ones (v XOR to_code e)"
proof -
  obtain n where n: "center_scan codes first v = (n, word_of_nat (count_ones (v XOR to_code n)), v = to_code n)"
    "\<And>e'. count_ones (v XOR to_code n) \<le> count_ones (v XOR to_code e')"
    using nearest [of v] by blast
  have u: "unat (word_of_nat (count_ones (v XOR to_code n)) :: u8) = count_ones (v XOR to_code n)"
    using count_ones_le [of "v XOR to_code n"] by (simp add: unat_of_nat)
  have "e = n" if "count_ones (v XOR to_code e) \<le> 2"
    using corrects [of v e] that assms n(1) by simp
  with n u show ?thesis
    by (auto simp: ecc_of_def word_le_nat_alt word_unat_eq_iff)
qed

end

section \<open>The seven tables\<close>

lemmas code_table_defs =
  control_mode_codes_def
  control_law_codes_def
  safety_level_codes_def
  command_source_codes_def
  config_mode_codes_def
  channel_health_codes_def
  init_state_codes_def

lemmas decode_center_defs =
  control_mode_decode_center_def
  control_law_decode_center_def
  safety_level_decode_center_def
  command_source_decode_center_def
  config_mode_decode_center_def
  channel_health_decode_center_def
  init_state_decode_center_def

lemmas try_from_u16_defs =
  control_mode_try_from_u16_def
  control_law_try_from_u16_def
  safety_level_try_from_u16_def
  command_source_try_from_u16_def
  config_mode_try_from_u16_def
  channel_health_try_from_u16_def
  init_state_try_from_u16_def

interpretation mode_codes: center_coded control_mode_codes Rate control_mode_to_code 4
proof
  show "(e, c) \<in> set control_mode_codes \<longleftrightarrow> c = control_mode_to_code e" for e c
    by (cases e) (auto simp: control_mode_codes_def)
  show "e \<noteq> e' \<Longrightarrow> 4 \<le> count_ones (control_mode_to_code e XOR control_mode_to_code e')" for e e'
    by (cases e; cases e') (simp_all add: count_ones_def upt_rec)
qed simp

interpretation law_codes: center_coded control_law_codes Primary control_law_to_code 8
proof
  show "(e, c) \<in> set control_law_codes \<longleftrightarrow> c = control_law_to_code e" for e c
    by (cases e) (auto simp: control_law_codes_def)
  show "e \<noteq> e' \<Longrightarrow> 8 \<le> count_ones (control_law_to_code e XOR control_law_to_code e')" for e e'
    by (cases e; cases e') (simp_all add: count_ones_def upt_rec)
qed simp

interpretation safety_codes: center_coded safety_level_codes FlightNormal safety_level_to_code 8
proof
  show "(e, c) \<in> set safety_level_codes \<longleftrightarrow> c = safety_level_to_code e" for e c
    by (cases e) (auto simp: safety_level_codes_def)
  show "e \<noteq> e' \<Longrightarrow> 8 \<le> count_ones (safety_level_to_code e XOR safety_level_to_code e')" for e e'
    by (cases e; cases e') (simp_all add: count_ones_def upt_rec)
qed simp

interpretation source_codes: center_coded command_source_codes Pilot command_source_to_code 8
proof
  show "(e, c) \<in> set command_source_codes \<longleftrightarrow> c = command_source_to_code e" for e c
    by (cases e) (auto simp: command_source_codes_def)
  show "e \<noteq> e' \<Longrightarrow> 8 \<le> count_ones (command_source_to_code e XOR command_source_to_code e')" for e e'
    by (cases e; cases e') (simp_all add: count_ones_def upt_rec)
qed simp

interpretation config_codes: center_coded config_mode_codes Hover config_mode_to_code 8
proof
  show "(e, c) \<in> set config_mode_codes \<longleftrightarrow> c = config_mode_to_code e" for e c
    by (cases e) (auto simp: config_mode_codes_def)
  show "e \<noteq> e' \<Longrightarrow> 8 \<le> count_ones (config_mode_to_code e XOR config_mode_to_code e')" for e e'
    by (cases e; cases e') (simp_all add: count_ones_def upt_rec)
qed simp

interpretation health_codes: center_coded channel_health_codes Operative channel_health_to_code 8
proof
  show "(e, c) \<in> set channel_health_codes \<longleftrightarrow> c = channel_health_to_code e" for e c
    by (cases e) (auto simp: channel_health_codes_def)
  show "e \<noteq> e' \<Longrightarrow> 8 \<le> count_ones (channel_health_to_code e XOR channel_health_to_code e')" for e e'
    by (cases e; cases e') (simp_all add: count_ones_def upt_rec)
qed simp

interpretation init_codes: center_coded init_state_codes PowerOn init_state_to_code 5
proof
  show "(e, c) \<in> set init_state_codes \<longleftrightarrow> c = init_state_to_code e" for e c
    by (cases e) (auto simp: init_state_codes_def)
  show "e \<noteq> e' \<Longrightarrow> 5 \<le> count_ones (init_state_to_code e XOR init_state_to_code e')" for e e'
    by (cases e; cases e') (simp_all add: count_ones_def upt_rec)
qed simp


section \<open>Discriminants\<close>

lemma control_mode_try_from_u8_iff: "control_mode_try_from_u8 b = Ok m \<longleftrightarrow> control_mode_disc m = b"
  by (cases m) (auto simp: control_mode_try_from_u8_def)

lemma control_mode_disc_inj: "control_mode_disc a = control_mode_disc b \<longleftrightarrow> a = b"
  using control_mode_try_from_u8_iff by (metis Inr_inject)

lemma control_law_try_from_u8_iff: "control_law_try_from_u8 b = Ok l \<longleftrightarrow> control_law_disc l = b"
  by (cases l) (auto simp: control_law_try_from_u8_def)

lemma control_law_disc_inj: "control_law_disc a = control_law_disc b \<longleftrightarrow> a = b"
  using control_law_try_from_u8_iff by (metis Inr_inject)

lemma safety_level_try_from_u8_iff: "safety_level_try_from_u8 b = Ok s \<longleftrightarrow> safety_level_disc s = b"
  by (cases s) (auto simp: safety_level_try_from_u8_def)

lemma safety_level_disc_inj: "safety_level_disc a = safety_level_disc b \<longleftrightarrow> a = b"
  using safety_level_try_from_u8_iff by (metis Inr_inject)

lemma command_source_try_from_u8_iff: "command_source_try_from_u8 b = Ok src \<longleftrightarrow> command_source_disc src = b"
  by (cases src) (auto simp: command_source_try_from_u8_def)

lemma command_source_disc_inj: "command_source_disc a = command_source_disc b \<longleftrightarrow> a = b"
  using command_source_try_from_u8_iff by (metis Inr_inject)

lemma config_mode_try_from_u8_iff: "config_mode_try_from_u8 b = Ok cm \<longleftrightarrow> config_mode_disc cm = b"
  by (cases cm) (auto simp: config_mode_try_from_u8_def)

lemma config_mode_disc_inj: "config_mode_disc a = config_mode_disc b \<longleftrightarrow> a = b"
  using config_mode_try_from_u8_iff by (metis Inr_inject)

lemma channel_health_try_from_u8_iff: "channel_health_try_from_u8 b = Ok h \<longleftrightarrow> channel_health_disc h = b"
  by (cases h) (auto simp: channel_health_try_from_u8_def)

lemma channel_health_disc_inj: "channel_health_disc a = channel_health_disc b \<longleftrightarrow> a = b"
  using channel_health_try_from_u8_iff by (metis Inr_inject)

lemma init_state_try_from_u8_iff: "init_state_try_from_u8 b = Ok st \<longleftrightarrow> init_state_disc st = b"
  by (cases st) (auto simp: init_state_try_from_u8_def)

lemma init_state_disc_inj: "init_state_disc a = init_state_disc b \<longleftrightarrow> a = b"
  using init_state_try_from_u8_iff by (metis Inr_inject)

lemmas try_from_u8_iffs =
  control_mode_try_from_u8_iff
  control_law_try_from_u8_iff
  safety_level_try_from_u8_iff
  command_source_try_from_u8_iff
  config_mode_try_from_u8_iff
  channel_health_try_from_u8_iff
  init_state_try_from_u8_iff

section \<open>Properties\<close>

text \<open>strict decoding of a 16-bit center code accepts exactly the code of a variant and
  returns that variant, in every enumeration; any other word is an error.\<close>

lemma strict_decode_exact:
  "(control_mode_try_from_u16 v = Ok m \<longleftrightarrow> v = control_mode_to_code m)
   \<and> (control_law_try_from_u16 v = Ok l \<longleftrightarrow> v = control_law_to_code l)
   \<and> (safety_level_try_from_u16 v = Ok s \<longleftrightarrow> v = safety_level_to_code s)
   \<and> (command_source_try_from_u16 v = Ok src \<longleftrightarrow> v = command_source_to_code src)
   \<and> (config_mode_try_from_u16 v = Ok cm \<longleftrightarrow> v = config_mode_to_code cm)
   \<and> (channel_health_try_from_u16 v = Ok h \<longleftrightarrow> v = channel_health_to_code h)
   \<and> (init_state_try_from_u16 v = Ok st \<longleftrightarrow> v = init_state_to_code st)"
  unfolding try_from_u16_defs decode_center_defs
  by (intro conjI mode_codes.strict_Ok_iff law_codes.strict_Ok_iff safety_codes.strict_Ok_iff source_codes.strict_Ok_iff config_codes.strict_Ok_iff health_codes.strict_Ok_iff init_codes.strict_Ok_iff)

text \<open>The error-correcting decoder of the control law returns a law and a distance
  exactly when the word is within two bit flips of that law's code, and the distance is the
  number of flipped bits; beyond two flips it reports an error rather than a guess.\<close>

theorem control_law_ecc_exact:
  "control_law_try_from_with_ecc v = Ok (l, d) \<longleftrightarrow>
     count_ones (v XOR control_law_to_code l) \<le> 2
     \<and> unat d = count_ones (v XOR control_law_to_code l)"
  unfolding control_law_try_from_with_ecc_def control_law_decode_center_def
  by (rule law_codes.ecc_Ok_iff) simp

text \<open>nearest-center decoding survives bit flips: up to one flip on a control mode and up
  to two on an initialisation state (three on the four-variant tables) still decode to the
  transmitted variant, with the number of flips as the reported distance.\<close>

lemma nearest_decode_corrects:
  "(count_ones (v XOR control_mode_to_code m) \<le> 1 \<longrightarrow> fst (control_mode_decode_center v) = m)
   \<and> (count_ones (v XOR init_state_to_code st) \<le> 2 \<longrightarrow> fst (init_state_decode_center v) = st)
   \<and> (count_ones (v XOR control_law_to_code l) \<le> 3 \<longrightarrow> fst (control_law_decode_center v) = l)
   \<and> (count_ones (v XOR channel_health_to_code h) \<le> 3 \<longrightarrow> fst (channel_health_decode_center v) = h)"
  unfolding decode_center_defs
  using mode_codes.corrects [of v m] init_codes.corrects [of v st]
    law_codes.corrects [of v l] health_codes.corrects [of v h]
  by auto

lemma nearest_decode_corrects_witness:
  "fst (control_mode_decode_center 0x2223) = Attitude
   \<and> fst (init_state_decode_center 0xAAA5) = Armed
   \<and> fst (control_law_decode_center 0x5552) = Alternate
   \<and> fst (channel_health_decode_center 0xFFF1) = Offline"
  using nearest_decode_corrects [of "0x2223" Attitude Armed Alternate Offline]
    nearest_decode_corrects [of "0xAAA5" Attitude Armed Alternate Offline]
    nearest_decode_corrects [of "0x5552" Attitude Armed Alternate Offline]
    nearest_decode_corrects [of "0xFFF1" Attitude Armed Alternate Offline]
  by (simp add: count_ones_def upt_rec)

text \<open>The discriminant decoder inverts the discriminant: a byte decodes to a variant
  exactly when it is that variant's discriminant.\<close>

theorem discriminant_roundtrip:
  "(control_mode_try_from_u8 b = Ok m \<longleftrightarrow> control_mode_disc m = b)
   \<and> (control_law_try_from_u8 b = Ok l \<longleftrightarrow> control_law_disc l = b)
   \<and> (safety_level_try_from_u8 b = Ok s \<longleftrightarrow> safety_level_disc s = b)
   \<and> (command_source_try_from_u8 b = Ok src \<longleftrightarrow> command_source_disc src = b)
   \<and> (config_mode_try_from_u8 b = Ok cm \<longleftrightarrow> config_mode_disc cm = b)
   \<and> (channel_health_try_from_u8 b = Ok h \<longleftrightarrow> channel_health_disc h = b)
   \<and> (init_state_try_from_u8 b = Ok st \<longleftrightarrow> init_state_disc st = b)"
  by (simp add: try_from_u8_iffs)

end
