(* ===== verification/Domain.thy ===== *)
theory Domain
  imports Enums F32
begin

text \<open>
  The data the kernel exchanges every cycle: fault flags and the fault table
  (\<open>fault.rs\<close>), sensor readings (\<open>sensor.rs\<close>), time (\<open>time.rs\<close>), the state estimate
  (\<open>state.rs\<close>), quaternions (\<open>math.rs\<close>), setpoints, commands and limits (\<open>control.rs\<close>).

  A unit newtype of the source (\<open>Meters(f32)\<close>, \<open>Normalized(f32)\<close>, ...) is its scalar. The
  transcendental functions of the external \<open>libm\<close> are a record of functions that every
  definition using them takes as a parameter.
\<close>

named_theorems fault_bits \<open>definitions of the fault bits\<close>
named_theorems state_bits \<open>definitions of the validity bits\<close>

section \<open>Scalars, arrays and external functions\<close>

type_synonym vec3 = "f32 \<times> f32 \<times> f32"

fun ix0 :: "'a \<times> 'a \<times> 'a \<Rightarrow> 'a" where "ix0 (x, y, z) = x"
fun ix1 :: "'a \<times> 'a \<times> 'a \<Rightarrow> 'a" where "ix1 (x, y, z) = y"
fun ix2 :: "'a \<times> 'a \<times> 'a \<Rightarrow> 'a" where "ix2 (x, y, z) = z"

definition sanitize_or_default :: "f32 \<Rightarrow> f32 \<Rightarrow> f32" where
  "sanitize_or_default x d = (if f32_is_finite x then x else d)"

record libm =
  sqrtf :: "f32 \<Rightarrow> f32"
  sinf :: "f32 \<Rightarrow> f32"
  cosf :: "f32 \<Rightarrow> f32"
  asinf :: "f32 \<Rightarrow> f32"
  atan2f :: "f32 \<Rightarrow> f32 \<Rightarrow> f32"

text \<open>A concrete instance for evaluated examples: the small-angle approximations.\<close>

definition small_angle_libm :: libm where
  "small_angle_libm =
     \<lparr>sqrtf = (\<lambda>x. x), sinf = (\<lambda>x. x), cosf = (\<lambda>x. 0x3F800000), asinf = (\<lambda>x. x),
      atan2f = (\<lambda>y x. y)\<rparr>"

abbreviation f0 :: f32 where "f0 \<equiv> 0"
abbreviation f1 :: f32 where "f1 \<equiv> 0x3F800000"
abbreviation f2 :: f32 where "f2 \<equiv> 0x40000000"
abbreviation f_half :: f32 where "f_half \<equiv> 0x3F000000"

section \<open>Faults\<close>

datatype fault_category =
  ImuFailed | ImuAllFailed | GnssLost | GnssAllLost | BaroFailed | MagFailed | AirspeedFailed
| ActuatorFailed | ActuatorSaturated | ActuatorDisagreement | ActuatorNumericError
| ActuatorFallbackPersistent
| EstimatorDiverged | AttitudeUncertain | PositionUncertain | NumericError
| CommandTimeoutFault | CommandInvalid | TimingViolationFault | TimingViolationPersistent
| ConfigInvalid | ConfigTransitionFailed
| MemoryError | EnumInvalid

text \<open>
  \<open>CommandTimeoutFault\<close> and \<open>TimingViolationFault\<close> are \<open>FaultCategory::CommandTimeout\<close> and
  \<open>FaultCategory::TimingViolation\<close>; the plain names are the degradation reasons.
\<close>

type_synonym fault_flags = u64

definition IMU0_FAILED :: u64 where
  [fault_bits]: "IMU0_FAILED = flag 0"

definition IMU1_FAILED :: u64 where
  [fault_bits]: "IMU1_FAILED = flag 1"

definition IMU2_FAILED :: u64 where
  [fault_bits]: "IMU2_FAILED = flag 2"

definition ALL_IMU_FAILED :: u64 where
  [fault_bits]: "ALL_IMU_FAILED = flag 3"

definition GNSS0_LOST :: u64 where
  [fault_bits]: "GNSS0_LOST = flag 4"

definition GNSS1_LOST :: u64 where
  [fault_bits]: "GNSS1_LOST = flag 5"

definition ALL_GNSS_LOST :: u64 where
  [fault_bits]: "ALL_GNSS_LOST = flag 6"

definition BARO_FAILED :: u64 where
  [fault_bits]: "BARO_FAILED = flag 7"

definition MAG_FAILED :: u64 where
  [fault_bits]: "MAG_FAILED = flag 8"

definition AIRSPEED_FAILED :: u64 where
  [fault_bits]: "AIRSPEED_FAILED = flag 9"

definition ATTITUDE_LOST :: u64 where
  [fault_bits]: "ATTITUDE_LOST = flag 10"

definition IMU_DEGRADED :: u64 where
  [fault_bits]: "IMU_DEGRADED = flag 11"

definition POSITION_LOST :: u64 where
  [fault_bits]: "POSITION_LOST = flag 12"

definition VELOCITY_LOST :: u64 where
  [fault_bits]: "VELOCITY_LOST = flag 13"

definition BARO_DEGRADED :: u64 where
  [fault_bits]: "BARO_DEGRADED = flag 14"

definition ENVELOPE_VIOLATION :: u64 where
  [fault_bits]: "ENVELOPE_VIOLATION = flag 15"

definition ACTUATOR_FAULT :: u64 where
  [fault_bits]: "ACTUATOR_FAULT = flag 16"

definition ACTUATOR_NUMERIC :: u64 where
  [fault_bits]: "ACTUATOR_NUMERIC = flag 17"

definition ACTUATOR_FALLBACK :: u64 where
  [fault_bits]: "ACTUATOR_FALLBACK = flag 18"

definition ESTIMATOR_DIVERGED :: u64 where
  [fault_bits]: "ESTIMATOR_DIVERGED = flag 24"

definition ATTITUDE_UNCERTAIN :: u64 where
  [fault_bits]: "ATTITUDE_UNCERTAIN = flag 25"

definition POSITION_UNCERTAIN :: u64 where
  [fault_bits]: "POSITION_UNCERTAIN = flag 26"

definition NUMERIC_ERROR :: u64 where
  [fault_bits]: "NUMERIC_ERROR = flag 27"

definition COMMAND_TIMEOUT :: u64 where
  [fault_bits]: "COMMAND_TIMEOUT = flag 32"

definition COMMAND_INVALID :: u64 where
  [fault_bits]: "COMMAND_INVALID = flag 33"

definition RC_LOST :: u64 where
  [fault_bits]: "RC_LOST = flag 34"

definition TIMING_VIOLATION :: u64 where
  [fault_bits]: "TIMING_VIOLATION = flag 40"

definition TIMING_PERSISTENT :: u64 where
  [fault_bits]: "TIMING_PERSISTENT = flag 41"

definition CONFIG_INVALID :: u64 where
  [fault_bits]: "CONFIG_INVALID = flag 48"

definition CONFIG_TRANSITION_FAILED :: u64 where
  [fault_bits]: "CONFIG_TRANSITION_FAILED = flag 49"

definition MEMORY_ERROR :: u64 where
  [fault_bits]: "MEMORY_ERROR = flag 56"

definition ENUM_INVALID :: u64 where
  [fault_bits]: "ENUM_INVALID = flag 57"

text \<open>\<open>CRITICAL_FAULTS\<close>\<close>

definition critical_faults :: fault_flags where
  "critical_faults = ALL_IMU_FAILED OR NUMERIC_ERROR OR ESTIMATOR_DIVERGED"

datatype fault_action = Monitor | Isolate | Degrade | Emergency

record fault_response =
  fr_fault :: fault_category
  fr_action :: fault_action
  fr_degrade_to :: "control_law option"
  fr_max_response_time_ms :: u32

type_synonym fault_table = "fault_response list"

definition default_fault_table :: fault_table where
  "default_fault_table =
     [\<lparr>fr_fault = ImuFailed, fr_action = Isolate, fr_degrade_to = None,
        fr_max_response_time_ms = 10\<rparr>,
      \<lparr>fr_fault = ImuAllFailed, fr_action = Emergency, fr_degrade_to = Some Backup,
        fr_max_response_time_ms = 0\<rparr>,
      \<lparr>fr_fault = GnssAllLost, fr_action = Degrade, fr_degrade_to = Some Alternate,
        fr_max_response_time_ms = 100\<rparr>,
      \<lparr>fr_fault = EstimatorDiverged, fr_action = Degrade, fr_degrade_to = Some Alternate,
        fr_max_response_time_ms = 10\<rparr>,
      \<lparr>fr_fault = NumericError, fr_action = Emergency, fr_degrade_to = Some Backup,
        fr_max_response_time_ms = 0\<rparr>,
      \<lparr>fr_fault = CommandTimeoutFault, fr_action = Degrade, fr_degrade_to = Some Alternate,
        fr_max_response_time_ms = 100\<rparr>,
      \<lparr>fr_fault = ActuatorNumericError, fr_action = Monitor, fr_degrade_to = None,
        fr_max_response_time_ms = 0\<rparr>,
      \<lparr>fr_fault = ActuatorFallbackPersistent, fr_action = Degrade, fr_degrade_to = Some Alternate,
        fr_max_response_time_ms = 10\<rparr>,
      \<lparr>fr_fault = ConfigTransitionFailed, fr_action = Degrade, fr_degrade_to = Some Alternate,
        fr_max_response_time_ms = 0\<rparr>,
      \<lparr>fr_fault = TimingViolationPersistent, fr_action = Degrade, fr_degrade_to = Some Alternate,
        fr_max_response_time_ms = 50\<rparr>]"

section \<open>Time\<close>

datatype time_source = Internal | Gps | Ptp

record timestamp =
  ts_ticks :: u64
  ts_source :: time_source

definition timestamp_default :: timestamp where
  "timestamp_default = \<lparr>ts_ticks = 0, ts_source = Internal\<rparr>"

record time_delta =
  dt_sec :: f32
  tick_delta :: u64

definition as_micros :: "time_delta \<Rightarrow> u64" where
  "as_micros dt = tick_delta dt"

section \<open>Quaternions\<close>

record quaternion =
  q_w :: f32
  q_x :: f32
  q_y :: f32
  q_z :: f32

definition quat_identity :: quaternion where
  "quat_identity = \<lparr>q_w = f1, q_x = f0, q_y = f0, q_z = f0\<rparr>"

definition quat_norm_sq :: "quaternion \<Rightarrow> f32" where
  "quat_norm_sq q =
     f32_add (f32_add (f32_add (f32_mul (q_w q) (q_w q)) (f32_mul (q_x q) (q_x q)))
       (f32_mul (q_y q) (q_y q))) (f32_mul (q_z q) (q_z q))"

definition quat_norm_eps :: f32 where
  "quat_norm_eps = f32_lit 1 10000"

definition quat_is_normalized :: "quaternion \<Rightarrow> f32 \<Rightarrow> bool" where
  "quat_is_normalized q epsilon =
     (let n = quat_norm_sq q
      in if \<not> f32_is_finite n then False
         else f32_lt (f32_abs (f32_sub n f1)) epsilon)"

definition quat_normalize :: "libm \<Rightarrow> quaternion \<Rightarrow> quaternion" where
  "quat_normalize M q =
     (let n = sqrtf M (quat_norm_sq q)
      in if f32_lt (f32_lit 1 1000000) n \<and> f32_is_finite n
         then \<lparr>q_w = f32_div (q_w q) n, q_x = f32_div (q_x q) n,
                q_y = f32_div (q_y q) n, q_z = f32_div (q_z q) n\<rparr>
         else quat_identity)"

definition quat_mul :: "quaternion \<Rightarrow> quaternion \<Rightarrow> quaternion" where
  "quat_mul a b =
     \<lparr>q_w = f32_sub (f32_sub (f32_sub (f32_mul (q_w a) (q_w b)) (f32_mul (q_x a) (q_x b)))
              (f32_mul (q_y a) (q_y b))) (f32_mul (q_z a) (q_z b)),
      q_x = f32_sub (f32_add (f32_add (f32_mul (q_w a) (q_x b)) (f32_mul (q_x a) (q_w b)))
              (f32_mul (q_y a) (q_z b))) (f32_mul (q_z a) (q_y b)),
      q_y = f32_add (f32_add (f32_sub (f32_mul (q_w a) (q_y b)) (f32_mul (q_x a) (q_z b)))
              (f32_mul (q_y a) (q_w b))) (f32_mul (q_z a) (q_x b)),
      q_z = f32_add (f32_sub (f32_add (f32_mul (q_w a) (q_z b)) (f32_mul (q_x a) (q_y b)))
              (f32_mul (q_y a) (q_x b))) (f32_mul (q_z a) (q_w b))\<rparr>"

definition quat_from_axis_angle :: "libm \<Rightarrow> vec3 \<Rightarrow> f32 \<Rightarrow> quaternion" where
  "quat_from_axis_angle M axis angle =
     (let half_angle = f32_mul angle f_half; s = sinf M half_angle
      in \<lparr>q_w = cosf M half_angle, q_x = f32_mul (ix0 axis) s,
           q_y = f32_mul (ix1 axis) s, q_z = f32_mul (ix2 axis) s\<rparr>)"

text \<open>\<open>core::f32::consts::FRAC_PI_2\<close> is the pattern \<open>0x3FC90FDB\<close>.\<close>

definition quat_to_euler :: "libm \<Rightarrow> quaternion \<Rightarrow> f32 \<times> f32 \<times> f32" where
  "quat_to_euler M q =
     (let sinr_cosp = f32_mul f2 (f32_add (f32_mul (q_w q) (q_x q)) (f32_mul (q_y q) (q_z q)));
          cosr_cosp = f32_sub f1
            (f32_mul f2 (f32_add (f32_mul (q_x q) (q_x q)) (f32_mul (q_y q) (q_y q))));
          roll = atan2f M sinr_cosp cosr_cosp;
          sinp = f32_mul f2 (f32_sub (f32_mul (q_w q) (q_y q)) (f32_mul (q_z q) (q_x q)));
          pitch = (if f32_le f1 (f32_abs sinp)
                   then (if f32_lt f0 sinp then 0x3FC90FDB else f32_neg 0x3FC90FDB)
                   else asinf M sinp);
          siny_cosp = f32_mul f2 (f32_add (f32_mul (q_w q) (q_z q)) (f32_mul (q_x q) (q_y q)));
          cosy_cosp = f32_sub f1
            (f32_mul f2 (f32_add (f32_mul (q_y q) (q_y q)) (f32_mul (q_z q) (q_z q))));
          yaw = atan2f M siny_cosp cosy_cosp
      in (roll, pitch, yaw))"

section \<open>State estimate\<close>

type_synonym state_valid_flags = u8

definition ATTITUDE :: state_valid_flags where
  [state_bits]: "ATTITUDE = flag 0"

definition ANGULAR_RATE :: state_valid_flags where
  [state_bits]: "ANGULAR_RATE = flag 1"

definition POSITION :: state_valid_flags where
  [state_bits]: "POSITION = flag 2"

definition VELOCITY :: state_valid_flags where
  [state_bits]: "VELOCITY = flag 3"

datatype estimate_quality = GoodQuality | DegradedQuality | Unusable

record state_estimate =
  attitude :: quaternion
  angular_velocity :: vec3
  position_ned :: vec3
  velocity_ned :: vec3
  quality :: estimate_quality
  valid_flags :: state_valid_flags

definition state_estimate_default :: state_estimate where
  "state_estimate_default =
     \<lparr>attitude = quat_identity, angular_velocity = (f0, f0, f0), position_ned = (f0, f0, f0),
      velocity_ned = (f0, f0, f0), quality = Unusable, valid_flags = 0\<rparr>"

section \<open>Sensors\<close>

datatype sensor_health = SensorGood | SensorDegraded | SensorFailed | NotAvailable

record 'a sensor_reading =
  rd_value :: 'a
  rd_valid :: bool
  rd_source_id :: u8
  rd_timestamp :: timestamp
  rd_health :: sensor_health

record imu_data =
  accel :: vec3
  gyro :: vec3

datatype gnss_fix = NoFix | TwoD | ThreeD | RtkFloat | RtkFixed

datatype gnss_health = GnssGood | Suspect | Lost

record gnss_data =
  gnss_position_ned :: vec3
  gnss_velocity_ned :: vec3
  gnss_fix_type :: gnss_fix
  gnss_health_state :: gnss_health

record mag_data =
  field_ut :: vec3

record air_data =
  static_pressure :: "f32 option"
  dynamic_pressure :: "f32 option"
  total_pressure :: "f32 option"
  temperature :: "f32 option"
  indicated_airspeed :: "f32 option"
  true_airspeed :: "f32 option"

record baro_data =
  baro_altitude :: "f32 option"
  baro_air :: air_data

record airspeed_data =
  airspeed_air :: air_data

datatype geomagnetic_source = Model | Configured

record geomagnetic_reference =
  declination :: f32
  geo_source :: geomagnetic_source

record geometry_state =
  geometry_valid :: bool

record sensor_set =
  imus :: "imu_data sensor_reading list"
  gnss :: "gnss_data sensor_reading list"
  mags :: "mag_data sensor_reading list"
  baros :: "baro_data sensor_reading list"
  airspeeds :: "airspeed_data sensor_reading list"
  geometry :: "geometry_state option"
  geomagnetic :: "geomagnetic_reference option"

text \<open>\<open>iter().any(|s| s.valid && s.health == SensorHealth::Good)\<close>\<close>

definition any_good :: "'a sensor_reading list \<Rightarrow> bool" where
  "any_good rs \<longleftrightarrow> (\<exists>r \<in> set rs. rd_valid r \<and> rd_health r = SensorGood)"

section \<open>Commands\<close>

record setpoint =
  sp_attitude :: "quaternion option"
  sp_angular_rate :: "vec3 option"
  sp_altitude :: "f32 option"
  sp_vertical_speed :: "f32 option"
  sp_heading :: "f32 option"
  sp_position :: "vec3 option"
  sp_velocity :: "vec3 option"
  sp_lateral_deviation :: "f32 option"
  sp_vertical_deviation :: "f32 option"
  sp_collective_thrust :: f32

definition setpoint_default :: setpoint where
  "setpoint_default =
     \<lparr>sp_attitude = None, sp_angular_rate = None, sp_altitude = None, sp_vertical_speed = None,
      sp_heading = None, sp_position = None, sp_velocity = None, sp_lateral_deviation = None,
      sp_vertical_deviation = None, sp_collective_thrust = f0\<rparr>"

record sensor_overrides =
  gnss_force_state :: "gnss_health option"

record command =
  cmd_mode :: control_mode
  cmd_setpoint :: setpoint
  cmd_config_mode_request :: "config_mode option"
  cmd_sensor_overrides :: "sensor_overrides option"
  cmd_sequence :: u32
  cmd_source :: command_source

definition validate_enums :: "command \<Rightarrow> bool" where
  "validate_enums c =
     (if \<not> control_mode_is_valid_discriminant (cmd_mode c) then False
      else if \<not> command_source_is_valid_discriminant (cmd_source c) then False
      else case cmd_config_mode_request c of
             Some m \<Rightarrow> (if \<not> config_mode_is_valid_discriminant m then False else True)
           | None \<Rightarrow> True)"

record limits =
  max_roll :: f32
  max_pitch :: f32
  max_roll_rate :: f32
  max_pitch_rate :: f32
  max_yaw_rate :: f32
  max_horizontal_speed :: f32
  max_climb_rate :: f32
  max_descent_rate :: f32
  max_altitude :: f32
  min_altitude :: f32
  min_airspeed :: "f32 option"
  max_airspeed :: "f32 option"
  max_load_factor :: f32
  min_load_factor :: f32

text \<open>\<open>default_limits\<close> of \<open>kernel/config.rs\<close>.\<close>

definition default_limits :: limits where
  "default_limits =
     \<lparr>max_roll = f32_lit 78 100, max_pitch = f32_lit 78 100, max_roll_rate = f32_lit 3 1,
      max_pitch_rate = f32_lit 3 1, max_yaw_rate = f32_lit 3 1, max_horizontal_speed = f32_lit 10 1,
      max_climb_rate = f32_lit 2 1, max_descent_rate = f32_lit 2 1, max_altitude = f32_lit 100 1,
      min_altitude = f0, min_airspeed = None, max_airspeed = None, max_load_factor = f32_lit 2 1,
      min_load_factor = f0\<rparr>"

datatype authority_profile = HardEnvelope | SoftEnvelope

record axis_command =
  ax_roll :: f32
  ax_pitch :: f32
  ax_yaw :: f32
  ax_collective :: f32

text \<open>A command value of safe Rust always carries valid discriminants.\<close>

lemma validate_enums_True [simp]: "validate_enums c"
  by (cases "cmd_mode c"; cases "cmd_source c")
    (auto simp: validate_enums_def control_mode_is_valid_discriminant_def
      command_source_is_valid_discriminant_def config_mode_is_valid_discriminant_def
      split: option.split intro: config_mode.exhaust)

end
