(* ===== verification/MavlinkMessages.thy ===== *)
theory MavlinkMessages
  imports MavlinkWire Domain
begin

text \<open>
  The MAVLink messages of the codec (\<open>mavlink/protocol.rs\<close> and its modules \<open>estimator_status\<close>,
  \<open>geodetic\<close> and \<open>geomagnetic\<close>): one record, one field decoder and one serializer per message.
\<close>

section \<open>Messages\<close>

record mav_heartbeat =
  hb_mav_type :: u8
  hb_autopilot :: u8
  hb_base_mode :: u8
  hb_custom_mode :: u32
  hb_system_status :: u8
  hb_mavlink_version :: u8

record mav_system_time =
  sy_time_unix_usec :: u64
  sy_time_boot_ms :: u32

record mav_attitude_quaternion =
  aq_time_boot_ms :: u32
  aq_q1 :: f32
  aq_q2 :: f32
  aq_q3 :: f32
  aq_q4 :: f32
  aq_rollspeed :: f32
  aq_pitchspeed :: f32
  aq_yawspeed :: f32
  aq_repr_offset_q :: "f32 \<times> f32 \<times> f32 \<times> f32"

record mav_local_position_ned =
  lp_time_boot_ms :: u32
  lp_x :: f32
  lp_y :: f32
  lp_z :: f32
  lp_vx :: f32
  lp_vy :: f32
  lp_vz :: f32

record mav_global_position_int =
  gp_time_boot_ms :: u32
  gp_lat :: i32
  gp_lon :: i32
  gp_alt :: i32
  gp_relative_alt :: i32
  gp_vx :: i16
  gp_vy :: i16
  gp_vz :: i16
  gp_hdg :: u16

record mav_gps_raw_int =
  gr_time_usec :: u64
  gr_fix_type :: u8
  gr_lat :: i32
  gr_lon :: i32
  gr_alt :: i32
  gr_eph :: u16
  gr_epv :: u16
  gr_vel :: u16
  gr_cog :: u16
  gr_satellites_visible :: u8
  gr_alt_ellipsoid :: i32
  gr_h_acc :: u32
  gr_v_acc :: u32
  gr_vel_acc :: u32
  gr_hdg_acc :: u32
  gr_yaw :: u16

record mav_scaled_pressure =
  sc_time_boot_ms :: u32
  sc_press_abs :: f32
  sc_press_diff :: f32
  sc_temperature :: i16

record mav_estimator_status =
  eo_time_usec :: u64
  eo_vel_ratio :: f32
  eo_pos_horiz_ratio :: f32
  eo_pos_vert_ratio :: f32
  eo_mag_ratio :: f32
  eo_hagl_ratio :: f32
  eo_tas_ratio :: f32
  eo_pos_horiz_accuracy :: f32
  eo_pos_vert_accuracy :: f32
  eo_flags :: u16

record mav_aviate_estimator_status =
  ae_time_usec :: u64
  ae_valid_flags :: u8
  ae_quality :: u8

record mav_aviate_geomagnetic_reference =
  ag_time_usec :: u64
  ag_declination :: f32
  ag_source :: u8

record mav_set_attitude_target =
  sa_time_boot_ms :: u32
  sa_target_system :: u8
  sa_target_component :: u8
  sa_type_mask :: u8
  sa_q :: "f32 \<times> f32 \<times> f32 \<times> f32"
  sa_body_roll_rate :: f32
  sa_body_pitch_rate :: f32
  sa_body_yaw_rate :: f32
  sa_thrust :: f32
  sa_thrust_body :: "f32 \<times> f32 \<times> f32"

record mav_set_position_target_local_ned =
  tp_time_boot_ms :: u32
  tp_target_system :: u8
  tp_target_component :: u8
  tp_coordinate_frame :: u8
  tp_type_mask :: u16
  tp_x :: f32
  tp_y :: f32
  tp_z :: f32
  tp_vx :: f32
  tp_vy :: f32
  tp_vz :: f32
  tp_afx :: f32
  tp_afy :: f32
  tp_afz :: f32
  tp_yaw :: f32
  tp_yaw_rate :: f32

record mav_command_long =
  cl_param1 :: f32
  cl_param2 :: f32
  cl_param3 :: f32
  cl_param4 :: f32
  cl_param5 :: f32
  cl_param6 :: f32
  cl_param7 :: f32
  cl_command :: u16
  cl_target_system :: u8
  cl_target_component :: u8
  cl_confirmation :: u8

record mav_command_ack =
  ca_command :: u16
  ca_result :: u8
  ca_progress :: u8
  ca_result_param2 :: i32
  ca_target_system :: u8
  ca_target_component :: u8

record mav_rc_channels_override =
  rc_chan1_raw :: u16
  rc_chan2_raw :: u16
  rc_chan3_raw :: u16
  rc_chan4_raw :: u16
  rc_chan5_raw :: u16
  rc_chan6_raw :: u16
  rc_chan7_raw :: u16
  rc_chan8_raw :: u16
  rc_target_system :: u8
  rc_target_component :: u8
  rc_chan9_raw :: u16
  rc_chan10_raw :: u16
  rc_chan11_raw :: u16
  rc_chan12_raw :: u16
  rc_chan13_raw :: u16
  rc_chan14_raw :: u16
  rc_chan15_raw :: u16
  rc_chan16_raw :: u16
  rc_chan17_raw :: u16
  rc_chan18_raw :: u16

record mav_manual_control =
  mn_x :: i16
  mn_y :: i16
  mn_z :: i16
  mn_r :: i16
  mn_buttons :: u16
  mn_target :: u8
  mn_buttons2 :: u16
  mn_enabled_extensions :: u8
  mn_s :: i16
  mn_t :: i16
  mn_aux1 :: i16
  mn_aux2 :: i16
  mn_aux3 :: i16
  mn_aux4 :: i16
  mn_aux5 :: i16
  mn_aux6 :: i16

record mav_sys_status =
  ss_onboard_control_sensors_present :: u32
  ss_onboard_control_sensors_enabled :: u32
  ss_onboard_control_sensors_health :: u32
  ss_load :: u16
  ss_voltage_battery :: u16
  ss_current_battery :: i16
  ss_drop_rate_comm :: u16
  ss_errors_comm :: u16
  ss_errors_count1 :: u16
  ss_errors_count2 :: u16
  ss_errors_count3 :: u16
  ss_errors_count4 :: u16
  ss_battery_remaining :: i8
  ss_onboard_control_sensors_present_extended :: u32
  ss_onboard_control_sensors_enabled_extended :: u32
  ss_onboard_control_sensors_health_extended :: u32

record mav_statustext =
  tx_severity :: u8
  tx_text :: "u8 list"
  tx_id :: u16
  tx_chunk_seq :: u8

datatype mav_message =
  Heartbeat mav_heartbeat
| SystemTime mav_system_time
| AttitudeQuaternion mav_attitude_quaternion
| LocalPositionNed mav_local_position_ned
| GlobalPositionInt mav_global_position_int
| GpsRawInt mav_gps_raw_int
| ScaledPressure mav_scaled_pressure
| EstimatorStatus mav_estimator_status
| AviateEstimatorStatus mav_aviate_estimator_status
| AviateGeomagneticReference mav_aviate_geomagnetic_reference
| SetAttitudeTarget mav_set_attitude_target
| SetPositionTargetLocalNed mav_set_position_target_local_ned
| CommandLong mav_command_long
| CommandAck mav_command_ack
| RcChannelsOverride mav_rc_channels_override
| ManualControl mav_manual_control
| SysStatus mav_sys_status
| Statustext mav_statustext
| UnknownMsg u32

definition heartbeat_MSG_ID :: u32 where
  "heartbeat_MSG_ID = 0"

definition heartbeat_PAYLOAD_LEN :: nat where
  "heartbeat_PAYLOAD_LEN = 9"

definition system_time_MSG_ID :: u32 where
  "system_time_MSG_ID = 2"

definition system_time_PAYLOAD_LEN :: nat where
  "system_time_PAYLOAD_LEN = 12"

definition attitude_quaternion_MSG_ID :: u32 where
  "attitude_quaternion_MSG_ID = 31"

definition attitude_quaternion_PAYLOAD_LEN :: nat where
  "attitude_quaternion_PAYLOAD_LEN = 48"

definition local_position_ned_MSG_ID :: u32 where
  "local_position_ned_MSG_ID = 32"

definition local_position_ned_PAYLOAD_LEN :: nat where
  "local_position_ned_PAYLOAD_LEN = 28"

definition global_position_int_MSG_ID :: u32 where
  "global_position_int_MSG_ID = 33"

definition global_position_int_PAYLOAD_LEN :: nat where
  "global_position_int_PAYLOAD_LEN = 28"

definition gps_raw_int_MSG_ID :: u32 where
  "gps_raw_int_MSG_ID = 24"

definition gps_raw_int_PAYLOAD_LEN :: nat where
  "gps_raw_int_PAYLOAD_LEN = 52"

definition scaled_pressure_MSG_ID :: u32 where
  "scaled_pressure_MSG_ID = 29"

definition scaled_pressure_PAYLOAD_LEN :: nat where
  "scaled_pressure_PAYLOAD_LEN = 14"

definition estimator_status_MSG_ID :: u32 where
  "estimator_status_MSG_ID = 230"

definition estimator_status_PAYLOAD_LEN :: nat where
  "estimator_status_PAYLOAD_LEN = 42"

definition aviate_estimator_status_MSG_ID :: u32 where
  "aviate_estimator_status_MSG_ID = 20000"

definition aviate_estimator_status_PAYLOAD_LEN :: nat where
  "aviate_estimator_status_PAYLOAD_LEN = 10"

definition aviate_geomagnetic_reference_MSG_ID :: u32 where
  "aviate_geomagnetic_reference_MSG_ID = 20001"

definition aviate_geomagnetic_reference_PAYLOAD_LEN :: nat where
  "aviate_geomagnetic_reference_PAYLOAD_LEN = 13"

definition set_attitude_target_MSG_ID :: u32 where
  "set_attitude_target_MSG_ID = 82"

definition set_attitude_target_PAYLOAD_LEN :: nat where
  "set_attitude_target_PAYLOAD_LEN = 51"

definition set_position_target_local_ned_MSG_ID :: u32 where
  "set_position_target_local_ned_MSG_ID = 84"

definition set_position_target_local_ned_PAYLOAD_LEN :: nat where
  "set_position_target_local_ned_PAYLOAD_LEN = 53"

definition command_long_MSG_ID :: u32 where
  "command_long_MSG_ID = 76"

definition command_long_PAYLOAD_LEN :: nat where
  "command_long_PAYLOAD_LEN = 33"

definition command_ack_MSG_ID :: u32 where
  "command_ack_MSG_ID = 77"

definition command_ack_PAYLOAD_LEN :: nat where
  "command_ack_PAYLOAD_LEN = 10"

definition rc_channels_override_MSG_ID :: u32 where
  "rc_channels_override_MSG_ID = 70"

definition rc_channels_override_PAYLOAD_LEN :: nat where
  "rc_channels_override_PAYLOAD_LEN = 38"

definition manual_control_MSG_ID :: u32 where
  "manual_control_MSG_ID = 69"

definition manual_control_PAYLOAD_LEN :: nat where
  "manual_control_PAYLOAD_LEN = 30"

definition sys_status_MSG_ID :: u32 where
  "sys_status_MSG_ID = 1"

definition sys_status_PAYLOAD_LEN :: nat where
  "sys_status_PAYLOAD_LEN = 43"

definition statustext_MSG_ID :: u32 where
  "statustext_MSG_ID = 253"

definition statustext_PAYLOAD_LEN :: nat where
  "statustext_PAYLOAD_LEN = 54"

fun msg_id :: "mav_message \<Rightarrow> u32" where
  "msg_id (Heartbeat _) = heartbeat_MSG_ID"
| "msg_id (SystemTime _) = system_time_MSG_ID"
| "msg_id (AttitudeQuaternion _) = attitude_quaternion_MSG_ID"
| "msg_id (LocalPositionNed _) = local_position_ned_MSG_ID"
| "msg_id (GlobalPositionInt _) = global_position_int_MSG_ID"
| "msg_id (GpsRawInt _) = gps_raw_int_MSG_ID"
| "msg_id (ScaledPressure _) = scaled_pressure_MSG_ID"
| "msg_id (EstimatorStatus _) = estimator_status_MSG_ID"
| "msg_id (AviateEstimatorStatus _) = aviate_estimator_status_MSG_ID"
| "msg_id (AviateGeomagneticReference _) = aviate_geomagnetic_reference_MSG_ID"
| "msg_id (SetAttitudeTarget _) = set_attitude_target_MSG_ID"
| "msg_id (SetPositionTargetLocalNed _) = set_position_target_local_ned_MSG_ID"
| "msg_id (CommandLong _) = command_long_MSG_ID"
| "msg_id (CommandAck _) = command_ack_MSG_ID"
| "msg_id (RcChannelsOverride _) = rc_channels_override_MSG_ID"
| "msg_id (ManualControl _) = manual_control_MSG_ID"
| "msg_id (SysStatus _) = sys_status_MSG_ID"
| "msg_id (Statustext _) = statustext_MSG_ID"
| "msg_id (UnknownMsg i) = i"

datatype parse_error =
  BufferTooShort
| InvalidStartByte
| PayloadTooLong
| CrcMismatch
| UnsupportedMessage u32
| InvalidPayload
| UnsupportedIncompatFlags byte

fun q4_0 :: "'a \<times> 'a \<times> 'a \<times> 'a \<Rightarrow> 'a" where "q4_0 (a, b, c, d) = a"
fun q4_1 :: "'a \<times> 'a \<times> 'a \<times> 'a \<Rightarrow> 'a" where "q4_1 (a, b, c, d) = b"
fun q4_2 :: "'a \<times> 'a \<times> 'a \<times> 'a \<Rightarrow> 'a" where "q4_2 (a, b, c, d) = c"
fun q4_3 :: "'a \<times> 'a \<times> 'a \<times> 'a \<Rightarrow> 'a" where "q4_3 (a, b, c, d) = d"

lemma q4_collapse [simp]: "(q4_0 x, q4_1 x, q4_2 x, q4_3 x) = x"
  by (cases x) simp

lemma vec_parts_collapse [simp]: "(ix0 v, ix1 v, ix2 v) = v"
  by (cases v) simp

section \<open>Field decoders\<close>

definition parse_heartbeat :: "byte list \<Rightarrow> (mav_message, parse_error) result" where
  "parse_heartbeat payload =
     (if length payload < heartbeat_PAYLOAD_LEN then Err InvalidPayload
      else Ok (Heartbeat
        \<lparr>hb_mav_type = payload ! 4, hb_autopilot = payload ! 5,
         hb_base_mode = payload ! 6, hb_custom_mode = read_u32_le payload 0,
         hb_system_status = payload ! 7, hb_mavlink_version = payload ! 8\<rparr>))"

definition parse_system_time :: "byte list \<Rightarrow> (mav_message, parse_error) result" where
  "parse_system_time payload =
     (if length payload < system_time_PAYLOAD_LEN then Err InvalidPayload
      else Ok (SystemTime
        \<lparr>sy_time_unix_usec = read_u64_le payload 0,
         sy_time_boot_ms = read_u32_le payload 8\<rparr>))"

definition parse_attitude_quaternion :: "byte list \<Rightarrow> (mav_message, parse_error) result" where
  "parse_attitude_quaternion payload =
     (if length payload < 32 then Err InvalidPayload
      else Ok (AttitudeQuaternion
        \<lparr>aq_time_boot_ms = read_u32_le payload 0, aq_q1 = read_f32_le payload 4,
         aq_q2 = read_f32_le payload 8, aq_q3 = read_f32_le payload 12,
         aq_q4 = read_f32_le payload 16, aq_rollspeed = read_f32_le payload 20,
         aq_pitchspeed = read_f32_le payload 24, aq_yawspeed = read_f32_le payload 28,
         aq_repr_offset_q = (if 48 \<le> length payload then (read_f32_le payload 32,
         read_f32_le payload 36, read_f32_le payload 40, read_f32_le payload 44) else (0, 0, 0,
         0))\<rparr>))"

definition parse_local_position_ned :: "byte list \<Rightarrow> (mav_message, parse_error) result" where
  "parse_local_position_ned payload =
     (if length payload < local_position_ned_PAYLOAD_LEN then Err InvalidPayload
      else Ok (LocalPositionNed
        \<lparr>lp_time_boot_ms = read_u32_le payload 0, lp_x = read_f32_le payload 4,
         lp_y = read_f32_le payload 8, lp_z = read_f32_le payload 12,
         lp_vx = read_f32_le payload 16, lp_vy = read_f32_le payload 20,
         lp_vz = read_f32_le payload 24\<rparr>))"

definition parse_global_position_int :: "byte list \<Rightarrow> (mav_message, parse_error) result" where
  "parse_global_position_int payload =
     (if length payload < global_position_int_PAYLOAD_LEN then Err InvalidPayload
      else Ok (GlobalPositionInt
        \<lparr>gp_time_boot_ms = read_u32_le payload 0, gp_lat = read_i32_le payload 4,
         gp_lon = read_i32_le payload 8, gp_alt = read_i32_le payload 12,
         gp_relative_alt = read_i32_le payload 16, gp_vx = read_i16_le payload 20,
         gp_vy = read_i16_le payload 22, gp_vz = read_i16_le payload 24,
         gp_hdg = read_u16_le payload 26\<rparr>))"

definition parse_gps_raw_int :: "byte list \<Rightarrow> (mav_message, parse_error) result" where
  "parse_gps_raw_int payload =
     (if length payload < gps_raw_int_PAYLOAD_LEN then Err InvalidPayload
      else Ok (GpsRawInt
        \<lparr>gr_time_usec = read_u64_le payload 0, gr_fix_type = payload ! 28,
         gr_lat = read_i32_le payload 8, gr_lon = read_i32_le payload 12,
         gr_alt = read_i32_le payload 16, gr_eph = read_u16_le payload 20,
         gr_epv = read_u16_le payload 22, gr_vel = read_u16_le payload 24,
         gr_cog = read_u16_le payload 26, gr_satellites_visible = payload ! 29,
         gr_alt_ellipsoid = read_i32_le payload 30, gr_h_acc = read_u32_le payload 34,
         gr_v_acc = read_u32_le payload 38, gr_vel_acc = read_u32_le payload 42,
         gr_hdg_acc = read_u32_le payload 46, gr_yaw = read_u16_le payload 50\<rparr>))"

definition parse_scaled_pressure :: "byte list \<Rightarrow> (mav_message, parse_error) result" where
  "parse_scaled_pressure payload =
     (if length payload < scaled_pressure_PAYLOAD_LEN then Err InvalidPayload
      else Ok (ScaledPressure
        \<lparr>sc_time_boot_ms = read_u32_le payload 0, sc_press_abs = read_f32_le payload 4,
         sc_press_diff = read_f32_le payload 8, sc_temperature = read_u16_le payload 12\<rparr>))"

definition parse_estimator_status :: "byte list \<Rightarrow> (mav_message, parse_error) result" where
  "parse_estimator_status payload =
     (if length payload < estimator_status_PAYLOAD_LEN then Err InvalidPayload
      else Ok (EstimatorStatus
        \<lparr>eo_time_usec = read_u64_le payload 0, eo_vel_ratio = read_f32_le payload 8,
         eo_pos_horiz_ratio = read_f32_le payload 12, eo_pos_vert_ratio = read_f32_le payload 16,
         eo_mag_ratio = read_f32_le payload 20, eo_hagl_ratio = read_f32_le payload 24,
         eo_tas_ratio = read_f32_le payload 28, eo_pos_horiz_accuracy = read_f32_le payload 32,
         eo_pos_vert_accuracy = read_f32_le payload 36, eo_flags = read_u16_le payload 40\<rparr>))"

definition parse_aviate_estimator_status :: "byte list \<Rightarrow> (mav_message, parse_error) result" where
  "parse_aviate_estimator_status payload =
     (if length payload < aviate_estimator_status_PAYLOAD_LEN then Err InvalidPayload
      else Ok (AviateEstimatorStatus
        \<lparr>ae_time_usec = read_u64_le payload 0, ae_valid_flags = payload ! 8,
         ae_quality = payload ! 9\<rparr>))"

definition parse_aviate_geomagnetic_reference :: "byte list \<Rightarrow> (mav_message, parse_error) result" where
  "parse_aviate_geomagnetic_reference payload =
     (if length payload < aviate_geomagnetic_reference_PAYLOAD_LEN then Err InvalidPayload
      else Ok (AviateGeomagneticReference
        \<lparr>ag_time_usec = read_u64_le payload 0, ag_declination = read_f32_le payload 8,
         ag_source = payload ! 12\<rparr>))"

definition parse_set_attitude_target :: "byte list \<Rightarrow> (mav_message, parse_error) result" where
  "parse_set_attitude_target payload =
     (if length payload < 39 then Err InvalidPayload
      else Ok (SetAttitudeTarget
        \<lparr>sa_time_boot_ms = read_u32_le payload 0, sa_target_system = payload ! 36,
         sa_target_component = payload ! 37, sa_type_mask = payload ! 38,
         sa_q = (read_f32_le payload 4, read_f32_le payload 8, read_f32_le payload 12,
         read_f32_le payload 16), sa_body_roll_rate = read_f32_le payload 20,
         sa_body_pitch_rate = read_f32_le payload 24, sa_body_yaw_rate = read_f32_le payload 28,
         sa_thrust = read_f32_le payload 32,
         sa_thrust_body = (if 51 \<le> length payload then (read_f32_le payload 39,
         read_f32_le payload 43, read_f32_le payload 47) else (0, 0, 0))\<rparr>))"

definition parse_set_position_target_local_ned :: "byte list \<Rightarrow> (mav_message, parse_error) result" where
  "parse_set_position_target_local_ned payload =
     (if length payload < 51 then Err InvalidPayload
      else Ok (SetPositionTargetLocalNed
        \<lparr>tp_time_boot_ms = read_u32_le payload 0, tp_target_system = payload ! 50,
         tp_target_component = (if 51 < length payload then payload ! 51 else 0),
         tp_coordinate_frame = (if 52 < length payload then payload ! 52 else 1),
         tp_type_mask = read_u16_le payload 48, tp_x = read_f32_le payload 4,
         tp_y = read_f32_le payload 8, tp_z = read_f32_le payload 12,
         tp_vx = read_f32_le payload 16, tp_vy = read_f32_le payload 20,
         tp_vz = read_f32_le payload 24, tp_afx = read_f32_le payload 28,
         tp_afy = read_f32_le payload 32, tp_afz = read_f32_le payload 36,
         tp_yaw = read_f32_le payload 40, tp_yaw_rate = read_f32_le payload 44\<rparr>))"

definition parse_command_long :: "byte list \<Rightarrow> (mav_message, parse_error) result" where
  "parse_command_long payload =
     (if length payload < 32 then Err InvalidPayload
      else Ok (CommandLong
        \<lparr>cl_param1 = read_f32_le payload 0, cl_param2 = read_f32_le payload 4,
         cl_param3 = read_f32_le payload 8, cl_param4 = read_f32_le payload 12,
         cl_param5 = read_f32_le payload 16, cl_param6 = read_f32_le payload 20,
         cl_param7 = read_f32_le payload 24, cl_command = read_u16_le payload 28,
         cl_target_system = payload ! 30, cl_target_component = payload ! 31,
         cl_confirmation = (if 32 < length payload then payload ! 32 else 0)\<rparr>))"

definition parse_command_ack :: "byte list \<Rightarrow> (mav_message, parse_error) result" where
  "parse_command_ack payload =
     (if length payload < 3 then Err InvalidPayload
      else Ok (CommandAck
        \<lparr>ca_command = read_u16_le payload 0, ca_result = payload ! 2,
         ca_progress = (if 3 < length payload then payload ! 3 else 0),
         ca_result_param2 = (if 7 < length payload then read_i32_le payload 4 else 0),
         ca_target_system = (if 8 < length payload then payload ! 8 else 0),
         ca_target_component = (if 9 < length payload then payload ! 9 else 0)\<rparr>))"

definition parse_rc_channels_override :: "byte list \<Rightarrow> (mav_message, parse_error) result" where
  "parse_rc_channels_override payload =
     (if length payload < 18 then Err InvalidPayload
      else Ok (RcChannelsOverride
        \<lparr>rc_chan1_raw = read_u16_le payload 0, rc_chan2_raw = read_u16_le payload 2,
         rc_chan3_raw = read_u16_le payload 4, rc_chan4_raw = read_u16_le payload 6,
         rc_chan5_raw = read_u16_le payload 8, rc_chan6_raw = read_u16_le payload 10,
         rc_chan7_raw = read_u16_le payload 12, rc_chan8_raw = read_u16_le payload 14,
         rc_target_system = payload ! 16, rc_target_component = payload ! 17,
         rc_chan9_raw = (if 38 \<le> length payload then read_u16_le payload 18 else 0),
         rc_chan10_raw = (if 38 \<le> length payload then read_u16_le payload 20 else 0),
         rc_chan11_raw = (if 38 \<le> length payload then read_u16_le payload 22 else 0),
         rc_chan12_raw = (if 38 \<le> length payload then read_u16_le payload 24 else 0),
         rc_chan13_raw = (if 38 \<le> length payload then read_u16_le payload 26 else 0),
         rc_chan14_raw = (if 38 \<le> length payload then read_u16_le payload 28 else 0),
         rc_chan15_raw = (if 38 \<le> length payload then read_u16_le payload 30 else 0),
         rc_chan16_raw = (if 38 \<le> length payload then read_u16_le payload 32 else 0),
         rc_chan17_raw = (if 38 \<le> length payload then read_u16_le payload 34 else 0),
         rc_chan18_raw = (if 38 \<le> length payload then read_u16_le payload 36 else 0)\<rparr>))"

definition parse_manual_control :: "byte list \<Rightarrow> (mav_message, parse_error) result" where
  "parse_manual_control payload =
     (if length payload < 11 then Err InvalidPayload
      else Ok (ManualControl
        \<lparr>mn_x = read_i16_le payload 0, mn_y = read_i16_le payload 2,
         mn_z = read_i16_le payload 4, mn_r = read_i16_le payload 6,
         mn_buttons = read_u16_le payload 8, mn_target = payload ! 10,
         mn_buttons2 = (if 13 \<le> length payload then read_u16_le payload 11 else 0),
         mn_enabled_extensions = (if 14 \<le> length payload then payload ! 13 else 0),
         mn_s = (if 16 \<le> length payload then read_i16_le payload 14 else 0),
         mn_t = (if 18 \<le> length payload then read_i16_le payload 16 else 0),
         mn_aux1 = (if 20 \<le> length payload then read_i16_le payload 18 else 0),
         mn_aux2 = (if 22 \<le> length payload then read_i16_le payload 20 else 0),
         mn_aux3 = (if 24 \<le> length payload then read_i16_le payload 22 else 0),
         mn_aux4 = (if 26 \<le> length payload then read_i16_le payload 24 else 0),
         mn_aux5 = (if 28 \<le> length payload then read_i16_le payload 26 else 0),
         mn_aux6 = (if 30 \<le> length payload then read_i16_le payload 28 else 0)\<rparr>))"

definition parse_sys_status :: "byte list \<Rightarrow> (mav_message, parse_error) result" where
  "parse_sys_status payload =
     (if length payload < 31 then Err InvalidPayload
      else Ok (SysStatus
        \<lparr>ss_onboard_control_sensors_present = read_u32_le payload 0,
         ss_onboard_control_sensors_enabled = read_u32_le payload 4,
         ss_onboard_control_sensors_health = read_u32_le payload 8,
         ss_load = read_u16_le payload 12, ss_voltage_battery = read_u16_le payload 14,
         ss_current_battery = read_i16_le payload 16, ss_drop_rate_comm = read_u16_le payload 18,
         ss_errors_comm = read_u16_le payload 20, ss_errors_count1 = read_u16_le payload 22,
         ss_errors_count2 = read_u16_le payload 24, ss_errors_count3 = read_u16_le payload 26,
         ss_errors_count4 = read_u16_le payload 28, ss_battery_remaining = payload ! 30,
         ss_onboard_control_sensors_present_extended = (if 43 \<le> length payload then read_u32_le payload 31 else 0),
         ss_onboard_control_sensors_enabled_extended = (if 43 \<le> length payload then read_u32_le payload 35 else 0),
         ss_onboard_control_sensors_health_extended = (if 43 \<le> length payload then read_u32_le payload 39 else 0)\<rparr>))"

definition parse_statustext :: "byte list \<Rightarrow> (mav_message, parse_error) result" where
  "parse_statustext payload =
     (if length payload < 51 then Err InvalidPayload
      else Ok (Statustext
        \<lparr>tx_severity = payload ! 0, tx_text = drop 1 (take 51 payload),
         tx_id = (if 54 \<le> length payload then read_u16_le payload 51 else 0),
         tx_chunk_seq = (if 54 \<le> length payload then payload ! 53 else 0)\<rparr>))"

section \<open>Serializers\<close>

definition serialize_heartbeat ::
  "mav_heartbeat \<Rightarrow> byte \<Rightarrow> byte \<Rightarrow> byte \<Rightarrow> byte list \<Rightarrow> (byte list \<times> nat) option" where
  "serialize_heartbeat m seq sys_id comp_id buf =
     (if length buf < MavHeader_SIZE + heartbeat_PAYLOAD_LEN + 2 then None
      else let offset = MavHeader_SIZE;
               b = write_header buf (of_nat heartbeat_PAYLOAD_LEN) seq sys_id comp_id heartbeat_MSG_ID;
               b = write_u32_le b offset (hb_custom_mode m);
               b = b[offset + 4 := hb_mav_type m];
               b = b[offset + 5 := hb_autopilot m];
               b = b[offset + 6 := hb_base_mode m];
               b = b[offset + 7 := hb_system_status m];
               b = b[offset + 8 := hb_mavlink_version m]
           in Some (write_crc b (offset + heartbeat_PAYLOAD_LEN) 50))"

definition serialize_system_time ::
  "mav_system_time \<Rightarrow> byte \<Rightarrow> byte \<Rightarrow> byte \<Rightarrow> byte list \<Rightarrow> (byte list \<times> nat) option" where
  "serialize_system_time m seq sys_id comp_id buf =
     (if length buf < MavHeader_SIZE + system_time_PAYLOAD_LEN + 2 then None
      else let offset = MavHeader_SIZE;
               b = write_header buf (of_nat system_time_PAYLOAD_LEN) seq sys_id comp_id system_time_MSG_ID;
               b = write_u64_le b offset (sy_time_unix_usec m);
               b = write_u32_le b (offset + 8) (sy_time_boot_ms m)
           in Some (write_crc b (offset + system_time_PAYLOAD_LEN) 137))"

definition serialize_attitude_quaternion ::
  "mav_attitude_quaternion \<Rightarrow> byte \<Rightarrow> byte \<Rightarrow> byte \<Rightarrow> byte list \<Rightarrow> (byte list \<times> nat) option" where
  "serialize_attitude_quaternion m seq sys_id comp_id buf =
     (if length buf < MavHeader_SIZE + attitude_quaternion_PAYLOAD_LEN + 2 then None
      else let offset = MavHeader_SIZE;
               b = write_header buf (of_nat attitude_quaternion_PAYLOAD_LEN) seq sys_id comp_id attitude_quaternion_MSG_ID;
               b = write_u32_le b offset (aq_time_boot_ms m);
               b = write_f32_le b (offset + 4) (aq_q1 m);
               b = write_f32_le b (offset + 8) (aq_q2 m);
               b = write_f32_le b (offset + 12) (aq_q3 m);
               b = write_f32_le b (offset + 16) (aq_q4 m);
               b = write_f32_le b (offset + 20) (aq_rollspeed m);
               b = write_f32_le b (offset + 24) (aq_pitchspeed m);
               b = write_f32_le b (offset + 28) (aq_yawspeed m);
               b = write_f32_le b (offset + 32) (q4_0 (aq_repr_offset_q m));
               b = write_f32_le b (offset + 36) (q4_1 (aq_repr_offset_q m));
               b = write_f32_le b (offset + 40) (q4_2 (aq_repr_offset_q m));
               b = write_f32_le b (offset + 44) (q4_3 (aq_repr_offset_q m))
           in Some (write_crc b (offset + attitude_quaternion_PAYLOAD_LEN) 246))"

definition serialize_local_position_ned ::
  "mav_local_position_ned \<Rightarrow> byte \<Rightarrow> byte \<Rightarrow> byte \<Rightarrow> byte list \<Rightarrow> (byte list \<times> nat) option" where
  "serialize_local_position_ned m seq sys_id comp_id buf =
     (if length buf < MavHeader_SIZE + local_position_ned_PAYLOAD_LEN + 2 then None
      else let offset = MavHeader_SIZE;
               b = write_header buf (of_nat local_position_ned_PAYLOAD_LEN) seq sys_id comp_id local_position_ned_MSG_ID;
               b = write_u32_le b offset (lp_time_boot_ms m);
               b = write_f32_le b (offset + 4) (lp_x m);
               b = write_f32_le b (offset + 8) (lp_y m);
               b = write_f32_le b (offset + 12) (lp_z m);
               b = write_f32_le b (offset + 16) (lp_vx m);
               b = write_f32_le b (offset + 20) (lp_vy m);
               b = write_f32_le b (offset + 24) (lp_vz m)
           in Some (write_crc b (offset + local_position_ned_PAYLOAD_LEN) 185))"

definition serialize_global_position_int ::
  "mav_global_position_int \<Rightarrow> byte \<Rightarrow> byte \<Rightarrow> byte \<Rightarrow> byte list \<Rightarrow> (byte list \<times> nat) option" where
  "serialize_global_position_int m seq sys_id comp_id buf =
     (if length buf < MavHeader_SIZE + global_position_int_PAYLOAD_LEN + 2 then None
      else let offset = MavHeader_SIZE;
               b = write_header buf (of_nat global_position_int_PAYLOAD_LEN) seq sys_id comp_id global_position_int_MSG_ID;
               b = write_u32_le b offset (gp_time_boot_ms m);
               b = write_i32_le b (offset + 4) (gp_lat m);
               b = write_i32_le b (offset + 8) (gp_lon m);
               b = write_i32_le b (offset + 12) (gp_alt m);
               b = write_i32_le b (offset + 16) (gp_relative_alt m);
               b = write_i16_le b (offset + 20) (gp_vx m);
               b = write_i16_le b (offset + 22) (gp_vy m);
               b = write_i16_le b (offset + 24) (gp_vz m);
               b = write_u16_le b (offset + 26) (gp_hdg m)
           in Some (write_crc b (offset + global_position_int_PAYLOAD_LEN) 104))"

definition serialize_gps_raw_int ::
  "mav_gps_raw_int \<Rightarrow> byte \<Rightarrow> byte \<Rightarrow> byte \<Rightarrow> byte list \<Rightarrow> (byte list \<times> nat) option" where
  "serialize_gps_raw_int m seq sys_id comp_id buf =
     (if length buf < MavHeader_SIZE + gps_raw_int_PAYLOAD_LEN + 2 then None
      else let offset = MavHeader_SIZE;
               b = write_header buf (of_nat gps_raw_int_PAYLOAD_LEN) seq sys_id comp_id gps_raw_int_MSG_ID;
               b = write_u64_le b offset (gr_time_usec m);
               b = write_i32_le b (offset + 8) (gr_lat m);
               b = write_i32_le b (offset + 12) (gr_lon m);
               b = write_i32_le b (offset + 16) (gr_alt m);
               b = write_u16_le b (offset + 20) (gr_eph m);
               b = write_u16_le b (offset + 22) (gr_epv m);
               b = write_u16_le b (offset + 24) (gr_vel m);
               b = write_u16_le b (offset + 26) (gr_cog m);
               b = b[offset + 28 := gr_fix_type m];
               b = b[offset + 29 := gr_satellites_visible m];
               b = write_i32_le b (offset + 30) (gr_alt_ellipsoid m);
               b = write_u32_le b (offset + 34) (gr_h_acc m);
               b = write_u32_le b (offset + 38) (gr_v_acc m);
               b = write_u32_le b (offset + 42) (gr_vel_acc m);
               b = write_u32_le b (offset + 46) (gr_hdg_acc m);
               b = write_u16_le b (offset + 50) (gr_yaw m)
           in Some (write_crc b (offset + gps_raw_int_PAYLOAD_LEN) 24))"

definition serialize_scaled_pressure ::
  "mav_scaled_pressure \<Rightarrow> byte \<Rightarrow> byte \<Rightarrow> byte \<Rightarrow> byte list \<Rightarrow> (byte list \<times> nat) option" where
  "serialize_scaled_pressure m seq sys_id comp_id buf =
     (if length buf < MavHeader_SIZE + scaled_pressure_PAYLOAD_LEN + 2 then None
      else let offset = MavHeader_SIZE;
               b = write_header buf (of_nat scaled_pressure_PAYLOAD_LEN) seq sys_id comp_id scaled_pressure_MSG_ID;
               b = write_u32_le b offset (sc_time_boot_ms m);
               b = write_f32_le b (offset + 4) (sc_press_abs m);
               b = write_f32_le b (offset + 8) (sc_press_diff m);
               b = write_u16_le b (offset + 12) (sc_temperature m)
           in Some (write_crc b (offset + scaled_pressure_PAYLOAD_LEN) 115))"

definition serialize_estimator_status ::
  "mav_estimator_status \<Rightarrow> byte \<Rightarrow> byte \<Rightarrow> byte \<Rightarrow> byte list \<Rightarrow> (byte list \<times> nat) option" where
  "serialize_estimator_status m seq sys_id comp_id buf =
     (if length buf < MavHeader_SIZE + estimator_status_PAYLOAD_LEN + 2 then None
      else let offset = MavHeader_SIZE;
               b = write_header buf (of_nat estimator_status_PAYLOAD_LEN) seq sys_id comp_id estimator_status_MSG_ID;
               b = write_u64_le b offset (eo_time_usec m);
               b = write_f32_le b (offset + 8) (eo_vel_ratio m);
               b = write_f32_le b (offset + 12) (eo_pos_horiz_ratio m);
               b = write_f32_le b (offset + 16) (eo_pos_vert_ratio m);
               b = write_f32_le b (offset + 20) (eo_mag_ratio m);
               b = write_f32_le b (offset + 24) (eo_hagl_ratio m);
               b = write_f32_le b (offset + 28) (eo_tas_ratio m);
               b = write_f32_le b (offset + 32) (eo_pos_horiz_accuracy m);
               b = write_f32_le b (offset + 36) (eo_pos_vert_accuracy m);
               b = write_u16_le b (offset + 40) (eo_flags m)
           in Some (write_crc b (offset + estimator_status_PAYLOAD_LEN) 163))"

definition serialize_aviate_estimator_status ::
  "mav_aviate_estimator_status \<Rightarrow> byte \<Rightarrow> byte \<Rightarrow> byte \<Rightarrow> byte list \<Rightarrow> (byte list \<times> nat) option" where
  "serialize_aviate_estimator_status m seq sys_id comp_id buf =
     (if length buf < MavHeader_SIZE + aviate_estimator_status_PAYLOAD_LEN + 2 then None
      else let offset = MavHeader_SIZE;
               b = write_header buf (of_nat aviate_estimator_status_PAYLOAD_LEN) seq sys_id comp_id aviate_estimator_status_MSG_ID;
               b = write_u64_le b offset (ae_time_usec m);
               b = b[offset + 8 := ae_valid_flags m];
               b = b[offset + 9 := ae_quality m]
           in Some (write_crc b (offset + aviate_estimator_status_PAYLOAD_LEN) 171))"

definition serialize_aviate_geomagnetic_reference ::
  "mav_aviate_geomagnetic_reference \<Rightarrow> byte \<Rightarrow> byte \<Rightarrow> byte \<Rightarrow> byte list \<Rightarrow> (byte list \<times> nat) option" where
  "serialize_aviate_geomagnetic_reference m seq sys_id comp_id buf =
     (if length buf < MavHeader_SIZE + aviate_geomagnetic_reference_PAYLOAD_LEN + 2 then None
      else let offset = MavHeader_SIZE;
               b = write_header buf (of_nat aviate_geomagnetic_reference_PAYLOAD_LEN) seq sys_id comp_id aviate_geomagnetic_reference_MSG_ID;
               b = write_u64_le b offset (ag_time_usec m);
               b = write_f32_le b (offset + 8) (ag_declination m);
               b = b[offset + 12 := ag_source m]
           in Some (write_crc b (offset + aviate_geomagnetic_reference_PAYLOAD_LEN) 235))"

definition serialize_set_attitude_target ::
  "mav_set_attitude_target \<Rightarrow> byte \<Rightarrow> byte \<Rightarrow> byte \<Rightarrow> byte list \<Rightarrow> (byte list \<times> nat) option" where
  "serialize_set_attitude_target m seq sys_id comp_id buf =
     (if length buf < MavHeader_SIZE + set_attitude_target_PAYLOAD_LEN + 2 then None
      else let offset = MavHeader_SIZE;
               b = write_header buf (of_nat set_attitude_target_PAYLOAD_LEN) seq sys_id comp_id set_attitude_target_MSG_ID;
               b = write_u32_le b offset (sa_time_boot_ms m);
               b = write_f32_le b (offset + 4) (q4_0 (sa_q m));
               b = write_f32_le b (offset + 8) (q4_1 (sa_q m));
               b = write_f32_le b (offset + 12) (q4_2 (sa_q m));
               b = write_f32_le b (offset + 16) (q4_3 (sa_q m));
               b = write_f32_le b (offset + 20) (sa_body_roll_rate m);
               b = write_f32_le b (offset + 24) (sa_body_pitch_rate m);
               b = write_f32_le b (offset + 28) (sa_body_yaw_rate m);
               b = write_f32_le b (offset + 32) (sa_thrust m);
               b = b[offset + 36 := sa_target_system m];
               b = b[offset + 37 := sa_target_component m];
               b = b[offset + 38 := sa_type_mask m];
               b = write_f32_le b (offset + 39) (ix0 (sa_thrust_body m));
               b = write_f32_le b (offset + 43) (ix1 (sa_thrust_body m));
               b = write_f32_le b (offset + 47) (ix2 (sa_thrust_body m))
           in Some (write_crc b (offset + set_attitude_target_PAYLOAD_LEN) 49))"

definition serialize_set_position_target_local_ned ::
  "mav_set_position_target_local_ned \<Rightarrow> byte \<Rightarrow> byte \<Rightarrow> byte \<Rightarrow> byte list \<Rightarrow> (byte list \<times> nat) option" where
  "serialize_set_position_target_local_ned m seq sys_id comp_id buf =
     (if length buf < MavHeader_SIZE + set_position_target_local_ned_PAYLOAD_LEN + 2 then None
      else let offset = MavHeader_SIZE;
               b = write_header buf (of_nat set_position_target_local_ned_PAYLOAD_LEN) seq sys_id comp_id set_position_target_local_ned_MSG_ID;
               b = write_u32_le b offset (tp_time_boot_ms m);
               b = write_f32_le b (offset + 4) (tp_x m);
               b = write_f32_le b (offset + 8) (tp_y m);
               b = write_f32_le b (offset + 12) (tp_z m);
               b = write_f32_le b (offset + 16) (tp_vx m);
               b = write_f32_le b (offset + 20) (tp_vy m);
               b = write_f32_le b (offset + 24) (tp_vz m);
               b = write_f32_le b (offset + 28) (tp_afx m);
               b = write_f32_le b (offset + 32) (tp_afy m);
               b = write_f32_le b (offset + 36) (tp_afz m);
               b = write_f32_le b (offset + 40) (tp_yaw m);
               b = write_f32_le b (offset + 44) (tp_yaw_rate m);
               b = write_u16_le b (offset + 48) (tp_type_mask m);
               b = b[offset + 50 := tp_target_system m];
               b = b[offset + 51 := tp_target_component m];
               b = b[offset + 52 := tp_coordinate_frame m]
           in Some (write_crc b (offset + set_position_target_local_ned_PAYLOAD_LEN) 143))"

definition serialize_command_long ::
  "mav_command_long \<Rightarrow> byte \<Rightarrow> byte \<Rightarrow> byte \<Rightarrow> byte list \<Rightarrow> (byte list \<times> nat) option" where
  "serialize_command_long m seq sys_id comp_id buf =
     (if length buf < MavHeader_SIZE + command_long_PAYLOAD_LEN + 2 then None
      else let offset = MavHeader_SIZE;
               b = write_header buf (of_nat command_long_PAYLOAD_LEN) seq sys_id comp_id command_long_MSG_ID;
               b = write_f32_le b offset (cl_param1 m);
               b = write_f32_le b (offset + 4) (cl_param2 m);
               b = write_f32_le b (offset + 8) (cl_param3 m);
               b = write_f32_le b (offset + 12) (cl_param4 m);
               b = write_f32_le b (offset + 16) (cl_param5 m);
               b = write_f32_le b (offset + 20) (cl_param6 m);
               b = write_f32_le b (offset + 24) (cl_param7 m);
               b = write_u16_le b (offset + 28) (cl_command m);
               b = b[offset + 30 := cl_target_system m];
               b = b[offset + 31 := cl_target_component m];
               b = b[offset + 32 := cl_confirmation m]
           in Some (write_crc b (offset + command_long_PAYLOAD_LEN) 152))"

definition serialize_command_ack ::
  "mav_command_ack \<Rightarrow> byte \<Rightarrow> byte \<Rightarrow> byte \<Rightarrow> byte list \<Rightarrow> (byte list \<times> nat) option" where
  "serialize_command_ack m seq sys_id comp_id buf =
     (if length buf < MavHeader_SIZE + command_ack_PAYLOAD_LEN + 2 then None
      else let offset = MavHeader_SIZE;
               b = write_header buf (of_nat command_ack_PAYLOAD_LEN) seq sys_id comp_id command_ack_MSG_ID;
               b = write_u16_le b offset (ca_command m);
               b = b[offset + 2 := ca_result m];
               b = b[offset + 3 := ca_progress m];
               b = write_i32_le b (offset + 4) (ca_result_param2 m);
               b = b[offset + 8 := ca_target_system m];
               b = b[offset + 9 := ca_target_component m]
           in Some (write_crc b (offset + command_ack_PAYLOAD_LEN) 143))"

definition serialize_rc_channels_override ::
  "mav_rc_channels_override \<Rightarrow> byte \<Rightarrow> byte \<Rightarrow> byte \<Rightarrow> byte list \<Rightarrow> (byte list \<times> nat) option" where
  "serialize_rc_channels_override m seq sys_id comp_id buf =
     (if length buf < MavHeader_SIZE + rc_channels_override_PAYLOAD_LEN + 2 then None
      else let offset = MavHeader_SIZE;
               b = write_header buf (of_nat rc_channels_override_PAYLOAD_LEN) seq sys_id comp_id rc_channels_override_MSG_ID;
               b = write_u16_le b offset (rc_chan1_raw m);
               b = write_u16_le b (offset + 2) (rc_chan2_raw m);
               b = write_u16_le b (offset + 4) (rc_chan3_raw m);
               b = write_u16_le b (offset + 6) (rc_chan4_raw m);
               b = write_u16_le b (offset + 8) (rc_chan5_raw m);
               b = write_u16_le b (offset + 10) (rc_chan6_raw m);
               b = write_u16_le b (offset + 12) (rc_chan7_raw m);
               b = write_u16_le b (offset + 14) (rc_chan8_raw m);
               b = b[offset + 16 := rc_target_system m];
               b = b[offset + 17 := rc_target_component m];
               b = write_u16_le b (offset + 18) (rc_chan9_raw m);
               b = write_u16_le b (offset + 20) (rc_chan10_raw m);
               b = write_u16_le b (offset + 22) (rc_chan11_raw m);
               b = write_u16_le b (offset + 24) (rc_chan12_raw m);
               b = write_u16_le b (offset + 26) (rc_chan13_raw m);
               b = write_u16_le b (offset + 28) (rc_chan14_raw m);
               b = write_u16_le b (offset + 30) (rc_chan15_raw m);
               b = write_u16_le b (offset + 32) (rc_chan16_raw m);
               b = write_u16_le b (offset + 34) (rc_chan17_raw m);
               b = write_u16_le b (offset + 36) (rc_chan18_raw m)
           in Some (write_crc b (offset + rc_channels_override_PAYLOAD_LEN) 124))"

definition serialize_manual_control ::
  "mav_manual_control \<Rightarrow> byte \<Rightarrow> byte \<Rightarrow> byte \<Rightarrow> byte list \<Rightarrow> (byte list \<times> nat) option" where
  "serialize_manual_control m seq sys_id comp_id buf =
     (if length buf < MavHeader_SIZE + manual_control_PAYLOAD_LEN + 2 then None
      else let offset = MavHeader_SIZE;
               b = write_header buf (of_nat manual_control_PAYLOAD_LEN) seq sys_id comp_id manual_control_MSG_ID;
               b = write_i16_le b offset (mn_x m);
               b = write_i16_le b (offset + 2) (mn_y m);
               b = write_i16_le b (offset + 4) (mn_z m);
               b = write_i16_le b (offset + 6) (mn_r m);
               b = write_u16_le b (offset + 8) (mn_buttons m);
               b = b[offset + 10 := mn_target m];
               b = write_u16_le b (offset + 11) (mn_buttons2 m);
               b = b[offset + 13 := mn_enabled_extensions m];
               b = write_i16_le b (offset + 14) (mn_s m);
               b = write_i16_le b (offset + 16) (mn_t m);
               b = write_i16_le b (offset + 18) (mn_aux1 m);
               b = write_i16_le b (offset + 20) (mn_aux2 m);
               b = write_i16_le b (offset + 22) (mn_aux3 m);
               b = write_i16_le b (offset + 24) (mn_aux4 m);
               b = write_i16_le b (offset + 26) (mn_aux5 m);
               b = write_i16_le b (offset + 28) (mn_aux6 m)
           in Some (write_crc b (offset + manual_control_PAYLOAD_LEN) 243))"

definition serialize_sys_status ::
  "mav_sys_status \<Rightarrow> byte \<Rightarrow> byte \<Rightarrow> byte \<Rightarrow> byte list \<Rightarrow> (byte list \<times> nat) option" where
  "serialize_sys_status m seq sys_id comp_id buf =
     (if length buf < MavHeader_SIZE + sys_status_PAYLOAD_LEN + 2 then None
      else let offset = MavHeader_SIZE;
               b = write_header buf (of_nat sys_status_PAYLOAD_LEN) seq sys_id comp_id sys_status_MSG_ID;
               b = write_u32_le b offset (ss_onboard_control_sensors_present m);
               b = write_u32_le b (offset + 4) (ss_onboard_control_sensors_enabled m);
               b = write_u32_le b (offset + 8) (ss_onboard_control_sensors_health m);
               b = write_u16_le b (offset + 12) (ss_load m);
               b = write_u16_le b (offset + 14) (ss_voltage_battery m);
               b = write_i16_le b (offset + 16) (ss_current_battery m);
               b = write_u16_le b (offset + 18) (ss_drop_rate_comm m);
               b = write_u16_le b (offset + 20) (ss_errors_comm m);
               b = write_u16_le b (offset + 22) (ss_errors_count1 m);
               b = write_u16_le b (offset + 24) (ss_errors_count2 m);
               b = write_u16_le b (offset + 26) (ss_errors_count3 m);
               b = write_u16_le b (offset + 28) (ss_errors_count4 m);
               b = b[offset + 30 := ss_battery_remaining m];
               b = write_u32_le b (offset + 31) (ss_onboard_control_sensors_present_extended m);
               b = write_u32_le b (offset + 35) (ss_onboard_control_sensors_enabled_extended m);
               b = write_u32_le b (offset + 39) (ss_onboard_control_sensors_health_extended m)
           in Some (write_crc b (offset + sys_status_PAYLOAD_LEN) 124))"

definition serialize_statustext ::
  "mav_statustext \<Rightarrow> byte \<Rightarrow> byte \<Rightarrow> byte \<Rightarrow> byte list \<Rightarrow> (byte list \<times> nat) option" where
  "serialize_statustext m seq sys_id comp_id buf =
     (if length buf < MavHeader_SIZE + statustext_PAYLOAD_LEN + 2 then None
      else let offset = MavHeader_SIZE;
               b = write_header buf (of_nat statustext_PAYLOAD_LEN) seq sys_id comp_id statustext_MSG_ID;
               b = b[offset := tx_severity m];
               b = write_text b (offset + 1) (tx_text m) 50;
               b = write_u16_le b (offset + 51) (tx_id m);
               b = b[offset + 53 := tx_chunk_seq m]
           in Some (write_crc b (offset + statustext_PAYLOAD_LEN) 83))"

end
