(* ===== verification/MavlinkCodec.thy ===== *)
theory MavlinkCodec
  imports MavlinkMessages
begin

text \<open>
  Frames (\<open>mavlink/protocol.rs\<close>): the parser with its checks in the source's order, the serializer
  dispatch, and the contract between the frame layer and a message codec as a locale that each of
  the eighteen messages interprets.
\<close>

section \<open>Dispatch\<close>

definition parse_message_payload :: "u32 \<Rightarrow> byte list \<Rightarrow> (mav_message, parse_error) result" where
  "parse_message_payload i payload =
     (if i = heartbeat_MSG_ID then parse_heartbeat payload
      else if i = system_time_MSG_ID then parse_system_time payload
      else if i = attitude_quaternion_MSG_ID then parse_attitude_quaternion payload
      else if i = local_position_ned_MSG_ID then parse_local_position_ned payload
      else if i = global_position_int_MSG_ID then parse_global_position_int payload
      else if i = gps_raw_int_MSG_ID then parse_gps_raw_int payload
      else if i = scaled_pressure_MSG_ID then parse_scaled_pressure payload
      else if i = estimator_status_MSG_ID then parse_estimator_status payload
      else if i = aviate_estimator_status_MSG_ID then parse_aviate_estimator_status payload
      else if i = aviate_geomagnetic_reference_MSG_ID then parse_aviate_geomagnetic_reference payload
      else if i = set_attitude_target_MSG_ID then parse_set_attitude_target payload
      else if i = set_position_target_local_ned_MSG_ID then parse_set_position_target_local_ned payload
      else if i = command_long_MSG_ID then parse_command_long payload
      else if i = command_ack_MSG_ID then parse_command_ack payload
      else if i = rc_channels_override_MSG_ID then parse_rc_channels_override payload
      else if i = manual_control_MSG_ID then parse_manual_control payload
      else if i = sys_status_MSG_ID then parse_sys_status payload
      else if i = statustext_MSG_ID then parse_statustext payload
      else Ok (UnknownMsg i))"

definition get_crc_extra :: "u32 \<Rightarrow> byte" where
  "get_crc_extra i =
     (if i = 0 then 50
      else if i = 1 then 124
      else if i = 2 then 137
      else if i = 24 then 24
      else if i = 29 then 115
      else if i = 31 then 246
      else if i = 32 then 185
      else if i = 33 then 104
      else if i = 69 then 243
      else if i = 70 then 124
      else if i = 76 then 152
      else if i = 77 then 143
      else if i = 82 then 49
      else if i = 84 then 143
      else if i = 230 then 163
      else if i = 253 then 83
      else if i = 20000 then 171
      else if i = 20001 then 235
      else 0)"

definition declared_payload_len :: "u32 \<Rightarrow> nat option" where
  "declared_payload_len i =
     (if i = heartbeat_MSG_ID then Some heartbeat_PAYLOAD_LEN
      else if i = sys_status_MSG_ID then Some sys_status_PAYLOAD_LEN
      else if i = system_time_MSG_ID then Some system_time_PAYLOAD_LEN
      else if i = attitude_quaternion_MSG_ID then Some attitude_quaternion_PAYLOAD_LEN
      else if i = local_position_ned_MSG_ID then Some local_position_ned_PAYLOAD_LEN
      else if i = global_position_int_MSG_ID then Some global_position_int_PAYLOAD_LEN
      else if i = gps_raw_int_MSG_ID then Some gps_raw_int_PAYLOAD_LEN
      else if i = scaled_pressure_MSG_ID then Some scaled_pressure_PAYLOAD_LEN
      else if i = estimator_status_MSG_ID then Some estimator_status_PAYLOAD_LEN
      else if i = aviate_estimator_status_MSG_ID then Some aviate_estimator_status_PAYLOAD_LEN
      else if i = aviate_geomagnetic_reference_MSG_ID then Some aviate_geomagnetic_reference_PAYLOAD_LEN
      else if i = manual_control_MSG_ID then Some manual_control_PAYLOAD_LEN
      else if i = rc_channels_override_MSG_ID then Some rc_channels_override_PAYLOAD_LEN
      else if i = command_long_MSG_ID then Some command_long_PAYLOAD_LEN
      else if i = command_ack_MSG_ID then Some command_ack_PAYLOAD_LEN
      else if i = set_attitude_target_MSG_ID then Some set_attitude_target_PAYLOAD_LEN
      else if i = set_position_target_local_ned_MSG_ID then Some set_position_target_local_ned_PAYLOAD_LEN
      else if i = statustext_MSG_ID then Some statustext_PAYLOAD_LEN
      else None)"

fun serialize_mavlink ::
  "mav_message \<Rightarrow> byte \<Rightarrow> byte \<Rightarrow> byte \<Rightarrow> byte list \<Rightarrow> (byte list \<times> nat) option" where
  "serialize_mavlink (Heartbeat m) seq sys_id comp_id buf = serialize_heartbeat m seq sys_id comp_id buf"
| "serialize_mavlink (SystemTime m) seq sys_id comp_id buf = serialize_system_time m seq sys_id comp_id buf"
| "serialize_mavlink (AttitudeQuaternion m) seq sys_id comp_id buf = serialize_attitude_quaternion m seq sys_id comp_id buf"
| "serialize_mavlink (LocalPositionNed m) seq sys_id comp_id buf = serialize_local_position_ned m seq sys_id comp_id buf"
| "serialize_mavlink (GlobalPositionInt m) seq sys_id comp_id buf = serialize_global_position_int m seq sys_id comp_id buf"
| "serialize_mavlink (GpsRawInt m) seq sys_id comp_id buf = serialize_gps_raw_int m seq sys_id comp_id buf"
| "serialize_mavlink (ScaledPressure m) seq sys_id comp_id buf = serialize_scaled_pressure m seq sys_id comp_id buf"
| "serialize_mavlink (EstimatorStatus m) seq sys_id comp_id buf = serialize_estimator_status m seq sys_id comp_id buf"
| "serialize_mavlink (AviateEstimatorStatus m) seq sys_id comp_id buf = serialize_aviate_estimator_status m seq sys_id comp_id buf"
| "serialize_mavlink (AviateGeomagneticReference m) seq sys_id comp_id buf = serialize_aviate_geomagnetic_reference m seq sys_id comp_id buf"
| "serialize_mavlink (SetAttitudeTarget m) seq sys_id comp_id buf = serialize_set_attitude_target m seq sys_id comp_id buf"
| "serialize_mavlink (SetPositionTargetLocalNed m) seq sys_id comp_id buf = serialize_set_position_target_local_ned m seq sys_id comp_id buf"
| "serialize_mavlink (CommandLong m) seq sys_id comp_id buf = serialize_command_long m seq sys_id comp_id buf"
| "serialize_mavlink (CommandAck m) seq sys_id comp_id buf = serialize_command_ack m seq sys_id comp_id buf"
| "serialize_mavlink (RcChannelsOverride m) seq sys_id comp_id buf = serialize_rc_channels_override m seq sys_id comp_id buf"
| "serialize_mavlink (ManualControl m) seq sys_id comp_id buf = serialize_manual_control m seq sys_id comp_id buf"
| "serialize_mavlink (SysStatus m) seq sys_id comp_id buf = serialize_sys_status m seq sys_id comp_id buf"
| "serialize_mavlink (Statustext m) seq sys_id comp_id buf = serialize_statustext m seq sys_id comp_id buf"
| "serialize_mavlink (UnknownMsg _) seq sys_id comp_id buf = None"

section \<open>Frames\<close>

record mav_header =
  mh_payload_len :: byte
  mh_incompat_flags :: byte
  mh_compat_flags :: byte
  mh_seq :: byte
  mh_sysid :: byte
  mh_compid :: byte
  mh_msgid :: u32

record mav_signature =
  ms_system_id :: byte
  ms_component_id :: byte
  ms_link_id :: byte
  ms_timestamp :: u64
  ms_signature :: "byte list"

record parsed_frame =
  pf_message :: mav_message
  pf_signature :: "mav_signature option"
  pf_header :: mav_header
  pf_consumed :: nat

definition parse_signature :: "byte \<Rightarrow> byte \<Rightarrow> byte list \<Rightarrow> mav_signature" where
  "parse_signature system_id component_id buf =
     \<lparr>ms_system_id = system_id, ms_component_id = component_id, ms_link_id = buf ! 0,
      ms_timestamp = ucast (buf ! 1) OR push_bit 8 (ucast (buf ! 2)) OR push_bit 16 (ucast (buf ! 3))
        OR push_bit 24 (ucast (buf ! 4)) OR push_bit 32 (ucast (buf ! 5)) OR push_bit 40 (ucast (buf ! 6)),
      ms_signature = take 6 (drop 7 buf)\<rparr>"

definition frame_header :: "byte list \<Rightarrow> mav_header" where
  "frame_header buf =
     \<lparr>mh_payload_len = buf ! 1, mh_incompat_flags = buf ! 2, mh_compat_flags = buf ! 3, mh_seq = buf ! 4,
      mh_sysid = buf ! 5, mh_compid = buf ! 6,
      mh_msgid = ucast (buf ! 7) OR push_bit 8 (ucast (buf ! 8)) OR push_bit 16 (ucast (buf ! 9))\<rparr>"

text \<open>The zero-extended payload a known message is decoded from.\<close>

definition full_payload :: "byte list \<Rightarrow> nat \<Rightarrow> byte list" where
  "full_payload payload declared =
     (let copy_len = min (length payload) declared
      in take declared (take copy_len payload @ replicate (MAX_PAYLOAD_LEN - copy_len) 0))"

definition parse_mavlink_frame :: "byte list \<Rightarrow> (parsed_frame, parse_error) result" where
  "parse_mavlink_frame buf =
     (if length buf < 12 then Err BufferTooShort
      else if buf ! 0 \<noteq> MAVLINK_STX_V2 then Err InvalidStartByte
      else let payload_len = unat (buf ! 1) in
      if MAX_PAYLOAD_LEN < payload_len then Err PayloadTooLong
      else let header = frame_header buf in
      if mh_incompat_flags header AND NOT MAVLINK_IFLAG_SIGNED \<noteq> 0
      then Err (UnsupportedIncompatFlags (mh_incompat_flags header))
      else let is_signed = (mh_incompat_flags header AND MAVLINK_IFLAG_SIGNED \<noteq> 0);
               frame_size = MavHeader_SIZE + payload_len + 2 + (if is_signed then MAVLINK_SIGNATURE_LEN else 0) in
      if length buf < frame_size then Err BufferTooShort
      else let payload = take payload_len (drop MavHeader_SIZE buf);
               crc_offset = MavHeader_SIZE + payload_len;
               received_crc = ucast (buf ! crc_offset) OR push_bit 8 (ucast (buf ! (crc_offset + 1)));
               computed_crc = compute_crc (drop 1 (take crc_offset buf)) (get_crc_extra (mh_msgid header)) in
      if received_crc \<noteq> computed_crc then Err CrcMismatch
      else let signature = (if is_signed
                            then Some (parse_signature (mh_sysid header) (mh_compid header)
                                   (take MAVLINK_SIGNATURE_LEN (drop (crc_offset + 2) buf)))
                            else None)
           in case (case declared_payload_len (mh_msgid header) of
                      Some declared \<Rightarrow>
                        if payload = [] then Err InvalidPayload
                        else parse_message_payload (mh_msgid header) (full_payload payload declared)
                    | None \<Rightarrow> parse_message_payload (mh_msgid header) payload) of
                Err e \<Rightarrow> Err e
              | Ok msg \<Rightarrow> Ok \<lparr>pf_message = msg, pf_signature = signature, pf_header = header,
                             pf_consumed = frame_size\<rparr>)"

definition parse_mavlink ::
  "byte list \<Rightarrow> (mav_message \<times> mav_signature option \<times> nat, parse_error) result" where
  "parse_mavlink buf =
     (case parse_mavlink_frame buf of
        Err e \<Rightarrow> Err e
      | Ok f \<Rightarrow> Ok (pf_message f, pf_signature f, pf_consumed f))"

section \<open>Truncation\<close>

lemma trim_payload_spec:
  assumes "MavHeader_SIZE + 1 \<le> n"
  shows "MavHeader_SIZE + 1 \<le> trim_payload buf n \<and> trim_payload buf n \<le> n
    \<and> (\<forall>i. trim_payload buf n \<le> i \<longrightarrow> i < n \<longrightarrow> buf ! i = 0)"
  using assms
proof (induction n)
  case (Suc n)
  show ?case
  proof (cases "MavHeader_SIZE + 1 < Suc n \<and> buf ! n = 0")
    case True
    with Suc.IH show ?thesis by (auto simp: less_Suc_eq)
  next
    case False
    with Suc.prems show ?thesis by auto
  qed
qed simp

lemma zero_extended:
  assumes "k \<le> length P" "\<And>i. k \<le> i \<Longrightarrow> i < length P \<Longrightarrow> P ! i = 0" "length P \<le> MAX_PAYLOAD_LEN"
  shows "full_payload (take k P) (length P) = P"
proof -
  have "drop k P = replicate (length P - k) 0"
    using assms(1,2) by (intro nth_equalityI) simp_all
  then have "take k P @ replicate (length P - k) 0 = P" by (metis append_take_drop_id)
  moreover have "min (length P) (MAX_PAYLOAD_LEN - k + k) = length P" using assms(1,3) by simp
  ultimately show ?thesis using assms(1,3) by (simp add: full_payload_def Let_def min_def)
qed

lemma msgid_bytes:
  assumes "i < (2 :: u32) ^ 24"
  shows "ucast (ucast i :: byte) OR push_bit 8 (ucast (ucast (drop_bit 8 i) :: byte))
     OR push_bit 16 (ucast (ucast (drop_bit 16 i) :: byte)) = i"
proof -
  have "i = take_bit 24 i" using assms by (simp add: word_unat_eq_iff word_less_nat_alt unsigned_take_bit_eq take_bit_nat_eq_self)
  then have hi: "\<not> bit i n" if "24 \<le> n" for n using that by (metis bit_take_bit_iff not_less)
  show ?thesis
  proof (rule bit_eqI)
    fix n assume "possible_bit TYPE(u32) n"
    then consider "n < 8" | m where "n = 8 + m" "m < 8" | m where "n = 16 + m" "m < 8" | "24 \<le> n"
      using le_Suc_ex [of 8 n] le_Suc_ex [of 16 n] by (fastforce simp: not_less [symmetric])
    then show "bit (ucast (ucast i :: byte) OR push_bit 8 (ucast (ucast (drop_bit 8 i) :: byte))
        OR push_bit 16 (ucast (ucast (drop_bit 16 i) :: byte)) :: u32) n = bit i n"
      by cases (auto simp: bit_simps hi)
  qed
qed

lemma crc_bytes: "ucast (ucast c :: byte) OR push_bit 8 (ucast (ucast (drop_bit 8 c) :: byte)) = (c :: u16)"
  using word_of_le_bytes(1) [of c] by (simp add: u16_of_def read_u16_le_def le_bytes_words)

end
