(* ===== verification/Actuators.thy ===== *)
theory Actuators
  imports Domain
begin

text \<open>
  Actuator data (\<open>mixer/actuators.rs\<close>), the runtime actuator state used by the transition
  gate, the group-aware output sanitizer (\<open>mixer/sanitizer_impl.rs\<close>), the slew limiter
  (\<open>kernel/slew.rs\<close>) and the quad mixers with priority desaturation (\<open>mixer.rs\<close>,
  \<open>mixer/desaturate.rs\<close>). Fixed-size arrays are lists of that length; the well-formedness
  predicates state the lengths and every operation preserves them.
\<close>

section \<open>Data\<close>

definition MAX_ACTUATORS :: nat where
  [simp]: "MAX_ACTUATORS = 16"

definition MAX_GROUPS :: nat where
  [simp]: "MAX_GROUPS = 8"

definition MAX_FALLBACK_AGE_CYCLES :: u16 where
  "MAX_FALLBACK_AGE_CYCLES = 100"

definition MAX_CONSECUTIVE_FALLBACK :: u16 where
  "MAX_CONSECUTIVE_FALLBACK = 10"

datatype group_kind =
  Multirotor | DistributedThrust | ControlSurfaces | Morphing | Auxiliary | CustomGroup u8

datatype coupling_kind = Strong | Weak

record group_vector =
  gv_outputs :: "f32 list"
  gv_mask :: u16
  gv_valid :: bool

definition group_vector_default :: group_vector where
  "group_vector_default = \<lparr>gv_outputs = replicate MAX_ACTUATORS f0, gv_mask = 0, gv_valid = False\<rparr>"

datatype fallback_policy = HoldLastGood | DecayToSafe u16 | SafePattern

record actuator_group_config =
  ag_kind :: group_kind
  ag_coupling :: coupling_kind
  ag_fallback :: fallback_policy
  ag_members :: "u8 list"
  ag_safe_pattern :: group_vector

record actuator_cmd =
  outputs :: "f32 list"
  active_mask :: u16
  ac_sequence :: u32
  ac_timestamp :: timestamp
  fallback_mask :: u8
  sanitized :: bool

definition actuator_cmd_default :: actuator_cmd where
  "actuator_cmd_default =
     \<lparr>outputs = replicate MAX_ACTUATORS f0, active_mask = 0, ac_sequence = 0,
      ac_timestamp = timestamp_default, fallback_mask = 0, sanitized = False\<rparr>"

datatype actuator_health = HealthGood | HealthDegraded | HealthFailed | Stuck | Unknown

record actuator_state =
  as_health :: "actuator_health list"
  as_commanded :: "f32 list"
  as_actual :: "f32 list option"
  as_timestamp :: timestamp

definition actuator_state_default :: actuator_state where
  "actuator_state_default =
     \<lparr>as_health = replicate MAX_ACTUATORS Unknown, as_commanded = replicate MAX_ACTUATORS f0,
      as_actual = None, as_timestamp = timestamp_default\<rparr>"

record actuator_fallback_state =
  last_good :: "group_vector list"
  age :: "u16 list"
  consecutive_fallback :: "u16 list"

definition actuator_fallback_state_default :: actuator_fallback_state where
  "actuator_fallback_state_default =
     \<lparr>last_good = replicate MAX_GROUPS group_vector_default, age = replicate MAX_GROUPS 0,
      consecutive_fallback = replicate MAX_GROUPS 0\<rparr>"

record mode_config =
  mc_mode :: config_mode
  mc_groups :: "actuator_group_config list"

datatype group_sanitize_result =
  AllValid | Clamped | FallbackLastGood | FallbackSafe | FallbackUnavailable

record sanitize_report =
  group_results :: "group_sanitize_result list"
  any_fallback :: bool
  critical_failure :: bool
  consecutive_fallback_limit_exceeded :: bool

definition sanitize_report_default :: sanitize_report where
  "sanitize_report_default =
     \<lparr>group_results = replicate MAX_GROUPS AllValid, any_fallback = False,
      critical_failure = False, consecutive_fallback_limit_exceeded = False\<rparr>"

section \<open>Runtime actuator state\<close>

definition update_commanded :: "actuator_state \<Rightarrow> actuator_cmd \<Rightarrow> timestamp \<Rightarrow> actuator_state" where
  "update_commanded s cmd t = s\<lparr>as_commanded := outputs cmd, as_timestamp := t\<rparr>"

definition set_health :: "actuator_state \<Rightarrow> nat \<Rightarrow> actuator_health \<Rightarrow> actuator_state" where
  "set_health s channel h =
     (if channel < MAX_ACTUATORS then s\<lparr>as_health := (as_health s)[channel := h]\<rparr> else s)"

definition set_actual :: "actuator_state \<Rightarrow> nat \<Rightarrow> f32 \<Rightarrow> actuator_state" where
  "set_actual s channel v =
     (let a = (case as_actual s of None \<Rightarrow> replicate MAX_ACTUATORS f0 | Some xs \<Rightarrow> xs)
      in s\<lparr>as_actual := Some (if channel < MAX_ACTUATORS then a[channel := v] else a)\<rparr>)"

definition all_healthy :: "actuator_state \<Rightarrow> u16 \<Rightarrow> bool" where
  "all_healthy s am \<longleftrightarrow>
     list_all (\<lambda>i. bit am i \<longrightarrow>
       (case as_health s ! i of HealthGood \<Rightarrow> True | Unknown \<Rightarrow> True
        | HealthDegraded \<Rightarrow> False | HealthFailed \<Rightarrow> False | Stuck \<Rightarrow> False)) [0..<MAX_ACTUATORS]"

fun check_symmetric :: "actuator_state \<Rightarrow> (nat \<times> nat) list \<Rightarrow> f32 \<Rightarrow> bool" where
  "check_symmetric s [] tol = True"
| "check_symmetric s ((a, b) # ps) tol =
     (if MAX_ACTUATORS \<le> a \<or> MAX_ACTUATORS \<le> b then check_symmetric s ps tol
      else if f32_lt tol (f32_abs (f32_sub (as_commanded s ! a) (as_commanded s ! b))) then False
      else check_symmetric s ps tol)"

definition count_by_health :: "actuator_state \<Rightarrow> actuator_health \<Rightarrow> u16 \<Rightarrow> nat" where
  "count_by_health s h am =
     length (filter (\<lambda>i. bit am i \<and> as_health s ! i = h) [0..<MAX_ACTUATORS])"

section \<open>Sanitizer\<close>

text \<open>\<open>val.is_valid()\<close> and not outside \<open>[0, 1]\<close>\<close>

definition unit_range :: "f32 \<Rightarrow> bool" where
  "unit_range v \<longleftrightarrow> f32_is_finite v \<and> \<not> (f32_lt v f0 \<or> f32_lt f1 v)"

fun members_valid :: "f32 list \<Rightarrow> u8 list \<Rightarrow> bool" where
  "members_valid outs [] = True"
| "members_valid outs (c # cs) =
     (let idx = unat c
      in if MAX_ACTUATORS \<le> idx then members_valid outs cs
         else if \<not> f32_is_finite (outs ! idx) then False
         else if f32_lt (outs ! idx) f0 \<or> f32_lt f1 (outs ! idx) then False
         else members_valid outs cs)"

definition capture_member :: "f32 list \<Rightarrow> u8 \<Rightarrow> group_vector \<Rightarrow> group_vector" where
  "capture_member outs c v =
     (let idx = unat c
      in if idx < MAX_ACTUATORS
         then v\<lparr>gv_outputs := (gv_outputs v)[idx := outs ! idx], gv_mask := gv_mask v OR flag idx\<rparr>
         else v)"

definition capture_group :: "f32 list \<Rightarrow> u8 list \<Rightarrow> group_vector" where
  "capture_group outs members =
     fold (capture_member outs) members
       \<lparr>gv_outputs = replicate MAX_ACTUATORS f0, gv_mask = 0, gv_valid = True\<rparr>"

text \<open>The member loops that copy a replacement vector, or zero, over a group's channels.\<close>

definition copy_members :: "(nat \<Rightarrow> f32) \<Rightarrow> u8 list \<Rightarrow> f32 list \<Rightarrow> f32 list" where
  "copy_members src members outs =
     fold (\<lambda>c os. let idx = unat c
                  in if idx < MAX_ACTUATORS then os[idx := src idx] else os) members outs"

definition replace_bad_members :: "(nat \<Rightarrow> f32) \<Rightarrow> u8 list \<Rightarrow> f32 list \<Rightarrow> f32 list" where
  "replace_bad_members src members outs =
     fold (\<lambda>c os. let idx = unat c
                  in if MAX_ACTUATORS \<le> idx then os
                     else if \<not> f32_is_finite (os ! idx) \<or> f32_lt (os ! idx) f0 \<or> f32_lt f1 (os ! idx)
                       then os[idx := src idx]
                     else os) members outs"

definition last_good_usable :: "actuator_fallback_state \<Rightarrow> nat \<Rightarrow> bool" where
  "last_good_usable fb i \<longleftrightarrow> gv_valid (last_good fb ! i) \<and> age fb ! i < MAX_FALLBACK_AGE_CYCLES"

text \<open>The replacement source and, for a strongly coupled group, the result it reports.\<close>

definition fallback_source :: "actuator_fallback_state \<Rightarrow> nat \<Rightarrow> actuator_group_config \<Rightarrow> nat \<Rightarrow> f32" where
  "fallback_source fb i g =
     (if last_good_usable fb i then (!) (gv_outputs (last_good fb ! i))
      else if gv_valid (ag_safe_pattern g) then (!) (gv_outputs (ag_safe_pattern g))
      else (\<lambda>_. f0))"

definition strong_result :: "actuator_fallback_state \<Rightarrow> nat \<Rightarrow> actuator_group_config \<Rightarrow> group_sanitize_result" where
  "strong_result fb i g =
     (if last_good_usable fb i then FallbackLastGood
      else if gv_valid (ag_safe_pattern g) then FallbackSafe
      else FallbackUnavailable)"

type_synonym sanitize_state = "actuator_cmd \<times> actuator_fallback_state \<times> sanitize_report"

definition group_valid_step :: "nat \<Rightarrow> actuator_group_config \<Rightarrow> sanitize_state \<Rightarrow> sanitize_state" where
  "group_valid_step i g st = (case st of (cmd, fb, rep) \<Rightarrow>
     (cmd,
      fb\<lparr>last_good := (last_good fb)[i := capture_group (outputs cmd) (ag_members g)],
         age := (age fb)[i := 0]\<rparr>,
      rep\<lparr>group_results := (group_results rep)[i := AllValid]\<rparr>))"

definition group_fallback_step :: "nat \<Rightarrow> actuator_group_config \<Rightarrow> sanitize_state \<Rightarrow> sanitize_state" where
  "group_fallback_step i g st = (case st of (cmd, fb, rep) \<Rightarrow>
     let rep1 = rep\<lparr>any_fallback := True\<rparr>;
         cmd1 = cmd\<lparr>fallback_mask := fallback_mask cmd OR flag i\<rparr>;
         src = fallback_source fb i g;
         (outs, res, crit) =
           (if ag_coupling g = Strong
            then (copy_members src (ag_members g) (outputs cmd1), strong_result fb i g,
                  critical_failure rep1 \<or> strong_result fb i g = FallbackUnavailable)
            else (replace_bad_members src (ag_members g) (outputs cmd1), Clamped,
                  critical_failure rep1))
     in (cmd1\<lparr>outputs := outs\<rparr>,
         fb\<lparr>age := (age fb)[i := sat_add (age fb ! i) 1]\<rparr>,
         rep1\<lparr>group_results := (group_results rep1)[i := res], critical_failure := crit\<rparr>))"

definition track_consecutive :: "nat \<Rightarrow> sanitize_state \<Rightarrow> sanitize_state" where
  "track_consecutive i st = (case st of (cmd, fb, rep) \<Rightarrow>
     if group_results rep ! i = AllValid \<or> group_results rep ! i = Clamped
     then (cmd, fb\<lparr>consecutive_fallback := (consecutive_fallback fb)[i := 0]\<rparr>, rep)
     else (let n = sat_add (consecutive_fallback fb ! i) 1
           in (cmd, fb\<lparr>consecutive_fallback := (consecutive_fallback fb)[i := n]\<rparr>,
               if MAX_CONSECUTIVE_FALLBACK < n
               then rep\<lparr>consecutive_fallback_limit_exceeded := True\<rparr> else rep)))"

definition sanitize_group :: "nat \<Rightarrow> actuator_group_config \<Rightarrow> sanitize_state \<Rightarrow> sanitize_state" where
  "sanitize_group i g st =
     track_consecutive i
       (if members_valid (outputs (fst st)) (ag_members g)
        then group_valid_step i g st else group_fallback_step i g st)"

fun sanitize_from :: "nat \<Rightarrow> actuator_group_config list \<Rightarrow> sanitize_state \<Rightarrow> sanitize_state" where
  "sanitize_from i [] st = st"
| "sanitize_from i (g # gs) st =
     (if MAX_GROUPS \<le> i then st else sanitize_from (Suc i) gs (sanitize_group i g st))"

definition sanitize :: "actuator_cmd \<Rightarrow> mode_config \<Rightarrow> actuator_fallback_state \<Rightarrow> sanitize_state" where
  "sanitize cmd mode fb =
     sanitize_from 0 (mc_groups mode)
       (cmd\<lparr>sanitized := True, fallback_mask := 0\<rparr>, fb, sanitize_report_default)"

section \<open>Slew limiter\<close>

definition slew_channel :: "f32 \<Rightarrow> f32 \<Rightarrow> f32 \<Rightarrow> f32" where
  "slew_channel limit prev target =
     (if \<not> f32_is_finite limit \<or> f32_le limit f0 then target
      else f32_add prev (f32_clamp (f32_sub target prev) (f32_neg limit) limit))"

definition apply_slew_limit :: "actuator_cmd \<Rightarrow> f32 list \<Rightarrow> f32 list \<Rightarrow> actuator_cmd" where
  "apply_slew_limit cmd previous slew =
     cmd\<lparr>outputs := map (\<lambda>i. slew_channel (slew ! i) (previous ! i) (outputs cmd ! i))
            [0..<MAX_ACTUATORS]\<rparr>"

section \<open>Sanitizer lemmas\<close>

definition unit_vec :: "f32 list \<Rightarrow> bool" where
  "unit_vec xs \<longleftrightarrow> length xs = MAX_ACTUATORS \<and> (\<forall>k < MAX_ACTUATORS. unit_range (xs ! k))"

definition fallback_wf :: "actuator_fallback_state \<Rightarrow> bool" where
  "fallback_wf fb \<longleftrightarrow> length (last_good fb) = MAX_GROUPS \<and> length (age fb) = MAX_GROUPS
     \<and> length (consecutive_fallback fb) = MAX_GROUPS
     \<and> (\<forall>g \<in> set (last_good fb). unit_vec (gv_outputs g))"

definition group_config_wf :: "actuator_group_config \<Rightarrow> bool" where
  "group_config_wf g \<longleftrightarrow> (gv_valid (ag_safe_pattern g) \<longrightarrow> unit_vec (gv_outputs (ag_safe_pattern g)))"

definition mode_config_wf :: "mode_config \<Rightarrow> bool" where
  "mode_config_wf m \<longleftrightarrow> list_all group_config_wf (mc_groups m)"

lemma unit_range_0 [simp]: "unit_range 0"
  by code_simp

lemma unit_vecD: "unit_vec xs \<Longrightarrow> k < 16 \<Longrightarrow> unit_range (xs ! k)"
  by (simp add: unit_vec_def)

lemma unit_vec_length: "unit_vec xs \<Longrightarrow> length xs = 16"
  by (simp add: unit_vec_def)

lemma unit_vec_zero [simp]: "unit_vec (replicate 16 0)"
  by (simp add: unit_vec_def)

lemma members_valid_iff:
  "members_valid outs cs \<longleftrightarrow> (\<forall>c \<in> set cs. unat c < MAX_ACTUATORS \<longrightarrow> unit_range (outs ! unat c))"
  by (induction cs) (auto simp: unit_range_def Let_def)

lemma fold_capture_keeps:
  assumes "unit_vec (gv_outputs v)" "members_valid outs cs"
  shows "unit_vec (gv_outputs (fold (capture_member outs) cs v))"
  using assms
  by (induction cs arbitrary: v)
    (auto simp: members_valid_iff capture_member_def Let_def unit_vec_def nth_list_update)

lemma capture_group_unit: "members_valid outs cs \<Longrightarrow> unit_vec (gv_outputs (capture_group outs cs))"
  unfolding capture_group_def by (rule fold_capture_keeps) simp_all

lemma copy_members_length [simp]: "length (copy_members src cs outs) = length outs"
  unfolding copy_members_def by (induction cs arbitrary: outs) (simp_all add: Let_def)

lemma copy_members_Cons: "copy_members src (c # cs) outs =
    copy_members src cs (if unat c < MAX_ACTUATORS then outs[unat c := src (unat c)] else outs)"
  by (simp add: copy_members_def Let_def)

lemma copy_members_nth:
  "length outs = MAX_ACTUATORS \<Longrightarrow> k < MAX_ACTUATORS \<Longrightarrow>
   copy_members src cs outs ! k = (if \<exists>c \<in> set cs. unat c = k then src k else outs ! k)"
proof (induction cs arbitrary: outs)
  case Nil
  then show ?case by (simp add: copy_members_def)
next
  case (Cons c cs)
  then show ?case by (auto simp: copy_members_Cons nth_list_update)
qed

lemma replace_bad_members_length [simp]: "length (replace_bad_members src cs outs) = length outs"
  unfolding replace_bad_members_def by (induction cs arbitrary: outs) (simp_all add: Let_def)

lemma replace_bad_members_Cons: "replace_bad_members src (c # cs) outs =
    replace_bad_members src cs
      (if unat c < MAX_ACTUATORS \<and> \<not> unit_range (outs ! unat c)
       then outs[unat c := src (unat c)] else outs)"
  by (auto simp: replace_bad_members_def Let_def unit_range_def)

lemma replace_bad_members_nth:
  "length outs = MAX_ACTUATORS \<Longrightarrow> k < MAX_ACTUATORS \<Longrightarrow>
   replace_bad_members src cs outs ! k =
     (if (\<exists>c \<in> set cs. unat c = k) \<and> \<not> unit_range (outs ! k) then src k else outs ! k)"
proof (induction cs arbitrary: outs)
  case Nil
  then show ?case by (simp add: replace_bad_members_def)
next
  case (Cons c cs)
  then show ?case by (auto simp: replace_bad_members_Cons nth_list_update)
qed

lemma fallback_source_unit:
  assumes "fallback_wf fb" "group_config_wf g" "i < MAX_GROUPS" "k < MAX_ACTUATORS"
  shows "unit_range (fallback_source fb i g k)"
  using assms
  by (auto simp: fallback_source_def fallback_wf_def group_config_wf_def unit_vec_def)


lemmas sanitize_step_defs =
  sanitize_group_def group_valid_step_def group_fallback_step_def track_consecutive_def

lemma sanitize_group_outputs:
  "outputs (fst (sanitize_group i g (cmd, fb, rep))) =
     (if members_valid (outputs cmd) (ag_members g) then outputs cmd
      else if ag_coupling g = Strong then copy_members (fallback_source fb i g) (ag_members g) (outputs cmd)
      else replace_bad_members (fallback_source fb i g) (ag_members g) (outputs cmd))"
  by (simp add: sanitize_step_defs Let_def)

lemma sanitize_group_results:
  "i < length (group_results rep) \<Longrightarrow>
   group_results (snd (snd (sanitize_group i g (cmd, fb, rep)))) =
     (group_results rep)[i :=
       (if members_valid (outputs cmd) (ag_members g) then AllValid
        else if ag_coupling g = Strong then strong_result fb i g else Clamped)]"
  by (simp add: sanitize_step_defs Let_def)

lemma sanitize_group_frame:
  "active_mask (fst (sanitize_group i g (cmd, fb, rep))) = active_mask cmd"
  "ac_sequence (fst (sanitize_group i g (cmd, fb, rep))) = ac_sequence cmd"
  "ac_timestamp (fst (sanitize_group i g (cmd, fb, rep))) = ac_timestamp cmd"
  "sanitized (fst (sanitize_group i g (cmd, fb, rep))) = sanitized cmd"
  "fallback_mask (fst (sanitize_group i g (cmd, fb, rep))) =
     (if members_valid (outputs cmd) (ag_members g) then fallback_mask cmd
      else fallback_mask cmd OR flag i)"
  "any_fallback (snd (snd (sanitize_group i g (cmd, fb, rep)))) \<longleftrightarrow>
     any_fallback rep \<or> \<not> members_valid (outputs cmd) (ag_members g)"
  "length (group_results (snd (snd (sanitize_group i g (cmd, fb, rep))))) = length (group_results rep)"
  by (simp_all add: sanitize_step_defs Let_def)

lemma sanitize_group_fallback_wf:
  assumes "fallback_wf fb"
  shows "fallback_wf (fst (snd (sanitize_group i g (cmd, fb, rep))))"
  using assms capture_group_unit [of "outputs cmd" "ag_members g"]
  by (auto simp: sanitize_step_defs Let_def fallback_wf_def
      dest!: set_update_subset_insert [THEN subsetD])

lemma sanitize_group_unit:
  assumes "fallback_wf fb" "group_config_wf g" "i < MAX_GROUPS" "length (outputs cmd) = MAX_ACTUATORS"
    and "k < MAX_ACTUATORS" "unit_range (outputs cmd ! k) \<or> (\<exists>c \<in> set (ag_members g). unat c = k)"
  shows "unit_range (outputs (fst (sanitize_group i g (cmd, fb, rep))) ! k)"
  using assms fallback_source_unit [of fb g i k]
  by (auto simp: sanitize_group_outputs members_valid_iff copy_members_nth replace_bad_members_nth)

lemma sanitize_group_non_member:
  assumes "length (outputs cmd) = MAX_ACTUATORS" "k < MAX_ACTUATORS" "\<forall>c \<in> set (ag_members g). unat c \<noteq> k"
  shows "outputs (fst (sanitize_group i g (cmd, fb, rep))) ! k = outputs cmd ! k"
  using assms by (auto simp: sanitize_group_outputs copy_members_nth replace_bad_members_nth)

lemma sanitize_group_length [simp]:
  "length (outputs (fst (sanitize_group i g (cmd, fb, rep)))) = length (outputs cmd)"
  by (simp add: sanitize_group_outputs)

text \<open>What the whole pass establishes, by induction over the groups still to be visited.\<close>

lemma sanitize_from_spec:
  assumes "sanitize_from i gs (cmd, fb, rep) = (cmd', fb', rep')"
    and "fallback_wf fb" "list_all group_config_wf gs" "length (outputs cmd) = MAX_ACTUATORS"
    and "length (group_results rep) = MAX_GROUPS"
  shows "fallback_wf fb' \<and> length (outputs cmd') = MAX_ACTUATORS
    \<and> length (group_results rep') = MAX_GROUPS
    \<and> active_mask cmd' = active_mask cmd \<and> ac_sequence cmd' = ac_sequence cmd
    \<and> ac_timestamp cmd' = ac_timestamp cmd \<and> sanitized cmd' = sanitized cmd
    \<and> (\<forall>k < MAX_ACTUATORS. unit_range (outputs cmd ! k) \<longrightarrow> unit_range (outputs cmd' ! k))
    \<and> (\<forall>k < MAX_ACTUATORS. (\<exists>g \<in> set (take (MAX_GROUPS - i) gs). \<exists>c \<in> set (ag_members g). unat c = k)
          \<longrightarrow> unit_range (outputs cmd' ! k))
    \<and> (\<forall>k < MAX_ACTUATORS. (\<forall>g \<in> set (take (MAX_GROUPS - i) gs). \<forall>c \<in> set (ag_members g). unat c \<noteq> k)
          \<longrightarrow> outputs cmd' ! k = outputs cmd ! k)"
  using assms
proof (induction i gs "(cmd, fb, rep)" arbitrary: cmd fb rep rule: sanitize_from.induct)
  case (1 i)
  then show ?case by auto
next
  case (2 i g gs)
  show ?case
  proof (cases "MAX_GROUPS \<le> i")
    case True
    with 2 show ?thesis by simp
  next
    case False
    obtain cmd1 fb1 rep1 where s: "sanitize_group i g (cmd, fb, rep) = (cmd1, fb1, rep1)"
      by (metis prod_cases3)
    note f = sanitize_group_frame [of i g cmd fb rep, unfolded s]
    have wf1: "fallback_wf fb1"
      using sanitize_group_fallback_wf [of fb i g cmd rep] 2 by (simp add: s)
    have len1: "length (outputs cmd1) = MAX_ACTUATORS"
      using sanitize_group_length [of i g cmd fb rep] 2 by (simp add: s)
    have unit1: "unit_range (outputs cmd1 ! k)"
      if "k < MAX_ACTUATORS" "unit_range (outputs cmd ! k) \<or> (\<exists>c \<in> set (ag_members g). unat c = k)" for k
      using sanitize_group_unit [of fb g i cmd k rep] 2 that False by (auto simp: s)
    have same1: "outputs cmd1 ! k = outputs cmd ! k"
      if "k < MAX_ACTUATORS" "\<forall>c \<in> set (ag_members g). unat c \<noteq> k" for k
      using sanitize_group_non_member [of cmd k g i fb rep] 2 that by (simp add: s)
    have take_eq: "take (MAX_GROUPS - i) (g # gs) = g # take (MAX_GROUPS - Suc i) gs"
      using False by (simp add: take_Cons')
    have IH: "fallback_wf fb' \<and> length (outputs cmd') = MAX_ACTUATORS
      \<and> length (group_results rep') = MAX_GROUPS
      \<and> active_mask cmd' = active_mask cmd1 \<and> ac_sequence cmd' = ac_sequence cmd1
      \<and> ac_timestamp cmd' = ac_timestamp cmd1 \<and> sanitized cmd' = sanitized cmd1
      \<and> (\<forall>k < MAX_ACTUATORS. unit_range (outputs cmd1 ! k) \<longrightarrow> unit_range (outputs cmd' ! k))
      \<and> (\<forall>k < MAX_ACTUATORS. (\<exists>g \<in> set (take (MAX_GROUPS - Suc i) gs). \<exists>c \<in> set (ag_members g). unat c = k)
            \<longrightarrow> unit_range (outputs cmd' ! k))
      \<and> (\<forall>k < MAX_ACTUATORS. (\<forall>g \<in> set (take (MAX_GROUPS - Suc i) gs). \<forall>c \<in> set (ag_members g). unat c \<noteq> k)
            \<longrightarrow> outputs cmd' ! k = outputs cmd1 ! k)"
      by (rule "2.hyps" [OF False s]) (use 2 False s wf1 len1 f in auto)
    show ?thesis
      unfolding take_eq using IH f unit1 same1 by (auto simp del: MAX_ACTUATORS_def MAX_GROUPS_def)
  qed
qed


text \<open>The bookkeeping: a set bit of the fallback mask is a group whose result is not \<open>AllValid\<close>.\<close>

definition report_consistent :: "sanitize_state \<Rightarrow> bool" where
  "report_consistent st \<longleftrightarrow>
     (\<forall>j < MAX_GROUPS. bit (fallback_mask (fst st)) j \<longleftrightarrow> group_results (snd (snd st)) ! j \<noteq> AllValid)
     \<and> (any_fallback (snd (snd st)) \<longleftrightarrow> fallback_mask (fst st) \<noteq> 0)
     \<and> length (group_results (snd (snd st))) = MAX_GROUPS"

lemma strong_result_not_valid [simp]: "strong_result fb i g \<noteq> AllValid"
  by (simp add: strong_result_def)

lemma sanitize_group_report:
  assumes "report_consistent (cmd, fb, rep)" "i < MAX_GROUPS" "group_results rep ! i = AllValid"
  shows "report_consistent (sanitize_group i g (cmd, fb, rep))"
    and "j \<noteq> i \<Longrightarrow> group_results (snd (snd (sanitize_group i g (cmd, fb, rep)))) ! j = group_results rep ! j"
proof -
  have nz: "fallback_mask cmd OR flag i \<noteq> 0"
    using assms(2) by (intro or_flag_nonzero) simp
  show "report_consistent (sanitize_group i g (cmd, fb, rep))"
    using assms nz
    by (auto simp: report_consistent_def sanitize_group_frame sanitize_group_results
        nth_list_update flag_simps)
  show "j \<noteq> i \<Longrightarrow> group_results (snd (snd (sanitize_group i g (cmd, fb, rep)))) ! j = group_results rep ! j"
    using assms by (auto simp: report_consistent_def sanitize_group_results)
qed

lemma sanitize_from_report:
  assumes "report_consistent st" "\<forall>j. i \<le> j \<and> j < MAX_GROUPS \<longrightarrow> group_results (snd (snd st)) ! j = AllValid"
  shows "report_consistent (sanitize_from i gs st)"
  using assms
proof (induction i gs st rule: sanitize_from.induct)
  case (1 i st)
  then show ?case by simp
next
  case (2 i g gs st)
  obtain cmd fb rep where st: "st = (cmd, fb, rep)" by (cases st) auto
  show ?case
  proof (cases "MAX_GROUPS \<le> i")
    case True
    with 2 show ?thesis by simp
  next
    case False
    have "report_consistent (sanitize_group i g st)"
      using sanitize_group_report(1) [of cmd fb rep i g] 2 False by (simp add: st)
    moreover have "\<forall>j. Suc i \<le> j \<and> j < MAX_GROUPS \<longrightarrow>
        group_results (snd (snd (sanitize_group i g st))) ! j = AllValid"
      using sanitize_group_report(2) [of cmd fb rep i _ g] 2 False by (auto simp: st)
    ultimately show ?thesis using 2 False by simp
  qed
qed

section \<open>The sanitizer contract\<close>

text \<open>
  What a client of an output sanitizer may rely on, whatever state \<open>'f\<close> the sanitizer keeps
  between cycles: the state invariant and the channel count are kept, the bookkeeping
  fields of the command pass through, and every channel the configuration drives is a
  finite value of \<open>[0, 1]\<close>.
\<close>

definition driven :: "mode_config \<Rightarrow> nat \<Rightarrow> bool" where
  "driven m k \<longleftrightarrow> k < MAX_ACTUATORS
     \<and> (\<exists>g \<in> set (take MAX_GROUPS (mc_groups m)). \<exists>c \<in> set (ag_members g). unat c = k)"

fun sanitize_trace ::
  "(actuator_cmd \<Rightarrow> mode_config \<Rightarrow> 'f \<Rightarrow> actuator_cmd \<times> 'f \<times> sanitize_report)
   \<Rightarrow> mode_config \<Rightarrow> actuator_cmd list \<Rightarrow> 'f \<Rightarrow> actuator_cmd list" where
  "sanitize_trace san m [] fb = []"
| "sanitize_trace san m (c # cs) fb =
     (case san c m fb of (c', fb', _) \<Rightarrow> c' # sanitize_trace san m cs fb')"

locale actuator_sanitizer =
  fixes san :: "actuator_cmd \<Rightarrow> mode_config \<Rightarrow> 'f \<Rightarrow> actuator_cmd \<times> 'f \<times> sanitize_report"
    and inv :: "'f \<Rightarrow> bool" and cfg_ok :: "mode_config \<Rightarrow> bool"
  assumes keeps: "san c m fb = (c', fb', r) \<Longrightarrow> inv fb \<Longrightarrow> cfg_ok m \<Longrightarrow> length (outputs c) = 16
      \<Longrightarrow> inv fb' \<and> length (outputs c') = 16"
    and passes: "san c m fb = (c', fb', r) \<Longrightarrow> inv fb \<Longrightarrow> cfg_ok m \<Longrightarrow> length (outputs c) = 16
      \<Longrightarrow> active_mask c' = active_mask c \<and> ac_sequence c' = ac_sequence c
        \<and> ac_timestamp c' = ac_timestamp c \<and> sanitized c'"
    and safe: "san c m fb = (c', fb', r) \<Longrightarrow> inv fb \<Longrightarrow> cfg_ok m \<Longrightarrow> length (outputs c) = 16
      \<Longrightarrow> driven m k \<Longrightarrow> unit_range (outputs c' ! k)"
begin

lemma trace_safe:
  assumes "inv fb" "cfg_ok m" "\<forall>c \<in> set cs. length (outputs c) = 16"
  shows "\<forall>c' \<in> set (sanitize_trace san m cs fb). sanitized c' \<and> (\<forall>k. driven m k \<longrightarrow> unit_range (outputs c' ! k))"
  using assms
proof (induction cs arbitrary: fb)
  case Nil
  show ?case by simp
next
  case (Cons c cs)
  obtain c' fb' r where s: "san c m fb = (c', fb', r)" by (cases "san c m fb") auto
  show ?case
    using Cons keeps [OF s] passes [OF s] safe [OF s] by (auto simp: s)
qed

end

lemma fallback_wf_default: "fallback_wf actuator_fallback_state_default"
  by (simp add: fallback_wf_def actuator_fallback_state_default_def group_vector_default_def)

lemma sanitize_spec:
  assumes "sanitize c m fb = (c', fb', r)" "fallback_wf fb" "mode_config_wf m" "length (outputs c) = MAX_ACTUATORS"
  shows "fallback_wf fb'" "length (outputs c') = MAX_ACTUATORS"
    "active_mask c' = active_mask c" "ac_sequence c' = ac_sequence c" "ac_timestamp c' = ac_timestamp c"
    "sanitized c'"
    "driven m k \<Longrightarrow> unit_range (outputs c' ! k)"
    "k < MAX_ACTUATORS \<Longrightarrow> \<not> driven m k \<Longrightarrow> outputs c' ! k = outputs c ! k"
  using sanitize_from_spec [OF assms(1) [unfolded sanitize_def]] assms(2-4)
  by (auto simp: mode_config_wf_def sanitize_report_default_def driven_def)

interpretation group_sanitizer: actuator_sanitizer sanitize fallback_wf mode_config_wf
proof
  fix c m fb c' fb' r k
  assume s: "sanitize c m fb = (c', fb', r)" "fallback_wf fb" "mode_config_wf m" "length (outputs c) = 16"
  note spec = sanitize_spec [OF s(1-3)]
  show "fallback_wf fb' \<and> length (outputs c') = 16" using spec(1,2) s(4) by simp
  show "active_mask c' = active_mask c \<and> ac_sequence c' = ac_sequence c
        \<and> ac_timestamp c' = ac_timestamp c \<and> sanitized c'" using spec(3-6) s(4) by simp
  show "driven m k \<Longrightarrow> unit_range (outputs c' ! k)" using spec(7) s(4) by simp
qed

section \<open>Slew lemmas\<close>

lemma slew_channel_bounded:
  assumes "f32_is_finite limit" "f32_lt 0 limit" "f32_is_finite prev" "\<not> f32_is_nan (f32_sub target prev)"
  shows "f32_le (f32_sub prev limit) (slew_channel limit prev target)"
    and "f32_le (slew_channel limit prev target) (f32_add prev limit)"
proof -
  have nl: "\<not> f32_le limit 0" using assms(2) by (auto simp: f32_lt_def f32_le_def)
  have lim: "f32_le (f32_neg limit) limit"
    using assms(1,2) by (simp add: f32_le_def f32_lt_def f32_nan_key f32_finite_key)
  let ?d = "f32_clamp (f32_sub target prev) (f32_neg limit) limit"
  note cl = f32_clamp_bounds [OF lim assms(4)]
  have fin: "f32_is_finite ?d"
    using f32_le_finite [OF cl] assms(1) by simp
  have e: "slew_channel limit prev target = f32_add prev ?d"
    using assms(1) nl by (simp add: slew_channel_def)
  show "f32_le (f32_sub prev limit) (slew_channel limit prev target)"
    unfolding e f32_sub_def [of prev limit] using cl(1) fin assms(1,3) by (intro f32_add_mono) simp_all
  show "f32_le (slew_channel limit prev target) (f32_add prev limit)"
    unfolding e using cl(2) fin assms(1,3) by (intro f32_add_mono) simp_all
qed

lemma f32_unit_scaled:
  assumes "f32_is_finite x" "f32_le f0 x" "f32_le x f1"
  shows "0 \<le> f32_scaled x" "f32_scaled x \<le> 2 ^ 149"
proof -
  have c: "f32_is_finite f0" "f32_is_finite f1" "f32_scaled f0 = 0" "f32_scaled f1 = 2 ^ 149" by code_simp+
  show "0 \<le> f32_scaled x" using f32_scaled_mono [OF c(1) assms(1)] assms(2) c(3) by (simp add: f32_le_def)
  show "f32_scaled x \<le> 2 ^ 149" using f32_scaled_mono [OF assms(1) c(2)] assms(3) c(4) by (simp add: f32_le_def)
qed


lemma unit_range_le: "unit_range x \<longleftrightarrow> f32_is_finite x \<and> f32_le f0 x \<and> f32_le x f1"
proof -
  have "\<not> f32_is_nan f0" "\<not> f32_is_nan f1" by code_simp+
  then show ?thesis
    using f32_not_lt [of x f0] f32_not_lt [of f1 x] by (auto simp: unit_range_def f32_finite_not_nan)
qed

text \<open>
  One slewed step from a command in \<open>[0, 1]\<close> towards one in \<open>[0, 1]\<close> stays in \<open>[0, 1]\<close>, both
  roundings included: the difference is at most \<open>2 ^ -24\<close> too large and the sum, at most half a
  unit above 1, rounds back to 1.
\<close>

lemma slew_channel_unit:
  assumes p: "unit_range prev" and t: "unit_range target"
  shows "unit_range (slew_channel limit prev target)"
proof (cases "\<not> f32_is_finite limit \<or> f32_le limit f0")
  case True
  then show ?thesis using t by (simp add: slew_channel_def)
next
  case False
  let ?d = "f32_sub target prev" and ?c = "f32_clamp (f32_sub target prev) (f32_neg limit) limit"
  let ?P = "f32_scaled prev" and ?T = "f32_scaled target"
  have fp: "f32_is_finite prev" and ft: "f32_is_finite target" using p t by (simp_all add: unit_range_le)
  have P: "0 \<le> ?P" "?P \<le> 2 ^ 149" and T: "0 \<le> ?T" "?T \<le> 2 ^ 149"
    using p t f32_unit_scaled by (auto simp: unit_range_le)
  have kd: "f32_key ?d = f32_round_key (?T - ?P)"
    using fp ft by (simp add: f32_sub_def f32_add_key)
  have r: "f32_round_key (2 ^ 149) = 0x3F800000" "f32_round_key (- (2 ^ 149)) = - 0x3F800000"
    "f32_round_key (2 ^ 149 + 2 ^ 125) = 0x3F800000" "f32_round_key 0 = 0" by code_simp+
  have fd: "f32_is_finite ?d"
    using f32_round_key_mono [of "?T - ?P" "2 ^ 149"] f32_round_key_mono [of "- (2 ^ 149)" "?T - ?P"] P T r
    by (simp add: f32_finite_key kd)
  have nf: "f32_is_finite f0" by code_simp
  have lim: "f32_is_finite limit" "0 < f32_key limit"
    using False f32_finite_not_nan [of f0] nf by (auto simp: f32_le_def f32_finite_not_nan)
  have c: "min (f32_key ?d) 0 \<le> f32_key ?c" "f32_key ?c \<le> max (f32_key ?d) 0" and fc: "f32_is_finite ?c"
    using fd lim by (auto simp: f32_clamp_def Let_def f32_lt_def f32_finite_not_nan)
  have "f32_key (f32_neg prev) \<le> f32_key ?d"
    using f32_round_key_mono [of "- ?P" "?T - ?P"] T f32_round_key_scaled [of "f32_neg prev"] fp kd by simp
  moreover have "f32_key (f32_neg prev) \<le> 0" using p by (simp add: unit_range_le f32_le_def)
  ultimately have "f32_key (f32_neg prev) \<le> f32_key ?c" using c by linarith
  then have lo: "- ?P \<le> f32_scaled ?c"
    using f32_scaled_mono [of "f32_neg prev" ?c] fp fc by simp
  have hi: "f32_scaled ?c \<le> 2 ^ 149 - ?P + 2 ^ 125"
  proof (cases "?T - ?P \<le> 0")
    case True
    then have "f32_key ?d \<le> 0" using f32_round_key_mono [of "?T - ?P" 0] r kd by simp
    then have "f32_key ?c \<le> f32_key f0" using c by simp
    moreover have "f32_is_finite f0" by code_simp
    ultimately have "f32_scaled ?c \<le> 0" using f32_scaled_mono [of ?c f0] fc by simp
    then show ?thesis using P by simp
  next
    case n: False
    then have "f32_key ?d = f32_round_mag (?T - ?P) 1" by (simp add: kd f32_round_key_def)
    moreover have "0 \<le> f32_round_mag (?T - ?P) 1" using n by (intro f32_round_mag_nonneg) simp_all
    ultimately have d: "0 \<le> f32_key ?d" "f32_scaled ?d = f32_scaled_mag (f32_round_mag (?T - ?P) 1)"
      using f32_scaled_key [of ?d] by simp_all
    have "2 * f32_scaled_mag (f32_round_mag (?T - ?P) 1) \<le> 2 * (?T - ?P) + 2 ^ (150 - 24)"
      using n P T by (intro f32_round_mag_error) simp_all
    moreover have "f32_scaled ?c \<le> f32_scaled ?d" using c d(1) fc fd by (intro f32_scaled_mono) simp_all
    ultimately show ?thesis using d T by simp
  qed
  have "f32_key (f32_add prev ?c) = f32_round_key (?P + f32_scaled ?c)" "\<not> f32_is_nan (f32_add prev ?c)"
    using fp fc by (simp_all add: f32_add_key)
  moreover have "f32_round_key 0 \<le> f32_round_key (?P + f32_scaled ?c)"
    using lo by (intro f32_round_key_mono) simp
  moreover have "f32_round_key (?P + f32_scaled ?c) \<le> f32_round_key (2 ^ 149 + 2 ^ 125)"
    using hi by (intro f32_round_key_mono) simp
  ultimately have k: "0 \<le> f32_key (f32_add prev ?c)" "f32_key (f32_add prev ?c) \<le> 0x3F800000"
    "\<not> f32_is_nan (f32_add prev ?c)" using r by simp_all
  have "\<not> f32_is_nan f0" "\<not> f32_is_nan f1" by code_simp+
  then have "unit_range (f32_add prev ?c)"
    using k by (simp add: unit_range_le f32_le_def f32_finite_key)
  then show ?thesis using False by (simp add: slew_channel_def)
qed

lemma slew_channel_disabled:
  "\<not> f32_is_finite limit \<or> f32_le limit 0 \<Longrightarrow> slew_channel limit prev target = target"
  by (simp add: slew_channel_def)

lemma apply_slew_limit_nth:
  "i < MAX_ACTUATORS \<Longrightarrow> outputs (apply_slew_limit cmd p l) ! i = slew_channel (l ! i) (p ! i) (outputs cmd ! i)"
  by (simp add: apply_slew_limit_def)

lemma apply_slew_limit_frame [simp]:
  "length (outputs (apply_slew_limit cmd p l)) = 16"
  "active_mask (apply_slew_limit cmd p l) = active_mask cmd"
  "ac_sequence (apply_slew_limit cmd p l) = ac_sequence cmd"
  "sanitized (apply_slew_limit cmd p l) = sanitized cmd"
  by (simp_all add: apply_slew_limit_def)

lemma apply_slew_limit_disabled:
  assumes "length (outputs cmd) = MAX_ACTUATORS" "\<forall>i < MAX_ACTUATORS. \<not> f32_is_finite (l ! i) \<or> f32_le (l ! i) 0"
  shows "apply_slew_limit cmd p l = cmd"
proof -
  have "outputs (apply_slew_limit cmd p l) = outputs cmd"
    by (rule nth_equalityI) (use assms in \<open>auto simp: apply_slew_limit_nth slew_channel_disabled\<close>)
  then show ?thesis by (simp add: apply_slew_limit_def)
qed

section \<open>Properties\<close>

text \<open>over any sequence of cycles that starts from the power-on fallback memory, whatever
  values the mixer produced (NaN, infinite or out of range), every channel a configured
  group drives leaves the sanitizer finite and inside \<open>[0, 1]\<close>, and the command is marked
  sanitized. The safe patterns of the configuration must themselves be in range.\<close>

lemma sanitize_trace_safe:
  assumes "mode_config_wf m" "\<forall>c \<in> set cs. length (outputs c) = 16"
  shows "\<forall>c' \<in> set (sanitize_trace sanitize m cs actuator_fallback_state_default).
           sanitized c' \<and> (\<forall>k. driven m k \<longrightarrow> unit_range (outputs c' ! k))"
  by (rule group_sanitizer.trace_safe [OF fallback_wf_default assms])

definition example_quad_mode :: mode_config where
  "example_quad_mode =
     \<lparr>mc_mode = Hover, mc_groups =
       [\<lparr>ag_kind = Multirotor, ag_coupling = Strong, ag_fallback = SafePattern,
          ag_members = [0, 1, 2, 3],
          ag_safe_pattern = \<lparr>gv_outputs = replicate 16 0, gv_mask = 15, gv_valid = True\<rparr>\<rparr>]\<rparr>"

lemma example_quad_mode_wf: "mode_config_wf example_quad_mode"
  by (simp add: example_quad_mode_def mode_config_wf_def group_config_wf_def)

lemma example_quad_mode_driven: "driven example_quad_mode k \<longleftrightarrow> k < 4"
  by (auto simp: example_quad_mode_def driven_def)

lemma sanitize_trace_safe_witness:
  "unit_range (outputs (hd (sanitize_trace sanitize example_quad_mode
      [actuator_cmd_default\<lparr>outputs := replicate 16 f32_nan\<rparr>] actuator_fallback_state_default)) ! 3)"
  using sanitize_trace_safe [OF example_quad_mode_wf,
      of "[actuator_cmd_default\<lparr>outputs := replicate 16 f32_nan\<rparr>]"]
  by (auto simp: example_quad_mode_driven split: prod.splits)

text \<open>The sanitizer touches nothing else: a channel no group drives keeps its value, the
  active mask, sequence number and timestamp pass through, and the fallback memory keeps
  its invariant, so the guarantee holds again in the next cycle.\<close>

theorem sanitize_frame:
  assumes "sanitize c m fb = (c', fb', r)" "fallback_wf fb" "mode_config_wf m"
    and "length (outputs c) = MAX_ACTUATORS"
  shows "fallback_wf fb' \<and> active_mask c' = active_mask c \<and> ac_sequence c' = ac_sequence c
    \<and> ac_timestamp c' = ac_timestamp c
    \<and> (\<forall>k < MAX_ACTUATORS. \<not> driven m k \<longrightarrow> outputs c' ! k = outputs c ! k)"
  using sanitize_spec [OF assms] by blast

theorem sanitize_frame_witness:
  "outputs (fst (sanitize (actuator_cmd_default\<lparr>outputs := replicate 16 f32_nan\<rparr>)
      example_quad_mode actuator_fallback_state_default)) ! 9 = f32_nan"
proof -
  let ?c = "actuator_cmd_default\<lparr>outputs := replicate 16 f32_nan\<rparr>"
  obtain c' fb' r where s: "sanitize ?c example_quad_mode actuator_fallback_state_default = (c', fb', r)"
    by (cases "sanitize ?c example_quad_mode actuator_fallback_state_default") auto
  show ?thesis
    using sanitize_frame [OF s fallback_wf_default example_quad_mode_wf]
    by (simp add: s example_quad_mode_driven)
qed

text \<open>The report is honest: bit \<open>i\<close> of the command's fallback mask is set exactly when the
  report says that group \<open>i\<close> was not passed through, and \<open>any_fallback\<close> is set exactly when
  the mask is non-zero.\<close>

theorem sanitize_report_honest:
  "case sanitize c m fb of (c', fb', r) \<Rightarrow>
     (\<forall>i < MAX_GROUPS. bit (fallback_mask c') i = (group_results r ! i \<noteq> AllValid))
     \<and> any_fallback r = (fallback_mask c' \<noteq> 0)"
proof -
  have "report_consistent (sanitize c m fb)"
    unfolding sanitize_def
    by (rule sanitize_from_report) (auto simp: report_consistent_def sanitize_report_default_def)
  then show ?thesis by (cases "sanitize c m fb") (simp add: report_consistent_def)
qed

theorem sanitize_report_honest_witness:
  "bit (fallback_mask (fst (sanitize (actuator_cmd_default\<lparr>outputs := replicate 16 f32_nan\<rparr>)
      example_quad_mode actuator_fallback_state_default))) 0
   = (group_results (snd (snd (sanitize (actuator_cmd_default\<lparr>outputs := replicate 16 f32_nan\<rparr>)
      example_quad_mode actuator_fallback_state_default))) ! 0 \<noteq> AllValid)"
  using sanitize_report_honest [of "actuator_cmd_default\<lparr>outputs := replicate 16 f32_nan\<rparr>"
      example_quad_mode actuator_fallback_state_default]
  by (auto split: prod.splits)

text \<open>In a strongly coupled group one bad channel replaces the whole group by one
  consistent vector: the last good one while it is younger than \<open>MAX_FALLBACK_AGE_CYCLES\<close>,
  else the configured safe pattern, else zero; no commanded value of the group survives.\<close>

theorem strong_group_replaced_whole:
  assumes "ag_coupling g = Strong" "\<not> members_valid (outputs cmd) (ag_members g)"
    and "c \<in> set (ag_members g)" "unat c < MAX_ACTUATORS" "length (outputs cmd) = MAX_ACTUATORS"
  shows "outputs (fst (sanitize_group i g (cmd, fb, rep))) ! unat c =
    (if gv_valid (last_good fb ! i) \<and> age fb ! i < MAX_FALLBACK_AGE_CYCLES
       then gv_outputs (last_good fb ! i) ! unat c
     else if gv_valid (ag_safe_pattern g) then gv_outputs (ag_safe_pattern g) ! unat c
     else 0)"
  using assms
  by (auto simp: sanitize_group_outputs copy_members_nth fallback_source_def last_good_usable_def)

theorem strong_group_replaced_whole_witness:
  "outputs (fst (sanitize_group 0 (hd (mc_groups example_quad_mode))
      (actuator_cmd_default\<lparr>outputs := (replicate 16 f1)[2 := f32_nan]\<rparr>,
       actuator_fallback_state_default, sanitize_report_default))) ! 1 = 0"
proof -
  have "\<not> f32_is_finite f32_nan" by code_simp
  then have "\<not> members_valid ((replicate 16 f1)[2 := f32_nan]) [0, 1, 2, 3]"
    by (auto simp: members_valid_iff unit_range_def intro!: exI [of _ 2])
  then show ?thesis
    using strong_group_replaced_whole [of "hd (mc_groups example_quad_mode)"
        "actuator_cmd_default\<lparr>outputs := (replicate 16 f1)[2 := f32_nan]\<rparr>" 1 0
        actuator_fallback_state_default sanitize_report_default]
    by (simp add: example_quad_mode_def actuator_fallback_state_default_def group_vector_default_def)
qed

text \<open>the slew limiter bounds the step of every enabled channel: with a positive finite
  limit the new output lies between the previous output minus and plus the limit (each
  bound being the machine's rounded sum), and a non-positive or non-finite limit leaves the
  channel alone.\<close>

lemma slew_limit_bounds:
  assumes "i < MAX_ACTUATORS" "f32_is_finite (p ! i)" "\<not> f32_is_nan (f32_sub (outputs cmd ! i) (p ! i))"
  shows "if f32_is_finite (l ! i) \<and> f32_lt 0 (l ! i)
    then f32_le (f32_sub (p ! i) (l ! i)) (outputs (apply_slew_limit cmd p l) ! i)
       \<and> f32_le (outputs (apply_slew_limit cmd p l) ! i) (f32_add (p ! i) (l ! i))
    else outputs (apply_slew_limit cmd p l) ! i = outputs cmd ! i"
  using assms slew_channel_bounded [of "l ! i" "p ! i" "outputs cmd ! i"]
  by (auto simp: apply_slew_limit_nth slew_channel_def f32_lt_def f32_le_def f32_nan_key f32_finite_key)

lemma slew_limit_bounds_witness:
  "f32_le (outputs (apply_slew_limit (actuator_cmd_default\<lparr>outputs := replicate 16 f1\<rparr>)
      (replicate 16 0) (replicate 16 (f32_lit 1 10))) ! 0) (f32_add 0 (f32_lit 1 10))"
proof -
  have "f32_is_finite 0 \<and> \<not> f32_is_nan (f32_sub f1 0)
      \<and> f32_is_finite (f32_lit 1 10) \<and> f32_lt 0 (f32_lit 1 10)"
    by code_simp
  then show ?thesis
    using slew_limit_bounds [of 0 "replicate 16 0" "actuator_cmd_default\<lparr>outputs := replicate 16 f1\<rparr>"
        "replicate 16 (f32_lit 1 10)"]
    by simp
qed


end
