(* ===== verification/Mixer.thy ===== *)
theory Mixer
  imports Actuators
begin

text \<open>
  The quad mixers: priority-preserving desaturation (\<open>mixer/desaturate.rs\<close>) and the three
  sign tables (\<open>mixer.rs\<close>). A four-motor array is a list of length 4; the timestamp a mixer
  reads from its injected source is an argument.
\<close>

section \<open>Desaturation\<close>

abbreviation fm1 :: f32 where "fm1 \<equiv> 0xBF800000"

record quad_signs =
  qs_roll :: "f32 list"
  qs_pitch :: "f32 list"
  qs_yaw :: "f32 list"

definition YAW_COLLECTIVE_MARGIN :: f32 where
  "YAW_COLLECTIVE_MARGIN = f32_lit 15 100"

text \<open>The minimum and maximum folds over the roll/pitch offsets.\<close>

definition rp_bound :: "f32 list \<Rightarrow> f32 \<times> f32" where
  "rp_bound rp =
     fold (\<lambda>v (lo, hi). (f32_min lo v, f32_max hi v)) (tl rp) (rp ! 0, rp ! 0)"

definition yaw_headroom :: "f32 \<Rightarrow> f32 list \<Rightarrow> quad_signs \<Rightarrow> f32 \<times> f32" where
  "yaw_headroom t rp signs =
     fold (\<lambda>i (y_lo, y_hi).
             let base = f32_add t (rp ! i)
             in if f32_lt f0 (qs_yaw signs ! i)
                then (f32_max y_lo (f32_neg base), f32_min y_hi (f32_sub f1 base))
                else (f32_max y_lo (f32_sub base f1), f32_min y_hi base))
       [0..<4] (fm1, f1)"

definition shift_for_yaw :: "f32 \<Rightarrow> f32 \<Rightarrow> f32 list \<Rightarrow> quad_signs \<Rightarrow> f32" where
  "shift_for_yaw t yaw rp signs =
     (let (y_lo, y_hi) = yaw_headroom t rp signs
      in if f32_le y_lo yaw \<and> f32_le yaw y_hi then t
         else
           let (rising_max, falling_min) =
                 fold (\<lambda>i (rising_max, falling_min).
                         let rises_for_request = (f32_lt f0 (qs_yaw signs ! i) = f32_lt y_hi yaw)
                         in if rises_for_request then (f32_max rising_max (rp ! i), falling_min)
                            else (rising_max, f32_min falling_min (rp ! i)))
                   [0..<4] (fm1, f1);
               ideal = f32_div (f32_sub (f32_sub f1 rising_max) falling_min) f2
           in f32_min
                (f32_max
                  (f32_min
                    (f32_max ideal (f32_sub t YAW_COLLECTIVE_MARGIN))
                    (f32_add t YAW_COLLECTIVE_MARGIN))
                  (f32_neg (fst (rp_bound rp))))
                (f32_sub f1 (snd (rp_bound rp))))"

definition rp_offsets :: "f32 \<Rightarrow> f32 \<Rightarrow> quad_signs \<Rightarrow> f32 list" where
  "rp_offsets roll pitch signs =
     map (\<lambda>i. f32_add (f32_mul (qs_roll signs ! i) roll) (f32_mul (qs_pitch signs ! i) pitch)) [0..<4]"

text \<open>Roll and pitch are scaled only when their own span exceeds the actuator span.\<close>

definition scale_to_span :: "f32 list \<Rightarrow> f32 list \<times> f32 \<times> f32" where
  "scale_to_span rp =
     (let (rp_min, rp_max) = rp_bound rp
      in if f32_lt f1 (f32_sub rp_max rp_min)
         then let s = f32_div f1 (f32_sub rp_max rp_min)
              in (map (\<lambda>v. f32_mul v s) rp, f32_mul rp_min s, f32_mul rp_max s)
         else (rp, rp_min, rp_max))"

definition mix_desaturated :: "f32 \<Rightarrow> f32 \<Rightarrow> f32 \<Rightarrow> f32 \<Rightarrow> quad_signs \<Rightarrow> f32 list" where
  "mix_desaturated collective roll pitch yaw signs =
     (let (rp, rp_min, rp_max) = scale_to_span (rp_offsets roll pitch signs);
          t0 = f32_min (f32_max collective (f32_neg rp_min)) (f32_sub f1 rp_max);
          t = shift_for_yaw t0 yaw rp signs;
          (y_lo, y_hi) = yaw_headroom t rp signs;
          y = f32_min (f32_max yaw y_lo) y_hi
      in map (\<lambda>i. f32_clamp (f32_add (f32_add t (rp ! i)) (f32_mul (qs_yaw signs ! i) y)) f0 f1) [0..<4])"

section \<open>The three mixers\<close>

definition QUAD_X_SIGNS :: quad_signs where
  "QUAD_X_SIGNS =
     \<lparr>qs_roll = [fm1, f1, f1, fm1], qs_pitch = [f1, f1, fm1, fm1], qs_yaw = [fm1, f1, f1, fm1]\<rparr>"

definition QUAD_X500_SIGNS :: quad_signs where
  "QUAD_X500_SIGNS =
     \<lparr>qs_roll = [fm1, f1, f1, fm1], qs_pitch = [f1, fm1, f1, fm1], qs_yaw = [f1, f1, fm1, fm1]\<rparr>"

definition QUAD_X500_REVERSED_SIGNS :: quad_signs where
  "QUAD_X500_REVERSED_SIGNS =
     \<lparr>qs_roll = [fm1, f1, f1, fm1], qs_pitch = [f1, fm1, f1, fm1], qs_yaw = [fm1, fm1, f1, f1]\<rparr>"

definition quad_actuator_cmd :: "f32 list \<Rightarrow> timestamp \<Rightarrow> actuator_cmd" where
  "quad_actuator_cmd motors ts =
     \<lparr>outputs = take MAX_ACTUATORS motors @ replicate (MAX_ACTUATORS - length motors) f0,
      active_mask = 0xF, ac_sequence = 0, ac_timestamp = ts, fallback_mask = 0, sanitized = False\<rparr>"

definition quad_mix :: "quad_signs \<Rightarrow> timestamp \<Rightarrow> axis_command \<Rightarrow> actuator_cmd" where
  "quad_mix signs ts axis =
     quad_actuator_cmd
       (mix_desaturated (ax_collective axis) (ax_roll axis) (ax_pitch axis) (ax_yaw axis) signs) ts"

definition quad_x_mix :: "timestamp \<Rightarrow> axis_command \<Rightarrow> actuator_cmd" where
  "quad_x_mix = quad_mix QUAD_X_SIGNS"

definition quad_x500_mix :: "timestamp \<Rightarrow> axis_command \<Rightarrow> actuator_cmd" where
  "quad_x500_mix = quad_mix QUAD_X500_SIGNS"

definition quad_reversed_mix :: "timestamp \<Rightarrow> axis_command \<Rightarrow> actuator_cmd" where
  "quad_reversed_mix = quad_mix QUAD_X500_REVERSED_SIGNS"

section \<open>Lemmas\<close>

definition signs_ok :: "quad_signs \<Rightarrow> bool" where
  "signs_ok s \<longleftrightarrow>
     list_all (\<lambda>i. qs_roll s ! i \<in> {f1, fm1} \<and> qs_pitch s ! i \<in> {f1, fm1} \<and> qs_yaw s ! i \<in> {f1, fm1})
       [0, 1, 2, 3]"

definition axis_unit :: "axis_command \<Rightarrow> bool" where
  "axis_unit a \<longleftrightarrow>
     f32_within 0 (ax_roll a) \<and> f32_within 0 (ax_pitch a) \<and> f32_within 0 (ax_yaw a)
     \<and> f32_within 0 (ax_collective a)"

lemma upt4: "[0..<4] = [0, 1, 2, 3 :: nat]"
  by code_simp

lemma unit_consts_within:
  "f32_within n f1" "f32_within n fm1"
  by (rule f32_within_mono [of 0]; code_simp)+

lemma margin_within: "f32_within n YAW_COLLECTIVE_MARGIN"
  by (rule f32_within_mono [of 0]) code_simp+

lemma rp_bound_within:
  assumes "list_all (f32_within n) rp" "length rp = 4"
  shows "f32_within n (fst (rp_bound rp))" "f32_within n (snd (rp_bound rp))"
proof -
  obtain a b c d where "rp = [a, b, c, d]"
    using assms(2) by (auto simp: length_Suc_conv numeral_eq_Suc)
  then show "f32_within n (fst (rp_bound rp))" "f32_within n (snd (rp_bound rp))"
    using assms(1) by (simp_all add: rp_bound_def within_intros)
qed

lemma rp_offsets_within:
  assumes "signs_ok s" "f32_within 0 r" "f32_within 0 p"
  shows "list_all (f32_within 1) (rp_offsets r p s)" "length (rp_offsets r p s) = 4"
proof -
  have sm: "f32_within 0 (f32_mul x v)" if "x \<in> {f1, fm1}" "f32_within 0 v" for x v
    using that f32_within_mul [of 0 x 0 v] unit_consts_within [of 0] by auto
  show "list_all (f32_within 1) (rp_offsets r p s)"
    using assms sm f32_within_add [of 0] by (simp add: signs_ok_def rp_offsets_def upt4)
qed (simp add: rp_offsets_def)

lemma scale_to_span_within:
  assumes "list_all (f32_within 1) rp" "length rp = 4" "scale_to_span rp = (rp', lo, hi)"
  shows "list_all (f32_within 1) rp'" "length rp' = 4" "f32_within 1 lo" "f32_within 1 hi"
proof -
  note b = rp_bound_within [OF assms(1,2)]
  let ?span = "f32_sub (snd (rp_bound rp)) (fst (rp_bound rp))"
  have s: "f32_within 0 (f32_div f1 ?span)" if "f32_lt f1 ?span"
  proof (rule f32_within_div)
    show "f32_le f1 ?span" using that by (simp add: f32_lt_def f32_le_def)
    show "f32_is_finite ?span" using f32_within_finite [OF f32_within_sub [OF b(2,1)]] by simp
  qed (simp_all add: unit_consts_within)
  have m: "f32_within 1 (f32_mul v (f32_div f1 ?span))" if "f32_lt f1 ?span" "f32_within 1 v" for v
    using f32_within_mul [OF that(2) s [OF that(1)]] by simp
  show "list_all (f32_within 1) rp'" "length rp' = 4" "f32_within 1 lo" "f32_within 1 hi"
    using assms b m by (auto simp: scale_to_span_def list_all_iff Let_def split: prod.splits if_splits)
qed

lemma yaw_headroom_within:
  assumes "list_all (f32_within 1) rp" "length rp = 4" "f32_within 3 t"
  shows "f32_within 5 (fst (yaw_headroom t rp s))" "f32_within 5 (snd (yaw_headroom t rp s))"
proof -
  obtain a b c d where rp: "rp = [a, b, c, d]"
    using assms(2) by (auto simp: length_Suc_conv numeral_eq_Suc)
  have base: "f32_within 4 (f32_add t v)" if "v \<in> set rp" for v
    using f32_within_add [of 3 t v] assms f32_within_mono [of 1 v 3] that by (simp add: list_all_iff)
  then have v: "f32_within 5 (f32_add t v)" "f32_within 5 (f32_neg (f32_add t v))"
    "f32_within 5 (f32_sub f1 (f32_add t v))" "f32_within 5 (f32_sub (f32_add t v) f1)" if "v \<in> set rp" for v
    using that f32_within_sub [of 4] unit_consts_within [of 4] f32_within_mono [of 4 _ 5]
    by (auto intro: f32_within_neg)
  show "f32_within 5 (fst (yaw_headroom t rp s))" "f32_within 5 (snd (yaw_headroom t rp s))"
    using v unit_consts_within [of 5]
    by (simp_all add: yaw_headroom_def upt4 rp Let_def f32_within_max f32_within_min)
qed


lemma fold_pick_within:
  assumes "list_all (f32_within n) (map ((!) rp) is)" "f32_within n a" "f32_within n b"
  shows "f32_within n (fst (fold (\<lambda>i (x, y). if P i then (f32_max x (rp ! i), y) else (x, f32_min y (rp ! i))) is (a, b)))
    \<and> f32_within n (snd (fold (\<lambda>i (x, y). if P i then (f32_max x (rp ! i), y) else (x, f32_min y (rp ! i))) is (a, b)))"
  using assms by (induction "is" arbitrary: a b) (simp_all add: within_intros)

lemma shift_for_yaw_within:
  assumes "list_all (f32_within 1) rp" "length rp = 4" "f32_within 2 t"
  shows "f32_within 3 (shift_for_yaw t yaw rp s)"
proof -
  obtain a b c d where rp: "rp = [a, b, c, d]"
    using assms(2) by (auto simp: length_Suc_conv numeral_eq_Suc)
  let ?hi = "snd (yaw_headroom t rp s)"
  define p where "p = fold (\<lambda>i (x, y). if f32_lt f0 (qs_yaw s ! i) = f32_lt ?hi yaw
      then (f32_max x (rp ! i), y) else (x, f32_min y (rp ! i))) [0..<4] (fm1, f1)"
  have p: "f32_within 1 (fst p)" "f32_within 1 (snd p)"
  proof -
    have l: "list_all (f32_within 1) (map ((!) rp) [0..<4])" using assms(1) by (simp add: upt4 rp)
    note pick = fold_pick_within [OF l unit_consts_within(2) unit_consts_within(1)]
    show "f32_within 1 (fst p)" "f32_within 1 (snd p)"
      unfolding p_def by (rule pick [THEN conjunct1], rule pick [THEN conjunct2])
  qed
  let ?ideal = "f32_div (f32_sub (f32_sub f1 (fst p)) (snd p)) f2"
  have "f32_within 2 (f32_sub f1 (fst p))" using f32_within_sub [of 1 f1 "fst p"] p unit_consts_within
    by (simp add: numeral_2_eq_2)
  then have "f32_within 3 (f32_sub (f32_sub f1 (fst p)) (snd p))"
    using f32_within_sub [of 2 _ "snd p"] f32_within_mono [OF p(2), of 2] by simp
  moreover have "f32_le f1 f2" "f32_is_finite f2" by code_simp+
  ultimately have ideal: "f32_within 3 ?ideal" by (simp add: f32_within_div)
  have m: "f32_within 3 (f32_sub t YAW_COLLECTIVE_MARGIN)" "f32_within 3 (f32_add t YAW_COLLECTIVE_MARGIN)"
    using f32_within_sub [of 2 t] f32_within_add [of 2 t] assms(3) margin_within [of 2] by simp_all
  note b = rp_bound_within [OF assms(1,2)]
  have lo: "f32_within 3 (f32_neg (fst (rp_bound rp)))"
    using f32_within_mono [OF f32_within_neg [OF b(1)], of 3] by simp
  have hi: "f32_within 3 (f32_sub f1 (snd (rp_bound rp)))"
    using f32_within_mono [of 2 _ 3] f32_within_sub [of 1 f1 "snd (rp_bound rp)"] b(2)
      unit_consts_within by (simp add: numeral_2_eq_2)
  have "shift_for_yaw t yaw rp s =
      (if f32_le (fst (yaw_headroom t rp s)) yaw \<and> f32_le yaw ?hi then t
       else f32_min (f32_max (f32_min (f32_max ?ideal (f32_sub t YAW_COLLECTIVE_MARGIN))
              (f32_add t YAW_COLLECTIVE_MARGIN)) (f32_neg (fst (rp_bound rp))))
              (f32_sub f1 (snd (rp_bound rp))))"
    by (simp add: shift_for_yaw_def p_def split_beta Let_def)
  then show ?thesis
    using ideal m lo hi f32_within_mono [OF assms(3), of 3] by (simp add: f32_within_max f32_within_min)
qed

lemma mix_desaturated_unit:
  assumes "signs_ok s" "axis_unit a" "k < 4"
  shows "unit_range (mix_desaturated (ax_collective a) (ax_roll a) (ax_pitch a) (ax_yaw a) s ! k)"
proof -
  obtain rp lo hi where sc: "scale_to_span (rp_offsets (ax_roll a) (ax_pitch a) s) = (rp, lo, hi)"
    by (metis prod_cases3)
  have off: "list_all (f32_within 1) (rp_offsets (ax_roll a) (ax_pitch a) s)"
    "length (rp_offsets (ax_roll a) (ax_pitch a) s) = 4"
    using rp_offsets_within assms by (auto simp: axis_unit_def)
  note r = scale_to_span_within [OF off sc]
  define t0 where "t0 = f32_min (f32_max (ax_collective a) (f32_neg lo)) (f32_sub f1 hi)"
  have "f32_within 2 (f32_sub f1 hi)" using f32_within_sub [of 1 f1 hi] r(4) unit_consts_within by (simp add: numeral_2_eq_2)
  then have "f32_within 2 t0"
    using assms(2) f32_within_mono [OF f32_within_neg [OF r(3)], of 2] f32_within_mono [of 0 "ax_collective a" 2]
    by (simp add: t0_def f32_within_max f32_within_min axis_unit_def)
  note t = shift_for_yaw_within [OF r(1,2) this, of "ax_yaw a" s]
  define t where "t = shift_for_yaw t0 (ax_yaw a) rp s"
  define y where "y = f32_min (f32_max (ax_yaw a) (fst (yaw_headroom t rp s))) (snd (yaw_headroom t rp s))"
  have y: "f32_within 5 y"
    using yaw_headroom_within [OF r(1,2) t, of s] assms(2) f32_within_mono [of 0 "ax_yaw a" 5]
    by (simp add: y_def t_def f32_within_max f32_within_min axis_unit_def)
  let ?x = "f32_add (f32_add t (rp ! k)) (f32_mul (qs_yaw s ! k) y)"
  have "f32_within 1 (rp ! k)" using r(1,2) assms(3) by (simp add: list_all_length)
  then have "f32_within 4 (f32_add t (rp ! k))"
    using f32_within_add [of 3 t] t f32_within_mono [of 1 _ 3] by (simp add: t_def)
  moreover have "f32_within 5 (f32_mul (qs_yaw s ! k) y)"
  proof -
    have "k = 0 \<or> k = 1 \<or> k = 2 \<or> k = 3" using assms(3) by linarith
    then have "qs_yaw s ! k = f1 \<or> qs_yaw s ! k = fm1"
      using assms(1) by (elim disjE) (simp_all add: signs_ok_def)
    then have "f32_within 0 (qs_yaw s ! k)"
      using unit_consts_within [of 0] by (elim disjE) simp_all
    then show ?thesis using f32_within_mul [of 0 _ 5] y by simp
  qed
  ultimately have "f32_within 6 ?x"
    using f32_within_add [of 5 "f32_add t (rp ! k)"] f32_within_mono [of 4 _ 5] by simp
  then have nn: "\<not> f32_is_nan ?x" by (intro f32_finite_not_nan f32_within_finite [of 6]) simp_all
  have c: "f32_le f0 f1" "f32_is_finite f0" "f32_is_finite f1" by code_simp+
  have "unit_range (f32_clamp ?x f0 f1)"
    using f32_clamp_bounds [OF c(1) nn] f32_le_finite [OF _ _ c(2,3)]
    by (auto simp: unit_range_def f32_le_def f32_lt_def)
  moreover have "mix_desaturated (ax_collective a) (ax_roll a) (ax_pitch a) (ax_yaw a) s ! k = f32_clamp ?x f0 f1"
    using assms(3) by (simp add: mix_desaturated_def sc Let_def split_beta flip: t0_def t_def y_def)
  ultimately show ?thesis by simp
qed

lemma quad_mix_outputs:
  "outputs (quad_mix s ts a) =
     mix_desaturated (ax_collective a) (ax_roll a) (ax_pitch a) (ax_yaw a) s @ replicate 12 f0"
  by (simp add: quad_mix_def quad_actuator_cmd_def mix_desaturated_def split_beta Let_def)

lemma mix_desaturated_length [simp]: "length (mix_desaturated c r p y s) = 4"
  by (simp add: mix_desaturated_def split_beta Let_def)


text \<open>A command whose every output is in range passes the sanitizer with its outputs unchanged.\<close>

lemma sanitize_from_clean:
  assumes "\<forall>k < 16. unit_range (outputs cmd ! k)" "sanitize_from i gs (cmd, fb, rep) = (cmd', fb', rep')"
  shows "outputs cmd' = outputs cmd \<and> any_fallback rep' = any_fallback rep
    \<and> fallback_mask cmd' = fallback_mask cmd"
  using assms
proof (induction gs arbitrary: i cmd fb rep)
  case (Cons g gs)
  have valid: "members_valid (outputs cmd) (ag_members g)"
    using Cons.prems(1) by (simp add: members_valid_iff)
  obtain c1 f1 r1 where g: "sanitize_group i g (cmd, fb, rep) = (c1, f1, r1)" by (metis prod_cases3)
  have o: "outputs c1 = outputs cmd" using sanitize_group_outputs [of i g cmd fb rep] valid by (simp add: g)
  have f: "any_fallback r1 = any_fallback rep" "fallback_mask c1 = fallback_mask cmd"
    using sanitize_group_frame(5,6) [of i g cmd fb rep] valid by (simp_all add: g)
  show ?case
  proof (cases "MAX_GROUPS \<le> i")
    case True
    with Cons.prems(2) show ?thesis by simp
  next
    case False
    with Cons.prems(2) have "sanitize_from (Suc i) gs (c1, f1, r1) = (cmd', fb', rep')" by (simp add: g)
    with Cons.IH [of c1 "Suc i" f1 r1] Cons.prems(1) show ?thesis by (simp add: o f)
  qed
qed simp

definition quad_sign_tables :: "quad_signs list" where
  "quad_sign_tables = [QUAD_X_SIGNS, QUAD_X500_SIGNS, QUAD_X500_REVERSED_SIGNS]"

lemma quad_sign_tables_ok: "s \<in> set quad_sign_tables \<Longrightarrow> signs_ok s"
proof -
  have "list_all signs_ok quad_sign_tables" by code_simp
  then show "s \<in> set quad_sign_tables \<Longrightarrow> signs_ok s" by (simp add: list_all_iff)
qed

text \<open>The sign of a table entry as an integer, and the inner product of two columns.\<close>

definition sign_of :: "f32 \<Rightarrow> int" where
  "sign_of x = (if f32_lt f0 x then 1 else if f32_lt x f0 then - 1 else 0)"

definition column_product :: "f32 list \<Rightarrow> f32 list \<Rightarrow> int" where
  "column_product xs ys = sum_list (map2 (\<lambda>x y. sign_of x * sign_of y) xs ys)"

section \<open>Properties\<close>

text \<open>a quad mixer never emits a value outside the actuator range: for every axis command whose
  components are at most one in magnitude each of the sixteen outputs is a finite number in
  \<open>[0, 1]\<close>, lanes 4 to 15 are zero and exactly the four motor lanes are active, for all three
  mixers and through every rounding, scaling and saturation branch.\<close>

lemma quad_mix_in_range:
  assumes "s \<in> set quad_sign_tables" "axis_unit a" "k < 16"
  shows "unit_range (outputs (quad_mix s ts a) ! k)
    \<and> (4 \<le> k \<longrightarrow> outputs (quad_mix s ts a) ! k = 0)
    \<and> length (outputs (quad_mix s ts a)) = 16 \<and> active_mask (quad_mix s ts a) = 15"
proof -
  have "unit_range (outputs (quad_mix s ts a) ! k)"
    using mix_desaturated_unit [OF quad_sign_tables_ok [OF assms(1)] assms(2), of k] assms(3)
    by (cases "k < 4") (simp_all add: quad_mix_outputs nth_append)
  moreover have "active_mask (quad_mix s ts a) = 15" by (simp add: quad_mix_def quad_actuator_cmd_def)
  moreover have "4 \<le> k \<longrightarrow> outputs (quad_mix s ts a) ! k = 0" "length (outputs (quad_mix s ts a)) = 16"
    using assms(3) by (simp_all add: quad_mix_outputs nth_append)
  ultimately show ?thesis by blast
qed

definition example_axis :: axis_command where
  "example_axis = \<lparr>ax_roll = f1, ax_pitch = fm1, ax_yaw = f1, ax_collective = f_half\<rparr>"

lemma quad_mix_in_range_witness:
  "unit_range (outputs (quad_mix QUAD_X500_SIGNS timestamp_default example_axis) ! 2)"
proof -
  have "QUAD_X500_SIGNS \<in> set quad_sign_tables" by (simp add: quad_sign_tables_def)
  moreover have "axis_unit example_axis" by code_simp
  ultimately show ?thesis
    using quad_mix_in_range [of QUAD_X500_SIGNS example_axis 2 timestamp_default] by simp
qed

text \<open>mixer and sanitizer agree: what a quad mixer emits for a bounded axis command is passed by
  the sanitizer with its outputs unchanged and without reporting a fallback, whatever actuator
  groups are configured and whatever the fallback memory holds.\<close>

lemma mixer_passes_sanitizer:
  assumes "s \<in> set quad_sign_tables" "axis_unit a" "sanitize (quad_mix s ts a) m fb = (c', fb', rep)"
  shows "outputs c' = outputs (quad_mix s ts a) \<and> \<not> any_fallback rep \<and> fallback_mask c' = 0"
proof -
  have "unit_range (outputs (quad_mix s ts a) ! k)" if "k < 16" for k
    using mix_desaturated_unit [OF quad_sign_tables_ok [OF assms(1)] assms(2), of k] that
    by (cases "k < 4") (simp_all add: quad_mix_outputs nth_append)
  then show ?thesis
    using sanitize_from_clean [OF _ assms(3) [unfolded sanitize_def]]
    by (simp add: sanitize_report_default_def)
qed

lemma mixer_passes_sanitizer_witness:
  "outputs (fst (sanitize (quad_mix QUAD_X_SIGNS timestamp_default example_axis) example_quad_mode
      actuator_fallback_state_default)) = outputs (quad_mix QUAD_X_SIGNS timestamp_default example_axis)"
proof -
  have m: "QUAD_X_SIGNS \<in> set quad_sign_tables" by (simp add: quad_sign_tables_def)
  have a: "axis_unit example_axis" by code_simp
  obtain c f r where s: "sanitize (quad_mix QUAD_X_SIGNS timestamp_default example_axis) example_quad_mode
      actuator_fallback_state_default = (c, f, r)"
    by (metis prod_cases3)
  show ?thesis using mixer_passes_sanitizer [OF m a s] by (simp add: s)
qed

text \<open>The two X500 mixing tables decouple the axes: their roll, pitch and yaw columns are
  orthogonal to one another and to the collective, and the two drive roll and pitch identically
  and yaw oppositely, as reversing every rotor does.\<close>

theorem x500_tables_decoupled:
  "list_all (\<lambda>s. column_product (qs_roll s) (qs_pitch s) = 0 \<and> column_product (qs_roll s) (qs_yaw s) = 0
       \<and> column_product (qs_pitch s) (qs_yaw s) = 0
       \<and> column_product (replicate 4 f1) (qs_roll s) = 0 \<and> column_product (replicate 4 f1) (qs_pitch s) = 0
       \<and> column_product (replicate 4 f1) (qs_yaw s) = 0) [QUAD_X500_SIGNS, QUAD_X500_REVERSED_SIGNS]
   \<and> qs_roll QUAD_X500_REVERSED_SIGNS = qs_roll QUAD_X500_SIGNS
   \<and> qs_pitch QUAD_X500_REVERSED_SIGNS = qs_pitch QUAD_X500_SIGNS
   \<and> qs_yaw QUAD_X500_REVERSED_SIGNS = map f32_neg (qs_yaw QUAD_X500_SIGNS)"
  by code_simp

text \<open>the generic quad-X table does not decouple roll from yaw: the two columns are equal, so
  its mixing matrix has rank three, and every bounded roll demand contributes to each motor
  exactly what a yaw demand of the same size contributes.\<close>

lemma quad_x_roll_yaw_aliased:
  assumes "f32_within 0 d" "k < 4"
  shows "qs_roll QUAD_X_SIGNS = qs_yaw QUAD_X_SIGNS
    \<and> f32_eq (rp_offsets d f0 QUAD_X_SIGNS ! k) (f32_mul (qs_yaw QUAD_X_SIGNS ! k) d)"
proof -
  have cols: "qs_roll QUAD_X_SIGNS = qs_yaw QUAD_X_SIGNS" by (simp add: QUAD_X_SIGNS_def)
  have ok: "signs_ok QUAD_X_SIGNS" by code_simp
  have "k = 0 \<or> k = 1 \<or> k = 2 \<or> k = 3" using assms(2) by linarith
  then have e: "qs_yaw QUAD_X_SIGNS ! k \<in> {f1, fm1}" "qs_pitch QUAD_X_SIGNS ! k \<in> {f1, fm1}"
    using ok by (elim disjE; simp add: signs_ok_def)+
  let ?m = "f32_mul (qs_yaw QUAD_X_SIGNS ! k) d"
  have m: "f32_is_finite ?m"
    using e(1) f32_within_mul [OF unit_consts_within(1) assms(1), of 0]
      f32_within_mul [OF unit_consts_within(2) assms(1), of 0] f32_within_finite [of 0]
    by auto
  have z: "f32_scaled (f32_mul f1 f0) = 0" "f32_scaled (f32_mul fm1 f0) = 0"
    "f32_is_finite (f32_mul f1 f0)" "f32_is_finite (f32_mul fm1 f0)"
    by code_simp+
  have add: "f32_key (f32_add ?m z) = f32_key ?m" "\<not> f32_is_nan (f32_add ?m z)"
    if "f32_scaled z = 0" "f32_is_finite z" for z
    using f32_add_key [OF m that(2)] that(1) by (simp_all add: f32_round_key_scaled [OF m])
  have "rp_offsets d f0 QUAD_X_SIGNS ! k = f32_add ?m (f32_mul (qs_pitch QUAD_X_SIGNS ! k) f0)"
    using assms(2) by (simp add: rp_offsets_def cols)
  then have "f32_eq (rp_offsets d f0 QUAD_X_SIGNS ! k) ?m"
    using e(2) add [OF z(1,3)] add [OF z(2,4)] f32_finite_not_nan [OF m] by (auto simp: f32_eq_def)
  with cols show ?thesis by blast
qed

lemma quad_x_roll_yaw_aliased_witness:
  "f32_eq (rp_offsets (f32_lit 1 8) f0 QUAD_X_SIGNS ! 3) (f32_mul (qs_yaw QUAD_X_SIGNS ! 3) (f32_lit 1 8))"
proof -
  have "f32_within 0 (f32_lit 1 8)" by code_simp
  then show ?thesis using quad_x_roll_yaw_aliased [of "f32_lit 1 8" 3] by simp
qed

end
