(* ===== verification/Config.thy ===== *)
theory Config
  imports Mixer
begin

text \<open>
  The resolved configuration (\<open>kernel/config.rs\<close>), the actuation contract
  (\<open>kernel/config/actuation.rs\<close>), the cascade gains (\<open>control/cascade_gains.rs\<close>), the canonical
  hash (\<open>kernel/config/canonical.rs\<close>) and the algorithm identity hash (\<open>kernel/pipeline.rs\<close>).
  Each \<open>feed_\<close> function of the source is a function on the 64-bit hash. The reference
  serialization \<open>config_bytes\<close> is the byte string the hash folds.
\<close>

section \<open>Cascade gains\<close>

record cascade_gains =
  pos_p :: vec3
  pos_accel_limits :: vec3
  pos_vel_caps :: vec3
  vel_p :: vec3
  vel_i :: vec3
  vel_max_roll_pitch :: f32
  vel_max_yaw_step :: f32
  vel_accel_ff :: f32
  vel_d :: vec3
  att_p :: vec3
  att_max_rate_cmd :: f32
  rate_p :: vec3
  rate_i :: vec3
  rate_d :: vec3
  rate_d_lpf_alpha :: f32

definition x500_defaults :: cascade_gains where
  "x500_defaults =
     \<lparr>pos_p = (f_half, f_half, f_half), pos_accel_limits = (f2, f2, f1),
      pos_vel_caps = (f2, f2, f32_lit 15 10), vel_p = (f32_lit 12 10, f32_lit 12 10, f32_lit 4 10),
      vel_i = (f32_lit 5 100, f32_lit 5 100, f32_lit 5 100), vel_max_roll_pitch = f32_lit 35 100,
      vel_max_yaw_step = f32_lit 6 10, vel_accel_ff = f0, vel_d = (f0, f0, f0),
      att_p = (f32_lit 35 10, f32_lit 35 10, f32_lit 25 10), att_max_rate_cmd = f32_lit 3 1,
      rate_p = (f32_lit 30 100, f32_lit 30 100, f32_lit 60 100), rate_i = (f0, f0, f0),
      rate_d = (f0, f0, f32_lit 5 100), rate_d_lpf_alpha = f_half\<rparr>"

datatype cascade_gains_error =
  NonNegativeGain string nat | FeedforwardOutOfRange f32 | LpfAlphaOutOfRange f32

definition bad_gain :: "f32 \<Rightarrow> bool" where
  "bad_gain g \<longleftrightarrow> \<not> f32_is_finite g \<or> f32_lt g f0"

definition not_in_unit :: "f32 \<Rightarrow> bool" where
  "not_in_unit g \<longleftrightarrow> \<not> f32_is_finite g \<or> \<not> (f32_le f0 g \<and> f32_le g f1)"

fun vec_nth :: "vec3 \<Rightarrow> nat \<Rightarrow> f32" where
  "vec_nth (x, y, z) i = (if i = 0 then x else if i = 1 then y else z)"

definition named_gains :: "cascade_gains \<Rightarrow> (string \<times> nat \<times> f32) list" where
  "named_gains g =
     concat (map (\<lambda>i.
       [(''pos_p'', i, vec_nth (pos_p g) i), (''pos_accel_limits'', i, vec_nth (pos_accel_limits g) i),
        (''pos_vel_caps'', i, vec_nth (pos_vel_caps g) i), (''vel_p'', i, vec_nth (vel_p g) i),
        (''vel_i'', i, vec_nth (vel_i g) i), (''vel_d'', i, vec_nth (vel_d g) i),
        (''att_p'', i, vec_nth (att_p g) i), (''rate_p'', i, vec_nth (rate_p g) i),
        (''rate_i'', i, vec_nth (rate_i g) i), (''rate_d'', i, vec_nth (rate_d g) i)]) [0, 1, 2])"

definition validate_gains :: "cascade_gains \<Rightarrow> (unit, cascade_gains_error) result" where
  "validate_gains g =
     (case find (\<lambda>(name, i, v). bad_gain v) (named_gains g) of
        Some (name, i, v) \<Rightarrow> Err (NonNegativeGain name i)
      | None \<Rightarrow>
          if bad_gain (vel_max_roll_pitch g) then Err (NonNegativeGain ''vel_max_roll_pitch'' 0)
          else if bad_gain (vel_max_yaw_step g) then Err (NonNegativeGain ''vel_max_yaw_step'' 0)
          else if bad_gain (att_max_rate_cmd g) then Err (NonNegativeGain ''att_max_rate_cmd'' 0)
          else if not_in_unit (vel_accel_ff g) then Err (FeedforwardOutOfRange (vel_accel_ff g))
          else if not_in_unit (rate_d_lpf_alpha g) then Err (LpfAlphaOutOfRange (rate_d_lpf_alpha g))
          else Ok ())"

section \<open>Actuation contract\<close>

datatype mixer_geometry = QuadX | QuadXX500 | QuadXX500ReversedSpin

fun motor_count :: "mixer_geometry \<Rightarrow> u8" where
  "motor_count QuadX = 4"
| "motor_count QuadXX500 = 4"
| "motor_count QuadXX500ReversedSpin = 4"

fun geometry_as_str :: "mixer_geometry \<Rightarrow> string" where
  "geometry_as_str QuadX = ''quad-x''"
| "geometry_as_str QuadXX500 = ''quad-x-x500''"
| "geometry_as_str QuadXX500ReversedSpin = ''quad-x-x500-reversed-spin''"

datatype actuator_curve_kind = Linear | QuadraticRotor

definition boundary_command :: "libm \<Rightarrow> actuator_curve_kind \<Rightarrow> f32 \<Rightarrow> f32" where
  "boundary_command M k thrust =
     (let t = (if f32_is_finite thrust then f32_clamp thrust f0 f1 else f0)
      in case k of Linear \<Rightarrow> t | QuadraticRotor \<Rightarrow> sqrtf M t)"

fun curve_as_str :: "actuator_curve_kind \<Rightarrow> string" where
  "curve_as_str Linear = ''linear''"
| "curve_as_str QuadraticRotor = ''quadratic-rotor''"

section \<open>Resolved configuration\<close>

record resolved_config =
  cfg_limits :: limits
  cfg_mode_config :: mode_config
  cfg_fault_table :: fault_table
  cfg_command_timeout_ms :: u32
  cfg_safe_output :: "f32 list"
  cfg_slew_limit_per_cycle :: "f32 list"
  cfg_cascade_gains :: cascade_gains
  cfg_hover_thrust_norm :: f32
  cfg_mixer_geometry :: mixer_geometry
  cfg_actuator_curve :: actuator_curve_kind

definition DEFAULT_COMMAND_TIMEOUT_MS :: u32 where
  "DEFAULT_COMMAND_TIMEOUT_MS = 500"

definition resolved_config_default :: resolved_config where
  "resolved_config_default =
     \<lparr>cfg_limits = default_limits, cfg_mode_config = \<lparr>mc_mode = Hover, mc_groups = []\<rparr>,
      cfg_fault_table = default_fault_table, cfg_command_timeout_ms = DEFAULT_COMMAND_TIMEOUT_MS,
      cfg_safe_output = replicate MAX_ACTUATORS f0,
      cfg_slew_limit_per_cycle = replicate MAX_ACTUATORS f0, cfg_cascade_gains = x500_defaults,
      cfg_hover_thrust_norm = f_half, cfg_mixer_geometry = QuadX, cfg_actuator_curve = Linear\<rparr>"

section \<open>FNV-1a\<close>

definition FNV_OFFSET :: u64 where
  "FNV_OFFSET = 0xcbf29ce484222325"

definition FNV_PRIME :: u64 where
  "FNV_PRIME = 0x00000100000001b3"

definition feed_byte :: "u8 \<Rightarrow> u64 \<Rightarrow> u64" where
  "feed_byte b h = (h XOR ucast b) * FNV_PRIME"

definition feed_bytes :: "u8 list \<Rightarrow> u64 \<Rightarrow> u64" where
  "feed_bytes bs h = fold feed_byte bs h"

definition feed_separator :: "u64 \<Rightarrow> u64" where
  "feed_separator h = feed_byte 0xff h"

definition feed_u16 :: "u16 \<Rightarrow> u64 \<Rightarrow> u64" where
  "feed_u16 x h = feed_bytes (le_bytes x) h"

definition feed_u32 :: "u32 \<Rightarrow> u64 \<Rightarrow> u64" where
  "feed_u32 x h = feed_bytes (le_bytes x) h"

definition feed_usize :: "nat \<Rightarrow> u64 \<Rightarrow> u64" where
  "feed_usize n h = feed_bytes (le_bytes (of_nat n :: u64)) h"

definition feed_f32 :: "f32 \<Rightarrow> u64 \<Rightarrow> u64" where
  "feed_f32 x h = feed_bytes (le_bytes x) h"

definition feed_bool :: "bool \<Rightarrow> u64 \<Rightarrow> u64" where
  "feed_bool b h = feed_byte (if b then 1 else 0) h"

fun feed_option_f32 :: "f32 option \<Rightarrow> u64 \<Rightarrow> u64" where
  "feed_option_f32 None h = feed_byte 0 h"
| "feed_option_f32 (Some v) h = feed_f32 v (feed_byte 1 h)"

definition feed_f32s :: "f32 list \<Rightarrow> u64 \<Rightarrow> u64" where
  "feed_f32s xs h = fold feed_f32 xs h"

section \<open>Canonical hash\<close>

definition feed_limits :: "limits \<Rightarrow> u64 \<Rightarrow> u64" where
  "feed_limits l h =
     (let h1 = feed_f32s [max_roll l, max_pitch l, max_roll_rate l, max_pitch_rate l, max_yaw_rate l,
                 max_horizontal_speed l, max_climb_rate l, max_descent_rate l, max_altitude l,
                 min_altitude l] h;
          h2 = feed_option_f32 (min_airspeed l) h1;
          h3 = feed_option_f32 (max_airspeed l) h2
      in feed_f32 (min_load_factor l) (feed_f32 (max_load_factor l) h3))"

fun config_mode_tag :: "config_mode \<Rightarrow> u8" where
  "config_mode_tag Hover = 0"
| "config_mode_tag Cruise = 1"
| "config_mode_tag Transition = 2"
| "config_mode_tag DegradedConfig = 3"

fun feed_group_kind :: "group_kind \<Rightarrow> u64 \<Rightarrow> u64" where
  "feed_group_kind Multirotor h = feed_byte 0 h"
| "feed_group_kind DistributedThrust h = feed_byte 1 h"
| "feed_group_kind ControlSurfaces h = feed_byte 2 h"
| "feed_group_kind Morphing h = feed_byte 3 h"
| "feed_group_kind Auxiliary h = feed_byte 4 h"
| "feed_group_kind (CustomGroup i) h = feed_byte i (feed_byte 5 h)"

fun coupling_tag :: "coupling_kind \<Rightarrow> u8" where
  "coupling_tag Strong = 0"
| "coupling_tag Weak = 1"

fun feed_fallback_policy :: "fallback_policy \<Rightarrow> u64 \<Rightarrow> u64" where
  "feed_fallback_policy HoldLastGood h = feed_byte 0 h"
| "feed_fallback_policy (DecayToSafe tau) h = feed_u16 tau (feed_byte 1 h)"
| "feed_fallback_policy SafePattern h = feed_byte 2 h"

definition feed_group_vector :: "group_vector \<Rightarrow> u64 \<Rightarrow> u64" where
  "feed_group_vector v h = feed_bool (gv_valid v) (feed_u16 (gv_mask v) (feed_f32s (gv_outputs v) h))"

definition feed_actuator_group_config :: "actuator_group_config \<Rightarrow> u64 \<Rightarrow> u64" where
  "feed_actuator_group_config g h =
     (let h1 = feed_fallback_policy (ag_fallback g)
                 (feed_byte (coupling_tag (ag_coupling g)) (feed_group_kind (ag_kind g) h));
          h2 = feed_bytes (ag_members g) (feed_usize (length (ag_members g)) h1)
      in feed_group_vector (ag_safe_pattern g) h2)"

definition feed_mode_config :: "mode_config \<Rightarrow> u64 \<Rightarrow> u64" where
  "feed_mode_config m h =
     fold feed_actuator_group_config (mc_groups m)
       (feed_usize (length (mc_groups m)) (feed_byte (config_mode_tag (mc_mode m)) h))"

fun fault_category_tag :: "fault_category \<Rightarrow> u8" where
  "fault_category_tag ImuFailed = 0"
| "fault_category_tag ImuAllFailed = 1"
| "fault_category_tag GnssLost = 2"
| "fault_category_tag GnssAllLost = 3"
| "fault_category_tag BaroFailed = 4"
| "fault_category_tag MagFailed = 5"
| "fault_category_tag AirspeedFailed = 6"
| "fault_category_tag ActuatorFailed = 7"
| "fault_category_tag ActuatorSaturated = 8"
| "fault_category_tag ActuatorDisagreement = 9"
| "fault_category_tag ActuatorNumericError = 10"
| "fault_category_tag ActuatorFallbackPersistent = 11"
| "fault_category_tag EstimatorDiverged = 12"
| "fault_category_tag AttitudeUncertain = 13"
| "fault_category_tag PositionUncertain = 14"
| "fault_category_tag NumericError = 15"
| "fault_category_tag CommandTimeoutFault = 16"
| "fault_category_tag CommandInvalid = 17"
| "fault_category_tag TimingViolationFault = 18"
| "fault_category_tag TimingViolationPersistent = 19"
| "fault_category_tag ConfigInvalid = 20"
| "fault_category_tag ConfigTransitionFailed = 21"
| "fault_category_tag MemoryError = 22"
| "fault_category_tag EnumInvalid = 23"

fun fault_action_tag :: "fault_action \<Rightarrow> u8" where
  "fault_action_tag Monitor = 0"
| "fault_action_tag Isolate = 1"
| "fault_action_tag Degrade = 2"
| "fault_action_tag Emergency = 3"

fun control_law_tag :: "control_law \<Rightarrow> u8" where
  "control_law_tag Primary = 0"
| "control_law_tag Alternate = 1"
| "control_law_tag Direct = 2"
| "control_law_tag Backup = 3"

definition feed_fault_response :: "fault_response \<Rightarrow> u64 \<Rightarrow> u64" where
  "feed_fault_response r h =
     (let h1 = feed_byte (fault_action_tag (fr_action r)) (feed_byte (fault_category_tag (fr_fault r)) h);
          h2 = (case fr_degrade_to r of
                  None \<Rightarrow> feed_byte 0 h1
                | Some law \<Rightarrow> feed_byte (control_law_tag law) (feed_byte 1 h1))
      in feed_u32 (fr_max_response_time_ms r) h2)"

definition feed_fault_table :: "fault_table \<Rightarrow> u64 \<Rightarrow> u64" where
  "feed_fault_table t h = fold feed_fault_response t (feed_usize (length t) h)"

fun vec_list :: "vec3 \<Rightarrow> f32 list" where
  "vec_list (x, y, z) = [x, y, z]"

definition feed_cascade_gains :: "cascade_gains \<Rightarrow> u64 \<Rightarrow> u64" where
  "feed_cascade_gains g h =
     (let h1 = feed_f32s (vec_list (pos_p g) @ vec_list (pos_accel_limits g) @ vec_list (pos_vel_caps g)) h;
          h2 = feed_f32s (vec_list (vel_p g) @ vec_list (vel_i g) @ vec_list (vel_d g)) h1;
          h3 = feed_f32 (vel_accel_ff g) (feed_f32 (vel_max_yaw_step g) (feed_f32 (vel_max_roll_pitch g) h2));
          h4 = feed_f32 (att_max_rate_cmd g) (feed_f32s (vec_list (att_p g)) h3);
          h5 = feed_f32s (vec_list (rate_p g) @ vec_list (rate_d g) @ vec_list (rate_i g)) h4
      in feed_f32 (rate_d_lpf_alpha g) h5)"

fun mixer_geometry_tag :: "mixer_geometry \<Rightarrow> u8" where
  "mixer_geometry_tag QuadX = 0"
| "mixer_geometry_tag QuadXX500 = 1"
| "mixer_geometry_tag QuadXX500ReversedSpin = 2"

fun actuator_curve_tag :: "actuator_curve_kind \<Rightarrow> u8" where
  "actuator_curve_tag Linear = 0"
| "actuator_curve_tag QuadraticRotor = 1"

definition controller_tuning_identity :: "cascade_gains \<Rightarrow> f32 \<Rightarrow> u64" where
  "controller_tuning_identity gains hover =
     feed_f32 hover (feed_separator (feed_cascade_gains gains FNV_OFFSET))"

definition hover_kernel_prefix_hash :: "resolved_config \<Rightarrow> u64" where
  "hover_kernel_prefix_hash c =
     (let h1 = feed_separator (feed_limits (cfg_limits c) FNV_OFFSET);
          h2 = feed_separator (feed_mode_config (cfg_mode_config c) h1);
          h3 = feed_separator (feed_fault_table (cfg_fault_table c) h2);
          h4 = feed_separator (feed_u32 (cfg_command_timeout_ms c) h3);
          h5 = feed_separator (feed_f32s (cfg_safe_output c) h4);
          h6 = feed_separator (feed_f32s (cfg_slew_limit_per_cycle c) h5)
      in feed_separator (feed_cascade_gains (cfg_cascade_gains c) h6))"

definition canonical_hash_from_hover_prefix ::
  "u64 \<Rightarrow> f32 \<Rightarrow> mixer_geometry \<Rightarrow> actuator_curve_kind \<Rightarrow> u64" where
  "canonical_hash_from_hover_prefix prefix hover geom curve =
     feed_byte (actuator_curve_tag curve)
       (feed_separator (feed_byte (mixer_geometry_tag geom) (feed_separator (feed_f32 hover prefix))))"

definition canonical_hash :: "resolved_config \<Rightarrow> u64" where
  "canonical_hash c =
     canonical_hash_from_hover_prefix (hover_kernel_prefix_hash c) (cfg_hover_thrust_norm c)
       (cfg_mixer_geometry c) (cfg_actuator_curve c)"

definition cfg_controller_tuning_identity :: "resolved_config \<Rightarrow> u64" where
  "cfg_controller_tuning_identity c =
     controller_tuning_identity (cfg_cascade_gains c) (cfg_hover_thrust_norm c)"

section \<open>Algorithm identity\<close>

definition EKF_ID :: u64 where "EKF_ID = 0x4554494D454B4638"
definition MULTIROTOR_ID :: u64 where "MULTIROTOR_ID = 0x43544C4D55525634"
definition FIXED_WING_ID :: u64 where "FIXED_WING_ID = 0x43544C4657475631"
definition VTOL_ID :: u64 where "VTOL_ID = 0x43544C56544F4C31"
definition QUAD_X_MIXER_ID :: u64 where "QUAD_X_MIXER_ID = 0x4D49585155414432"
definition QUAD_X500_MIXER_ID :: u64 where "QUAD_X500_MIXER_ID = 0x4D49585158355632"
definition QUAD_REVERSED_MIXER_ID :: u64 where "QUAD_REVERSED_MIXER_ID = 0x4D49585158525631"
definition SANITIZER_ID :: u64 where "SANITIZER_ID = 0x53414E4752505631"

definition algorithm_identity_hash :: "u64 \<Rightarrow> u64 \<Rightarrow> u64 \<Rightarrow> u64 \<Rightarrow> u64" where
  "algorithm_identity_hash e v m s = fold (\<lambda>i. feed_bytes (le_bytes i)) [e, v, m, s] FNV_OFFSET"

section \<open>Reference serialization\<close>

definition enc_f32s :: "f32 list \<Rightarrow> u8 list" where
  "enc_f32s xs = concat (map le_bytes xs)"

definition enc_usize :: "nat \<Rightarrow> u8 list" where
  "enc_usize n = le_bytes (of_nat n :: u64)"

fun enc_option_f32 :: "f32 option \<Rightarrow> u8 list" where
  "enc_option_f32 None = [0]"
| "enc_option_f32 (Some v) = 1 # le_bytes v"

definition enc_limits :: "limits \<Rightarrow> u8 list" where
  "enc_limits l =
     enc_f32s [max_roll l, max_pitch l, max_roll_rate l, max_pitch_rate l, max_yaw_rate l,
       max_horizontal_speed l, max_climb_rate l, max_descent_rate l, max_altitude l, min_altitude l]
     @ enc_option_f32 (min_airspeed l) @ enc_option_f32 (max_airspeed l)
     @ enc_f32s [max_load_factor l, min_load_factor l]"

fun enc_group_kind :: "group_kind \<Rightarrow> u8 list" where
  "enc_group_kind Multirotor = [0]"
| "enc_group_kind DistributedThrust = [1]"
| "enc_group_kind ControlSurfaces = [2]"
| "enc_group_kind Morphing = [3]"
| "enc_group_kind Auxiliary = [4]"
| "enc_group_kind (CustomGroup i) = [5, i]"

fun enc_fallback_policy :: "fallback_policy \<Rightarrow> u8 list" where
  "enc_fallback_policy HoldLastGood = [0]"
| "enc_fallback_policy (DecayToSafe tau) = 1 # le_bytes tau"
| "enc_fallback_policy SafePattern = [2]"

definition enc_group :: "actuator_group_config \<Rightarrow> u8 list" where
  "enc_group g =
     enc_group_kind (ag_kind g) @ coupling_tag (ag_coupling g) # enc_fallback_policy (ag_fallback g)
     @ enc_usize (length (ag_members g)) @ ag_members g @ enc_f32s (gv_outputs (ag_safe_pattern g))
     @ le_bytes (gv_mask (ag_safe_pattern g)) @ [if gv_valid (ag_safe_pattern g) then 1 else 0]"

definition enc_mode_config :: "mode_config \<Rightarrow> u8 list" where
  "enc_mode_config m =
     config_mode_tag (mc_mode m) # enc_usize (length (mc_groups m)) @ concat (map enc_group (mc_groups m))"

definition enc_fault_response :: "fault_response \<Rightarrow> u8 list" where
  "enc_fault_response r =
     fault_category_tag (fr_fault r) # fault_action_tag (fr_action r)
     # (case fr_degrade_to r of None \<Rightarrow> [0] | Some law \<Rightarrow> [1, control_law_tag law])
     @ le_bytes (fr_max_response_time_ms r)"

definition enc_fault_table :: "fault_table \<Rightarrow> u8 list" where
  "enc_fault_table t = enc_usize (length t) @ concat (map enc_fault_response t)"

definition enc_cascade_gains :: "cascade_gains \<Rightarrow> u8 list" where
  "enc_cascade_gains g =
     enc_f32s (vec_list (pos_p g) @ vec_list (pos_accel_limits g) @ vec_list (pos_vel_caps g)
       @ vec_list (vel_p g) @ vec_list (vel_i g) @ vec_list (vel_d g)
       @ [vel_max_roll_pitch g, vel_max_yaw_step g, vel_accel_ff g] @ vec_list (att_p g)
       @ [att_max_rate_cmd g] @ vec_list (rate_p g) @ vec_list (rate_d g) @ vec_list (rate_i g)
       @ [rate_d_lpf_alpha g])"

text \<open>The part behind the variable-length tables.\<close>

definition enc_tail :: "resolved_config \<Rightarrow> u8 list" where
  "enc_tail c =
     le_bytes (cfg_command_timeout_ms c) @ 0xff # enc_f32s (cfg_safe_output c)
     @ 0xff # enc_f32s (cfg_slew_limit_per_cycle c) @ 0xff # enc_cascade_gains (cfg_cascade_gains c)
     @ 0xff # le_bytes (cfg_hover_thrust_norm c) @ 0xff # mixer_geometry_tag (cfg_mixer_geometry c)
     # 0xff # [actuator_curve_tag (cfg_actuator_curve c)]"

definition config_bytes :: "resolved_config \<Rightarrow> u8 list" where
  "config_bytes c =
     enc_limits (cfg_limits c) @ 0xff # enc_mode_config (cfg_mode_config c)
     @ 0xff # enc_fault_table (cfg_fault_table c) @ 0xff # enc_tail c"

section \<open>The hash folds the serialization\<close>

named_theorems feed_enc \<open>a feeder folds the bytes of its encoder\<close>

lemma feed_bytes_simps [feed_enc]:
  "feed_byte b h = feed_bytes [b] h"
  "feed_bytes ys (feed_bytes xs h) = feed_bytes (xs @ ys) h"
  by (simp_all add: feed_bytes_def)

lemma feed_f32s_enc [feed_enc]: "feed_f32s xs h = feed_bytes (enc_f32s xs) h"
  by (induction xs arbitrary: h) (simp_all add: feed_f32s_def enc_f32s_def feed_f32_def feed_bytes_def)

lemma fold_feed_enc:
  assumes "\<And>x h. f x h = feed_bytes (e x) h"
  shows "fold f xs h = feed_bytes (concat (map e xs)) h"
  by (induction xs arbitrary: h) (simp_all add: assms feed_bytes_def)

lemma feed_option_f32_enc [feed_enc]: "feed_option_f32 v h = feed_bytes (enc_option_f32 v) h"
  by (cases v) (simp_all add: feed_f32_def feed_bytes_def)

lemmas feed_prim = feed_separator_def feed_u16_def feed_u32_def feed_usize_def feed_f32_def feed_bool_def

lemma feed_group_enc: "feed_actuator_group_config g h = feed_bytes (enc_group g) h"
proof -
  have k: "feed_group_kind k h = feed_bytes (enc_group_kind k) h" for k h
    by (cases k) (simp_all add: feed_bytes_def)
  have p: "feed_fallback_policy p h = feed_bytes (enc_fallback_policy p) h" for p h
    by (cases p) (simp_all add: feed_bytes_def feed_u16_def)
  show ?thesis
    by (simp add: feed_actuator_group_config_def feed_group_vector_def enc_group_def k p feed_enc feed_prim
        enc_usize_def Let_def)
qed

lemma feed_mode_config_enc [feed_enc]: "feed_mode_config m h = feed_bytes (enc_mode_config m) h"
  by (simp add: feed_mode_config_def enc_mode_config_def fold_feed_enc [OF feed_group_enc] feed_enc feed_prim
      enc_usize_def)

lemma feed_fault_response_enc: "feed_fault_response r h = feed_bytes (enc_fault_response r) h"
  by (cases "fr_degrade_to r")
    (simp_all add: feed_fault_response_def enc_fault_response_def feed_enc feed_prim Let_def)

lemma feed_fault_table_enc [feed_enc]: "feed_fault_table t h = feed_bytes (enc_fault_table t) h"
  by (simp add: feed_fault_table_def enc_fault_table_def fold_feed_enc [OF feed_fault_response_enc] feed_enc
      feed_prim enc_usize_def)

lemma enc_f32s_append: "enc_f32s (xs @ ys) = enc_f32s xs @ enc_f32s ys"
  by (simp add: enc_f32s_def)

lemma enc_f32s_single: "le_bytes x = enc_f32s [x]"
  by (simp add: enc_f32s_def)

lemma feed_limits_enc [feed_enc]: "feed_limits l h = feed_bytes (enc_limits l) h"
  by (simp add: feed_limits_def enc_limits_def feed_enc feed_prim Let_def) (simp add: enc_f32s_def)

lemma feed_cascade_gains_enc [feed_enc]: "feed_cascade_gains g h = feed_bytes (enc_cascade_gains g) h"
  by (simp add: feed_cascade_gains_def enc_cascade_gains_def feed_enc feed_prim Let_def enc_f32s_append)
    (simp add: enc_f32s_def)

lemma canonical_hash_folds: "canonical_hash c = feed_bytes (config_bytes c) FNV_OFFSET"
  by (simp add: canonical_hash_def canonical_hash_from_hover_prefix_def hover_kernel_prefix_hash_def
      config_bytes_def enc_tail_def feed_enc feed_prim Let_def)

section \<open>The serialization is injective\<close>

named_theorems enc_inj \<open>an encoder is prefix-free and injective\<close>

lemma le_bytes_prefix_iff:
  "8 dvd LENGTH('a) \<Longrightarrow> le_bytes (v :: 'a::len word) @ r = le_bytes w @ s \<longleftrightarrow> v = w \<and> r = s"
  using le_bytes_append_inj by blast

lemma le_bytes_prefix [enc_inj]:
  "le_bytes (v :: u16) @ r = le_bytes w @ s \<longleftrightarrow> v = w \<and> r = s"
  "le_bytes (v' :: u32) @ r = le_bytes w' @ s \<longleftrightarrow> v' = w' \<and> r = s"
  "le_bytes (v'' :: u64) @ r = le_bytes w'' @ s \<longleftrightarrow> v'' = w'' \<and> r = s"
  by (rule le_bytes_prefix_iff, simp)+

lemma enc_f32s_prefix:
  "length xs = length ys \<Longrightarrow> enc_f32s xs @ r = enc_f32s ys @ s \<longleftrightarrow> xs = ys \<and> r = s"
  by (induction xs ys rule: list_induct2) (auto simp: enc_f32s_def enc_inj)

lemma enc_usize_prefix:
  "n < 2 ^ 64 \<Longrightarrow> m < 2 ^ 64 \<Longrightarrow> enc_usize n @ r = enc_usize m @ s \<longleftrightarrow> n = m \<and> r = s"
  by (auto simp: enc_usize_def enc_inj of_nat_inverse dest: arg_cong [where f = unat])

lemma enc_option_f32_prefix [enc_inj]:
  "enc_option_f32 a @ r = enc_option_f32 b @ s \<longleftrightarrow> a = b \<and> r = s"
  by (cases a; cases b) (auto simp: enc_inj)

lemma enc_limits_prefix [enc_inj]: "enc_limits a @ r = enc_limits b @ s \<longleftrightarrow> a = b \<and> r = s"
  by (cases a; cases b) (auto simp: enc_limits_def enc_inj enc_f32s_prefix)

lemma enc_cascade_gains_prefix [enc_inj]: "enc_cascade_gains a @ r = enc_cascade_gains b @ s \<longleftrightarrow> a = b \<and> r = s"
proof -
  have l: "length (vec_list v) = 3" for v by (cases v) simp
  have v: "vec_list v = vec_list w \<longleftrightarrow> v = w" for v w by (cases v; cases w) auto
  show ?thesis
    by (cases a; cases b) (auto simp: enc_cascade_gains_def enc_f32s_prefix l v append_eq_append_conv)
qed

lemma tags_inj [enc_inj]:
  "config_mode_tag a = config_mode_tag b \<longleftrightarrow> a = b"
  "coupling_tag c = coupling_tag d \<longleftrightarrow> c = d"
  "fault_action_tag e = fault_action_tag f \<longleftrightarrow> e = f"
  "control_law_tag g = control_law_tag h \<longleftrightarrow> g = h"
  "mixer_geometry_tag i = mixer_geometry_tag j \<longleftrightarrow> i = j"
  "actuator_curve_tag k = actuator_curve_tag l \<longleftrightarrow> k = l"
proof -
  show "config_mode_tag a = config_mode_tag b \<longleftrightarrow> a = b" by (cases a; cases b; simp)
  show "coupling_tag c = coupling_tag d \<longleftrightarrow> c = d" by (cases c; cases d; simp)
  show "fault_action_tag e = fault_action_tag f \<longleftrightarrow> e = f" by (cases e; cases f; simp)
  show "control_law_tag g = control_law_tag h \<longleftrightarrow> g = h" by (cases g; cases h; simp)
  show "mixer_geometry_tag i = mixer_geometry_tag j \<longleftrightarrow> i = j" by (cases i; cases j; simp)
  show "actuator_curve_tag k = actuator_curve_tag l \<longleftrightarrow> k = l" by (cases k; cases l; simp)
qed

lemma fault_category_tag_inj [enc_inj]: "fault_category_tag a = fault_category_tag b \<longleftrightarrow> a = b"
  by (cases a; cases b; simp)


lemma enc_group_prefix:
  assumes "length (ag_members a) < 2 ^ 64" "length (ag_members b) < 2 ^ 64"
    and "length (gv_outputs (ag_safe_pattern a)) = 16" "length (gv_outputs (ag_safe_pattern b)) = 16"
    and "enc_group a @ r = enc_group b @ s"
  shows "a = b \<and> r = s"
proof -
  have k: "enc_group_kind x @ r = enc_group_kind y @ s \<longleftrightarrow> x = y \<and> r = s" for x y r s
    by (cases x; cases y) auto
  have p: "enc_fallback_policy x @ r = enc_fallback_policy y @ s \<longleftrightarrow> x = y \<and> r = s" for x y r s
    by (cases x; cases y) (auto simp: enc_inj)
  have "ag_kind a = ag_kind b \<and> ag_coupling a = ag_coupling b \<and> ag_fallback a = ag_fallback b
      \<and> ag_members a = ag_members b \<and> gv_outputs (ag_safe_pattern a) = gv_outputs (ag_safe_pattern b)
      \<and> gv_mask (ag_safe_pattern a) = gv_mask (ag_safe_pattern b)
      \<and> gv_valid (ag_safe_pattern a) = gv_valid (ag_safe_pattern b) \<and> r = s"
    using assms
    by (auto simp: enc_group_def k p enc_inj enc_usize_prefix enc_f32s_prefix append_eq_append_conv
        split: if_splits)
  then show ?thesis by (cases a; cases b; cases "ag_safe_pattern a"; cases "ag_safe_pattern b") auto
qed

lemma enc_fault_response_prefix:
  "enc_fault_response a @ r = enc_fault_response b @ s \<longleftrightarrow> a = b \<and> r = s"
  by (cases a; cases b) (auto simp: enc_fault_response_def enc_inj split: option.splits)

lemma concat_prefix:
  assumes "\<And>a b r s. a \<in> set xs \<Longrightarrow> b \<in> set ys \<Longrightarrow> e a @ r = e b @ s \<Longrightarrow> a = b \<and> r = s"
    and "length xs = length ys" "concat (map e xs) @ r = concat (map e ys) @ s"
  shows "xs = ys \<and> r = s"
  using assms(2,1,3)
proof (induction xs ys rule: list_induct2)
  case (Cons x xs y ys)
  have "e x @ (concat (map e xs) @ r) = e y @ (concat (map e ys) @ s)" using Cons.prems(2) by simp
  then have "x = y \<and> concat (map e xs) @ r = concat (map e ys) @ s" by (rule Cons.prems(1) [rotated 2]) auto
  then show ?case using Cons.IH Cons.prems(1) by auto
qed simp

text \<open>What the source's types guarantee: sixteen-channel arrays and slice lengths below \<open>2 ^ 64\<close>.\<close>

definition group_wf :: "actuator_group_config \<Rightarrow> bool" where
  "group_wf g \<longleftrightarrow> length (ag_members g) < 2 ^ 64 \<and> length (gv_outputs (ag_safe_pattern g)) = 16"

definition config_wf :: "resolved_config \<Rightarrow> bool" where
  "config_wf c \<longleftrightarrow>
     length (cfg_safe_output c) = 16 \<and> length (cfg_slew_limit_per_cycle c) = 16
     \<and> length (cfg_fault_table c) < 2 ^ 64 \<and> length (mc_groups (cfg_mode_config c)) < 2 ^ 64
     \<and> list_all group_wf (mc_groups (cfg_mode_config c))"

lemma enc_mode_config_prefix:
  assumes "length (mc_groups a) < 2 ^ 64" "length (mc_groups b) < 2 ^ 64"
    and "list_all group_wf (mc_groups a)" "list_all group_wf (mc_groups b)"
    and "enc_mode_config a @ r = enc_mode_config b @ s"
  shows "a = b \<and> r = s"
proof -
  have h: "mc_mode a = mc_mode b" "length (mc_groups a) = length (mc_groups b)"
    "concat (map enc_group (mc_groups a)) @ r = concat (map enc_group (mc_groups b)) @ s"
    using assms by (auto simp: enc_mode_config_def enc_inj enc_usize_prefix)
  have "mc_groups a = mc_groups b \<and> r = s"
  proof (rule concat_prefix [OF _ h(2,3)])
    fix x y r s
    assume "x \<in> set (mc_groups a)" "y \<in> set (mc_groups b)" "enc_group x @ r = enc_group y @ s"
    then show "x = y \<and> r = s"
      using assms(3,4) by (intro enc_group_prefix) (auto simp: list_all_iff group_wf_def)
  qed
  then show ?thesis using h(1) by (cases a; cases b) auto
qed

lemma enc_fault_table_prefix:
  assumes "length a < 2 ^ 64" "length b < 2 ^ 64" "enc_fault_table a @ r = enc_fault_table b @ s"
  shows "a = b \<and> r = s"
proof -
  have h: "length a = length b"
    "concat (map enc_fault_response a) @ r = concat (map enc_fault_response b) @ s"
    using assms by (auto simp: enc_fault_table_def enc_usize_prefix)
  show ?thesis by (rule concat_prefix [OF _ h]) (simp add: enc_fault_response_prefix)
qed

lemma enc_tail_inj:
  assumes "length (cfg_safe_output a) = 16" "length (cfg_safe_output b) = 16"
    and "length (cfg_slew_limit_per_cycle a) = 16" "length (cfg_slew_limit_per_cycle b) = 16"
    and "enc_tail a = enc_tail b" "cfg_limits a = cfg_limits b" "cfg_mode_config a = cfg_mode_config b"
    and "cfg_fault_table a = cfg_fault_table b"
  shows "a = b"
proof -
  have "cfg_command_timeout_ms a = cfg_command_timeout_ms b"
    and r: "enc_f32s (cfg_safe_output a) @ 0xff # enc_f32s (cfg_slew_limit_per_cycle a)
       @ 0xff # enc_cascade_gains (cfg_cascade_gains a) @ 0xff # le_bytes (cfg_hover_thrust_norm a)
       @ 0xff # mixer_geometry_tag (cfg_mixer_geometry a) # 0xff # [actuator_curve_tag (cfg_actuator_curve a)]
     = enc_f32s (cfg_safe_output b) @ 0xff # enc_f32s (cfg_slew_limit_per_cycle b)
       @ 0xff # enc_cascade_gains (cfg_cascade_gains b) @ 0xff # le_bytes (cfg_hover_thrust_norm b)
       @ 0xff # mixer_geometry_tag (cfg_mixer_geometry b) # 0xff # [actuator_curve_tag (cfg_actuator_curve b)]"
    using assms(5) by (simp_all add: enc_tail_def enc_inj)
  moreover have "cfg_safe_output a = cfg_safe_output b"
    "cfg_slew_limit_per_cycle a = cfg_slew_limit_per_cycle b"
    "cfg_cascade_gains a = cfg_cascade_gains b"
    "le_bytes (cfg_hover_thrust_norm a)
       @ 0xff # mixer_geometry_tag (cfg_mixer_geometry a) # 0xff # [actuator_curve_tag (cfg_actuator_curve a)]
     = le_bytes (cfg_hover_thrust_norm b)
       @ 0xff # mixer_geometry_tag (cfg_mixer_geometry b) # 0xff # [actuator_curve_tag (cfg_actuator_curve b)]"
    using r assms(1-4) by (simp_all add: enc_f32s_prefix enc_inj)
  moreover from this(4) have "cfg_hover_thrust_norm a = cfg_hover_thrust_norm b"
    "cfg_mixer_geometry a = cfg_mixer_geometry b" "cfg_actuator_curve a = cfg_actuator_curve b"
    by (simp_all only: le_bytes_prefix list.inject tags_inj simp_thms)
  ultimately show ?thesis using assms(6-8) by (cases a; cases b) simp
qed

lemma fnv_prime_cancel: "x * FNV_PRIME = y * FNV_PRIME \<longleftrightarrow> x = y"
proof
  assume "x * FNV_PRIME = y * FNV_PRIME"
  then have "x * FNV_PRIME * 0xce965057aff6957b = y * FNV_PRIME * 0xce965057aff6957b" by simp
  moreover have "FNV_PRIME * 0xce965057aff6957b = 1" by (simp add: FNV_PRIME_def)
  ultimately show "x = y" by (simp add: mult.assoc)
qed simp

lemma xor_cancel: "a XOR b = a XOR c \<longleftrightarrow> b = c" "b XOR a = c XOR a \<longleftrightarrow> b = c" for a b c :: "'a::len word"
  by (metis xor.assoc xor.left_neutral xor_self_eq, metis xor.assoc xor.right_neutral xor_self_eq)

lemma feed_byte_inj: "feed_byte a h = feed_byte b h \<longleftrightarrow> a = b" "feed_byte a h = feed_byte a k \<longleftrightarrow> h = k"
proof -
  have b: "bit (ucast x :: u64) n \<longleftrightarrow> bit x n" for x :: u8 and n
    using bit_imp_le_length [of x n] by (auto simp: bit_ucast_iff)
  have "(ucast a :: u64) = ucast b \<longleftrightarrow> a = b"
    using b [of a] b [of b] by (metis bit_eqI)
  then show "feed_byte a h = feed_byte b h \<longleftrightarrow> a = b" by (simp add: feed_byte_def fnv_prime_cancel xor_cancel)
  show "feed_byte a h = feed_byte a k \<longleftrightarrow> h = k" by (simp add: feed_byte_def fnv_prime_cancel xor_cancel)
qed

lemma feed_bytes_inj: "feed_bytes xs h = feed_bytes xs k \<longleftrightarrow> h = k"
  by (induction xs arbitrary: h k) (simp_all add: feed_bytes_def feed_byte_inj)

lemma feed_bytes_one_byte: "feed_bytes (xs @ a # ys) h = feed_bytes (xs @ b # ys) h \<longleftrightarrow> a = b"
proof -
  have "feed_bytes (xs @ c # ys) h = feed_bytes ys (feed_byte c (feed_bytes xs h))" for c
    by (simp add: feed_bytes_def)
  then show ?thesis by (simp add: feed_bytes_inj feed_byte_inj)
qed

section \<open>Properties\<close>

text \<open>C29: the canonical hash covers the whole configuration: it is the FNV-1a fold of a byte string
  that determines every field, so two configurations that serialize alike are equal, and no
  concatenation of neighbouring fields can imitate another configuration.\<close>

theorem canonical_serialization_injective:
  assumes "config_wf a" "config_wf b"
  shows "canonical_hash a = feed_bytes (config_bytes a) FNV_OFFSET
    \<and> (config_bytes a = config_bytes b \<longleftrightarrow> a = b)"
proof -
  have "a = b" if e: "config_bytes a = config_bytes b"
  proof -
    note w = assms [unfolded config_wf_def]
    have l: "cfg_limits a = cfg_limits b"
      and r1: "enc_mode_config (cfg_mode_config a) @ 0xff # enc_fault_table (cfg_fault_table a) @ 0xff # enc_tail a
        = enc_mode_config (cfg_mode_config b) @ 0xff # enc_fault_table (cfg_fault_table b) @ 0xff # enc_tail b"
      using e by (auto simp: config_bytes_def enc_inj)
    have m: "cfg_mode_config a = cfg_mode_config b"
      and r2: "enc_fault_table (cfg_fault_table a) @ 0xff # enc_tail a
        = enc_fault_table (cfg_fault_table b) @ 0xff # enc_tail b"
      using enc_mode_config_prefix [OF _ _ _ _ r1] w by simp_all
    have f: "cfg_fault_table a = cfg_fault_table b" and r3: "enc_tail a = enc_tail b"
      using enc_fault_table_prefix [OF _ _ r2] w by simp_all
    show ?thesis using enc_tail_inj [OF _ _ _ _ r3] l m f w by simp
  qed
  then show ?thesis by (auto simp: canonical_hash_folds)
qed

theorem canonical_serialization_injective_witness:
  "config_bytes (resolved_config_default\<lparr>cfg_command_timeout_ms := 100\<rparr>) \<noteq> config_bytes resolved_config_default"
proof -
  have "config_wf resolved_config_default" "config_wf (resolved_config_default\<lparr>cfg_command_timeout_ms := 100\<rparr>)"
    by (simp_all add: config_wf_def resolved_config_default_def default_fault_table_def)
  moreover have "resolved_config_default\<lparr>cfg_command_timeout_ms := 100\<rparr> \<noteq> resolved_config_default"
    by (simp add: resolved_config_default_def DEFAULT_COMMAND_TIMEOUT_MS_def)
  ultimately show ?thesis using canonical_serialization_injective by blast
qed

text \<open>A corrupted byte is always noticed: configurations whose serializations differ in one
  byte have different canonical hashes, because every FNV-1a step is a bijection of the hash.\<close>

theorem canonical_hash_detects_byte:
  assumes "config_bytes a = xs @ p # ys" "config_bytes b = xs @ q # ys" "p \<noteq> q"
  shows "canonical_hash a \<noteq> canonical_hash b"
  using assms by (simp add: canonical_hash_folds feed_bytes_one_byte)

theorem canonical_hash_detects_byte_witness:
  "canonical_hash (resolved_config_default\<lparr>cfg_actuator_curve := QuadraticRotor\<rparr>)
     \<noteq> canonical_hash resolved_config_default"
proof -
  have e: "config_bytes (resolved_config_default\<lparr>cfg_actuator_curve := c\<rparr>)
      = butlast (config_bytes resolved_config_default) @ actuator_curve_tag c # []" for c
    by (simp add: config_bytes_def enc_tail_def butlast_append resolved_config_default_def)
  have "resolved_config_default\<lparr>cfg_actuator_curve := Linear\<rparr> = resolved_config_default"
    by (simp add: resolved_config_default_def)
  then show ?thesis
    using canonical_hash_detects_byte [OF e [of QuadraticRotor] e [of Linear]] by simp
qed

text \<open>The algorithm identity of the two shipped bundles is the pinned constant, so the model's
  byte order, field order and FNV constants are those of the source.\<close>

theorem algorithm_identity_golden:
  "algorithm_identity_hash EKF_ID MULTIROTOR_ID QUAD_X_MIXER_ID SANITIZER_ID = 0x368cf1e12e89dc02
   \<and> algorithm_identity_hash EKF_ID MULTIROTOR_ID QUAD_X500_MIXER_ID SANITIZER_ID = 0x816eeba94d64ae7f"
  by code_simp

definition gain_list :: "cascade_gains \<Rightarrow> f32 list" where
  "gain_list g =
     vec_list (pos_p g) @ vec_list (pos_accel_limits g) @ vec_list (pos_vel_caps g) @ vec_list (vel_p g)
     @ vec_list (vel_i g) @ vec_list (vel_d g) @ vec_list (att_p g) @ vec_list (rate_p g)
     @ vec_list (rate_i g) @ vec_list (rate_d g)
     @ [vel_max_roll_pitch g, vel_max_yaw_step g, att_max_rate_cmd g]"

text \<open>Gain validation accepts exactly the tunings whose every gain is finite and non-negative and
  whose feed-forward and filter coefficients lie in \<open>[0, 1]\<close>; the shipped X500 tuning is one.\<close>

theorem gains_validation_exact:
  "(validate_gains g = Ok () \<longleftrightarrow>
      list_all (\<lambda>v. \<not> bad_gain v) (gain_list g) \<and> \<not> not_in_unit (vel_accel_ff g)
      \<and> \<not> not_in_unit (rate_d_lpf_alpha g))
   \<and> validate_gains x500_defaults = Ok ()"
proof
  show "validate_gains x500_defaults = Ok ()" by code_simp
  show "validate_gains g = Ok () \<longleftrightarrow>
      list_all (\<lambda>v. \<not> bad_gain v) (gain_list g) \<and> \<not> not_in_unit (vel_accel_ff g)
      \<and> \<not> not_in_unit (rate_d_lpf_alpha g)"
    by (cases g)
      (auto simp: validate_gains_def find_None_iff named_gains_def gain_list_def split: option.split)
qed

text \<open>the boundary command is safe for every input: on a linear actuator it is always a finite
  number in \<open>[0, 1]\<close>, a command already in range passes unchanged and a NaN or infinite one
  becomes zero thrust; on a quadratic rotor it is the square root of that value.\<close>

lemma boundary_command_safe:
  "unit_range (boundary_command M Linear x)
   \<and> (unit_range x \<longrightarrow> boundary_command M Linear x = x)
   \<and> (\<not> f32_is_finite x \<longrightarrow> boundary_command M Linear x = 0)
   \<and> boundary_command M QuadraticRotor x = sqrtf M (boundary_command M Linear x)"
proof -
  have c: "f32_le f0 f1" "f32_is_finite f0" "f32_is_finite f1" by code_simp+
  have "unit_range (f32_clamp x f0 f1)" if "f32_is_finite x"
    using f32_clamp_bounds [OF c(1) f32_finite_not_nan [OF that]] f32_le_finite [OF _ _ c(2,3)]
    by (auto simp: unit_range_def f32_le_def f32_lt_def)
  then show ?thesis
    using c(2) unit_range_0 by (auto simp: boundary_command_def Let_def unit_range_def f32_clamp_def)
qed

lemma boundary_command_safe_witness:
  "boundary_command small_angle_libm Linear f32_nan = 0"
proof -
  have "\<not> f32_is_finite f32_nan" by code_simp
  then show ?thesis using boundary_command_safe [of small_angle_libm f32_nan] by simp
qed

end
