(* ===== verification/FlightPhase.thy ===== *)
theory FlightPhase
  imports Domain
begin

text \<open>
  The airborne latch of \<open>flight_phase.rs\<close>: the phase, the ground datum captured at arm, and
  the landed debounce. \<open>update\<close> is one definition per branch of the source.
\<close>

section \<open>Data\<close>

datatype flight_phase = OnGround | Airborne

record flight_phase_limits =
  takeoff_height :: f32
  landed_height :: f32
  landed_speed :: f32
  landed_debounce :: f32

definition flight_phase_limits_default :: flight_phase_limits where
  "flight_phase_limits_default =
     \<lparr>takeoff_height = f32_lit 1 2, landed_height = f32_lit 3 10, landed_speed = f32_lit 3 10,
      landed_debounce = f32_lit 1 2\<rparr>"

definition is_hysteretic :: "flight_phase_limits \<Rightarrow> bool" where
  "is_hysteretic l \<longleftrightarrow> f32_lt (landed_height l) (takeoff_height l)"

record flight_phase_state =
  fp_phase :: flight_phase
  fp_ground_datum :: f32
  fp_datum_valid :: bool
  fp_landed_elapsed :: f32

definition flight_phase_state_default :: flight_phase_state where
  "flight_phase_state_default =
     \<lparr>fp_phase = OnGround, fp_ground_datum = f0, fp_datum_valid = False, fp_landed_elapsed = f0\<rparr>"

definition is_airborne :: "flight_phase_state \<Rightarrow> bool" where
  "is_airborne s \<longleftrightarrow> fp_phase s = Airborne"

section \<open>Operations\<close>

definition height_is_usable :: "state_estimate \<Rightarrow> bool" where
  "height_is_usable e \<longleftrightarrow> quality e \<noteq> Unusable"

definition altitude_of :: "state_estimate \<Rightarrow> f32" where
  "altitude_of e = f32_neg (ix2 (position_ned e))"

definition vertical_speed_of :: "state_estimate \<Rightarrow> f32" where
  "vertical_speed_of e = f32_neg (ix2 (velocity_ned e))"

definition begin_flight_period :: "flight_phase_state \<Rightarrow> state_estimate \<Rightarrow> flight_phase_state" where
  "begin_flight_period s e =
     s\<lparr>fp_phase := OnGround, fp_landed_elapsed := f0, fp_datum_valid := height_is_usable e,
       fp_ground_datum := altitude_of e\<rparr>"

definition fp_reset :: "flight_phase_state \<Rightarrow> flight_phase_state" where
  "fp_reset s = flight_phase_state_default"

definition debounce_step :: "f32 \<Rightarrow> flight_phase_limits \<Rightarrow> f32" where
  "debounce_step dt l =
     (if f32_is_finite dt \<and> f32_lt f0 dt then f32_min dt (f32_mul (landed_debounce l) f_half) else f0)"

definition landed_condition :: "f32 \<Rightarrow> state_estimate \<Rightarrow> flight_phase_limits \<Rightarrow> bool" where
  "landed_condition height e l \<longleftrightarrow>
     (let velocity_usable = flag_contains (valid_flags e) VELOCITY;
          descending_slowly = velocity_usable \<and> f32_lt (f32_abs (vertical_speed_of e)) (landed_speed l)
      in f32_lt height (landed_height l) \<and> descending_slowly)"

definition update_landed_debounce ::
  "flight_phase_state \<Rightarrow> f32 \<Rightarrow> state_estimate \<Rightarrow> f32 \<Rightarrow> flight_phase_limits \<Rightarrow> flight_phase_state" where
  "update_landed_debounce s height e dt l =
     (if \<not> landed_condition height e l then s\<lparr>fp_landed_elapsed := f0\<rparr>
      else let elapsed = f32_add (fp_landed_elapsed s) (debounce_step dt l)
      in if f32_le (landed_debounce l) elapsed
         then s\<lparr>fp_phase := OnGround, fp_landed_elapsed := f0\<rparr>
         else s\<lparr>fp_landed_elapsed := elapsed\<rparr>)"

definition flight_phase_update ::
  "flight_phase_state \<Rightarrow> state_estimate \<Rightarrow> bool \<Rightarrow> f32 \<Rightarrow> flight_phase_limits \<Rightarrow> flight_phase_state" where
  "flight_phase_update s e armed dt l =
     (if \<not> armed \<or> \<not> fp_datum_valid s then s
      else if \<not> height_is_usable e then s\<lparr>fp_landed_elapsed := f0\<rparr>
      else let height = f32_sub (altitude_of e) (fp_ground_datum s)
      in case fp_phase s of
           OnGround \<Rightarrow>
             (if f32_lt (takeoff_height l) height
              then s\<lparr>fp_phase := Airborne, fp_landed_elapsed := f0\<rparr> else s)
         | Airborne \<Rightarrow> update_landed_debounce s height e dt l)"

section \<open>Lemmas\<close>

lemma debounce_step_bound:
  "f32_le f0 (debounce_step dt flight_phase_limits_default)
   \<and> f32_le (debounce_step dt flight_phase_limits_default) (f32_lit 1 4)"
proof -
  have half: "f32_mul (landed_debounce flight_phase_limits_default) f_half = f32_lit 1 4"
    by code_simp
  have c: "f32_le f0 f0" "f32_le f0 (f32_lit 1 4)" "f32_le (f32_lit 1 4) (f32_lit 1 4)"
    "\<not> f32_is_nan (f32_lit 1 4)"
    by code_simp+
  show ?thesis
    using c by (auto simp: debounce_step_def half f32_min_def f32_lt_def f32_le_def)
qed

lemma first_landed_sample_keeps_airborne:
  assumes "f32_key (fp_landed_elapsed s) = 0" "fp_phase s = Airborne"
  shows "fp_phase (update_landed_debounce s h e dt flight_phase_limits_default) = Airborne"
proof -
  let ?l = flight_phase_limits_default
  let ?st = "debounce_step dt ?l"
  have q: "f32_is_finite f0" "f32_is_finite (f32_lit 1 4)"
    "\<not> f32_key (landed_debounce ?l) \<le> f32_key (f32_lit 1 4)"
    by code_simp+
  note b = debounce_step_bound [of dt]
  have fin: "f32_is_finite ?st" using f32_le_finite [OF conjunct1 [OF b] conjunct2 [OF b] q(1,2)] .
  have fin0: "f32_is_finite (fp_landed_elapsed s)" using assms(1) by (simp add: f32_finite_key)
  have "f32_scaled (fp_landed_elapsed s) = 0"
    using assms(1) by (auto simp: f32_scaled_def f32_key_def split: if_splits)
  then have "f32_key (f32_add (fp_landed_elapsed s) ?st) = f32_key ?st"
    using fin fin0 by (simp add: f32_add_key f32_round_key_scaled)
  then have "\<not> f32_le (landed_debounce ?l) (f32_add (fp_landed_elapsed s) ?st)"
    using b q(3) by (auto simp: f32_le_def)
  then show ?thesis using assms(2) by (simp add: update_landed_debounce_def Let_def)
qed

lemma landing_elapsed:
  assumes "fp_phase s = Airborne" "fp_phase (flight_phase_update s e armed dt flight_phase_limits_default) = OnGround"
  shows "armed \<and> fp_datum_valid s \<and> height_is_usable e
    \<and> landed_condition (f32_sub (altitude_of e) (fp_ground_datum s)) e flight_phase_limits_default
    \<and> f32_key (fp_landed_elapsed s) \<noteq> 0"
  using assms first_landed_sample_keeps_airborne [of s "f32_sub (altitude_of e) (fp_ground_datum s)" e dt]
  by (auto simp: flight_phase_update_def Let_def update_landed_debounce_def split: if_splits)

section \<open>Properties\<close>

text \<open>the latch sets exactly on positive evidence: from \<open>OnGround\<close> one cycle makes the vehicle
  airborne if and only if it is armed, the arm datum is valid, the estimate is usable and
  the height above the datum exceeds the take-off height. Without all of armed, datum and
  usable estimate the phase never changes in either direction.\<close>

lemma takeoff_exact:
  "(fp_phase s = OnGround \<longrightarrow>
      (fp_phase (flight_phase_update s e armed dt l) = Airborne \<longleftrightarrow>
         armed \<and> fp_datum_valid s \<and> height_is_usable e
         \<and> f32_lt (takeoff_height l) (f32_sub (altitude_of e) (fp_ground_datum s))))
   \<and> (\<not> (armed \<and> fp_datum_valid s \<and> height_is_usable e) \<longrightarrow>
      fp_phase (flight_phase_update s e armed dt l) = fp_phase s)"
  by (auto simp: flight_phase_update_def Let_def)

lemma takeoff_exact_witness:
  "fp_phase (flight_phase_update (begin_flight_period flight_phase_state_default
       (state_estimate_default\<lparr>quality := GoodQuality\<rparr>))
     (state_estimate_default\<lparr>quality := GoodQuality, position_ned := (0, 0, f32_neg (f32_lit 3 1))\<rparr>)
     True (f32_lit 1 1000) flight_phase_limits_default) = Airborne"
proof -
  have "f32_lt (takeoff_height flight_phase_limits_default)
      (f32_sub (f32_neg (f32_neg (f32_lit 3 1))) (f32_neg 0))"
    by code_simp
  then show ?thesis
    using takeoff_exact [of "begin_flight_period flight_phase_state_default
       (state_estimate_default\<lparr>quality := GoodQuality\<rparr>)"
      "state_estimate_default\<lparr>quality := GoodQuality, position_ned := (0, 0, f32_neg (f32_lit 3 1))\<rparr>"
      True "f32_lit 1 1000" flight_phase_limits_default]
    by (simp add: begin_flight_period_def height_is_usable_def altitude_of_def state_estimate_default_def)
qed

text \<open>no single sample lands the vehicle: when the latch clears, both the clearing cycle and
  the cycle before it ran armed on usable estimates that satisfied the landed condition (low
  height above the arm datum, valid and low vertical speed), whatever time steps, including
  NaN, infinite or huge ones, the clock reported.\<close>

lemma landing_needs_two_samples:
  assumes "fp_phase s = Airborne"
    and "s1 = flight_phase_update s e0 armed0 dt0 flight_phase_limits_default"
    and "s2 = flight_phase_update s1 e1 armed1 dt1 flight_phase_limits_default"
    and "fp_phase s1 = Airborne" "fp_phase s2 = OnGround" "armed0"
  shows "armed1 \<and> height_is_usable e0 \<and> height_is_usable e1
    \<and> landed_condition (f32_sub (altitude_of e0) (fp_ground_datum s)) e0 flight_phase_limits_default
    \<and> landed_condition (f32_sub (altitude_of e1) (fp_ground_datum s)) e1 flight_phase_limits_default"
proof -
  have l: "armed1 \<and> fp_datum_valid s1 \<and> height_is_usable e1
    \<and> landed_condition (f32_sub (altitude_of e1) (fp_ground_datum s1)) e1 flight_phase_limits_default
    \<and> f32_key (fp_landed_elapsed s1) \<noteq> 0"
    using landing_elapsed [of s1 e1 armed1 dt1] assms by simp
  then show ?thesis
    using assms
    by (auto simp: flight_phase_update_def Let_def update_landed_debounce_def split: if_splits)
qed

definition landed_estimate :: state_estimate where
  "landed_estimate = state_estimate_default\<lparr>quality := GoodQuality, valid_flags := 15\<rparr>"

lemma landing_needs_two_samples_witness:
  "landed_condition (f32_sub (altitude_of landed_estimate) 0) landed_estimate flight_phase_limits_default"
proof -
  let ?s = "\<lparr>fp_phase = Airborne, fp_ground_datum = 0, fp_datum_valid = True, fp_landed_elapsed = 0\<rparr>"
  let ?s1 = "flight_phase_update ?s landed_estimate True f1 flight_phase_limits_default"
  let ?s2 = "flight_phase_update ?s1 landed_estimate True f1 flight_phase_limits_default"
  have "fp_phase ?s1 = Airborne" "fp_phase ?s2 = OnGround" by code_simp+
  then show ?thesis
    using landing_needs_two_samples [of ?s ?s1 landed_estimate True f1 ?s2 landed_estimate True f1]
    by simp
qed

end
