(* ===== verification/Checks.thy ===== *)
theory Checks
  imports Actuators
begin

text \<open>
  The check bundle of the kernel: pre-arm checks (\<open>checks/pre_arm.rs\<close>), in-flight checks and
  the degradation decision (\<open>checks/in_flight.rs\<close>), the configuration-transition gate
  (\<open>checks/transition.rs\<close>), the aggregate (\<open>checks/kernel_checks.rs\<close>) and the consistency
  predicates the source states for verification (\<open>checks/invariants.rs\<close>). The protection
  status and envelope margin they read are the data types of \<open>control/envelope.rs\<close>.
  Flag names carry the prefix of their set: \<open>PA_\<close>, \<open>FL_\<close> and \<open>TR_\<close>.
\<close>

named_theorems pa_bits \<open>definitions of the pre-arm bits\<close>
named_theorems fl_bits \<open>definitions of the in-flight bits\<close>
named_theorems tr_bits \<open>definitions of the transition bits\<close>

section \<open>Envelope data\<close>

type_synonym axis_limit_flags = u8

record envelope_margin =
  em_roll_rad :: f32
  em_pitch_rad :: f32
  em_yaw_rate_rad_s :: f32
  em_altitude_m :: f32
  em_airspeed_mps :: f32
  em_load_factor :: f32

record protection_status =
  limited_axes :: axis_limit_flags
  saturated :: bool

definition protection_status_default :: protection_status where
  "protection_status_default = \<lparr>limited_axes = 0, saturated = False\<rparr>"

section \<open>Pre-arm checks\<close>

type_synonym pre_arm_flags = u32

definition PA_IMU_HEALTHY :: pre_arm_flags where
  [pa_bits]: "PA_IMU_HEALTHY = flag 0"

definition PA_BARO_HEALTHY :: pre_arm_flags where
  [pa_bits]: "PA_BARO_HEALTHY = flag 1"

definition PA_MAG_HEALTHY :: pre_arm_flags where
  [pa_bits]: "PA_MAG_HEALTHY = flag 2"

definition PA_GNSS_AVAILABLE :: pre_arm_flags where
  [pa_bits]: "PA_GNSS_AVAILABLE = flag 3"

definition PA_IMU_CONVERGED :: pre_arm_flags where
  [pa_bits]: "PA_IMU_CONVERGED = flag 4"

definition PA_BARO_CONVERGED :: pre_arm_flags where
  [pa_bits]: "PA_BARO_CONVERGED = flag 5"

definition PA_MAG_CONVERGED :: pre_arm_flags where
  [pa_bits]: "PA_MAG_CONVERGED = flag 6"

definition PA_EKF_CONVERGED :: pre_arm_flags where
  [pa_bits]: "PA_EKF_CONVERGED = flag 7"

definition PA_THROTTLE_LOW :: pre_arm_flags where
  [pa_bits]: "PA_THROTTLE_LOW = flag 8"

definition PA_CONFIG_VALID :: pre_arm_flags where
  [pa_bits]: "PA_CONFIG_VALID = flag 9"

definition PA_NO_FAULTS :: pre_arm_flags where
  [pa_bits]: "PA_NO_FAULTS = flag 10"

definition PA_HARDWARE_ARMED :: pre_arm_flags where
  [pa_bits]: "PA_HARDWARE_ARMED = flag 11"

definition PA_GYRO_CALIBRATED :: pre_arm_flags where
  [pa_bits]: "PA_GYRO_CALIBRATED = flag 12"

definition PA_ACCEL_CALIBRATED :: pre_arm_flags where
  [pa_bits]: "PA_ACCEL_CALIBRATED = flag 13"

definition QUAD_MINIMUM :: pre_arm_flags where
  "QUAD_MINIMUM = PA_IMU_HEALTHY OR PA_BARO_HEALTHY OR PA_IMU_CONVERGED OR PA_BARO_CONVERGED
     OR PA_EKF_CONVERGED OR PA_THROTTLE_LOW OR PA_CONFIG_VALID OR PA_NO_FAULTS"

definition QUAD_WITH_GPS :: pre_arm_flags where
  "QUAD_WITH_GPS = QUAD_MINIMUM OR PA_MAG_HEALTHY OR PA_MAG_CONVERGED OR PA_GNSS_AVAILABLE"

record sample_counts =
  sc_imu :: u32
  sc_baro :: u32
  sc_mag :: u32
  sc_gnss :: u32
  sc_min_required :: u32

definition DEFAULT_MIN_SAMPLES :: u32 where
  "DEFAULT_MIN_SAMPLES = 100"

definition sample_counts_new :: sample_counts where
  "sample_counts_new =
     \<lparr>sc_imu = 0, sc_baro = 0, sc_mag = 0, sc_gnss = 0, sc_min_required = DEFAULT_MIN_SAMPLES\<rparr>"

definition sample_counts_reset :: "sample_counts \<Rightarrow> sample_counts" where
  "sample_counts_reset s = s\<lparr>sc_imu := 0, sc_baro := 0, sc_mag := 0, sc_gnss := 0\<rparr>"

definition imu_converged :: "sample_counts \<Rightarrow> bool" where
  "imu_converged s \<longleftrightarrow> sc_min_required s \<le> sc_imu s"

definition baro_converged :: "sample_counts \<Rightarrow> bool" where
  "baro_converged s \<longleftrightarrow> sc_min_required s \<le> sc_baro s"

definition mag_converged :: "sample_counts \<Rightarrow> bool" where
  "mag_converged s \<longleftrightarrow> sc_min_required s \<le> sc_mag s"

record pre_arm_status =
  pa_required :: pre_arm_flags
  pa_current :: pre_arm_flags
  pa_samples :: sample_counts

definition pa_with_required :: "pre_arm_flags \<Rightarrow> pre_arm_status" where
  "pa_with_required r = \<lparr>pa_required = r, pa_current = 0, pa_samples = sample_counts_new\<rparr>"

definition pre_arm_default :: pre_arm_status where
  "pre_arm_default = \<lparr>pa_required = QUAD_MINIMUM, pa_current = 0, pa_samples = sample_counts_new\<rparr>"

definition pa_is_satisfied :: "pre_arm_status \<Rightarrow> bool" where
  "pa_is_satisfied p \<longleftrightarrow> flag_contains (pa_current p) (pa_required p)"

definition pa_missing :: "pre_arm_status \<Rightarrow> pre_arm_flags" where
  "pa_missing p = flag_diff (pa_required p) (pa_current p)"

definition pa_set :: "pre_arm_flags \<Rightarrow> bool \<Rightarrow> pre_arm_status \<Rightarrow> pre_arm_status" where
  "pa_set f b p = p\<lparr>pa_current := flag_set (pa_current p) f b\<rparr>"

definition count_samples :: "sensor_set \<Rightarrow> sample_counts \<Rightarrow> sample_counts" where
  "count_samples sensors s =
     s\<lparr>sc_imu := (if any_good (imus sensors) then sat_add (sc_imu s) 1 else sc_imu s),
       sc_baro := (if any_good (baros sensors) then sat_add (sc_baro s) 1 else sc_baro s),
       sc_mag := (if any_good (mags sensors) then sat_add (sc_mag s) 1 else sc_mag s),
       sc_gnss := (if any_good (gnss sensors) then sat_add (sc_gnss s) 1 else sc_gnss s)\<rparr>"

definition pa_update_from_sensors :: "pre_arm_status \<Rightarrow> sensor_set \<Rightarrow> pre_arm_status" where
  "pa_update_from_sensors p sensors =
     (let p1 = pa_set PA_GNSS_AVAILABLE (any_good (gnss sensors))
                (pa_set PA_MAG_HEALTHY (any_good (mags sensors))
                  (pa_set PA_BARO_HEALTHY (any_good (baros sensors))
                    (pa_set PA_IMU_HEALTHY (any_good (imus sensors)) p)));
          s = count_samples sensors (pa_samples p1);
          p2 = p1\<lparr>pa_samples := s\<rparr>
      in pa_set PA_MAG_CONVERGED (mag_converged s)
           (pa_set PA_BARO_CONVERGED (baro_converged s)
             (pa_set PA_IMU_CONVERGED (imu_converged s) p2)))"

definition pa_update_from_faults :: "pre_arm_status \<Rightarrow> fault_flags \<Rightarrow> pre_arm_status" where
  "pa_update_from_faults p faults =
     pa_set PA_CONFIG_VALID (\<not> flag_contains faults CONFIG_INVALID)
       (pa_set PA_NO_FAULTS (faults = 0) p)"

definition pa_update_throttle :: "pre_arm_status \<Rightarrow> bool \<Rightarrow> pre_arm_status" where
  "pa_update_throttle p low = pa_set PA_THROTTLE_LOW low p"

definition pa_update_ekf :: "pre_arm_status \<Rightarrow> bool \<Rightarrow> pre_arm_status" where
  "pa_update_ekf p converged = pa_set PA_EKF_CONVERGED converged p"

definition pa_reset :: "pre_arm_status \<Rightarrow> pre_arm_status" where
  "pa_reset p = p\<lparr>pa_current := 0, pa_samples := sample_counts_reset (pa_samples p)\<rparr>"

section \<open>In-flight checks\<close>

datatype degradation_reason =
  AttitudeLost | PositionLost | VelocityLost | CommandTimeout | ImuDegraded | BaroDegraded
| EnvelopeViolation | RcLost | TimingViolation | LandRequested

fun latched_fault :: "degradation_reason \<Rightarrow> fault_flags option" where
  "latched_fault AttitudeLost = Some ATTITUDE_LOST"
| "latched_fault ImuDegraded = Some IMU_DEGRADED"
| "latched_fault PositionLost = Some POSITION_LOST"
| "latched_fault VelocityLost = Some VELOCITY_LOST"
| "latched_fault BaroDegraded = Some BARO_DEGRADED"
| "latched_fault EnvelopeViolation = Some ENVELOPE_VIOLATION"
| "latched_fault RcLost = Some RC_LOST"
| "latched_fault TimingViolation = Some TIMING_PERSISTENT"
| "latched_fault CommandTimeout = None"
| "latched_fault LandRequested = None"

type_synonym in_flight_flags = u32

definition FL_ATTITUDE_VALID :: in_flight_flags where
  [fl_bits]: "FL_ATTITUDE_VALID = flag 0"

definition FL_VELOCITY_VALID :: in_flight_flags where
  [fl_bits]: "FL_VELOCITY_VALID = flag 1"

definition FL_POSITION_VALID :: in_flight_flags where
  [fl_bits]: "FL_POSITION_VALID = flag 2"

definition FL_HEADING_VALID :: in_flight_flags where
  [fl_bits]: "FL_HEADING_VALID = flag 3"

definition FL_WITHIN_ENVELOPE :: in_flight_flags where
  [fl_bits]: "FL_WITHIN_ENVELOPE = flag 4"

definition FL_ALTITUDE_OK :: in_flight_flags where
  [fl_bits]: "FL_ALTITUDE_OK = flag 5"

definition FL_COMMAND_RECENT :: in_flight_flags where
  [fl_bits]: "FL_COMMAND_RECENT = flag 8"

definition FL_RC_AVAILABLE :: in_flight_flags where
  [fl_bits]: "FL_RC_AVAILABLE = flag 9"

definition FL_TELEMETRY_OK :: in_flight_flags where
  [fl_bits]: "FL_TELEMETRY_OK = flag 10"

definition FL_IMU_OK :: in_flight_flags where
  [fl_bits]: "FL_IMU_OK = flag 12"

definition FL_BARO_OK :: in_flight_flags where
  [fl_bits]: "FL_BARO_OK = flag 13"

definition ATTITUDE_FLIGHT :: in_flight_flags where
  "ATTITUDE_FLIGHT = FL_ATTITUDE_VALID OR FL_IMU_OK OR FL_COMMAND_RECENT"

definition POSITION_FLIGHT :: in_flight_flags where
  "POSITION_FLIGHT = ATTITUDE_FLIGHT OR FL_POSITION_VALID OR FL_VELOCITY_VALID"

record in_flight_status =
  fl_required :: in_flight_flags
  fl_current :: in_flight_flags

definition in_flight_default :: in_flight_status where
  "in_flight_default = \<lparr>fl_required = ATTITUDE_FLIGHT, fl_current = 0\<rparr>"

definition fl_with_required :: "in_flight_flags \<Rightarrow> in_flight_status" where
  "fl_with_required r = \<lparr>fl_required = r, fl_current = 0\<rparr>"

definition fl_is_satisfied :: "in_flight_status \<Rightarrow> bool" where
  "fl_is_satisfied s \<longleftrightarrow> flag_contains (fl_current s) (fl_required s)"

definition fl_missing :: "in_flight_status \<Rightarrow> in_flight_flags" where
  "fl_missing s = flag_diff (fl_required s) (fl_current s)"

definition fl_set :: "in_flight_flags \<Rightarrow> bool \<Rightarrow> in_flight_status \<Rightarrow> in_flight_status" where
  "fl_set f b s = s\<lparr>fl_current := flag_set (fl_current s) f b\<rparr>"

definition fl_update_from_state :: "in_flight_status \<Rightarrow> state_estimate \<Rightarrow> in_flight_status" where
  "fl_update_from_state s st =
     fl_set FL_HEADING_VALID (flag_contains (valid_flags st) ATTITUDE)
       (fl_set FL_POSITION_VALID (flag_contains (valid_flags st) POSITION)
         (fl_set FL_VELOCITY_VALID (flag_contains (valid_flags st) VELOCITY)
           (fl_set FL_ATTITUDE_VALID (flag_contains (valid_flags st) ATTITUDE) s)))"

definition fl_update_from_sensors :: "in_flight_status \<Rightarrow> sensor_set \<Rightarrow> in_flight_status" where
  "fl_update_from_sensors s sensors =
     fl_set FL_BARO_OK (any_good (baros sensors)) (fl_set FL_IMU_OK (any_good (imus sensors)) s)"

definition fl_update_from_envelope :: "in_flight_status \<Rightarrow> protection_status \<Rightarrow> in_flight_status" where
  "fl_update_from_envelope s p =
     fl_set FL_WITHIN_ENVELOPE (limited_axes p = 0 \<and> \<not> saturated p) s"

definition fl_update_command_status :: "in_flight_status \<Rightarrow> u32 \<Rightarrow> u32 \<Rightarrow> in_flight_status" where
  "fl_update_command_status s age_ms timeout_ms = fl_set FL_COMMAND_RECENT (age_ms < timeout_ms) s"

definition fl_update_rc_status :: "in_flight_status \<Rightarrow> bool \<Rightarrow> in_flight_status" where
  "fl_update_rc_status s available = fl_set FL_RC_AVAILABLE available s"

definition fl_update_altitude :: "in_flight_status \<Rightarrow> bool \<Rightarrow> in_flight_status" where
  "fl_update_altitude s within = fl_set FL_ALTITUDE_OK within s"

definition get_degradation_trigger :: "in_flight_status \<Rightarrow> degradation_reason option" where
  "get_degradation_trigger s =
     (let missing = fl_missing s
      in if flag_contains missing FL_ATTITUDE_VALID then Some AttitudeLost
         else if flag_contains missing FL_IMU_OK then Some ImuDegraded
         else if flag_contains missing FL_POSITION_VALID then Some PositionLost
         else if flag_contains missing FL_VELOCITY_VALID then Some VelocityLost
         else if flag_contains missing FL_COMMAND_RECENT then Some CommandTimeout
         else if flag_contains missing FL_WITHIN_ENVELOPE then Some EnvelopeViolation
         else if flag_contains missing FL_BARO_OK then Some BaroDegraded
         else if flag_contains missing FL_RC_AVAILABLE then Some RcLost
         else None)"

definition fl_reset :: "in_flight_status \<Rightarrow> in_flight_status" where
  "fl_reset s = s\<lparr>fl_current := 0\<rparr>"

section \<open>Transition checks\<close>

type_synonym transition_flags = u32

definition TR_STABLE_FLIGHT :: transition_flags where
  [tr_bits]: "TR_STABLE_FLIGHT = flag 0"

definition TR_ACTUATORS_OK :: transition_flags where
  [tr_bits]: "TR_ACTUATORS_OK = flag 1"

definition TR_WITHIN_ENVELOPE :: transition_flags where
  [tr_bits]: "TR_WITHIN_ENVELOPE = flag 2"

definition TR_SYMMETRIC :: transition_flags where
  [tr_bits]: "TR_SYMMETRIC = flag 3"

definition TR_ALTITUDE_OK :: transition_flags where
  [tr_bits]: "TR_ALTITUDE_OK = flag 4"

definition TR_AIRSPEED_OK :: transition_flags where
  [tr_bits]: "TR_AIRSPEED_OK = flag 5"

definition VTOL_TRANSITION :: transition_flags where
  "VTOL_TRANSITION = TR_STABLE_FLIGHT OR TR_ACTUATORS_OK OR TR_WITHIN_ENVELOPE OR TR_SYMMETRIC"

datatype transition_failure =
  UnstableFlight | ActuatorStuck | UnsafeConditions | Asymmetry | AltitudeTooLow | AirspeedTooLow
| MultipleFailures

record transition_limits =
  tl_min_altitude :: f32
  tl_max_attitude_rate :: f32
  tl_min_airspeed :: f32
  tl_max_asymmetry :: f32

definition transition_limits_default :: transition_limits where
  "transition_limits_default =
     \<lparr>tl_min_altitude = f32_lit 10 1, tl_max_attitude_rate = f32_lit 1 2,
      tl_min_airspeed = f32_lit 15 1, tl_max_asymmetry = f32_lit 1 10\<rparr>"

record transition_status =
  tr_required :: transition_flags
  tr_current :: transition_flags
  tr_limits :: transition_limits

definition transition_default :: transition_status where
  "transition_default =
     \<lparr>tr_required = VTOL_TRANSITION, tr_current = 0, tr_limits = transition_limits_default\<rparr>"

definition tr_with_required :: "transition_flags \<Rightarrow> transition_status" where
  "tr_with_required r = \<lparr>tr_required = r, tr_current = 0, tr_limits = transition_limits_default\<rparr>"

definition tr_with_limits :: "transition_flags \<Rightarrow> transition_limits \<Rightarrow> transition_status" where
  "tr_with_limits r l = \<lparr>tr_required = r, tr_current = 0, tr_limits = l\<rparr>"

definition tr_is_satisfied :: "transition_status \<Rightarrow> bool" where
  "tr_is_satisfied t \<longleftrightarrow> flag_contains (tr_current t) (tr_required t)"

definition tr_missing :: "transition_status \<Rightarrow> transition_flags" where
  "tr_missing t = flag_diff (tr_required t) (tr_current t)"

definition tr_set :: "transition_flags \<Rightarrow> bool \<Rightarrow> transition_status \<Rightarrow> transition_status" where
  "tr_set f b t = t\<lparr>tr_current := flag_set (tr_current t) f b\<rparr>"

definition tr_update_from_actuators :: "transition_status \<Rightarrow> actuator_state \<Rightarrow> u16 \<Rightarrow> transition_status" where
  "tr_update_from_actuators t a am =
     (let t1 = tr_set TR_ACTUATORS_OK (all_healthy a am) t;
          none_stuck = (count_by_health a Stuck am = 0);
          symmetric = check_symmetric a [(0, 1), (2, 3)] (tl_max_asymmetry (tr_limits t1))
      in tr_set TR_SYMMETRIC (symmetric \<and> none_stuck) t1)"

definition tr_update_from_state :: "libm \<Rightarrow> transition_status \<Rightarrow> state_estimate \<Rightarrow> transition_status" where
  "tr_update_from_state M t st =
     (let altitude = f32_neg (ix2 (position_ned st));
          t1 = tr_set TR_ALTITUDE_OK (f32_le (tl_min_altitude (tr_limits t)) altitude) t;
          wx = ix0 (angular_velocity st);
          wy = ix1 (angular_velocity st);
          wz = ix2 (angular_velocity st);
          rate = sqrtf M (f32_add (f32_add (f32_mul wx wx) (f32_mul wy wy)) (f32_mul wz wz))
      in tr_set TR_STABLE_FLIGHT (f32_lt rate (tl_max_attitude_rate (tr_limits t1))) t1)"

definition tr_update_from_envelope :: "transition_status \<Rightarrow> envelope_margin \<Rightarrow> transition_status" where
  "tr_update_from_envelope t m =
     tr_set TR_WITHIN_ENVELOPE
       (f32_lt f0 (em_roll_rad m) \<and> f32_lt f0 (em_pitch_rad m) \<and> f32_lt f0 (em_altitude_m m)
        \<and> f32_lt f0 (em_load_factor m)) t"

definition tr_update_airspeed :: "transition_status \<Rightarrow> f32 option \<Rightarrow> transition_status" where
  "tr_update_airspeed t airspeed =
     tr_set TR_AIRSPEED_OK
       (case airspeed of None \<Rightarrow> False | Some v \<Rightarrow> f32_le (tl_min_airspeed (tr_limits t)) v) t"

definition can_transition :: "transition_status \<Rightarrow> (unit, transition_failure) result" where
  "can_transition t =
     (if tr_is_satisfied t then Ok ()
      else let missing = tr_missing t
      in if 1 < count_ones missing then Err MultipleFailures
         else if flag_contains missing TR_STABLE_FLIGHT then Err UnstableFlight
         else if flag_contains missing TR_ACTUATORS_OK then Err ActuatorStuck
         else if flag_contains missing TR_WITHIN_ENVELOPE then Err UnsafeConditions
         else if flag_contains missing TR_SYMMETRIC then Err Asymmetry
         else if flag_contains missing TR_ALTITUDE_OK then Err AltitudeTooLow
         else if flag_contains missing TR_AIRSPEED_OK then Err AirspeedTooLow
         else Err MultipleFailures)"

definition tr_reset :: "transition_status \<Rightarrow> transition_status" where
  "tr_reset t = t\<lparr>tr_current := 0\<rparr>"

section \<open>The aggregate\<close>

record kernel_checks =
  pre_arm :: pre_arm_status
  in_flight :: in_flight_status
  transition :: transition_status

definition kernel_checks_new :: kernel_checks where
  "kernel_checks_new =
     \<lparr>pre_arm = pre_arm_default, in_flight = in_flight_default, transition = transition_default\<rparr>"

definition kernel_checks_with_pre_arm_required :: "pre_arm_flags \<Rightarrow> kernel_checks" where
  "kernel_checks_with_pre_arm_required r =
     \<lparr>pre_arm = pa_with_required r, in_flight = in_flight_default, transition = transition_default\<rparr>"

section \<open>Stated consistency conditions\<close>

definition check_imu_consistency :: "fault_flags \<Rightarrow> pre_arm_status \<Rightarrow> bool" where
  "check_imu_consistency faults p =
     (if flag_contains faults ALL_IMU_FAILED then \<not> flag_contains (pa_current p) PA_IMU_HEALTHY else True)"

definition check_gnss_consistency :: "fault_flags \<Rightarrow> pre_arm_status \<Rightarrow> bool" where
  "check_gnss_consistency faults p =
     (if flag_contains faults ALL_GNSS_LOST then \<not> flag_contains (pa_current p) PA_GNSS_AVAILABLE else True)"

definition check_no_faults_consistency :: "fault_flags \<Rightarrow> pre_arm_status \<Rightarrow> bool" where
  "check_no_faults_consistency faults p =
     (flag_contains (pa_current p) PA_NO_FAULTS = (faults = 0))"

definition check_ekf_convergence_consistency :: "pre_arm_status \<Rightarrow> bool" where
  "check_ekf_convergence_consistency p =
     (if flag_contains (pa_current p) PA_EKF_CONVERGED
      then flag_contains (pa_current p) PA_IMU_CONVERGED else True)"

definition check_position_attitude_consistency :: "in_flight_status \<Rightarrow> bool" where
  "check_position_attitude_consistency s =
     (if flag_contains (fl_current s) FL_POSITION_VALID
      then flag_contains (fl_current s) FL_ATTITUDE_VALID else True)"

definition check_sample_count_monotonic :: "sample_counts \<Rightarrow> sample_counts \<Rightarrow> bool" where
  "check_sample_count_monotonic prev now \<longleftrightarrow>
     (sc_imu prev \<le> sc_imu now \<or> sc_imu now = 0) \<and> (sc_baro prev \<le> sc_baro now \<or> sc_baro now = 0)
     \<and> (sc_mag prev \<le> sc_mag now \<or> sc_mag now = 0) \<and> (sc_gnss prev \<le> sc_gnss now \<or> sc_gnss now = 0)"

definition verify_all :: "fault_flags \<Rightarrow> pre_arm_status \<Rightarrow> in_flight_status \<Rightarrow> bool" where
  "verify_all faults p s \<longleftrightarrow>
     check_imu_consistency faults p \<and> check_gnss_consistency faults p
     \<and> check_no_faults_consistency faults p \<and> check_ekf_convergence_consistency p
     \<and> check_position_attitude_consistency s"

definition get_violations :: "fault_flags \<Rightarrow> pre_arm_status \<Rightarrow> in_flight_status \<Rightarrow> u8" where
  "get_violations faults p s =
     (let v0 = (if \<not> check_imu_consistency faults p then flag 0 else 0);
          v1 = (if \<not> check_gnss_consistency faults p then v0 OR flag 1 else v0);
          v2 = (if \<not> check_no_faults_consistency faults p then v1 OR flag 2 else v1);
          v3 = (if \<not> check_ekf_convergence_consistency p then v2 OR flag 3 else v2)
      in if \<not> check_position_attitude_consistency s then v3 OR flag 4 else v3)"

section \<open>Lemmas\<close>

lemmas check_bits = pa_bits fl_bits tr_bits

lemma count_ones_le_1_flag:
  fixes w :: "'a::len word"
  assumes "count_ones w \<le> 1" "bit w k"
  shows "w = flag k"
proof -
  have "card {n. bit w n} \<le> Suc 0" using assms(1) by (simp add: count_ones_card)
  then have "n = k" if "bit w n" for n
    using assms(2) that card_le_Suc0_iff_eq [of "{n. bit w n}"] by auto
  moreover have "k < LENGTH('a)" using assms(2) by (rule bit_imp_le_length)
  ultimately have "bit w n = bit (flag k :: 'a word) n" for n
    using assms(2) by (metis bit_flag)
  then show ?thesis by (simp add: bit_eqI)
qed

lemma count_ones_flag: "k < LENGTH('a) \<Longrightarrow> count_ones (flag k :: 'a::len word) = 1"
  by (simp add: count_ones_card flag_simps)

lemma pa_set_simps [simp]:
  "pa_required (pa_set f b p) = pa_required p"
  "pa_samples (pa_set f b p) = pa_samples p"
  "bit (pa_current (pa_set f b p)) n = (if bit f n then b else bit (pa_current p) n)"
  by (simp_all add: pa_set_def flag_simps)

lemma fl_set_simps [simp]:
  "fl_required (fl_set f b s) = fl_required s"
  "bit (fl_current (fl_set f b s)) n = (if bit f n then b else bit (fl_current s) n)"
  by (simp_all add: fl_set_def flag_simps)

lemma tr_set_simps [simp]:
  "tr_required (tr_set f b t) = tr_required t"
  "tr_limits (tr_set f b t) = tr_limits t"
  "bit (tr_current (tr_set f b t)) n = (if bit f n then b else bit (tr_current t) n)"
  by (simp_all add: tr_set_def flag_simps)

lemma pa_updates_required [simp]:
  "pa_required (pa_update_from_sensors p s) = pa_required p"
  "pa_required (pa_update_from_faults p f) = pa_required p"
  "pa_required (pa_update_throttle p b) = pa_required p"
  "pa_required (pa_update_ekf p b) = pa_required p"
  "pa_required (pa_reset p) = pa_required p"
  by (simp_all add: pa_update_from_sensors_def pa_update_from_faults_def pa_update_throttle_def
      pa_update_ekf_def pa_reset_def Let_def)

text \<open>What each pre-arm update does to a flag, by bit number.\<close>

lemma pa_update_from_faults_bit:
  "bit (pa_current (pa_update_from_faults p f)) n \<longleftrightarrow>
     (if n = 9 then \<not> bit f 48 else if n = 10 then f = 0 else bit (pa_current p) n)"
  by (simp add: pa_update_from_faults_def pa_bits fault_bits flag_simps)

lemma pa_update_from_sensors_bit:
  "bit (pa_current (pa_update_from_sensors p s)) n \<longleftrightarrow>
     (if n = 0 then any_good (imus s) else if n = 1 then any_good (baros s)
      else if n = 2 then any_good (mags s) else if n = 3 then any_good (gnss s)
      else if n = 4 then imu_converged (count_samples s (pa_samples p))
      else if n = 5 then baro_converged (count_samples s (pa_samples p))
      else if n = 6 then mag_converged (count_samples s (pa_samples p))
      else bit (pa_current p) n)"
  by (simp add: pa_update_from_sensors_def pa_bits flag_simps Let_def pa_set_def)

lemma pa_update_throttle_bit:
  "bit (pa_current (pa_update_throttle p b)) n \<longleftrightarrow> (if n = 8 then b else bit (pa_current p) n)"
  by (simp add: pa_update_throttle_def pa_bits flag_simps)

lemma pa_update_ekf_bit:
  "bit (pa_current (pa_update_ekf p b)) n \<longleftrightarrow> (if n = 7 then b else bit (pa_current p) n)"
  by (simp add: pa_update_ekf_def pa_bits flag_simps)

lemmas pa_update_bits =
  pa_update_from_faults_bit pa_update_from_sensors_bit pa_update_throttle_bit pa_update_ekf_bit

lemma pa_samples_update [simp]:
  "pa_samples (pa_update_from_sensors p s) = count_samples s (pa_samples p)"
  "pa_samples (pa_update_from_faults p f) = pa_samples p"
  by (simp_all add: pa_update_from_sensors_def pa_update_from_faults_def Let_def)

lemma fl_missing_bit: "bit (fl_missing s) n \<longleftrightarrow> bit (fl_required s) n \<and> \<not> bit (fl_current s) n"
  by (simp add: fl_missing_def flag_simps)

lemma tr_missing_bit: "bit (tr_missing t) n \<longleftrightarrow> bit (tr_required t) n \<and> \<not> bit (tr_current t) n"
  by (simp add: tr_missing_def flag_simps)

lemma tr_missing_0_iff: "tr_missing t = 0 \<longleftrightarrow> tr_is_satisfied t"
  by (simp add: tr_missing_def tr_is_satisfied_def flag_diff_eq_0_iff)

lemma fl_missing_0_iff: "fl_missing s = 0 \<longleftrightarrow> fl_is_satisfied s"
  by (simp add: fl_missing_def fl_is_satisfied_def flag_diff_eq_0_iff)

lemma pa_missing_0_iff: "pa_missing p = 0 \<longleftrightarrow> pa_is_satisfied p"
  by (simp add: pa_missing_def pa_is_satisfied_def flag_diff_eq_0_iff)

section \<open>Reference definitions\<close>

text \<open>The flags the degradation decision watches, most important first.\<close>

definition degradation_priority :: "(nat \<times> degradation_reason) list" where
  "degradation_priority =
     [(0, AttitudeLost), (12, ImuDegraded), (2, PositionLost), (1, VelocityLost),
      (8, CommandTimeout), (4, EnvelopeViolation), (13, BaroDegraded), (9, RcLost)]"

definition transition_failures :: "transition_failure list" where
  "transition_failures =
     [UnstableFlight, ActuatorStuck, UnsafeConditions, Asymmetry, AltitudeTooLow, AirspeedTooLow]"

section \<open>Properties\<close>

text \<open>the degradation decision is exactly the first entry of the priority list whose flag is
  required and not passing; it reports nothing only when no watched flag is missing.\<close>

lemma degradation_trigger_first:
  "get_degradation_trigger s =
     map_option snd (find (\<lambda>(k, r). bit (fl_required s) k \<and> \<not> bit (fl_current s) k) degradation_priority)"
  by (simp add: get_degradation_trigger_def degradation_priority_def fl_bits flag_simps fl_missing_bit
      Let_def if_distrib [where f = "map_option snd"] cong: if_cong split del: if_split)

text \<open>the transition gate opens exactly when every required check passes; a refusal names a
  specific failure exactly when one check, that failure's own, is missing, and every other
  refusal is \<open>MultipleFailures\<close>.\<close>

lemma transition_gate_exact:
  "(can_transition t = Ok () \<longleftrightarrow> flag_contains (tr_current t) (tr_required t))
   \<and> (\<forall>e. e \<noteq> MultipleFailures \<longrightarrow>
       (can_transition t = Err e \<longleftrightarrow> (\<exists>k < 6. tr_missing t = flag k \<and> e = transition_failures ! k)))"
proof -
  let ?m = "tr_missing t"
  have ok: "can_transition t = Ok () \<longleftrightarrow> flag_contains (tr_current t) (tr_required t)"
    by (simp add: can_transition_def tr_is_satisfied_def Let_def)
  have "can_transition t = Err e \<longleftrightarrow> (\<exists>k < 6. ?m = flag k \<and> e = transition_failures ! k)"
    if e: "e \<noteq> MultipleFailures" for e
  proof (cases "tr_is_satisfied t")
    case True
    then have "?m = 0" by (simp add: tr_missing_0_iff)
    moreover have "(flag k :: u32) \<noteq> 0" if "k < 6" for k
      using or_flag_nonzero [of k "0 :: u32"] that by simp
    ultimately show ?thesis using True by (auto simp: can_transition_def)
  next
    case False
    show ?thesis
    proof (cases "count_ones ?m \<le> 1")
      case True
      have "?m \<noteq> 0" using \<open>\<not> tr_is_satisfied t\<close> by (simp add: tr_missing_0_iff)
      then obtain k0 where k0: "bit ?m k0" by (auto simp: bit_eq_iff)
      then have m: "?m = flag k0" by (rule count_ones_le_1_flag [OF True])
      have lt: "k0 < 32" using bit_imp_le_length [OF k0] by simp
      have inj: "(flag k0 :: u32) = flag k \<longleftrightarrow> k = k0" if "k < 6" for k
        using that by (auto simp: flag_eq_iff)
      have "can_transition t = (if k0 < 6 then Err (transition_failures ! k0) else Err MultipleFailures)"
        using \<open>\<not> tr_is_satisfied t\<close> True lt
        by (auto simp: can_transition_def m transition_failures_def tr_bits flag_simps Let_def
            numeral_eq_Suc less_Suc_eq)
      then show ?thesis using e by (auto simp: m inj)
    next
      case False
      then have "?m \<noteq> flag k" if "k < 6" for k
        using count_ones_flag [where 'a = 32, of k] that by auto
      with False \<open>\<not> tr_is_satisfied t\<close> e show ?thesis by (auto simp: can_transition_def Let_def)
    qed
  qed
  with ok show ?thesis by blast
qed

lemma transition_gate_exact_witness:
  "can_transition (transition_default\<lparr>tr_current := 11\<rparr>) = Err UnsafeConditions"
proof -
  have "tr_missing (transition_default\<lparr>tr_current := 11\<rparr>) = flag 2 \<and> transition_failures ! 2 = UnsafeConditions"
    by code_simp
  then have "\<exists>k < 6. tr_missing (transition_default\<lparr>tr_current := 11\<rparr>) = flag k
      \<and> UnsafeConditions = transition_failures ! k"
    by (intro exI [of _ 2]) simp
  then show ?thesis
    using transition_gate_exact [of "transition_default\<lparr>tr_current := 11\<rparr>"] by blast
qed


end
