(* ===== verification/ModeGate.thy ===== *)
theory ModeGate
  imports Domain
begin

text \<open>
  Mode entry and loop selection: the estimator-validity gate and its fallback rungs
  (\<open>control/mode_gate.rs\<close>), the orthogonal control-mode flags and the outer-loop selection
  (\<open>control/vehicle_control_mode.rs\<close>), the multirotor mode capability and the effective
  topology (\<open>control/transfer.rs\<close>).
\<close>

section \<open>Mode entry\<close>

fun required_validity :: "control_mode \<Rightarrow> state_valid_flags" where
  "required_validity Rate = 0"
| "required_validity Attitude = ATTITUDE"
| "required_validity AltitudeHold = ATTITUDE OR VELOCITY"
| "required_validity VelocityControl = ATTITUDE OR VELOCITY"
| "required_validity PositionHold = ATTITUDE OR VELOCITY OR POSITION"
| "required_validity DeviationTracking = ATTITUDE OR VELOCITY OR POSITION"

definition FALLBACK_RUNGS :: "control_mode list" where
  "FALLBACK_RUNGS = [PositionHold, AltitudeHold, Attitude]"

datatype mode_entry_decision =
  Granted control_mode
| FallenBack (requested: control_mode) (fallback: control_mode) (missing: state_valid_flags)
| Refused control_mode state_valid_flags
| Unsupported control_mode

fun effective :: "mode_entry_decision \<Rightarrow> control_mode" where
  "effective (Granted m) = m"
| "effective (FallenBack _ e _) = e"
| "effective (Refused _ _) = Attitude"
| "effective (Unsupported _) = Attitude"

fun try_rungs ::
  "control_mode list \<Rightarrow> control_mode \<Rightarrow> state_valid_flags \<Rightarrow> state_valid_flags \<Rightarrow> mode_entry_decision" where
  "try_rungs [] req valid miss = Refused req miss"
| "try_rungs (rung # rungs) req valid miss =
     (let strictly_less_demanding =
            flag_contains (required_validity req) (required_validity rung)
            \<and> required_validity rung \<noteq> required_validity req
      in if strictly_less_demanding \<and> flag_contains valid (required_validity rung)
         then FallenBack req rung miss
         else try_rungs rungs req valid miss)"

definition gate_mode_entry :: "control_mode \<Rightarrow> state_valid_flags \<Rightarrow> mode_entry_decision" where
  "gate_mode_entry req valid =
     (let miss = flag_diff (required_validity req) valid
      in if miss = 0 then Granted req else try_rungs FALLBACK_RUNGS req valid miss)"

definition gate_controller_mode_entry ::
  "control_mode \<Rightarrow> state_valid_flags \<Rightarrow> bool \<Rightarrow> mode_entry_decision" where
  "gate_controller_mode_entry req valid supported =
     (if \<not> supported then Unsupported req else gate_mode_entry req valid)"

definition apply_mode_entry :: "command \<Rightarrow> mode_entry_decision \<Rightarrow> command" where
  "apply_mode_entry c d =
     (let e = effective d
      in if e = cmd_mode c then c
         else let c1 = (if e = AltitudeHold \<and> sp_vertical_speed (cmd_setpoint c) = None
                            \<and> sp_altitude (cmd_setpoint c) = None
                        then c\<lparr>cmd_setpoint := (cmd_setpoint c)\<lparr>sp_vertical_speed := Some f0\<rparr>\<rparr>
                        else c)
         in c1\<lparr>cmd_mode := e\<rparr>)"

section \<open>Control-mode flags\<close>

record vehicle_control_mode =
  automatic_fallback_from :: "control_mode option"
  flag_control_manual_enabled :: bool
  flag_control_offboard_enabled :: bool
  flag_control_rates_enabled :: bool
  flag_control_attitude_enabled :: bool
  flag_control_altitude_enabled :: bool
  flag_control_climb_rate_enabled :: bool
  flag_control_velocity_enabled :: bool
  flag_control_position_enabled :: bool
  flag_control_termination_enabled :: bool

fun from_control_mode :: "control_mode \<Rightarrow> vehicle_control_mode" where
  "from_control_mode Rate =
     \<lparr>automatic_fallback_from = None, flag_control_manual_enabled = True,
      flag_control_offboard_enabled = False, flag_control_rates_enabled = True,
      flag_control_attitude_enabled = False, flag_control_altitude_enabled = False,
      flag_control_climb_rate_enabled = False, flag_control_velocity_enabled = False,
      flag_control_position_enabled = False, flag_control_termination_enabled = False\<rparr>"
| "from_control_mode Attitude =
     \<lparr>automatic_fallback_from = None, flag_control_manual_enabled = True,
      flag_control_offboard_enabled = False, flag_control_rates_enabled = True,
      flag_control_attitude_enabled = True, flag_control_altitude_enabled = False,
      flag_control_climb_rate_enabled = False, flag_control_velocity_enabled = False,
      flag_control_position_enabled = False, flag_control_termination_enabled = False\<rparr>"
| "from_control_mode AltitudeHold =
     \<lparr>automatic_fallback_from = None, flag_control_manual_enabled = True,
      flag_control_offboard_enabled = False, flag_control_rates_enabled = True,
      flag_control_attitude_enabled = True, flag_control_altitude_enabled = True,
      flag_control_climb_rate_enabled = True, flag_control_velocity_enabled = False,
      flag_control_position_enabled = False, flag_control_termination_enabled = False\<rparr>"
| "from_control_mode PositionHold =
     \<lparr>automatic_fallback_from = None, flag_control_manual_enabled = False,
      flag_control_offboard_enabled = False, flag_control_rates_enabled = True,
      flag_control_attitude_enabled = True, flag_control_altitude_enabled = True,
      flag_control_climb_rate_enabled = True, flag_control_velocity_enabled = True,
      flag_control_position_enabled = True, flag_control_termination_enabled = False\<rparr>"
| "from_control_mode VelocityControl =
     \<lparr>automatic_fallback_from = None, flag_control_manual_enabled = False,
      flag_control_offboard_enabled = True, flag_control_rates_enabled = True,
      flag_control_attitude_enabled = True, flag_control_altitude_enabled = False,
      flag_control_climb_rate_enabled = True, flag_control_velocity_enabled = True,
      flag_control_position_enabled = False, flag_control_termination_enabled = False\<rparr>"
| "from_control_mode DeviationTracking =
     \<lparr>automatic_fallback_from = None, flag_control_manual_enabled = False,
      flag_control_offboard_enabled = False, flag_control_rates_enabled = True,
      flag_control_attitude_enabled = True, flag_control_altitude_enabled = True,
      flag_control_climb_rate_enabled = True, flag_control_velocity_enabled = True,
      flag_control_position_enabled = True, flag_control_termination_enabled = False\<rparr>"

definition with_mode_entry :: "vehicle_control_mode \<Rightarrow> mode_entry_decision \<Rightarrow> vehicle_control_mode" where
  "with_mode_entry v d =
     v\<lparr>automatic_fallback_from :=
         (case d of FallenBack r _ _ \<Rightarrow> Some r | Granted _ \<Rightarrow> None | Refused _ _ \<Rightarrow> None
          | Unsupported _ \<Rightarrow> None)\<rparr>"

datatype outer_loop_selection = PositionLoop vec3 | VelocityLoop vec3 | NoOuterLoop

definition outer_loop :: "vehicle_control_mode \<Rightarrow> setpoint \<Rightarrow> outer_loop_selection" where
  "outer_loop v sp =
     (case (if flag_control_position_enabled v then sp_position sp else None) of
        Some p \<Rightarrow> PositionLoop p
      | None \<Rightarrow>
          (case (if flag_control_velocity_enabled v then sp_velocity sp else None) of
             Some u \<Rightarrow> VelocityLoop u
           | None \<Rightarrow> NoOuterLoop))"

section \<open>Capability and topology\<close>

datatype multirotor_mode_capability = External | InternalOnly | NoCapability

datatype effective_control_topology =
  PositionTopology | VelocityTopology | VerticalTopology | AttitudeTopology | ZeroThrust
| UnsupportedTopology

fun multirotor_mode_capability_of :: "control_mode \<Rightarrow> multirotor_mode_capability" where
  "multirotor_mode_capability_of Attitude = External"
| "multirotor_mode_capability_of PositionHold = External"
| "multirotor_mode_capability_of VelocityControl = External"
| "multirotor_mode_capability_of AltitudeHold = InternalOnly"
| "multirotor_mode_capability_of Rate = NoCapability"
| "multirotor_mode_capability_of DeviationTracking = NoCapability"

definition effective_topology ::
  "vehicle_control_mode \<Rightarrow> control_mode \<Rightarrow> setpoint \<Rightarrow> effective_control_topology" where
  "effective_topology v m sp =
     (if multirotor_mode_capability_of m = NoCapability then UnsupportedTopology
      else case outer_loop v sp of
        PositionLoop _ \<Rightarrow> PositionTopology
      | VelocityLoop _ \<Rightarrow> VelocityTopology
      | NoOuterLoop \<Rightarrow>
          (if flag_control_altitude_enabled v
              \<and> (sp_altitude sp \<noteq> None \<or> sp_vertical_speed sp \<noteq> None)
           then VerticalTopology else AttitudeTopology))"

fun mode_option_tag :: "control_mode option \<Rightarrow> u8" where
  "mode_option_tag None = 0"
| "mode_option_tag (Some Attitude) = 1"
| "mode_option_tag (Some AltitudeHold) = 2"
| "mode_option_tag (Some PositionHold) = 3"
| "mode_option_tag (Some VelocityControl) = 4"
| "mode_option_tag (Some Rate) = 5"
| "mode_option_tag (Some DeviationTracking) = 6"

fun topology_option_tag :: "effective_control_topology option \<Rightarrow> u8" where
  "topology_option_tag None = 0"
| "topology_option_tag (Some AttitudeTopology) = 1"
| "topology_option_tag (Some VerticalTopology) = 2"
| "topology_option_tag (Some VelocityTopology) = 3"
| "topology_option_tag (Some PositionTopology) = 4"
| "topology_option_tag (Some ZeroThrust) = 5"
| "topology_option_tag (Some UnsupportedTopology) = 6"

section \<open>Lemmas\<close>

lemma valid_word_cases: "required_validity m \<in> {0, 1, 9, 13}"
  by (cases m) (simp_all add: state_bits flag_def)

lemma required_contains_iff:
  "flag_contains valid (required_validity m) \<longleftrightarrow>
     (m = Rate \<or> bit valid 0)
     \<and> (m \<in> {AltitudeHold, VelocityControl, PositionHold, DeviationTracking} \<longrightarrow> bit valid 3)
     \<and> (m \<in> {PositionHold, DeviationTracking} \<longrightarrow> bit valid 2)"
  by (cases m) (auto simp: state_bits flag_simps flag_contains_iff)

lemma gate_granted_iff: "gate_mode_entry m valid = Granted m' \<longleftrightarrow>
    m' = m \<and> flag_contains valid (required_validity m)"
  by (auto simp: gate_mode_entry_def FALLBACK_RUNGS_def flag_diff_eq_0_iff Let_def)

lemma gate_cases:
  "gate_mode_entry m valid =
     (if flag_contains valid (required_validity m) then Granted m
      else let miss = flag_diff (required_validity m) valid
      in if \<not> bit valid 0 then Refused m miss
      else if m \<in> {PositionHold, DeviationTracking} \<and> bit valid 3 then FallenBack m AltitudeHold miss
      else FallenBack m Attitude miss)"
proof -
  have ne: "ATTITUDE OR VELOCITY \<noteq> ATTITUDE OR VELOCITY OR POSITION" "ATTITUDE \<noteq> ATTITUDE OR VELOCITY"
    "ATTITUDE \<noteq> ATTITUDE OR VELOCITY OR POSITION"
    by code_simp+
  show ?thesis
    using ne
    by (cases m)
      (auto simp: gate_mode_entry_def FALLBACK_RUNGS_def flag_diff_eq_0_iff Let_def
        state_bits flag_simps)
qed

lemma effective_backed:
  assumes "bit valid 0 \<or> m = Rate"
  shows "flag_contains valid (required_validity (effective (gate_mode_entry m valid)))"
  using assms by (auto simp: gate_cases Let_def required_contains_iff split: if_splits)

lemma apply_mode_entry_mode [simp]: "cmd_mode (apply_mode_entry c d) = effective d"
  by (simp add: apply_mode_entry_def Let_def)

lemma outer_loop_with_mode_entry [simp]: "outer_loop (with_mode_entry v d) sp = outer_loop v sp"
  by (simp add: outer_loop_def with_mode_entry_def)

lemma outer_loop_from_mode:
  "outer_loop (from_control_mode m) sp = PositionLoop p \<Longrightarrow> m \<in> {PositionHold, DeviationTracking}"
  "outer_loop (from_control_mode m) sp = VelocityLoop p \<Longrightarrow>
     m \<in> {PositionHold, DeviationTracking, VelocityControl}"
  by (cases m; simp add: outer_loop_def split: option.splits)+

section \<open>Properties\<close>

text \<open>the mode gate, completely: a mode is granted exactly when the estimator validity it
  requires is present; otherwise, as long as the attitude is valid, the fallback is satisfied
  by the present validity, demands strictly less than the request, demands at least as much
  as any other satisfied rung below the request, and reports exactly the missing validity;
  with the attitude invalid every mode but \<open>Rate\<close> is refused.\<close>

lemma mode_gate_exact:
  "case gate_mode_entry m valid of
     Granted m' \<Rightarrow> m' = m \<and> flag_contains valid (required_validity m)
   | FallenBack r e miss \<Rightarrow> r = m \<and> miss \<noteq> 0 \<and> miss = flag_diff (required_validity m) valid
       \<and> flag_contains valid (required_validity e)
       \<and> flag_contains (required_validity m) (required_validity e)
       \<and> required_validity e \<noteq> required_validity m
       \<and> list_all (\<lambda>rung. flag_contains valid (required_validity rung)
             \<and> flag_contains (required_validity m) (required_validity rung)
           \<longrightarrow> flag_contains (required_validity e) (required_validity rung)) FALLBACK_RUNGS
   | Refused r miss \<Rightarrow> r = m \<and> m \<noteq> Rate \<and> \<not> bit valid 0
       \<and> miss = flag_diff (required_validity m) valid
   | Unsupported r \<Rightarrow> False"
proof -
  have ne: "ATTITUDE OR VELOCITY \<noteq> ATTITUDE OR VELOCITY OR POSITION" "ATTITUDE \<noteq> ATTITUDE OR VELOCITY"
    "ATTITUDE \<noteq> ATTITUDE OR VELOCITY OR POSITION"
    by code_simp+
  have "flag_diff (required_validity m) valid \<noteq> 0" if "\<not> flag_contains valid (required_validity m)"
    using that by (simp add: flag_diff_eq_0_iff)
  then show ?thesis
    using ne
    by (cases m)
      (auto simp: gate_cases FALLBACK_RUNGS_def Let_def state_bits flag_simps)
qed

lemma mode_gate_exact_witness:
  "gate_mode_entry PositionHold 9 = FallenBack PositionHold AltitudeHold 4
   \<and> flag_contains 9 (required_validity AltitudeHold)"
proof -
  have e: "gate_mode_entry PositionHold 9 = FallenBack PositionHold AltitudeHold 4" by code_simp
  show ?thesis using mode_gate_exact [of PositionHold 9] by (simp add: e)
qed

text \<open>No outer loop of a gated command closes on an estimate that is not valid: after the gate has rewritten
  the command, the position loop runs only with attitude, velocity and position valid, the
  velocity loop only with attitude and velocity valid, and the vertical topology only with
  attitude and velocity valid, for every command, setpoint and controller capability.\<close>

lemma gated_loops_backed:
  assumes "d = gate_controller_mode_entry (cmd_mode c) valid supported" "c' = apply_mode_entry c d"
    and "v = with_mode_entry (from_control_mode (cmd_mode c')) d"
  shows "case outer_loop v (cmd_setpoint c') of
      PositionLoop p \<Rightarrow> flag_contains valid (ATTITUDE OR VELOCITY OR POSITION)
    | VelocityLoop u \<Rightarrow> flag_contains valid (ATTITUDE OR VELOCITY)
    | NoOuterLoop \<Rightarrow> effective_topology v (cmd_mode c') (cmd_setpoint c') = VerticalTopology
        \<longrightarrow> flag_contains valid (ATTITUDE OR VELOCITY)"
proof -
  let ?m = "effective d"
  have backed: "flag_contains valid (required_validity ?m)" if "?m \<notin> {Rate, Attitude}"
  proof -
    have "bit valid 0"
      using that assms(1)
      by (auto simp: gate_controller_mode_entry_def gate_cases Let_def required_contains_iff split: if_splits)
    then show ?thesis
      using effective_backed [of valid "cmd_mode c"] assms(1) that
      by (auto simp: gate_controller_mode_entry_def split: if_splits)
  qed
  have alt: "flag_control_altitude_enabled (from_control_mode ?m) \<Longrightarrow> ?m \<notin> {Rate, Attitude}"
    by (cases ?m) auto
  have av: "flag_contains valid (ATTITUDE OR VELOCITY)" if "?m \<notin> {Rate, Attitude}"
    using backed [OF that] that by (cases ?m) (auto simp: flag_contains_or)
  have avp: "flag_contains valid (ATTITUDE OR VELOCITY OR POSITION)" if "?m \<in> {PositionHold, DeviationTracking}"
    using backed that by auto
  have alt_v: "flag_control_altitude_enabled v = flag_control_altitude_enabled (from_control_mode ?m)"
    using assms(2,3) by (simp add: with_mode_entry_def)
  have v: "outer_loop v (cmd_setpoint c') = outer_loop (from_control_mode ?m) (cmd_setpoint c')"
    using assms(2,3) by simp
  show ?thesis
  proof (cases "outer_loop v (cmd_setpoint c')")
    case (PositionLoop p)
    then have "?m \<in> {PositionHold, DeviationTracking}" using outer_loop_from_mode(1) v by metis
    with PositionLoop avp show ?thesis by simp
  next
    case (VelocityLoop u)
    then have "?m \<in> {PositionHold, DeviationTracking, VelocityControl}" using outer_loop_from_mode(2) v by metis
    then have "?m \<notin> {Rate, Attitude}" by auto
    with VelocityLoop av show ?thesis by simp
  next
    case NoOuterLoop
    then show ?thesis using av alt alt_v by (auto simp: effective_topology_def)
  qed
qed

definition example_command :: command where
  "example_command =
     \<lparr>cmd_mode = PositionHold, cmd_setpoint = setpoint_default\<lparr>sp_position := Some (0, 0, 0)\<rparr>,
      cmd_config_mode_request = None, cmd_sensor_overrides = None, cmd_sequence = 1,
      cmd_source = Pilot\<rparr>"

lemma gated_loops_backed_example:
  "outer_loop (with_mode_entry (from_control_mode PositionHold) (Granted PositionHold))
     (cmd_setpoint example_command) = PositionLoop (0, 0, 0)
   \<and> flag_contains 13 (ATTITUDE OR VELOCITY OR POSITION)"
proof -
  let ?v = "with_mode_entry (from_control_mode PositionHold) (Granted PositionHold)"
  have g: "Granted PositionHold = gate_controller_mode_entry (cmd_mode example_command) 13 True"
    and a: "example_command = apply_mode_entry example_command (Granted PositionHold)"
    and v: "?v = with_mode_entry (from_control_mode (cmd_mode example_command)) (Granted PositionHold)"
    and o: "outer_loop ?v (cmd_setpoint example_command) = PositionLoop (0, 0, 0)"
    by code_simp+
  from gated_loops_backed [OF g a v] show ?thesis by (simp only: o) simp
qed

text \<open>Rewriting a command keeps the pilot's intent: the mode becomes the effective mode, and
  the setpoint changes only when the vehicle falls into altitude hold without any vertical
  target, in which case the target is a zero climb rate, so the vertical loop always has one.\<close>

theorem apply_mode_entry_exact:
  "cmd_mode (apply_mode_entry c d) = effective d
   \<and> apply_mode_entry c d =
       (if effective d \<noteq> cmd_mode c \<and> effective d = AltitudeHold
           \<and> sp_vertical_speed (cmd_setpoint c) = None \<and> sp_altitude (cmd_setpoint c) = None
        then c\<lparr>cmd_mode := AltitudeHold,
               cmd_setpoint := (cmd_setpoint c)\<lparr>sp_vertical_speed := Some 0\<rparr>\<rparr>
        else c\<lparr>cmd_mode := effective d\<rparr>)
   \<and> (effective d \<noteq> cmd_mode c \<and> effective d = AltitudeHold \<longrightarrow>
        sp_vertical_speed (cmd_setpoint (apply_mode_entry c d)) \<noteq> None
        \<or> sp_altitude (cmd_setpoint (apply_mode_entry c d)) \<noteq> None)"
  by (auto simp: apply_mode_entry_def Let_def)

theorem apply_mode_entry_exact_witness:
  "sp_vertical_speed (cmd_setpoint (apply_mode_entry example_command
      (FallenBack PositionHold AltitudeHold 4))) = Some 0"
  using apply_mode_entry_exact [of example_command "FallenBack PositionHold AltitudeHold 4"]
  by (simp add: example_command_def setpoint_default_def)


end
