(* ===== verification/Envelope.thy ===== *)
theory Envelope
  imports Checks ModeGate
begin

text \<open>
  Envelope protection (\<open>control/envelope.rs\<close>) and the kernel-synthesised descent command
  (\<open>kernel/descend.rs\<close>). \<open>constrain\<close> is one definition per numbered block of the source;
  each block threads the setpoint and the accumulated axis flags.
\<close>

named_theorems axis_bits \<open>definitions of the axis bits\<close>

section \<open>Axis flags\<close>

definition AX_ROLL :: axis_limit_flags where
  [axis_bits]: "AX_ROLL = flag 0"

definition AX_PITCH :: axis_limit_flags where
  [axis_bits]: "AX_PITCH = flag 1"

definition AX_YAW :: axis_limit_flags where
  [axis_bits]: "AX_YAW = flag 2"

definition AX_ALTITUDE :: axis_limit_flags where
  [axis_bits]: "AX_ALTITUDE = flag 3"

definition AX_SPEED :: axis_limit_flags where
  [axis_bits]: "AX_SPEED = flag 4"

definition AX_LOAD_FACTOR :: axis_limit_flags where
  [axis_bits]: "AX_LOAD_FACTOR = flag 5"

section \<open>Envelope protection\<close>

type_synonym constrain_state = "setpoint \<times> axis_limit_flags"

text \<open>\<open>if v > max { v = max; flags.insert(axis) } else if v < -max { v = -max; flags.insert(axis) }\<close>\<close>

definition limit_symmetric :: "f32 \<Rightarrow> f32 \<Rightarrow> axis_limit_flags \<Rightarrow> axis_limit_flags \<Rightarrow> f32 \<times> axis_limit_flags" where
  "limit_symmetric v bound axis flags =
     (if f32_lt bound v then (bound, flag_insert flags axis)
      else if f32_lt v (f32_neg bound) then (f32_neg bound, flag_insert flags axis)
      else (v, flags))"

definition constrain_attitude :: "libm \<Rightarrow> limits \<Rightarrow> constrain_state \<Rightarrow> constrain_state" where
  "constrain_attitude M l s =
     (let (sp, flags) = s
      in case sp_attitude sp of
           None \<Rightarrow> s
         | Some att \<Rightarrow>
             (let (r, p, y) = quat_to_euler M att;
                  (r_clamped, flags1) = limit_symmetric r (max_roll l) AX_ROLL flags;
                  (p_clamped, flags2) = limit_symmetric p (max_pitch l) AX_PITCH flags1;
                  modified = f32_lt (max_roll l) r \<or> f32_lt r (f32_neg (max_roll l))
                    \<or> f32_lt (max_pitch l) p \<or> f32_lt p (f32_neg (max_pitch l))
              in if modified
                 then let qx = quat_from_axis_angle M (f1, f0, f0) r_clamped;
                          qy = quat_from_axis_angle M (f0, f1, f0) p_clamped;
                          qz = quat_from_axis_angle M (f0, f0, f1) y
                      in (sp\<lparr>sp_attitude := Some (quat_mul (quat_mul qz qy) qx)\<rparr>, flags2)
                 else (sp, flags2)))"

definition constrain_rates :: "limits \<Rightarrow> constrain_state \<Rightarrow> constrain_state" where
  "constrain_rates l s =
     (let (sp, flags) = s
      in case sp_angular_rate sp of
           None \<Rightarrow> s
         | Some rates \<Rightarrow>
             (let (r0, flags0) = limit_symmetric (ix0 rates) (max_roll_rate l) AX_ROLL flags;
                  (r1, flags1) = limit_symmetric (ix1 rates) (max_pitch_rate l) AX_PITCH flags0;
                  (r2, flags2) = limit_symmetric (ix2 rates) (max_yaw_rate l) AX_YAW flags1
              in (sp\<lparr>sp_angular_rate := Some (r0, r1, r2)\<rparr>, flags2)))"

definition constrain_altitude :: "limits \<Rightarrow> constrain_state \<Rightarrow> constrain_state" where
  "constrain_altitude l s =
     (let (sp, flags) = s
      in case sp_altitude sp of
           None \<Rightarrow> s
         | Some alt \<Rightarrow>
             (let (alt1, flags1) =
                    (if f32_lt (max_altitude l) alt then (max_altitude l, flag_insert flags AX_ALTITUDE)
                     else (alt, flags));
                  (alt2, flags2) =
                    (if f32_lt alt1 (min_altitude l) then (min_altitude l, flag_insert flags1 AX_ALTITUDE)
                     else (alt1, flags1))
              in (sp\<lparr>sp_altitude := Some alt2\<rparr>, flags2)))"

definition constrain_vertical_speed :: "limits \<Rightarrow> constrain_state \<Rightarrow> constrain_state" where
  "constrain_vertical_speed l s =
     (let (sp, flags) = s
      in case sp_vertical_speed sp of
           None \<Rightarrow> s
         | Some vz \<Rightarrow>
             (let min_vz = f32_neg (max_climb_rate l); max_vz = max_descent_rate l
              in if f32_lt vz min_vz
                 then (sp\<lparr>sp_vertical_speed := Some min_vz\<rparr>, flag_insert flags AX_SPEED)
                 else if f32_lt max_vz vz
                 then (sp\<lparr>sp_vertical_speed := Some max_vz\<rparr>, flag_insert flags AX_SPEED)
                 else s))"

definition constrain_horizontal_speed :: "libm \<Rightarrow> limits \<Rightarrow> constrain_state \<Rightarrow> constrain_state" where
  "constrain_horizontal_speed M l s =
     (let (sp, flags) = s
      in case sp_velocity sp of
           None \<Rightarrow> s
         | Some vel \<Rightarrow>
             (let vx = ix0 vel; vy = ix1 vel;
                  h_speed_sq = f32_add (f32_mul vx vx) (f32_mul vy vy);
                  max_sq = f32_mul (max_horizontal_speed l) (max_horizontal_speed l)
              in if f32_lt max_sq h_speed_sq
                 then let scale = f32_div (max_horizontal_speed l) (sqrtf M h_speed_sq)
                      in (sp\<lparr>sp_velocity := Some (f32_mul vx scale, f32_mul vy scale, ix2 vel)\<rparr>,
                          flag_insert flags AX_SPEED)
                 else s))"

definition constrain ::
  "libm \<Rightarrow> setpoint \<Rightarrow> state_estimate \<Rightarrow> limits \<Rightarrow> authority_profile \<Rightarrow> setpoint \<times> protection_status" where
  "constrain M raw_sp st l authority =
     (let (sp, flags) =
            constrain_horizontal_speed M l
              (constrain_vertical_speed l
                (constrain_altitude l
                  (constrain_rates l (constrain_attitude M l (raw_sp, 0)))))
      in (sp, \<lparr>limited_axes = flags, saturated = (flags \<noteq> 0)\<rparr>))"

section \<open>Descent command\<close>

definition descend_command :: "libm \<Rightarrow> state_estimate \<Rightarrow> limits \<Rightarrow> u32 \<Rightarrow> command" where
  "descend_command M st l sequence =
     (let (roll, pitch, yaw) = quat_to_euler M (attitude st);
          level = quat_normalize M (quat_from_axis_angle M (f0, f0, f1) yaw)
      in \<lparr>cmd_mode = AltitudeHold,
          cmd_setpoint = setpoint_default\<lparr>sp_attitude := Some level,
            sp_vertical_speed := Some (max_descent_rate l), sp_heading := Some yaw\<rparr>,
          cmd_config_mode_request = None, cmd_sensor_overrides = None, cmd_sequence = sequence,
          cmd_source = Failsafe\<rparr>)"

section \<open>Lemmas\<close>

definition limits_ok :: "limits \<Rightarrow> bool" where
  "limits_ok l \<longleftrightarrow>
     f32_le f0 (max_roll_rate l) \<and> f32_le f0 (max_pitch_rate l) \<and> f32_le f0 (max_yaw_rate l)
     \<and> f32_le f0 (max_climb_rate l) \<and> f32_le f0 (max_descent_rate l)
     \<and> f32_le (min_altitude l) (max_altitude l)"

text \<open>\<open>f32\<close> comparisons with a NaN are false, so a NaN is in every band.\<close>

definition in_band :: "f32 \<Rightarrow> f32 \<Rightarrow> f32 \<Rightarrow> bool" where
  "in_band lo hi v \<longleftrightarrow> \<not> f32_lt v lo \<and> \<not> f32_lt hi v"

fun band_opt :: "f32 \<Rightarrow> f32 \<Rightarrow> f32 option \<Rightarrow> bool" where
  "band_opt lo hi None \<longleftrightarrow> True"
| "band_opt lo hi (Some v) \<longleftrightarrow> in_band lo hi v"

definition sym_band :: "f32 \<Rightarrow> f32 \<Rightarrow> bool" where
  "sym_band b v \<longleftrightarrow> in_band (f32_neg b) b v"

lemma f32_le_neg_self: "f32_le f0 b \<Longrightarrow> \<not> f32_lt b (f32_neg b)"
  by (simp add: f32_lt_def f32_le_def)

lemma f32_lt_irrefl [simp]: "\<not> f32_lt a a"
  by (simp add: f32_lt_def)

lemma limit_symmetric_spec:
  assumes "f32_le f0 b"
  shows "sym_band b (fst (limit_symmetric v b a fl))"
    "limit_symmetric v b a fl = (if sym_band b v then (v, fl) else (fst (limit_symmetric v b a fl), flag_insert fl a))"
  using f32_le_neg_self [OF assms]
  by (auto simp: limit_symmetric_def sym_band_def in_band_def)

lemma limit_symmetric_bit:
  assumes "f32_le f0 b"
  shows "bit (snd (limit_symmetric v b a fl)) n \<longleftrightarrow> bit fl n \<or> (bit a n \<and> \<not> sym_band b v)"
  by (subst limit_symmetric_spec(2) [OF assms]) (auto simp: flag_simps)

lemma constrain_attitude_fields [simp]:
  "sp_angular_rate (fst (constrain_attitude M l s)) = sp_angular_rate (fst s)"
  "sp_altitude (fst (constrain_attitude M l s)) = sp_altitude (fst s)"
  "sp_vertical_speed (fst (constrain_attitude M l s)) = sp_vertical_speed (fst s)"
  "sp_velocity (fst (constrain_attitude M l s)) = sp_velocity (fst s)"
  by (auto simp: constrain_attitude_def Let_def split: option.split prod.split)

lemma constrain_rates_fields [simp]:
  "sp_attitude (fst (constrain_rates l s)) = sp_attitude (fst s)"
  "sp_altitude (fst (constrain_rates l s)) = sp_altitude (fst s)"
  "sp_vertical_speed (fst (constrain_rates l s)) = sp_vertical_speed (fst s)"
  "sp_velocity (fst (constrain_rates l s)) = sp_velocity (fst s)"
  by (auto simp: constrain_rates_def Let_def split: option.split prod.split)

lemma constrain_altitude_fields [simp]:
  "sp_attitude (fst (constrain_altitude l s)) = sp_attitude (fst s)"
  "sp_angular_rate (fst (constrain_altitude l s)) = sp_angular_rate (fst s)"
  "sp_vertical_speed (fst (constrain_altitude l s)) = sp_vertical_speed (fst s)"
  "sp_velocity (fst (constrain_altitude l s)) = sp_velocity (fst s)"
  by (auto simp: constrain_altitude_def Let_def split: option.split prod.split)

lemma constrain_vertical_speed_fields [simp]:
  "sp_attitude (fst (constrain_vertical_speed l s)) = sp_attitude (fst s)"
  "sp_angular_rate (fst (constrain_vertical_speed l s)) = sp_angular_rate (fst s)"
  "sp_altitude (fst (constrain_vertical_speed l s)) = sp_altitude (fst s)"
  "sp_velocity (fst (constrain_vertical_speed l s)) = sp_velocity (fst s)"
  by (auto simp: constrain_vertical_speed_def Let_def split: option.split prod.split)

lemma constrain_horizontal_speed_fields [simp]:
  "sp_attitude (fst (constrain_horizontal_speed M l s)) = sp_attitude (fst s)"
  "sp_angular_rate (fst (constrain_horizontal_speed M l s)) = sp_angular_rate (fst s)"
  "sp_altitude (fst (constrain_horizontal_speed M l s)) = sp_altitude (fst s)"
  "sp_vertical_speed (fst (constrain_horizontal_speed M l s)) = sp_vertical_speed (fst s)"
  by (auto simp: constrain_horizontal_speed_def Let_def split: option.split prod.split)

text \<open>The fields no block touches.\<close>

definition sp_frame :: "setpoint \<Rightarrow> f32 option \<times> vec3 option \<times> f32 option \<times> f32 option \<times> f32" where
  "sp_frame sp = (sp_heading sp, sp_position sp, sp_lateral_deviation sp, sp_vertical_deviation sp,
     sp_collective_thrust sp)"

lemma sp_frame_blocks [simp]:
  "sp_frame (fst (constrain_attitude M l s)) = sp_frame (fst s)"
  "sp_frame (fst (constrain_rates l s)) = sp_frame (fst s)"
  "sp_frame (fst (constrain_altitude l s)) = sp_frame (fst s)"
  "sp_frame (fst (constrain_vertical_speed l s)) = sp_frame (fst s)"
  "sp_frame (fst (constrain_horizontal_speed M l s)) = sp_frame (fst s)"
  by (auto simp: constrain_attitude_def constrain_rates_def constrain_altitude_def
      constrain_vertical_speed_def constrain_horizontal_speed_def sp_frame_def Let_def
      split: option.split prod.split)

lemma constrain_rates_band:
  assumes "limits_ok l" "sp_angular_rate (fst (constrain_rates l s)) = Some r"
  shows "sym_band (max_roll_rate l) (ix0 r) \<and> sym_band (max_pitch_rate l) (ix1 r) \<and> sym_band (max_yaw_rate l) (ix2 r)"
  using assms limit_symmetric_spec(1)
  by (auto simp: constrain_rates_def limits_ok_def Let_def split: option.splits prod.splits)
     (metis fst_conv)+

lemma constrain_altitude_band:
  assumes "limits_ok l"
  shows "band_opt (min_altitude l) (max_altitude l) (sp_altitude (fst (constrain_altitude l s)))"
    "bit (snd (constrain_altitude l s)) n \<longleftrightarrow>
       bit (snd s) n \<or> (n = 3 \<and> \<not> band_opt (min_altitude l) (max_altitude l) (sp_altitude (fst s)))"
  using assms
  by (auto simp: constrain_altitude_def limits_ok_def in_band_def Let_def flag_simps axis_bits f32_lt_def f32_le_def
    split: option.splits prod.splits)

lemma constrain_vertical_speed_band:
  assumes "limits_ok l"
  shows "band_opt (f32_neg (max_climb_rate l)) (max_descent_rate l)
      (sp_vertical_speed (fst (constrain_vertical_speed l s)))"
    "bit (snd (constrain_vertical_speed l s)) n \<longleftrightarrow>
       bit (snd s) n \<or> (n = 4 \<and> \<not> band_opt (f32_neg (max_climb_rate l)) (max_descent_rate l) (sp_vertical_speed (fst s)))"
  using assms
  by (auto simp: constrain_vertical_speed_def limits_ok_def in_band_def Let_def flag_simps axis_bits f32_lt_def f32_le_def
    split: option.splits prod.splits)


lemma axis_nonzero [simp]:
  "AX_ROLL \<noteq> 0" "AX_PITCH \<noteq> 0" "AX_YAW \<noteq> 0" "AX_ALTITUDE \<noteq> 0" "AX_SPEED \<noteq> 0"
  by (simp_all add: axis_bits flag_def)

lemma flag_insert_0_iff [simp]: "flag_insert s f = 0 \<longleftrightarrow> s = 0 \<and> f = 0" for s :: "'a::len word"
  by (simp add: flag_insert_def or_eq_0_iff)

lemma limit_symmetric_0D:
  "limit_symmetric v b a fl = (v', fl') \<Longrightarrow> a \<noteq> 0 \<Longrightarrow> fl' = 0 \<Longrightarrow>
     v' = v \<and> fl = 0 \<and> \<not> f32_lt b v \<and> \<not> f32_lt v (f32_neg b)"
  by (auto simp: limit_symmetric_def split: if_splits)

lemma ix_collapse: "(ix0 v, ix1 v, ix2 v) = v"
  by (cases v) auto

lemma constrain_blocks_transparent:
  "snd (constrain_attitude M l s) = 0 \<Longrightarrow> constrain_attitude M l s = s"
  "snd (constrain_rates l s) = 0 \<Longrightarrow> constrain_rates l s = s"
  "snd (constrain_altitude l s) = 0 \<Longrightarrow> constrain_altitude l s = s"
  "snd (constrain_vertical_speed l s) = 0 \<Longrightarrow> constrain_vertical_speed l s = s"
  "snd (constrain_horizontal_speed M l s) = 0 \<Longrightarrow> constrain_horizontal_speed M l s = s"
proof -
  show "snd (constrain_attitude M l s) = 0 \<Longrightarrow> constrain_attitude M l s = s"
    by (cases s; cases "sp_attitude (fst s)")
      (auto simp: constrain_attitude_def limit_symmetric_def Let_def split: prod.splits if_splits)
  show "snd (constrain_rates l s) = 0 \<Longrightarrow> constrain_rates l s = s"
    by (cases s; cases "sp_angular_rate (fst s)")
      (auto simp: constrain_rates_def Let_def ix_collapse split: prod.splits dest!: limit_symmetric_0D)
  show "snd (constrain_altitude l s) = 0 \<Longrightarrow> constrain_altitude l s = s"
    by (cases s; cases "sp_altitude (fst s)")
      (auto simp: constrain_altitude_def Let_def split: if_splits)
  show "snd (constrain_vertical_speed l s) = 0 \<Longrightarrow> constrain_vertical_speed l s = s"
    by (cases s; cases "sp_vertical_speed (fst s)")
      (auto simp: constrain_vertical_speed_def Let_def split: if_splits)
  show "snd (constrain_horizontal_speed M l s) = 0 \<Longrightarrow> constrain_horizontal_speed M l s = s"
    by (cases s; cases "sp_velocity (fst s)")
      (auto simp: constrain_horizontal_speed_def Let_def split: if_splits)
qed

lemma constrain_unfold:
  "constrain M raw st l au =
     (let s = constrain_horizontal_speed M l (constrain_vertical_speed l (constrain_altitude l
                (constrain_rates l (constrain_attitude M l (raw, 0)))))
      in (fst s, \<lparr>limited_axes = snd s, saturated = (snd s \<noteq> 0)\<rparr>))"
  by (simp add: constrain_def split_beta Let_def)

section \<open>Properties\<close>

text \<open>envelope protection confines every field it limits: with ordered limits, each body rate,
  the altitude and the vertical speed of the constrained setpoint lie inside their band (a NaN
  compares with nothing and passes), and the heading, position, deviations and collective of
  the request are untouched.\<close>

lemma constrain_confines:
  assumes "limits_ok l"
  shows "band_opt (min_altitude l) (max_altitude l) (sp_altitude (fst (constrain M raw st l au)))
    \<and> band_opt (f32_neg (max_climb_rate l)) (max_descent_rate l)
        (sp_vertical_speed (fst (constrain M raw st l au)))
    \<and> (case sp_angular_rate (fst (constrain M raw st l au)) of
         None \<Rightarrow> sp_angular_rate raw = None
       | Some r \<Rightarrow> sym_band (max_roll_rate l) (ix0 r) \<and> sym_band (max_pitch_rate l) (ix1 r)
           \<and> sym_band (max_yaw_rate l) (ix2 r))
    \<and> sp_frame (fst (constrain M raw st l au)) = sp_frame raw"
proof -
  let ?a = "constrain_attitude M l (raw, 0)" let ?r = "constrain_rates l ?a"
  let ?v = "constrain_vertical_speed l (constrain_altitude l ?r)"
  have c: "fst (constrain M raw st l au) = fst (constrain_horizontal_speed M l ?v)"
    by (simp add: constrain_unfold Let_def)
  have none: "sp_angular_rate (fst ?r) = None \<Longrightarrow> sp_angular_rate (fst ?a) = None"
    by (cases ?a) (auto simp: constrain_rates_def Let_def split: option.splits prod.splits)
  have "case sp_angular_rate (fst ?r) of None \<Rightarrow> sp_angular_rate raw = None
      | Some r \<Rightarrow> sym_band (max_roll_rate l) (ix0 r) \<and> sym_band (max_pitch_rate l) (ix1 r)
          \<and> sym_band (max_yaw_rate l) (ix2 r)"
    using none constrain_rates_band [OF assms, of ?a] by (cases "sp_angular_rate (fst ?r)") auto
  then show ?thesis
    using constrain_altitude_band(1) [OF assms, of ?r]
      constrain_vertical_speed_band(1) [OF assms, of "constrain_altitude l ?r"]
    by (simp add: c)
qed

definition example_setpoint :: setpoint where
  "example_setpoint =
     setpoint_default\<lparr>sp_altitude := Some (f32_lit 300 1), sp_vertical_speed := Some (f32_lit 1 1)\<rparr>"

lemma constrain_confines_witness:
  "band_opt (min_altitude default_limits) (max_altitude default_limits)
     (sp_altitude (fst (constrain small_angle_libm example_setpoint state_estimate_default
        default_limits HardEnvelope)))"
proof -
  have "limits_ok default_limits" by code_simp
  then show ?thesis using constrain_confines by blast
qed

text \<open>The protection status is honest: \<open>saturated\<close> says exactly that some axis flag is set, a
  status with no flag means the setpoint is the request unchanged, and the altitude flag is set
  exactly when the requested altitude lies outside its band.\<close>

theorem constrain_status_honest:
  assumes "limits_ok l"
  shows "(saturated (snd (constrain M raw st l au)) \<longleftrightarrow> limited_axes (snd (constrain M raw st l au)) \<noteq> 0)
    \<and> (limited_axes (snd (constrain M raw st l au)) = 0 \<longrightarrow> fst (constrain M raw st l au) = raw)
    \<and> (flag_contains (limited_axes (snd (constrain M raw st l au))) AX_ALTITUDE \<longleftrightarrow>
         \<not> band_opt (min_altitude l) (max_altitude l) (sp_altitude raw))"
proof -
  let ?a = "constrain_attitude M l (raw, 0)" let ?r = "constrain_rates l ?a"
  let ?al = "constrain_altitude l ?r" let ?v = "constrain_vertical_speed l ?al"
  let ?h = "constrain_horizontal_speed M l ?v"
  have c: "constrain M raw st l au = (fst ?h, \<lparr>limited_axes = snd ?h, saturated = (snd ?h \<noteq> 0)\<rparr>)"
    by (simp add: constrain_unfold Let_def)
  have transparent: "fst ?h = raw" if "snd ?h = 0"
    using that constrain_blocks_transparent by (metis fst_conv)
  have a3: "\<not> bit (snd ?a) 3"
    by (cases "sp_attitude raw")
      (auto simp: constrain_attitude_def limit_symmetric_def Let_def axis_bits flag_simps split: prod.splits if_splits)
  have r3: "bit (snd (constrain_rates l s)) 3 \<longleftrightarrow> bit (snd s) 3" for s
    by (cases s; cases "sp_angular_rate (fst s)")
      (auto simp: constrain_rates_def limit_symmetric_def Let_def axis_bits flag_simps split: prod.splits if_splits)
  have h3: "bit (snd (constrain_horizontal_speed M l s)) 3 \<longleftrightarrow> bit (snd s) 3" for s
    by (cases s; cases "sp_velocity (fst s)")
      (auto simp: constrain_horizontal_speed_def Let_def axis_bits flag_simps)
  have "bit (snd ?h) 3 \<longleftrightarrow> \<not> band_opt (min_altitude l) (max_altitude l) (sp_altitude raw)"
    using a3 by (simp add: h3 r3 constrain_vertical_speed_band(2) [OF assms] constrain_altitude_band(2) [OF assms])
  then show ?thesis
    using transparent by (simp add: c AX_ALTITUDE_def flag_simps)
qed

theorem constrain_status_honest_witness:
  "flag_contains (limited_axes (snd (constrain small_angle_libm example_setpoint state_estimate_default
      default_limits HardEnvelope))) AX_ALTITUDE"
proof -
  have "limits_ok default_limits"
    "\<not> band_opt (min_altitude default_limits) (max_altitude default_limits) (sp_altitude example_setpoint)"
    by code_simp+
  then show ?thesis using constrain_status_honest by blast
qed

text \<open>The descent command of the failsafe terminal is level, keeps the heading the vehicle
  already flies, descends at the configured rate, is marked as the failsafe's, and selects no
  horizontal loop under any control-mode flags.\<close>

theorem descend_command_exact:
  "cmd_mode (descend_command M st l n) = AltitudeHold
   \<and> cmd_source (descend_command M st l n) = Failsafe \<and> cmd_sequence (descend_command M st l n) = n
   \<and> sp_vertical_speed (cmd_setpoint (descend_command M st l n)) = Some (max_descent_rate l)
   \<and> sp_heading (cmd_setpoint (descend_command M st l n)) = Some (snd (snd (quat_to_euler M (attitude st))))
   \<and> outer_loop v (cmd_setpoint (descend_command M st l n)) = NoOuterLoop"
  by (simp add: descend_command_def setpoint_default_def outer_loop_def split_beta)

end
