(* ===== verification/Kernel.thy ===== *)
theory Kernel
  imports Config FlightPhase Envelope
begin

text \<open>
  The flight-control kernel: its types (\<open>kernel_types.rs\<close>, \<open>control/observation.rs\<close>), its state
  (\<open>kernel/state.rs\<close>), the construction (\<open>kernel/builder.rs\<close>), the lifecycle and fault
  operations (\<open>kernel_logic.rs\<close>, \<open>kernel_logic/lifecycle.rs\<close>) and the cycle
  (\<open>kernel_update.rs\<close>).

  The source's kernel is generic over an estimator, a controller, a mixer and a sanitizer.
  Here they are the record \<open>pipeline\<close> of the functions the kernel calls, over type variables
  for the two runtime states. An operation \<open>fn op(&mut self)\<close> is a function of the pipeline,
  the configuration and the state to the new state, with its result where it has one.
\<close>

section \<open>Kernel types\<close>

definition TIMING_VIOLATION_THRESHOLD :: u32 where
  "TIMING_VIOLATION_THRESHOLD = 3"

record config_block =
  cb_data :: "u8 list"
  cb_version :: u16
  cb_checksum :: u32

datatype config_error = InvalidFormat | UnsupportedVersion | OutOfRange | ChecksumMismatch

record init_result =
  ir_state :: init_state
  ir_faults :: fault_flags
  ir_ready :: bool

fun allows_active_control :: "init_state \<Rightarrow> bool" where
  "allows_active_control s = (s = Armed)"

definition forced_control_law :: "init_state \<Rightarrow> control_law option" where
  "forced_control_law s = (if allows_active_control s then None else Some Backup)"

datatype arm_error = ArmNotReady | ArmFaulted | ArmAlreadyArmed | ArmConfigInvalid | ArmInFaultState

datatype disarm_error = DisarmAirborne

datatype transition_error =
  NotArmed | AlreadyTransitioning | ChecksFailed transition_failure | AlreadyInMode | InFaultState

record timing_stats =
  last_cycle_us :: u32
  max_cycle_us :: u32
  min_cycle_us :: u32
  deadline_violations :: u32
  consecutive_violations :: u32
  total_cycles :: u64

definition timing_stats_default :: timing_stats where
  "timing_stats_default =
     \<lparr>last_cycle_us = 0, max_cycle_us = 0, min_cycle_us = 0, deadline_violations = 0,
      consecutive_violations = 0, total_cycles = 0\<rparr>"

datatype terminal_cause = NoTerminal | CommandLoss | Commanded

record cycle_timing =
  cycle_start_us :: u32
  cycle_end_us :: u32
  duration_us :: u32
  deadline_met :: bool

definition cycle_timing_default :: cycle_timing where
  "cycle_timing_default = \<lparr>cycle_start_us = 0, cycle_end_us = 0, duration_us = 0, deadline_met = True\<rparr>"

definition envelope_margin_default :: envelope_margin where
  "envelope_margin_default =
     \<lparr>em_roll_rad = f0, em_pitch_rad = f0, em_yaw_rate_rad_s = f0, em_altitude_m = f0,
      em_airspeed_mps = f0, em_load_factor = f0\<rparr>"

record degradation_event =
  de_from :: control_law
  de_to :: control_law
  de_reason :: degradation_reason
  de_timestamp :: timestamp

datatype config_transition_state =
  Stable config_mode
| Switching config_mode config_mode f32
| TransitionFailed config_mode config_mode transition_failure

record channel_status =
  st_mode :: control_mode
  st_config_mode :: config_mode
  st_transition_state :: config_transition_state
  st_law :: control_law
  st_health :: channel_health
  st_faults :: fault_flags
  st_confidence :: estimate_quality
  st_envelope_margin :: envelope_margin
  st_sequence :: u32
  st_protection :: protection_status
  st_sanitize_report :: sanitize_report
  st_mode_entry :: mode_entry_decision

datatype integrator_action = FrozenInactive | Integrated | FrozenSaturation | IntegratorReset

record controller_loop_observation =
  lo_p :: vec3
  lo_i :: vec3
  lo_d :: vec3
  lo_feedforward :: vec3
  lo_integrator_before :: vec3
  lo_integrator_after :: vec3
  lo_integrator_action :: "integrator_action \<times> integrator_action \<times> integrator_action"
  lo_saturated :: "bool \<times> bool \<times> bool"

record effective_setpoint_observation =
  es_position_ned :: "vec3 option"
  es_velocity_ned :: "vec3 option"
  es_acceleration_ned :: vec3
  es_attitude :: quaternion
  es_angular_rate :: vec3
  es_collective :: f32

record multirotor_controller_observation =
  mo_previous_mode :: "control_mode option"
  mo_current_mode :: control_mode
  mo_previous_topology :: "effective_control_topology option"
  mo_current_topology :: effective_control_topology
  mo_setpoints :: effective_setpoint_observation
  mo_velocity_loop :: controller_loop_observation
  mo_rate_loop :: controller_loop_observation
  mo_axis_command :: axis_command

record controller_step_observation =
  cso_multirotor :: "multirotor_controller_observation option"

definition observation_default :: controller_step_observation where
  "observation_default = \<lparr>cso_multirotor = None\<rparr>"

record controller_step =
  cs_axis_command :: axis_command
  cs_observation :: controller_step_observation

record update_result =
  ur_effective_command :: command
  ur_controller_observation :: controller_step_observation
  ur_actuator :: actuator_cmd
  ur_status :: channel_status
  ur_estimate :: state_estimate
  ur_timing :: cycle_timing
  ur_degradation :: "degradation_event option"

record health_report =
  hr_init_state :: init_state
  hr_control_law :: control_law
  hr_config_mode :: config_mode
  hr_transition_state :: config_transition_state
  hr_faults :: fault_flags
  hr_channel_health :: channel_health

section \<open>Pipeline and state\<close>

record ('e, 'r) pipeline =
  p_observe :: "'e \<Rightarrow> sensor_set \<Rightarrow> sensor_overrides option \<Rightarrow> f32 \<Rightarrow> 'e"
  p_estimate :: "'e \<Rightarrow> state_estimate"
  p_estimator_reset :: "'e \<Rightarrow> 'e"
  p_verify_config_binding :: "resolved_config \<Rightarrow> (unit, u64 \<times> u64) result"
  p_supports_mode :: "control_mode \<Rightarrow> bool"
  p_set_cycle_interval :: "'r \<Rightarrow> f32 \<Rightarrow> 'r"
  p_step :: "'r \<Rightarrow> state_estimate \<Rightarrow> command \<Rightarrow> vehicle_control_mode \<Rightarrow> config_mode \<Rightarrow> limits
      \<Rightarrow> controller_step \<times> 'r"
  p_controller_reset :: "'r \<Rightarrow> 'r"
  p_geometry :: mixer_geometry
  p_mix :: "axis_command \<Rightarrow> actuator_cmd"
  p_sanitize :: "actuator_cmd \<Rightarrow> mode_config \<Rightarrow> actuator_fallback_state
      \<Rightarrow> actuator_cmd \<times> actuator_fallback_state \<times> sanitize_report"
  p_libm :: libm

record ('e, 'r) kernel_state =
  ks_init_state :: init_state
  ks_mode :: config_mode
  ks_faults :: fault_flags
  ks_control_law :: control_law
  ks_terminal_cause :: terminal_cause
  ks_checks :: kernel_checks
  ks_actuator_state :: actuator_state
  ks_timing_stats :: timing_stats
  ks_estimator :: 'e
  ks_fallback :: actuator_fallback_state
  ks_controller :: 'r
  ks_flight_phase :: flight_phase_state

definition kernel_state_new :: "'e \<Rightarrow> 'r \<Rightarrow> kernel_checks \<Rightarrow> ('e, 'r) kernel_state" where
  "kernel_state_new e0 r0 checks =
     \<lparr>ks_init_state = PowerOn, ks_mode = Hover, ks_faults = 0, ks_control_law = Primary,
      ks_terminal_cause = NoTerminal, ks_checks = checks, ks_actuator_state = actuator_state_default,
      ks_timing_stats = timing_stats_default, ks_estimator = e0,
      ks_fallback = actuator_fallback_state_default, ks_controller = r0,
      ks_flight_phase = flight_phase_state_default\<rparr>"

definition upd_pre_arm :: "(pre_arm_status \<Rightarrow> pre_arm_status) \<Rightarrow> ('e, 'r) kernel_state \<Rightarrow> ('e, 'r) kernel_state" where
  "upd_pre_arm f s = s\<lparr>ks_checks := (ks_checks s)\<lparr>pre_arm := f (pre_arm (ks_checks s))\<rparr>\<rparr>"

definition upd_in_flight :: "(in_flight_status \<Rightarrow> in_flight_status) \<Rightarrow> ('e, 'r) kernel_state \<Rightarrow> ('e, 'r) kernel_state" where
  "upd_in_flight f s = s\<lparr>ks_checks := (ks_checks s)\<lparr>in_flight := f (in_flight (ks_checks s))\<rparr>\<rparr>"

definition upd_transition :: "(transition_status \<Rightarrow> transition_status) \<Rightarrow> ('e, 'r) kernel_state \<Rightarrow> ('e, 'r) kernel_state" where
  "upd_transition f s = s\<lparr>ks_checks := (ks_checks s)\<lparr>transition := f (transition (ks_checks s))\<rparr>\<rparr>"

definition reset_controller :: "('e, 'r) pipeline \<Rightarrow> ('e, 'r) kernel_state \<Rightarrow> ('e, 'r) kernel_state" where
  "reset_controller p s = s\<lparr>ks_controller := p_controller_reset p (ks_controller s)\<rparr>"

section \<open>Construction\<close>

datatype kernel_build_error =
  MissingComponent string
| ControllerConfigMismatch u64 u64
| MixerGeometryMismatch mixer_geometry mixer_geometry

text \<open>
  The builder holds four optional components; each contributes its functions to the pipeline,
  so which of them were supplied is four flags and the pipeline they make up.
\<close>

record ('e, 'r) kernel_builder =
  kb_estimator :: bool
  kb_controller :: bool
  kb_mixer :: bool
  kb_sanitizer :: bool
  kb_pipeline :: "('e, 'r) pipeline"
  kb_cfg :: resolved_config
  kb_pre_arm_required :: "pre_arm_flags option"

record ('e, 'r) kernel =
  k_pipeline :: "('e, 'r) pipeline"
  k_state :: "('e, 'r) kernel_state"
  k_cfg :: resolved_config

definition build_kernel :: "'e \<Rightarrow> 'r \<Rightarrow> ('e, 'r) kernel_builder \<Rightarrow> (('e, 'r) kernel, kernel_build_error) result" where
  "build_kernel e0 r0 b =
     (if \<not> kb_estimator b then Err (MissingComponent ''estimator'')
      else if \<not> kb_controller b then Err (MissingComponent ''controller'')
      else if \<not> kb_mixer b then Err (MissingComponent ''mixer'')
      else if \<not> kb_sanitizer b then Err (MissingComponent ''sanitizer'')
      else case p_verify_config_binding (kb_pipeline b) (kb_cfg b) of
        Err (controller, config) \<Rightarrow> Err (ControllerConfigMismatch controller config)
      | Ok u \<Rightarrow>
          if p_geometry (kb_pipeline b) \<noteq> cfg_mixer_geometry (kb_cfg b)
          then Err (MixerGeometryMismatch (cfg_mixer_geometry (kb_cfg b)) (p_geometry (kb_pipeline b)))
          else let checks = (case kb_pre_arm_required b of
                               Some r \<Rightarrow> kernel_checks_with_pre_arm_required r
                             | None \<Rightarrow> kernel_checks_new)
               in Ok \<lparr>k_pipeline = kb_pipeline b, k_state = kernel_state_new e0 r0 checks,
                      k_cfg = kb_cfg b\<rparr>)"

section \<open>Lifecycle\<close>

definition init_transition :: "('e, 'r) kernel_state \<Rightarrow> ('e, 'r) kernel_state" where
  "init_transition s =
     (case ks_init_state s of
        PowerOn \<Rightarrow> s\<lparr>ks_init_state := ConfigLoading\<rparr>
      | ConfigLoading \<Rightarrow> (upd_pre_arm (pa_set PA_CONFIG_VALID True) s)\<lparr>ks_init_state := SensorInit\<rparr>
      | SensorInit \<Rightarrow>
          (if flag_contains (pa_current (pre_arm (ks_checks s))) PA_IMU_HEALTHY
           then s\<lparr>ks_init_state := EstimatorConverging\<rparr> else s)
      | EstimatorConverging \<Rightarrow>
          (if flag_contains (pa_current (pre_arm (ks_checks s))) PA_IMU_CONVERGED
              \<and> flag_contains (pa_current (pre_arm (ks_checks s))) PA_EKF_CONVERGED
           then s\<lparr>ks_init_state := PreArm\<rparr> else s)
      | PreArm \<Rightarrow>
          (if pa_is_satisfied (pre_arm (ks_checks s)) then s\<lparr>ks_init_state := Ready\<rparr> else s)
      | Ready \<Rightarrow>
          (if \<not> pa_is_satisfied (pre_arm (ks_checks s)) then s\<lparr>ks_init_state := PreArm\<rparr> else s)
      | Armed \<Rightarrow> s
      | Disarmed \<Rightarrow>
          (upd_pre_arm (\<lambda>p. p\<lparr>pa_samples := sample_counts_reset (pa_samples p)\<rparr>) s)
            \<lparr>ks_init_state := PreArm\<rparr>
      | Fault \<Rightarrow> s)"

definition init_step ::
  "('e, 'r) pipeline \<Rightarrow> sensor_set \<Rightarrow> ('e, 'r) kernel_state \<Rightarrow> ('e, 'r) kernel_state \<times> init_result" where
  "init_step p sensors s =
     (let s1 = upd_pre_arm (\<lambda>c. pa_update_from_sensors c sensors) s;
          s2 = upd_pre_arm (\<lambda>c. pa_update_from_faults c (ks_faults s1)) s1;
          est_initialized = (quality (p_estimate p (ks_estimator s2)) \<noteq> Unusable);
          s3 = upd_pre_arm (\<lambda>c. pa_update_ekf c est_initialized) s2;
          s4 = init_transition s3
      in (s4, \<lparr>ir_state = ks_init_state s4, ir_faults = ks_faults s4,
               ir_ready = (ks_init_state s4 = Ready)\<rparr>))"

definition is_ready :: "('e, 'r) kernel_state \<Rightarrow> bool" where
  "is_ready s \<longleftrightarrow> ks_init_state s = Ready"

definition arm :: "('e, 'r) pipeline \<Rightarrow> ('e, 'r) kernel_state \<Rightarrow> ('e, 'r) kernel_state \<times> (unit, arm_error) result" where
  "arm p s =
     (if ks_init_state s = Armed then (s, Err ArmAlreadyArmed)
      else if ks_faults s \<noteq> 0 then (s, Err ArmFaulted)
      else if ks_init_state s \<noteq> Ready then (s, Err ArmNotReady)
      else (s\<lparr>ks_flight_phase := begin_flight_period (ks_flight_phase s) (p_estimate p (ks_estimator s)),
              ks_control_law := Primary, ks_terminal_cause := NoTerminal, ks_init_state := Armed\<rparr>,
            Ok ()))"

definition end_flight_period :: "('e, 'r) pipeline \<Rightarrow> ('e, 'r) kernel_state \<Rightarrow> ('e, 'r) kernel_state" where
  "end_flight_period p s =
     reset_controller p
       ((upd_in_flight fl_reset
          (s\<lparr>ks_init_state := Disarmed, ks_control_law := Backup, ks_terminal_cause := NoTerminal\<rparr>))
        \<lparr>ks_flight_phase := fp_reset (ks_flight_phase s)\<rparr>)"

definition disarm :: "('e, 'r) pipeline \<Rightarrow> ('e, 'r) kernel_state \<Rightarrow> ('e, 'r) kernel_state \<times> (unit, disarm_error) result" where
  "disarm p s =
     (if is_airborne (ks_flight_phase s) then (s, Err DisarmAirborne)
      else (end_flight_period p s, Ok ()))"

definition terminate :: "('e, 'r) pipeline \<Rightarrow> ('e, 'r) kernel_state \<Rightarrow> ('e, 'r) kernel_state" where
  "terminate p s = end_flight_period p s"

section \<open>Faults and degradation\<close>

definition update_sensor_faults :: "sensor_set \<Rightarrow> ('e, 'r) kernel_state \<Rightarrow> ('e, 'r) kernel_state" where
  "update_sensor_faults sensors s =
     (let f0 = flag_set (ks_faults s) ALL_IMU_FAILED (\<not> any_good (imus sensors));
          f1 = flag_set f0 BARO_FAILED (\<not> any_good (baros sensors));
          f2 = flag_set f1 MAG_FAILED (\<not> any_good (mags sensors));
          f3 = flag_set f2 ALL_GNSS_LOST (\<not> any_good (gnss sensors))
      in s\<lparr>ks_faults := f3\<rparr>)"

definition can_reset_from_fault :: "('e, 'r) kernel_state \<Rightarrow> bool" where
  "can_reset_from_fault s =
     (if ks_init_state s \<noteq> Fault then False
      else \<not> flag_intersects (ks_faults s) critical_faults
           \<and> flag_contains (pa_current (pre_arm (ks_checks s))) PA_IMU_HEALTHY
           \<and> flag_contains (pa_current (pre_arm (ks_checks s))) PA_THROTTLE_LOW)"

definition reset_from_fault :: "('e, 'r) kernel_state \<Rightarrow> ('e, 'r) kernel_state \<times> (unit, arm_error) result" where
  "reset_from_fault s =
     (if ks_init_state s \<noteq> Fault then (s, Err ArmNotReady)
      else if \<not> can_reset_from_fault s then (s, Err ArmFaulted)
      else ((upd_in_flight fl_reset
              (upd_pre_arm (\<lambda>p. p\<lparr>pa_samples := sample_counts_reset (pa_samples p)\<rparr>) s))
            \<lparr>ks_init_state := PreArm\<rparr>, Ok ()))"

fun degraded_law :: "degradation_reason \<Rightarrow> control_law" where
  "degraded_law AttitudeLost = Backup"
| "degraded_law LandRequested = Direct"
| "degraded_law CommandTimeout = Direct"
| "degraded_law ImuDegraded = Alternate"
| "degraded_law PositionLost = Alternate"
| "degraded_law VelocityLost = Alternate"
| "degraded_law EnvelopeViolation = Alternate"
| "degraded_law BaroDegraded = Alternate"
| "degraded_law RcLost = Alternate"
| "degraded_law TimingViolation = Alternate"

definition handle_degradation ::
  "('e, 'r) pipeline \<Rightarrow> degradation_reason \<Rightarrow> timestamp \<Rightarrow> ('e, 'r) kernel_state
     \<Rightarrow> ('e, 'r) kernel_state \<times> degradation_event option" where
  "handle_degradation p reason ts s =
     (let s1 = (case latched_fault reason of
                  Some f \<Rightarrow> s\<lparr>ks_faults := flag_insert (ks_faults s) f\<rparr> | None \<Rightarrow> s);
          from_law = ks_control_law s1;
          to_law = degraded_law reason
      in if severity from_law < severity to_law
         then let cause = (if to_law = Direct
                           then (if reason = CommandTimeout then CommandLoss else Commanded)
                           else NoTerminal);
                  s2 = s1\<lparr>ks_control_law := to_law, ks_terminal_cause := cause\<rparr>;
                  s3 = (if to_law = Backup \<or> to_law = Direct then reset_controller p s2 else s2)
              in (s3, Some \<lparr>de_from = from_law, de_to = to_law, de_reason = reason, de_timestamp = ts\<rparr>)
         else (s1, None))"

definition request_config_mode ::
  "('e, 'r) pipeline \<Rightarrow> config_mode \<Rightarrow> ('e, 'r) kernel_state \<Rightarrow> ('e, 'r) kernel_state \<times> (unit, transition_error) result" where
  "request_config_mode p target s =
     (if ks_init_state s \<noteq> Armed then (s, Err NotArmed)
      else if flag_intersects (ks_faults s) critical_faults then (s, Err InFaultState)
      else if ks_mode s = Transition then (s, Err AlreadyTransitioning)
      else if ks_mode s = target then (s, Err AlreadyInMode)
      else let est = p_estimate p (ks_estimator s);
               s1 = upd_transition (\<lambda>t. tr_update_from_state (p_libm p) t est) s;
               s2 = upd_transition (\<lambda>t. tr_update_from_actuators t (ks_actuator_state s1) 0xF) s1
           in case can_transition (transition (ks_checks s2)) of
                Err e \<Rightarrow> (s2, Err (ChecksFailed e))
              | Ok u \<Rightarrow> (s2\<lparr>ks_mode := target\<rparr>, Ok ()))"

definition get_health :: "('e, 'r) kernel_state \<Rightarrow> health_report" where
  "get_health s =
     \<lparr>hr_init_state = ks_init_state s, hr_control_law = ks_control_law s, hr_config_mode = ks_mode s,
      hr_transition_state = Stable (ks_mode s), hr_faults = ks_faults s, hr_channel_health = Operative\<rparr>"

definition ground_reset :: "('e, 'r) pipeline \<Rightarrow> ('e, 'r) kernel_state \<Rightarrow> ('e, 'r) kernel_state" where
  "ground_reset p s =
     (if ks_init_state s = Armed then s
      else let s1 = upd_transition tr_reset (upd_in_flight fl_reset (upd_pre_arm pa_reset
                      (s\<lparr>ks_faults := 0, ks_terminal_cause := NoTerminal\<rparr>)));
               s2 = s1\<lparr>ks_flight_phase := fp_reset (ks_flight_phase s1), ks_init_state := ConfigLoading,
                       ks_estimator := p_estimator_reset p (ks_estimator s1),
                       ks_fallback := actuator_fallback_state_default,
                       ks_actuator_state := actuator_state_default,
                       ks_timing_stats := timing_stats_default, ks_mode := Hover\<rparr>
           in (reset_controller p s2)\<lparr>ks_control_law := Primary\<rparr>)"

definition report_timing_violation :: "bool \<Rightarrow> ('e, 'r) kernel_state \<Rightarrow> ('e, 'r) kernel_state" where
  "report_timing_violation violation s =
     (if violation
      then s\<lparr>ks_timing_stats := (ks_timing_stats s)
               \<lparr>deadline_violations := sat_add (deadline_violations (ks_timing_stats s)) 1,
                consecutive_violations := sat_add (consecutive_violations (ks_timing_stats s)) 1\<rparr>\<rparr>
      else s\<lparr>ks_timing_stats := (ks_timing_stats s)\<lparr>consecutive_violations := 0\<rparr>\<rparr>)"

definition check_critical_faults :: "('e, 'r) pipeline \<Rightarrow> ('e, 'r) kernel_state \<Rightarrow> ('e, 'r) kernel_state \<times> bool" where
  "check_critical_faults p s =
     (if flag_intersects (ks_faults s) critical_faults
      then (reset_controller p
              (s\<lparr>ks_init_state := Fault, ks_control_law := Backup, ks_terminal_cause := NoTerminal\<rparr>), True)
      else (s, False))"

definition load_config :: "config_block \<Rightarrow> (unit, config_error) result" where
  "load_config b = (if 1 < cb_version b then Err UnsupportedVersion else Err InvalidFormat)"

definition inject_fault :: "fault_flags \<Rightarrow> ('e, 'r) kernel_state \<Rightarrow> ('e, 'r) kernel_state" where
  "inject_fault f s = s\<lparr>ks_faults := flag_insert (ks_faults s) f\<rparr>"

end
