(* ===== verification/CommandFrames.thy ===== *)
theory CommandFrames
  imports MavlinkCodec Kernel
begin

text \<open>
  From frames to commands (\<open>aviate-link\<close>: \<open>command.rs\<close>, \<open>errors.rs\<close>, \<open>mavlink/command.rs\<close>;
  \<open>aviate-hal-io\<close>: \<open>comm.rs\<close>): the signature material of a frame, the addressing filter, the decoder
  of kernel commands and the polling command link.
\<close>

section \<open>Commands of the system\<close>

datatype system_command =
  FlightControl command
| SysArm
| SysDisarm
| EmergencyTerminate

datatype command_outcome =
  Accepted
| ArmRejected arm_error pre_arm_flags
| DisarmRejected disarm_error

definition outcome_is_accepted :: "command_outcome \<Rightarrow> bool" where
  "outcome_is_accepted out \<longleftrightarrow> out = Accepted"

fun outcome_is_retryable :: "command_outcome \<Rightarrow> bool" where
  "outcome_is_retryable (ArmRejected e _) \<longleftrightarrow> e = ArmNotReady \<or> e = ArmFaulted"
| "outcome_is_retryable _ \<longleftrightarrow> False"

datatype transport_error = BufferFull | Disconnected | InvalidFrame

datatype link_error =
  LinkTransport transport_error
| LinkParse parse_error
| UnsupportedMsg
| WrongAddressee byte byte
| FrameLengthMismatch nat nat

section \<open>Signature material\<close>

definition MAX_SIGNED_FRAME_SIZE :: nat where "MAX_SIGNED_FRAME_SIZE = 300"

definition MAVLINK_SIGNATURE_TRAILER_LEN :: nat where "MAVLINK_SIGNATURE_TRAILER_LEN = 6"

record signature_meta =
  sm_system_id :: byte
  sm_component_id :: byte
  sm_link_id :: byte
  sm_timestamp :: u64
  sm_sig :: "byte list"
  sm_raw_frame :: "byte list"
  sm_raw_frame_len :: nat

text \<open>\<open>checked_sub\<close> and \<open>get(..end)\<close> are the two ways to \<open>None\<close>.\<close>

definition signed_message :: "signature_meta \<Rightarrow> byte list option" where
  "signed_message m =
     (if sm_raw_frame_len m < MAVLINK_SIGNATURE_TRAILER_LEN then None
      else let n = sm_raw_frame_len m - MAVLINK_SIGNATURE_TRAILER_LEN
           in if length (sm_raw_frame m) < n then None else Some (take n (sm_raw_frame m)))"

text \<open>The fixed buffer: the first \<open>len\<close> bytes of \<open>buf\<close>, the rest zero.\<close>

definition raw_frame_of :: "byte list \<Rightarrow> nat \<Rightarrow> byte list" where
  "raw_frame_of buf len = take len buf @ replicate (MAX_SIGNED_FRAME_SIZE - len) 0"

definition signature_meta_of :: "mav_signature \<Rightarrow> byte list \<Rightarrow> nat \<Rightarrow> signature_meta" where
  "signature_meta_of sig buf len =
     \<lparr>sm_system_id = ms_system_id sig, sm_component_id = ms_component_id sig, sm_link_id = ms_link_id sig,
      sm_timestamp = ms_timestamp sig, sm_sig = ms_signature sig, sm_raw_frame = raw_frame_of buf len,
      sm_raw_frame_len = len\<rparr>"

section \<open>Decoding a kernel command\<close>

record local_address =
  la_system_id :: byte
  la_component_id :: byte

definition accepts :: "local_address \<Rightarrow> byte \<Rightarrow> byte \<Rightarrow> bool" where
  "accepts l target_system target_component =
     (let system_ok = (target_system = 0 \<or> target_system = la_system_id l);
          component_ok = (target_component = 0 \<or> target_component = la_component_id l)
      in system_ok \<and> component_ok)"

definition COMPONENT_ARM_DISARM :: u16 where "COMPONENT_ARM_DISARM = 400"

definition DO_SET_MODE :: u16 where "DO_SET_MODE = 176"

record parsed_system_command =
  ps_command :: system_command
  ps_signature :: "signature_meta option"

text \<open>The \<open>match\<close> on the message.\<close>

fun system_command_of :: "local_address \<Rightarrow> mav_message \<Rightarrow> (system_command, link_error) result" where
  "system_command_of l (CommandLong cmd) =
     (if cl_command cmd = COMPONENT_ARM_DISARM
      then if \<not> accepts l (cl_target_system cmd) (cl_target_component cmd)
           then Err (WrongAddressee (cl_target_system cmd) (cl_target_component cmd))
           else if f32_eq (cl_param1 cmd) f1 then Ok SysArm
           else if f32_eq (cl_param1 cmd) f0 then Ok SysDisarm
           else Err UnsupportedMsg
      else Err UnsupportedMsg)"
| "system_command_of l _ = Err UnsupportedMsg"

definition parse_system_command ::
  "byte list \<Rightarrow> local_address \<Rightarrow> (parsed_system_command, link_error) result" where
  "parse_system_command frame l =
     (case parse_mavlink frame of
        Err e \<Rightarrow> Err (LinkParse e)
      | Ok (msg, mav_sig, consumed) \<Rightarrow>
          if consumed \<noteq> length frame \<or> MAX_SIGNED_FRAME_SIZE < length frame
          then Err (FrameLengthMismatch (length frame) consumed)
          else let signature = map_option (\<lambda>sig. signature_meta_of sig frame (length frame)) mav_sig
               in case system_command_of l msg of
                    Err e \<Rightarrow> Err e
                  | Ok c \<Rightarrow> Ok \<lparr>ps_command = c, ps_signature = signature\<rparr>)"

section \<open>The polling command link\<close>

datatype command_kind = KindArm | KindDisarm | KindSetMode | KindSetAttitude | KindSetRate | KindSetThrust

record link_command =
  lc_kind :: command_kind
  lc_params :: "f32 list"
  lc_timestamp_ms :: u32
  lc_signature :: "signature_meta option"

definition map_command_long :: "mav_command_long \<Rightarrow> u32 \<Rightarrow> signature_meta option \<Rightarrow> link_command option" where
  "map_command_long cmd now_ms sig =
     (if cl_command cmd = COMPONENT_ARM_DISARM
      then let is_arm = f32_lt (f32_lit 5 10) (cl_param1 cmd)
           in Some \<lparr>lc_kind = (if is_arm then KindArm else KindDisarm), lc_params = replicate 7 0,
                lc_timestamp_ms = now_ms, lc_signature = sig\<rparr>
      else if cl_command cmd = DO_SET_MODE
      then Some \<lparr>lc_kind = KindSetMode, lc_params = [cl_param1 cmd, cl_param2 cmd, 0, 0, 0, 0, 0],
             lc_timestamp_ms = now_ms, lc_signature = sig\<rparr>
      else None)"

fun map_mavlink_to_command :: "mav_message \<Rightarrow> u32 \<Rightarrow> signature_meta option \<Rightarrow> link_command option" where
  "map_mavlink_to_command (CommandLong cmd) now_ms sig = map_command_long cmd now_ms sig"
| "map_mavlink_to_command (SetAttitudeTarget tgt) now_ms sig =
     Some \<lparr>lc_kind = KindSetAttitude,
       lc_params = [q4_0 (sa_q tgt), q4_1 (sa_q tgt), q4_2 (sa_q tgt), q4_3 (sa_q tgt), sa_thrust tgt, 0, 0],
       lc_timestamp_ms = now_ms, lc_signature = sig\<rparr>"
| "map_mavlink_to_command _ now_ms sig = None"

text \<open>
  \<open>poll_command\<close> over the transport's \<open>try_recv\<close>: its verdict and the receive buffer it left. A length
  past the 512-byte buffer panics at the slice (\<open>None\<close>).
\<close>

definition poll_command ::
  "(nat, transport_error) result \<Rightarrow> byte list \<Rightarrow> u32 \<Rightarrow> (link_command option, link_error) result option" where
  "poll_command received buf now_ms =
     (case received of
        Err e \<Rightarrow> Some (Err (LinkTransport e))
      | Ok len \<Rightarrow>
          if len = 0 then Some (Ok None)
          else if length buf < len then None
          else case parse_mavlink (take len buf) of
            Err e \<Rightarrow> Some (Err (LinkParse e))
          | Ok (msg, mav_sig, consumed) \<Rightarrow>
              let sig = map_option (\<lambda>sig. signature_meta_of sig buf (min consumed MAX_SIGNED_FRAME_SIZE)) mav_sig
              in (case map_mavlink_to_command msg now_ms sig of
                    Some cmd \<Rightarrow> Some (Ok (Some cmd))
                  | None \<Rightarrow> Some (Err UnsupportedMsg)))"

section \<open>What a decoded command covers\<close>

lemma parse_system_command_ok:
  assumes "parse_system_command frame l = Ok p"
  obtains f cmd where "parse_mavlink_frame frame = Ok f" "pf_consumed f = length frame"
    "length frame \<le> MAX_SIGNED_FRAME_SIZE" "pf_message f = CommandLong cmd" "cl_command cmd = COMPONENT_ARM_DISARM"
    "accepts l (cl_target_system cmd) (cl_target_component cmd)"
    "ps_command p = SysArm \<and> f32_eq (cl_param1 cmd) f1
     \<or> ps_command p = SysDisarm \<and> f32_eq (cl_param1 cmd) f0"
    "ps_signature p = map_option (\<lambda>sig. signature_meta_of sig frame (length frame)) (pf_signature f)"
proof -
  from assms obtain f where f: "parse_mavlink_frame frame = Ok f" "pf_consumed f = length frame"
    "length frame \<le> MAX_SIGNED_FRAME_SIZE"
    by (auto simp: parse_system_command_def parse_mavlink_def split: sum.splits if_splits)
  then show thesis
    using assms that [of f]
    by (cases "pf_message f")
      (auto simp: parse_system_command_def parse_mavlink_def Let_def split: sum.splits if_splits)
qed

text \<open>The signed bytes of a decoded frame are the frame without its last six bytes.\<close>

lemma signed_message_of_frame:
  assumes "MAVLINK_SIGNATURE_TRAILER_LEN \<le> length frame" "length frame \<le> MAX_SIGNED_FRAME_SIZE"
  shows "signed_message (signature_meta_of sig frame (length frame))
     = Some (take (length frame - MAVLINK_SIGNATURE_TRAILER_LEN) frame)"
  using assms by (simp add: signed_message_def signature_meta_of_def raw_frame_of_def Let_def)

end
