(* ===== verification/Gateway.thy ===== *)
theory Gateway
  imports CommandFrames
begin

text \<open>
  The command boundary (\<open>aviate-security\<close>): principals, the anti-replay window, the authorization
  policy, the gateway and the admission adapters. Errors are values; every operation with \<open>&mut self\<close>
  returns the updated structure.
\<close>

section \<open>Principals and errors\<close>

datatype security_scheme = MavlinkSigning

record principal =
  pr_scheme :: security_scheme
  pr_credential :: u16
  pr_identity :: u16

definition principal_mavlink :: "byte \<Rightarrow> byte \<Rightarrow> byte \<Rightarrow> principal" where
  "principal_mavlink system_id component_id link_id =
     \<lparr>pr_scheme = MavlinkSigning, pr_credential = ucast link_id,
      pr_identity = push_bit 8 (ucast system_id) OR ucast component_id\<rparr>"

datatype crypto_error = InvalidKey | VerificationFailed | UnsupportedAlgo | HardwareFailure

datatype auth_error =
  AuthCrypto crypto_error
| InvalidSignature
| MissingSignature
| ReplayAttack
| StaleNewStream u64 u64
| CounterImplausiblyAhead u64 u64
| ReplayCapacityExhausted
| UnauthorizedSource

datatype gateway_error =
  GatewayLink link_error
| GatewayAuth auth_error
| NoCommand

section \<open>The anti-replay window\<close>

definition MAX_SIGNING_PEERS :: nat where "MAX_SIGNING_PEERS = 16"

definition NEW_STREAM_MAX_AGE_10US :: u64 where "NEW_STREAM_MAX_AGE_10US = 6000000"

record slot =
  sl_principal :: principal
  sl_last_counter :: u64

record replay_window =
  rw_slots :: "slot option list"
  rw_freshness_floor :: u64
  rw_high_water :: u64
  rw_new_stream_max_age :: u64

definition replay_new :: "u64 \<Rightarrow> u64 \<Rightarrow> replay_window" where
  "replay_new initial max_age =
     \<lparr>rw_slots = replicate MAX_SIGNING_PEERS None, rw_freshness_floor = initial, rw_high_water = initial,
      rw_new_stream_max_age = max_age\<rparr>"

definition local_counter :: "replay_window \<Rightarrow> u64" where
  "local_counter w = rw_high_water w"

definition slot_holds :: "principal \<Rightarrow> slot option \<Rightarrow> bool" where
  "slot_holds p s = (case s of Some s \<Rightarrow> sl_principal s = p | None \<Rightarrow> False)"

definition replay_find :: "replay_window \<Rightarrow> principal \<Rightarrow> nat option" where
  "replay_find w p = find_idx (slot_holds p) (rw_slots w)"

text \<open>\<open>self.slots.get(idx).and_then(Option::as_ref)\<close>.\<close>

definition slot_at :: "replay_window \<Rightarrow> nat \<Rightarrow> slot option" where
  "slot_at w i = (if i < length (rw_slots w) then rw_slots w ! i else None)"

text \<open>The part of \<open>check_and_update\<close> after the forward bound.\<close>

definition commit_counter ::
  "principal \<Rightarrow> u64 \<Rightarrow> replay_window \<Rightarrow> replay_window \<times> (unit, auth_error) result" where
  "commit_counter p counter w =
     (case replay_find w p of
        Some i \<Rightarrow>
          (case slot_at w i of
             None \<Rightarrow> (w, Err ReplayAttack)
           | Some s \<Rightarrow>
               if counter \<le> sl_last_counter s then (w, Err ReplayAttack)
               else (w\<lparr>rw_slots := (rw_slots w)[i := Some (s\<lparr>sl_last_counter := counter\<rparr>)],
                       rw_high_water := max (rw_high_water w) counter\<rparr>, Ok ()))
      | None \<Rightarrow>
          if counter = 0 then (w, Err ReplayAttack)
          else if counter < sat_sub (rw_freshness_floor w) (rw_new_stream_max_age w)
          then (w, Err (StaleNewStream counter (rw_freshness_floor w)))
          else case find_idx (\<lambda>s. s = None) (rw_slots w) of
                 Some i \<Rightarrow>
                   (w\<lparr>rw_slots := (rw_slots w)[i := Some \<lparr>sl_principal = p, sl_last_counter = counter\<rparr>],
                      rw_high_water := max (rw_high_water w) counter\<rparr>, Ok ())
               | None \<Rightarrow> (w, Err ReplayCapacityExhausted))"

definition check_and_update ::
  "principal \<Rightarrow> u64 \<Rightarrow> u64 option \<Rightarrow> replay_window \<Rightarrow> replay_window \<times> (unit, auth_error) result" where
  "check_and_update p counter plausible_ceiling w =
     (case plausible_ceiling of
        Some ceiling \<Rightarrow>
          if ceiling < counter then (w, Err (CounterImplausiblyAhead counter ceiling))
          else commit_counter p counter w
      | None \<Rightarrow> commit_counter p counter w)"

definition last_counter :: "replay_window \<Rightarrow> principal \<Rightarrow> u64" where
  "last_counter w p =
     (case replay_find w p of
        Some i \<Rightarrow> (case slot_at w i of Some s \<Rightarrow> sl_last_counter s | None \<Rightarrow> 0)
      | None \<Rightarrow> 0)"

definition reset_principal :: "principal \<Rightarrow> replay_window \<Rightarrow> replay_window" where
  "reset_principal p w =
     (case replay_find w p of
        Some i \<Rightarrow> w\<lparr>rw_slots := (rw_slots w)[i := None]\<rparr>
      | None \<Rightarrow> w)"

definition reset_all :: "replay_window \<Rightarrow> replay_window" where
  "reset_all w = w\<lparr>rw_slots := replicate MAX_SIGNING_PEERS None\<rparr>"

section \<open>The authorization policy\<close>

datatype link_source = SourceRc | SourceGcsDatalink | SourceOffboard

definition MAX_SOURCE_BINDINGS :: nat where "MAX_SOURCE_BINDINGS = 8"

record source_binding =
  sb_principal :: principal
  sb_source :: link_source

datatype credential_error = TableFull | DuplicateCredential u16

type_synonym source_policy = "source_binding option list"

definition policy_new :: source_policy where
  "policy_new = replicate MAX_SOURCE_BINDINGS None"

definition same_credential :: "principal \<Rightarrow> source_binding option \<Rightarrow> bool" where
  "same_credential p b =
     (case b of
        Some b \<Rightarrow> pr_scheme (sb_principal b) = pr_scheme p \<and> pr_credential (sb_principal b) = pr_credential p
      | None \<Rightarrow> False)"

definition policy_bind ::
  "principal \<Rightarrow> link_source \<Rightarrow> source_policy \<Rightarrow> source_policy \<times> (unit, credential_error) result" where
  "policy_bind p source policy =
     (if list_ex (same_credential p) policy then (policy, Err (DuplicateCredential (pr_credential p)))
      else case find_idx (\<lambda>b. b = None) policy of
             Some i \<Rightarrow> (policy[i := Some \<lparr>sb_principal = p, sb_source = source\<rparr>], Ok ())
           | None \<Rightarrow> (policy, Err TableFull))"

primrec policy_resolve :: "source_policy \<Rightarrow> principal \<Rightarrow> link_source option" where
  "policy_resolve [] p = None"
| "policy_resolve (b # bs) p =
     (case b of
        Some b \<Rightarrow> if sb_principal b = p then Some (sb_source b) else policy_resolve bs p
      | None \<Rightarrow> policy_resolve bs p)"

section \<open>The gateway\<close>

datatype trusted_counter = Rtc u64 | PersistedHighWater u64 | NoTrustedTimeSource

fun trusted_value :: "trusted_counter \<Rightarrow> u64" where
  "trusted_value (Rtc v) = v"
| "trusted_value (PersistedHighWater v) = v"
| "trusted_value NoTrustedTimeSource = 0"

fun bounds_the_future :: "trusted_counter \<Rightarrow> bool" where
  "bounds_the_future (Rtc _) = True"
| "bounds_the_future _ = False"

record freshness_config =
  fc_initial_trusted_counter :: trusted_counter
  fc_new_stream_max_age :: u64
  fc_counter_tick_us :: u64
  fc_max_skew :: u64

record gateway =
  gw_source_policy :: source_policy
  gw_anti_replay :: replay_window
  gw_authority_epoch :: u32
  gw_freshness :: freshness_config
  gw_epoch_now_us :: "u64 option"

record authenticated_command =
  ac_principal :: principal
  ac_counter :: u64
  ac_command :: system_command

record verification_receipt =
  vr_source :: link_source
  vr_authority_epoch :: u32
  vr_sequence :: u64
  vr_received_at_us :: u64
  vr_expires_at_us :: "u64 option"

record verified_command =
  vc_command :: system_command
  vc_receipt :: verification_receipt

definition gateway_new :: "source_policy \<Rightarrow> freshness_config \<Rightarrow> gateway" where
  "gateway_new policy freshness =
     \<lparr>gw_source_policy = policy,
      gw_anti_replay = replay_new (trusted_value (fc_initial_trusted_counter freshness)) (fc_new_stream_max_age freshness),
      gw_authority_epoch = 0, gw_freshness = freshness, gw_epoch_now_us = None\<rparr>"

definition plausible_ceiling :: "u64 \<Rightarrow> gateway \<Rightarrow> gateway \<times> u64 option" where
  "plausible_ceiling now_us g =
     (if \<not> bounds_the_future (fc_initial_trusted_counter (gw_freshness g)) then (g, None)
      else let anchor = (case gw_epoch_now_us g of Some t \<Rightarrow> t | None \<Rightarrow> now_us);
               g = g\<lparr>gw_epoch_now_us := Some anchor\<rparr>;
               elapsed_us = sat_sub now_us anchor;
               elapsed_counts = elapsed_us div max (fc_counter_tick_us (gw_freshness g)) 1
           in (g, Some (sat_add (sat_add (trusted_value (fc_initial_trusted_counter (gw_freshness g))) elapsed_counts)
                         (fc_max_skew (gw_freshness g)))))"

definition admit ::
  "authenticated_command \<Rightarrow> u64 \<Rightarrow> gateway \<Rightarrow> gateway \<times> (verified_command, gateway_error) result" where
  "admit c now_us g =
     (case policy_resolve (gw_source_policy g) (ac_principal c) of
        None \<Rightarrow> (g, Err (GatewayAuth UnauthorizedSource))
      | Some source \<Rightarrow>
          let (g, ceiling) = plausible_ceiling now_us g
          in case check_and_update (ac_principal c) (ac_counter c) ceiling (gw_anti_replay g) of
               (w, Err e) \<Rightarrow> (g\<lparr>gw_anti_replay := w\<rparr>, Err (GatewayAuth e))
             | (w, Ok _) \<Rightarrow>
                 let g = g\<lparr>gw_anti_replay := w\<rparr>
                 in (g, Ok \<lparr>vc_command = ac_command c,
                            vc_receipt = \<lparr>vr_source = source, vr_authority_epoch = gw_authority_epoch g,
                              vr_sequence = ac_counter c, vr_received_at_us = now_us, vr_expires_at_us = None\<rparr>\<rparr>))"

definition begin_authority_epoch :: "gateway \<Rightarrow> gateway" where
  "begin_authority_epoch g = g\<lparr>gw_authority_epoch := gw_authority_epoch g + 1\<rparr>"

definition local_freshness_counter :: "gateway \<Rightarrow> u64" where
  "local_freshness_counter g = local_counter (gw_anti_replay g)"

section \<open>Commands the controller issues itself\<close>

text \<open>\<open>swap(true)\<close> on the process-wide flag: the capability is handed out while it was clear.\<close>

definition take_failsafe_authority :: "bool \<Rightarrow> bool \<times> unit option" where
  "take_failsafe_authority taken = (True, if taken then None else Some ())"

end
