(* ===== verification/Admission.thy ===== *)
theory Admission
  imports Gateway
begin

text \<open>
  The admission adapters (\<open>auth.rs\<close>, \<open>admission/\<close>): they decode a frame, verify it and seal the
  claim the gateway consumes. The key store and the crypto engine are traits implemented by the boards;
  here they are parameters: \<open>load_key\<close> answers with the key of a slot, and \<open>sign\<close> takes the
  engine's state, the algorithm, the key, the message and the output buffer, and returns the new state, the
  buffer and the verdict.
\<close>

section \<open>Signature verification\<close>

datatype crypto_algo = Sha256KeyedPrefix | HmacSha256 | AesGcm128 | Ed25519

datatype key_purpose = PurposeCommand | PurposeFirmware

record key_selector =
  ks_link_id :: byte
  ks_purpose :: key_purpose

type_synonym key_store = "key_selector \<Rightarrow> (byte list, crypto_error) result"

type_synonym 'c crypto_engine =
  "'c \<Rightarrow> crypto_algo \<Rightarrow> byte list \<Rightarrow> byte list \<Rightarrow> byte list \<Rightarrow> 'c \<times> byte list \<times> (nat, crypto_error) result"

text \<open>\<open>computed[..6].iter().zip(expected).fold(0, |acc, (a, b)| acc | (a ^ b))\<close>.\<close>

definition signature_diff :: "byte list \<Rightarrow> byte list \<Rightarrow> byte" where
  "signature_diff computed expected =
     fold (\<lambda>(a, b) acc. acc OR (a XOR b)) (zip (take 6 computed) expected) 0"

definition verify_signature ::
  "key_store \<Rightarrow> 'c crypto_engine \<Rightarrow> byte \<Rightarrow> byte list \<Rightarrow> byte list \<Rightarrow> 'c \<Rightarrow> 'c \<times> (unit, auth_error) result" where
  "verify_signature load_key sign link_id signed_bytes expected_sig c =
     (case load_key \<lparr>ks_link_id = link_id, ks_purpose = PurposeCommand\<rparr> of
        Err e \<Rightarrow> (c, Err (AuthCrypto e))
      | Ok key \<Rightarrow>
          case sign c Sha256KeyedPrefix key signed_bytes (replicate 32 0) of
            (c, computed, Err e) \<Rightarrow> (c, Err (AuthCrypto e))
          | (c, computed, Ok _) \<Rightarrow>
              if signature_diff computed expected_sig = 0 then (c, Ok ()) else (c, Err InvalidSignature))"

definition verify_frame ::
  "key_store \<Rightarrow> 'c crypto_engine \<Rightarrow> signature_meta \<Rightarrow> 'c \<Rightarrow> 'c \<times> (unit, auth_error) result" where
  "verify_frame load_key sign sig c =
     (case signed_message sig of
        None \<Rightarrow> (c, Err InvalidSignature)
      | Some message \<Rightarrow> verify_signature load_key sign (sm_link_id sig) message (sm_sig sig) c)"

section \<open>The MAVLink signing adapter\<close>

definition mavlink_authenticate ::
  "key_store \<Rightarrow> 'c crypto_engine \<Rightarrow> local_address \<Rightarrow> byte list \<Rightarrow> 'c
   \<Rightarrow> 'c \<times> (authenticated_command, gateway_error) result" where
  "mavlink_authenticate load_key sign l frame c =
     (case parse_system_command frame l of
        Err e \<Rightarrow> (c, Err (GatewayLink e))
      | Ok parsed \<Rightarrow>
          case ps_signature parsed of
            None \<Rightarrow> (c, Err (GatewayAuth MissingSignature))
          | Some sig \<Rightarrow>
              case verify_frame load_key sign sig c of
                (c, Err e) \<Rightarrow> (c, Err (GatewayAuth e))
              | (c, Ok _) \<Rightarrow>
                  (c, Ok \<lparr>ac_principal = principal_mavlink (sm_system_id sig) (sm_component_id sig) (sm_link_id sig),
                          ac_counter = sm_timestamp sig, ac_command = ps_command parsed\<rparr>))"

section \<open>The development adapter\<close>

record insecure_dev_admission =
  id_principal :: principal
  id_next_counter :: u64
  id_local :: local_address

definition insecure_dev_new :: "principal \<Rightarrow> local_address \<Rightarrow> insecure_dev_admission" where
  "insecure_dev_new p l = \<lparr>id_principal = p, id_next_counter = 1, id_local = l\<rparr>"

definition insecure_dev_seal ::
  "system_command \<Rightarrow> insecure_dev_admission \<Rightarrow> insecure_dev_admission \<times> authenticated_command" where
  "insecure_dev_seal c a =
     (let counter = id_next_counter a
      in (a\<lparr>id_next_counter := id_next_counter a + 1\<rparr>,
          \<lparr>ac_principal = id_principal a, ac_counter = counter, ac_command = c\<rparr>))"

definition insecure_dev_authenticate ::
  "byte list \<Rightarrow> insecure_dev_admission
   \<Rightarrow> insecure_dev_admission \<times> (authenticated_command, gateway_error) result" where
  "insecure_dev_authenticate frame a =
     (case parse_system_command frame (id_local a) of
        Err e \<Rightarrow> (a, Err (GatewayLink e))
      | Ok parsed \<Rightarrow> let (a, claim) = insecure_dev_seal (ps_command parsed) a in (a, Ok claim))"

section \<open>What a signed claim rests on\<close>

lemma fold_or_zero:
  "fold (\<lambda>(a, b) acc. acc OR (a XOR b)) ps z = 0 \<longleftrightarrow> z = 0 \<and> (\<forall>(a, b) \<in> set ps. a = b)" for z :: byte
proof (induction ps arbitrary: z)
  case (Cons p ps)
  obtain a b where "p = (a, b)" by (cases p)
  moreover have "z OR (a XOR b) = 0 \<longleftrightarrow> z = 0 \<and> a = b" by (metis or_eq_0_iff xor_self_eq xor.left_neutral xor.assoc)
  ultimately show ?case using Cons.IH by auto
qed simp

lemma signature_diff_zero:
  assumes "6 \<le> length computed" "length expected = 6"
  shows "signature_diff computed expected = 0 \<longleftrightarrow> take 6 computed = expected"
proof -
  have "(\<forall>(a, b) \<in> set (zip (take 6 computed) expected). a = b) \<longleftrightarrow> take 6 computed = expected"
    using assms by (auto simp: list_eq_iff_zip_eq)
  then show ?thesis by (simp add: signature_diff_def fold_or_zero)
qed

lemma verify_frame_ok:
  assumes "verify_frame load_key sign sig c = (c', Ok u)"
  obtains message key computed n where "signed_message sig = Some message"
    "load_key \<lparr>ks_link_id = sm_link_id sig, ks_purpose = PurposeCommand\<rparr> = Ok key"
    "sign c Sha256KeyedPrefix key message (replicate 32 0) = (c', computed, Ok n)"
    "signature_diff computed (sm_sig sig) = 0"
  using assms
  by (auto simp: verify_frame_def verify_signature_def split: option.splits sum.splits prod.splits if_splits)

lemma mavlink_authenticate_ok:
  assumes "mavlink_authenticate load_key sign l frame c = (c', Ok claim)"
  obtains parsed sig where "parse_system_command frame l = Ok parsed" "ps_signature parsed = Some sig"
    "verify_frame load_key sign sig c = (c', Ok ())"
    "claim = \<lparr>ac_principal = principal_mavlink (sm_system_id sig) (sm_component_id sig) (sm_link_id sig),
       ac_counter = sm_timestamp sig, ac_command = ps_command parsed\<rparr>"
  using assms by (auto simp: mavlink_authenticate_def split: option.splits sum.splits prod.splits)

end
