(* ===== verification/Runs.thy ===== *)
theory Runs
  imports Prelude
begin

text \<open>
  Contracts between a step function \<open>step c s\<close> of calls and states and the properties of its
  runs \<open>fold step calls s\<close>: a predicate every allowed call preserves, a set of latched bits no
  allowed call clears, and an abstraction whose moves every call follows. The kernel is the
  provider of all three; the theorems about its runs are the facts of the interpretations.
\<close>

text \<open>A path of a labelled relation that follows a list of labels.\<close>

primrec labelled_path :: "('c \<Rightarrow> 'a \<Rightarrow> 'a \<Rightarrow> bool) \<Rightarrow> 'c list \<Rightarrow> 'a \<Rightarrow> 'a \<Rightarrow> bool" where
  "labelled_path R [] a b = (a = b)"
| "labelled_path R (c # cs) a b = (\<exists>m. R c a m \<and> labelled_path R cs m b)"

locale preserved =
  fixes step :: "'c \<Rightarrow> 's \<Rightarrow> 's"
    and allowed :: "'c \<Rightarrow> bool"
    and P :: "'s \<Rightarrow> bool"
  assumes preserve: "P s \<Longrightarrow> allowed c \<Longrightarrow> P (step c s)"
begin

lemma run: "P s \<Longrightarrow> list_all allowed cs \<Longrightarrow> P (fold step cs s)"
  by (induction cs arbitrary: s) (simp_all add: preserve)

lemma run_prefix: "P s \<Longrightarrow> list_all allowed (cs @ ds) \<Longrightarrow> P (fold step cs s)"
  by (rule run) simp_all

end

locale latch =
  fixes step :: "'c \<Rightarrow> 's \<Rightarrow> 's"
    and allowed :: "'c \<Rightarrow> bool"
    and latched :: "'s \<Rightarrow> 'w::len word"
    and live :: "'w word"
  assumes hold: "allowed c \<Longrightarrow> bit (latched s) k \<Longrightarrow> \<not> bit live k \<Longrightarrow> bit (latched (step c s)) k"

sublocale latch \<subseteq> held: preserved step allowed "\<lambda>s. flag_contains (latched s) (flag_diff f live)" for f
  by unfold_locales (auto simp: flag_contains_iff flag_simps hold)

context latch
begin

lemma run_contains:
  assumes "list_all allowed cs" "flag_contains (latched s) f" "\<not> flag_intersects f live"
  shows "flag_contains (latched (fold step cs s)) f"
proof -
  have "flag_diff f live = f" if "\<not> flag_intersects f live"
    using that by (auto simp: flag_intersects_iff flag_simps intro!: bit_eqI)
  then show ?thesis using held.run [OF _ assms(1), of s f] assms by simp
qed

end

locale simulation =
  fixes step :: "'c \<Rightarrow> 's \<Rightarrow> 's"
    and abs :: "'s \<Rightarrow> 'a"
    and R :: "'c \<Rightarrow> 'a \<Rightarrow> 'a \<Rightarrow> bool"
  assumes simulate: "R c (abs s) (abs (step c s))"
begin

lemma path: "labelled_path R cs (abs s) (abs (fold step cs s))"
  by (induction cs arbitrary: s) (auto intro: simulate)

end

end
