(* ===== verification/GatewayRuns.thy ===== *)
theory GatewayRuns
  imports Admission Runs
begin

text \<open>
  The runs of the command boundary (\<open>anti_replay.rs\<close>, \<open>gateway.rs\<close>): a guard that accepts only rising
  stamps per key, as a locale interpreted on the anti-replay window and on the gateway; the invariants of
  the window and of the policy; and what every history of admissions satisfies.
\<close>

section \<open>A guard of rising stamps\<close>

text \<open>The events of a run, in order.\<close>

primrec event_log :: "('s \<Rightarrow> 'c \<Rightarrow> 's \<times> 'e option) \<Rightarrow> 's \<Rightarrow> 'c list \<Rightarrow> 'e list" where
  "event_log step s [] = []"
| "event_log step s (c # cs) =
     (case step s c of
        (s', Some e) \<Rightarrow> e # event_log step s' cs
      | (s', None) \<Rightarrow> event_log step s' cs)"

locale rising_guard =
  fixes step :: "'s \<Rightarrow> 'c \<Rightarrow> 's \<times> 'e option"
    and key :: "'e \<Rightarrow> 'k"
    and stamp :: "'e \<Rightarrow> 'n::order"
    and mark :: "'s \<Rightarrow> 'k \<Rightarrow> 'n"
  assumes accepted: "step s c = (s', Some e) \<Longrightarrow> mark s (key e) < stamp e \<and> mark s' = (mark s)(key e := stamp e)"
    and refused: "step s c = (s', None) \<Longrightarrow> mark s' = mark s"
begin

lemma log_rises:
  "sorted_wrt (<) (mark s k # map stamp (filter (\<lambda>e. key e = k) (event_log step s cs)))"
proof (induction cs arbitrary: s)
  case (Cons c cs)
  obtain s' ev where st: "step s c = (s', ev)" by (cases "step s c")
  show ?case
  proof (cases ev)
    case None
    then show ?thesis using Cons.IH [of s'] refused [of s c s'] st by simp
  next
    case (Some e)
    then have m: "mark s (key e) < stamp e" "mark s' = (mark s)(key e := stamp e)" using accepted st by blast+
    show ?thesis
    proof (cases "key e = k")
      case True
      have "sorted_wrt (<) (stamp e # map stamp (filter (\<lambda>e. key e = k) (event_log step s' cs)))"
        using Cons.IH [of s'] m(2) True by simp
      then show ?thesis using Some st m(1) True by (auto intro: less_trans)
    next
      case False
      then show ?thesis using Cons.IH [of s'] Some st m(2) by simp
    qed
  qed
qed simp

lemma log_above: "e \<in> set (event_log step s cs) \<Longrightarrow> mark s (key e) < stamp e"
  using log_rises [of s "key e" cs] by auto

end

section \<open>The window\<close>

lemma find_slot:
  "replay_find w p = Some i \<longleftrightarrow>
     i < length (rw_slots w) \<and> (\<exists>s. rw_slots w ! i = Some s \<and> sl_principal s = p)
     \<and> (\<forall>j < i. \<not> slot_holds p (rw_slots w ! j))"
  by (auto simp: replay_find_def find_idx_Some_iff slot_holds_def split: option.splits)

lemma find_no_slot:
  "replay_find w p = None \<longleftrightarrow> (\<forall>i < length (rw_slots w). \<not> slot_holds p (rw_slots w ! i))"
  by (simp add: replay_find_def find_idx_None_iff all_set_conv_all_nth)

lemma slot_holds_simps [simp]: "slot_holds p (Some s) \<longleftrightarrow> sl_principal s = p" "\<not> slot_holds p None"
  by (simp_all add: slot_holds_def)

text \<open>Two windows in which the same slots hold a principal agree on where it is found.\<close>

lemma find_idx_cong:
  "length xs = length ys \<Longrightarrow> (\<And>i. i < length xs \<Longrightarrow> P (xs ! i) = Q (ys ! i)) \<Longrightarrow> find_idx P xs = find_idx Q ys"
proof (induction xs ys rule: list_induct2)
  case (Cons x xs y ys)
  from Cons.prems [of 0] have "P x = Q y" by simp
  moreover have "find_idx P xs = find_idx Q ys" using Cons.prems [of "Suc i" for i] by (intro Cons.IH) auto
  ultimately show ?case by simp
qed simp

lemma last_counter_update:
  assumes "i < length (rw_slots w)" "sl_principal s = p"
    and "replay_find w p = Some i \<or> replay_find w p = None \<and> rw_slots w ! i = None"
  shows "last_counter (w\<lparr>rw_slots := (rw_slots w)[i := Some s], rw_high_water := h\<rparr>) = (last_counter w)(p := sl_last_counter s)"
proof
  fix q
  let ?w = "w\<lparr>rw_slots := (rw_slots w)[i := Some s], rw_high_water := h\<rparr>"
  show "last_counter ?w q = ((last_counter w)(p := sl_last_counter s)) q"
  proof (cases "q = p")
    case True
    have "replay_find ?w p = Some i"
      using assms by (auto simp: find_slot find_no_slot nth_list_update)
    then show ?thesis using assms(1) True by (simp add: last_counter_def slot_at_def)
  next
    case False
    have "\<not> slot_holds q (rw_slots w ! i)" using assms(3) False by (auto simp: find_slot)
    then have "slot_holds q ((rw_slots w)[i := Some s] ! k) = slot_holds q (rw_slots w ! k)" for k
      using False assms(1,2) by (cases "k = i") auto
    then have "replay_find ?w q = replay_find w q"
      unfolding replay_find_def by (intro find_idx_cong) simp_all
    moreover have "replay_find w q = Some j \<Longrightarrow> j \<noteq> i" for j
      using \<open>\<not> slot_holds q (rw_slots w ! i)\<close> by (auto simp: find_slot)
    ultimately show ?thesis using False
      by (auto simp: last_counter_def slot_at_def nth_list_update split: option.splits)
  qed
qed

text \<open>What a commit does, on each branch.\<close>

lemma commit_counter_cases:
  obtains (refused) e where "commit_counter p n w = (w, Err e)"
  | (advanced) i s where "commit_counter p n w = (w\<lparr>rw_slots := (rw_slots w)[i := Some (s\<lparr>sl_last_counter := n\<rparr>)],
        rw_high_water := max (rw_high_water w) n\<rparr>, Ok ())"
      "i < length (rw_slots w)" "rw_slots w ! i = Some s" "sl_principal s = p" "replay_find w p = Some i"
      "sl_last_counter s < n"
  | (fresh) i where "commit_counter p n w = (w\<lparr>rw_slots := (rw_slots w)[i := Some \<lparr>sl_principal = p, sl_last_counter = n\<rparr>],
        rw_high_water := max (rw_high_water w) n\<rparr>, Ok ())"
      "i < length (rw_slots w)" "rw_slots w ! i = None" "replay_find w p = None" "n \<noteq> 0"
      "sat_sub (rw_freshness_floor w) (rw_new_stream_max_age w) \<le> n"
proof (cases "replay_find w p")
  case None
  show thesis
  proof (cases "n = 0 \<or> n < sat_sub (rw_freshness_floor w) (rw_new_stream_max_age w) \<or> find_idx (\<lambda>s. s = None) (rw_slots w) = None")
    case True
    then have "\<exists>e. commit_counter p n w = (w, Err e)" using None by (auto simp: commit_counter_def)
    then show thesis using refused by blast
  next
    case False
    then obtain i where i: "find_idx (\<lambda>s. s = None) (rw_slots w) = Some i" by auto
    then have "commit_counter p n w = (w\<lparr>rw_slots := (rw_slots w)[i := Some \<lparr>sl_principal = p, sl_last_counter = n\<rparr>],
        rw_high_water := max (rw_high_water w) n\<rparr>, Ok ())"
      using False None by (simp add: commit_counter_def)
    then show thesis using fresh False None find_idx_SomeD [OF i] by (simp add: not_less)
  qed
next
  case (Some i)
  then obtain s where s: "i < length (rw_slots w)" "rw_slots w ! i = Some s" "sl_principal s = p" by (auto simp: find_slot)
  show thesis
  proof (cases "n \<le> sl_last_counter s")
    case True
    then show thesis using Some s refused by (simp add: commit_counter_def slot_at_def)
  next
    case False
    then show thesis using Some s advanced [of i s] by (simp add: commit_counter_def slot_at_def)
  qed
qed

lemma last_counter_found: "replay_find w p = Some i \<Longrightarrow> rw_slots w ! i = Some s \<Longrightarrow> last_counter w p = sl_last_counter s"
  using find_slot [of w p i] by (simp add: last_counter_def slot_at_def)

lemma last_counter_unseen: "replay_find w p = None \<Longrightarrow> last_counter w p = 0"
  by (simp add: last_counter_def)

lemma commit_counter_marks:
  "commit_counter p n w = (w', Ok u) \<Longrightarrow> last_counter w p < n \<and> last_counter w' = (last_counter w)(p := n)"
  "commit_counter p n w = (w', Err e) \<Longrightarrow> w' = w"
proof -
  assume "commit_counter p n w = (w', Ok u)"
  then show "last_counter w p < n \<and> last_counter w' = (last_counter w)(p := n)"
    by (cases rule: commit_counter_cases [of p n w])
      (auto simp: last_counter_found last_counter_unseen last_counter_update word_neq_0_conv)
next
  assume "commit_counter p n w = (w', Err e)"
  then show "w' = w" by (cases rule: commit_counter_cases [of p n w]) auto
qed

lemma check_and_update_ok:
  "check_and_update p n c w = (w', Ok u) \<longleftrightarrow> (\<forall>b. c = Some b \<longrightarrow> n \<le> b) \<and> commit_counter p n w = (w', Ok u)"
  by (auto simp: check_and_update_def not_less split: option.splits)

lemma check_and_update_err: "check_and_update p n c w = (w', Err e) \<Longrightarrow> w' = w"
  by (auto simp: check_and_update_def split: option.splits if_splits dest: commit_counter_marks(2))

text \<open>The window as a guard: its calls are a principal, a counter and a ceiling.\<close>

definition window_step ::
  "replay_window \<Rightarrow> principal \<times> u64 \<times> u64 option \<Rightarrow> replay_window \<times> (principal \<times> u64) option" where
  "window_step w c =
     (case c of (p, n, ceiling) \<Rightarrow>
        case check_and_update p n ceiling w of
          (w', Ok _) \<Rightarrow> (w', Some (p, n))
        | (w', Err _) \<Rightarrow> (w', None))"

interpretation window: rising_guard window_step fst snd last_counter
  by unfold_locales
    (auto simp: window_step_def check_and_update_ok split: prod.splits sum.splits
      dest: commit_counter_marks(1) check_and_update_err)


section \<open>The gateway\<close>

datatype gateway_call =
  Admit authenticated_command u64
| BeginEpoch

fun gateway_step :: "gateway \<Rightarrow> gateway_call \<Rightarrow> gateway \<times> (authenticated_command \<times> verified_command) option" where
  "gateway_step g (Admit c now) =
     (case admit c now g of
        (g', Ok v) \<Rightarrow> (g', Some (c, v))
      | (g', Err _) \<Rightarrow> (g', None))"
| "gateway_step g BeginEpoch = (begin_authority_epoch g, None)"

text \<open>The history of a gateway: every admitted claim with the verified command minted for it.\<close>

definition admissions :: "gateway \<Rightarrow> gateway_call list \<Rightarrow> (authenticated_command \<times> verified_command) list" where
  "admissions g calls = event_log gateway_step g calls"

lemma plausible_ceiling_frame:
  "plausible_ceiling now g = (g', c) \<Longrightarrow>
     gw_source_policy g' = gw_source_policy g \<and> gw_anti_replay g' = gw_anti_replay g
     \<and> gw_authority_epoch g' = gw_authority_epoch g \<and> gw_freshness g' = gw_freshness g"
  by (auto simp: plausible_ceiling_def Let_def split: if_splits)

lemma admit_ok:
  assumes "admit c now g = (g', Ok v)"
  obtains source g1 ceiling w where "policy_resolve (gw_source_policy g) (ac_principal c) = Some source"
    "plausible_ceiling now g = (g1, ceiling)" "\<forall>b. ceiling = Some b \<longrightarrow> ac_counter c \<le> b"
    "commit_counter (ac_principal c) (ac_counter c) (gw_anti_replay g) = (w, Ok ())" "g' = g1\<lparr>gw_anti_replay := w\<rparr>"
    "v = \<lparr>vc_command = ac_command c, vc_receipt = \<lparr>vr_source = source, vr_authority_epoch = gw_authority_epoch g,
        vr_sequence = ac_counter c, vr_received_at_us = now, vr_expires_at_us = None\<rparr>\<rparr>"
  using assms
  by (auto simp: admit_def Let_def check_and_update_ok split: option.splits prod.splits sum.splits
      dest!: plausible_ceiling_frame)

lemma admit_err:
  assumes "admit c now g = (g', Err e)"
  shows "gw_anti_replay g' = gw_anti_replay g \<and> gw_source_policy g' = gw_source_policy g
    \<and> gw_freshness g' = gw_freshness g \<and> gw_authority_epoch g' = gw_authority_epoch g
    \<and> gw_epoch_now_us g' = (if policy_resolve (gw_source_policy g) (ac_principal c) = None then gw_epoch_now_us g
         else gw_epoch_now_us (fst (plausible_ceiling now g)))"
  using assms
  by (auto simp: admit_def Let_def split: option.splits prod.splits sum.splits
      dest!: check_and_update_err plausible_ceiling_frame)

lemma gateway_step_event:
  "gateway_step g call = (g', Some (c, v)) \<longleftrightarrow> (\<exists>now. call = Admit c now \<and> admit c now g = (g', Ok v))"
  by (cases call) (auto split: prod.splits sum.splits)

lemma gateway_step_silent:
  "gateway_step g call = (g', None) \<longleftrightarrow>
     (\<exists>c now e. call = Admit c now \<and> admit c now g = (g', Err e)) \<or> call = BeginEpoch \<and> g' = begin_authority_epoch g"
  by (cases call) (auto split: prod.splits sum.splits)

interpretation gate: rising_guard gateway_step "ac_principal \<circ> fst" "ac_counter \<circ> fst" "last_counter \<circ> gw_anti_replay"
proof
  fix g call g' e
  assume "gateway_step g call = (g', Some e)"
  then obtain c now v where e: "e = (c, v)" "admit c now g = (g', Ok v)"
    using gateway_step_event [of g call g' "fst e" "snd e"] by (cases e) auto
  then show "(last_counter \<circ> gw_anti_replay) g ((ac_principal \<circ> fst) e) < (ac_counter \<circ> fst) e
    \<and> (last_counter \<circ> gw_anti_replay) g' = ((last_counter \<circ> gw_anti_replay) g)((ac_principal \<circ> fst) e := (ac_counter \<circ> fst) e)"
    by (auto elim!: admit_ok dest!: commit_counter_marks(1) plausible_ceiling_frame)
next
  fix g call g'
  assume "gateway_step g call = (g', None)"
  then show "(last_counter \<circ> gw_anti_replay) g' = (last_counter \<circ> gw_anti_replay) g"
    by (auto simp: gateway_step_silent begin_authority_epoch_def dest!: admit_err)
qed

end
