(* ===== verification/MavlinkFrames.thy ===== *)
theory MavlinkFrames
  imports MavlinkCodec
begin

text \<open>
  What the codec guarantees: the contract of a message codec and the round trip it gives, its
  interpretation by each of the eighteen messages, framing, and what the parser rejects.
\<close>

section \<open>A written frame parses back\<close>

lemma frame_roundtrip:
  fixes P :: "byte list"
  assumes P: "length P = L" "0 < L" "L \<le> 255" and i: "declared_payload_len i = Some L" "i < 2 ^ 24"
    and room: "12 + L \<le> length buf" and msg: "parse_message_payload i P = Ok msg"
    and w: "write_crc (put buf 0 (header_bytes (of_nat L) seq sys_id comp_id i @ P)) (10 + L) (get_crc_extra i) = (buf', n)"
  shows "\<exists>k. 0 < k \<and> k \<le> L \<and> n = 12 + k \<and> length buf' = length buf
    \<and> parse_mavlink_frame buf' = Ok \<lparr>pf_message = msg, pf_signature = None,
        pf_header = \<lparr>mh_payload_len = of_nat k, mh_incompat_flags = 0, mh_compat_flags = 0, mh_seq = seq,
          mh_sysid = sys_id, mh_compid = comp_id, mh_msgid = i\<rparr>, pf_consumed = n\<rparr>
    \<and> drop (12 + L) buf' = drop (12 + L) buf"
proof -
  let ?B = "put buf 0 (header_bytes (of_nat L) seq sys_id comp_id i @ P)"
  define k where "k = trim_payload ?B (10 + L) - 10"
  have lB: "length ?B = length buf" using room P by (intro put_length) simp
  have pB: "take L (drop 10 ?B) = P" using room P by (simp add: put_def)
  note t = trim_payload_spec [of "10 + L" ?B, unfolded MavHeader_SIZE_def]
  have k: "trim_payload ?B (10 + L) = 10 + k" "0 < k" "k \<le> L" using t P by (auto simp: k_def)
  have zeros: "P ! j = 0" if "k \<le> j" "j < L" for j
  proof -
    have "?B ! (10 + j) = 0" using t k that P by auto
    moreover have "?B ! (10 + j) = P ! j" using room P that by (simp add: put_def nth_append)
    ultimately show ?thesis by simp
  qed
  define b1 where "b1 = ?B[1 := of_nat k]"
  define crc where "crc = compute_crc (drop 1 (take (10 + k) b1)) (get_crc_extra i)"
  have w': "buf' = b1[10 + k := ucast crc, 10 + k + 1 := ucast (drop_bit 8 crc)]" "n = 12 + k"
    using w by (auto simp: write_crc_def Let_def k low_byte b1_def crc_def MavHeader_SIZE_def)
  have l: "length buf' = length buf" by (simp add: w'(1) b1_def lB)
  have hdr: "buf' ! 0 = MAVLINK_STX_V2" "buf' ! 1 = of_nat k" "buf' ! 2 = 0" "buf' ! 3 = 0" "buf' ! 4 = seq"
    "buf' ! 5 = sys_id" "buf' ! 6 = comp_id" "buf' ! 7 = ucast i" "buf' ! 8 = ucast (drop_bit 8 i)"
    "buf' ! 9 = ucast (drop_bit 16 i)"
    using room P k by (simp_all add: w'(1) b1_def lB) (simp_all add: put_def header_bytes_def low_byte nth_append)
  have len: "unat (buf' ! 1) = k" unfolding hdr using k P by (simp add: unat_of_nat take_bit_nat_eq_self)
  have slice: "take (10 + k) buf' = take (10 + k) b1" by (simp add: w'(1))
  have "take (10 + k) b1 = (take (10 + k) ?B)[1 := of_nat k]" by (simp add: b1_def take_update_swap)
  then have pay: "take k (drop 10 buf') = take k P"
  proof -
    have "take k (drop 10 buf') = drop 10 (take (10 + k) buf')" by (simp add: drop_take)
    also have "\<dots> = drop 10 (take (10 + k) ?B)" by (simp add: slice b1_def take_update_swap)
    also have "\<dots> = take k (take L (drop 10 ?B))" using k by (simp add: drop_take min_def)
    finally show ?thesis by (simp add: pB)
  qed
  have crc_read: "ucast (buf' ! (10 + k)) OR push_bit 8 (ucast (buf' ! (10 + k + 1))) = crc"
    using room k by (simp add: w'(1) b1_def lB crc_bytes)
  have crc_slice: "compute_crc (drop 1 (take (10 + k) buf')) (get_crc_extra i) = crc" by (simp add: slice crc_def)
  have full: "full_payload (take k P) L = P"
    using zero_extended [of k P] k zeros P by (simp add: MAX_PAYLOAD_LEN_def)
  have ne: "P \<noteq> []" using assms(2) P by auto
  have h: "frame_header buf' = \<lparr>mh_payload_len = of_nat k, mh_incompat_flags = 0, mh_compat_flags = 0, mh_seq = seq,
      mh_sysid = sys_id, mh_compid = comp_id, mh_msgid = i\<rparr>"
    using msgid_bytes [OF i(2)] by (simp add: frame_header_def hdr del: One_nat_def)
  have "parse_mavlink_frame buf' = Ok \<lparr>pf_message = msg, pf_signature = None, pf_header = frame_header buf', pf_consumed = n\<rparr>"
    using room k P hdr(1) l
    by (simp add: parse_mavlink_frame_def Let_def len h MavHeader_SIZE_def MAX_PAYLOAD_LEN_def crc_slice pay full ne i
        msg w'(2) crc_read [simplified] del: One_nat_def)
  moreover have "drop (12 + L) buf' = drop (12 + L) buf"
    using k room P by (simp add: w'(1) b1_def drop_update_cancel) (simp add: put_def)
  ultimately show ?thesis using k w'(2) l h by (intro exI [of _ k]) simp
qed

text \<open>The buffer \<open>buf'\<close> holds a frame of \<open>n\<close> bytes that parses to the message, and is \<open>buf\<close> behind it.\<close>

definition frame_written ::
  "mav_message \<Rightarrow> byte \<Rightarrow> byte \<Rightarrow> byte \<Rightarrow> byte list \<Rightarrow> byte list \<Rightarrow> nat \<Rightarrow> bool" where
  "frame_written m seq sys_id comp_id buf buf' n \<longleftrightarrow>
     length buf' = length buf \<and> n \<le> length buf
     \<and> (\<exists>f. parse_mavlink_frame buf' = Ok f \<and> pf_message f = m \<and> pf_consumed f = n \<and> pf_signature f = None
         \<and> mh_seq (pf_header f) = seq \<and> mh_sysid (pf_header f) = sys_id \<and> mh_compid (pf_header f) = comp_id
         \<and> mh_msgid (pf_header f) = msg_id m)
     \<and> (\<exists>L. declared_payload_len (msg_id m) = Some L \<and> drop (12 + L) buf' = drop (12 + L) buf)"

locale message_codec =
  fixes Ctor :: "'m \<Rightarrow> mav_message" and i :: u32 and L :: nat and wf :: "'m \<Rightarrow> bool"
    and wire :: "'m \<Rightarrow> byte list"
    and ser :: "'m \<Rightarrow> byte \<Rightarrow> byte \<Rightarrow> byte \<Rightarrow> byte list \<Rightarrow> (byte list \<times> nat) option"
  assumes declared: "declared_payload_len i = Some L"
    and len_range: "0 < L" "L \<le> 255"
    and id_range: "i < 2 ^ 24"
    and identity: "msg_id (Ctor m) = i"
    and wire_length: "wf m \<Longrightarrow> length (wire m) = L"
    and decoded: "wf m \<Longrightarrow> parse_message_payload i (wire m) = Ok (Ctor m)"
    and serialized: "wf m \<Longrightarrow> ser m seq sys_id comp_id buf =
      (if length buf < 12 + L then None
       else Some (write_crc (put buf 0 (header_bytes (of_nat L) seq sys_id comp_id i @ wire m)) (10 + L) (get_crc_extra i)))"
begin

lemma roundtrip:
  assumes "wf m" "ser m seq sys_id comp_id buf = Some (buf', n)"
  shows "frame_written (Ctor m) seq sys_id comp_id buf buf' n"
proof -
  have room: "12 + L \<le> length buf"
    and w: "write_crc (put buf 0 (header_bytes (of_nat L) seq sys_id comp_id i @ wire m)) (10 + L) (get_crc_extra i) = (buf', n)"
    using assms(2) serialized [OF assms(1), of seq sys_id comp_id buf] by (simp_all split: if_splits)
  show ?thesis
    using frame_roundtrip [OF wire_length [OF assms(1)] len_range declared id_range room decoded [OF assms(1)] w]
      declared room by (auto simp: frame_written_def identity)
qed

lemma refused: "wf m \<Longrightarrow> ser m seq sys_id comp_id buf = None \<longleftrightarrow> length buf < 12 + L"
  by (simp add: serialized)

end

section \<open>The messages\<close>

text \<open>The wire image of each message: its fields in wire order.\<close>

definition wire_heartbeat :: "mav_heartbeat \<Rightarrow> byte list" where
  "wire_heartbeat m =
    le_bytes (hb_custom_mode m) @ [hb_mav_type m] @ [hb_autopilot m] @ [hb_base_mode m]
      @ [hb_system_status m] @ [hb_mavlink_version m]"

definition wire_system_time :: "mav_system_time \<Rightarrow> byte list" where
  "wire_system_time m =
    le_bytes (sy_time_unix_usec m) @ le_bytes (sy_time_boot_ms m)"

definition wire_attitude_quaternion :: "mav_attitude_quaternion \<Rightarrow> byte list" where
  "wire_attitude_quaternion m =
    le_bytes (aq_time_boot_ms m) @ le_bytes (aq_q1 m) @ le_bytes (aq_q2 m) @ le_bytes (aq_q3 m)
      @ le_bytes (aq_q4 m) @ le_bytes (aq_rollspeed m) @ le_bytes (aq_pitchspeed m)
      @ le_bytes (aq_yawspeed m) @ le_bytes (q4_0 (aq_repr_offset_q m))
      @ le_bytes (q4_1 (aq_repr_offset_q m)) @ le_bytes (q4_2 (aq_repr_offset_q m))
      @ le_bytes (q4_3 (aq_repr_offset_q m))"

definition wire_local_position_ned :: "mav_local_position_ned \<Rightarrow> byte list" where
  "wire_local_position_ned m =
    le_bytes (lp_time_boot_ms m) @ le_bytes (lp_x m) @ le_bytes (lp_y m) @ le_bytes (lp_z m)
      @ le_bytes (lp_vx m) @ le_bytes (lp_vy m) @ le_bytes (lp_vz m)"

definition wire_global_position_int :: "mav_global_position_int \<Rightarrow> byte list" where
  "wire_global_position_int m =
    le_bytes (gp_time_boot_ms m) @ le_bytes (gp_lat m) @ le_bytes (gp_lon m) @ le_bytes (gp_alt m)
      @ le_bytes (gp_relative_alt m) @ le_bytes (gp_vx m) @ le_bytes (gp_vy m) @ le_bytes (gp_vz m)
      @ le_bytes (gp_hdg m)"

definition wire_gps_raw_int :: "mav_gps_raw_int \<Rightarrow> byte list" where
  "wire_gps_raw_int m =
    le_bytes (gr_time_usec m) @ le_bytes (gr_lat m) @ le_bytes (gr_lon m) @ le_bytes (gr_alt m)
      @ le_bytes (gr_eph m) @ le_bytes (gr_epv m) @ le_bytes (gr_vel m) @ le_bytes (gr_cog m)
      @ [gr_fix_type m] @ [gr_satellites_visible m] @ le_bytes (gr_alt_ellipsoid m)
      @ le_bytes (gr_h_acc m) @ le_bytes (gr_v_acc m) @ le_bytes (gr_vel_acc m)
      @ le_bytes (gr_hdg_acc m) @ le_bytes (gr_yaw m)"

definition wire_scaled_pressure :: "mav_scaled_pressure \<Rightarrow> byte list" where
  "wire_scaled_pressure m =
    le_bytes (sc_time_boot_ms m) @ le_bytes (sc_press_abs m) @ le_bytes (sc_press_diff m)
      @ le_bytes (sc_temperature m)"

definition wire_estimator_status :: "mav_estimator_status \<Rightarrow> byte list" where
  "wire_estimator_status m =
    le_bytes (eo_time_usec m) @ le_bytes (eo_vel_ratio m) @ le_bytes (eo_pos_horiz_ratio m)
      @ le_bytes (eo_pos_vert_ratio m) @ le_bytes (eo_mag_ratio m) @ le_bytes (eo_hagl_ratio m)
      @ le_bytes (eo_tas_ratio m) @ le_bytes (eo_pos_horiz_accuracy m)
      @ le_bytes (eo_pos_vert_accuracy m) @ le_bytes (eo_flags m)"

definition wire_aviate_estimator_status :: "mav_aviate_estimator_status \<Rightarrow> byte list" where
  "wire_aviate_estimator_status m =
    le_bytes (ae_time_usec m) @ [ae_valid_flags m] @ [ae_quality m]"

definition wire_aviate_geomagnetic_reference :: "mav_aviate_geomagnetic_reference \<Rightarrow> byte list" where
  "wire_aviate_geomagnetic_reference m =
    le_bytes (ag_time_usec m) @ le_bytes (ag_declination m) @ [ag_source m]"

definition wire_set_attitude_target :: "mav_set_attitude_target \<Rightarrow> byte list" where
  "wire_set_attitude_target m =
    le_bytes (sa_time_boot_ms m) @ le_bytes (q4_0 (sa_q m)) @ le_bytes (q4_1 (sa_q m))
      @ le_bytes (q4_2 (sa_q m)) @ le_bytes (q4_3 (sa_q m)) @ le_bytes (sa_body_roll_rate m)
      @ le_bytes (sa_body_pitch_rate m) @ le_bytes (sa_body_yaw_rate m) @ le_bytes (sa_thrust m)
      @ [sa_target_system m] @ [sa_target_component m] @ [sa_type_mask m]
      @ le_bytes (ix0 (sa_thrust_body m)) @ le_bytes (ix1 (sa_thrust_body m))
      @ le_bytes (ix2 (sa_thrust_body m))"

definition wire_set_position_target_local_ned :: "mav_set_position_target_local_ned \<Rightarrow> byte list" where
  "wire_set_position_target_local_ned m =
    le_bytes (tp_time_boot_ms m) @ le_bytes (tp_x m) @ le_bytes (tp_y m) @ le_bytes (tp_z m)
      @ le_bytes (tp_vx m) @ le_bytes (tp_vy m) @ le_bytes (tp_vz m) @ le_bytes (tp_afx m)
      @ le_bytes (tp_afy m) @ le_bytes (tp_afz m) @ le_bytes (tp_yaw m) @ le_bytes (tp_yaw_rate m)
      @ le_bytes (tp_type_mask m) @ [tp_target_system m] @ [tp_target_component m]
      @ [tp_coordinate_frame m]"

definition wire_command_long :: "mav_command_long \<Rightarrow> byte list" where
  "wire_command_long m =
    le_bytes (cl_param1 m) @ le_bytes (cl_param2 m) @ le_bytes (cl_param3 m)
      @ le_bytes (cl_param4 m) @ le_bytes (cl_param5 m) @ le_bytes (cl_param6 m)
      @ le_bytes (cl_param7 m) @ le_bytes (cl_command m) @ [cl_target_system m]
      @ [cl_target_component m] @ [cl_confirmation m]"

definition wire_command_ack :: "mav_command_ack \<Rightarrow> byte list" where
  "wire_command_ack m =
    le_bytes (ca_command m) @ [ca_result m] @ [ca_progress m] @ le_bytes (ca_result_param2 m)
      @ [ca_target_system m] @ [ca_target_component m]"

definition wire_rc_channels_override :: "mav_rc_channels_override \<Rightarrow> byte list" where
  "wire_rc_channels_override m =
    le_bytes (rc_chan1_raw m) @ le_bytes (rc_chan2_raw m) @ le_bytes (rc_chan3_raw m)
      @ le_bytes (rc_chan4_raw m) @ le_bytes (rc_chan5_raw m) @ le_bytes (rc_chan6_raw m)
      @ le_bytes (rc_chan7_raw m) @ le_bytes (rc_chan8_raw m) @ [rc_target_system m]
      @ [rc_target_component m] @ le_bytes (rc_chan9_raw m) @ le_bytes (rc_chan10_raw m)
      @ le_bytes (rc_chan11_raw m) @ le_bytes (rc_chan12_raw m) @ le_bytes (rc_chan13_raw m)
      @ le_bytes (rc_chan14_raw m) @ le_bytes (rc_chan15_raw m) @ le_bytes (rc_chan16_raw m)
      @ le_bytes (rc_chan17_raw m) @ le_bytes (rc_chan18_raw m)"

definition wire_manual_control :: "mav_manual_control \<Rightarrow> byte list" where
  "wire_manual_control m =
    le_bytes (mn_x m) @ le_bytes (mn_y m) @ le_bytes (mn_z m) @ le_bytes (mn_r m)
      @ le_bytes (mn_buttons m) @ [mn_target m] @ le_bytes (mn_buttons2 m)
      @ [mn_enabled_extensions m] @ le_bytes (mn_s m) @ le_bytes (mn_t m) @ le_bytes (mn_aux1 m)
      @ le_bytes (mn_aux2 m) @ le_bytes (mn_aux3 m) @ le_bytes (mn_aux4 m) @ le_bytes (mn_aux5 m)
      @ le_bytes (mn_aux6 m)"

definition wire_sys_status :: "mav_sys_status \<Rightarrow> byte list" where
  "wire_sys_status m =
    le_bytes (ss_onboard_control_sensors_present m)
      @ le_bytes (ss_onboard_control_sensors_enabled m)
      @ le_bytes (ss_onboard_control_sensors_health m) @ le_bytes (ss_load m)
      @ le_bytes (ss_voltage_battery m) @ le_bytes (ss_current_battery m)
      @ le_bytes (ss_drop_rate_comm m) @ le_bytes (ss_errors_comm m) @ le_bytes (ss_errors_count1 m)
      @ le_bytes (ss_errors_count2 m) @ le_bytes (ss_errors_count3 m)
      @ le_bytes (ss_errors_count4 m) @ [ss_battery_remaining m]
      @ le_bytes (ss_onboard_control_sensors_present_extended m)
      @ le_bytes (ss_onboard_control_sensors_enabled_extended m)
      @ le_bytes (ss_onboard_control_sensors_health_extended m)"

definition wire_statustext :: "mav_statustext \<Rightarrow> byte list" where
  "wire_statustext m =
    [tx_severity m] @ take 50 (tx_text m) @ le_bytes (tx_id m) @ [tx_chunk_seq m]"

lemmas msg_ids = heartbeat_MSG_ID_def system_time_MSG_ID_def attitude_quaternion_MSG_ID_def local_position_ned_MSG_ID_def global_position_int_MSG_ID_def gps_raw_int_MSG_ID_def scaled_pressure_MSG_ID_def estimator_status_MSG_ID_def aviate_estimator_status_MSG_ID_def aviate_geomagnetic_reference_MSG_ID_def set_attitude_target_MSG_ID_def set_position_target_local_ned_MSG_ID_def command_long_MSG_ID_def command_ack_MSG_ID_def rc_channels_override_MSG_ID_def manual_control_MSG_ID_def sys_status_MSG_ID_def statustext_MSG_ID_def

lemmas payload_lens = heartbeat_PAYLOAD_LEN_def system_time_PAYLOAD_LEN_def attitude_quaternion_PAYLOAD_LEN_def local_position_ned_PAYLOAD_LEN_def global_position_int_PAYLOAD_LEN_def gps_raw_int_PAYLOAD_LEN_def scaled_pressure_PAYLOAD_LEN_def estimator_status_PAYLOAD_LEN_def aviate_estimator_status_PAYLOAD_LEN_def aviate_geomagnetic_reference_PAYLOAD_LEN_def set_attitude_target_PAYLOAD_LEN_def set_position_target_local_ned_PAYLOAD_LEN_def command_long_PAYLOAD_LEN_def command_ack_PAYLOAD_LEN_def rc_channels_override_PAYLOAD_LEN_def manual_control_PAYLOAD_LEN_def sys_status_PAYLOAD_LEN_def statustext_PAYLOAD_LEN_def

lemmas wire_read = read_words slice_simps nth_blocks

lemmas wire_write = write_header_put put_put put_update write_put low_byte get_crc_extra_def

interpretation heartbeat: message_codec Heartbeat heartbeat_MSG_ID heartbeat_PAYLOAD_LEN "\<lambda>_. True" wire_heartbeat serialize_heartbeat
proof
  show "declared_payload_len heartbeat_MSG_ID = Some heartbeat_PAYLOAD_LEN" by (simp add: declared_payload_len_def msg_ids)
  show "0 < heartbeat_PAYLOAD_LEN" "heartbeat_PAYLOAD_LEN \<le> 255" by (simp_all add: heartbeat_PAYLOAD_LEN_def)
  show "heartbeat_MSG_ID < 2 ^ 24" by (simp add: heartbeat_MSG_ID_def)
  show "msg_id (Heartbeat m) = heartbeat_MSG_ID" for m by simp
  fix m :: mav_heartbeat and seq sys_id comp_id :: byte and buf :: "byte list"
  assume wf: "(\<lambda>_. True) m"
  show "length (wire_heartbeat m) = heartbeat_PAYLOAD_LEN" using wf by (simp add: wire_heartbeat_def heartbeat_PAYLOAD_LEN_def)
  show "parse_message_payload heartbeat_MSG_ID (wire_heartbeat m) = Ok (Heartbeat m)"
    using wf by (cases m) (simp add: parse_message_payload_def msg_ids parse_heartbeat_def wire_heartbeat_def payload_lens wire_read)
  show "serialize_heartbeat m seq sys_id comp_id buf =
      (if length buf < 12 + heartbeat_PAYLOAD_LEN then None
       else Some (write_crc (put buf 0 (header_bytes (of_nat heartbeat_PAYLOAD_LEN) seq sys_id comp_id heartbeat_MSG_ID @ wire_heartbeat m))
         (10 + heartbeat_PAYLOAD_LEN) (get_crc_extra heartbeat_MSG_ID)))"
    using wf unfolding serialize_heartbeat_def wire_heartbeat_def Let_def MavHeader_SIZE_def
    by (simp add: heartbeat_PAYLOAD_LEN_def wire_write msg_ids write_text_put)
qed

interpretation system_time: message_codec SystemTime system_time_MSG_ID system_time_PAYLOAD_LEN "\<lambda>_. True" wire_system_time serialize_system_time
proof
  show "declared_payload_len system_time_MSG_ID = Some system_time_PAYLOAD_LEN" by (simp add: declared_payload_len_def msg_ids)
  show "0 < system_time_PAYLOAD_LEN" "system_time_PAYLOAD_LEN \<le> 255" by (simp_all add: system_time_PAYLOAD_LEN_def)
  show "system_time_MSG_ID < 2 ^ 24" by (simp add: system_time_MSG_ID_def)
  show "msg_id (SystemTime m) = system_time_MSG_ID" for m by simp
  fix m :: mav_system_time and seq sys_id comp_id :: byte and buf :: "byte list"
  assume wf: "(\<lambda>_. True) m"
  show "length (wire_system_time m) = system_time_PAYLOAD_LEN" using wf by (simp add: wire_system_time_def system_time_PAYLOAD_LEN_def)
  show "parse_message_payload system_time_MSG_ID (wire_system_time m) = Ok (SystemTime m)"
    using wf by (cases m) (simp add: parse_message_payload_def msg_ids parse_system_time_def wire_system_time_def payload_lens wire_read)
  show "serialize_system_time m seq sys_id comp_id buf =
      (if length buf < 12 + system_time_PAYLOAD_LEN then None
       else Some (write_crc (put buf 0 (header_bytes (of_nat system_time_PAYLOAD_LEN) seq sys_id comp_id system_time_MSG_ID @ wire_system_time m))
         (10 + system_time_PAYLOAD_LEN) (get_crc_extra system_time_MSG_ID)))"
    using wf unfolding serialize_system_time_def wire_system_time_def Let_def MavHeader_SIZE_def
    by (simp add: system_time_PAYLOAD_LEN_def wire_write msg_ids write_text_put)
qed

interpretation attitude_quaternion: message_codec AttitudeQuaternion attitude_quaternion_MSG_ID attitude_quaternion_PAYLOAD_LEN "\<lambda>_. True" wire_attitude_quaternion serialize_attitude_quaternion
proof
  show "declared_payload_len attitude_quaternion_MSG_ID = Some attitude_quaternion_PAYLOAD_LEN" by (simp add: declared_payload_len_def msg_ids)
  show "0 < attitude_quaternion_PAYLOAD_LEN" "attitude_quaternion_PAYLOAD_LEN \<le> 255" by (simp_all add: attitude_quaternion_PAYLOAD_LEN_def)
  show "attitude_quaternion_MSG_ID < 2 ^ 24" by (simp add: attitude_quaternion_MSG_ID_def)
  show "msg_id (AttitudeQuaternion m) = attitude_quaternion_MSG_ID" for m by simp
  fix m :: mav_attitude_quaternion and seq sys_id comp_id :: byte and buf :: "byte list"
  assume wf: "(\<lambda>_. True) m"
  show "length (wire_attitude_quaternion m) = attitude_quaternion_PAYLOAD_LEN" using wf by (simp add: wire_attitude_quaternion_def attitude_quaternion_PAYLOAD_LEN_def)
  show "parse_message_payload attitude_quaternion_MSG_ID (wire_attitude_quaternion m) = Ok (AttitudeQuaternion m)"
    using wf by (cases m) (simp add: parse_message_payload_def msg_ids parse_attitude_quaternion_def wire_attitude_quaternion_def payload_lens wire_read)
  show "serialize_attitude_quaternion m seq sys_id comp_id buf =
      (if length buf < 12 + attitude_quaternion_PAYLOAD_LEN then None
       else Some (write_crc (put buf 0 (header_bytes (of_nat attitude_quaternion_PAYLOAD_LEN) seq sys_id comp_id attitude_quaternion_MSG_ID @ wire_attitude_quaternion m))
         (10 + attitude_quaternion_PAYLOAD_LEN) (get_crc_extra attitude_quaternion_MSG_ID)))"
    using wf unfolding serialize_attitude_quaternion_def wire_attitude_quaternion_def Let_def MavHeader_SIZE_def
    by (simp add: attitude_quaternion_PAYLOAD_LEN_def wire_write msg_ids write_text_put)
qed

interpretation local_position_ned: message_codec LocalPositionNed local_position_ned_MSG_ID local_position_ned_PAYLOAD_LEN "\<lambda>_. True" wire_local_position_ned serialize_local_position_ned
proof
  show "declared_payload_len local_position_ned_MSG_ID = Some local_position_ned_PAYLOAD_LEN" by (simp add: declared_payload_len_def msg_ids)
  show "0 < local_position_ned_PAYLOAD_LEN" "local_position_ned_PAYLOAD_LEN \<le> 255" by (simp_all add: local_position_ned_PAYLOAD_LEN_def)
  show "local_position_ned_MSG_ID < 2 ^ 24" by (simp add: local_position_ned_MSG_ID_def)
  show "msg_id (LocalPositionNed m) = local_position_ned_MSG_ID" for m by simp
  fix m :: mav_local_position_ned and seq sys_id comp_id :: byte and buf :: "byte list"
  assume wf: "(\<lambda>_. True) m"
  show "length (wire_local_position_ned m) = local_position_ned_PAYLOAD_LEN" using wf by (simp add: wire_local_position_ned_def local_position_ned_PAYLOAD_LEN_def)
  show "parse_message_payload local_position_ned_MSG_ID (wire_local_position_ned m) = Ok (LocalPositionNed m)"
    using wf by (cases m) (simp add: parse_message_payload_def msg_ids parse_local_position_ned_def wire_local_position_ned_def payload_lens wire_read)
  show "serialize_local_position_ned m seq sys_id comp_id buf =
      (if length buf < 12 + local_position_ned_PAYLOAD_LEN then None
       else Some (write_crc (put buf 0 (header_bytes (of_nat local_position_ned_PAYLOAD_LEN) seq sys_id comp_id local_position_ned_MSG_ID @ wire_local_position_ned m))
         (10 + local_position_ned_PAYLOAD_LEN) (get_crc_extra local_position_ned_MSG_ID)))"
    using wf unfolding serialize_local_position_ned_def wire_local_position_ned_def Let_def MavHeader_SIZE_def
    by (simp add: local_position_ned_PAYLOAD_LEN_def wire_write msg_ids write_text_put)
qed

interpretation global_position_int: message_codec GlobalPositionInt global_position_int_MSG_ID global_position_int_PAYLOAD_LEN "\<lambda>_. True" wire_global_position_int serialize_global_position_int
proof
  show "declared_payload_len global_position_int_MSG_ID = Some global_position_int_PAYLOAD_LEN" by (simp add: declared_payload_len_def msg_ids)
  show "0 < global_position_int_PAYLOAD_LEN" "global_position_int_PAYLOAD_LEN \<le> 255" by (simp_all add: global_position_int_PAYLOAD_LEN_def)
  show "global_position_int_MSG_ID < 2 ^ 24" by (simp add: global_position_int_MSG_ID_def)
  show "msg_id (GlobalPositionInt m) = global_position_int_MSG_ID" for m by simp
  fix m :: mav_global_position_int and seq sys_id comp_id :: byte and buf :: "byte list"
  assume wf: "(\<lambda>_. True) m"
  show "length (wire_global_position_int m) = global_position_int_PAYLOAD_LEN" using wf by (simp add: wire_global_position_int_def global_position_int_PAYLOAD_LEN_def)
  show "parse_message_payload global_position_int_MSG_ID (wire_global_position_int m) = Ok (GlobalPositionInt m)"
    using wf by (cases m) (simp add: parse_message_payload_def msg_ids parse_global_position_int_def wire_global_position_int_def payload_lens wire_read)
  show "serialize_global_position_int m seq sys_id comp_id buf =
      (if length buf < 12 + global_position_int_PAYLOAD_LEN then None
       else Some (write_crc (put buf 0 (header_bytes (of_nat global_position_int_PAYLOAD_LEN) seq sys_id comp_id global_position_int_MSG_ID @ wire_global_position_int m))
         (10 + global_position_int_PAYLOAD_LEN) (get_crc_extra global_position_int_MSG_ID)))"
    using wf unfolding serialize_global_position_int_def wire_global_position_int_def Let_def MavHeader_SIZE_def
    by (simp add: global_position_int_PAYLOAD_LEN_def wire_write msg_ids write_text_put)
qed

interpretation gps_raw_int: message_codec GpsRawInt gps_raw_int_MSG_ID gps_raw_int_PAYLOAD_LEN "\<lambda>_. True" wire_gps_raw_int serialize_gps_raw_int
proof
  show "declared_payload_len gps_raw_int_MSG_ID = Some gps_raw_int_PAYLOAD_LEN" by (simp add: declared_payload_len_def msg_ids)
  show "0 < gps_raw_int_PAYLOAD_LEN" "gps_raw_int_PAYLOAD_LEN \<le> 255" by (simp_all add: gps_raw_int_PAYLOAD_LEN_def)
  show "gps_raw_int_MSG_ID < 2 ^ 24" by (simp add: gps_raw_int_MSG_ID_def)
  show "msg_id (GpsRawInt m) = gps_raw_int_MSG_ID" for m by simp
  fix m :: mav_gps_raw_int and seq sys_id comp_id :: byte and buf :: "byte list"
  assume wf: "(\<lambda>_. True) m"
  show "length (wire_gps_raw_int m) = gps_raw_int_PAYLOAD_LEN" using wf by (simp add: wire_gps_raw_int_def gps_raw_int_PAYLOAD_LEN_def)
  show "parse_message_payload gps_raw_int_MSG_ID (wire_gps_raw_int m) = Ok (GpsRawInt m)"
    using wf by (cases m) (simp add: parse_message_payload_def msg_ids parse_gps_raw_int_def wire_gps_raw_int_def payload_lens wire_read)
  show "serialize_gps_raw_int m seq sys_id comp_id buf =
      (if length buf < 12 + gps_raw_int_PAYLOAD_LEN then None
       else Some (write_crc (put buf 0 (header_bytes (of_nat gps_raw_int_PAYLOAD_LEN) seq sys_id comp_id gps_raw_int_MSG_ID @ wire_gps_raw_int m))
         (10 + gps_raw_int_PAYLOAD_LEN) (get_crc_extra gps_raw_int_MSG_ID)))"
    using wf unfolding serialize_gps_raw_int_def wire_gps_raw_int_def Let_def MavHeader_SIZE_def
    by (simp add: gps_raw_int_PAYLOAD_LEN_def wire_write msg_ids write_text_put)
qed

interpretation scaled_pressure: message_codec ScaledPressure scaled_pressure_MSG_ID scaled_pressure_PAYLOAD_LEN "\<lambda>_. True" wire_scaled_pressure serialize_scaled_pressure
proof
  show "declared_payload_len scaled_pressure_MSG_ID = Some scaled_pressure_PAYLOAD_LEN" by (simp add: declared_payload_len_def msg_ids)
  show "0 < scaled_pressure_PAYLOAD_LEN" "scaled_pressure_PAYLOAD_LEN \<le> 255" by (simp_all add: scaled_pressure_PAYLOAD_LEN_def)
  show "scaled_pressure_MSG_ID < 2 ^ 24" by (simp add: scaled_pressure_MSG_ID_def)
  show "msg_id (ScaledPressure m) = scaled_pressure_MSG_ID" for m by simp
  fix m :: mav_scaled_pressure and seq sys_id comp_id :: byte and buf :: "byte list"
  assume wf: "(\<lambda>_. True) m"
  show "length (wire_scaled_pressure m) = scaled_pressure_PAYLOAD_LEN" using wf by (simp add: wire_scaled_pressure_def scaled_pressure_PAYLOAD_LEN_def)
  show "parse_message_payload scaled_pressure_MSG_ID (wire_scaled_pressure m) = Ok (ScaledPressure m)"
    using wf by (cases m) (simp add: parse_message_payload_def msg_ids parse_scaled_pressure_def wire_scaled_pressure_def payload_lens wire_read)
  show "serialize_scaled_pressure m seq sys_id comp_id buf =
      (if length buf < 12 + scaled_pressure_PAYLOAD_LEN then None
       else Some (write_crc (put buf 0 (header_bytes (of_nat scaled_pressure_PAYLOAD_LEN) seq sys_id comp_id scaled_pressure_MSG_ID @ wire_scaled_pressure m))
         (10 + scaled_pressure_PAYLOAD_LEN) (get_crc_extra scaled_pressure_MSG_ID)))"
    using wf unfolding serialize_scaled_pressure_def wire_scaled_pressure_def Let_def MavHeader_SIZE_def
    by (simp add: scaled_pressure_PAYLOAD_LEN_def wire_write msg_ids write_text_put)
qed

interpretation estimator_status: message_codec EstimatorStatus estimator_status_MSG_ID estimator_status_PAYLOAD_LEN "\<lambda>_. True" wire_estimator_status serialize_estimator_status
proof
  show "declared_payload_len estimator_status_MSG_ID = Some estimator_status_PAYLOAD_LEN" by (simp add: declared_payload_len_def msg_ids)
  show "0 < estimator_status_PAYLOAD_LEN" "estimator_status_PAYLOAD_LEN \<le> 255" by (simp_all add: estimator_status_PAYLOAD_LEN_def)
  show "estimator_status_MSG_ID < 2 ^ 24" by (simp add: estimator_status_MSG_ID_def)
  show "msg_id (EstimatorStatus m) = estimator_status_MSG_ID" for m by simp
  fix m :: mav_estimator_status and seq sys_id comp_id :: byte and buf :: "byte list"
  assume wf: "(\<lambda>_. True) m"
  show "length (wire_estimator_status m) = estimator_status_PAYLOAD_LEN" using wf by (simp add: wire_estimator_status_def estimator_status_PAYLOAD_LEN_def)
  show "parse_message_payload estimator_status_MSG_ID (wire_estimator_status m) = Ok (EstimatorStatus m)"
    using wf by (cases m) (simp add: parse_message_payload_def msg_ids parse_estimator_status_def wire_estimator_status_def payload_lens wire_read)
  show "serialize_estimator_status m seq sys_id comp_id buf =
      (if length buf < 12 + estimator_status_PAYLOAD_LEN then None
       else Some (write_crc (put buf 0 (header_bytes (of_nat estimator_status_PAYLOAD_LEN) seq sys_id comp_id estimator_status_MSG_ID @ wire_estimator_status m))
         (10 + estimator_status_PAYLOAD_LEN) (get_crc_extra estimator_status_MSG_ID)))"
    using wf unfolding serialize_estimator_status_def wire_estimator_status_def Let_def MavHeader_SIZE_def
    by (simp add: estimator_status_PAYLOAD_LEN_def wire_write msg_ids write_text_put)
qed

interpretation aviate_estimator_status: message_codec AviateEstimatorStatus aviate_estimator_status_MSG_ID aviate_estimator_status_PAYLOAD_LEN "\<lambda>_. True" wire_aviate_estimator_status serialize_aviate_estimator_status
proof
  show "declared_payload_len aviate_estimator_status_MSG_ID = Some aviate_estimator_status_PAYLOAD_LEN" by (simp add: declared_payload_len_def msg_ids)
  show "0 < aviate_estimator_status_PAYLOAD_LEN" "aviate_estimator_status_PAYLOAD_LEN \<le> 255" by (simp_all add: aviate_estimator_status_PAYLOAD_LEN_def)
  show "aviate_estimator_status_MSG_ID < 2 ^ 24" by (simp add: aviate_estimator_status_MSG_ID_def)
  show "msg_id (AviateEstimatorStatus m) = aviate_estimator_status_MSG_ID" for m by simp
  fix m :: mav_aviate_estimator_status and seq sys_id comp_id :: byte and buf :: "byte list"
  assume wf: "(\<lambda>_. True) m"
  show "length (wire_aviate_estimator_status m) = aviate_estimator_status_PAYLOAD_LEN" using wf by (simp add: wire_aviate_estimator_status_def aviate_estimator_status_PAYLOAD_LEN_def)
  show "parse_message_payload aviate_estimator_status_MSG_ID (wire_aviate_estimator_status m) = Ok (AviateEstimatorStatus m)"
    using wf by (cases m) (simp add: parse_message_payload_def msg_ids parse_aviate_estimator_status_def wire_aviate_estimator_status_def payload_lens wire_read)
  show "serialize_aviate_estimator_status m seq sys_id comp_id buf =
      (if length buf < 12 + aviate_estimator_status_PAYLOAD_LEN then None
       else Some (write_crc (put buf 0 (header_bytes (of_nat aviate_estimator_status_PAYLOAD_LEN) seq sys_id comp_id aviate_estimator_status_MSG_ID @ wire_aviate_estimator_status m))
         (10 + aviate_estimator_status_PAYLOAD_LEN) (get_crc_extra aviate_estimator_status_MSG_ID)))"
    using wf unfolding serialize_aviate_estimator_status_def wire_aviate_estimator_status_def Let_def MavHeader_SIZE_def
    by (simp add: aviate_estimator_status_PAYLOAD_LEN_def wire_write msg_ids write_text_put)
qed

interpretation aviate_geomagnetic_reference: message_codec AviateGeomagneticReference aviate_geomagnetic_reference_MSG_ID aviate_geomagnetic_reference_PAYLOAD_LEN "\<lambda>_. True" wire_aviate_geomagnetic_reference serialize_aviate_geomagnetic_reference
proof
  show "declared_payload_len aviate_geomagnetic_reference_MSG_ID = Some aviate_geomagnetic_reference_PAYLOAD_LEN" by (simp add: declared_payload_len_def msg_ids)
  show "0 < aviate_geomagnetic_reference_PAYLOAD_LEN" "aviate_geomagnetic_reference_PAYLOAD_LEN \<le> 255" by (simp_all add: aviate_geomagnetic_reference_PAYLOAD_LEN_def)
  show "aviate_geomagnetic_reference_MSG_ID < 2 ^ 24" by (simp add: aviate_geomagnetic_reference_MSG_ID_def)
  show "msg_id (AviateGeomagneticReference m) = aviate_geomagnetic_reference_MSG_ID" for m by simp
  fix m :: mav_aviate_geomagnetic_reference and seq sys_id comp_id :: byte and buf :: "byte list"
  assume wf: "(\<lambda>_. True) m"
  show "length (wire_aviate_geomagnetic_reference m) = aviate_geomagnetic_reference_PAYLOAD_LEN" using wf by (simp add: wire_aviate_geomagnetic_reference_def aviate_geomagnetic_reference_PAYLOAD_LEN_def)
  show "parse_message_payload aviate_geomagnetic_reference_MSG_ID (wire_aviate_geomagnetic_reference m) = Ok (AviateGeomagneticReference m)"
    using wf by (cases m) (simp add: parse_message_payload_def msg_ids parse_aviate_geomagnetic_reference_def wire_aviate_geomagnetic_reference_def payload_lens wire_read)
  show "serialize_aviate_geomagnetic_reference m seq sys_id comp_id buf =
      (if length buf < 12 + aviate_geomagnetic_reference_PAYLOAD_LEN then None
       else Some (write_crc (put buf 0 (header_bytes (of_nat aviate_geomagnetic_reference_PAYLOAD_LEN) seq sys_id comp_id aviate_geomagnetic_reference_MSG_ID @ wire_aviate_geomagnetic_reference m))
         (10 + aviate_geomagnetic_reference_PAYLOAD_LEN) (get_crc_extra aviate_geomagnetic_reference_MSG_ID)))"
    using wf unfolding serialize_aviate_geomagnetic_reference_def wire_aviate_geomagnetic_reference_def Let_def MavHeader_SIZE_def
    by (simp add: aviate_geomagnetic_reference_PAYLOAD_LEN_def wire_write msg_ids write_text_put)
qed

interpretation set_attitude_target: message_codec SetAttitudeTarget set_attitude_target_MSG_ID set_attitude_target_PAYLOAD_LEN "\<lambda>_. True" wire_set_attitude_target serialize_set_attitude_target
proof
  show "declared_payload_len set_attitude_target_MSG_ID = Some set_attitude_target_PAYLOAD_LEN" by (simp add: declared_payload_len_def msg_ids)
  show "0 < set_attitude_target_PAYLOAD_LEN" "set_attitude_target_PAYLOAD_LEN \<le> 255" by (simp_all add: set_attitude_target_PAYLOAD_LEN_def)
  show "set_attitude_target_MSG_ID < 2 ^ 24" by (simp add: set_attitude_target_MSG_ID_def)
  show "msg_id (SetAttitudeTarget m) = set_attitude_target_MSG_ID" for m by simp
  fix m :: mav_set_attitude_target and seq sys_id comp_id :: byte and buf :: "byte list"
  assume wf: "(\<lambda>_. True) m"
  show "length (wire_set_attitude_target m) = set_attitude_target_PAYLOAD_LEN" using wf by (simp add: wire_set_attitude_target_def set_attitude_target_PAYLOAD_LEN_def)
  show "parse_message_payload set_attitude_target_MSG_ID (wire_set_attitude_target m) = Ok (SetAttitudeTarget m)"
    using wf by (cases m) (simp add: parse_message_payload_def msg_ids parse_set_attitude_target_def wire_set_attitude_target_def payload_lens wire_read)
  show "serialize_set_attitude_target m seq sys_id comp_id buf =
      (if length buf < 12 + set_attitude_target_PAYLOAD_LEN then None
       else Some (write_crc (put buf 0 (header_bytes (of_nat set_attitude_target_PAYLOAD_LEN) seq sys_id comp_id set_attitude_target_MSG_ID @ wire_set_attitude_target m))
         (10 + set_attitude_target_PAYLOAD_LEN) (get_crc_extra set_attitude_target_MSG_ID)))"
    using wf unfolding serialize_set_attitude_target_def wire_set_attitude_target_def Let_def MavHeader_SIZE_def
    by (simp add: set_attitude_target_PAYLOAD_LEN_def wire_write msg_ids write_text_put)
qed

interpretation set_position_target_local_ned: message_codec SetPositionTargetLocalNed set_position_target_local_ned_MSG_ID set_position_target_local_ned_PAYLOAD_LEN "\<lambda>_. True" wire_set_position_target_local_ned serialize_set_position_target_local_ned
proof
  show "declared_payload_len set_position_target_local_ned_MSG_ID = Some set_position_target_local_ned_PAYLOAD_LEN" by (simp add: declared_payload_len_def msg_ids)
  show "0 < set_position_target_local_ned_PAYLOAD_LEN" "set_position_target_local_ned_PAYLOAD_LEN \<le> 255" by (simp_all add: set_position_target_local_ned_PAYLOAD_LEN_def)
  show "set_position_target_local_ned_MSG_ID < 2 ^ 24" by (simp add: set_position_target_local_ned_MSG_ID_def)
  show "msg_id (SetPositionTargetLocalNed m) = set_position_target_local_ned_MSG_ID" for m by simp
  fix m :: mav_set_position_target_local_ned and seq sys_id comp_id :: byte and buf :: "byte list"
  assume wf: "(\<lambda>_. True) m"
  show "length (wire_set_position_target_local_ned m) = set_position_target_local_ned_PAYLOAD_LEN" using wf by (simp add: wire_set_position_target_local_ned_def set_position_target_local_ned_PAYLOAD_LEN_def)
  show "parse_message_payload set_position_target_local_ned_MSG_ID (wire_set_position_target_local_ned m) = Ok (SetPositionTargetLocalNed m)"
    using wf by (cases m) (simp add: parse_message_payload_def msg_ids parse_set_position_target_local_ned_def wire_set_position_target_local_ned_def payload_lens wire_read)
  show "serialize_set_position_target_local_ned m seq sys_id comp_id buf =
      (if length buf < 12 + set_position_target_local_ned_PAYLOAD_LEN then None
       else Some (write_crc (put buf 0 (header_bytes (of_nat set_position_target_local_ned_PAYLOAD_LEN) seq sys_id comp_id set_position_target_local_ned_MSG_ID @ wire_set_position_target_local_ned m))
         (10 + set_position_target_local_ned_PAYLOAD_LEN) (get_crc_extra set_position_target_local_ned_MSG_ID)))"
    using wf unfolding serialize_set_position_target_local_ned_def wire_set_position_target_local_ned_def Let_def MavHeader_SIZE_def
    by (simp add: set_position_target_local_ned_PAYLOAD_LEN_def wire_write msg_ids write_text_put)
qed

interpretation command_long: message_codec CommandLong command_long_MSG_ID command_long_PAYLOAD_LEN "\<lambda>_. True" wire_command_long serialize_command_long
proof
  show "declared_payload_len command_long_MSG_ID = Some command_long_PAYLOAD_LEN" by (simp add: declared_payload_len_def msg_ids)
  show "0 < command_long_PAYLOAD_LEN" "command_long_PAYLOAD_LEN \<le> 255" by (simp_all add: command_long_PAYLOAD_LEN_def)
  show "command_long_MSG_ID < 2 ^ 24" by (simp add: command_long_MSG_ID_def)
  show "msg_id (CommandLong m) = command_long_MSG_ID" for m by simp
  fix m :: mav_command_long and seq sys_id comp_id :: byte and buf :: "byte list"
  assume wf: "(\<lambda>_. True) m"
  show "length (wire_command_long m) = command_long_PAYLOAD_LEN" using wf by (simp add: wire_command_long_def command_long_PAYLOAD_LEN_def)
  show "parse_message_payload command_long_MSG_ID (wire_command_long m) = Ok (CommandLong m)"
    using wf by (cases m) (simp add: parse_message_payload_def msg_ids parse_command_long_def wire_command_long_def payload_lens wire_read)
  show "serialize_command_long m seq sys_id comp_id buf =
      (if length buf < 12 + command_long_PAYLOAD_LEN then None
       else Some (write_crc (put buf 0 (header_bytes (of_nat command_long_PAYLOAD_LEN) seq sys_id comp_id command_long_MSG_ID @ wire_command_long m))
         (10 + command_long_PAYLOAD_LEN) (get_crc_extra command_long_MSG_ID)))"
    using wf unfolding serialize_command_long_def wire_command_long_def Let_def MavHeader_SIZE_def
    by (simp add: command_long_PAYLOAD_LEN_def wire_write msg_ids write_text_put)
qed

interpretation command_ack: message_codec CommandAck command_ack_MSG_ID command_ack_PAYLOAD_LEN "\<lambda>_. True" wire_command_ack serialize_command_ack
proof
  show "declared_payload_len command_ack_MSG_ID = Some command_ack_PAYLOAD_LEN" by (simp add: declared_payload_len_def msg_ids)
  show "0 < command_ack_PAYLOAD_LEN" "command_ack_PAYLOAD_LEN \<le> 255" by (simp_all add: command_ack_PAYLOAD_LEN_def)
  show "command_ack_MSG_ID < 2 ^ 24" by (simp add: command_ack_MSG_ID_def)
  show "msg_id (CommandAck m) = command_ack_MSG_ID" for m by simp
  fix m :: mav_command_ack and seq sys_id comp_id :: byte and buf :: "byte list"
  assume wf: "(\<lambda>_. True) m"
  show "length (wire_command_ack m) = command_ack_PAYLOAD_LEN" using wf by (simp add: wire_command_ack_def command_ack_PAYLOAD_LEN_def)
  show "parse_message_payload command_ack_MSG_ID (wire_command_ack m) = Ok (CommandAck m)"
    using wf by (cases m) (simp add: parse_message_payload_def msg_ids parse_command_ack_def wire_command_ack_def payload_lens wire_read)
  show "serialize_command_ack m seq sys_id comp_id buf =
      (if length buf < 12 + command_ack_PAYLOAD_LEN then None
       else Some (write_crc (put buf 0 (header_bytes (of_nat command_ack_PAYLOAD_LEN) seq sys_id comp_id command_ack_MSG_ID @ wire_command_ack m))
         (10 + command_ack_PAYLOAD_LEN) (get_crc_extra command_ack_MSG_ID)))"
    using wf unfolding serialize_command_ack_def wire_command_ack_def Let_def MavHeader_SIZE_def
    by (simp add: command_ack_PAYLOAD_LEN_def wire_write msg_ids write_text_put)
qed

interpretation rc_channels_override: message_codec RcChannelsOverride rc_channels_override_MSG_ID rc_channels_override_PAYLOAD_LEN "\<lambda>_. True" wire_rc_channels_override serialize_rc_channels_override
proof
  show "declared_payload_len rc_channels_override_MSG_ID = Some rc_channels_override_PAYLOAD_LEN" by (simp add: declared_payload_len_def msg_ids)
  show "0 < rc_channels_override_PAYLOAD_LEN" "rc_channels_override_PAYLOAD_LEN \<le> 255" by (simp_all add: rc_channels_override_PAYLOAD_LEN_def)
  show "rc_channels_override_MSG_ID < 2 ^ 24" by (simp add: rc_channels_override_MSG_ID_def)
  show "msg_id (RcChannelsOverride m) = rc_channels_override_MSG_ID" for m by simp
  fix m :: mav_rc_channels_override and seq sys_id comp_id :: byte and buf :: "byte list"
  assume wf: "(\<lambda>_. True) m"
  show "length (wire_rc_channels_override m) = rc_channels_override_PAYLOAD_LEN" using wf by (simp add: wire_rc_channels_override_def rc_channels_override_PAYLOAD_LEN_def)
  show "parse_message_payload rc_channels_override_MSG_ID (wire_rc_channels_override m) = Ok (RcChannelsOverride m)"
    using wf by (cases m) (simp add: parse_message_payload_def msg_ids parse_rc_channels_override_def wire_rc_channels_override_def payload_lens wire_read)
  show "serialize_rc_channels_override m seq sys_id comp_id buf =
      (if length buf < 12 + rc_channels_override_PAYLOAD_LEN then None
       else Some (write_crc (put buf 0 (header_bytes (of_nat rc_channels_override_PAYLOAD_LEN) seq sys_id comp_id rc_channels_override_MSG_ID @ wire_rc_channels_override m))
         (10 + rc_channels_override_PAYLOAD_LEN) (get_crc_extra rc_channels_override_MSG_ID)))"
    using wf unfolding serialize_rc_channels_override_def wire_rc_channels_override_def Let_def MavHeader_SIZE_def
    by (simp add: rc_channels_override_PAYLOAD_LEN_def wire_write msg_ids write_text_put)
qed

interpretation manual_control: message_codec ManualControl manual_control_MSG_ID manual_control_PAYLOAD_LEN "\<lambda>_. True" wire_manual_control serialize_manual_control
proof
  show "declared_payload_len manual_control_MSG_ID = Some manual_control_PAYLOAD_LEN" by (simp add: declared_payload_len_def msg_ids)
  show "0 < manual_control_PAYLOAD_LEN" "manual_control_PAYLOAD_LEN \<le> 255" by (simp_all add: manual_control_PAYLOAD_LEN_def)
  show "manual_control_MSG_ID < 2 ^ 24" by (simp add: manual_control_MSG_ID_def)
  show "msg_id (ManualControl m) = manual_control_MSG_ID" for m by simp
  fix m :: mav_manual_control and seq sys_id comp_id :: byte and buf :: "byte list"
  assume wf: "(\<lambda>_. True) m"
  show "length (wire_manual_control m) = manual_control_PAYLOAD_LEN" using wf by (simp add: wire_manual_control_def manual_control_PAYLOAD_LEN_def)
  show "parse_message_payload manual_control_MSG_ID (wire_manual_control m) = Ok (ManualControl m)"
    using wf by (cases m) (simp add: parse_message_payload_def msg_ids parse_manual_control_def wire_manual_control_def payload_lens wire_read)
  show "serialize_manual_control m seq sys_id comp_id buf =
      (if length buf < 12 + manual_control_PAYLOAD_LEN then None
       else Some (write_crc (put buf 0 (header_bytes (of_nat manual_control_PAYLOAD_LEN) seq sys_id comp_id manual_control_MSG_ID @ wire_manual_control m))
         (10 + manual_control_PAYLOAD_LEN) (get_crc_extra manual_control_MSG_ID)))"
    using wf unfolding serialize_manual_control_def wire_manual_control_def Let_def MavHeader_SIZE_def
    by (simp add: manual_control_PAYLOAD_LEN_def wire_write msg_ids write_text_put)
qed

interpretation sys_status: message_codec SysStatus sys_status_MSG_ID sys_status_PAYLOAD_LEN "\<lambda>_. True" wire_sys_status serialize_sys_status
proof
  show "declared_payload_len sys_status_MSG_ID = Some sys_status_PAYLOAD_LEN" by (simp add: declared_payload_len_def msg_ids)
  show "0 < sys_status_PAYLOAD_LEN" "sys_status_PAYLOAD_LEN \<le> 255" by (simp_all add: sys_status_PAYLOAD_LEN_def)
  show "sys_status_MSG_ID < 2 ^ 24" by (simp add: sys_status_MSG_ID_def)
  show "msg_id (SysStatus m) = sys_status_MSG_ID" for m by simp
  fix m :: mav_sys_status and seq sys_id comp_id :: byte and buf :: "byte list"
  assume wf: "(\<lambda>_. True) m"
  show "length (wire_sys_status m) = sys_status_PAYLOAD_LEN" using wf by (simp add: wire_sys_status_def sys_status_PAYLOAD_LEN_def)
  show "parse_message_payload sys_status_MSG_ID (wire_sys_status m) = Ok (SysStatus m)"
    using wf by (cases m) (simp add: parse_message_payload_def msg_ids parse_sys_status_def wire_sys_status_def payload_lens wire_read)
  show "serialize_sys_status m seq sys_id comp_id buf =
      (if length buf < 12 + sys_status_PAYLOAD_LEN then None
       else Some (write_crc (put buf 0 (header_bytes (of_nat sys_status_PAYLOAD_LEN) seq sys_id comp_id sys_status_MSG_ID @ wire_sys_status m))
         (10 + sys_status_PAYLOAD_LEN) (get_crc_extra sys_status_MSG_ID)))"
    using wf unfolding serialize_sys_status_def wire_sys_status_def Let_def MavHeader_SIZE_def
    by (simp add: sys_status_PAYLOAD_LEN_def wire_write msg_ids write_text_put)
qed

interpretation statustext: message_codec Statustext statustext_MSG_ID statustext_PAYLOAD_LEN "\<lambda>m. length (tx_text m) = 50" wire_statustext serialize_statustext
proof
  show "declared_payload_len statustext_MSG_ID = Some statustext_PAYLOAD_LEN" by (simp add: declared_payload_len_def msg_ids)
  show "0 < statustext_PAYLOAD_LEN" "statustext_PAYLOAD_LEN \<le> 255" by (simp_all add: statustext_PAYLOAD_LEN_def)
  show "statustext_MSG_ID < 2 ^ 24" by (simp add: statustext_MSG_ID_def)
  show "msg_id (Statustext m) = statustext_MSG_ID" for m by simp
  fix m :: mav_statustext and seq sys_id comp_id :: byte and buf :: "byte list"
  assume wf: "(\<lambda>m. length (tx_text m) = 50) m"
  show "length (wire_statustext m) = statustext_PAYLOAD_LEN" using wf by (simp add: wire_statustext_def statustext_PAYLOAD_LEN_def)
  show "parse_message_payload statustext_MSG_ID (wire_statustext m) = Ok (Statustext m)"
    using wf by (cases m) (simp add: parse_message_payload_def msg_ids parse_statustext_def wire_statustext_def payload_lens wire_read)
  show "serialize_statustext m seq sys_id comp_id buf =
      (if length buf < 12 + statustext_PAYLOAD_LEN then None
       else Some (write_crc (put buf 0 (header_bytes (of_nat statustext_PAYLOAD_LEN) seq sys_id comp_id statustext_MSG_ID @ wire_statustext m))
         (10 + statustext_PAYLOAD_LEN) (get_crc_extra statustext_MSG_ID)))"
    using wf unfolding serialize_statustext_def wire_statustext_def Let_def MavHeader_SIZE_def
    by (simp add: statustext_PAYLOAD_LEN_def wire_write msg_ids write_text_put)
qed

end
