(* ===== verification/MavlinkProps.thy ===== *)
theory MavlinkProps
  imports MavlinkFrames
begin

text \<open>
  What the codec promises (\<open>mavlink/protocol.rs\<close>): the parser restated over the parts of a frame, the
  checksum step as a bijection in its byte and in its state, and the three claims: every message
  survives the wire, a frame ends where the parser says, and a changed byte is caught.
\<close>

section \<open>The checksum step is injective in the byte and in the state\<close>

lemma crc_fields:
  assumes "crc_accumulate b c = crc_accumulate b' c'"
  shows "b XOR ucast c = b' XOR ucast c' \<and> drop_bit 8 c = drop_bit 8 c'"
proof -
  define t where "t b c = (ucast (b XOR ucast c :: byte) :: u16)" for b and c :: u16
  define m where "m b c = t b c XOR (push_bit 4 (t b c) AND 0xFF)" for b c
  have ff: "(0xFF :: u16) = mask 8" by (simp add: mask_eq_exp_minus_1)
  have tb: "bit (t b c) n \<Longrightarrow> n < 8" for b c n by (auto simp: t_def bit_simps dest: bit_imp_le_length)
  have mb: "bit (m b c) n \<longleftrightarrow> n < 8 \<and> (bit (t b c) n \<noteq> (4 \<le> n \<and> bit (t b c) (n - 4)))" for b c n
    using tb [of b c n] by (auto simp: m_def ff bit_simps)
  have mz: "8 \<le> n \<Longrightarrow> \<not> bit (m b c) n" for b c n using mb [of b c n] by simp
  have crc: "crc_accumulate b c = drop_bit 8 c XOR push_bit 8 (m b c) XOR push_bit 3 (m b c) XOR drop_bit 4 (m b c)" for b c
    by (simp add: crc_accumulate_def m_def t_def Let_def)
  have high: "bit (crc_accumulate b c) (8 + j) \<longleftrightarrow> (bit (m b c) j \<noteq> bit (m b c) (5 + j))" if "j < 8" for b c j
    using that mz [of "8 + j" b c] mz [of "12 + j" b c] bit_imp_le_length [of c "16 + j"]
    by (auto simp: crc bit_simps)
  have eq: "(bit (m b c) j \<noteq> bit (m b c) (5 + j)) = (bit (m b' c') j \<noteq> bit (m b' c') (5 + j))" if "j < 8" for j
    using high [OF that, of b c] high [OF that, of b' c'] assms by simp
  have mm: "bit (m b c) j = bit (m b' c') j" for j
  proof -
    have hi: "bit (m b c) j = bit (m b' c') j" if "3 \<le> j" for j
      using eq [of j] mb [of b c j] mb [of b' c' j] mb [of b c "5 + j"] mb [of b' c' "5 + j"] that by (cases "j < 8") auto
    show ?thesis using eq [of j] hi [of "5 + j"] hi [of j] by (cases "j < 8") auto
  qed
  have low: "bit (t b c) j = bit (t b' c') j" if "j < 4" for j
    using mm [of j] mb [of b c j] mb [of b' c' j] that by simp
  have "bit (t b c) j = bit (t b' c') j" for j
    using mm [of j] mb [of b c j] mb [of b' c' j] low [of j] low [of "j - 4"] tb [of b c j] tb [of b' c' j]
    by (cases "j < 4"; cases "j < 8") auto
  then have tt: "t b c = t b' c'" by (rule bit_word_eqI)
  have bx: "b XOR ucast c = b' XOR ucast c'"
  proof (rule bit_word_eqI)
    fix n assume "n < LENGTH(8)"
    have "bit (t b c) n = bit (t b' c') n" using tt by simp
    then show "bit (b XOR ucast c) n = bit (b' XOR ucast c') n"
      using \<open>n < LENGTH(8)\<close> by (auto simp: t_def bit_simps dest: bit_imp_le_length)
  qed
  have "m b c = m b' c'" using mm by (intro bit_word_eqI) simp
  moreover define X where "X = push_bit 8 (m b c) XOR push_bit 3 (m b c) XOR drop_bit 4 (m b c)"
  moreover have "crc_accumulate b c = drop_bit 8 c XOR X" by (simp only: crc X_def xor.assoc)
  ultimately have "drop_bit 8 c XOR X = drop_bit 8 c' XOR X" using assms by (simp only: crc [of b' c'] xor.assoc)
  then have "(drop_bit 8 c XOR X) XOR X = (drop_bit 8 c' XOR X) XOR X" by (rule arg_cong)
  then have "drop_bit 8 c = drop_bit 8 c'" by (simp only: xor.assoc xor_self_eq xor.right_neutral)
  with bx show ?thesis by simp
qed

lemma crc_byte_inj: "crc_accumulate b c = crc_accumulate b' c \<Longrightarrow> b = b'"
  using crc_fields [of b c b' c] by (metis xor.assoc xor_self_eq xor.right_neutral)

lemma crc_state_inj: "crc_accumulate b c = crc_accumulate b c' \<Longrightarrow> c = c'"
proof -
  assume "crc_accumulate b c = crc_accumulate b c'"
  then have e: "ucast c = (ucast c' :: byte)" "drop_bit 8 c = drop_bit 8 c'"
    using crc_fields [of b c b c'] by (metis xor.assoc xor_self_eq xor.left_neutral)+
  show ?thesis
  proof (rule bit_word_eqI)
    fix n assume "n < LENGTH(16)"
    have "bit (ucast c :: byte) n = bit (ucast c' :: byte) n" "bit (drop_bit 8 c) (n - 8) = bit (drop_bit 8 c') (n - 8)"
      using e by simp_all
    then show "bit c n = bit c' n" by (cases "n < 8") (simp_all add: bit_simps)
  qed
qed

lemma crc_fold_state_inj: "fold crc_accumulate xs c = fold crc_accumulate xs c' \<Longrightarrow> c = c'"
  by (induction xs arbitrary: c c') (auto dest: crc_state_inj)

text \<open>One changed byte changes the checksum.\<close>

lemma crc_detects:
  assumes "j < length data" "x \<noteq> data ! j"
  shows "compute_crc (data[j := x]) extra \<noteq> compute_crc data extra"
proof
  assume e: "compute_crc (data[j := x]) extra = compute_crc data extra"
  have d: "data = take j data @ data ! j # drop (Suc j) data" using assms(1) by (rule id_take_nth_drop)
  have d': "data[j := x] = take j data @ x # drop (Suc j) data" using assms(1) by (rule upd_conv_take_nth_drop)
  let ?c = "fold crc_accumulate (take j data) 0xFFFF"
  have "fold crc_accumulate (drop (Suc j) data) (crc_accumulate x ?c)
      = fold crc_accumulate (drop (Suc j) data) (crc_accumulate (data ! j) ?c)"
    using crc_state_inj [OF e [unfolded compute_crc_def]] by (subst (asm) d', subst (asm) (3) d) simp
  then have "crc_accumulate x ?c = crc_accumulate (data ! j) ?c" by (rule crc_fold_state_inj)
  then show False using crc_byte_inj assms(2) by blast
qed


section \<open>What an accepted frame is\<close>

definition frame_signed :: "byte list \<Rightarrow> bool" where
  "frame_signed buf \<longleftrightarrow> buf ! 2 AND MAVLINK_IFLAG_SIGNED \<noteq> 0"

definition frame_length :: "byte list \<Rightarrow> nat" where
  "frame_length buf = MavHeader_SIZE + unat (buf ! 1) + 2 + (if frame_signed buf then MAVLINK_SIGNATURE_LEN else 0)"

definition crc_matches :: "byte list \<Rightarrow> bool" where
  "crc_matches buf \<longleftrightarrow>
     (let co = MavHeader_SIZE + unat (buf ! 1)
      in ucast (buf ! co) OR push_bit 8 (ucast (buf ! (co + 1)))
         = compute_crc (drop 1 (take co buf)) (get_crc_extra (mh_msgid (frame_header buf))))"

definition frame_message :: "byte list \<Rightarrow> (mav_message, parse_error) result" where
  "frame_message buf =
     (let i = mh_msgid (frame_header buf); payload = take (unat (buf ! 1)) (drop MavHeader_SIZE buf)
      in case declared_payload_len i of
           Some declared \<Rightarrow>
             if payload = [] then Err InvalidPayload else parse_message_payload i (full_payload payload declared)
         | None \<Rightarrow> parse_message_payload i payload)"

definition frame_signature :: "byte list \<Rightarrow> mav_signature option" where
  "frame_signature buf =
     (if frame_signed buf
      then Some (parse_signature (buf ! 5) (buf ! 6)
             (take MAVLINK_SIGNATURE_LEN (drop (MavHeader_SIZE + unat (buf ! 1) + 2) buf)))
      else None)"

lemma parse_frame_alt:
  "parse_mavlink_frame buf =
     (if length buf < 12 then Err BufferTooShort
      else if buf ! 0 \<noteq> MAVLINK_STX_V2 then Err InvalidStartByte
      else if buf ! 2 AND NOT MAVLINK_IFLAG_SIGNED \<noteq> 0 then Err (UnsupportedIncompatFlags (buf ! 2))
      else if length buf < frame_length buf then Err BufferTooShort
      else if \<not> crc_matches buf then Err CrcMismatch
      else case frame_message buf of
        Err e \<Rightarrow> Err e
      | Ok msg \<Rightarrow> Ok \<lparr>pf_message = msg, pf_signature = frame_signature buf, pf_header = frame_header buf,
                     pf_consumed = frame_length buf\<rparr>)"
proof -
  have l: "\<not> MAX_PAYLOAD_LEN < unat (buf ! 1)" using unsigned_less [of "buf ! 1", where 'a = nat] by (simp add: MAX_PAYLOAD_LEN_def)
  have h: "mh_incompat_flags (frame_header buf) = buf ! 2" "mh_sysid (frame_header buf) = buf ! 5"
    "mh_compid (frame_header buf) = buf ! 6" by (simp_all add: frame_header_def)
  show ?thesis
    unfolding parse_mavlink_frame_def Let_def h frame_signed_def [symmetric] frame_length_def [symmetric]
    by (cases "frame_signed buf"; simp only: l if_False if_True crc_matches_def frame_message_def
      frame_signature_def Let_def simp_thms)
qed

lemma parse_ok_iff:
  "parse_mavlink_frame buf = Ok f \<longleftrightarrow>
     12 \<le> length buf \<and> buf ! 0 = MAVLINK_STX_V2 \<and> buf ! 2 AND NOT MAVLINK_IFLAG_SIGNED = 0
     \<and> frame_length buf \<le> length buf \<and> crc_matches buf \<and> frame_message buf = Ok (pf_message f)
     \<and> pf_signature f = frame_signature buf \<and> pf_header f = frame_header buf \<and> pf_consumed f = frame_length buf"
  by (cases f) (auto simp: parse_frame_alt split: sum.split)

lemma same_prefix:
  assumes "take n a = take n b" "n \<le> length a" "n \<le> length b"
  shows "j < n \<Longrightarrow> a ! j = b ! j" and "j + k \<le> n \<Longrightarrow> take k (drop j a) = take k (drop j b)"
    and "j \<le> n \<Longrightarrow> take j a = take j b"
proof -
  show "j < n \<Longrightarrow> a ! j = b ! j" using assms(1) by (metis nth_take)
  show t: "j \<le> n \<Longrightarrow> take j a = take j b" for j using assms(1) by (metis min.absorb1 take_take)
  show "j + k \<le> n \<Longrightarrow> take k (drop j a) = take k (drop j b)"
    using t [of "j + k"] by (metis add.commute drop_take diff_add_inverse)
qed

lemma frame_prefix:
  assumes "take (frame_length buf) buf = take (frame_length buf) buf'" "frame_length buf \<le> length buf"
    "frame_length buf \<le> length buf'"
  shows "frame_length buf' = frame_length buf" "crc_matches buf' = crc_matches buf"
    "frame_message buf' = frame_message buf" "frame_signature buf' = frame_signature buf"
    "frame_header buf' = frame_header buf" "buf' ! 0 = buf ! 0" "buf' ! 2 = buf ! 2"
proof -
  note p = same_prefix [OF assms]
  have n: "12 + unat (buf ! 1) \<le> frame_length buf" by (simp add: frame_length_def MavHeader_SIZE_def)
  have b: "buf' ! j = buf ! j" if "j < 12" for j using p(1) [of j] that n by simp
  show h: "frame_header buf' = frame_header buf" by (simp add: frame_header_def b)
  show "frame_length buf' = frame_length buf" "buf' ! 0 = buf ! 0" "buf' ! 2 = buf ! 2"
    by (simp_all add: frame_length_def frame_signed_def b)
  have c: "buf' ! (10 + unat (buf ! 1)) = buf ! (10 + unat (buf ! 1))"
    "buf' ! (11 + unat (buf ! 1)) = buf ! (11 + unat (buf ! 1))"
    using p(1) [of "10 + unat (buf ! 1)"] p(1) [of "11 + unat (buf ! 1)"] n by simp_all
  have t: "take (10 + unat (buf ! 1)) buf' = take (10 + unat (buf ! 1)) buf"
    using p(3) [of "10 + unat (buf ! 1)"] n by simp
  show "crc_matches buf' = crc_matches buf"
    using c t by (simp add: crc_matches_def Let_def h b [of 1, simplified] MavHeader_SIZE_def)
  have d: "take (unat (buf ! 1)) (drop 10 buf') = take (unat (buf ! 1)) (drop 10 buf)"
    using p(2) [of 10 "unat (buf ! 1)"] n by simp
  show "frame_message buf' = frame_message buf"
    using d by (simp add: frame_message_def Let_def h b [of 1, simplified] MavHeader_SIZE_def)
  have s: "take 13 (drop (12 + unat (buf ! 1)) buf') = take 13 (drop (12 + unat (buf ! 1)) buf)" if "frame_signed buf"
    using p(2) [of "12 + unat (buf ! 1)" 13] that by (simp add: frame_length_def MavHeader_SIZE_def MAVLINK_SIGNATURE_LEN_def)
  show "frame_signature buf' = frame_signature buf"
    using s by (simp add: frame_signature_def frame_signed_def b b [of 1, simplified] MavHeader_SIZE_def MAVLINK_SIGNATURE_LEN_def)
qed

lemma bytes16_inj:
  "ucast a OR push_bit 8 (ucast b) = (ucast a' OR push_bit 8 (ucast b') :: u16) \<Longrightarrow> a = a' \<and> b = b'" for a a' b b' :: byte
proof -
  assume e: "ucast a OR push_bit 8 (ucast b) = (ucast a' OR push_bit 8 (ucast b') :: u16)"
  have "bit a n = bit a' n \<and> bit b n = bit b' n" if "n < 8" for n
  proof -
    have "bit (ucast a OR push_bit 8 (ucast b) :: u16) n = bit (ucast a' OR push_bit 8 (ucast b') :: u16) n"
      "bit (ucast a OR push_bit 8 (ucast b) :: u16) (8 + n) = bit (ucast a' OR push_bit 8 (ucast b') :: u16) (8 + n)"
      using e by simp_all
    then show ?thesis using that bit_imp_le_length [of a "8 + n"] bit_imp_le_length [of a' "8 + n"]
      by (auto simp: bit_simps)
  qed
  then show "a = a' \<and> b = b'" by (auto intro!: bit_word_eqI)
qed

section \<open>A reference frame\<close>

text \<open>The arm frame of the repository's tests (\<open>mavlink/command.rs\<close>), made by an independent encoder.\<close>

definition reference_arm_frame :: "byte list" where
  "reference_arm_frame =
     [0xFD, 0x1E, 0x00, 0x00, 0x07, 0x01, 0x01, 0x4C, 0x00, 0x00, 0x00, 0x00, 0x80, 0x3F, 0x00,
      0x00, 0x00, 0x00, 0x00, 0x00, 0x00, 0x00, 0x00, 0x00, 0x00, 0x00, 0x00, 0x00, 0x00, 0x00,
      0x00, 0x00, 0x00, 0x00, 0x00, 0x00, 0x00, 0x00, 0x90, 0x01, 0xCA, 0xEA]"

definition reference_arm :: mav_message where
  "reference_arm = CommandLong \<lparr>cl_param1 = 0x3F800000, cl_param2 = 0, cl_param3 = 0, cl_param4 = 0, cl_param5 = 0,
     cl_param6 = 0, cl_param7 = 0, cl_command = 400, cl_target_system = 0, cl_target_component = 0,
     cl_confirmation = 0\<rparr>"

lemma reference_parses:
  "parse_mavlink_frame reference_arm_frame = Ok \<lparr>pf_message = reference_arm, pf_signature = None,
     pf_header = \<lparr>mh_payload_len = 30, mh_incompat_flags = 0, mh_compat_flags = 0, mh_seq = 7, mh_sysid = 1,
       mh_compid = 1, mh_msgid = 76\<rparr>, pf_consumed = 42\<rparr>"
proof -
  have h: "frame_header reference_arm_frame = \<lparr>mh_payload_len = 30, mh_incompat_flags = 0, mh_compat_flags = 0,
      mh_seq = 7, mh_sysid = 1, mh_compid = 1, mh_msgid = 76\<rparr>"
    by (simp add: frame_header_def reference_arm_frame_def)
  have s: "drop 1 (take 40 reference_arm_frame) = [0x1E, 0x00, 0x00, 0x07, 0x01, 0x01, 0x4C, 0x00, 0x00, 0x00, 0x00,
      0x80, 0x3F, 0x00, 0x00, 0x00, 0x00, 0x00, 0x00, 0x00, 0x00, 0x00, 0x00, 0x00, 0x00, 0x00, 0x00, 0x00, 0x00,
      0x00, 0x00, 0x00, 0x00, 0x00, 0x00, 0x00, 0x00, 0x90, 0x01]"
    by (simp add: reference_arm_frame_def)
  have "compute_crc (drop 1 (take 40 reference_arm_frame)) 152 = 0xEACA"
    unfolding s compute_crc_def by (simp add: crc_accumulate_def Let_def)
  then have c: "crc_matches reference_arm_frame"
    by (simp add: crc_matches_def h Let_def MavHeader_SIZE_def get_crc_extra_def) (simp add: reference_arm_frame_def)
  have f: "full_payload (take 30 (drop 10 reference_arm_frame)) 33 = take 30 (drop 10 reference_arm_frame) @ [0, 0, 0]"
    by (simp add: full_payload_def reference_arm_frame_def MAX_PAYLOAD_LEN_def numeral_3_eq_3)
  have p: "parse_command_long (take 30 (drop 10 reference_arm_frame) @ [0, 0, 0]) = Ok reference_arm"
    by (simp add: parse_command_long_def reference_arm_frame_def reference_arm_def command_long_PAYLOAD_LEN_def
        read_f32_le_def read_u32_le_def read_u16_le_def)
  have d: "declared_payload_len 76 = Some 33" "parse_message_payload 76 = parse_command_long"
    by (rule ext | simp add: declared_payload_len_def parse_message_payload_def msg_ids command_long_PAYLOAD_LEN_def)+
  have m: "frame_message reference_arm_frame = Ok reference_arm"
    using f p d by (simp add: frame_message_def h Let_def MavHeader_SIZE_def) (simp add: reference_arm_frame_def)
  show ?thesis
    using h c m by (simp add: parse_ok_iff frame_signature_def frame_signed_def frame_length_def
      reference_arm_frame_def MAVLINK_STX_V2_def MAVLINK_IFLAG_SIGNED_def MavHeader_SIZE_def MAVLINK_SIGNATURE_LEN_def)
qed

section \<open>Properties\<close>

fun mav_message_wf :: "mav_message \<Rightarrow> bool" where
  "mav_message_wf (Statustext m) \<longleftrightarrow> length (tx_text m) = 50"
| "mav_message_wf (UnknownMsg i) \<longleftrightarrow> False"
| "mav_message_wf _ \<longleftrightarrow> True"

lemma serialized_frame:
  assumes "mav_message_wf m" "serialize_mavlink m seq sys_id comp_id buf = Some (buf', n)"
  shows "frame_written m seq sys_id comp_id buf buf' n"
  using assms
  by (cases m)
    (auto intro: heartbeat.roundtrip
      system_time.roundtrip
      attitude_quaternion.roundtrip
      local_position_ned.roundtrip
      global_position_int.roundtrip
      gps_raw_int.roundtrip
      scaled_pressure.roundtrip
      estimator_status.roundtrip
      aviate_estimator_status.roundtrip
      aviate_geomagnetic_reference.roundtrip
      set_attitude_target.roundtrip
      set_position_target_local_ned.roundtrip
      command_long.roundtrip
      command_ack.roundtrip
      rc_channels_override.roundtrip
      manual_control.roundtrip
      sys_status.roundtrip
      statustext.roundtrip)

text \<open>C24: Every message the link can send survives the wire. Whatever the output buffer held, a message
  of any of the eighteen kinds that \<open>serialize_mavlink\<close> accepts (a \<open>StatusText\<close> carries its 50
  bytes) is written inside the buffer as one unsigned frame, and \<open>parse_mavlink_frame\<close> reads back
  exactly that message, with the sequence number, system and component ids it was sent with, and consumes
  exactly the bytes that were written, although trailing zero payload bytes are truncated.\<close>

theorem mavlink_roundtrip:
  assumes "mav_message_wf m" "serialize_mavlink m seq sys_id comp_id buf = Some (buf', n)"
  shows "length buf' = length buf \<and> n \<le> length buf
    \<and> (\<exists>f. parse_mavlink_frame buf' = Ok f \<and> pf_message f = m \<and> pf_consumed f = n \<and> pf_signature f = None
         \<and> mh_seq (pf_header f) = seq \<and> mh_sysid (pf_header f) = sys_id \<and> mh_compid (pf_header f) = comp_id
         \<and> mh_msgid (pf_header f) = msg_id m)"
proof -
  have "frame_written m seq sys_id comp_id buf buf' n" using assms by (rule serialized_frame)
  then show ?thesis by (auto simp: frame_written_def)
qed

text \<open>A frame ends where the parser says it ends. An accepted frame lies inside the buffer, is at least 12
  bytes long, and the verdict, message, header and signature depend on nothing behind it: the same result comes
  back when the bytes after \<open>consumed\<close> are replaced by any others.\<close>

lemma frames_are_delimited:
  assumes "parse_mavlink_frame buf = Ok f"
  shows "12 \<le> pf_consumed f \<and> pf_consumed f \<le> length buf
    \<and> parse_mavlink_frame (take (pf_consumed f) buf @ rest) = Ok f"
proof -
  note ok = assms [unfolded parse_ok_iff]
  let ?b = "take (frame_length buf) buf @ rest"
  have l: "frame_length buf \<le> length ?b" using ok by simp
  have t: "take (frame_length buf) buf = take (frame_length buf) ?b" using ok by simp
  note p = frame_prefix [OF t _ l]
  have "12 \<le> frame_length buf" by (simp add: frame_length_def MavHeader_SIZE_def)
  then show ?thesis using ok p l by (simp add: parse_ok_iff)
qed

text \<open>C25: The checksum catches a corrupted byte wherever it alone decides. Changing any one byte of an accepted frame among
  compat flags, sequence, system id, component id, payload and the two checksum bytes makes the parser answer
  \<open>CrcMismatch\<close>; it never yields another message. (The start byte, the length, the incompat flags and the message id
  also steer the parser itself, and are not claimed.)\<close>

theorem corrupted_byte_rejected:
  assumes "parse_mavlink_frame buf = Ok f" "x \<noteq> buf ! j"
    and "j \<in> {3..6} \<union> {MavHeader_SIZE..<MavHeader_SIZE + unat (buf ! 1) + 2}"
  shows "parse_mavlink_frame (buf[j := x]) = Err CrcMismatch"
proof -
  note ok = assms(1) [unfolded parse_ok_iff]
  let ?co = "10 + unat (buf ! 1)"
  have j: "j \<in> {3..6} \<or> (10 \<le> j \<and> j < ?co + 2)" using assms(3) by (simp add: MavHeader_SIZE_def)
  have j1: "1 \<le> j" using j by auto
  have fl: "?co + 2 \<le> length buf" using ok by (simp add: frame_length_def MavHeader_SIZE_def)
  have b: "buf[j := x] ! 0 = buf ! 0" "buf[j := x] ! 1 = buf ! 1" "buf[j := x] ! 2 = buf ! 2" "buf[j := x] ! 7 = buf ! 7"
    "buf[j := x] ! 8 = buf ! 8" "buf[j := x] ! 9 = buf ! 9"
    using j by auto
  have len: "frame_length (buf[j := x]) = frame_length buf" by (simp only: frame_length_def frame_signed_def b)
  have i: "mh_msgid (frame_header (buf[j := x])) = mh_msgid (frame_header buf)" using b by (simp add: frame_header_def)
  have "\<not> crc_matches (buf[j := x])"
  proof (cases "j < ?co")
    case True
    have d: "drop 1 (take ?co (buf[j := x])) = (drop 1 (take ?co buf))[j - 1 := x]"
      using True j1 by (simp add: take_update_swap drop_update_swap)
    have "x \<noteq> drop 1 (take ?co buf) ! (j - 1)" using True j fl assms(2) by auto
    moreover have "j - 1 < length (drop 1 (take ?co buf))" using True j fl by auto
    ultimately have "compute_crc (drop 1 (take ?co (buf[j := x]))) e \<noteq> compute_crc (drop 1 (take ?co buf)) e" for e
      unfolding d by (intro crc_detects)
    moreover have "buf[j := x] ! ?co = buf ! ?co" "buf[j := x] ! (?co + 1) = buf ! (?co + 1)" using True by auto
    moreover have "crc_matches buf" using ok by simp
    ultimately show ?thesis
      unfolding crc_matches_def Let_def MavHeader_SIZE_def i b(2) by metis
  next
    case False
    then have "j = ?co \<or> j = ?co + 1" using j by auto
    then have "ucast (buf[j := x] ! ?co) OR push_bit 8 (ucast (buf[j := x] ! (?co + 1)))
        \<noteq> (ucast (buf ! ?co) OR push_bit 8 (ucast (buf ! (?co + 1))) :: u16)"
      using fl assms(2) bytes16_inj by (fastforce simp: nth_list_update)
    moreover have "take ?co (buf[j := x]) = take ?co buf" using False by simp
    ultimately show ?thesis using ok i b(2) by (simp add: crc_matches_def Let_def MavHeader_SIZE_def)
  qed
  then show ?thesis using ok b len by (simp add: parse_frame_alt)
qed

lemma frames_are_delimited_witness:
  "12 \<le> (42 :: nat) \<and> parse_mavlink_frame (take 42 reference_arm_frame @ [1, 2, 3]) = parse_mavlink_frame reference_arm_frame"
  using frames_are_delimited [OF reference_parses, of "[1, 2, 3]"] by (simp add: reference_parses)

theorem corrupted_byte_rejected_witness:
  "parse_mavlink_frame (reference_arm_frame[10 := 1]) = Err CrcMismatch"
  by (rule corrupted_byte_rejected [OF reference_parses]) (simp_all add: reference_arm_frame_def MavHeader_SIZE_def)

theorem mavlink_roundtrip_witness:
  "\<exists>buf' n f. serialize_mavlink reference_arm 7 1 1 (replicate 280 0) = Some (buf', n)
     \<and> parse_mavlink_frame buf' = Ok f \<and> pf_message f = reference_arm"
proof -
  have "serialize_mavlink reference_arm 7 1 1 (replicate 280 0) \<noteq> None"
    by (simp add: reference_arm_def command_long.refused command_long_PAYLOAD_LEN_def)
  then obtain buf' n where w: "serialize_mavlink reference_arm 7 1 1 (replicate 280 0) = Some (buf', n)" by auto
  then show ?thesis using mavlink_roundtrip [OF _ w] by (auto simp: reference_arm_def)
qed

end
