(* ===== verification/GatewayProps.thy ===== *)
theory GatewayProps
  imports GatewayRuns MavlinkProps
begin

text \<open>
  The claims about the command boundary (\<open>aviate-security\<close>): no replay, the freshness window, the table
  that cannot fill up, one authority per credential, and what an admitted signed frame is.
\<close>

section \<open>The policy\<close>

lemma policy_resolve_iff:
  "policy_resolve bs p \<noteq> None \<longleftrightarrow> (\<exists>b. Some b \<in> set bs \<and> sb_principal b = p)"
  by (induction bs) (auto split: option.splits)

lemma policy_resolve_some:
  "policy_resolve bs p = Some s \<Longrightarrow> \<exists>b. Some b \<in> set bs \<and> sb_principal b = p \<and> sb_source b = s"
  by (induction bs) (auto split: option.splits if_splits)

text \<open>The policies the assembly can build: \<open>bind\<close> calls on the empty one, refused ones included.\<close>

definition policy_built :: "(principal \<times> link_source) list \<Rightarrow> source_policy" where
  "policy_built bs = fold (\<lambda>(p, s) pol. fst (policy_bind p s pol)) bs policy_new"

definition cred :: "principal \<Rightarrow> security_scheme \<times> u16" where
  "cred p = (pr_scheme p, pr_credential p)"

definition policy_wf :: "source_policy \<Rightarrow> bool" where
  "policy_wf pol \<longleftrightarrow> length pol = MAX_SOURCE_BINDINGS
     \<and> (\<forall>i < length pol. \<forall>j < length pol. \<forall>b c. pol ! i = Some b \<longrightarrow> pol ! j = Some c
          \<longrightarrow> cred (sb_principal b) = cred (sb_principal c) \<longrightarrow> i = j)"

lemma policy_bind_cases:
  obtains (refused) e where "policy_bind p s pol = (pol, Err e)"
  | (bound) i where "policy_bind p s pol = (pol[i := Some \<lparr>sb_principal = p, sb_source = s\<rparr>], Ok ())"
      "i < length pol" "pol ! i = None" "\<forall>b \<in> set pol. \<not> same_credential p b"
proof (cases "list_ex (same_credential p) pol \<or> find_idx (\<lambda>b. b = None) pol = None")
  case True
  then have "\<exists>e. policy_bind p s pol = (pol, Err e)" by (auto simp: policy_bind_def)
  then show thesis using refused by blast
next
  case False
  then obtain i where i: "find_idx (\<lambda>b. b = None) pol = Some i" by auto
  then have "policy_bind p s pol = (pol[i := Some \<lparr>sb_principal = p, sb_source = s\<rparr>], Ok ())"
    using False by (simp add: policy_bind_def)
  then show thesis using bound False find_idx_SomeD [OF i] by (auto simp: list_ex_iff)
qed

lemma policy_wf_bind:
  assumes "policy_wf pol"
  shows "policy_wf (fst (policy_bind p s pol))"
proof (cases rule: policy_bind_cases [of p s pol])
  case (bound i)
  let ?pol = "pol[i := Some \<lparr>sb_principal = p, sb_source = s\<rparr>]"
  have new: "cred (sb_principal b) \<noteq> cred p" if "j < length pol" "pol ! j = Some b" for j b
    using bound(4) nth_mem [OF that(1)] that(2) by (auto simp: same_credential_def cred_def)
  have "j = k" if "j < length pol" "k < length pol" "?pol ! j = Some b" "?pol ! k = Some c"
    "cred (sb_principal b) = cred (sb_principal c)" for j k b c
  proof (cases "j = i \<or> k = i")
    case True
    then show ?thesis using that new [of j b] new [of k c] bound(2) by (cases "j = i"; cases "k = i") auto
  next
    case False
    then show ?thesis using that assms by (simp add: policy_wf_def)
  qed
  then show ?thesis using assms bound(1) unfolding policy_wf_def by simp
qed (use assms in simp)

lemma policy_wf_built: "policy_wf (policy_built bs)"
proof -
  have "policy_wf (fold (\<lambda>(p, s) pol. fst (policy_bind p s pol)) bs pol)" if "policy_wf pol" for pol
    using that by (induction bs arbitrary: pol) (auto simp: policy_wf_bind)
  moreover have "policy_wf policy_new" by (simp add: policy_wf_def policy_new_def)
  ultimately show ?thesis by (simp add: policy_built_def)
qed

section \<open>The window invariant\<close>

definition window_inv :: "source_policy \<Rightarrow> freshness_config \<Rightarrow> replay_window \<Rightarrow> bool" where
  "window_inv pol f w \<longleftrightarrow>
     length (rw_slots w) = MAX_SIGNING_PEERS
     \<and> rw_freshness_floor w = trusted_value (fc_initial_trusted_counter f)
     \<and> rw_new_stream_max_age w = fc_new_stream_max_age f
     \<and> (\<forall>i < length (rw_slots w). \<forall>s. rw_slots w ! i = Some s \<longrightarrow>
          policy_resolve pol (sl_principal s) \<noteq> None
          \<and> replay_find w (sl_principal s) = Some i
          \<and> sat_sub (trusted_value (fc_initial_trusted_counter f)) (fc_new_stream_max_age f) \<le> sl_last_counter s
          \<and> sl_last_counter s \<le> rw_high_water w)"

lemma window_inv_new: "window_inv pol f (replay_new (trusted_value (fc_initial_trusted_counter f)) (fc_new_stream_max_age f))"
  by (simp add: window_inv_def replay_new_def)

lemma window_inv_commit:
  assumes inv: "window_inv pol f w" and ok: "commit_counter p n w = (w', Ok u)" and bound: "policy_resolve pol p \<noteq> None"
  shows "window_inv pol f w' \<and> sat_sub (trusted_value (fc_initial_trusted_counter f)) (fc_new_stream_max_age f) \<le> n"
proof -
  let ?lo = "sat_sub (trusted_value (fc_initial_trusted_counter f)) (fc_new_stream_max_age f)"
  obtain i where i: "i < length (rw_slots w)" "w' = w\<lparr>rw_slots := (rw_slots w)[i := Some \<lparr>sl_principal = p, sl_last_counter = n\<rparr>],
      rw_high_water := max (rw_high_water w) n\<rparr>" "?lo \<le> n"
    "replay_find w p = Some i \<or> replay_find w p = None \<and> rw_slots w ! i = None"
  proof (cases rule: commit_counter_cases [of p n w])
    case (refused e)
    then show ?thesis using ok by simp
  next
    case (advanced i s)
    have "?lo \<le> sl_last_counter s" using inv advanced(2,3) by (auto simp: window_inv_def)
    then have lo: "?lo \<le> n" using advanced(6) by (meson less_imp_le order_trans)
    have eq: "s\<lparr>sl_last_counter := n\<rparr> = \<lparr>sl_principal = p, sl_last_counter = n\<rparr>" using advanced(4) by (cases s) simp
    show ?thesis using that [of i] advanced(1,2,5) ok lo unfolding eq by simp
  next
    case (fresh i)
    then show ?thesis using that [of i] ok inv by (simp add: window_inv_def)
  qed
  have find: "replay_find w' (sl_principal s) = Some j" if "j < length (rw_slots w')" "rw_slots w' ! j = Some s" for j s
  proof (cases "j = i")
    case True
    then show ?thesis using that i by (auto simp: find_slot find_no_slot nth_list_update)
  next
    case False
    then have s: "rw_slots w ! j = Some s" "j < length (rw_slots w)" using that i(2) by simp_all
    then have "replay_find w (sl_principal s) = Some j" using inv by (simp add: window_inv_def)
    moreover from this have "sl_principal s \<noteq> p" using i(4) False by auto
    ultimately show ?thesis using i(1,2) False by (auto simp: find_slot nth_list_update)
  qed
  have "sl_last_counter s \<le> rw_high_water w'" "?lo \<le> sl_last_counter s" "policy_resolve pol (sl_principal s) \<noteq> None"
    if "j < length (rw_slots w')" "rw_slots w' ! j = Some s" for j s
    using that inv i(1-3) bound by (cases "j = i"; force simp: window_inv_def le_max_iff_disj)+
  then show ?thesis using find inv i(2,3) by (simp add: window_inv_def)
qed

text \<open>Eight bindings cannot fill sixteen slots.\<close>

lemma window_has_room:
  assumes inv: "window_inv pol f w" and wf: "policy_wf pol"
  shows "find_idx (\<lambda>s. s = None) (rw_slots w) \<noteq> None"
proof
  assume "find_idx (\<lambda>s. s = None) (rw_slots w) = None"
  then have full: "\<exists>s. rw_slots w ! i = Some s" if "i < 16" for i
    using that inv nth_mem [of i "rw_slots w"] by (auto simp: find_idx_None_iff window_inv_def MAX_SIGNING_PEERS_def)
  define who where "who i = sl_principal (the (rw_slots w ! i))" for i
  have who: "replay_find w (who i) = Some i" "policy_resolve pol (who i) \<noteq> None" if i: "i < 16" for i
  proof -
    obtain s where "rw_slots w ! i = Some s" using full [OF i] by blast
    then show "replay_find w (who i) = Some i" "policy_resolve pol (who i) \<noteq> None"
      using inv i by (auto simp: window_inv_def MAX_SIGNING_PEERS_def who_def)
  qed
  have "inj_on who {..<16}" by (rule inj_onI) (metis lessThan_iff option.inject who(1))
  moreover have "who ` {..<16} \<subseteq> sb_principal ` the ` set pol"
  proof
    fix p assume "p \<in> who ` {..<16}"
    then obtain b where "Some b \<in> set pol" "sb_principal b = p" using who(2) policy_resolve_iff by blast
    then show "p \<in> sb_principal ` the ` set pol"
      by (intro image_eqI [of _ _ b] image_eqI [of _ _ "Some b"]) simp_all
  qed
  ultimately have "card {..<16::nat} \<le> card (sb_principal ` the ` set pol)"
    using card_inj_on_le [of who "{..<16}" "sb_principal ` the ` set pol"] by simp
  also have "\<dots> \<le> length pol" by (metis card_image_le card_length finite_imageI finite_set le_trans)
  finally show False using wf by (simp add: policy_wf_def MAX_SOURCE_BINDINGS_def)
qed


section \<open>Signed frames\<close>

lemma signed_frame_shape:
  assumes "parse_mavlink_frame buf = Ok f" "pf_signature f = Some sig"
  shows "12 \<le> length buf" "length (ms_signature sig) = 6"
proof -
  have ok: "12 \<le> length buf" "frame_length buf \<le> length buf" "frame_signature buf = Some sig"
    using assms by (auto simp: parse_ok_iff)
  then show "12 \<le> length buf" by blast
  have "frame_signed buf" using ok(3) by (auto simp: frame_signature_def split: if_splits)
  then show "length (ms_signature sig) = 6"
    using ok(2,3) by (auto simp: frame_signature_def frame_length_def parse_signature_def MavHeader_SIZE_def
        MAVLINK_SIGNATURE_LEN_def)
qed

section \<open>Histories from boot\<close>

definition gateway_inv :: "source_policy \<Rightarrow> freshness_config \<Rightarrow> gateway \<Rightarrow> bool" where
  "gateway_inv pol f g \<longleftrightarrow> gw_source_policy g = pol \<and> gw_freshness g = f \<and> window_inv pol f (gw_anti_replay g)"

lemma gateway_inv_new: "gateway_inv pol f (gateway_new pol f)"
  by (simp add: gateway_inv_def gateway_new_def window_inv_new)

lemma gateway_inv_step:
  assumes "gateway_inv pol f g" "gateway_step g call = (g', ev)"
  shows "gateway_inv pol f g'"
proof (cases ev)
  case None
  then show ?thesis using assms
    by (auto simp: gateway_step_silent gateway_inv_def begin_authority_epoch_def dest!: admit_err)
next
  case (Some e)
  then obtain c now v where "admit c now g = (g', Ok v)"
    using assms(2) gateway_step_event [of g call g' "fst e" "snd e"] by auto
  then show ?thesis using assms(1)
    by (auto elim!: admit_ok simp: gateway_inv_def window_inv_commit dest!: plausible_ceiling_frame)
qed

lemma gateway_inv_run: "gateway_inv pol f g \<Longrightarrow> gateway_inv pol f (fold (\<lambda>call g. fst (gateway_step g call)) calls g)"
  by (induction calls arbitrary: g) (auto intro: gateway_inv_step prod.collapse [symmetric])

text \<open>The time of the first authorized attempt, which anchors the forward bound.\<close>

primrec first_authorized :: "source_policy \<Rightarrow> gateway_call list \<Rightarrow> u64 option" where
  "first_authorized pol [] = None"
| "first_authorized pol (call # calls) =
     (case call of
        Admit c now \<Rightarrow> if policy_resolve pol (ac_principal c) = None then first_authorized pol calls else Some now
      | BeginEpoch \<Rightarrow> first_authorized pol calls)"

text \<open>What one admitted command satisfies, given the anchor.\<close>

definition admitted_well :: "source_policy \<Rightarrow> freshness_config \<Rightarrow> u64 \<Rightarrow> authenticated_command \<times> verified_command \<Rightarrow> bool" where
  "admitted_well pol f anchor e \<longleftrightarrow>
     (let (c, v) = e; r = vc_receipt v; seed = fc_initial_trusted_counter f
      in vc_command v = ac_command c \<and> vr_sequence r = ac_counter c \<and> vr_expires_at_us r = None
         \<and> policy_resolve pol (ac_principal c) = Some (vr_source r)
         \<and> ac_counter c \<noteq> 0
         \<and> unat (trusted_value seed) - unat (fc_new_stream_max_age f) \<le> unat (ac_counter c)
         \<and> (bounds_the_future seed \<longrightarrow>
              unat (ac_counter c) \<le> unat (trusted_value seed)
                + (unat (vr_received_at_us r) - unat anchor) div max (unat (fc_counter_tick_us f)) 1
                + unat (fc_max_skew f)))"

lemma unat_max_1: "unat (max t 1 :: u64) = max (unat t) 1"
  by (auto simp: max_def word_le_nat_alt)

lemma plausible_ceiling_le:
  assumes "plausible_ceiling now g = (g', ceiling)"
  shows "bounds_the_future (fc_initial_trusted_counter (gw_freshness g)) \<Longrightarrow>
      gw_epoch_now_us g' = Some (case gw_epoch_now_us g of Some t \<Rightarrow> t | None \<Rightarrow> now)
      \<and> (\<exists>b. ceiling = Some b \<and> unat b \<le> unat (trusted_value (fc_initial_trusted_counter (gw_freshness g)))
           + (unat now - unat (case gw_epoch_now_us g of Some t \<Rightarrow> t | None \<Rightarrow> now))
             div max (unat (fc_counter_tick_us (gw_freshness g))) 1
           + unat (fc_max_skew (gw_freshness g)))"
    and "\<not> bounds_the_future (fc_initial_trusted_counter (gw_freshness g)) \<Longrightarrow> g' = g"
  using assms by (auto simp: plausible_ceiling_def Let_def unat_sat_add unat_sat_sub unat_div unat_max_1)

definition anchor_of :: "source_policy \<Rightarrow> gateway \<Rightarrow> gateway_call list \<Rightarrow> u64" where
  "anchor_of pol g calls = (case gw_epoch_now_us g of Some t \<Rightarrow> t | None \<Rightarrow> the (first_authorized pol calls))"

lemma anchor_of_step:
  assumes "gateway_step g call = (g', ev)" "gateway_inv pol f g" "bounds_the_future (fc_initial_trusted_counter f)"
  shows "anchor_of pol g' calls = anchor_of pol g (call # calls)"
proof (cases call)
  case BeginEpoch
  then show ?thesis using assms(1) by (auto simp: anchor_of_def begin_authority_epoch_def split: option.split)
next
  case (Admit c now)
  show ?thesis
  proof (cases "policy_resolve pol (ac_principal c)")
    case None
    then have "g' = g" using Admit assms(1,2) by (simp add: admit_def gateway_inv_def)
    then show ?thesis using Admit None by (simp add: anchor_of_def split: option.split)
  next
    case (Some source)
    obtain g1 ceiling where pc: "plausible_ceiling now g = (g1, ceiling)" by (cases "plausible_ceiling now g")
    have "gw_epoch_now_us g' = gw_epoch_now_us g1"
      using Admit assms(1,2) Some pc
      by (auto simp: admit_def gateway_inv_def Let_def split: prod.splits sum.splits)
    then show ?thesis using plausible_ceiling_le(1) [OF pc] assms(2,3) Admit Some
      by (auto simp: anchor_of_def gateway_inv_def split: option.splits)
  qed
qed

lemma admitted_well_step:
  assumes "gateway_step g call = (g', Some e)" "gateway_inv pol f g"
  shows "admitted_well pol f (anchor_of pol g (call # calls)) e"
proof -
  obtain c v now where e: "e = (c, v)" "call = Admit c now" "admit c now g = (g', Ok v)"
    using assms(1) gateway_step_event [of g call g' "fst e" "snd e"] by (cases e) auto
  from e(3) obtain source g1 ceiling w where a: "policy_resolve (gw_source_policy g) (ac_principal c) = Some source"
    "plausible_ceiling now g = (g1, ceiling)" "\<forall>b. ceiling = Some b \<longrightarrow> ac_counter c \<le> b"
    "commit_counter (ac_principal c) (ac_counter c) (gw_anti_replay g) = (w, Ok ())"
    "v = \<lparr>vc_command = ac_command c, vc_receipt = \<lparr>vr_source = source, vr_authority_epoch = gw_authority_epoch g,
        vr_sequence = ac_counter c, vr_received_at_us = now, vr_expires_at_us = None\<rparr>\<rparr>"
    by (rule admit_ok)
  have r: "policy_resolve pol (ac_principal c) = Some source" "gw_freshness g = f"
    using a(1) assms(2) by (simp_all add: gateway_inv_def)
  have "sat_sub (trusted_value (fc_initial_trusted_counter f)) (fc_new_stream_max_age f) \<le> ac_counter c"
    using window_inv_commit [of pol f, OF _ a(4)] assms(2) r(1) by (simp add: gateway_inv_def)
  then have lo: "unat (trusted_value (fc_initial_trusted_counter f)) - unat (fc_new_stream_max_age f) \<le> unat (ac_counter c)"
    by (simp add: word_le_nat_alt unat_sat_sub)
  have nz: "ac_counter c \<noteq> 0" using commit_counter_marks(1) [OF a(4)] by auto
  have an: "(case gw_epoch_now_us g of Some t \<Rightarrow> t | None \<Rightarrow> now) = anchor_of pol g (call # calls)"
    using e(2) r(1) by (simp add: anchor_of_def split: option.split)
  have hi: "unat (ac_counter c) \<le> unat (trusted_value (fc_initial_trusted_counter f))
      + (unat now - unat (anchor_of pol g (call # calls))) div max (unat (fc_counter_tick_us f)) 1 + unat (fc_max_skew f)"
    if "bounds_the_future (fc_initial_trusted_counter f)"
    using plausible_ceiling_le(1) [OF a(2)] a(3) that unfolding r(2) an
    by (auto simp: word_le_nat_alt intro: le_trans)
  show ?thesis using a(5) r(1) lo nz hi by (simp add: e(1) admitted_well_def)
qed

lemma admissions_well:
  assumes "gateway_inv pol f g" "e \<in> set (admissions g calls)"
  shows "admitted_well pol f (anchor_of pol g calls) e"
  using assms
proof (induction calls arbitrary: g)
  case (Cons call calls)
  obtain g' ev where st: "gateway_step g call = (g', ev)" by (cases "gateway_step g call")
  have inv: "gateway_inv pol f g'" using gateway_inv_step Cons.prems(1) st .
  have later: "admitted_well pol f (anchor_of pol g (call # calls)) e" if "e \<in> set (admissions g' calls)"
  proof -
    have "admitted_well pol f (anchor_of pol g' calls) e" using Cons.IH inv that .
    then show ?thesis using anchor_of_step [OF st Cons.prems(1)]
      by (cases "bounds_the_future (fc_initial_trusted_counter f)") (auto simp: admitted_well_def)
  qed
  show ?case
  proof (cases ev)
    case None
    then show ?thesis using later Cons.prems(2) st by (simp add: admissions_def)
  next
    case (Some e')
    then have "e = e' \<or> e \<in> set (admissions g' calls)" using Cons.prems(2) st by (simp add: admissions_def)
    then show ?thesis using admitted_well_step [of g call g' e' pol f calls] st Some Cons.prems(1) later by auto
  qed
qed (simp add: admissions_def)


section \<open>Properties\<close>

text \<open>C18: No command is executed twice. In every history of a gateway, whatever claims arrive in whatever
  order and however often authority epochs begin, the counters of the commands admitted for one principal
  strictly increase, and all of them exceed the last counter the window held for that principal at the
  start; so no (principal, counter) pair is ever admitted a second time.\<close>

theorem no_command_replayed:
  "sorted_wrt (<) (last_counter (gw_anti_replay g) p
     # map (\<lambda>e. ac_counter (fst e)) (filter (\<lambda>e. ac_principal (fst e) = p) (admissions g calls)))"
  using gate.log_rises [of g p calls] by (simp add: admissions_def comp_def)

text \<open>C19: The freshness window. Whatever a gateway built at boot admits carries a positive counter not more
  than \<open>new_stream_max_age\<close> behind the trusted seed, so a frame captured before that cannot be replayed after
  a restart; when the seed is a real-time clock, the counter is also at most the seed, plus the local time
  elapsed since the first authorized attempt in counter ticks, plus the tolerated skew. The minted command is
  the claimed one, its receipt has the authenticated counter and the source the policy binds to the principal.\<close>

theorem admissions_in_freshness_window:
  assumes "(c, v) \<in> set (admissions (gateway_new pol f) calls)"
  shows "vc_command v = ac_command c \<and> vr_sequence (vc_receipt v) = ac_counter c
    \<and> policy_resolve pol (ac_principal c) = Some (vr_source (vc_receipt v)) \<and> ac_counter c \<noteq> 0
    \<and> unat (trusted_value (fc_initial_trusted_counter f)) - unat (fc_new_stream_max_age f) \<le> unat (ac_counter c)
    \<and> (bounds_the_future (fc_initial_trusted_counter f) \<longrightarrow>
        unat (ac_counter c) \<le> unat (trusted_value (fc_initial_trusted_counter f))
          + (unat (vr_received_at_us (vc_receipt v)) - unat (the (first_authorized pol calls)))
            div max (unat (fc_counter_tick_us f)) 1
          + unat (fc_max_skew f))"
proof -
  have "anchor_of pol (gateway_new pol f) calls = the (first_authorized pol calls)"
    by (simp add: anchor_of_def gateway_new_def)
  then show ?thesis
    using admissions_well [OF gateway_inv_new assms] by (simp add: admitted_well_def Let_def)
qed

text \<open>C21: The replay table never fills up. For every policy built by \<open>bind\<close> calls and every history since boot,
  the window keeps its 16 slots with every tracked principal authorized and tracked once, and since the policy
  holds at most 8 bindings, \<open>ReplayCapacityExhausted\<close> is never the answer: no authorized sender can be locked
  out by others taking the slots.\<close>

theorem replay_table_never_full:
  "let g = fold (\<lambda>call g. fst (gateway_step g call)) calls (gateway_new (policy_built bs) f)
   in window_inv (policy_built bs) f (gw_anti_replay g)
      \<and> snd (admit c now g) \<noteq> Err (GatewayAuth ReplayCapacityExhausted)"
proof -
  define g where "g = fold (\<lambda>call g. fst (gateway_step g call)) calls (gateway_new (policy_built bs) f)"
  have inv: "window_inv (policy_built bs) f (gw_anti_replay g)"
    using gateway_inv_run [OF gateway_inv_new] by (simp add: g_def gateway_inv_def)
  have room: "find_idx (\<lambda>s. s = None) (rw_slots (gw_anti_replay g)) \<noteq> None"
    using window_has_room [OF inv policy_wf_built] .
  have "commit_counter p n (gw_anti_replay g) \<noteq> (w, Err ReplayCapacityExhausted)" for p n w
    using room by (auto simp: commit_counter_def split: option.splits if_splits)
  then have "check_and_update p n b (gw_anti_replay g) \<noteq> (w, Err ReplayCapacityExhausted)" for p n b w
    by (auto simp: check_and_update_def split: option.splits if_splits)
  then have "snd (admit c now g) \<noteq> Err (GatewayAuth ReplayCapacityExhausted)"
    by (auto simp: admit_def Let_def split: option.splits prod.splits sum.splits dest!: plausible_ceiling_frame)
  then show ?thesis using inv by (simp add: g_def [symmetric] Let_def)
qed

text \<open>One credential speaks for one authority. In every policy built by \<open>bind\<close> calls, two principals that
  share scheme and credential and are both authorized are the same principal, so possession of a key grants
  neither a choice between sources nor another sender's identity.\<close>

lemma credential_speaks_for_one:
  assumes "policy_resolve (policy_built bs) p = Some s" "policy_resolve (policy_built bs) q = Some t"
    and "pr_scheme p = pr_scheme q" "pr_credential p = pr_credential q"
  shows "p = q \<and> s = t"
proof -
  obtain b c where b: "Some b \<in> set (policy_built bs)" "sb_principal b = p"
    and c: "Some c \<in> set (policy_built bs)" "sb_principal c = q"
    using policy_resolve_some [OF assms(1)] policy_resolve_some [OF assms(2)] by blast
  then obtain i j where "i < length (policy_built bs)" "policy_built bs ! i = Some b"
    "j < length (policy_built bs)" "policy_built bs ! j = Some c" by (auto simp: in_set_conv_nth)
  then have "b = c" using policy_wf_built [of bs] b(2) c(2) assms(3,4) by (auto simp: policy_wf_def cred_def)
  then show ?thesis using b(2) c(2) assms(1,2) by auto
qed

text \<open>C20: What an accepted signed frame is. When the signing adapter turns a buffer into a claim, the buffer is
  exactly one well-formed frame carrying an arm/disarm command for this vehicle (or broadcast) with parameter
  exactly one or zero; it carries a signature; the key of its link and the engine's digest over every byte of
  that buffer but the last six agree in 48 bits with the signature of the frame; and principal and counter of
  the claim are those of the frame.\<close>

theorem signed_claim_is_genuine:
  assumes "mavlink_authenticate load_key sign l frame c = (c', Ok claim)"
    and "\<And>c a k m out. length (fst (snd (sign c a k m out))) = length out"
  shows "\<exists>f sig cmd key digest n.
    parse_mavlink_frame frame = Ok f \<and> pf_consumed f = length frame \<and> pf_signature f = Some sig
    \<and> pf_message f = CommandLong cmd \<and> cl_command cmd = COMPONENT_ARM_DISARM
    \<and> cl_target_system cmd \<in> {0, la_system_id l} \<and> cl_target_component cmd \<in> {0, la_component_id l}
    \<and> (ac_command claim = SysArm \<and> f32_eq (cl_param1 cmd) f1 \<or> ac_command claim = SysDisarm \<and> f32_eq (cl_param1 cmd) f0)
    \<and> load_key \<lparr>ks_link_id = ms_link_id sig, ks_purpose = PurposeCommand\<rparr> = Ok key
    \<and> sign c Sha256KeyedPrefix key (take (length frame - 6) frame) (replicate 32 0) = (c', digest, Ok n)
    \<and> take 6 digest = ms_signature sig
    \<and> ac_principal claim = principal_mavlink (ms_system_id sig) (ms_component_id sig) (ms_link_id sig)
    \<and> ac_counter claim = ms_timestamp sig"
proof -
  obtain parsed meta where p: "parse_system_command frame l = Ok parsed" "ps_signature parsed = Some meta"
    "verify_frame load_key sign meta c = (c', Ok ())"
    "claim = \<lparr>ac_principal = principal_mavlink (sm_system_id meta) (sm_component_id meta) (sm_link_id meta),
       ac_counter = sm_timestamp meta, ac_command = ps_command parsed\<rparr>"
    using assms(1) by (rule mavlink_authenticate_ok)
  obtain f cmd where f: "parse_mavlink_frame frame = Ok f" "pf_consumed f = length frame"
    "length frame \<le> MAX_SIGNED_FRAME_SIZE" "pf_message f = CommandLong cmd" "cl_command cmd = COMPONENT_ARM_DISARM"
    "accepts l (cl_target_system cmd) (cl_target_component cmd)"
    "ps_command parsed = SysArm \<and> f32_eq (cl_param1 cmd) f1 \<or> ps_command parsed = SysDisarm \<and> f32_eq (cl_param1 cmd) f0"
    "ps_signature parsed = map_option (\<lambda>sig. signature_meta_of sig frame (length frame)) (pf_signature f)"
    using p(1) by (rule parse_system_command_ok)
  obtain sig where sig: "pf_signature f = Some sig" "meta = signature_meta_of sig frame (length frame)"
    using p(2) f(8) by auto
  have shape: "12 \<le> length frame" "length (ms_signature sig) = 6" using f(1) sig(1) by (rule signed_frame_shape)+
  obtain message key digest n where v: "signed_message meta = Some message"
    "load_key \<lparr>ks_link_id = sm_link_id meta, ks_purpose = PurposeCommand\<rparr> = Ok key"
    "sign c Sha256KeyedPrefix key message (replicate 32 0) = (c', digest, Ok n)"
    "signature_diff digest (sm_sig meta) = 0"
    using p(3) by (rule verify_frame_ok)
  have "message = take (length frame - 6) frame"
    using v(1) signed_message_of_frame [of frame sig] shape(1) f(3) sig(2) by (simp add: MAVLINK_SIGNATURE_TRAILER_LEN_def)
  moreover have "length digest = 32" using assms(2) [of c Sha256KeyedPrefix key message "replicate 32 0"] v(3) by simp
  then have "take 6 digest = ms_signature sig"
    using v(4) signature_diff_zero [of digest "sm_sig meta"] shape(2) sig(2) by (simp add: signature_meta_of_def)
  ultimately show ?thesis
    using f(1,2,4-7) sig v(2,3) p(4) by (auto simp: accepts_def signature_meta_of_def)
qed


section \<open>Witnesses\<close>

text \<open>The arm frame of the tests, signed on link 5 at time stamp 1000 by an engine whose digest repeats the key.\<close>

definition signed_arm_frame :: "byte list" where
  "signed_arm_frame =
     [0xFD, 0x1E, 0x01, 0x00, 0x07, 0x01, 0x01, 0x4C, 0x00, 0x00, 0x00, 0x00, 0x80, 0x3F, 0x00, 0x00, 0x00, 0x00, 0x00,
      0x00, 0x00, 0x00, 0x00, 0x00, 0x00, 0x00, 0x00, 0x00, 0x00, 0x00, 0x00, 0x00, 0x00, 0x00, 0x00, 0x00, 0x00, 0x00,
      0x90, 0x01, 0x24, 0xA0, 0x05, 0xE8, 0x03, 0x00, 0x00, 0x00, 0x00, 0xAA, 0xAA, 0xAA, 0xAA, 0xAA, 0xAA]"

definition demo_sign :: "unit crypto_engine" where
  "demo_sign c a k m out = (c, replicate (length out) (hd k), Ok (length out))"

definition demo_local :: local_address where
  "demo_local = \<lparr>la_system_id = 1, la_component_id = 1\<rparr>"

definition demo_claim :: authenticated_command where
  "demo_claim = \<lparr>ac_principal = principal_mavlink 1 1 5, ac_counter = 1000, ac_command = SysArm\<rparr>"

definition demo_freshness :: freshness_config where
  "demo_freshness = \<lparr>fc_initial_trusted_counter = Rtc 900, fc_new_stream_max_age = 50, fc_counter_tick_us = 10,
     fc_max_skew = 100\<rparr>"

lemma signed_arm_parses:
  "parse_mavlink_frame signed_arm_frame = Ok \<lparr>pf_message = reference_arm,
     pf_signature = Some \<lparr>ms_system_id = 1, ms_component_id = 1, ms_link_id = 5, ms_timestamp = 1000,
       ms_signature = [0xAA, 0xAA, 0xAA, 0xAA, 0xAA, 0xAA]\<rparr>,
     pf_header = \<lparr>mh_payload_len = 30, mh_incompat_flags = 1, mh_compat_flags = 0, mh_seq = 7, mh_sysid = 1,
       mh_compid = 1, mh_msgid = 76\<rparr>, pf_consumed = 55\<rparr>"
proof -
  have h: "frame_header signed_arm_frame = \<lparr>mh_payload_len = 30, mh_incompat_flags = 1, mh_compat_flags = 0,
      mh_seq = 7, mh_sysid = 1, mh_compid = 1, mh_msgid = 76\<rparr>"
    by (simp add: frame_header_def signed_arm_frame_def)
  have s: "drop 1 (take 40 signed_arm_frame) = [0x1E, 0x01, 0x00, 0x07, 0x01, 0x01, 0x4C, 0x00, 0x00, 0x00, 0x00,
      0x80, 0x3F, 0x00, 0x00, 0x00, 0x00, 0x00, 0x00, 0x00, 0x00, 0x00, 0x00, 0x00, 0x00, 0x00, 0x00, 0x00, 0x00,
      0x00, 0x00, 0x00, 0x00, 0x00, 0x00, 0x00, 0x00, 0x90, 0x01]"
    by (simp add: signed_arm_frame_def)
  have "compute_crc (drop 1 (take 40 signed_arm_frame)) 152 = 0xA024"
    unfolding s compute_crc_def by (simp add: crc_accumulate_def Let_def)
  then have c: "crc_matches signed_arm_frame"
    by (simp add: crc_matches_def h Let_def MavHeader_SIZE_def get_crc_extra_def) (simp add: signed_arm_frame_def)
  have "frame_message signed_arm_frame = frame_message reference_arm_frame"
    by (simp add: frame_message_def frame_header_def Let_def MavHeader_SIZE_def signed_arm_frame_def reference_arm_frame_def)
  then have m: "frame_message signed_arm_frame = Ok reference_arm"
    using reference_parses by (auto simp: parse_ok_iff)
  have "take 13 (drop 42 signed_arm_frame) = [5, 0xE8, 3, 0, 0, 0, 0, 0xAA, 0xAA, 0xAA, 0xAA, 0xAA, 0xAA]"
    by (simp add: signed_arm_frame_def)
  then have g: "frame_signature signed_arm_frame = Some \<lparr>ms_system_id = 1, ms_component_id = 1, ms_link_id = 5,
      ms_timestamp = 1000, ms_signature = [0xAA, 0xAA, 0xAA, 0xAA, 0xAA, 0xAA]\<rparr>"
    by (simp add: frame_signature_def frame_signed_def parse_signature_def MAVLINK_IFLAG_SIGNED_def
        MavHeader_SIZE_def MAVLINK_SIGNATURE_LEN_def) (simp add: signed_arm_frame_def)
  show ?thesis
    using h c m g by (simp add: parse_ok_iff frame_signed_def frame_length_def
      signed_arm_frame_def MAVLINK_STX_V2_def MAVLINK_IFLAG_SIGNED_def MavHeader_SIZE_def MAVLINK_SIGNATURE_LEN_def)
qed

lemma demo_authenticates:
  "mavlink_authenticate (\<lambda>_. Ok [0xAA]) demo_sign demo_local signed_arm_frame () = ((), Ok demo_claim)"
proof -
  have l: "length signed_arm_frame = 55" by (simp add: signed_arm_frame_def)
  have "parse_system_command signed_arm_frame demo_local = Ok \<lparr>ps_command = SysArm,
      ps_signature = Some (signature_meta_of \<lparr>ms_system_id = 1, ms_component_id = 1, ms_link_id = 5,
        ms_timestamp = 1000, ms_signature = [0xAA, 0xAA, 0xAA, 0xAA, 0xAA, 0xAA]\<rparr> signed_arm_frame 55)\<rparr>"
    by (simp add: parse_system_command_def parse_mavlink_def signed_arm_parses l MAX_SIGNED_FRAME_SIZE_def
        reference_arm_def COMPONENT_ARM_DISARM_def accepts_def f32_eq_def f32_is_nan_def f32_mag_def)
  moreover have "signature_diff (replicate 32 0xAA) [0xAA, 0xAA, 0xAA, 0xAA, 0xAA, 0xAA] = 0" by (subst signature_diff_zero) (simp_all add: numeral_eq_Suc)
  ultimately show ?thesis
    using signed_message_of_frame [of signed_arm_frame]
    by (simp add: mavlink_authenticate_def verify_frame_def verify_signature_def demo_sign_def l
        MAVLINK_SIGNATURE_TRAILER_LEN_def MAX_SIGNED_FRAME_SIZE_def demo_claim_def)
      (simp add: signature_meta_of_def)
qed

theorem signed_claim_is_genuine_witness:
  "\<exists>f sig. parse_mavlink_frame signed_arm_frame = Ok f \<and> pf_signature f = Some sig \<and> ac_counter demo_claim = ms_timestamp sig"
  using signed_claim_is_genuine [OF demo_authenticates] by (auto simp: demo_sign_def)

definition demo_verified :: verified_command where
  "demo_verified = \<lparr>vc_command = SysArm, vc_receipt = \<lparr>vr_source = SourceGcsDatalink, vr_authority_epoch = 0,
     vr_sequence = 1000, vr_received_at_us = 7, vr_expires_at_us = None\<rparr>\<rparr>"

lemma demo_admits:
  "(demo_claim, demo_verified) \<in> set (admissions
     (gateway_new (policy_built [(principal_mavlink 1 1 5, SourceGcsDatalink)]) demo_freshness) [Admit demo_claim 7])"
proof -
  let ?pol = "policy_built [(principal_mavlink 1 1 5, SourceGcsDatalink)]"
  have r: "policy_resolve ?pol (principal_mavlink 1 1 5) = Some SourceGcsDatalink" by code_simp
  have w: "replay_find (replay_new 900 50) p = None" "find_idx (\<lambda>s. s = None) (rw_slots (replay_new 900 50)) = Some 0" for p
    by (simp_all add: find_no_slot find_idx_Some_iff replay_new_def MAX_SIGNING_PEERS_def)
  have "\<exists>w'. check_and_update (principal_mavlink 1 1 5) 1000 (Some 1000) (replay_new 900 50) = (w', Ok ())"
    using w by (simp add: check_and_update_def commit_counter_def) (simp add: replay_new_def sat_sub_def)
  then obtain w' where "check_and_update (principal_mavlink 1 1 5) 1000 (Some 1000) (replay_new 900 50) = (w', Ok ())" ..
  moreover have "plausible_ceiling 7 (gateway_new ?pol demo_freshness)
      = ((gateway_new ?pol demo_freshness)\<lparr>gw_epoch_now_us := Some 7\<rparr>, Some 1000)"
    by (simp add: plausible_ceiling_def gateway_new_def demo_freshness_def sat_add_def sat_sub_def)
  ultimately have "\<exists>g'. admit demo_claim 7 (gateway_new ?pol demo_freshness) = (g', Ok demo_verified)"
    using r by (simp add: admit_def demo_claim_def demo_verified_def gateway_new_def demo_freshness_def Let_def)
  then show ?thesis by (auto simp: admissions_def)
qed

theorem admissions_in_freshness_window_witness:
  "vc_command demo_verified = SysArm \<and> (850 :: nat) \<le> unat (ac_counter demo_claim)
   \<and> unat (ac_counter demo_claim) \<le> (900 :: nat) + (7 - 7) div 10 + 100"
  using admissions_in_freshness_window [OF demo_admits] by (simp add: demo_claim_def demo_freshness_def demo_verified_def)

lemma credential_speaks_for_one_witness:
  "principal_mavlink 1 1 5 = principal_mavlink 1 1 5 \<and> SourceRc = SourceRc"
  by (rule credential_speaks_for_one [of "[(principal_mavlink 1 1 5, SourceRc), (principal_mavlink 1 2 5, SourceGcsDatalink)]"])
    code_simp+

end
