(* ===== verification/TelemetryQueue.thy ===== *)
theory TelemetryQueue
  imports MavlinkWire
begin

text \<open>
  The telemetry queue (\<open>aviate-link/src/queue.rs\<close>): a ring of fixed-size frames with a full flag, and
  the task that formats a cycle into it and flushes it to a transport (\<open>aviate-runtime/src/telemetry.rs\<close>).
  The capacity \<open>N\<close> and the frame size are arguments, as in the source's const generics. The queue's
  contract is a locale over an abstract list; the ring interprets it at the size the runtime uses.
\<close>

section \<open>The ring\<close>

definition TELEMETRY_MAX_FRAME :: nat where "TELEMETRY_MAX_FRAME = 280"

definition TELEMETRY_MAX_QUEUE :: nat where "TELEMETRY_MAX_QUEUE = 32"

datatype queue_error = QueueFull

record telemetry_queue =
  tq_frames :: "byte list list"
  tq_lens :: "u16 list"
  tq_head :: nat
  tq_tail :: nat
  tq_full :: bool

definition tq_new :: "nat \<Rightarrow> nat \<Rightarrow> telemetry_queue" where
  "tq_new N frame_size =
     \<lparr>tq_frames = replicate N (replicate frame_size 0), tq_lens = replicate N 0, tq_head = 0, tq_tail = 0,
      tq_full = False\<rparr>"

definition tq_is_empty :: "telemetry_queue \<Rightarrow> bool" where
  "tq_is_empty q \<longleftrightarrow> \<not> tq_full q \<and> tq_head q = tq_tail q"

definition tq_is_full :: "telemetry_queue \<Rightarrow> bool" where
  "tq_is_full q \<longleftrightarrow> tq_full q"

definition tq_push :: "nat \<Rightarrow> nat \<Rightarrow> byte list \<Rightarrow> telemetry_queue \<Rightarrow> telemetry_queue \<times> (unit, queue_error) result" where
  "tq_push N frame_size frame q =
     (if tq_full q \<or> frame_size < length frame then (q, Err QueueFull)
      else let idx = tq_head q;
               q = q\<lparr>tq_frames := (tq_frames q)[idx := frame @ drop (length frame) (tq_frames q ! idx)]\<rparr>;
               q = q\<lparr>tq_lens := (tq_lens q)[idx := of_nat (length frame)]\<rparr>;
               q = q\<lparr>tq_head := (tq_head q + 1) mod N\<rparr>;
               q = (if tq_head q = tq_tail q then q\<lparr>tq_full := True\<rparr> else q)
           in (q, Ok ()))"

text \<open>\<open>pop_with\<close>: the bytes handed to the callback, or nothing when the queue was empty.\<close>

definition tq_pop_with :: "nat \<Rightarrow> telemetry_queue \<Rightarrow> telemetry_queue \<times> byte list option" where
  "tq_pop_with N q =
     (if tq_is_empty q then (q, None)
      else let idx = tq_tail q;
               len = unat (tq_lens q ! idx);
               frame = take len (tq_frames q ! idx);
               q = q\<lparr>tq_tail := (tq_tail q + 1) mod N\<rparr>;
               q = q\<lparr>tq_full := False\<rparr>
           in (q, Some frame))"

definition tq_len :: "nat \<Rightarrow> telemetry_queue \<Rightarrow> nat" where
  "tq_len N q =
     (if tq_full q then N
      else if tq_tail q \<le> tq_head q then tq_head q - tq_tail q
      else N - (tq_tail q - tq_head q))"

definition tq_remaining_capacity :: "nat \<Rightarrow> telemetry_queue \<Rightarrow> nat" where
  "tq_remaining_capacity N q = N - tq_len N q"

section \<open>Contents\<close>

definition tq_wf :: "nat \<Rightarrow> nat \<Rightarrow> telemetry_queue \<Rightarrow> bool" where
  "tq_wf N frame_size q \<longleftrightarrow>
     length (tq_frames q) = N \<and> length (tq_lens q) = N \<and> tq_head q < N \<and> tq_tail q < N
     \<and> (\<forall>f \<in> set (tq_frames q). length f = frame_size) \<and> (tq_full q \<longrightarrow> tq_head q = tq_tail q)"

definition tq_slot :: "telemetry_queue \<Rightarrow> nat \<Rightarrow> byte list" where
  "tq_slot q i = take (unat (tq_lens q ! i)) (tq_frames q ! i)"

definition tq_contents :: "nat \<Rightarrow> telemetry_queue \<Rightarrow> byte list list" where
  "tq_contents N q = map (\<lambda>k. tq_slot q ((tq_tail q + k) mod N)) [0..<tq_len N q]"

lemma tq_contents_length [simp]: "length (tq_contents N q) = tq_len N q"
  by (simp add: tq_contents_def)

lemma tq_len_le: "tq_wf N fs q \<Longrightarrow> tq_len N q \<le> N"
  by (auto simp: tq_wf_def tq_len_def)

lemma tq_len_0: "tq_wf N fs q \<Longrightarrow> tq_len N q = 0 \<longleftrightarrow> tq_is_empty q"
  by (auto simp: tq_wf_def tq_len_def tq_is_empty_def)

lemma tq_len_N: "tq_wf N fs q \<Longrightarrow> tq_len N q = N \<longleftrightarrow> tq_full q"
  by (auto simp: tq_wf_def tq_len_def)

lemma tq_end: "tq_wf N fs q \<Longrightarrow> (tq_tail q + tq_len N q) mod N = tq_head q"
  by (auto simp: tq_wf_def tq_len_def mod_if)

lemma tq_new_wf: "0 < N \<Longrightarrow> tq_wf N fs (tq_new N fs)"
  by (simp add: tq_wf_def tq_new_def)

lemma tq_new_contents: "tq_contents N (tq_new N fs) = []"
  by (simp add: tq_contents_def tq_len_def tq_new_def)

lemma tq_push_refused:
  "tq_full q \<or> fs < length frame \<Longrightarrow> tq_push N fs frame q = (q, Err QueueFull)"
  by (simp add: tq_push_def)

lemma mod_shift:
  fixes t k l N :: nat
  assumes "(t + k) mod N = (t + l) mod N" "k < N" "l < N"
  shows "k = l"
proof -
  have "k = l" if "(t + k) mod N = (t + l) mod N" "k \<le> l" "l < N" for k l
    using that mod_eq_dvd_iff_nat [of "t + k" "t + l" N] by (auto dest: dvd_imp_le)
  then show ?thesis using assms by (metis nat_le_linear)
qed

lemma tq_push_ok:
  assumes wf: "tq_wf N fs q" and room: "\<not> tq_full q" "length frame \<le> fs" and small: "fs < 2 ^ 16"
  obtains q' where "tq_push N fs frame q = (q', Ok ())" "tq_wf N fs q'" "tq_contents N q' = tq_contents N q @ [frame]"
proof
  let ?q = "q\<lparr>tq_frames := (tq_frames q)[tq_head q := frame @ drop (length frame) (tq_frames q ! tq_head q)],
    tq_lens := (tq_lens q)[tq_head q := of_nat (length frame)], tq_head := (tq_head q + 1) mod N,
    tq_full := (tq_head q + 1) mod N = tq_tail q\<rparr>"
  have h: "tq_head q < N" "tq_tail q < N" "tq_head q < length (tq_frames q)" "tq_head q < length (tq_lens q)"
    using wf by (simp_all add: tq_wf_def)
  show "tq_push N fs frame q = (?q, Ok ())" using room by (simp add: tq_push_def Let_def)
  have "length (tq_frames q ! tq_head q) = fs" using wf nth_mem [OF h(3)] by (auto simp: tq_wf_def)
  then show "tq_wf N fs ?q" using wf room h by (auto simp: tq_wf_def dest: set_update_subset_insert [THEN subsetD])
  have len: "tq_len N ?q = Suc (tq_len N q)"
    using h room(1) by (auto simp: tq_len_def mod_if)
  have lt: "tq_len N q < N" using tq_len_le [OF wf] tq_len_N [OF wf] room(1) by linarith
  have new: "tq_slot ?q (tq_head q) = frame"
    using h room(2) small by (simp add: tq_slot_def unat_of_nat take_bit_nat_eq_self)
  have old: "tq_slot ?q ((tq_tail q + k) mod N) = tq_slot q ((tq_tail q + k) mod N)" if "k < tq_len N q" for k
  proof -
    have "(tq_tail q + k) mod N \<noteq> tq_head q"
      using mod_shift [of "tq_tail q" k N "tq_len N q"] tq_end [OF wf] that lt by auto
    then show ?thesis by (simp add: tq_slot_def)
  qed
  show "tq_contents N ?q = tq_contents N q @ [frame]"
    unfolding tq_contents_def len using old new tq_end [OF wf] by simp
qed

lemma tq_pop_empty: "tq_wf N fs q \<Longrightarrow> tq_contents N q = [] \<Longrightarrow> tq_pop_with N q = (q, None)"
  using tq_len_0 [of N fs q] tq_contents_length [of N q] by (simp add: tq_pop_with_def)

lemma tq_pop_some:
  assumes wf: "tq_wf N fs q" and some: "tq_contents N q \<noteq> []"
  obtains q' where "tq_pop_with N q = (q', Some (hd (tq_contents N q)))" "tq_wf N fs q'"
    "tq_contents N q' = tl (tq_contents N q)"
proof
  let ?q = "q\<lparr>tq_tail := (tq_tail q + 1) mod N, tq_full := False\<rparr>"
  have t: "tq_tail q < N" "tq_head q < N" using wf by (simp_all add: tq_wf_def)
  obtain n where n: "tq_len N q = Suc n" using some by (cases "tq_len N q") (simp_all add: tq_contents_def)
  have "\<not> tq_is_empty q" using n tq_len_0 [OF wf] by simp
  moreover have "hd (tq_contents N q) = tq_slot q (tq_tail q)"
    unfolding tq_contents_def n using t by (simp add: upt_conv_Cons del: upt_Suc)
  ultimately show "tq_pop_with N q = (?q, Some (hd (tq_contents N q)))"
    by (simp add: tq_pop_with_def Let_def tq_slot_def)
  show "tq_wf N fs ?q" using wf by (simp add: tq_wf_def)
  have len: "tq_len N ?q = n" using n wf by (auto simp: tq_len_def tq_wf_def mod_if split: if_splits)
  have "tq_slot ?q i = tq_slot q i" for i by (simp add: tq_slot_def)
  then show "tq_contents N ?q = tl (tq_contents N q)"
    unfolding tq_contents_def len n
    by (simp add: upt_conv_Cons map_Suc_upt [symmetric] mod_add_left_eq del: upt_Suc)
qed


section \<open>The contract of a bounded queue\<close>

datatype queue_call = PushFrame "byte list" | PopFrame

datatype queue_answer = Pushed "(unit, queue_error) result" | Popped "byte list option"

text \<open>The answers of a list of calls.\<close>

primrec answers :: "('s \<Rightarrow> 'c \<Rightarrow> 's \<times> 'a) \<Rightarrow> 's \<Rightarrow> 'c list \<Rightarrow> 's \<times> 'a list" where
  "answers step s [] = (s, [])"
| "answers step s (c # cs) =
     (fst (answers step (fst (step s c)) cs), snd (step s c) # snd (answers step (fst (step s c)) cs))"

text \<open>The abstract queue: a list of at most \<open>N\<close> frames, each of at most \<open>frame_size\<close> bytes.\<close>

fun fifo_step :: "nat \<Rightarrow> nat \<Rightarrow> byte list list \<Rightarrow> queue_call \<Rightarrow> byte list list \<times> queue_answer" where
  "fifo_step N frame_size xs (PushFrame f) =
     (if length xs = N \<or> frame_size < length f then (xs, Pushed (Err QueueFull)) else (xs @ [f], Pushed (Ok ())))"
| "fifo_step N frame_size [] PopFrame = ([], Popped None)"
| "fifo_step N frame_size (x # xs) PopFrame = (xs, Popped (Some x))"

locale bounded_fifo =
  fixes push :: "byte list \<Rightarrow> 'q \<Rightarrow> 'q \<times> (unit, queue_error) result"
    and pop :: "'q \<Rightarrow> 'q \<times> byte list option"
    and inv :: "'q \<Rightarrow> bool"
    and contents :: "'q \<Rightarrow> byte list list"
    and capacity :: nat
    and frame_size :: nat
  assumes push_refused: "inv q \<Longrightarrow> length (contents q) = capacity \<or> frame_size < length f \<Longrightarrow> push f q = (q, Err QueueFull)"
    and push_accepted: "inv q \<Longrightarrow> length (contents q) \<noteq> capacity \<Longrightarrow> length f \<le> frame_size
      \<Longrightarrow> \<exists>q'. push f q = (q', Ok ()) \<and> inv q' \<and> contents q' = contents q @ [f]"
    and pop_none: "inv q \<Longrightarrow> contents q = [] \<Longrightarrow> pop q = (q, None)"
    and pop_some: "inv q \<Longrightarrow> contents q \<noteq> []
      \<Longrightarrow> \<exists>q'. pop q = (q', Some (hd (contents q))) \<and> inv q' \<and> contents q' = tl (contents q)"
begin

fun call_step :: "'q \<Rightarrow> queue_call \<Rightarrow> 'q \<times> queue_answer" where
  "call_step q (PushFrame f) = (let (q, r) = push f q in (q, Pushed r))"
| "call_step q PopFrame = (let (q, r) = pop q in (q, Popped r))"

lemma call_refines:
  assumes "inv q"
  obtains q' where "call_step q c = (q', snd (fifo_step capacity frame_size (contents q) c))"
    "inv q'" "contents q' = fst (fifo_step capacity frame_size (contents q) c)"
proof (cases c)
  case (PushFrame f)
  show thesis
  proof (cases "length (contents q) = capacity \<or> frame_size < length f")
    case True
    then show ?thesis using that [of q] PushFrame push_refused [OF assms] assms by simp
  next
    case False
    then obtain q' where "push f q = (q', Ok ())" "inv q'" "contents q' = contents q @ [f]"
      using push_accepted [OF assms] by (meson not_less)
    then show ?thesis using that [of q'] PushFrame False by simp
  qed
next
  case PopFrame
  show thesis
  proof (cases "contents q")
    case Nil
    then show ?thesis using that [of q] PopFrame pop_none [OF assms] assms by simp
  next
    case (Cons x xs)
    then obtain q' where "pop q = (q', Some x)" "inv q'" "contents q' = xs" using pop_some [OF assms] by auto
    then show ?thesis using that [of q'] PopFrame Cons by simp
  qed
qed

lemma run_refines:
  assumes "inv q"
  shows "inv (fst (answers call_step q cs))
    \<and> snd (answers call_step q cs) = snd (answers (fifo_step capacity frame_size) (contents q) cs)
    \<and> contents (fst (answers call_step q cs)) = fst (answers (fifo_step capacity frame_size) (contents q) cs)"
  using assms
proof (induction cs arbitrary: q)
  case (Cons c cs)
  obtain q' where "call_step q c = (q', snd (fifo_step capacity frame_size (contents q) c))" "inv q'"
    "contents q' = fst (fifo_step capacity frame_size (contents q) c)"
    using call_refines [OF Cons.prems] .
  then show ?case using Cons.IH [of q'] by simp
qed simp

end

text \<open>The default queue of the telemetry task.\<close>

interpretation telemetry: bounded_fifo
  "tq_push TELEMETRY_MAX_QUEUE TELEMETRY_MAX_FRAME" "tq_pop_with TELEMETRY_MAX_QUEUE"
  "tq_wf TELEMETRY_MAX_QUEUE TELEMETRY_MAX_FRAME" "tq_contents TELEMETRY_MAX_QUEUE" TELEMETRY_MAX_QUEUE TELEMETRY_MAX_FRAME
proof
  fix q and f :: "byte list"
  assume "tq_wf TELEMETRY_MAX_QUEUE TELEMETRY_MAX_FRAME q"
    and "length (tq_contents TELEMETRY_MAX_QUEUE q) = TELEMETRY_MAX_QUEUE \<or> TELEMETRY_MAX_FRAME < length f"
  then show "tq_push TELEMETRY_MAX_QUEUE TELEMETRY_MAX_FRAME f q = (q, Err QueueFull)"
    by (simp add: tq_len_N tq_push_refused)
next
  fix q :: telemetry_queue and f :: "byte list"
  assume "tq_wf TELEMETRY_MAX_QUEUE TELEMETRY_MAX_FRAME q"
    and "length (tq_contents TELEMETRY_MAX_QUEUE q) \<noteq> TELEMETRY_MAX_QUEUE" "length f \<le> TELEMETRY_MAX_FRAME"
  then show "\<exists>q'. tq_push TELEMETRY_MAX_QUEUE TELEMETRY_MAX_FRAME f q = (q', Ok ())
      \<and> tq_wf TELEMETRY_MAX_QUEUE TELEMETRY_MAX_FRAME q' \<and> tq_contents TELEMETRY_MAX_QUEUE q' = tq_contents TELEMETRY_MAX_QUEUE q @ [f]"
    by (auto simp: tq_len_N TELEMETRY_MAX_FRAME_def elim!: tq_push_ok [of TELEMETRY_MAX_QUEUE 280 q f])
next
  fix q
  assume "tq_wf TELEMETRY_MAX_QUEUE TELEMETRY_MAX_FRAME q" "tq_contents TELEMETRY_MAX_QUEUE q = []"
  then show "tq_pop_with TELEMETRY_MAX_QUEUE q = (q, None)" by (rule tq_pop_empty)
next
  fix q
  assume "tq_wf TELEMETRY_MAX_QUEUE TELEMETRY_MAX_FRAME q" "tq_contents TELEMETRY_MAX_QUEUE q \<noteq> []"
  then show "\<exists>q'. tq_pop_with TELEMETRY_MAX_QUEUE q = (q', Some (hd (tq_contents TELEMETRY_MAX_QUEUE q)))
      \<and> tq_wf TELEMETRY_MAX_QUEUE TELEMETRY_MAX_FRAME q' \<and> tq_contents TELEMETRY_MAX_QUEUE q' = tl (tq_contents TELEMETRY_MAX_QUEUE q)"
    by (rule tq_pop_some) blast
qed

section \<open>The telemetry task\<close>

text \<open>
  The transport, the formatter and the snapshot are the type variables; \<open>try_send\<close>'s verdict is discarded by
  the source. The flush loop is a partial function: that it returns is a theorem.
\<close>

record ('tx, 'f, 's) telemetry_task =
  tt_tx :: 'tx
  tt_queue :: telemetry_queue
  tt_formatter :: 'f
  tt_last_state :: 's

definition task_new :: "'tx \<Rightarrow> 'f \<Rightarrow> 's \<Rightarrow> ('tx, 'f, 's) telemetry_task" where
  "task_new tx formatter default_snapshot =
     \<lparr>tt_tx = tx, tt_queue = tq_new TELEMETRY_MAX_QUEUE TELEMETRY_MAX_FRAME, tt_formatter = formatter,
      tt_last_state = default_snapshot\<rparr>"

definition task_update_state :: "'s \<Rightarrow> ('tx, 'f, 's) telemetry_task \<Rightarrow> ('tx, 'f, 's) telemetry_task" where
  "task_update_state snapshot t = t\<lparr>tt_last_state := snapshot\<rparr>"

partial_function (option) flush_queue ::
  "('tx \<Rightarrow> byte list \<Rightarrow> 'tx) \<Rightarrow> 'tx \<Rightarrow> telemetry_queue \<Rightarrow> ('tx \<times> telemetry_queue) option" where
  "flush_queue try_send tx q =
     (case tq_pop_with TELEMETRY_MAX_QUEUE q of
        (q, None) \<Rightarrow> Some (tx, q)
      | (q, Some frame) \<Rightarrow> flush_queue try_send (try_send tx frame) q)"

definition tick_and_flush ::
  "('tx \<Rightarrow> byte list \<Rightarrow> 'tx) \<Rightarrow> ('f \<Rightarrow> 's \<Rightarrow> telemetry_queue \<Rightarrow> 'f \<times> telemetry_queue)
   \<Rightarrow> ('tx, 'f, 's) telemetry_task \<Rightarrow> ('tx, 'f, 's) telemetry_task option" where
  "tick_and_flush try_send format_cycle t =
     (let (f, q) = format_cycle (tt_formatter t) (tt_last_state t) (tt_queue t)
      in case flush_queue try_send (tt_tx t) q of
           None \<Rightarrow> None
         | Some (tx, q) \<Rightarrow> Some (t\<lparr>tt_formatter := f, tt_tx := tx, tt_queue := q\<rparr>))"

lemma flush_returns:
  assumes "tq_wf TELEMETRY_MAX_QUEUE TELEMETRY_MAX_FRAME q"
  obtains q' where "flush_queue try_send tx q = Some (fold (\<lambda>f tx. try_send tx f) (tq_contents TELEMETRY_MAX_QUEUE q) tx, q')"
    "tq_wf TELEMETRY_MAX_QUEUE TELEMETRY_MAX_FRAME q'" "tq_contents TELEMETRY_MAX_QUEUE q' = []"
  using assms
proof (induction "tq_contents TELEMETRY_MAX_QUEUE q" arbitrary: q tx thesis)
  case Nil
  then show ?case using telemetry.pop_none [of q] Nil.prems(1) [of q]
    by (simp add: flush_queue.simps [of try_send tx q])
next
  case (Cons f fs)
  obtain q1 where p: "tq_pop_with TELEMETRY_MAX_QUEUE q = (q1, Some f)" "tq_wf TELEMETRY_MAX_QUEUE TELEMETRY_MAX_FRAME q1"
    "tq_contents TELEMETRY_MAX_QUEUE q1 = fs"
    using telemetry.pop_some [of q] Cons.hyps(2) [symmetric] Cons.prems(2) by auto
  obtain q' where "flush_queue try_send (try_send tx f) q1 = Some (fold (\<lambda>f tx. try_send tx f) (tq_contents TELEMETRY_MAX_QUEUE q1) (try_send tx f), q')"
    "tq_wf TELEMETRY_MAX_QUEUE TELEMETRY_MAX_FRAME q'" "tq_contents TELEMETRY_MAX_QUEUE q' = []"
    using Cons.hyps(1) [OF p(3) [symmetric] _ p(2)] by blast
  then show ?case using Cons.prems(1) [of q'] p Cons.hyps(2) [symmetric] by (simp add: flush_queue.simps [of try_send tx q])
qed

section \<open>Properties\<close>

text \<open>C39: The ring is a bounded first-in first-out queue. Over any sequence of pushes and pops from \<open>new\<close>, the
  telemetry ring with its head, tail and full flag answers exactly as a list of at most 32 frames of at most 280
  bytes does: a push is refused with \<open>Full\<close> precisely when 32 frames wait or the frame is too long, a pop
  returns the oldest frame unchanged, and the ring's contents stay the list's.\<close>

theorem telemetry_queue_refines:
  "let q = answers telemetry.call_step (tq_new TELEMETRY_MAX_QUEUE TELEMETRY_MAX_FRAME) calls;
       xs = answers (fifo_step TELEMETRY_MAX_QUEUE TELEMETRY_MAX_FRAME) [] calls
   in snd q = snd xs \<and> tq_contents TELEMETRY_MAX_QUEUE (fst q) = fst xs
      \<and> tq_len TELEMETRY_MAX_QUEUE (fst q) = length (fst xs)
      \<and> tq_remaining_capacity TELEMETRY_MAX_QUEUE (fst q) = TELEMETRY_MAX_QUEUE - length (fst xs)"
proof -
  have "tq_wf TELEMETRY_MAX_QUEUE TELEMETRY_MAX_FRAME (tq_new TELEMETRY_MAX_QUEUE TELEMETRY_MAX_FRAME)"
    by (rule tq_new_wf) (simp add: TELEMETRY_MAX_QUEUE_def)
  from telemetry.run_refines [OF this, of calls] show ?thesis
    unfolding Let_def tq_new_contents tq_remaining_capacity_def by (metis tq_contents_length)
qed

text \<open>A flush drains. Whatever a formatter appended through the queue's operations, \<open>tick_and_flush\<close> returns,
  has handed every queued frame to the transport once and in order, whatever the transport answers, and leaves
  the queue empty.\<close>

lemma flush_drains:
  assumes "tq_wf TELEMETRY_MAX_QUEUE TELEMETRY_MAX_FRAME (snd (format_cycle (tt_formatter t) (tt_last_state t) (tt_queue t)))"
  shows "\<exists>t'. tick_and_flush try_send format_cycle t = Some t'
    \<and> tt_tx t' = fold (\<lambda>f tx. try_send tx f)
        (tq_contents TELEMETRY_MAX_QUEUE (snd (format_cycle (tt_formatter t) (tt_last_state t) (tt_queue t)))) (tt_tx t)
    \<and> tq_contents TELEMETRY_MAX_QUEUE (tt_queue t') = [] \<and> tt_last_state t' = tt_last_state t"
proof -
  obtain f q where fc: "format_cycle (tt_formatter t) (tt_last_state t) (tt_queue t) = (f, q)" by fastforce
  then have "tq_wf TELEMETRY_MAX_QUEUE TELEMETRY_MAX_FRAME q" using assms by simp
  then obtain q' where "flush_queue try_send (tt_tx t) q
      = Some (fold (\<lambda>f tx. try_send tx f) (tq_contents TELEMETRY_MAX_QUEUE q) (tt_tx t), q')"
    "tq_contents TELEMETRY_MAX_QUEUE q' = []"
    using flush_returns [where try_send = try_send and tx = "tt_tx t"] by blast
  then show ?thesis using fc by (simp add: tick_and_flush_def)
qed

lemma flush_drains_witness:
  "\<exists>t'. tick_and_flush (\<lambda>tx f. tx @ [f]) (\<lambda>f s q. (f, fst (tq_push 32 280 [1, 2] q))) (task_new [] () ()) = Some t'
     \<and> tt_tx t' = [[1, 2]]"
proof -
  let ?f = "\<lambda>(f :: unit) (s :: unit) q. (f, fst (tq_push 32 280 [1, 2] q))"
  have n: "tq_wf 32 280 (tq_new 32 280)" by (rule tq_new_wf) simp
  have "\<not> tq_full (tq_new 32 280)" by (simp add: tq_new_def)
  then obtain q' where "tq_push 32 280 [1, 2] (tq_new 32 280) = (q', Ok ())" "tq_wf 32 280 q'"
    "tq_contents 32 q' = tq_contents 32 (tq_new 32 280) @ [[1, 2]]"
    using tq_push_ok [OF n, of "[1, 2]"] by auto
  then show ?thesis
    using flush_drains [of ?f "task_new [] () ()" "\<lambda>tx f. tx @ [f]"]
    by (auto simp: task_new_def TELEMETRY_MAX_QUEUE_def TELEMETRY_MAX_FRAME_def tq_new_contents)
qed

end
