(* ===== verification/Cascade.thy ===== *)
theory Cascade
  imports Kernel
begin

text \<open>
  The multirotor cascade (\<open>control/multirotor.rs\<close>, \<open>control/multirotor/step.rs\<close>): the position loop
  (\<open>control/position.rs\<close>), the velocity loop (\<open>control/velocity.rs\<close>), the attitude loop
  (\<open>control/attitude.rs\<close>) and the rate loop (\<open>control/rate.rs\<close>), with the control-law constants of
  \<open>control/law_invariants.rs\<close>.

  Every operation and its order are the source's f32 operations; the libm functions are the record
  \<open>libm\<close>. The velocity loop wraps its heading error with two \<open>while\<close> loops: they are partial
  functions into \<open>option\<close>, and \<open>None\<close> is a loop that does not end.
\<close>

section \<open>Constants\<close>

definition STANDARD_GRAVITY_MPS2 :: f32 where
  "STANDARD_GRAVITY_MPS2 = f32_lit 981 100"

definition MAX_HORIZONTAL_ACCEL_CMD_MPS2 :: f32 where
  "MAX_HORIZONTAL_ACCEL_CMD_MPS2 = STANDARD_GRAVITY_MPS2"

definition DISARMED_COLLECTIVE_THRESHOLD :: f32 where
  "DISARMED_COLLECTIVE_THRESHOLD = f32_lit 2 100"

definition TILT_COMP_COS_FLOOR :: f32 where
  "TILT_COMP_COS_FLOOR = f_half"

definition RATE_I_LIMIT :: f32 where
  "RATE_I_LIMIT = f32_lit 8 10"

text \<open>\<open>core::f32::consts::PI\<close>\<close>

definition f32_pi :: f32 where
  "f32_pi = 0x40490FDB"

section \<open>Observations\<close>

definition axis_command_default :: axis_command where
  "axis_command_default = \<lparr>ax_roll = f0, ax_pitch = f0, ax_yaw = f0, ax_collective = f0\<rparr>"

definition loop_observation_default :: controller_loop_observation where
  "loop_observation_default =
     \<lparr>lo_p = (f0, f0, f0), lo_i = (f0, f0, f0), lo_d = (f0, f0, f0), lo_feedforward = (f0, f0, f0),
      lo_integrator_before = (f0, f0, f0), lo_integrator_after = (f0, f0, f0),
      lo_integrator_action = (FrozenInactive, FrozenInactive, FrozenInactive),
      lo_saturated = (False, False, False)\<rparr>"

definition setpoint_observation_default :: effective_setpoint_observation where
  "setpoint_observation_default =
     \<lparr>es_position_ned = None, es_velocity_ned = None, es_acceleration_ned = (f0, f0, f0),
      es_attitude = quat_identity, es_angular_rate = (f0, f0, f0), es_collective = f0\<rparr>"

definition from_multirotor :: "multirotor_controller_observation \<Rightarrow> controller_step_observation" where
  "from_multirotor v = \<lparr>cso_multirotor = Some v\<rparr>"

definition inactive_observation :: "vec3 \<Rightarrow> controller_loop_observation" where
  "inactive_observation integrators =
     loop_observation_default\<lparr>lo_integrator_before := integrators, lo_integrator_after := integrators\<rparr>"

definition reset_observation :: "vec3 \<Rightarrow> controller_loop_observation" where
  "reset_observation before =
     loop_observation_default\<lparr>lo_integrator_before := before, lo_integrator_after := (f0, f0, f0),
       lo_integrator_action := (IntegratorReset, IntegratorReset, IntegratorReset)\<rparr>"

section \<open>Position loop\<close>

record position_controller =
  pc_gains :: vec3
  pc_accel_limits :: vec3
  pc_vel_caps :: vec3

definition sqrt_shape :: "libm \<Rightarrow> f32 \<Rightarrow> f32 \<Rightarrow> f32 \<Rightarrow> f32 \<Rightarrow> f32" where
  "sqrt_shape M err p a_max vel_cap =
     (if f32_le a_max f0 \<or> f32_le p f0 then f32_clamp (f32_mul err p) (f32_neg vel_cap) vel_cap
      else let linear_dist = f32_div a_max (f32_mul p p);
               abs_err = f32_abs err;
               raw = (if f32_lt linear_dist abs_err
                      then let inner = f32_mul (f32_mul f2 a_max)
                                         (f32_sub abs_err (f32_mul f_half linear_dist));
                               mag = sqrtf M inner
                           in if f32_le f0 err then mag else f32_neg mag
                      else f32_mul p err)
           in f32_clamp raw (f32_neg vel_cap) vel_cap)"

definition position_step :: "libm \<Rightarrow> position_controller \<Rightarrow> vec3 \<Rightarrow> vec3 \<Rightarrow> vec3" where
  "position_step M c sp cur =
     (sqrt_shape M (f32_sub (ix0 sp) (ix0 cur)) (ix0 (pc_gains c)) (ix0 (pc_accel_limits c)) (ix0 (pc_vel_caps c)),
      sqrt_shape M (f32_sub (ix1 sp) (ix1 cur)) (ix1 (pc_gains c)) (ix1 (pc_accel_limits c)) (ix1 (pc_vel_caps c)),
      sqrt_shape M (f32_sub (ix2 sp) (ix2 cur)) (ix2 (pc_gains c)) (ix2 (pc_accel_limits c)) (ix2 (pc_vel_caps c)))"

section \<open>Attitude loop\<close>

record attitude_controller =
  ac_gains :: vec3
  ac_max_rate_cmd :: f32

definition attitude_step :: "libm \<Rightarrow> attitude_controller \<Rightarrow> quaternion \<Rightarrow> quaternion \<Rightarrow> vec3" where
  "attitude_step M c sp cur =
     (let q_cur_inv = \<lparr>q_w = q_w cur, q_x = f32_neg (q_x cur), q_y = f32_neg (q_y cur), q_z = f32_neg (q_z cur)\<rparr>;
          q_err = quat_normalize M (quat_mul q_cur_inv sp);
          (x, y, z) = (if f32_lt (q_w q_err) f0
                       then (f32_neg (q_x q_err), f32_neg (q_y q_err), f32_neg (q_z q_err))
                       else (q_x q_err, q_y q_err, q_z q_err));
          cap = ac_max_rate_cmd c;
          cmd = (\<lambda>e g. f32_clamp (f32_mul (f32_mul f2 e) g) (f32_neg cap) cap)
      in (cmd x (ix0 (ac_gains c)), cmd y (ix1 (ac_gains c)), cmd z (ix2 (ac_gains c))))"

section \<open>Rate loop\<close>

record rate_loop_state =
  rl_meas_prev :: vec3
  rl_integral :: vec3
  rl_primed :: bool

definition rate_loop_default :: rate_loop_state where
  "rate_loop_default = \<lparr>rl_meas_prev = (f0, f0, f0), rl_integral = (f0, f0, f0), rl_primed = False\<rparr>"

text \<open>The body of the measurement filter and of the axis loop, for one axis.\<close>

definition rate_filter :: "f32 \<Rightarrow> f32 \<Rightarrow> f32 \<Rightarrow> f32" where
  "rate_filter alpha prev cur = f32_add (f32_mul alpha prev) (f32_mul (f32_sub f1 alpha) cur)"

record rate_axis_result =
  ra_out :: f32
  ra_p :: f32
  ra_d :: f32
  ra_integral :: f32
  ra_action :: integrator_action
  ra_saturated :: bool

definition rate_axis ::
  "bool \<Rightarrow> f32 \<Rightarrow> f32 \<Rightarrow> f32 \<Rightarrow> f32 \<Rightarrow> f32 \<Rightarrow> f32 \<Rightarrow> f32 \<Rightarrow> f32 \<Rightarrow> f32 \<Rightarrow> rate_axis_result" where
  "rate_axis primed dt p_gain i_gain d_gain filtered prev integral sp cur =
     (let p_error = f32_sub sp cur;
          p_term = f32_mul p_error p_gain;
          d_term = (if primed \<and> f32_lt f0 dt \<and> f32_lt f0 d_gain
                    then f32_mul (f32_neg (f32_div (f32_sub filtered prev) dt)) d_gain
                    else f0);
          unsat = f32_add (f32_add p_term d_term) integral;
          increment = f32_mul (f32_mul p_error i_gain) dt;
          shrinks = f32_lt (f32_mul increment integral) f0;
          integrates = (f32_lt f0 i_gain \<and> f32_lt f0 dt \<and> (f32_lt (f32_abs unsat) f1 \<or> shrinks));
          integral' = (if integrates
                       then f32_clamp (f32_add integral increment) (f32_neg RATE_I_LIMIT) RATE_I_LIMIT
                       else integral);
          action = (if integrates then Integrated
                    else if f32_lt f0 i_gain \<and> f32_lt f0 dt then FrozenSaturation else FrozenInactive);
          command_unclamped = f32_add (f32_add p_term d_term) integral'
      in \<lparr>ra_out = f32_clamp command_unclamped (f32_neg f1) f1, ra_p = p_term, ra_d = d_term,
          ra_integral = integral', ra_action = action,
          ra_saturated = f32_lt f1 (f32_abs command_unclamped)\<rparr>)"

definition rate_step ::
  "cascade_gains \<Rightarrow> rate_loop_state \<Rightarrow> vec3 \<Rightarrow> vec3 \<Rightarrow> f32
     \<Rightarrow> rate_loop_state \<times> vec3 \<times> controller_loop_observation" where
  "rate_step g s sp cur dt =
     (let alpha = rate_d_lpf_alpha g;
          filt = (rate_filter alpha (ix0 (rl_meas_prev s)) (ix0 cur),
                  rate_filter alpha (ix1 (rl_meas_prev s)) (ix1 cur),
                  rate_filter alpha (ix2 (rl_meas_prev s)) (ix2 cur));
          axis = (\<lambda>ix. rate_axis (rl_primed s) dt (ix (rate_p g)) (ix (rate_i g)) (ix (rate_d g))
                         (ix filt) (ix (rl_meas_prev s)) (ix (rl_integral s)) (ix sp) (ix cur));
          a0 = axis ix0; a1 = axis ix1; a2 = axis ix2;
          integral' = (ra_integral a0, ra_integral a1, ra_integral a2)
      in (\<lparr>rl_meas_prev = filt, rl_integral = integral', rl_primed = True\<rparr>,
          (ra_out a0, ra_out a1, ra_out a2),
          \<lparr>lo_p = (ra_p a0, ra_p a1, ra_p a2), lo_i = integral', lo_d = (ra_d a0, ra_d a1, ra_d a2),
           lo_feedforward = (f0, f0, f0), lo_integrator_before = rl_integral s,
           lo_integrator_after = integral',
           lo_integrator_action = (ra_action a0, ra_action a1, ra_action a2),
           lo_saturated = (ra_saturated a0, ra_saturated a1, ra_saturated a2)\<rparr>))"

section \<open>Velocity loop\<close>

record velocity_loop_state =
  vl_integrator :: vec3
  vl_last_vel_filt :: vec3
  vl_primed :: bool

definition velocity_loop_default :: velocity_loop_state where
  "velocity_loop_default =
     \<lparr>vl_integrator = (f0, f0, f0), vl_last_vel_filt = (f0, f0, f0), vl_primed = False\<rparr>"

record velocity_command =
  vc_collective :: f32
  vc_attitude :: quaternion

text \<open>\<open>while err > PI { err -= 2.0 * PI; }\<close> and \<open>while err < -PI { err += 2.0 * PI; }\<close>\<close>

partial_function (option) wrap_above :: "f32 \<Rightarrow> f32 option" where
  "wrap_above err =
     (if f32_lt f32_pi err then wrap_above (f32_sub err (f32_mul f2 f32_pi)) else Some err)"

partial_function (option) wrap_below :: "f32 \<Rightarrow> f32 option" where
  "wrap_below err =
     (if f32_lt err (f32_neg f32_pi) then wrap_below (f32_add err (f32_mul f2 f32_pi)) else Some err)"

definition wrap_heading_error :: "f32 \<Rightarrow> f32 option" where
  "wrap_heading_error err = Option.bind (wrap_above err) wrap_below"

definition quat_yaw :: "libm \<Rightarrow> quaternion \<Rightarrow> f32" where
  "quat_yaw M q =
     atan2f M (f32_mul f2 (f32_add (f32_mul (q_w q) (q_z q)) (f32_mul (q_x q) (q_y q))))
       (f32_sub f1 (f32_mul f2 (f32_add (f32_mul (q_y q) (q_y q)) (f32_mul (q_z q) (q_z q)))))"

text \<open>The vertical axis: collective, its terms, the filtered velocity and the saturation flag.\<close>

record vertical_result =
  vz_collective :: f32
  vz_p :: f32
  vz_i :: f32
  vz_d :: f32
  vz_ff :: f32
  vz_filt :: f32
  vz_saturated :: bool

definition velocity_vertical ::
  "cascade_gains \<Rightarrow> f32 \<Rightarrow> velocity_loop_state \<Rightarrow> f32 \<Rightarrow> f32 \<Rightarrow> f32 \<Rightarrow> quaternion \<Rightarrow> f32 \<Rightarrow> vertical_result" where
  "velocity_vertical g trim s error_z cur_z accel_z att dt =
     (let max_up = f32_sub f1 trim;
          max_dn = trim;
          alpha = rate_d_lpf_alpha g;
          filt_z = f32_add (f32_mul alpha (ix2 (vl_last_vel_filt s))) (f32_mul (f32_sub f1 alpha) cur_z);
          d_z = (if vl_primed s \<and> f32_lt f0 dt \<and> f32_lt f0 (ix2 (vel_d g))
                 then f32_mul (f32_div (f32_sub filt_z (ix2 (vl_last_vel_filt s))) dt) (ix2 (vel_d g))
                 else f0);
          p_z = f32_mul (f32_neg error_z) (ix2 (vel_p g));
          i_z = f32_mul (f32_neg (ix2 (vl_integrator s))) (ix2 (vel_i g));
          ff_z = f32_mul (f32_mul (f32_neg accel_z) (f32_div trim STANDARD_GRAVITY_MPS2)) (vel_accel_ff g);
          z_correction = f32_clamp (f32_add (f32_add (f32_add p_z i_z) d_z) ff_z) (f32_neg max_dn) max_up;
          z_saturated = (f32_eq z_correction (f32_neg max_dn) \<or> f32_eq z_correction max_up);
          collective_unscaled = f32_add trim z_correction;
          r22 = f32_sub f1 (f32_mul f2 (f32_add (f32_mul (q_x att) (q_x att)) (f32_mul (q_y att) (q_y att))));
          cos_tilt = f32_max r22 TILT_COMP_COS_FLOOR;
          collective_cmd = f32_div collective_unscaled cos_tilt
      in \<lparr>vz_collective = f32_clamp collective_cmd f0 f1, vz_p = p_z, vz_i = i_z, vz_d = d_z,
          vz_ff = ff_z, vz_filt = filt_z, vz_saturated = z_saturated\<rparr>)"

text \<open>The horizontal axes: tilt setpoints with their terms and saturation flags.\<close>

record horizontal_result =
  vh_roll :: f32
  vh_pitch :: f32
  vh_p :: "f32 \<times> f32"
  vh_i :: "f32 \<times> f32"
  vh_ff :: "f32 \<times> f32"
  vh_x_saturated :: bool
  vh_y_saturated :: bool

definition velocity_horizontal ::
  "libm \<Rightarrow> cascade_gains \<Rightarrow> velocity_loop_state \<Rightarrow> f32 \<Rightarrow> f32 \<Rightarrow> vec3 \<Rightarrow> f32 \<Rightarrow> horizontal_result" where
  "velocity_horizontal M g s error_x error_y acc_ff cur_yaw =
     (let p_x = f32_mul error_x (ix0 (vel_p g));
          p_y = f32_mul error_y (ix1 (vel_p g));
          i_x = f32_mul (ix0 (vl_integrator s)) (ix0 (vel_i g));
          i_y = f32_mul (ix1 (vl_integrator s)) (ix1 (vel_i g));
          ff_x = f32_mul (ix0 acc_ff) (vel_accel_ff g);
          ff_y = f32_mul (ix1 acc_ff) (vel_accel_ff g);
          cap = MAX_HORIZONTAL_ACCEL_CMD_MPS2;
          acc_x = f32_clamp (f32_add (f32_add p_x i_x) ff_x) (f32_neg cap) cap;
          acc_y = f32_clamp (f32_add (f32_add p_y i_y) ff_y) (f32_neg cap) cap;
          sin_yaw = sinf M cur_yaw;
          cos_yaw = cosf M cur_yaw;
          acc_fwd = f32_add (f32_mul cos_yaw acc_x) (f32_mul sin_yaw acc_y);
          acc_right = f32_add (f32_mul (f32_neg sin_yaw) acc_x) (f32_mul cos_yaw acc_y);
          pitch_raw = f32_neg (atan2f M acc_fwd STANDARD_GRAVITY_MPS2);
          roll_raw = atan2f M acc_right STANDARD_GRAVITY_MPS2;
          lim = vel_max_roll_pitch g;
          pitch_sp = f32_clamp pitch_raw (f32_neg lim) lim;
          roll_sp = f32_clamp roll_raw (f32_neg lim) lim
      in \<lparr>vh_roll = roll_sp, vh_pitch = pitch_sp, vh_p = (p_x, p_y), vh_i = (i_x, i_y),
          vh_ff = (ff_x, ff_y), vh_x_saturated = (\<not> f32_eq pitch_sp pitch_raw),
          vh_y_saturated = (\<not> f32_eq roll_sp roll_raw)\<rparr>)"


text \<open>The conditional integrators: both horizontal axes freeze while either tilt axis saturates.\<close>

definition velocity_integrate ::
  "f32 \<Rightarrow> vec3 \<Rightarrow> vec3 \<Rightarrow> bool \<Rightarrow> bool
     \<Rightarrow> vec3 \<times> integrator_action \<times> integrator_action \<times> integrator_action" where
  "velocity_integrate dt it err horizontal_saturated z_saturated =
     (if \<not> f32_lt f0 dt then (it, FrozenInactive, FrozenInactive, FrozenInactive)
      else let (ix, iy, ha) =
                 (if \<not> horizontal_saturated
                  then (f32_add (ix0 it) (f32_mul (ix0 err) dt), f32_add (ix1 it) (f32_mul (ix1 err) dt), Integrated)
                  else (ix0 it, ix1 it, FrozenSaturation));
               (iz, za) =
                 (if \<not> z_saturated then (f32_add (ix2 it) (f32_mul (ix2 err) dt), Integrated)
                  else (ix2 it, FrozenSaturation))
           in ((ix, iy, iz), ha, ha, za))"

text \<open>The yaw part of the attitude setpoint: a commanded heading is approached by at most
  \<open>vel_max_yaw_step\<close> a cycle, without one the present yaw is held.\<close>

definition yaw_setpoint :: "libm \<Rightarrow> cascade_gains \<Rightarrow> quaternion \<Rightarrow> f32 \<Rightarrow> f32 option \<Rightarrow> quaternion option" where
  "yaw_setpoint M g att cur_yaw heading =
     (case heading of
        Some target \<Rightarrow>
          map_option (\<lambda>err.
            let applied = f32_add cur_yaw (f32_clamp err (f32_neg (vel_max_yaw_step g)) (vel_max_yaw_step g))
            in quat_from_axis_angle M (f0, f0, f1) applied) (wrap_heading_error (f32_sub target cur_yaw))
      | None \<Rightarrow> Some (quat_normalize M \<lparr>q_w = q_w att, q_x = f0, q_y = f0, q_z = q_z att\<rparr>))"

definition velocity_step ::
  "libm \<Rightarrow> cascade_gains \<Rightarrow> f32 \<Rightarrow> velocity_loop_state \<Rightarrow> vec3 \<Rightarrow> vec3 \<Rightarrow> vec3 \<Rightarrow> quaternion \<Rightarrow> f32 option \<Rightarrow> f32
     \<Rightarrow> (velocity_loop_state \<times> velocity_command \<times> controller_loop_observation) option" where
  "velocity_step M g trim s sp cur acc_ff att heading dt =
     (let error = (f32_sub (ix0 sp) (ix0 cur), f32_sub (ix1 sp) (ix1 cur), f32_sub (ix2 sp) (ix2 cur));
          v = velocity_vertical g trim s (ix2 error) (ix2 cur) (ix2 acc_ff) att dt;
          cur_yaw = quat_yaw M att;
          h = velocity_horizontal M g s (ix0 error) (ix1 error) acc_ff cur_yaw;
          horizontal_saturated = (vh_x_saturated h \<or> vh_y_saturated h);
          (integrator, action) =
            velocity_integrate dt (vl_integrator s) error horizontal_saturated (vz_saturated v);
          roll_pitch_quat = quat_mul (quat_from_axis_angle M (f1, f0, f0) (vh_roll h))
                              (quat_from_axis_angle M (f0, f1, f0) (vh_pitch h))
      in map_option (\<lambda>yaw_quat.
           (\<lparr>vl_integrator = integrator,
             vl_last_vel_filt = (ix0 (vl_last_vel_filt s), ix1 (vl_last_vel_filt s), vz_filt v),
             vl_primed = True\<rparr>,
            \<lparr>vc_collective = vz_collective v,
             vc_attitude = quat_normalize M (quat_mul yaw_quat roll_pitch_quat)\<rparr>,
            \<lparr>lo_p = (fst (vh_p h), snd (vh_p h), vz_p v), lo_i = (fst (vh_i h), snd (vh_i h), vz_i v),
             lo_d = (f0, f0, vz_d v), lo_feedforward = (fst (vh_ff h), snd (vh_ff h), vz_ff v),
             lo_integrator_before = vl_integrator s, lo_integrator_after = integrator,
             lo_integrator_action = action,
             lo_saturated = (horizontal_saturated, horizontal_saturated, vz_saturated v)\<rparr>))
         (yaw_setpoint M g att cur_yaw heading))"

section \<open>Runtime state\<close>

record multirotor_runtime_state =
  mr_velocity_loop :: velocity_loop_state
  mr_rate_loop :: rate_loop_state
  mr_last_vel_sp :: vec3
  mr_vel_sp_primed :: bool
  mr_dt :: f32
  mr_previous_mode :: "control_mode option"
  mr_previous_topology :: "effective_control_topology option"
  mr_last_axis :: axis_command
  mr_axis_primed :: bool

definition multirotor_runtime_default :: multirotor_runtime_state where
  "multirotor_runtime_default =
     \<lparr>mr_velocity_loop = velocity_loop_default, mr_rate_loop = rate_loop_default,
      mr_last_vel_sp = (f0, f0, f0), mr_vel_sp_primed = False, mr_dt = f0, mr_previous_mode = None,
      mr_previous_topology = None, mr_last_axis = axis_command_default, mr_axis_primed = False\<rparr>"

definition mr_set_cycle_interval :: "multirotor_runtime_state \<Rightarrow> f32 \<Rightarrow> multirotor_runtime_state" where
  "mr_set_cycle_interval r interval =
     r\<lparr>mr_dt := (if f32_is_finite interval \<and> f32_lt f0 interval then interval else f0)\<rparr>"

definition mr_reset :: "multirotor_runtime_state \<Rightarrow> multirotor_runtime_state" where
  "mr_reset r =
     r\<lparr>mr_velocity_loop := velocity_loop_default, mr_rate_loop := rate_loop_default,
       mr_last_vel_sp := (f0, f0, f0), mr_vel_sp_primed := False, mr_dt := f0, mr_previous_mode := None,
       mr_previous_topology := None, mr_last_axis := axis_command_default, mr_axis_primed := False\<rparr>"

section \<open>Controller\<close>

record multirotor_controller =
  mc_tuning_identity :: u64
  mc_pos :: position_controller
  mc_gains :: cascade_gains
  mc_hover_thrust :: f32
  mc_att :: attitude_controller

definition from_gains :: "cascade_gains \<Rightarrow> f32 \<Rightarrow> multirotor_controller" where
  "from_gains g hover =
     \<lparr>mc_tuning_identity = controller_tuning_identity g hover,
      mc_pos = \<lparr>pc_gains = pos_p g, pc_accel_limits = pos_accel_limits g, pc_vel_caps = pos_vel_caps g\<rparr>,
      mc_gains = g, mc_hover_thrust = hover,
      mc_att = \<lparr>ac_gains = att_p g, ac_max_rate_cmd = att_max_rate_cmd g\<rparr>\<rparr>"

definition mc_verify_config_binding ::
  "multirotor_controller \<Rightarrow> resolved_config \<Rightarrow> (unit, u64 \<times> u64) result" where
  "mc_verify_config_binding c cfg =
     (let config_identity = cfg_controller_tuning_identity cfg
      in if mc_tuning_identity c \<noteq> config_identity then Err (mc_tuning_identity c, config_identity) else Ok ())"

definition mc_supports_mode :: "control_mode \<Rightarrow> bool" where
  "mc_supports_mode m = (multirotor_mode_capability_of m \<noteq> NoCapability)"

definition vertical_velocity_setpoint ::
  "libm \<Rightarrow> multirotor_controller \<Rightarrow> setpoint \<Rightarrow> state_estimate \<Rightarrow> limits \<Rightarrow> f32 option" where
  "vertical_velocity_setpoint M c sp st lim =
     map_option (\<lambda>vertical. f32_clamp vertical (f32_neg (max_climb_rate lim)) (max_descent_rate lim))
       (case sp_vertical_speed sp of
          Some v \<Rightarrow> Some v
        | None \<Rightarrow>
            map_option (\<lambda>alt.
              let error_ned_z = f32_sub (f32_neg alt) (ix2 (position_ned st))
              in sqrt_shape M error_ned_z (ix2 (pc_gains (mc_pos c))) (ix2 (pc_accel_limits (mc_pos c)))
                   (ix2 (pc_vel_caps (mc_pos c)))) (sp_altitude sp))"

definition attitude_with_heading :: "libm \<Rightarrow> quaternion \<Rightarrow> f32 \<Rightarrow> quaternion" where
  "attitude_with_heading M att_sp heading =
     (let (roll, pitch, _) = quat_to_euler M att_sp;
          qz = quat_from_axis_angle M (f0, f0, f1) heading;
          qy = quat_from_axis_angle M (f0, f1, f0) pitch;
          qx = quat_from_axis_angle M (f1, f0, f0) roll
      in quat_normalize M (quat_mul (quat_mul qz qy) qx))"

section \<open>One cycle\<close>

record prepared_cascade =
  pr_topology :: effective_control_topology
  pr_setpoints :: effective_setpoint_observation
  pr_velocity_loop :: controller_loop_observation

definition acceleration_feedforward :: "multirotor_runtime_state \<Rightarrow> vec3 \<Rightarrow> vec3" where
  "acceleration_feedforward r v =
     (if \<not> mr_vel_sp_primed r \<or> f32_le (mr_dt r) f0 then (f0, f0, f0)
      else (f32_div (f32_sub (ix0 v) (ix0 (mr_last_vel_sp r))) (mr_dt r),
            f32_div (f32_sub (ix1 v) (ix1 (mr_last_vel_sp r))) (mr_dt r),
            f32_div (f32_sub (ix2 v) (ix2 (mr_last_vel_sp r))) (mr_dt r)))"

definition align_topology_state ::
  "multirotor_runtime_state \<Rightarrow> state_estimate \<Rightarrow> effective_control_topology \<Rightarrow> multirotor_runtime_state" where
  "align_topology_state r st topology =
     (if mr_previous_topology r = Some topology then r
      else let r1 = (if mr_previous_topology r = Some UnsupportedTopology
                     then r\<lparr>mr_rate_loop := (mr_rate_loop r)\<lparr>rl_meas_prev := angular_velocity st, rl_primed := False\<rparr>\<rparr>
                     else r);
               r2 = r1\<lparr>mr_vel_sp_primed := False\<rparr>
           in if topology = PositionTopology \<or> topology = VelocityTopology \<or> topology = VerticalTopology
              then r2\<lparr>mr_velocity_loop := (mr_velocity_loop r2)
                        \<lparr>vl_last_vel_filt := velocity_ned st, vl_primed := False\<rparr>\<rparr>
              else r2)"

definition run_velocity_loop ::
  "libm \<Rightarrow> multirotor_controller \<Rightarrow> state_estimate \<Rightarrow> command \<Rightarrow> vec3 \<Rightarrow> prepared_cascade \<Rightarrow> multirotor_runtime_state
     \<Rightarrow> (multirotor_runtime_state \<times> prepared_cascade) option" where
  "run_velocity_loop M c st cmd velocity pr r =
     (let acc = acceleration_feedforward r velocity;
          r1 = r\<lparr>mr_last_vel_sp := velocity, mr_vel_sp_primed := True\<rparr>
      in map_option (\<lambda>(vl, out, obs).
           (r1\<lparr>mr_velocity_loop := vl\<rparr>,
            pr\<lparr>pr_setpoints := (pr_setpoints pr)
                 \<lparr>es_velocity_ned := Some velocity, es_acceleration_ned := acc,
                  es_collective := vc_collective out, es_attitude := vc_attitude out\<rparr>,
               pr_velocity_loop := obs\<rparr>))
         (velocity_step M (mc_gains c) (mc_hover_thrust c) (mr_velocity_loop r1) velocity (velocity_ned st) acc
            (attitude st) (sp_heading (cmd_setpoint cmd)) (mr_dt r1)))"

definition run_vertical_loop ::
  "libm \<Rightarrow> multirotor_controller \<Rightarrow> state_estimate \<Rightarrow> command \<Rightarrow> limits \<Rightarrow> prepared_cascade \<Rightarrow> multirotor_runtime_state
     \<Rightarrow> (multirotor_runtime_state \<times> prepared_cascade) option" where
  "run_vertical_loop M c st cmd lim pr r =
     map_option (\<lambda>(r1, pr1).
       let pr2 = (case sp_heading (cmd_setpoint cmd) of
                    Some heading \<Rightarrow> pr1\<lparr>pr_setpoints := (pr_setpoints pr1)
                      \<lparr>es_attitude := attitude_with_heading M (es_attitude (pr_setpoints pr1)) heading\<rparr>\<rparr>
                  | None \<Rightarrow> pr1)
       in (r1\<lparr>mr_vel_sp_primed := False\<rparr>, pr2))
     (case vertical_velocity_setpoint M c (cmd_setpoint cmd) st lim of
        Some vertical \<Rightarrow>
          map_option (\<lambda>(vl, out, obs).
            (r\<lparr>mr_velocity_loop := vl\<rparr>,
             pr\<lparr>pr_setpoints := (pr_setpoints pr)
                  \<lparr>es_velocity_ned := Some (f0, f0, vertical), es_collective := vc_collective out\<rparr>,
                pr_velocity_loop := obs\<rparr>))
            (velocity_step M (mc_gains c) (mc_hover_thrust c) (mr_velocity_loop r) (f0, f0, vertical)
               (f0, f0, ix2 (velocity_ned st)) (f0, f0, f0) (attitude st) None (mr_dt r))
      | None \<Rightarrow> Some (r, pr))"

definition prepare_cascade ::
  "libm \<Rightarrow> multirotor_controller \<Rightarrow> state_estimate \<Rightarrow> command \<Rightarrow> vehicle_control_mode \<Rightarrow> limits
     \<Rightarrow> effective_control_topology \<Rightarrow> multirotor_runtime_state
     \<Rightarrow> (multirotor_runtime_state \<times> prepared_cascade) option" where
  "prepare_cascade M c st cmd flags lim topology r =
     (let sp = cmd_setpoint cmd;
          pr = \<lparr>pr_topology = topology,
                pr_setpoints = setpoint_observation_default
                  \<lparr>es_attitude := (case sp_attitude sp of Some q \<Rightarrow> q | None \<Rightarrow> quat_identity),
                   es_collective := sp_collective_thrust sp\<rparr>,
                pr_velocity_loop = inactive_observation (vl_integrator (mr_velocity_loop r))\<rparr>
      in case outer_loop flags sp of
           PositionLoop pos \<Rightarrow>
             run_velocity_loop M c st cmd (position_step M (mc_pos c) pos (position_ned st))
               (pr\<lparr>pr_setpoints := (pr_setpoints pr)\<lparr>es_position_ned := Some pos\<rparr>\<rparr>) r
         | VelocityLoop velocity \<Rightarrow> run_velocity_loop M c st cmd velocity pr r
         | NoOuterLoop \<Rightarrow>
             (if flag_control_altitude_enabled flags then run_vertical_loop M c st cmd lim pr r
              else Some (r\<lparr>mr_vel_sp_primed := False\<rparr>, pr)))"

definition apply_automatic_fallback ::
  "multirotor_controller \<Rightarrow> multirotor_runtime_state \<Rightarrow> state_estimate \<Rightarrow> vehicle_control_mode
     \<Rightarrow> prepared_cascade \<Rightarrow> prepared_cascade" where
  "apply_automatic_fallback c r st flags pr =
     (let from_outer_loop = (automatic_fallback_from flags \<in>
            {Some AltitudeHold, Some PositionHold, Some VelocityControl, Some DeviationTracking})
      in if pr_topology pr \<noteq> AttitudeTopology \<or> \<not> from_outer_loop then pr
         else pr\<lparr>pr_setpoints := (pr_setpoints pr)
                \<lparr>es_attitude := attitude st,
                 es_collective := (if mr_axis_primed r then ax_collective (mr_last_axis r) else mc_hover_thrust c)\<rparr>\<rparr>)"

definition record_step ::
  "multirotor_runtime_state \<Rightarrow> command \<Rightarrow> control_mode option \<Rightarrow> effective_control_topology option
     \<Rightarrow> prepared_cascade \<Rightarrow> controller_loop_observation \<Rightarrow> axis_command
     \<Rightarrow> multirotor_runtime_state \<times> controller_step" where
  "record_step r cmd previous_mode previous_topology pr rate_obs axis =
     (r\<lparr>mr_previous_mode := Some (cmd_mode cmd), mr_previous_topology := Some (pr_topology pr),
        mr_last_axis := axis, mr_axis_primed := True\<rparr>,
      \<lparr>cs_axis_command = axis,
       cs_observation = from_multirotor
         \<lparr>mo_previous_mode = previous_mode, mo_current_mode = cmd_mode cmd,
          mo_previous_topology = previous_topology, mo_current_topology = pr_topology pr,
          mo_setpoints = pr_setpoints pr, mo_velocity_loop = pr_velocity_loop pr,
          mo_rate_loop = rate_obs, mo_axis_command = axis\<rparr>\<rparr>)"

definition run_inner_loops ::
  "libm \<Rightarrow> multirotor_controller \<Rightarrow> state_estimate \<Rightarrow> prepared_cascade \<Rightarrow> multirotor_runtime_state
     \<Rightarrow> multirotor_runtime_state \<times> prepared_cascade \<times> axis_command \<times> controller_loop_observation" where
  "run_inner_loops M c st pr r =
     (let rate_sp = attitude_step M (mc_att c) (es_attitude (pr_setpoints pr)) (attitude st);
          (rl, torque, obs) = rate_step (mc_gains c) (mr_rate_loop r) rate_sp (angular_velocity st) (mr_dt r)
      in (r\<lparr>mr_rate_loop := rl\<rparr>,
          pr\<lparr>pr_setpoints := (pr_setpoints pr)\<lparr>es_angular_rate := rate_sp\<rparr>\<rparr>,
          \<lparr>ax_roll = ix0 torque, ax_pitch = ix1 torque, ax_yaw = ix2 torque,
           ax_collective = es_collective (pr_setpoints pr)\<rparr>, obs))"

definition reset_for_zero_thrust ::
  "multirotor_runtime_state \<Rightarrow> command \<Rightarrow> control_mode option \<Rightarrow> effective_control_topology option
     \<Rightarrow> prepared_cascade \<Rightarrow> multirotor_runtime_state \<times> controller_step" where
  "reset_for_zero_thrust r cmd previous_mode previous_topology pr =
     (let rate_before = rl_integral (mr_rate_loop r);
          r1 = r\<lparr>mr_velocity_loop := velocity_loop_default, mr_rate_loop := rate_loop_default,
                 mr_vel_sp_primed := False\<rparr>;
          pr1 = pr\<lparr>pr_topology := ZeroThrust,
                   pr_velocity_loop := (pr_velocity_loop pr)
                     \<lparr>lo_integrator_after := (f0, f0, f0),
                      lo_integrator_action := (IntegratorReset, IntegratorReset, IntegratorReset)\<rparr>\<rparr>;
          axis = axis_command_default\<lparr>ax_collective := es_collective (pr_setpoints pr1)\<rparr>
      in record_step r1 cmd previous_mode previous_topology pr1 (reset_observation rate_before) axis)"

definition reject_unsupported ::
  "multirotor_runtime_state \<Rightarrow> command \<Rightarrow> control_mode option \<Rightarrow> effective_control_topology option
     \<Rightarrow> multirotor_runtime_state \<times> controller_step" where
  "reject_unsupported r cmd previous_mode previous_topology =
     (r\<lparr>mr_previous_mode := Some (cmd_mode cmd), mr_previous_topology := Some UnsupportedTopology,
        mr_last_axis := axis_command_default, mr_axis_primed := True\<rparr>,
      \<lparr>cs_axis_command = axis_command_default,
       cs_observation = from_multirotor
         \<lparr>mo_previous_mode = previous_mode, mo_current_mode = cmd_mode cmd,
          mo_previous_topology = previous_topology, mo_current_topology = UnsupportedTopology,
          mo_setpoints = setpoint_observation_default,
          mo_velocity_loop = inactive_observation (vl_integrator (mr_velocity_loop r)),
          mo_rate_loop = inactive_observation (rl_integral (mr_rate_loop r)),
          mo_axis_command = axis_command_default\<rparr>\<rparr>)"

definition run_step ::
  "libm \<Rightarrow> multirotor_controller \<Rightarrow> multirotor_runtime_state \<Rightarrow> state_estimate \<Rightarrow> command \<Rightarrow> vehicle_control_mode
     \<Rightarrow> limits \<Rightarrow> (multirotor_runtime_state \<times> controller_step) option" where
  "run_step M c r st cmd flags lim =
     (let previous_mode = mr_previous_mode r;
          previous_topology = mr_previous_topology r;
          topology = effective_topology flags (cmd_mode cmd) (cmd_setpoint cmd)
      in if topology = UnsupportedTopology
         then Some (reject_unsupported r cmd previous_mode previous_topology)
         else map_option (\<lambda>(r1, pr0).
                let pr = apply_automatic_fallback c r1 st flags pr0
                in if f32_lt (es_collective (pr_setpoints pr)) DISARMED_COLLECTIVE_THRESHOLD
                   then reset_for_zero_thrust r1 cmd previous_mode previous_topology pr
                   else let (r2, pr2, axis, obs) = run_inner_loops M c st pr r1
                        in record_step r2 cmd previous_mode previous_topology pr2 obs axis)
              (prepare_cascade M c st cmd flags lim topology (align_topology_state r st topology)))"

end
