(* ===== verification/Matrices.thy ===== *)
theory Matrices
  imports Domain
begin

text \<open>
  The fixed-size matrices and the rotations of \<open>math.rs\<close>. A \<open>Matrix<R, C>\<close> is the list of its
  rows; the dimensions the source has as const generics are arguments, and \<open>mat_dim\<close> says a list
  has them. Sums run in the order of the source's loops, starting from zero.

  What the filter relies on: every operation keeps the dimensions, \<open>make_symmetric\<close> leaves the two
  halves equal bit for bit, \<open>floor_diagonal\<close> leaves a finite diagonal of at least the floor, and adding
  to the diagonal keeps the halves equal.
\<close>

type_synonym matrix = "f32 list list"

section \<open>Operations\<close>

definition mat_gen :: "nat \<Rightarrow> nat \<Rightarrow> (nat \<Rightarrow> nat \<Rightarrow> f32) \<Rightarrow> matrix" where
  "mat_gen R C f = map (\<lambda>r. map (f r) [0..<C]) [0..<R]"

definition mat_get :: "matrix \<Rightarrow> nat \<Rightarrow> nat \<Rightarrow> f32" where
  "mat_get m r c = m ! r ! c"

definition mat_set :: "nat \<Rightarrow> nat \<Rightarrow> f32 \<Rightarrow> matrix \<Rightarrow> matrix" where
  "mat_set r c v m = m[r := (m ! r)[c := v]]"

definition mat_zero :: "nat \<Rightarrow> nat \<Rightarrow> matrix" where
  "mat_zero R C = mat_gen R C (\<lambda>r c. f0)"

definition mat_identity :: "nat \<Rightarrow> matrix" where
  "mat_identity N = fold (\<lambda>i. mat_set i i f1) [0..<N] (mat_zero N N)"

definition sym_pair :: "nat \<Rightarrow> nat \<Rightarrow> matrix \<Rightarrow> matrix" where
  "sym_pair r c m =
     (let avg = f32_mul (f32_add (mat_get m r c) (mat_get m c r)) f_half
      in mat_set c r avg (mat_set r c avg m))"

definition make_symmetric :: "nat \<Rightarrow> matrix \<Rightarrow> matrix" where
  "make_symmetric N m = fold (\<lambda>r. fold (\<lambda>c. sym_pair r c) [0..<r]) [0..<N] m"

definition floor_entry :: "f32 \<Rightarrow> nat \<Rightarrow> matrix \<Rightarrow> matrix" where
  "floor_entry fl i m =
     (let d = mat_get m i i
      in if \<not> f32_is_finite d \<or> f32_lt d fl then mat_set i i fl m else m)"

definition floor_diagonal :: "nat \<Rightarrow> f32 \<Rightarrow> matrix \<Rightarrow> matrix" where
  "floor_diagonal N fl m = fold (floor_entry fl) [0..<N] m"

definition mat_t :: "nat \<Rightarrow> nat \<Rightarrow> matrix \<Rightarrow> matrix" where
  "mat_t R C m = mat_gen C R (\<lambda>c r. mat_get m r c)"

definition mat_add :: "nat \<Rightarrow> nat \<Rightarrow> matrix \<Rightarrow> matrix \<Rightarrow> matrix" where
  "mat_add R C a b = mat_gen R C (\<lambda>r c. f32_add (mat_get a r c) (mat_get b r c))"

definition mat_sub :: "nat \<Rightarrow> nat \<Rightarrow> matrix \<Rightarrow> matrix \<Rightarrow> matrix" where
  "mat_sub R C a b = mat_gen R C (\<lambda>r c. f32_sub (mat_get a r c) (mat_get b r c))"

definition mul_scalar :: "nat \<Rightarrow> nat \<Rightarrow> matrix \<Rightarrow> f32 \<Rightarrow> matrix" where
  "mul_scalar R C a s = mat_gen R C (\<lambda>r c. f32_mul (mat_get a r c) s)"

definition dot_product :: "nat \<Rightarrow> (nat \<Rightarrow> f32) \<Rightarrow> (nat \<Rightarrow> f32) \<Rightarrow> f32" where
  "dot_product n a b = fold (\<lambda>k sum. f32_add sum (f32_mul (a k) (b k))) [0..<n] f0"

definition mat_mul :: "nat \<Rightarrow> nat \<Rightarrow> nat \<Rightarrow> matrix \<Rightarrow> matrix \<Rightarrow> matrix" where
  "mat_mul R1 C1 C2 a b =
     mat_gen R1 C2 (\<lambda>r c. dot_product C1 (\<lambda>k. mat_get a r k) (\<lambda>k. mat_get b k c))"

definition to_vec3 :: "matrix \<Rightarrow> vec3" where
  "to_vec3 m = (mat_get m 0 0, mat_get m 1 0, mat_get m 2 0)"

definition skew_symmetric :: "vec3 \<Rightarrow> matrix" where
  "skew_symmetric v =
     mat_set 2 1 (ix0 v) (mat_set 2 0 (f32_neg (ix1 v))
       (mat_set 1 2 (f32_neg (ix0 v)) (mat_set 1 0 (ix2 v)
         (mat_set 0 2 (ix1 v) (mat_set 0 1 (f32_neg (ix2 v)) (mat_zero 3 3))))))"

definition rotate_vector :: "quaternion \<Rightarrow> vec3 \<Rightarrow> vec3" where
  "rotate_vector q v =
     (let qx = q_x q; qy = q_y q; qz = q_z q; qw = q_w q; vx = ix0 v; vy = ix1 v; vz = ix2 v;
          ix = f32_sub (f32_add (f32_mul qw vx) (f32_mul qy vz)) (f32_mul qz vy);
          iy = f32_sub (f32_add (f32_mul qw vy) (f32_mul qz vx)) (f32_mul qx vz);
          iz = f32_sub (f32_add (f32_mul qw vz) (f32_mul qx vy)) (f32_mul qy vx);
          iw = f32_sub (f32_sub (f32_mul (f32_neg qx) vx) (f32_mul qy vy)) (f32_mul qz vz)
      in (f32_sub (f32_add (f32_add (f32_mul ix qw) (f32_mul iw (f32_neg qx))) (f32_mul iy (f32_neg qz)))
            (f32_mul iz (f32_neg qy)),
          f32_sub (f32_add (f32_add (f32_mul iy qw) (f32_mul iw (f32_neg qy))) (f32_mul iz (f32_neg qx)))
            (f32_mul ix (f32_neg qz)),
          f32_sub (f32_add (f32_add (f32_mul iz qw) (f32_mul iw (f32_neg qz))) (f32_mul ix (f32_neg qy)))
            (f32_mul iy (f32_neg qx))))"

definition to_rotation_matrix :: "quaternion \<Rightarrow> matrix" where
  "to_rotation_matrix q =
     (let x2 = f32_add (q_x q) (q_x q); y2 = f32_add (q_y q) (q_y q); z2 = f32_add (q_z q) (q_z q);
          xx = f32_mul (q_x q) x2; xy = f32_mul (q_x q) y2; xz = f32_mul (q_x q) z2;
          yy = f32_mul (q_y q) y2; yz = f32_mul (q_y q) z2; zz = f32_mul (q_z q) z2;
          wx = f32_mul (q_w q) x2; wy = f32_mul (q_w q) y2; wz = f32_mul (q_w q) z2
      in [[f32_sub f1 (f32_add yy zz), f32_sub xy wz, f32_add xz wy],
          [f32_add xy wz, f32_sub f1 (f32_add xx zz), f32_sub yz wx],
          [f32_sub xz wy, f32_add yz wx, f32_sub f1 (f32_add xx yy)]])"

section \<open>Dimensions\<close>

definition mat_dim :: "nat \<Rightarrow> nat \<Rightarrow> matrix \<Rightarrow> bool" where
  "mat_dim R C m \<longleftrightarrow> length m = R \<and> (\<forall>row \<in> set m. length row = C)"

named_theorems mat_dims \<open>operations keep the dimensions\<close>

lemma mat_dim_gen [mat_dims, simp]: "mat_dim R C (mat_gen R C f)"
  by (auto simp: mat_dim_def mat_gen_def)

lemma mat_dim_zero [mat_dims, simp]: "mat_dim R C (mat_zero R C)"
  by (simp add: mat_zero_def)

lemma mat_dim_set [mat_dims]: "mat_dim R C m \<Longrightarrow> mat_dim R C (mat_set r c v m)"
  unfolding mat_dim_def mat_set_def all_set_conv_all_nth
  by (metis length_list_update list_update_beyond not_le_imp_less nth_list_update_eq nth_list_update_neq)

lemma mat_dim_fold:
  assumes "mat_dim R C m" "\<And>x m. mat_dim R C m \<Longrightarrow> mat_dim R C (f x m)"
  shows "mat_dim R C (fold f xs m)"
  using assms(1) by (induction xs arbitrary: m) (simp_all add: assms(2))

lemma mat_dim_identity [mat_dims, simp]: "mat_dim N N (mat_identity N)"
  by (simp add: mat_identity_def mat_dim_fold mat_dim_set)

lemma mat_dim_sym_pair [mat_dims]: "mat_dim R C m \<Longrightarrow> mat_dim R C (sym_pair r c m)"
  by (simp add: sym_pair_def Let_def mat_dim_set)

lemma mat_dim_make_symmetric [mat_dims]: "mat_dim R C m \<Longrightarrow> mat_dim R C (make_symmetric N m)"
  by (simp add: make_symmetric_def mat_dim_fold mat_dim_sym_pair)

lemma mat_dim_floor_entry [mat_dims]: "mat_dim R C m \<Longrightarrow> mat_dim R C (floor_entry fl i m)"
  by (simp add: floor_entry_def Let_def mat_dim_set)

lemma mat_dim_floor_diagonal [mat_dims]: "mat_dim R C m \<Longrightarrow> mat_dim R C (floor_diagonal N fl m)"
  by (simp add: floor_diagonal_def mat_dim_fold mat_dim_floor_entry)

lemma mat_dim_ops [mat_dims, simp]:
  "mat_dim C R (mat_t R C a)" "mat_dim R C (mat_add R C a b)" "mat_dim R C (mat_sub R C a b)"
  "mat_dim R C (mul_scalar R C a s)" "mat_dim R C2 (mat_mul R C C2 a b)"
  by (simp_all add: mat_t_def mat_add_def mat_sub_def mul_scalar_def mat_mul_def)

section \<open>Entries\<close>

lemma mat_get_gen [simp]: "r < R \<Longrightarrow> c < C \<Longrightarrow> mat_get (mat_gen R C f) r c = f r c"
  by (simp add: mat_get_def mat_gen_def)

lemma mat_get_set:
  "mat_dim R C m \<Longrightarrow> r < R \<Longrightarrow> c < C
   \<Longrightarrow> mat_get (mat_set r c v m) i j = (if i = r \<and> j = c then v else mat_get m i j)"
  by (auto simp: mat_dim_def mat_get_def mat_set_def nth_list_update)

lemma mat_eqI:
  assumes "mat_dim R C a" "mat_dim R C b"
    "\<And>r c. r < R \<Longrightarrow> c < C \<Longrightarrow> mat_get a r c = mat_get b r c"
  shows "a = b"
  using assms by (auto simp: mat_dim_def mat_get_def intro!: nth_equalityI)

lemma mat_get_zero [simp]: "r < R \<Longrightarrow> c < C \<Longrightarrow> mat_get (mat_zero R C) r c = f0"
  by (simp add: mat_zero_def)

lemma fold_diagonal_get:
  assumes "mat_dim N N m" "n \<le> N" "i < N" "j < N"
  shows "mat_get (fold (\<lambda>i. mat_set i i (g i)) [0..<n] m) i j
    = (if i = j \<and> i < n then g i else mat_get m i j)"
  using assms(2)
proof (induction n)
  case (Suc n)
  have "mat_dim N N (fold (\<lambda>i. mat_set i i (g i)) [0..<n] m)"
    using assms(1) by (simp add: mat_dim_fold mat_dim_set)
  then show ?case using Suc assms(3,4) by (auto simp: mat_get_set)
qed simp

lemma mat_get_identity [simp]:
  "i < N \<Longrightarrow> j < N \<Longrightarrow> mat_get (mat_identity N) i j = (if i = j then f1 else f0)"
  by (simp add: mat_identity_def fold_diagonal_get [OF mat_dim_zero order_refl])

section \<open>Symmetry\<close>

definition mat_symmetric :: "nat \<Rightarrow> matrix \<Rightarrow> bool" where
  "mat_symmetric N m \<longleftrightarrow> (\<forall>r < N. \<forall>c < N. mat_get m r c = mat_get m c r)"

lemma mat_symmetric_set_diagonal:
  "mat_dim N N m \<Longrightarrow> i < N \<Longrightarrow> mat_symmetric N m \<Longrightarrow> mat_symmetric N (mat_set i i v m)"
  by (auto simp: mat_symmetric_def mat_get_set)

text \<open>The rows below \<open>r\<close> are done, and of row \<open>r\<close> the columns below \<open>c\<close>.\<close>

definition sym_upto :: "nat \<Rightarrow> nat \<Rightarrow> matrix \<Rightarrow> bool" where
  "sym_upto r c m \<longleftrightarrow> (\<forall>i j. j < i \<longrightarrow> i < r \<or> i = r \<and> j < c \<longrightarrow> mat_get m i j = mat_get m j i)"

lemma sym_pair_upto:
  assumes "mat_dim N N m" "c < r" "r < N" "sym_upto r c m"
  shows "sym_upto r (Suc c) (sym_pair r c m)"
proof -
  have "mat_get (sym_pair r c m) i j = (if i = r \<and> j = c \<or> i = c \<and> j = r
      then f32_mul (f32_add (mat_get m r c) (mat_get m c r)) f_half else mat_get m i j)" for i j
    using assms mat_get_set [OF mat_dim_set [OF assms(1)]] mat_get_set [OF assms(1)]
    by (auto simp: sym_pair_def Let_def)
  then show ?thesis using assms(2,4) by (auto simp: sym_upto_def less_Suc_eq)
qed

lemma sym_row_upto:
  assumes "mat_dim N N m" "r < N" "sym_upto r 0 m" "n \<le> r"
  shows "sym_upto r n (fold (\<lambda>c. sym_pair r c) [0..<n] m)
    \<and> mat_dim N N (fold (\<lambda>c. sym_pair r c) [0..<n] m)"
  using assms(4)
proof (induction n)
  case (Suc n)
  then have "sym_upto r n (fold (\<lambda>c. sym_pair r c) [0..<n] m)"
    "mat_dim N N (fold (\<lambda>c. sym_pair r c) [0..<n] m)" by simp_all
  then show ?case using sym_pair_upto [of N _ n r] Suc.prems assms(2) by (simp add: mat_dim_sym_pair)
qed (use assms in simp)

lemma sym_rows_upto:
  assumes "mat_dim N N m" "n \<le> N"
  shows "sym_upto n 0 (fold (\<lambda>r. fold (\<lambda>c. sym_pair r c) [0..<r]) [0..<n] m)
    \<and> mat_dim N N (fold (\<lambda>r. fold (\<lambda>c. sym_pair r c) [0..<r]) [0..<n] m)"
  using assms(2)
proof (induction n)
  case 0
  then show ?case using assms by (simp add: sym_upto_def)
next
  case (Suc n)
  let ?m = "fold (\<lambda>r. fold (\<lambda>c. sym_pair r c) [0..<r]) [0..<n] m"
  have "sym_upto n n (fold (\<lambda>c. sym_pair n c) [0..<n] ?m)
      \<and> mat_dim N N (fold (\<lambda>c. sym_pair n c) [0..<n] ?m)"
    using Suc by (intro sym_row_upto) auto
  moreover have "sym_upto n n m' \<Longrightarrow> sym_upto (Suc n) 0 m'" for m'
    by (auto simp: sym_upto_def less_Suc_eq)
  ultimately show ?case by simp
qed

lemma make_symmetric_symmetric:
  assumes "mat_dim N N m" shows "mat_symmetric N (make_symmetric N m)"
proof -
  have up: "sym_upto N 0 (make_symmetric N m)"
    using sym_rows_upto [OF assms order_refl] by (simp only: make_symmetric_def)
  have "mat_get (make_symmetric N m) r c = mat_get (make_symmetric N m) c r" if "r < N" "c < N" for r c
    using up that unfolding sym_upto_def by (cases r c rule: linorder_cases) metis+
  then show ?thesis unfolding mat_symmetric_def by blast
qed

lemma floor_entry_get:
  assumes "mat_dim N N m" "k < N"
  shows "mat_get (floor_entry fl k m) i j
   = (if i = k \<and> j = k \<and> (\<not> f32_is_finite (mat_get m k k) \<or> f32_lt (mat_get m k k) fl) then fl else mat_get m i j)"
  unfolding floor_entry_def Let_def
  by (cases "\<not> f32_is_finite (mat_get m k k) \<or> f32_lt (mat_get m k k) fl")
    (simp_all only: if_True if_False simp_thms mat_get_set [OF assms assms(2)])

lemma floor_fold_get:
  assumes "mat_dim N N m" "n \<le> N"
  shows "mat_get (fold (floor_entry fl) [0..<n] m) i j
    = (if i = j \<and> i < n \<and> (\<not> f32_is_finite (mat_get m i i) \<or> f32_lt (mat_get m i i) fl) then fl else mat_get m i j)"
  using assms(2)
proof (induction n arbitrary: i j)
  case (Suc n)
  have d: "mat_dim N N (fold (floor_entry fl) [0..<n] m)"
    using assms(1) by (simp add: mat_dim_fold mat_dim_floor_entry)
  have "mat_get (floor_entry fl n (fold (floor_entry fl) [0..<n] m)) i j
    = (if i = n \<and> j = n \<and> (\<not> f32_is_finite (mat_get m n n) \<or> f32_lt (mat_get m n n) fl) then fl
       else mat_get (fold (floor_entry fl) [0..<n] m) i j)"
    using Suc floor_entry_get [OF d, of n] by simp
  then show ?case using Suc by (auto simp: less_Suc_eq)
qed simp

lemma floor_diagonal_get:
  "mat_dim N N m \<Longrightarrow> mat_get (floor_diagonal N fl m) i j
    = (if i = j \<and> i < N \<and> (\<not> f32_is_finite (mat_get m i i) \<or> f32_lt (mat_get m i i) fl) then fl else mat_get m i j)"
  unfolding floor_diagonal_def by (rule floor_fold_get [OF _ order_refl])

lemma floor_diagonal_symmetric:
  "mat_dim N N m \<Longrightarrow> mat_symmetric N m \<Longrightarrow> mat_symmetric N (floor_diagonal N fl m)"
  unfolding mat_symmetric_def by (metis floor_diagonal_get)

lemma floor_diagonal_bound:
  assumes "mat_dim N N m" "i < N" "f32_is_finite fl"
  shows "f32_is_finite (mat_get (floor_diagonal N fl m) i i)" "f32_le fl (mat_get (floor_diagonal N fl m) i i)"
proof -
  have "f32_is_finite (mat_get m i i) \<Longrightarrow> \<not> f32_lt (mat_get m i i) fl \<Longrightarrow> f32_le fl (mat_get m i i)"
    using assms(3) by (simp add: f32_not_lt f32_finite_not_nan)
  then show "f32_is_finite (mat_get (floor_diagonal N fl m) i i)" "f32_le fl (mat_get (floor_diagonal N fl m) i i)"
    using assms by (simp_all add: floor_diagonal_get f32_le_refl f32_finite_not_nan)
qed

end
