(* ===== verification/Ekf.thy ===== *)
theory Ekf
  imports Cascade Matrices
begin

text \<open>
  The error-state Kalman filter: its state and tuning (\<open>ekf.rs\<close>), the inertial prediction
  (\<open>ekf/predict.rs\<close>) with its covariance widening (\<open>ekf/imu_gap.rs\<close>, \<open>ekf/accel_clip.rs\<close>), the scalar
  and heading updates (\<open>ekf/scalar.rs\<close>), the GNSS, barometer and magnetometer entry points
  (\<open>ekf/update.rs\<close>), the aiding ages and the estimate (\<open>ekf/validity.rs\<close>) and the cycle \<open>observe\<close>.

  A method on \<open>&mut EkfState\<close> is a function to the new state. The libm functions are parameters:
  the record \<open>libm\<close> and \<open>pow\<close>, the \<open>powf\<close> the pressure altitude uses. The magnetometer update wraps
  its innovation with two \<open>while\<close> loops, those of the velocity loop; \<open>None\<close> is a loop that does not end.
\<close>

section \<open>Constants\<close>

definition STATE_DIM :: nat where "STATE_DIM = 15"

definition IDX_POS :: nat where "IDX_POS = 0"
definition IDX_VEL :: nat where "IDX_VEL = 3"
definition IDX_ATT :: nat where "IDX_ATT = 6"
definition IDX_GB :: nat where "IDX_GB = 9"
definition IDX_AB :: nat where "IDX_AB = 12"

definition COV_VAR_FLOOR :: f32 where "COV_VAR_FLOOR = f32_lit 1 1000000000"

definition BARO_DATUM_INIT_VAR :: f32 where "BARO_DATUM_INIT_VAR = f32_lit 4 1"

definition BARO_DATUM_PROCESS_VAR :: f32 where "BARO_DATUM_PROCESS_VAR = f32_lit 1 10000"

definition ACCEL_CLIP_MPS2 :: f32 where "ACCEL_CLIP_MPS2 = f32_mul (f32_lit 16 1) (f32_lit 980665 100000)"

definition ACCEL_CLIP_EXCESS_SIGMA :: f32 where "ACCEL_CLIP_EXCESS_SIGMA = f32_lit 500 1"

definition ACCEL_CLIP_CEILING_S :: f32 where "ACCEL_CLIP_CEILING_S = f1"

definition IMU_GAP_RATE_SIGMA :: f32 where "IMU_GAP_RATE_SIGMA = f_half"

definition IMU_GAP_ACCEL_SIGMA :: f32 where "IMU_GAP_ACCEL_SIGMA = f32_lit 5 1"

definition IMU_GAP_CEILING_S :: f32 where "IMU_GAP_CEILING_S = f32_lit 10 1"

definition AGE_SATURATION_S :: f32 where "AGE_SATURATION_S = f32_lit 10000 1"

definition GNSS_POS_AIDING_TIMEOUT_S :: f32 where "GNSS_POS_AIDING_TIMEOUT_S = f32_lit 5 1"

definition GNSS_VEL_AIDING_TIMEOUT_S :: f32 where "GNSS_VEL_AIDING_TIMEOUT_S = f32_lit 5 1"

definition BARO_AIDING_TIMEOUT_S :: f32 where "BARO_AIDING_TIMEOUT_S = f32_lit 5 1"

definition POSITION_COV_BOUND_M2 :: f32 where "POSITION_COV_BOUND_M2 = f32_lit 50 1"

definition VELOCITY_COV_BOUND_M2S2 :: f32 where "VELOCITY_COV_BOUND_M2S2 = f32_lit 25 1"

text \<open>\<open>f32::MIN\<close>, the most negative finite value.\<close>

definition f32_MIN :: f32 where "f32_MIN = 0xFF7FFFFF"

definition EKF_ALGORITHM_ID :: u64 where "EKF_ALGORITHM_ID = 0x4554494D454B4638"

section \<open>Configuration and state\<close>

record ekf_config =
  process_noise_gyro :: f32
  process_noise_accel :: f32
  process_noise_gyro_bias :: f32
  process_noise_accel_bias :: f32
  gyro_bias_limit :: f32
  accel_bias_limit :: f32
  meas_noise_gnss_pos :: f32
  meas_noise_gnss_vel :: f32
  meas_noise_baro :: f32
  meas_noise_mag :: f32
  innovation_gate :: f32
  mag_inclination_decay_start :: f32
  mag_inclination_limit :: f32
  mag_field_min :: f32
  mag_field_max :: f32

definition ekf_config_default :: ekf_config where
  "ekf_config_default =
     \<lparr>process_noise_gyro = f32_lit 1 1000, process_noise_accel = f32_lit 1 100,
      process_noise_gyro_bias = f32_lit 1 1000000, process_noise_accel_bias = f32_lit 1 100000,
      gyro_bias_limit = f32_lit 1 10, accel_bias_limit = f_half,
      meas_noise_gnss_pos = f_half, meas_noise_gnss_vel = f32_lit 1 10, meas_noise_baro = f2,
      meas_noise_mag = f32_lit 5 100, innovation_gate = f32_lit 5 1,
      mag_inclination_decay_start = f32_lit 80 100, mag_inclination_limit = f32_lit 95 100,
      mag_field_min = f32_lit 20 1, mag_field_max = f32_lit 70 1\<rparr>"

record ekf_state =
  ek_quat :: quaternion
  ek_pos :: vec3
  ek_vel :: vec3
  ek_gyro_bias :: vec3
  ek_accel_bias :: vec3
  ek_last_gyro_body :: vec3
  ek_p_cov :: matrix
  ek_initialized :: bool
  ek_quat_fault :: bool
  ek_baro_ref :: "f32 option"
  ek_baro_ref_var :: f32
  ek_gnss_pos_age_s :: f32
  ek_gnss_vel_age_s :: f32
  ek_baro_age_s :: f32
  ek_imu_age_s :: f32
  ek_accel_clip_s :: f32

definition initial_covariance :: matrix where
  "initial_covariance =
     fold (\<lambda>i p. mat_set (IDX_AB + i) (IDX_AB + i) (f32_lit 4 100)
                   (mat_set (IDX_GB + i) (IDX_GB + i) (f32_lit 4 10000) p)) [0..<3]
       (mul_scalar STATE_DIM STATE_DIM (mat_identity STATE_DIM) (f32_lit 1 10))"

definition ekf_new :: ekf_state where
  "ekf_new =
     \<lparr>ek_quat = quat_identity, ek_pos = (f0, f0, f0), ek_vel = (f0, f0, f0),
      ek_gyro_bias = (f0, f0, f0), ek_accel_bias = (f0, f0, f0), ek_last_gyro_body = (f0, f0, f0),
      ek_p_cov = initial_covariance, ek_initialized = False, ek_quat_fault = False,
      ek_baro_ref = None, ek_baro_ref_var = f0,
      ek_gnss_pos_age_s = AGE_SATURATION_S, ek_gnss_vel_age_s = AGE_SATURATION_S,
      ek_baro_age_s = AGE_SATURATION_S, ek_imu_age_s = f0, ek_accel_clip_s = f0\<rparr>"

definition ekf_init :: "vec3 \<Rightarrow> vec3 \<Rightarrow> quaternion \<Rightarrow> ekf_state \<Rightarrow> ekf_state" where
  "ekf_init pos vel quat st =
     st\<lparr>ek_pos := pos, ek_vel := vel, ek_quat := quat, ek_gyro_bias := (f0, f0, f0),
        ek_accel_bias := (f0, f0, f0), ek_p_cov := initial_covariance, ek_initialized := True,
        ek_quat_fault := False, ek_baro_ref := None, ek_baro_ref_var := f0,
        ek_gnss_pos_age_s := AGE_SATURATION_S, ek_gnss_vel_age_s := AGE_SATURATION_S,
        ek_baro_age_s := AGE_SATURATION_S, ek_imu_age_s := f0, ek_accel_clip_s := f0\<rparr>"

definition ekf_reset :: "ekf_state \<Rightarrow> ekf_state" where
  "ekf_reset st = ekf_new"

definition sanitize_quat :: "libm \<Rightarrow> quaternion \<Rightarrow> ekf_state \<Rightarrow> ekf_state \<times> quaternion" where
  "sanitize_quat M q st =
     (let q1 = quat_normalize M q
      in if \<not> quat_is_normalized q1 quat_norm_eps
         then (st\<lparr>ek_quat_fault := True\<rparr>, quat_identity) else (st, q1))"

definition ekf_set_state :: "state_estimate \<Rightarrow> ekf_state \<Rightarrow> ekf_state" where
  "ekf_set_state e st =
     st\<lparr>ek_quat := attitude e, ek_last_gyro_body := angular_velocity e, ek_pos := position_ned e,
        ek_vel := velocity_ned e,
        ek_initialized := flag_contains (valid_flags e) (ATTITUDE OR ANGULAR_RATE OR POSITION OR VELOCITY)\<rparr>"

section \<open>Covariance widening\<close>

text \<open>The loop both wideners run: add to the three diagonal entries of a block.\<close>

definition widen_block :: "nat \<Rightarrow> f32 \<Rightarrow> matrix \<Rightarrow> matrix" where
  "widen_block b added p = fold (\<lambda>i p. mat_set i i (f32_add (mat_get p i i) added) p) [b..<b + 3] p"

definition widen_for_imu_gap :: "f32 \<Rightarrow> ekf_state \<Rightarrow> ekf_state" where
  "widen_for_imu_gap dt st =
     (let gap_s = f32_min (f32_sub (ek_imu_age_s st) dt) IMU_GAP_CEILING_S;
          st1 = st\<lparr>ek_imu_age_s := f0\<rparr>
      in if f32_le gap_s f0 then st1
         else let att_var = f32_mul (f32_mul IMU_GAP_RATE_SIGMA gap_s) (f32_mul IMU_GAP_RATE_SIGMA gap_s);
                  vel_var = f32_mul (f32_mul IMU_GAP_ACCEL_SIGMA gap_s) (f32_mul IMU_GAP_ACCEL_SIGMA gap_s);
                  pos_sigma = f32_mul (f32_mul (f32_mul f_half IMU_GAP_ACCEL_SIGMA) gap_s) gap_s
              in st1\<lparr>ek_p_cov := widen_block IDX_POS (f32_mul pos_sigma pos_sigma)
                       (widen_block IDX_VEL vel_var (widen_block IDX_ATT att_var (ek_p_cov st1)))\<rparr>)"

definition clip_vel_var :: "f32 \<Rightarrow> f32" where
  "clip_vel_var t = f32_mul (f32_mul ACCEL_CLIP_EXCESS_SIGMA t) (f32_mul ACCEL_CLIP_EXCESS_SIGMA t)"

definition clip_pos_var :: "f32 \<Rightarrow> f32" where
  "clip_pos_var t = f32_mul (f32_mul (clip_vel_var t) (f32_mul f_half t)) (f32_mul f_half t)"

definition accel_clipped :: "vec3 \<Rightarrow> bool" where
  "accel_clipped a \<longleftrightarrow> (\<exists>x \<in> set [ix0 a, ix1 a, ix2 a]. f32_le ACCEL_CLIP_MPS2 (f32_abs x))"

definition widen_for_accel_clip :: "vec3 \<Rightarrow> f32 \<Rightarrow> ekf_state \<Rightarrow> ekf_state" where
  "widen_for_accel_clip a dt st =
     (if \<not> accel_clipped a then st\<lparr>ek_accel_clip_s := f0\<rparr>
      else let before_s = ek_accel_clip_s st;
               after_s = f32_min (f32_add before_s dt) ACCEL_CLIP_CEILING_S;
               vel_added = f32_sub (clip_vel_var after_s) (clip_vel_var before_s);
               pos_added = f32_sub (clip_pos_var after_s) (clip_pos_var before_s)
           in st\<lparr>ek_accel_clip_s := after_s,
                 ek_p_cov := widen_block IDX_POS pos_added (widen_block IDX_VEL vel_added (ek_p_cov st))\<rparr>)"

section \<open>Prediction\<close>

text \<open>\<open>is_valid\<close> of the unit newtypes is \<open>is_finite\<close>.\<close>

definition vec3_finite :: "vec3 \<Rightarrow> bool" where
  "vec3_finite v \<longleftrightarrow> f32_is_finite (ix0 v) \<and> f32_is_finite (ix1 v) \<and> f32_is_finite (ix2 v)"

definition imu_is_finite :: "imu_data \<Rightarrow> bool" where
  "imu_is_finite imu \<longleftrightarrow> vec3_finite (gyro imu) \<and> vec3_finite (accel imu)"

text \<open>\<open>for r in 0..3 { for c in 0..3 { f.set(br + r, bc + c, g(r, c)) } }\<close>\<close>

definition set_block3 :: "nat \<Rightarrow> nat \<Rightarrow> (nat \<Rightarrow> nat \<Rightarrow> f32) \<Rightarrow> matrix \<Rightarrow> matrix" where
  "set_block3 br bc g m = fold (\<lambda>r. fold (\<lambda>c. mat_set (br + r) (bc + c) (g r c)) [0..<3]) [0..<3] m"

definition transition_matrix :: "matrix \<Rightarrow> matrix \<Rightarrow> f32 \<Rightarrow> matrix" where
  "transition_matrix skew r_mat dt =
     (let f = mat_set (IDX_POS + 2) (IDX_VEL + 2) dt
                (mat_set (IDX_POS + 1) (IDX_VEL + 1) dt
                  (mat_set IDX_POS IDX_VEL dt (mat_identity STATE_DIM)));
          f = set_block3 IDX_VEL IDX_ATT (\<lambda>r c. f32_mul (f32_neg (mat_get skew r c)) dt) f;
          f = set_block3 IDX_VEL IDX_AB (\<lambda>r c. f32_mul (f32_neg (mat_get r_mat r c)) dt) f
      in set_block3 IDX_ATT IDX_GB (\<lambda>r c. f32_mul (f32_neg (mat_get r_mat r c)) dt) f)"

definition set_diagonal3 :: "nat \<Rightarrow> f32 \<Rightarrow> matrix \<Rightarrow> matrix" where
  "set_diagonal3 b v m = fold (\<lambda>i. mat_set (b + i) (b + i) v) [0..<3] m"

definition process_noise :: "ekf_config \<Rightarrow> f32 \<Rightarrow> matrix" where
  "process_noise cfg dt =
     set_diagonal3 IDX_AB (f32_mul (process_noise_accel_bias cfg) dt)
       (set_diagonal3 IDX_GB (f32_mul (process_noise_gyro_bias cfg) dt)
         (set_diagonal3 IDX_ATT (f32_mul (f32_mul (process_noise_gyro cfg) dt) dt)
           (set_diagonal3 IDX_VEL (f32_mul (f32_mul (process_noise_accel cfg) dt) dt)
             (set_diagonal3 IDX_POS (f32_lit 1 1000) (mat_zero STATE_DIM STATE_DIM)))))"

definition propagate_covariance :: "ekf_config \<Rightarrow> matrix \<Rightarrow> f32 \<Rightarrow> matrix \<Rightarrow> matrix" where
  "propagate_covariance cfg f dt p =
     (let fp = mat_mul STATE_DIM STATE_DIM STATE_DIM f p;
          fpft = mat_mul STATE_DIM STATE_DIM STATE_DIM fp (mat_t STATE_DIM STATE_DIM f)
      in make_symmetric STATE_DIM (mat_add STATE_DIM STATE_DIM fpft (process_noise cfg dt)))"

definition delta_quat :: "libm \<Rightarrow> vec3 \<Rightarrow> f32 \<Rightarrow> quaternion" where
  "delta_quat M w dt =
     (let angle_mag = sqrtf M (f32_add (f32_add (f32_mul (ix0 w) (ix0 w)) (f32_mul (ix1 w) (ix1 w)))
                        (f32_mul (ix2 w) (ix2 w)))
      in if f32_lt (f32_lit 1 1000000) angle_mag
         then quat_from_axis_angle M
                (f32_div (ix0 w) angle_mag, f32_div (ix1 w) angle_mag, f32_div (ix2 w) angle_mag)
                (f32_mul angle_mag dt)
         else quat_identity)"

definition vec3_sub :: "vec3 \<Rightarrow> vec3 \<Rightarrow> vec3" where
  "vec3_sub a b = (f32_sub (ix0 a) (ix0 b), f32_sub (ix1 a) (ix1 b), f32_sub (ix2 a) (ix2 b))"

text \<open>\<open>p + v * dt + 0.5 * a * dt * dt\<close> and \<open>v + a * dt\<close>\<close>

definition integrate_pos :: "f32 \<Rightarrow> f32 \<Rightarrow> f32 \<Rightarrow> f32 \<Rightarrow> f32" where
  "integrate_pos dt p v a = f32_add (f32_add p (f32_mul v dt)) (f32_mul (f32_mul (f32_mul f_half a) dt) dt)"

definition integrate_vel :: "f32 \<Rightarrow> f32 \<Rightarrow> f32 \<Rightarrow> f32" where
  "integrate_vel dt v a = f32_add v (f32_mul a dt)"

definition propagate :: "libm \<Rightarrow> ekf_config \<Rightarrow> imu_data \<Rightarrow> f32 \<Rightarrow> ekf_state \<Rightarrow> ekf_state" where
  "propagate M cfg imu dt st =
     (let gyro_corr = vec3_sub (gyro imu) (ek_gyro_bias st);
          accel_corr = vec3_sub (accel imu) (ek_accel_bias st);
          earth = rotate_vector (ek_quat st) accel_corr;
          net = (ix0 earth, ix1 earth, f32_add (ix2 earth) (f32_lit 981 100));
          p = ek_pos st; v = ek_vel st;
          st1 = st\<lparr>ek_last_gyro_body := gyro_corr,
                   ek_pos := (integrate_pos dt (ix0 p) (ix0 v) (ix0 net), integrate_pos dt (ix1 p) (ix1 v) (ix1 net),
                              integrate_pos dt (ix2 p) (ix2 v) (ix2 net)),
                   ek_vel := (integrate_vel dt (ix0 v) (ix0 net), integrate_vel dt (ix1 v) (ix1 net),
                              integrate_vel dt (ix2 v) (ix2 net))\<rparr>;
          (st2, q) = sanitize_quat M (quat_mul (ek_quat st1) (delta_quat M gyro_corr dt)) st1;
          f = transition_matrix (skew_symmetric earth) (to_rotation_matrix q) dt
      in st2\<lparr>ek_quat := q, ek_p_cov := propagate_covariance cfg f dt (ek_p_cov st2)\<rparr>)"

definition predict_state :: "libm \<Rightarrow> ekf_config \<Rightarrow> imu_data \<Rightarrow> f32 \<Rightarrow> ekf_state \<Rightarrow> ekf_state" where
  "predict_state M cfg imu dt st =
     (if \<not> ek_initialized st then st
      else if \<not> f32_is_finite dt \<or> f32_le dt f0 then st
      else if \<not> imu_is_finite imu then st
      else propagate M cfg imu dt (widen_for_accel_clip (accel imu) dt (widen_for_imu_gap dt st)))"

section \<open>Scalar updates\<close>

definition joseph_scalar_cov_update :: "f32 list \<Rightarrow> nat \<Rightarrow> f32 \<Rightarrow> matrix \<Rightarrow> matrix" where
  "joseph_scalar_cov_update k h_idx r_noise p =
     (let a = fold (\<lambda>r. mat_set r h_idx (f32_sub (if r = h_idx then f1 else f0) (k ! r))) [0..<STATE_DIM]
                (mat_identity STATE_DIM);
          ap = mat_mul STATE_DIM STATE_DIM STATE_DIM a p;
          p_new = mat_mul STATE_DIM STATE_DIM STATE_DIM ap (mat_t STATE_DIM STATE_DIM a);
          p_new = mat_gen STATE_DIM STATE_DIM
                    (\<lambda>r c. f32_add (mat_get p_new r c) (f32_mul (f32_mul (k ! r) r_noise) (k ! c)))
      in floor_diagonal STATE_DIM COV_VAR_FLOOR (make_symmetric STATE_DIM p_new))"

definition clamp3 :: "f32 \<Rightarrow> vec3 \<Rightarrow> vec3" where
  "clamp3 l v = (f32_clamp (ix0 v) (f32_neg l) l, f32_clamp (ix1 v) (f32_neg l) l, f32_clamp (ix2 v) (f32_neg l) l)"

definition clamp_biases :: "ekf_config \<Rightarrow> ekf_state \<Rightarrow> ekf_state" where
  "clamp_biases cfg st =
     st\<lparr>ek_gyro_bias := clamp3 (gyro_bias_limit cfg) (ek_gyro_bias st),
        ek_accel_bias := clamp3 (accel_bias_limit cfg) (ek_accel_bias st)\<rparr>"

definition gain_vector :: "matrix \<Rightarrow> nat \<Rightarrow> f32 \<Rightarrow> f32 list" where
  "gain_vector p idx s = map (\<lambda>i. f32_mul (mat_get p i idx) (f32_div f1 s)) [0..<STATE_DIM]"

text \<open>\<open>v.x + k[b] * innov\<close> and its siblings\<close>

definition corrected :: "f32 list \<Rightarrow> nat \<Rightarrow> f32 \<Rightarrow> vec3 \<Rightarrow> vec3" where
  "corrected k b innov v =
     (f32_add (ix0 v) (f32_mul (k ! b) innov), f32_add (ix1 v) (f32_mul (k ! (b + 1)) innov),
      f32_add (ix2 v) (f32_mul (k ! (b + 2)) innov))"

definition correct_attitude :: "libm \<Rightarrow> f32 list \<Rightarrow> f32 \<Rightarrow> ekf_state \<Rightarrow> ekf_state" where
  "correct_attitude M k innov st =
     (let dx = f32_mul (k ! IDX_ATT) innov; dy = f32_mul (k ! (IDX_ATT + 1)) innov;
          dz = f32_mul (k ! (IDX_ATT + 2)) innov;
          (st1, dq_small) = sanitize_quat M
            \<lparr>q_w = f1, q_x = f32_mul dx f_half, q_y = f32_mul dy f_half, q_z = f32_mul dz f_half\<rparr> st;
          (st2, q) = sanitize_quat M (quat_mul dq_small (ek_quat st1)) st1
      in st2\<lparr>ek_quat := q\<rparr>)"

definition innovation_rejected :: "ekf_config \<Rightarrow> f32 \<Rightarrow> f32 \<Rightarrow> bool" where
  "innovation_rejected cfg innov s \<longleftrightarrow>
     f32_lt s (f32_lit 1 1000000000)
     \<or> f32_lt (f32_mul (innovation_gate cfg) (innovation_gate cfg)) (f32_div (f32_mul innov innov) s)"

definition scalar_fuse :: "libm \<Rightarrow> ekf_config \<Rightarrow> nat \<Rightarrow> f32 \<Rightarrow> f32 \<Rightarrow> f32 \<Rightarrow> ekf_state \<Rightarrow> ekf_state" where
  "scalar_fuse M cfg idx innov s r_noise st =
     (let k = gain_vector (ek_p_cov st) idx s;
          st1 = clamp_biases cfg
            (st\<lparr>ek_pos := corrected k IDX_POS innov (ek_pos st), ek_vel := corrected k IDX_VEL innov (ek_vel st),
                ek_gyro_bias := corrected k IDX_GB innov (ek_gyro_bias st),
                ek_accel_bias := corrected k IDX_AB innov (ek_accel_bias st)\<rparr>);
          st2 = correct_attitude M k innov st1
      in st2\<lparr>ek_p_cov := joseph_scalar_cov_update k idx r_noise (ek_p_cov st2)\<rparr>)"

definition predicted :: "ekf_state \<Rightarrow> nat \<Rightarrow> f32 option" where
  "predicted st idx =
     (if idx = 0 then Some (ix0 (ek_pos st)) else if idx = 1 then Some (ix1 (ek_pos st))
      else if idx = 2 then Some (ix2 (ek_pos st)) else if idx = 3 then Some (ix0 (ek_vel st))
      else if idx = 4 then Some (ix1 (ek_vel st)) else if idx = 5 then Some (ix2 (ek_vel st)) else None)"

definition scalar_update :: "libm \<Rightarrow> ekf_config \<Rightarrow> nat \<Rightarrow> f32 \<Rightarrow> f32 \<Rightarrow> ekf_state \<Rightarrow> ekf_state \<times> bool" where
  "scalar_update M cfg idx meas r_noise st =
     (case predicted st idx of
        None \<Rightarrow> (st, False)
      | Some pred \<Rightarrow>
          let innov = f32_sub meas pred;
              s = f32_add (mat_get (ek_p_cov st) idx idx) r_noise
          in if innovation_rejected cfg innov s then (st, False)
             else (scalar_fuse M cfg idx innov s r_noise st, True))"

definition heading_fuse :: "libm \<Rightarrow> ekf_config \<Rightarrow> f32 \<Rightarrow> f32 \<Rightarrow> f32 \<Rightarrow> ekf_state \<Rightarrow> ekf_state" where
  "heading_fuse M cfg innov s r_noise st =
     (let k = gain_vector (ek_p_cov st) (IDX_ATT + 2) s;
          st1 = correct_attitude M k innov
            (st\<lparr>ek_pos := corrected k IDX_POS innov (ek_pos st), ek_vel := corrected k IDX_VEL innov (ek_vel st)\<rparr>);
          st2 = clamp_biases cfg (st1\<lparr>ek_accel_bias := corrected k IDX_AB innov (ek_accel_bias st1)\<rparr>)
      in st2\<lparr>ek_p_cov := joseph_scalar_cov_update k (IDX_ATT + 2) r_noise (ek_p_cov st2)\<rparr>)"

definition heading_update :: "libm \<Rightarrow> ekf_config \<Rightarrow> f32 \<Rightarrow> f32 \<Rightarrow> ekf_state \<Rightarrow> ekf_state" where
  "heading_update M cfg innov r_noise st =
     (let s = f32_add (mat_get (ek_p_cov st) (IDX_ATT + 2) (IDX_ATT + 2)) r_noise
      in if innovation_rejected cfg innov s then st else heading_fuse M cfg innov s r_noise st)"

section \<open>Aiding\<close>

text \<open>Three scalar updates in a row; the second result says whether all of them were accepted.\<close>

definition update_axes :: "libm \<Rightarrow> ekf_config \<Rightarrow> nat \<Rightarrow> vec3 \<Rightarrow> f32 \<Rightarrow> ekf_state \<Rightarrow> ekf_state \<times> bool" where
  "update_axes M cfg b meas r st =
     (let (st0, a0) = scalar_update M cfg b (ix0 meas) r st;
          (st1, a1) = scalar_update M cfg (b + 1) (ix1 meas) r st0;
          (st2, a2) = scalar_update M cfg (b + 2) (ix2 meas) r st1
      in (st2, a0 \<and> a1 \<and> a2))"

definition gnss_usable :: "gnss_data sensor_reading \<Rightarrow> bool" where
  "gnss_usable rd \<longleftrightarrow> rd_health rd = SensorGood \<and> gnss_health_state (rd_value rd) = GnssGood
     \<and> gnss_fix_type (rd_value rd) \<noteq> NoFix
     \<and> vec3_finite (gnss_position_ned (rd_value rd)) \<and> vec3_finite (gnss_velocity_ned (rd_value rd))"

definition update_gnss_state :: "libm \<Rightarrow> ekf_config \<Rightarrow> gnss_data sensor_reading \<Rightarrow> ekf_state \<Rightarrow> ekf_state" where
  "update_gnss_state M cfg rd st =
     (if \<not> ek_initialized st \<or> \<not> gnss_usable rd then st
      else let (st1, pos_accepted) = update_axes M cfg IDX_POS (gnss_position_ned (rd_value rd)) (meas_noise_gnss_pos cfg) st;
               st2 = (if pos_accepted then st1\<lparr>ek_gnss_pos_age_s := f0\<rparr> else st1);
               (st3, vel_accepted) = update_axes M cfg IDX_VEL (gnss_velocity_ned (rd_value rd)) (meas_noise_gnss_vel cfg) st2
           in if vel_accepted then st3\<lparr>ek_gnss_vel_age_s := f0\<rparr> else st3)"

definition pressure_altitude :: "(f32 \<Rightarrow> f32 \<Rightarrow> f32) \<Rightarrow> f32 \<Rightarrow> f32" where
  "pressure_altitude pow pr =
     f32_mul (f32_lit 44330 1) (f32_sub f1 (pow (f32_div pr (f32_lit 101325 1)) (f32_lit 1903 10000)))"

definition correct_baro_datum :: "ekf_config \<Rightarrow> f32 \<Rightarrow> f32 \<Rightarrow> ekf_state \<Rightarrow> ekf_state" where
  "correct_baro_datum cfg altitude datum st =
     (let var = f32_add (ek_baro_ref_var st) BARO_DATUM_PROCESS_VAR;
          r_eff = f32_add (meas_noise_baro cfg) (mat_get (ek_p_cov st) (IDX_POS + 2) (IDX_POS + 2));
          s = f32_add var r_eff
      in if f32_lt s (f32_lit 1 1000000000) then st
         else let k = f32_div var s;
                  implied = f32_add altitude (ix2 (ek_pos st))
              in st\<lparr>ek_baro_ref := Some (f32_add datum (f32_mul k (f32_sub implied datum))),
                    ek_baro_ref_var := f32_mul (f32_sub f1 k) var\<rparr>)"

definition latch_datum :: "f32 \<Rightarrow> ekf_state \<Rightarrow> ekf_state \<times> f32" where
  "latch_datum altitude st =
     (case ek_baro_ref st of
        Some d \<Rightarrow> (st, d)
      | None \<Rightarrow> let d = f32_add (ix2 (ek_pos st)) altitude
                in (st\<lparr>ek_baro_ref := Some d, ek_baro_ref_var := BARO_DATUM_INIT_VAR\<rparr>, d))"

definition update_baro_state ::
  "libm \<Rightarrow> (f32 \<Rightarrow> f32 \<Rightarrow> f32) \<Rightarrow> ekf_config \<Rightarrow> baro_data sensor_reading \<Rightarrow> ekf_state \<Rightarrow> ekf_state" where
  "update_baro_state M pow cfg rd st =
     (if \<not> ek_initialized st \<or> rd_health rd \<noteq> SensorGood then st
      else case static_pressure (baro_air (rd_value rd)) of
        None \<Rightarrow> st
      | Some pr \<Rightarrow>
          let altitude = pressure_altitude pow pr
          in if \<not> f32_is_finite altitude then st
             else let (st1, datum) = latch_datum altitude st;
                      (st2, accepted) = scalar_update M cfg (IDX_POS + 2) (f32_sub datum altitude) (meas_noise_baro cfg) st1;
                      st3 = (if accepted then st2\<lparr>ek_baro_age_s := f0\<rparr> else st2)
                  in correct_baro_datum cfg altitude datum st3)"

text \<open>The weight of the field's inclination, and the tilt-compensated magnetic heading.\<close>

definition inclination_weight :: "ekf_config \<Rightarrow> f32 \<Rightarrow> f32" where
  "inclination_weight cfg vertical_ratio =
     (if f32_lt vertical_ratio (mag_inclination_decay_start cfg) then f1
      else let range = f32_sub (mag_inclination_limit cfg) (mag_inclination_decay_start cfg)
           in if f32_lt (f32_lit 1 1000000) range
              then f32_sub f1 (f32_div (f32_sub vertical_ratio (mag_inclination_decay_start cfg)) range)
              else f0)"

definition heading_of_field :: "libm \<Rightarrow> quaternion \<Rightarrow> vec3 \<Rightarrow> f32 \<times> f32" where
  "heading_of_field M q m =
     (let (roll, pitch, yaw_est) = quat_to_euler M q;
          sin_r = sinf M roll; cos_r = cosf M roll; sin_p = sinf M pitch; cos_p = cosf M pitch;
          n_level = f32_add (f32_add (f32_mul cos_p (ix0 m)) (f32_mul (f32_mul sin_p sin_r) (ix1 m)))
                      (f32_mul (f32_mul sin_p cos_r) (ix2 m));
          e_level = f32_sub (f32_mul cos_r (ix1 m)) (f32_mul sin_r (ix2 m))
      in (atan2f M (f32_neg e_level) n_level, yaw_est))"

definition mag_weight :: "libm \<Rightarrow> ekf_config \<Rightarrow> vec3 \<Rightarrow> f32 option" where
  "mag_weight M cfg m =
     (let mag_norm = sqrtf M (f32_add (f32_add (f32_mul (ix0 m) (ix0 m)) (f32_mul (ix1 m) (ix1 m)))
                       (f32_mul (ix2 m) (ix2 m)));
          vertical_ratio = f32_div (f32_abs (ix2 m)) mag_norm;
          w = inclination_weight cfg vertical_ratio
      in if \<not> vec3_finite m then None
         else if f32_lt mag_norm (mag_field_min cfg) \<or> f32_lt (mag_field_max cfg) mag_norm then None
         else if f32_le (mag_inclination_limit cfg) vertical_ratio then None
         else if f32_lt w (f32_lit 1 100) then None
         else Some w)"

definition update_mag_state ::
  "libm \<Rightarrow> ekf_config \<Rightarrow> mag_data sensor_reading \<Rightarrow> f32 \<Rightarrow> ekf_state \<Rightarrow> ekf_state option" where
  "update_mag_state M cfg rd declin st =
     (if \<not> ek_initialized st \<or> rd_health rd \<noteq> SensorGood then Some st
      else case mag_weight M cfg (field_ut (rd_value rd)) of
        None \<Rightarrow> Some st
      | Some w \<Rightarrow>
          let (heading_mag, yaw_est) = heading_of_field M (ek_quat st) (field_ut (rd_value rd));
              heading_true = f32_add heading_mag declin
          in case wrap_heading_error (f32_sub heading_true yaw_est) of
               None \<Rightarrow> None
             | Some innov \<Rightarrow>
                 Some (if f32_lt (f32_lit 1 10) w
                       then heading_update M cfg innov (f32_div (meas_noise_mag cfg) (f32_mul w w)) st
                       else st))"

section \<open>Estimate\<close>

definition tick_aiding_age :: "f32 \<Rightarrow> ekf_state \<Rightarrow> ekf_state" where
  "tick_aiding_age dt st =
     (if \<not> ek_initialized st \<or> \<not> f32_is_finite dt \<or> f32_le dt f0 then st
      else st\<lparr>ek_gnss_pos_age_s := f32_min (f32_add (ek_gnss_pos_age_s st) dt) AGE_SATURATION_S,
              ek_gnss_vel_age_s := f32_min (f32_add (ek_gnss_vel_age_s st) dt) AGE_SATURATION_S,
              ek_baro_age_s := f32_min (f32_add (ek_baro_age_s st) dt) AGE_SATURATION_S,
              ek_imu_age_s := f32_min (f32_add (ek_imu_age_s st) dt) AGE_SATURATION_S\<rparr>)"

definition max_block_variance :: "nat \<Rightarrow> ekf_state \<Rightarrow> f32" where
  "max_block_variance b st =
     fold (\<lambda>i m. f32_max m (mat_get (ek_p_cov st) (b + i) (b + i))) [0..<3] f32_MIN"

definition get_estimate :: "ekf_state \<Rightarrow> state_estimate" where
  "get_estimate st =
     (let pos_finite = vec3_finite (ek_pos st);
          vel_finite = vec3_finite (ek_vel st);
          attitude_valid = (ek_initialized st \<and> \<not> ek_quat_fault st);
          position_aided = f32_le (ek_gnss_pos_age_s st) GNSS_POS_AIDING_TIMEOUT_S;
          velocity_aided = f32_le (ek_gnss_vel_age_s st) GNSS_VEL_AIDING_TIMEOUT_S;
          baro_aided = f32_le (ek_baro_age_s st) BARO_AIDING_TIMEOUT_S;
          position_bounded = f32_lt (max_block_variance IDX_POS st) POSITION_COV_BOUND_M2;
          velocity_bounded = f32_lt (max_block_variance IDX_VEL st) VELOCITY_COV_BOUND_M2S2;
          position_valid = (attitude_valid \<and> pos_finite \<and> position_aided \<and> position_bounded);
          velocity_valid = (attitude_valid \<and> vel_finite \<and> velocity_aided \<and> velocity_bounded);
          flags = (if attitude_valid then 0 OR (ATTITUDE OR ANGULAR_RATE) else 0);
          flags = (if position_valid then flags OR POSITION else flags);
          flags = (if velocity_valid then flags OR VELOCITY else flags)
      in \<lparr>attitude = ek_quat st, angular_velocity = ek_last_gyro_body st, position_ned = ek_pos st,
          velocity_ned = ek_vel st,
          quality = (if \<not> attitude_valid \<or> \<not> pos_finite \<or> \<not> vel_finite then Unusable
                     else if position_valid \<and> velocity_valid \<and> baro_aided then GoodQuality
                     else DegradedQuality),
          valid_flags = flags\<rparr>)"

section \<open>The cycle\<close>

fun forced_health :: "gnss_health \<Rightarrow> sensor_health" where
  "forced_health GnssGood = SensorGood"
| "forced_health Suspect = SensorDegraded"
| "forced_health Lost = SensorFailed"

definition fuse_gnss ::
  "libm \<Rightarrow> ekf_config \<Rightarrow> sensor_set \<Rightarrow> sensor_overrides option \<Rightarrow> ekf_state \<Rightarrow> ekf_state" where
  "fuse_gnss M cfg ss overrides st =
     (case overrides of
        Some ov \<Rightarrow> (case gnss_force_state ov of
            Some h \<Rightarrow> update_gnss_state M cfg ((gnss ss ! 0)\<lparr>rd_health := forced_health h\<rparr>) st
          | None \<Rightarrow> st)
      | None \<Rightarrow> (if rd_valid (gnss ss ! 0) \<and> rd_health (gnss ss ! 0) = SensorGood
                 then update_gnss_state M cfg (gnss ss ! 0) st else st))"

definition fuse_baro ::
  "libm \<Rightarrow> (f32 \<Rightarrow> f32 \<Rightarrow> f32) \<Rightarrow> ekf_config \<Rightarrow> sensor_set \<Rightarrow> ekf_state \<Rightarrow> ekf_state" where
  "fuse_baro M pow cfg ss st =
     (if rd_valid (baros ss ! 0) \<and> rd_health (baros ss ! 0) = SensorGood
      then update_baro_state M pow cfg (baros ss ! 0) st else st)"

definition fuse_mag :: "libm \<Rightarrow> ekf_config \<Rightarrow> sensor_set \<Rightarrow> ekf_state \<Rightarrow> ekf_state option" where
  "fuse_mag M cfg ss st =
     (if rd_valid (mags ss ! 0) \<and> rd_health (mags ss ! 0) = SensorGood
      then update_mag_state M cfg (mags ss ! 0)
             (case geomagnetic ss of Some g \<Rightarrow> declination g | None \<Rightarrow> f0) st
      else Some st)"

definition imu_selected :: "sensor_set \<Rightarrow> bool" where
  "imu_selected ss \<longleftrightarrow> rd_valid (imus ss ! 0) \<and> rd_health (imus ss ! 0) = SensorGood"

definition observe ::
  "libm \<Rightarrow> (f32 \<Rightarrow> f32 \<Rightarrow> f32) \<Rightarrow> ekf_config \<Rightarrow> ekf_state \<Rightarrow> sensor_set \<Rightarrow> sensor_overrides option \<Rightarrow> f32
     \<Rightarrow> ekf_state option" where
  "observe M pow cfg st ss overrides dt =
     (if \<not> f32_is_finite dt \<or> f32_le dt f0 then Some st
      else let st1 = tick_aiding_age dt st
           in if imu_selected ss \<and> \<not> imu_is_finite (rd_value (imus ss ! 0)) then Some st1
              else let st2 = (if imu_selected ss then predict_state M cfg (rd_value (imus ss ! 0)) dt st1 else st1)
                   in fuse_mag M cfg ss (fuse_baro M pow cfg ss (fuse_gnss M cfg ss overrides st2)))"

end
