(* ===== verification/Replication.thy ===== *)
theory Replication
  imports Ekf Config
begin

text \<open>
  The canonical byte encoding of the kernel's state (\<open>replicable.rs\<close> and the \<open>Replicable\<close> impls of every
  part of \<open>KernelState\<close>), the channel snapshot (\<open>kernel/snapshot.rs\<close>), its projection from a kernel
  (\<open>kernel.rs\<close>) and the lockstep gate.

  \<open>encode_canonical(&self, buf: &mut [u8]) -> usize\<close> is a function from the buffer to the new buffer and the
  count. A walk over fields keeps the pair of buffer and cursor: \<open>put_field\<close> is \<open>w += copy_into(buf, w, ..)\<close>,
  \<open>nest\<close> the guarded \<open>if written < buf.len() { written += f.encode_canonical(&mut buf[written..]) }\<close> and
  \<open>nest_at\<close> the clamped \<open>buf[w.min(buf.len())..]\<close>. Discriminants written as \<open>*self as u8\<close> are the \<open>disc\<close>
  functions of \<open>Enums\<close>.
\<close>

section \<open>Buffers\<close>

type_synonym encoder = "u8 list \<Rightarrow> u8 list \<times> nat"

definition copy_into :: "u8 list \<Rightarrow> nat \<Rightarrow> u8 list \<Rightarrow> u8 list \<times> nat" where
  "copy_into buf off bytes =
     (let remaining = length buf - off; n = min remaining (length bytes)
      in (if 0 < n then take off buf @ take n bytes @ drop (off + n) buf else buf, n))"

definition put_field :: "u8 list \<Rightarrow> u8 list \<times> nat \<Rightarrow> u8 list \<times> nat" where
  "put_field bytes bw = (let (buf, w) = bw; (buf', n) = copy_into buf w bytes in (buf', w + n))"

definition nest :: "encoder \<Rightarrow> u8 list \<times> nat \<Rightarrow> u8 list \<times> nat" where
  "nest e bw =
     (let (buf, w) = bw
      in if w < length buf then let (sub, n) = e (drop w buf) in (take w buf @ sub, w + n) else (buf, w))"

definition nest_at :: "encoder \<Rightarrow> u8 list \<times> nat \<Rightarrow> u8 list \<times> nat" where
  "nest_at e bw =
     (let (buf, w) = bw; off = min w (length buf); (sub, n) = e (drop off buf)
      in (take off buf @ sub, w + n))"

definition walk :: "u8 list list \<Rightarrow> encoder" where
  "walk parts buf = fold put_field parts (buf, 0)"

section \<open>Encoders\<close>

definition bool_byte :: "bool \<Rightarrow> u8" where
  "bool_byte b = (if b then 1 else 0)"

definition encode_init_state :: "init_state \<Rightarrow> encoder" where
  "encode_init_state s buf = copy_into buf 0 [init_state_disc s]"

definition encode_config_mode :: "config_mode \<Rightarrow> encoder" where
  "encode_config_mode m buf = copy_into buf 0 [config_mode_disc m]"

definition encode_faults :: "fault_flags \<Rightarrow> encoder" where
  "encode_faults f buf = copy_into buf 0 (le_bytes f)"

definition encode_control_law :: "control_law \<Rightarrow> encoder" where
  "encode_control_law l buf = copy_into buf 0 [control_law_disc l]"

fun terminal_cause_disc :: "terminal_cause \<Rightarrow> u8" where
  "terminal_cause_disc NoTerminal = 0"
| "terminal_cause_disc CommandLoss = 1"
| "terminal_cause_disc Commanded = 2"

definition encode_terminal_cause :: "terminal_cause \<Rightarrow> encoder" where
  "encode_terminal_cause c buf = copy_into buf 0 [terminal_cause_disc c]"

definition encode_pre_arm_flags :: "u32 \<Rightarrow> encoder" where
  "encode_pre_arm_flags f buf = copy_into buf 0 (le_bytes f)"

definition encode_in_flight_flags :: "u32 \<Rightarrow> encoder" where
  "encode_in_flight_flags f buf = copy_into buf 0 (le_bytes f)"

definition encode_transition_flags :: "u32 \<Rightarrow> encoder" where
  "encode_transition_flags f buf = copy_into buf 0 (le_bytes f)"

definition encode_sample_counts :: "sample_counts \<Rightarrow> encoder" where
  "encode_sample_counts c =
     walk [le_bytes (sc_imu c), le_bytes (sc_baro c), le_bytes (sc_mag c), le_bytes (sc_gnss c),
           le_bytes (sc_min_required c)]"

definition encode_transition_limits :: "transition_limits \<Rightarrow> encoder" where
  "encode_transition_limits l =
     walk [le_bytes (tl_min_altitude l), le_bytes (tl_max_attitude_rate l), le_bytes (tl_min_airspeed l),
           le_bytes (tl_max_asymmetry l)]"

definition encode_pre_arm_status :: "pre_arm_status \<Rightarrow> encoder" where
  "encode_pre_arm_status s buf =
     (let bw = encode_pre_arm_flags (pa_required s) buf;
          bw = nest (encode_pre_arm_flags (pa_current s)) bw
      in nest (encode_sample_counts (pa_samples s)) bw)"

definition encode_in_flight_status :: "in_flight_status \<Rightarrow> encoder" where
  "encode_in_flight_status s buf =
     nest (encode_in_flight_flags (fl_current s)) (encode_in_flight_flags (fl_required s) buf)"

definition encode_transition_status :: "transition_status \<Rightarrow> encoder" where
  "encode_transition_status s buf =
     (let bw = encode_transition_flags (tr_required s) buf;
          bw = nest (encode_transition_flags (tr_current s)) bw
      in nest (encode_transition_limits (tr_limits s)) bw)"

definition encode_kernel_checks :: "kernel_checks \<Rightarrow> encoder" where
  "encode_kernel_checks c buf =
     (let bw = encode_pre_arm_status (pre_arm c) buf;
          bw = nest (encode_in_flight_status (in_flight c)) bw
      in nest (encode_transition_status (transition c)) bw)"

fun actuator_health_tag :: "actuator_health \<Rightarrow> u8" where
  "actuator_health_tag HealthGood = 0"
| "actuator_health_tag HealthDegraded = 1"
| "actuator_health_tag HealthFailed = 2"
| "actuator_health_tag Stuck = 3"
| "actuator_health_tag Unknown = 4"

definition encode_actuator_health :: "actuator_health \<Rightarrow> encoder" where
  "encode_actuator_health h buf = copy_into buf 0 [actuator_health_tag h]"

fun time_source_tag :: "time_source \<Rightarrow> u8" where
  "time_source_tag Internal = 0"
| "time_source_tag Gps = 1"
| "time_source_tag Ptp = 2"

definition encode_group_vector :: "group_vector \<Rightarrow> encoder" where
  "encode_group_vector v = walk (map le_bytes (gv_outputs v) @ [le_bytes (gv_mask v), [bool_byte (gv_valid v)]])"

definition encode_actuator_state :: "actuator_state \<Rightarrow> encoder" where
  "encode_actuator_state a buf =
     (let bw = fold (\<lambda>h. nest_at (encode_actuator_health h)) (as_health a) (buf, 0);
          bw = fold put_field (map le_bytes (as_commanded a)) bw;
          bw = (case as_actual a of
                  Some arr \<Rightarrow> fold put_field ([1] # map le_bytes arr) bw
                | None \<Rightarrow> fold put_field ([0] # replicate MAX_ACTUATORS (le_bytes f0)) bw)
      in fold put_field [le_bytes (ts_ticks (as_timestamp a)), [time_source_tag (ts_source (as_timestamp a))]] bw)"

definition encode_timing_stats :: "timing_stats \<Rightarrow> encoder" where
  "encode_timing_stats t =
     walk [le_bytes (last_cycle_us t), le_bytes (max_cycle_us t), le_bytes (min_cycle_us t),
           le_bytes (deadline_violations t), le_bytes (consecutive_violations t), le_bytes (total_cycles t)]"

definition encode_fallback :: "actuator_fallback_state \<Rightarrow> encoder" where
  "encode_fallback s buf =
     (let bw = fold (\<lambda>v. nest_at (encode_group_vector v)) (last_good s) (buf, 0);
          bw = fold put_field (map le_bytes (age s)) bw
      in fold put_field (map le_bytes (consecutive_fallback s)) bw)"

definition encode_flight_phase :: "flight_phase \<Rightarrow> encoder" where
  "encode_flight_phase p buf = copy_into buf 0 [if p = Airborne then 1 else 0]"

definition encode_flight_phase_state :: "flight_phase_state \<Rightarrow> encoder" where
  "encode_flight_phase_state s buf =
     fold put_field [le_bytes (fp_ground_datum s), [bool_byte (fp_datum_valid s)], le_bytes (fp_landed_elapsed s)]
       (encode_flight_phase (fp_phase s) buf)"

definition vec3_lanes :: "vec3 \<Rightarrow> f32 list" where
  "vec3_lanes v = [ix0 v, ix1 v, ix2 v]"

definition bool_lane :: "bool \<Rightarrow> f32" where
  "bool_lane b = (if b then f1 else f0)"

definition multirotor_lanes :: "multirotor_runtime_state \<Rightarrow> f32 list" where
  "multirotor_lanes r =
     vec3_lanes (vl_integrator (mr_velocity_loop r)) @ vec3_lanes (vl_last_vel_filt (mr_velocity_loop r))
     @ vec3_lanes (rl_meas_prev (mr_rate_loop r)) @ vec3_lanes (rl_integral (mr_rate_loop r))
     @ vec3_lanes (mr_last_vel_sp r)
     @ [bool_lane (mr_vel_sp_primed r), bool_lane (vl_primed (mr_velocity_loop r)),
        bool_lane (rl_primed (mr_rate_loop r)), mr_dt r]"

definition encode_multirotor :: "multirotor_runtime_state \<Rightarrow> encoder" where
  "encode_multirotor r =
     walk (map le_bytes (multirotor_lanes r)
       @ [[mode_option_tag (mr_previous_mode r)], [topology_option_tag (mr_previous_topology r)]]
       @ map le_bytes [ax_roll (mr_last_axis r), ax_pitch (mr_last_axis r), ax_yaw (mr_last_axis r),
                       ax_collective (mr_last_axis r)]
       @ [[bool_byte (mr_axis_primed r)]])"

text \<open>The fields \<open>EkfState::encode_canonical\<close> writes: the three aiding ages are not among them.\<close>

definition ekf_lanes :: "ekf_state \<Rightarrow> f32 list" where
  "ekf_lanes st =
     [q_w (ek_quat st), q_x (ek_quat st), q_y (ek_quat st), q_z (ek_quat st)]
     @ vec3_lanes (ek_pos st) @ vec3_lanes (ek_vel st) @ vec3_lanes (ek_gyro_bias st)
     @ vec3_lanes (ek_accel_bias st) @ vec3_lanes (ek_last_gyro_body st) @ concat (ek_p_cov st)"

definition encode_ekf :: "ekf_state \<Rightarrow> encoder" where
  "encode_ekf st =
     walk (map le_bytes (ekf_lanes st)
       @ [[bool_byte (ek_initialized st)], [bool_byte (ek_quat_fault st)],
          [case ek_baro_ref st of Some r \<Rightarrow> 1 | None \<Rightarrow> 0],
          le_bytes (case ek_baro_ref st of Some r \<Rightarrow> r | None \<Rightarrow> f0),
          le_bytes (ek_baro_ref_var st), le_bytes (ek_imu_age_s st), le_bytes (ek_accel_clip_s st)])"

definition encode_kernel_state ::
  "('e \<Rightarrow> encoder) \<Rightarrow> ('r \<Rightarrow> encoder) \<Rightarrow> ('e, 'r) kernel_state \<Rightarrow> encoder" where
  "encode_kernel_state enc_e enc_r s buf =
     fold nest
       [encode_init_state (ks_init_state s), encode_config_mode (ks_mode s), encode_faults (ks_faults s),
        encode_control_law (ks_control_law s), encode_terminal_cause (ks_terminal_cause s),
        encode_kernel_checks (ks_checks s), encode_actuator_state (ks_actuator_state s),
        encode_timing_stats (ks_timing_stats s), enc_e (ks_estimator s), encode_fallback (ks_fallback s),
        enc_r (ks_controller s), encode_flight_phase_state (ks_flight_phase s)]
       (buf, 0)"

section \<open>Snapshots and the gate\<close>

type_synonym channel_id = u8

record channel_snapshot =
  sn_channel :: channel_id
  sn_cycle_seq :: u64
  sn_algorithm_hash :: u64
  sn_config_hash :: u64
  sn_state_bytes :: "u8 list"

definition agrees_with :: "channel_snapshot \<Rightarrow> channel_snapshot \<Rightarrow> bool" where
  "agrees_with a b \<longleftrightarrow>
     sn_algorithm_hash a = sn_algorithm_hash b \<and> sn_config_hash a = sn_config_hash b
     \<and> length (sn_state_bytes a) = length (sn_state_bytes b) \<and> sn_state_bytes a = sn_state_bytes b"

datatype lockstep_decision =
  Enter
| RefuseHashMismatch channel_id
| RefuseConfigMismatch channel_id
| RefuseStateMismatch channel_id
| RefuseQuorum nat nat

fun inspect_peers :: "channel_snapshot \<Rightarrow> channel_snapshot option list \<Rightarrow> lockstep_decision" where
  "inspect_peers l [] = Enter"
| "inspect_peers l (None # ps) = inspect_peers l ps"
| "inspect_peers l (Some p # ps) =
     (if sn_algorithm_hash p \<noteq> sn_algorithm_hash l then RefuseHashMismatch (sn_channel p)
      else if sn_config_hash p \<noteq> sn_config_hash l then RefuseConfigMismatch (sn_channel p)
      else if length (sn_state_bytes p) \<noteq> length (sn_state_bytes l) \<or> sn_state_bytes p \<noteq> sn_state_bytes l
        then RefuseStateMismatch (sn_channel p)
      else inspect_peers l ps)"

definition decide_lockstep :: "channel_snapshot \<Rightarrow> channel_snapshot option list \<Rightarrow> nat \<Rightarrow> lockstep_decision" where
  "decide_lockstep l peers quorum =
     (let present = length (filter (\<lambda>p. p \<noteq> None) peers)
      in if present < quorum then RefuseQuorum present quorum else inspect_peers l peers)"

definition project_for_cross_channel ::
  "('e \<Rightarrow> encoder) \<Rightarrow> ('r \<Rightarrow> encoder) \<Rightarrow> u64 \<Rightarrow> resolved_config \<Rightarrow> ('e, 'r) kernel_state \<Rightarrow> u64 \<Rightarrow> channel_id \<Rightarrow> u8 list
     \<Rightarrow> channel_snapshot" where
  "project_for_cross_channel enc_e enc_r algorithm cfg s cycle_seq channel buf =
     (let (buf', n) = encode_kernel_state enc_e enc_r s buf
      in \<lparr>sn_channel = channel, sn_cycle_seq = cycle_seq, sn_algorithm_hash = algorithm,
          sn_config_hash = canonical_hash cfg, sn_state_bytes = take n buf'\<rparr>)"

definition check_lockstep_agreement ::
  "('e \<Rightarrow> encoder) \<Rightarrow> ('r \<Rightarrow> encoder) \<Rightarrow> u64 \<Rightarrow> resolved_config \<Rightarrow> ('e, 'r) kernel_state \<Rightarrow> u64 \<Rightarrow> channel_id \<Rightarrow> u8 list
     \<Rightarrow> channel_snapshot option list \<Rightarrow> nat \<Rightarrow> lockstep_decision" where
  "check_lockstep_agreement enc_e enc_r algorithm cfg s cycle_seq channel buf peers quorum =
     decide_lockstep (project_for_cross_channel enc_e enc_r algorithm cfg s cycle_seq channel buf) peers quorum"

end
