(* ===== verification/CascadeLoops.thy ===== *)
theory CascadeLoops
  imports Cascade
begin

text \<open>
  The loops of the cascade one by one: the heading wrap terminates exactly for errors of
  magnitude up to 2^27 and then lies within plus and minus pi; the rate integrals stay inside
  their limit and the torque inside the unit range for every input, NaN included; the velocity
  loop returns exactly when its heading wrap does.
\<close>

section \<open>Heading wrap\<close>

lemma two_pi: "f32_mul f2 f32_pi = 0x40C90FDB" by (code_simp)

definition PI_U :: int where "PI_U = f32_scaled f32_pi"

lemma pi_consts:
  "f32_key f32_pi = 0x40490FDB" "f32_scaled f32_pi = PI_U" "f32_is_finite f32_pi"
  "f32_is_finite 0x40C90FDB" "f32_scaled 0x40C90FDB = 2 * PI_U" "2 ^ 150 < PI_U" 
  by (code_simp)+

text \<open>One turn subtracted from a value above pi, in order keys: up to 2^27 it makes progress and
  does not fall below minus pi; above 2^27 it stays above.\<close>

lemma turn_progress:
  assumes "f32_is_finite x" "f32_key f32_pi < f32_key x" "f32_key x \<le> 0x4D000000"
  shows "f32_round_key (f32_scaled x - 2 * PI_U) < f32_key x"
proof -
  let ?n = "f32_scaled x - 2 * PI_U"
  have sx: "f32_scaled x = f32_scaled_mag (f32_key x)"
    using assms(2) pi_consts(1) by (intro f32_scaled_key) simp
  have "f32_scaled_mag (f32_key x) \<le> f32_scaled_mag 0x4D000000"
    using assms pi_consts(1) by (intro f32_scaled_mag_mono) simp_all
  moreover have "f32_scaled_mag 0x4D000000 = 2 ^ 176" by code_simp
  ultimately have ub: "f32_scaled x \<le> 2 ^ 176" by (simp add: sx)
  show ?thesis
  proof (cases "0 < ?n")
    case True
    have "2 * f32_scaled_mag (f32_round_mag ?n 1) \<le> 2 * ?n + 2 ^ (176 - 24)"
      using True ub pi_consts(6) by (intro f32_round_mag_error) simp_all
    moreover have "2 ^ 152 < 4 * PI_U" using pi_consts(6) by simp
    ultimately have lt: "f32_scaled_mag (f32_round_mag ?n 1) < f32_scaled_mag (f32_key x)"
      by (simp add: sx)
    have "f32_round_key ?n \<le> f32_round_key (f32_scaled x)"
      using pi_consts(6) by (intro f32_round_key_mono) simp
    then have le: "f32_round_mag ?n 1 \<le> f32_key x"
      using True assms(1) by (simp add: f32_round_key_scaled f32_round_key_def [of ?n])
    show ?thesis
    proof (rule ccontr)
      assume "\<not> ?thesis"
      then have "f32_scaled_mag (f32_key x) \<le> f32_scaled_mag (f32_round_mag ?n 1)"
        using True assms le pi_consts(1) by (intro f32_scaled_mag_mono) (simp_all add: f32_round_key_def)
      with lt show False by simp
    qed
  next
    case False
    then have "f32_round_key ?n \<le> f32_round_key 0" by (intro f32_round_key_mono) simp
    then show ?thesis using assms(2) pi_consts(1) by (simp add: f32_round_key_def)
  qed
qed

lemma turn_above:
  assumes "f32_is_finite x" "f32_key f32_pi < f32_key x"
  shows "- f32_key f32_pi \<le> f32_round_key (f32_scaled x - 2 * PI_U)"
proof -
  have "f32_scaled f32_pi \<le> f32_scaled x"
    using assms pi_consts(3) by (intro f32_scaled_mono) simp_all
  then have "f32_round_key (- f32_scaled f32_pi) \<le> f32_round_key (f32_scaled x - 2 * PI_U)"
    by (intro f32_round_key_mono) (simp add: pi_consts)
  then show ?thesis by (simp add: f32_round_key_minus f32_round_key_scaled pi_consts(3))
qed

lemma turn_stuck:
  assumes "f32_is_finite x" "0x4D000000 < f32_key x"
  shows "0x4D000000 < f32_round_key (f32_scaled x - 2 * PI_U)"
proof -
  have f: "f32_is_finite 0x4D000001" "f32_key 0x4D000001 = 0x4D000001" by code_simp+
  have "f32_scaled 0x4D000001 \<le> f32_scaled x"
    using assms f by (intro f32_scaled_mono) simp_all
  then have "f32_round_key (f32_scaled 0x4D000001 - 2 * PI_U) \<le> f32_round_key (f32_scaled x - 2 * PI_U)"
    by (intro f32_round_key_mono) simp
  moreover have "f32_round_key (f32_scaled 0x4D000001 - 2 * PI_U) = 0x4D000001" unfolding PI_U_def by code_simp
  ultimately show ?thesis by simp
qed

lemma wrap_above_step:
  assumes "f32_is_finite x"
  shows "f32_key (f32_sub x (f32_mul f2 f32_pi)) = f32_round_key (f32_scaled x - 2 * PI_U)"
    "\<not> f32_is_nan (f32_sub x (f32_mul f2 f32_pi))"
  using assms by (simp_all add: f32_sub_def two_pi f32_add_key pi_consts)

lemma wrap_below_step:
  assumes "f32_is_finite x"
  shows "f32_key (f32_add x (f32_mul f2 f32_pi)) = - f32_round_key (f32_scaled (f32_neg x) - 2 * PI_U)"
    "\<not> f32_is_nan (f32_add x (f32_mul f2 f32_pi))"
proof -
  have "f32_scaled x + 2 * PI_U = - (f32_scaled (f32_neg x) - 2 * PI_U)" by simp
  then show "f32_key (f32_add x (f32_mul f2 f32_pi)) = - f32_round_key (f32_scaled (f32_neg x) - 2 * PI_U)"
    using assms by (simp only: two_pi f32_add_key pi_consts f32_round_key_minus)
  show "\<not> f32_is_nan (f32_add x (f32_mul f2 f32_pi))"
    using assms by (simp add: two_pi f32_add_key pi_consts)
qed

lemma inf_turn:
  assumes "f32_is_inf x"
  shows "f32_sub x (f32_mul f2 f32_pi) = x" "f32_add x (f32_mul f2 f32_pi) = x"
proof -
  have n: "\<not> f32_is_nan x" using assms by (simp add: f32_is_inf_def f32_is_nan_def)
  have "\<not> f32_is_nan 0x40C90FDB" "\<not> f32_is_inf 0x40C90FDB" by code_simp+
  then show "f32_sub x (f32_mul f2 f32_pi) = x" "f32_add x (f32_mul f2 f32_pi) = x"
    using assms n by (simp_all add: two_pi f32_sub_def f32_add_def)
qed

definition wrapped :: "f32 \<Rightarrow> bool" where
  "wrapped r \<longleftrightarrow> f32_le (f32_neg f32_pi) r \<and> f32_le r f32_pi"

lemma wrapped_key: "wrapped r \<longleftrightarrow> \<not> f32_is_nan r \<and> \<bar>f32_key r\<bar> \<le> f32_key f32_pi"
  using f32_finite_not_nan [OF pi_consts(3)] by (auto simp: wrapped_def f32_le_def)

lemma wrap_above_terminates:
  assumes "\<not> f32_is_nan x" "- f32_key f32_pi \<le> f32_key x" "f32_key x \<le> 0x4D000000"
  shows "\<exists>r. wrap_above x = Some r \<and> wrapped r"
  using assms
proof (induction "nat (f32_key x + f32_key f32_pi)" arbitrary: x rule: less_induct)
  case less
  show ?case
  proof (cases "f32_lt f32_pi x")
    case False
    then have "wrapped x"
      using less.prems f32_finite_not_nan [OF pi_consts(3)] by (auto simp: wrapped_key f32_lt_def)
    then show ?thesis using False by (simp add: wrap_above.simps)
  next
    case True
    then have k: "f32_key f32_pi < f32_key x" by (simp add: f32_lt_def)
    have fin: "f32_is_finite x" using less.prems pi_consts(1) by (simp add: f32_finite_key)
    note p = wrap_above_step [OF fin] turn_progress [OF fin k less.prems(3)] turn_above [OF fin k]
    have "\<exists>r. wrap_above (f32_sub x (f32_mul f2 f32_pi)) = Some r \<and> wrapped r"
    proof (rule less.hyps)
      show "nat (f32_key (f32_sub x (f32_mul f2 f32_pi)) + f32_key f32_pi) < nat (f32_key x + f32_key f32_pi)"
        using p less.prems by simp
    qed (use p less.prems in simp_all)
    then show ?thesis using True by (simp add: wrap_above.simps [of x])
  qed
qed

lemma wrap_below_terminates:
  assumes "\<not> f32_is_nan x" "f32_key x \<le> f32_key f32_pi" "- 0x4D000000 \<le> f32_key x"
  shows "\<exists>r. wrap_below x = Some r \<and> wrapped r"
  using assms
proof (induction "nat (f32_key f32_pi - f32_key x)" arbitrary: x rule: less_induct)
  case less
  show ?case
  proof (cases "f32_lt x (f32_neg f32_pi)")
    case False
    then have "wrapped x"
      using less.prems f32_finite_not_nan [OF pi_consts(3)] by (auto simp: wrapped_key f32_lt_def)
    then show ?thesis using False by (simp add: wrap_below.simps)
  next
    case True
    then have k: "f32_key f32_pi < f32_key (f32_neg x)" by (simp add: f32_lt_def)
    have fin: "f32_is_finite x" using less.prems pi_consts(1) by (simp add: f32_finite_key)
    have fin': "f32_is_finite (f32_neg x)" using fin by simp
    have le: "f32_key (f32_neg x) \<le> 0x4D000000" using less.prems by simp
    note p = wrap_below_step [OF fin] turn_progress [OF fin' k le] turn_above [OF fin' k]
    have "\<exists>r. wrap_below (f32_add x (f32_mul f2 f32_pi)) = Some r \<and> wrapped r"
    proof (rule less.hyps)
      show "nat (f32_key f32_pi - f32_key (f32_add x (f32_mul f2 f32_pi))) < nat (f32_key f32_pi - f32_key x)"
        using p less.prems by simp
    qed (use p less.prems in simp_all)
    then show ?thesis using True by (simp add: wrap_below.simps [of x])
  qed
qed

lemma wrap_above_returns: "wrap_above x = Some r \<Longrightarrow> f32_is_nan x \<or> f32_key x \<le> 0x4D000000"
proof (rule wrap_above.raw_induct [where P = "\<lambda>x _. f32_is_nan x \<or> f32_key x \<le> 0x4D000000"])
  fix f x r
  assume IH: "\<And>x r. f x = Some r \<Longrightarrow> f32_is_nan x \<or> f32_key x \<le> 0x4D000000"
    and body: "(if f32_lt f32_pi x then f (f32_sub x (f32_mul f2 f32_pi)) else Some x) = Some r"
  show "f32_is_nan x \<or> f32_key x \<le> 0x4D000000"
  proof (rule ccontr)
    assume c: "\<not> (f32_is_nan x \<or> f32_key x \<le> 0x4D000000)"
    then have lt: "f32_lt f32_pi x"
      using f32_finite_not_nan [OF pi_consts(3)] pi_consts(1) by (simp add: f32_lt_def)
    with body have "f (f32_sub x (f32_mul f2 f32_pi)) = Some r" by simp
    from IH [OF this] c show False
      using turn_stuck [of x] wrap_above_step [of x] inf_turn(1) [of x]
      by (cases "f32_is_finite x") (auto simp: f32_not_finite)
  qed
qed

lemma wrap_below_returns: "wrap_below x = Some r \<Longrightarrow> f32_is_nan x \<or> - 0x4D000000 \<le> f32_key x"
proof (rule wrap_below.raw_induct [where P = "\<lambda>x _. f32_is_nan x \<or> - 0x4D000000 \<le> f32_key x"])
  fix f x r
  assume IH: "\<And>x r. f x = Some r \<Longrightarrow> f32_is_nan x \<or> - 0x4D000000 \<le> f32_key x"
    and body: "(if f32_lt x (f32_neg f32_pi) then f (f32_add x (f32_mul f2 f32_pi)) else Some x) = Some r"
  show "f32_is_nan x \<or> - 0x4D000000 \<le> f32_key x"
  proof (rule ccontr)
    assume c: "\<not> (f32_is_nan x \<or> - 0x4D000000 \<le> f32_key x)"
    then have lt: "f32_lt x (f32_neg f32_pi)"
      using f32_finite_not_nan [OF pi_consts(3)] pi_consts(1) by (simp add: f32_lt_def)
    with body have "f (f32_add x (f32_mul f2 f32_pi)) = Some r" by simp
    from IH [OF this] c show False
      using turn_stuck [of "f32_neg x"] wrap_below_step [of x] inf_turn(2) [of x]
      by (cases "f32_is_finite x") (auto simp: f32_not_finite)
  qed
qed

lemma wrap_above_skips: "\<not> f32_lt f32_pi x \<Longrightarrow> wrap_above x = Some x"
  by (simp add: wrap_above.simps)

lemma wrap_below_skips: "\<not> f32_lt x (f32_neg f32_pi) \<Longrightarrow> wrap_below x = Some x"
  by (simp add: wrap_below.simps)

lemma wrapped_skips: "wrapped r \<Longrightarrow> wrap_below r = Some r" 
  by (rule wrap_below_skips) (auto simp: wrapped_key f32_lt_def)

definition heading_wrap_limit :: f32 where
  "heading_wrap_limit = 0x4D000000"

lemma wrap_limit: "f32_key heading_wrap_limit = 0x4D000000" "\<not> f32_is_nan heading_wrap_limit"
  by code_simp+

lemma heading_wrap_cases:
  "f32_is_nan err \<Longrightarrow> wrap_heading_error err = Some err"
  "f32_le (f32_abs err) heading_wrap_limit \<Longrightarrow> \<exists>r. wrap_heading_error err = Some r \<and> wrapped r"
  "f32_lt heading_wrap_limit (f32_abs err) \<Longrightarrow> wrap_heading_error err = None"
proof -
  show "wrap_heading_error err = Some err" if "f32_is_nan err"
    using that by (simp add: wrap_heading_error_def wrap_above_skips wrap_below_skips f32_lt_def)
next
  assume a: "f32_le (f32_abs err) heading_wrap_limit"
  then have n: "\<not> f32_is_nan err" and b: "\<bar>f32_key err\<bar> \<le> 0x4D000000" by (simp_all add: f32_le_def wrap_limit)
  show "\<exists>r. wrap_heading_error err = Some r \<and> wrapped r"
  proof (cases "- f32_key f32_pi \<le> f32_key err")
    case True
    from wrap_above_terminates [OF n True] b obtain r where "wrap_above err = Some r" "wrapped r" by (auto simp: abs_le_iff)
    then show ?thesis by (simp add: wrap_heading_error_def wrapped_skips)
  next
    case False
    then have "wrap_above err = Some err" using pi_consts(1) by (intro wrap_above_skips) (simp add: f32_lt_def)
    moreover have "\<exists>r. wrap_below err = Some r \<and> wrapped r"
      using False b pi_consts(1) by (intro wrap_below_terminates [OF n]) simp_all
    ultimately show ?thesis by (simp add: wrap_heading_error_def)
  qed
next
  assume a: "f32_lt heading_wrap_limit (f32_abs err)"
  then have n: "\<not> f32_is_nan err" and b: "0x4D000000 < \<bar>f32_key err\<bar>" by (simp_all add: f32_lt_def wrap_limit)
  show "wrap_heading_error err = None"
  proof (cases "0 < f32_key err")
    case True
    then have "wrap_above err = None" using wrap_above_returns [of err] n b by (cases "wrap_above err") auto
    then show ?thesis by (simp add: wrap_heading_error_def)
  next
    case False
    then have "wrap_above err = Some err" using pi_consts(1) by (intro wrap_above_skips) (simp add: f32_lt_def)
    moreover have "wrap_below err = None" using wrap_below_returns [of err] n b False by (cases "wrap_below err") auto
    ultimately show ?thesis by (simp add: wrap_heading_error_def)
  qed
qed

section \<open>Rate loop\<close>

definition integral_ok :: "f32 \<Rightarrow> bool" where
  "integral_ok i \<longleftrightarrow> f32_le (f32_neg RATE_I_LIMIT) i \<and> f32_le i RATE_I_LIMIT"

lemma rate_limit_consts:
  "f32_le (f32_neg RATE_I_LIMIT) RATE_I_LIMIT" "f32_is_finite RATE_I_LIMIT" "f32_is_finite f1" "f32_is_finite f0"
  "f32_le (f32_neg f1) f1" "f32_le f0 f1"
  by code_simp+

lemma integral_ok_zero: "integral_ok f0"
  unfolding integral_ok_def by code_simp

lemma integral_ok_finite: "integral_ok i \<Longrightarrow> f32_is_finite i"
  unfolding integral_ok_def using rate_limit_consts f32_le_finite by (metis f32_neg_simps(3))

lemma integral_ok_clamp: "\<not> f32_is_nan x \<Longrightarrow> integral_ok (f32_clamp x (f32_neg RATE_I_LIMIT) RATE_I_LIMIT)"
  unfolding integral_ok_def using f32_clamp_bounds [OF rate_limit_consts(1)] by blast

lemma rate_axis_integral:
  assumes ok: "integral_ok integral" and fin: "f32_is_finite i_gain" "f32_is_finite dt"
  shows "integral_ok (ra_integral (rate_axis primed dt p i_gain d filtered prev integral sp cur))"
proof -
  let ?pe = "f32_sub sp cur"
  let ?inc = "f32_mul (f32_mul ?pe i_gain) dt"
  have num: "\<not> f32_is_nan (f32_add integral ?inc)"
    if g: "f32_lt f0 i_gain" "f32_lt f0 dt" and n: "\<not> f32_is_nan ?pe"
  proof -
    have k: "f32_key i_gain \<noteq> 0" "f32_key dt \<noteq> 0" using g by (auto simp: f32_lt_def)
    have "\<not> f32_is_nan ?inc" using n fin k by (intro f32_mul_number) auto
    then show ?thesis using integral_ok_finite [OF ok] by (intro f32_add_number)
  qed
  have pe: "\<not> f32_is_nan ?pe"
    if "f32_lt (f32_abs (f32_add (f32_add (f32_mul ?pe p) dterm) integral)) f1 \<or> f32_lt (f32_mul ?inc integral) f0"
    for dterm
    using that f32_nan_operand by (metis f32_abs_key(2) f32_cmp_numbers(1))
  show ?thesis
    using ok pe num by (auto simp: rate_axis_def Let_def intro!: integral_ok_clamp)
qed

lemma rate_axis_bounded: "f32_bounded f1 (ra_out (rate_axis primed dt p i_gain d filtered prev integral sp cur))"
  by (simp add: rate_axis_def Let_def f32_clamp_bounded rate_limit_consts)

definition vec3_all :: "(f32 \<Rightarrow> bool) \<Rightarrow> vec3 \<Rightarrow> bool" where
  "vec3_all P v \<longleftrightarrow> P (ix0 v) \<and> P (ix1 v) \<and> P (ix2 v)"

lemma vec3_all_simps [simp]: "vec3_all P (a, b, c) \<longleftrightarrow> P a \<and> P b \<and> P c"
  by (simp add: vec3_all_def)

lemma vec3_all_ix: "vec3_all P v \<Longrightarrow> P (ix0 v)" "vec3_all P v \<Longrightarrow> P (ix1 v)" "vec3_all P v \<Longrightarrow> P (ix2 v)"
  by (simp_all add: vec3_all_def)

lemma rate_step_result:
  assumes "rate_step g s sp cur dt = (s', out, obs)"
  shows "vec3_all (f32_bounded f1) out"
    and "vec3_all integral_ok (rl_integral s) \<Longrightarrow> vec3_all f32_is_finite (rate_i g) \<Longrightarrow> f32_is_finite dt
      \<Longrightarrow> vec3_all integral_ok (rl_integral s')"
    and "rl_primed s'" "lo_integrator_after obs = rl_integral s'"
  using assms by (auto simp: rate_step_def Let_def rate_axis_bounded vec3_all_ix intro!: rate_axis_integral)

section \<open>Velocity loop\<close>

lemma wrap_heading_none: "wrap_heading_error err = None \<longleftrightarrow> f32_lt heading_wrap_limit (f32_abs err)"
proof -
  consider "f32_is_nan err" | "f32_le (f32_abs err) heading_wrap_limit" | "f32_lt heading_wrap_limit (f32_abs err)"
    using wrap_limit by (fastforce simp: f32_le_def f32_lt_def)
  then show ?thesis
  proof cases
    case 1
    then show ?thesis using heading_wrap_cases(1) by (simp add: f32_lt_def)
  next
    case 2
    then show ?thesis using heading_wrap_cases(2) by (auto simp: f32_lt_def f32_le_def)
  next
    case 3
    then show ?thesis using heading_wrap_cases(3) by simp
  qed
qed

lemma velocity_step_none:
  "velocity_step M g trim s sp cur acc_ff att heading dt = None \<longleftrightarrow>
     (\<exists>h. heading = Some h \<and> f32_lt heading_wrap_limit (f32_abs (f32_sub h (quat_yaw M att))))"
  by (simp add: velocity_step_def Let_def yaw_setpoint_def wrap_heading_none split: option.splits prod.splits)

text \<open>The fields of a velocity step that returns.\<close>

lemma velocity_step_fields:
  assumes "velocity_step M g trim s sp cur acc_ff att heading dt = Some (s', out, obs)"
  shows "vc_collective out = vz_collective
      (velocity_vertical g trim s (f32_sub (ix2 sp) (ix2 cur)) (ix2 cur) (ix2 acc_ff) att dt)"
    and "lo_d obs = (f0, f0, vz_d
      (velocity_vertical g trim s (f32_sub (ix2 sp) (ix2 cur)) (ix2 cur) (ix2 acc_ff) att dt))"
    and "\<exists>hs zs. vl_integrator s' = fst (velocity_integrate dt (vl_integrator s)
      (f32_sub (ix0 sp) (ix0 cur), f32_sub (ix1 sp) (ix1 cur), f32_sub (ix2 sp) (ix2 cur)) hs zs)"
proof -
  show "vc_collective out = vz_collective
      (velocity_vertical g trim s (f32_sub (ix2 sp) (ix2 cur)) (ix2 cur) (ix2 acc_ff) att dt)"
    "lo_d obs = (f0, f0, vz_d
      (velocity_vertical g trim s (f32_sub (ix2 sp) (ix2 cur)) (ix2 cur) (ix2 acc_ff) att dt))"
    using assms by (auto simp: velocity_step_def Let_def split_beta)
  let ?v = "velocity_vertical g trim s (f32_sub (ix2 sp) (ix2 cur)) (ix2 cur) (ix2 acc_ff) att dt"
  let ?h = "velocity_horizontal M g s (f32_sub (ix0 sp) (ix0 cur)) (f32_sub (ix1 sp) (ix1 cur)) acc_ff (quat_yaw M att)"
  have "vl_integrator s' = fst (velocity_integrate dt (vl_integrator s)
      (f32_sub (ix0 sp) (ix0 cur), f32_sub (ix1 sp) (ix1 cur), f32_sub (ix2 sp) (ix2 cur))
      (vh_x_saturated ?h \<or> vh_y_saturated ?h) (vz_saturated ?v))"
    using assms by (auto simp: velocity_step_def Let_def split_beta)
  then show "\<exists>hs zs. vl_integrator s' = fst (velocity_integrate dt (vl_integrator s)
      (f32_sub (ix0 sp) (ix0 cur), f32_sub (ix1 sp) (ix1 cur), f32_sub (ix2 sp) (ix2 cur)) hs zs)" by blast
qed

lemma velocity_step_collective:
  "velocity_step M g trim s sp cur acc_ff att heading dt = Some (s', out, obs) \<Longrightarrow>
     f32_is_nan (vc_collective out) \<or> f32_le f0 (vc_collective out) \<and> f32_le (vc_collective out) f1"
  using velocity_step_fields(1) [of M g trim s sp cur acc_ff att heading dt s' out obs]
    f32_clamp_between [OF rate_limit_consts(6)] by (simp add: velocity_vertical_def Let_def)


section \<open>Properties\<close>

text \<open>the heading wrap of the velocity loop: two \<open>while\<close> loops that step by one turn end exactly
  when the error is NaN (returned as it is) or at most \<open>2^27\<close> in magnitude, and then the result
  lies between minus pi and pi; above \<open>2^27\<close> the subtraction of one turn rounds back to the same
  value and the loop does not end.\<close>

lemma heading_wrap_exact:
  "case wrap_heading_error err of
     None \<Rightarrow> f32_lt heading_wrap_limit (f32_abs err)
   | Some r \<Rightarrow> if f32_is_nan err then r = err
       else f32_le (f32_abs err) heading_wrap_limit \<and> f32_le (f32_neg f32_pi) r \<and> f32_le r f32_pi"
proof (cases "wrap_heading_error err")
  case None
  then show ?thesis using wrap_heading_none [of err] by (simp add: None)
next
  case (Some r)
  then have "\<not> f32_lt heading_wrap_limit (f32_abs err)" using wrap_heading_none [of err] by simp
  then have "f32_is_nan err \<or> f32_le (f32_abs err) heading_wrap_limit"
    using wrap_limit by (auto simp: f32_le_def f32_lt_def)
  then show ?thesis
    using Some heading_wrap_cases(1,2) [of err] by (auto simp: wrapped_def f32_le_def)
qed

end
