(* ===== verification/EkfProps.thy ===== *)
theory EkfProps
  imports CascadeLoops Runs Ekf
begin

text \<open>
  What the filter guarantees in every run: the covariance stays square and symmetric bit for bit, the
  biases inside their limits, the attitude normalised, the ages inside their range (\<open>ekf_inv\<close>, an
  interpretation of \<open>preserved\<close>).
\<close>

section \<open>Consts\<close>

lemma ekf_consts:
  "f32_is_finite AGE_SATURATION_S" "f32_le f0 AGE_SATURATION_S" "f32_is_finite ACCEL_CLIP_CEILING_S"
  "f32_le f0 ACCEL_CLIP_CEILING_S" "f32_is_finite COV_VAR_FLOOR" "f32_is_finite IMU_GAP_CEILING_S"
  by code_simp+

lemma quat_identity_normalized [simp]: "quat_is_normalized quat_identity quat_norm_eps"
  by code_simp

lemma f0_finite [simp]: "f32_is_finite f0" by code_simp

section \<open>Invariant\<close>

definition age_ok :: "f32 \<Rightarrow> f32 \<Rightarrow> bool" where
  "age_ok c a \<longleftrightarrow> f32_le f0 a \<and> f32_le a c"

definition ekf_inv :: "ekf_config \<Rightarrow> ekf_state \<Rightarrow> bool" where
  "ekf_inv cfg st \<longleftrightarrow>
     mat_dim STATE_DIM STATE_DIM (ek_p_cov st) \<and> mat_symmetric STATE_DIM (ek_p_cov st)
     \<and> vec3_all (f32_bounded (gyro_bias_limit cfg)) (ek_gyro_bias st)
     \<and> vec3_all (f32_bounded (accel_bias_limit cfg)) (ek_accel_bias st)
     \<and> quat_is_normalized (ek_quat st) quat_norm_eps
     \<and> list_all (age_ok AGE_SATURATION_S) [ek_gnss_pos_age_s st, ek_gnss_vel_age_s st, ek_baro_age_s st, ek_imu_age_s st]
     \<and> age_ok ACCEL_CLIP_CEILING_S (ek_accel_clip_s st)"

definition limits_nonneg :: "ekf_config \<Rightarrow> bool" where
  "limits_nonneg cfg \<longleftrightarrow> f32_le f0 (gyro_bias_limit cfg) \<and> f32_le f0 (accel_bias_limit cfg)"

lemma age_ok_add:
  assumes "age_ok c a" "f32_is_finite c" "f32_is_finite dt" "\<not> f32_le dt f0"
  shows "age_ok c (f32_min (f32_add a dt) c)"
proof -
  have fin: "f32_is_finite a" using assms by (auto simp: age_ok_def intro: f32_le_finite [of f0 _ c])
  have "f32_key f0 \<le> f32_key a" using assms(1) by (simp add: age_ok_def f32_le_def)
  then have "f32_scaled f0 \<le> f32_scaled a" using fin by (intro f32_scaled_mono) simp_all
  moreover have "f32_key f0 \<le> f32_key dt" using assms f32_finite_not_nan [of dt] f32_finite_not_nan [OF f0_finite]
    by (auto simp: f32_le_def)
  then have "f32_scaled f0 \<le> f32_scaled dt" using assms(3) by (intro f32_scaled_mono) simp_all
  ultimately have "f32_round_key 0 \<le> f32_round_key (f32_scaled a + f32_scaled dt)"
    by (intro f32_round_key_mono) simp
  then have "f32_le f0 (f32_add a dt)"
    using f32_add_key [OF fin assms(3)] f32_finite_not_nan [OF f0_finite] by (simp add: f32_le_def f32_round_key_def)
  then show ?thesis using assms(1,2) f32_finite_not_nan [of c] by (auto simp: age_ok_def f32_min_def f32_le_def f32_lt_def)
qed

lemma age_ok_0: "f32_le f0 c \<Longrightarrow> age_ok c f0"
  by (simp add: age_ok_def f32_le_refl f32_finite_not_nan)

lemma age_ok_consts [simp]:
  "age_ok AGE_SATURATION_S f0" "age_ok AGE_SATURATION_S AGE_SATURATION_S" "age_ok ACCEL_CLIP_CEILING_S f0"
  using ekf_consts by (simp_all add: age_ok_0 age_ok_def f32_le_refl f32_finite_not_nan)

lemma f32_bounded_0: "f32_le f0 c \<Longrightarrow> f32_bounded c f0"
  by (auto simp: f32_bounded_def f32_le_def)

lemma clamp3_bounded [simp]: "f32_le f0 l \<Longrightarrow> vec3_all (f32_bounded l) (clamp3 l v)"
  by (simp add: clamp3_def f32_clamp_bounded)

lemma clamp3_inside:
  assumes "vec3_all (f32_bounded l) v" shows "clamp3 l v = v"
proof -
  have "f32_bounded l x \<Longrightarrow> f32_clamp x (f32_neg l) l = x" for x
    by (auto simp: f32_bounded_def f32_clamp_nan f32_clamp_inside)
  then show ?thesis using assms by (cases v) (simp add: clamp3_def)
qed

section \<open>Covariance\<close>

lemma STATE_DIM_15: "STATE_DIM = 15" by (simp add: STATE_DIM_def)

lemma IDX_values: "IDX_POS = 0" "IDX_VEL = 3" "IDX_ATT = 6" "IDX_GB = 9" "IDX_AB = 12"
  by (simp_all add: IDX_POS_def IDX_VEL_def IDX_ATT_def IDX_GB_def IDX_AB_def)

lemma upt3: "[b..<b + 3] = [b, b + 1, b + 2]" "[0..<3] = [0, 1, 2::nat]"
  by (simp_all add: upt_rec numeral_3_eq_3)

lemma widen_block_keeps:
  assumes "mat_dim N N p" "mat_symmetric N p" "b + 2 < N"
  shows "mat_dim N N (widen_block b added p)" "mat_symmetric N (widen_block b added p)"
  using assms by (simp_all add: widen_block_def upt3 mat_dim_set mat_symmetric_set_diagonal)

lemma initial_covariance_keeps:
  "mat_dim STATE_DIM STATE_DIM initial_covariance" "mat_symmetric STATE_DIM initial_covariance"
proof -
  have id: "mat_symmetric N (mul_scalar N N (mat_identity N) s)" for N s
    by (auto simp: mat_symmetric_def mul_scalar_def)
  show "mat_dim STATE_DIM STATE_DIM initial_covariance" "mat_symmetric STATE_DIM initial_covariance"
    unfolding initial_covariance_def upt3
    by (simp_all add: mat_dim_set mat_symmetric_set_diagonal id IDX_values STATE_DIM_15)
qed

lemma propagate_covariance_keeps:
  "mat_dim STATE_DIM STATE_DIM (propagate_covariance cfg f dt p)"
  "mat_symmetric STATE_DIM (propagate_covariance cfg f dt p)"
  by (simp_all add: propagate_covariance_def Let_def mat_dim_make_symmetric make_symmetric_symmetric)

lemma joseph_keeps:
  "mat_dim STATE_DIM STATE_DIM (joseph_scalar_cov_update k h r p)"
  "mat_symmetric STATE_DIM (joseph_scalar_cov_update k h r p)"
  "i < STATE_DIM \<Longrightarrow> f32_is_finite (mat_get (joseph_scalar_cov_update k h r p) i i)
     \<and> f32_le COV_VAR_FLOOR (mat_get (joseph_scalar_cov_update k h r p) i i)"
  by (simp_all add: joseph_scalar_cov_update_def Let_def mat_dim_make_symmetric mat_dim_floor_diagonal
      make_symmetric_symmetric floor_diagonal_symmetric floor_diagonal_bound ekf_consts)

section \<open>Frames\<close>

lemma sanitize_quat_result:
  assumes "sanitize_quat M q st = (st', q')"
  shows "quat_is_normalized q' quat_norm_eps" "\<exists>b. st' = st\<lparr>ek_quat_fault := b\<rparr>"
proof -
  show "quat_is_normalized q' quat_norm_eps" using assms by (auto simp: sanitize_quat_def Let_def split: if_splits)
  have "st' = st\<lparr>ek_quat_fault := ek_quat_fault st'\<rparr>"
    using assms by (auto simp: sanitize_quat_def Let_def split: if_splits)
  then show "\<exists>b. st' = st\<lparr>ek_quat_fault := b\<rparr>" by blast
qed

lemma correct_attitude_result:
  "\<exists>b q. correct_attitude M k innov st = st\<lparr>ek_quat_fault := b, ek_quat := q\<rparr> \<and> quat_is_normalized q quat_norm_eps"
proof -
  obtain st1 dq where a: "sanitize_quat M \<lparr>q_w = f1, q_x = f32_mul (f32_mul (k ! IDX_ATT) innov) f_half,
      q_y = f32_mul (f32_mul (k ! (IDX_ATT + 1)) innov) f_half,
      q_z = f32_mul (f32_mul (k ! (IDX_ATT + 2)) innov) f_half\<rparr> st = (st1, dq)" by fastforce
  obtain st2 q where b: "sanitize_quat M (quat_mul dq (ek_quat st1)) st1 = (st2, q)" by fastforce
  obtain f g where "st1 = st\<lparr>ek_quat_fault := f\<rparr>" "st2 = st1\<lparr>ek_quat_fault := g\<rparr>"
    using sanitize_quat_result(2) [OF a] sanitize_quat_result(2) [OF b] by blast
  then have "correct_attitude M k innov st = st\<lparr>ek_quat_fault := g, ek_quat := q\<rparr>"
    unfolding correct_attitude_def Let_def a prod.case b by simp
  then show ?thesis using sanitize_quat_result(1) [OF b] by blast
qed

lemma ekf_inv_new: "limits_nonneg cfg \<Longrightarrow> ekf_inv cfg ekf_new"
  by (simp add: ekf_inv_def ekf_new_def initial_covariance_keeps limits_nonneg_def f32_bounded_0)

lemma ekf_inv_init:
  "limits_nonneg cfg \<Longrightarrow> quat_is_normalized q quat_norm_eps \<Longrightarrow> ekf_inv cfg (ekf_init pos vel q st)"
  by (simp add: ekf_inv_def ekf_init_def initial_covariance_keeps limits_nonneg_def f32_bounded_0)

lemma ekf_inv_tick: "ekf_inv cfg st \<Longrightarrow> ekf_inv cfg (tick_aiding_age dt st)"
  using ekf_consts by (simp add: ekf_inv_def tick_aiding_age_def age_ok_add)

lemma ekf_inv_gap: "ekf_inv cfg st \<Longrightarrow> ekf_inv cfg (widen_for_imu_gap dt st)"
  by (simp add: ekf_inv_def widen_for_imu_gap_def Let_def widen_block_keeps IDX_values STATE_DIM_15)

lemma ekf_inv_clip:
  "ekf_inv cfg st \<Longrightarrow> f32_is_finite dt \<Longrightarrow> \<not> f32_le dt f0 \<Longrightarrow> ekf_inv cfg (widen_for_accel_clip a dt st)"
  using ekf_consts
  by (simp add: ekf_inv_def widen_for_accel_clip_def Let_def widen_block_keeps IDX_values STATE_DIM_15 age_ok_add)

lemma ekf_inv_propagate:
  assumes "ekf_inv cfg st" shows "ekf_inv cfg (propagate M cfg imu dt st)"
proof -
  have "ekf_inv cfg (case sanitize_quat M q0 (st\<lparr>ek_last_gyro_body := g, ek_pos := p, ek_vel := v\<rparr>) of
      (st2, q) \<Rightarrow> st2\<lparr>ek_quat := q, ek_p_cov := propagate_covariance cfg (f q) dt (ek_p_cov st2)\<rparr>)" for q0 g p v f
  proof -
    obtain st2 q where s: "sanitize_quat M q0 (st\<lparr>ek_last_gyro_body := g, ek_pos := p, ek_vel := v\<rparr>) = (st2, q)" by fastforce
    show ?thesis using assms sanitize_quat_result [OF s] by (auto simp: s ekf_inv_def propagate_covariance_keeps)
  qed
  then show ?thesis unfolding propagate_def Let_def by simp
qed

lemma ekf_inv_predict: "ekf_inv cfg st \<Longrightarrow> ekf_inv cfg (predict_state M cfg imu dt st)"
  by (simp add: predict_state_def ekf_inv_propagate ekf_inv_clip ekf_inv_gap)

lemma scalar_fuse_result:
  obtains b q pos vel where "scalar_fuse M cfg idx innov s r st
    = st\<lparr>ek_pos := pos, ek_vel := vel, ek_gyro_bias := clamp3 (gyro_bias_limit cfg) (corrected (gain_vector (ek_p_cov st) idx s) IDX_GB innov (ek_gyro_bias st)),
        ek_accel_bias := clamp3 (accel_bias_limit cfg) (corrected (gain_vector (ek_p_cov st) idx s) IDX_AB innov (ek_accel_bias st)), ek_quat_fault := b, ek_quat := q,
        ek_p_cov := joseph_scalar_cov_update (gain_vector (ek_p_cov st) idx s) idx r (ek_p_cov st)\<rparr>"
    "quat_is_normalized q quat_norm_eps"
proof -
  let ?k = "gain_vector (ek_p_cov st) idx s"
  let ?st1 = "clamp_biases cfg
            (st\<lparr>ek_pos := corrected ?k IDX_POS innov (ek_pos st), ek_vel := corrected ?k IDX_VEL innov (ek_vel st),
                ek_gyro_bias := corrected ?k IDX_GB innov (ek_gyro_bias st),
                ek_accel_bias := corrected ?k IDX_AB innov (ek_accel_bias st)\<rparr>)"
  obtain b q where c: "correct_attitude M ?k innov ?st1 = ?st1\<lparr>ek_quat_fault := b, ek_quat := q\<rparr>"
    and n: "quat_is_normalized q quat_norm_eps" using correct_attitude_result by blast
  show thesis
    by (rule that [OF _ n]) (simp add: scalar_fuse_def Let_def c, simp add: clamp_biases_def)
qed

lemma heading_fuse_result:
  obtains b q where "heading_fuse M cfg innov s r st
    = st\<lparr>ek_pos := corrected (gain_vector (ek_p_cov st) (IDX_ATT + 2) s) IDX_POS innov (ek_pos st),
        ek_vel := corrected (gain_vector (ek_p_cov st) (IDX_ATT + 2) s) IDX_VEL innov (ek_vel st), ek_gyro_bias := clamp3 (gyro_bias_limit cfg) (ek_gyro_bias st),
        ek_accel_bias := clamp3 (accel_bias_limit cfg) (corrected (gain_vector (ek_p_cov st) (IDX_ATT + 2) s) IDX_AB innov (ek_accel_bias st)),
        ek_quat_fault := b, ek_quat := q,
        ek_p_cov := joseph_scalar_cov_update (gain_vector (ek_p_cov st) (IDX_ATT + 2) s) (IDX_ATT + 2) r (ek_p_cov st)\<rparr>"
    "quat_is_normalized q quat_norm_eps"
proof -
  let ?k = "gain_vector (ek_p_cov st) (IDX_ATT + 2) s"
  let ?st = "st\<lparr>ek_pos := corrected ?k IDX_POS innov (ek_pos st), ek_vel := corrected ?k IDX_VEL innov (ek_vel st)\<rparr>"
  obtain b q where c: "correct_attitude M ?k innov ?st = ?st\<lparr>ek_quat_fault := b, ek_quat := q\<rparr>"
    and n: "quat_is_normalized q quat_norm_eps" using correct_attitude_result by blast
  show thesis
    by (rule that [OF _ n, of b])
      (simp only: heading_fuse_def Let_def c, simp add: clamp_biases_def)
qed

lemma ekf_inv_scalar_fuse:
  assumes "limits_nonneg cfg" "ekf_inv cfg st" shows "ekf_inv cfg (scalar_fuse M cfg idx innov s r st)"
  using assms by (cases rule: scalar_fuse_result [of M cfg idx innov s r st])
    (simp add: ekf_inv_def joseph_keeps limits_nonneg_def)

lemma ekf_inv_heading_fuse:
  assumes "limits_nonneg cfg" "ekf_inv cfg st" shows "ekf_inv cfg (heading_fuse M cfg innov s r st)"
  using assms by (cases rule: heading_fuse_result [of M cfg innov s r st])
    (simp add: ekf_inv_def joseph_keeps limits_nonneg_def)

lemma ekf_inv_scalar:
  "limits_nonneg cfg \<Longrightarrow> ekf_inv cfg st \<Longrightarrow> ekf_inv cfg (fst (scalar_update M cfg idx meas r st))"
  by (simp add: scalar_update_def Let_def ekf_inv_scalar_fuse split: option.split)

lemma ekf_inv_heading:
  "limits_nonneg cfg \<Longrightarrow> ekf_inv cfg st \<Longrightarrow> ekf_inv cfg (heading_update M cfg innov r st)"
  by (simp add: heading_update_def Let_def ekf_inv_heading_fuse)

lemma ekf_inv_axes:
  "limits_nonneg cfg \<Longrightarrow> ekf_inv cfg st \<Longrightarrow> ekf_inv cfg (fst (update_axes M cfg b meas r st))"
  by (simp add: update_axes_def split_beta Let_def ekf_inv_scalar)

lemma ekf_inv_ages:
  "ekf_inv cfg st \<Longrightarrow> ekf_inv cfg (st\<lparr>ek_gnss_pos_age_s := f0\<rparr>)"
  "ekf_inv cfg st \<Longrightarrow> ekf_inv cfg (st\<lparr>ek_gnss_vel_age_s := f0\<rparr>)"
  "ekf_inv cfg st \<Longrightarrow> ekf_inv cfg (st\<lparr>ek_baro_age_s := f0\<rparr>)"
  "ekf_inv cfg st \<Longrightarrow> ekf_inv cfg (st\<lparr>ek_baro_ref := d, ek_baro_ref_var := v\<rparr>)"
  by (simp_all add: ekf_inv_def)

lemma ekf_inv_gnss:
  "limits_nonneg cfg \<Longrightarrow> ekf_inv cfg st \<Longrightarrow> ekf_inv cfg (update_gnss_state M cfg rd st)"
  by (simp add: update_gnss_state_def split_beta Let_def ekf_inv_axes ekf_inv_ages)

lemma ekf_inv_datum: "ekf_inv cfg st \<Longrightarrow> ekf_inv cfg (correct_baro_datum cfg a d st)"
  by (simp add: correct_baro_datum_def Let_def ekf_inv_ages)

lemma ekf_inv_latch: "ekf_inv cfg st \<Longrightarrow> ekf_inv cfg (fst (latch_datum a st))"
  by (simp add: latch_datum_def Let_def ekf_inv_ages split: option.split)

lemma ekf_inv_baro:
  "limits_nonneg cfg \<Longrightarrow> ekf_inv cfg st \<Longrightarrow> ekf_inv cfg (update_baro_state M pow cfg rd st)"
  by (simp add: update_baro_state_def split_beta Let_def ekf_inv_scalar ekf_inv_latch ekf_inv_datum ekf_inv_ages split: option.split)

lemma ekf_inv_mag:
  "limits_nonneg cfg \<Longrightarrow> ekf_inv cfg st \<Longrightarrow> update_mag_state M cfg rd d st = Some st' \<Longrightarrow> ekf_inv cfg st'"
  by (auto simp: update_mag_state_def split_beta Let_def ekf_inv_heading split: option.splits if_splits)

lemma ekf_inv_observe:
  assumes "limits_nonneg cfg" "ekf_inv cfg st" "observe M pow cfg st ss ov dt = Some st'"
  shows "ekf_inv cfg st'"
proof -
  have g: "ekf_inv cfg (fuse_gnss M cfg ss ov s)" if "ekf_inv cfg s" for s
    using that assms(1) by (auto simp: fuse_gnss_def ekf_inv_gnss split: option.split)
  have b: "ekf_inv cfg (fuse_baro M pow cfg ss s)" if "ekf_inv cfg s" for s
    using that assms(1) by (auto simp: fuse_baro_def ekf_inv_baro)
  have m: "ekf_inv cfg s'" if "fuse_mag M cfg ss s = Some s'" "ekf_inv cfg s" for s s'
    using that assms(1) by (auto simp: fuse_mag_def dest: ekf_inv_mag split: if_splits)
  show ?thesis using assms(2,3)
    by (auto simp: observe_def Let_def split: if_splits intro: ekf_inv_tick elim!: m intro!: b g ekf_inv_tick ekf_inv_predict)
qed

end
