(* ===== verification/EkfRuns.thy ===== *)
theory EkfRuns
  imports EkfProps
begin

text \<open>
  Runs of the filter: the invariant in every run, how long validity outlives the aiding, when a cycle
  returns, and what non-finite values do to it.
\<close>

section \<open>Calls\<close>

text \<open>\<open>None\<close> is a filter stuck in the heading wrap.\<close>

datatype ekf_call =
  Observe sensor_set "sensor_overrides option" f32
| Init vec3 vec3 quaternion
| ResetFilter

primrec ekf_call_ok :: "ekf_call \<Rightarrow> bool" where
  "ekf_call_ok (Observe ss ov dt) = True"
| "ekf_call_ok (Init pos vel q) = quat_is_normalized q quat_norm_eps"
| "ekf_call_ok ResetFilter = True"

primrec ekf_call_step :: "libm \<Rightarrow> (f32 \<Rightarrow> f32 \<Rightarrow> f32) \<Rightarrow> ekf_config \<Rightarrow> ekf_call \<Rightarrow> ekf_state \<Rightarrow> ekf_state option" where
  "ekf_call_step M pow cfg (Observe ss ov dt) st = observe M pow cfg st ss ov dt"
| "ekf_call_step M pow cfg (Init pos vel q) st = Some (ekf_init pos vel q st)"
| "ekf_call_step M pow cfg ResetFilter st = Some (ekf_reset st)"

definition ekf_step :: "libm \<Rightarrow> (f32 \<Rightarrow> f32 \<Rightarrow> f32) \<Rightarrow> ekf_config \<Rightarrow> ekf_call \<Rightarrow> ekf_state option \<Rightarrow> ekf_state option" where
  "ekf_step M pow cfg c st = Option.bind st (ekf_call_step M pow cfg c)"

definition ekf_run :: "libm \<Rightarrow> (f32 \<Rightarrow> f32 \<Rightarrow> f32) \<Rightarrow> ekf_config \<Rightarrow> ekf_call list \<Rightarrow> ekf_state option" where
  "ekf_run M pow cfg calls = fold (ekf_step M pow cfg) calls (Some ekf_new)"

lemma ekf_step_simps [simp]:
  "ekf_step M pow cfg c None = None" "ekf_step M pow cfg c (Some st) = ekf_call_step M pow cfg c st"
  by (simp_all add: ekf_step_def)

lemma ekf_fold_None [simp]: "fold (ekf_step M pow cfg) calls None = None"
  by (induction calls) simp_all

lemma ekf_call_step_inv:
  assumes "limits_nonneg cfg" "ekf_inv cfg st" "ekf_call_ok c" "ekf_call_step M pow cfg c st = Some st'"
  shows "ekf_inv cfg st'"
  using assms by (cases c) (auto simp: ekf_inv_init ekf_inv_new ekf_reset_def intro: ekf_inv_observe)

interpretation filter_runs: preserved "ekf_step M pow cfg" ekf_call_ok
  "\<lambda>s. limits_nonneg cfg \<and> (case s of None \<Rightarrow> True | Some st \<Rightarrow> ekf_inv cfg st)"
  for M pow cfg
  by unfold_locales (auto simp: ekf_step_def intro: ekf_call_step_inv split: option.splits)

lemma ekf_run_inv:
  assumes "limits_nonneg cfg" "list_all ekf_call_ok calls" "ekf_run M pow cfg calls = Some st"
  shows "ekf_inv cfg st"
  using filter_runs.run [of cfg "Some ekf_new" calls M pow] assms by (simp add: ekf_run_def ekf_inv_new)

section \<open>Frames of the aiding state\<close>

text \<open>The aiding part of the state: whether the filter runs, and the two GNSS ages.\<close>

definition aiding :: "ekf_state \<Rightarrow> bool \<times> f32 \<times> f32" where
  "aiding st = (ek_initialized st, ek_gnss_pos_age_s st, ek_gnss_vel_age_s st)"

named_theorems aiding_frame \<open>operations that leave the GNSS ages alone\<close>

lemma aiding_updates [aiding_frame, simp]:
  "aiding (st\<lparr>ek_baro_age_s := a\<rparr>) = aiding st" "aiding (st\<lparr>ek_imu_age_s := a\<rparr>) = aiding st"
  "aiding (st\<lparr>ek_accel_clip_s := a\<rparr>) = aiding st" "aiding (st\<lparr>ek_p_cov := p\<rparr>) = aiding st"
  "aiding (st\<lparr>ek_quat := q\<rparr>) = aiding st" "aiding (st\<lparr>ek_quat_fault := b\<rparr>) = aiding st"
  "aiding (st\<lparr>ek_pos := v\<rparr>) = aiding st" "aiding (st\<lparr>ek_vel := v\<rparr>) = aiding st"
  "aiding (st\<lparr>ek_gyro_bias := v\<rparr>) = aiding st" "aiding (st\<lparr>ek_accel_bias := v\<rparr>) = aiding st"
  "aiding (st\<lparr>ek_last_gyro_body := v\<rparr>) = aiding st" "aiding (st\<lparr>ek_baro_ref := d\<rparr>) = aiding st"
  "aiding (st\<lparr>ek_baro_ref_var := a\<rparr>) = aiding st"
  by (simp_all add: aiding_def)

lemma aiding_sanitize [aiding_frame, simp]: "aiding (fst (sanitize_quat M q st)) = aiding st"
  by (simp add: sanitize_quat_def Let_def)

lemma aiding_attitude [aiding_frame, simp]: "aiding (correct_attitude M k innov st) = aiding st"
  by (simp add: correct_attitude_def Let_def split_beta)

lemma aiding_predict [aiding_frame, simp]: "aiding (predict_state M cfg imu dt st) = aiding st"
  by (simp add: predict_state_def propagate_def widen_for_accel_clip_def widen_for_imu_gap_def Let_def split_beta)

lemma aiding_scalar [aiding_frame, simp]: "aiding (fst (scalar_update M cfg idx meas r st)) = aiding st"
  by (simp add: scalar_update_def scalar_fuse_def clamp_biases_def Let_def split: option.split)

lemma aiding_heading [aiding_frame, simp]: "aiding (heading_update M cfg innov r st) = aiding st"
  by (simp add: heading_update_def heading_fuse_def clamp_biases_def Let_def)

lemma aiding_baro [aiding_frame, simp]: "aiding (fuse_baro M pow cfg ss st) = aiding st"
  by (simp add: fuse_baro_def update_baro_state_def correct_baro_datum_def latch_datum_def Let_def split_beta
      split: option.split)

lemma aiding_mag [aiding_frame]: "fuse_mag M cfg ss st = Some st' \<Longrightarrow> aiding st' = aiding st"
  by (auto simp: fuse_mag_def update_mag_state_def Let_def split_beta split: option.splits if_splits)

section \<open>Loss of aiding\<close>

text \<open>No usable GNSS reading reaches the filter: it is invalid, unhealthy, without fix or non-finite, or
  the command's override says something else than \<open>Good\<close>.\<close>

definition gnss_denied :: "sensor_set \<Rightarrow> sensor_overrides option \<Rightarrow> bool" where
  "gnss_denied ss ov \<longleftrightarrow>
     (case ov of
        Some o' \<Rightarrow> gnss_force_state o' \<noteq> Some GnssGood \<or> \<not> gnss_usable ((gnss ss ! 0)\<lparr>rd_health := SensorGood\<rparr>)
      | None \<Rightarrow> \<not> rd_valid (gnss ss ! 0) \<or> \<not> gnss_usable (gnss ss ! 0))"

lemma gnss_denied_skips:
  assumes "gnss_denied ss ov" shows "fuse_gnss M cfg ss ov st = st"
proof -
  have f: "gnss_usable ((gnss ss ! 0)\<lparr>rd_health := forced_health h\<rparr>)
      \<Longrightarrow> h = GnssGood \<and> gnss_usable ((gnss ss ! 0)\<lparr>rd_health := SensorGood\<rparr>)" for h
    by (cases h) (simp_all add: gnss_usable_def)
  show ?thesis using assms
    by (auto simp: gnss_denied_def fuse_gnss_def update_gnss_state_def dest: f split: option.splits)
qed

lemma aiding_observe:
  assumes "observe M pow cfg st ss ov dt = Some st'" "gnss_denied ss ov" "f32_is_finite dt" "\<not> f32_le dt f0"
  shows "aiding st' = aiding (tick_aiding_age dt st)"
  using assms by (auto simp: observe_def Let_def gnss_denied_skips dest!: aiding_mag split: if_splits)

text \<open>The key of \<open>n\<close> times 1/1024 s. The multiples are exact in f32, so a saturating sum of \<open>n\<close> periods of at
  least 1/1024 s is at least that much.\<close>

definition age_key :: "nat \<Rightarrow> int" where
  "age_key n = f32_round_key (int n * 2 ^ 139)"

lemma f32_round_mag_multiple:
  assumes "0 < n" "n < 2 ^ 24"
  shows "f32_scaled_mag (f32_round_mag (n * 2 ^ 139) 1) = n * 2 ^ 139"
proof -
  define L where "L = bitlen n"
  have L: "2 ^ (L - 1) \<le> n" "n < 2 ^ L" "0 < L" "L \<le> 24"
    using bitlen_bounds [OF assms(1)] bitlen_le_iff [OF assms(1), of 24] assms(2) by (simp_all add: L_def)
  have pos: "0 < n * 2 ^ 139" using assms by simp
  have "bitlen (n * 2 ^ 139) \<le> L + 139" using L(2) unfolding bitlen_le_iff [OF pos] power_add by simp
  moreover have "\<not> bitlen (n * 2 ^ 139) \<le> (L - 1) + 139"
    using L(1) unfolding bitlen_le_iff [OF pos] power_add by simp
  ultimately have b: "bitlen (n * 2 ^ 139) - 24 = L + 115" using L(3) by linarith
  define q where "q = n * 2 ^ (24 - L)"
  have q: "n * 2 ^ 139 = q * 2 ^ (L + 115)"
  proof -
    have "(24 - L) + (L + 115) = 139" using L(4) by simp
    then show ?thesis by (metis (no_types) mult.assoc power_add q_def)
  qed
  have "2 ^ (L - 1) * 2 ^ (24 - L) \<le> q" "q \<le> 2 ^ L * 2 ^ (24 - L)"
    using L(1,2) by (simp_all add: q_def)
  moreover have "(2::int) ^ (L - 1) * 2 ^ (24 - L) = 2 ^ 23" "(2::int) ^ L * 2 ^ (24 - L) = 2 ^ 24"
    using L(3,4) by (simp_all flip: power_add)
  ultimately have qb: "2 ^ 23 \<le> q" "q \<le> 2 ^ 24" by simp_all
  have "round_div_even (n * 2 ^ 139) (1 * 2 ^ (L + 115)) = q" unfolding q by (simp add: round_div_even_exact)
  moreover have "q + int (L + 115) * 2 ^ 23 \<le> INF_MAG" using qb(2) L(4) by simp
  ultimately have "f32_round_mag (n * 2 ^ 139) 1 = q + int (L + 115) * 2 ^ 23"
    unfolding f32_round_mag_def Let_def div_by_1 b by simp
  then show ?thesis using f32_scaled_mag_parts [OF qb, of "L + 115"] q by simp
qed

lemma age_key_scaled:
  assumes "f32_is_finite a" "age_key n \<le> f32_key a" "n < 2 ^ 24" shows "int n * 2 ^ 139 \<le> f32_scaled a"
proof (cases "n = 0")
  case True
  then have "f32_scaled f0 \<le> f32_scaled a"
    using assms by (intro f32_scaled_mono) (simp_all add: age_key_def f32_round_key_def)
  then show ?thesis using True by simp
next
  case False
  then have k: "age_key n = f32_round_mag (int n * 2 ^ 139) 1" by (simp add: age_key_def f32_round_key_def)
  have nn: "0 \<le> age_key n" unfolding k by (rule f32_round_mag_nonneg) simp_all
  have "f32_scaled_mag (age_key n) \<le> f32_scaled_mag (f32_key a)"
    using assms nn by (intro f32_scaled_mag_mono) (simp_all add: f32_finite_key)
  then show ?thesis
    using f32_round_mag_multiple [of "int n"] False assms(2,3) nn by (simp add: k f32_scaled_key)
qed

lemma age_grows:
  assumes a: "age_ok AGE_SATURATION_S a" "age_key n \<le> f32_key a" "n < 10000000"
    and dt: "f32_is_finite dt" "f32_le 0x3A800000 dt"
  shows "age_key (Suc n) \<le> f32_key (f32_min (f32_add a dt) AGE_SATURATION_S)"
proof -
  have fin: "f32_is_finite a" using a ekf_consts by (auto simp: age_ok_def intro: f32_le_finite [of f0 _ AGE_SATURATION_S])
  have c: "f32_is_finite 0x3A800000" "f32_scaled 0x3A800000 = 2 ^ 139" by code_simp+
  have "2 ^ 139 \<le> f32_scaled dt"
    using dt c f32_scaled_mono [of "0x3A800000" dt] by (simp add: f32_le_def)
  moreover have "int n * 2 ^ 139 \<le> f32_scaled a" using age_key_scaled [OF fin a(2)] a(3) by simp
  ultimately have "int (Suc n) * 2 ^ 139 \<le> f32_scaled a + f32_scaled dt" by (simp add: algebra_simps)
  then have sum: "age_key (Suc n) \<le> f32_key (f32_add a dt)"
    unfolding age_key_def f32_add_key(1) [OF fin dt(1)] by (rule f32_round_key_mono)
  have "f32_scaled AGE_SATURATION_S = 10000 * 2 ^ 149" by code_simp
  then have "int (Suc n) * 2 ^ 139 \<le> f32_scaled AGE_SATURATION_S" using a(3) by simp
  then have "age_key (Suc n) \<le> f32_key AGE_SATURATION_S"
    unfolding age_key_def using f32_round_key_mono f32_round_key_scaled [OF ekf_consts(1)] by metis
  with sum show ?thesis by (simp add: f32_min_def)
qed


text \<open>A cycle without usable GNSS, of at least 1/1024 s (the pattern \<open>0x3A800000\<close>).\<close>

primrec unaided :: "ekf_call \<Rightarrow> bool" where
  "unaided (Observe ss ov dt) = (gnss_denied ss ov \<and> f32_is_finite dt \<and> f32_le 0x3A800000 dt)"
| "unaided (Init pos vel q) = False"
| "unaided ResetFilter = False"

definition aged :: "nat \<Rightarrow> ekf_state \<Rightarrow> bool" where
  "aged n st \<longleftrightarrow> ek_initialized st \<and> age_key n \<le> f32_key (ek_gnss_pos_age_s st) \<and> age_key n \<le> f32_key (ek_gnss_vel_age_s st)"

lemma aged_aiding: "aiding st = aiding st' \<Longrightarrow> aged n st = aged n st'"
  by (simp add: aiding_def aged_def)

lemma aged_less: "aged n st \<Longrightarrow> m \<le> n \<Longrightarrow> aged m st"
  using f32_round_key_mono [of "int m * 2 ^ 139" "int n * 2 ^ 139"] by (auto simp: aged_def age_key_def)

lemma unaided_positive: "f32_is_finite dt \<Longrightarrow> f32_le 0x3A800000 dt \<Longrightarrow> \<not> f32_le dt f0"
proof -
  have "f32_key 0x3A800000 = 0x3A800000" by code_simp
  then show "f32_is_finite dt \<Longrightarrow> f32_le 0x3A800000 dt \<Longrightarrow> \<not> f32_le dt f0" by (simp add: f32_le_def)
qed

lemma unaided_step:
  assumes "ekf_inv cfg st" "aged n st" "n < 10000000" "unaided c" "ekf_call_step M pow cfg c st = Some st'"
  shows "aged (Suc n) st'"
proof (cases c)
  case (Observe ss ov dt)
  then have o: "observe M pow cfg st ss ov dt = Some st'" "gnss_denied ss ov" "f32_is_finite dt" "f32_le 0x3A800000 dt"
    using assms by simp_all
  have ages: "age_ok AGE_SATURATION_S (ek_gnss_pos_age_s st)" "age_ok AGE_SATURATION_S (ek_gnss_vel_age_s st)"
    using assms(1) by (simp_all add: ekf_inv_def)
  have "aged (Suc n) (tick_aiding_age dt st)"
    using assms(2,3) age_grows [OF ages(1) _ _ o(3,4)] age_grows [OF ages(2) _ _ o(3,4)] unaided_positive [OF o(3,4)] o(3)
    by (simp add: aged_def tick_aiding_age_def)
  then show ?thesis using aged_aiding [OF aiding_observe [OF o(1-3) unaided_positive [OF o(3,4)]]] by simp
qed (use assms in simp_all)

lemma unaided_run:
  assumes "limits_nonneg cfg" "ekf_inv cfg st" "aged n st" "n \<le> 5121" "list_all unaided cs"
    "fold (ekf_step M pow cfg) cs (Some st) = Some st'"
  shows "aged (min 5121 (n + length cs)) st'"
  using assms(2-6)
proof (induction cs arbitrary: n st)
  case (Cons c cs)
  obtain s1 where s1: "ekf_call_step M pow cfg c st = Some s1" "fold (ekf_step M pow cfg) cs (Some s1) = Some st'"
    using Cons.prems(5) by (cases "ekf_call_step M pow cfg c st") simp_all
  have ok: "unaided c" "list_all unaided cs" "ekf_call_ok c" using Cons.prems(4) by (cases c; simp)+
  have inv: "ekf_inv cfg s1" using ekf_call_step_inv [OF assms(1) Cons.prems(1) ok(3) s1(1)] .
  have a: "aged (Suc n) s1" using unaided_step [OF Cons.prems(1,2) _ ok(1) s1(1)] Cons.prems(3) by simp
  have "aged (min 5121 (min 5121 (Suc n) + length cs)) st'"
    by (rule Cons.IH [OF inv aged_less [OF a] _ ok(2) s1(2)]) simp_all
  then show ?case by (rule aged_less) simp
qed (auto elim: aged_less)

text \<open>5121 periods exceed both timeouts.\<close>

lemma aged_out: "aged 5121 st \<Longrightarrow> \<not> f32_le (ek_gnss_pos_age_s st) GNSS_POS_AIDING_TIMEOUT_S
    \<and> \<not> f32_le (ek_gnss_vel_age_s st) GNSS_VEL_AIDING_TIMEOUT_S"
proof -
  have "f32_key GNSS_POS_AIDING_TIMEOUT_S < age_key 5121" "f32_key GNSS_VEL_AIDING_TIMEOUT_S < age_key 5121"
    by code_simp+
  then show "aged 5121 st \<Longrightarrow> ?thesis" by (auto simp: aged_def f32_le_def)
qed

lemma estimate_flags:
  "flag_contains (valid_flags (get_estimate st)) ATTITUDE \<longleftrightarrow> ek_initialized st \<and> \<not> ek_quat_fault st"
  "flag_contains (valid_flags (get_estimate st)) ANGULAR_RATE \<longleftrightarrow> ek_initialized st \<and> \<not> ek_quat_fault st"
  "flag_contains (valid_flags (get_estimate st)) POSITION \<longleftrightarrow> ek_initialized st \<and> \<not> ek_quat_fault st
     \<and> vec3_finite (ek_pos st) \<and> f32_le (ek_gnss_pos_age_s st) GNSS_POS_AIDING_TIMEOUT_S
     \<and> f32_lt (max_block_variance IDX_POS st) POSITION_COV_BOUND_M2"
  "flag_contains (valid_flags (get_estimate st)) VELOCITY \<longleftrightarrow> ek_initialized st \<and> \<not> ek_quat_fault st
     \<and> vec3_finite (ek_vel st) \<and> f32_le (ek_gnss_vel_age_s st) GNSS_VEL_AIDING_TIMEOUT_S
     \<and> f32_lt (max_block_variance IDX_VEL st) VELOCITY_COV_BOUND_M2S2"
  by (auto simp: get_estimate_def Let_def state_bits flag_simps split: if_splits)

section \<open>What a cycle keeps\<close>

lemma scalar_rejected: "\<not> snd (scalar_update M cfg idx meas r st) \<Longrightarrow> fst (scalar_update M cfg idx meas r st) = st"
  by (auto simp: scalar_update_def Let_def split: option.splits if_splits)

lemma scalar_accepted:
  assumes "scalar_update M cfg idx meas r st = (st', True)"
  obtains pred where "predicted st idx = Some pred"
    "\<not> innovation_rejected cfg (f32_sub meas pred) (f32_add (mat_get (ek_p_cov st) idx idx) r)"
    "st' = scalar_fuse M cfg idx (f32_sub meas pred) (f32_add (mat_get (ek_p_cov st) idx idx) r) r st"
  using assms by (auto simp: scalar_update_def Let_def split: option.splits if_splits)

lemma mag_gyro_bias:
  assumes "vec3_all (f32_bounded (gyro_bias_limit cfg)) (ek_gyro_bias st)"
  shows "ek_gyro_bias (heading_update M cfg innov r st) = ek_gyro_bias st"
  using clamp3_inside [OF assms]
  by (auto simp: heading_update_def Let_def
      intro: heading_fuse_result [of M cfg innov "f32_add (mat_get (ek_p_cov st) (IDX_ATT + 2) (IDX_ATT + 2)) r" r st])

section \<open>The heading wrap\<close>

lemma heading_within:
  assumes "\<And>y x. f32_within 2 (atan2f M y x)" "heading_of_field M q m = (h, yaw)"
  shows "f32_within 2 h" "f32_within 2 yaw"
  using assms by (auto simp: heading_of_field_def quat_to_euler_def Let_def split_beta)

lemma wrap_within: "f32_within 27 x \<Longrightarrow> \<exists>r. wrap_heading_error x = Some r"
proof -
  assume w: "f32_within 27 x"
  then have "f32_mag x \<le> 0x4D000000" by (simp add: f32_within_def)
  then have "f32_le (f32_abs x) heading_wrap_limit"
    using f32_within_finite [OF w] wrap_limit by (simp add: f32_le_def f32_mag_key f32_finite_not_nan)
  then show ?thesis using heading_wrap_cases(2) by blast
qed

lemma wrap_number_sum:
  assumes "f32_within 2 h" "f32_within 2 yaw" "f32_within 25 d \<or> f32_is_nan d"
  shows "\<exists>r. wrap_heading_error (f32_sub (f32_add h d) yaw) = Some r"
  using assms(3)
proof
  assume "f32_within 25 d"
  then have "f32_within (Suc 25) (f32_add h d)"
    using f32_within_mono [OF assms(1), of 25] by (intro f32_within_add) simp_all
  then have "f32_within (Suc 26) (f32_sub (f32_add h d) yaw)"
    using f32_within_mono [OF assms(2), of 26] by (intro f32_within_sub) simp_all
  then show ?thesis by (intro wrap_within) simp
next
  assume "f32_is_nan d"
  then have "f32_is_nan (f32_sub (f32_add h d) yaw)" by (simp add: f32_nan_operand)
  then show ?thesis using heading_wrap_cases(1) by blast
qed

lemma wrap_infinite_sum:
  assumes "f32_within 2 h" "f32_within 2 yaw" "f32_is_inf d"
  shows "wrap_heading_error (f32_sub (f32_add h d) yaw) = None"
proof -
  have f: "f32_is_finite h" "f32_is_finite yaw" using assms f32_within_finite by auto
  then have n: "\<not> f32_is_inf h" "\<not> f32_is_nan h" "\<not> f32_is_inf yaw" "\<not> f32_is_nan yaw"
    by (simp_all add: f32_is_finite_def f32_is_inf_def f32_is_nan_def)
  have d: "\<not> f32_is_nan d" using assms(3) by (simp add: f32_is_inf_def f32_is_nan_def)
  have "f32_sub (f32_add h d) yaw = d" using n d assms(3) by (simp add: f32_sub_def f32_add_def)
  moreover have "f32_lt heading_wrap_limit (f32_abs d)"
    using assms(3) d wrap_limit by (simp add: f32_lt_def f32_is_inf_def f32_mag_key)
  ultimately show ?thesis using heading_wrap_cases(3) by simp
qed

end
