(* ===== verification/EkfClaims.thy ===== *)
theory EkfClaims
  imports EkfRuns
begin

text \<open>
  The properties of the filter, with the sensor sets and the libm instance their examples use.
\<close>

section \<open>Examples\<close>

text \<open>A libm whose arc tangent is in range, and a sensor set without any usable reading.\<close>

definition level_libm :: libm where
  "level_libm = small_angle_libm\<lparr>atan2f := (\<lambda>y x. f0)\<rparr>"

definition dead_reading :: "'a \<Rightarrow> 'a sensor_reading" where
  "dead_reading v = \<lparr>rd_value = v, rd_valid = False, rd_source_id = 0, rd_timestamp = timestamp_default,
     rd_health = NotAvailable\<rparr>"

definition dead_sensors :: sensor_set where
  "dead_sensors =
     \<lparr>imus = replicate 3 (dead_reading \<lparr>accel = (f0, f0, f0), gyro = (f0, f0, f0)\<rparr>),
      gnss = replicate 2 (dead_reading \<lparr>gnss_position_ned = (f0, f0, f0), gnss_velocity_ned = (f0, f0, f0),
        gnss_fix_type = NoFix, gnss_health_state = Lost\<rparr>),
      mags = replicate 2 (dead_reading \<lparr>field_ut = (f0, f0, f0)\<rparr>),
      baros = replicate 2 (dead_reading \<lparr>baro_altitude = None,
        baro_air = \<lparr>static_pressure = None, dynamic_pressure = None, total_pressure = None, temperature = None,
          indicated_airspeed = None, true_airspeed = None\<rparr>\<rparr>),
      airspeeds = [], geometry = None, geomagnetic = None\<rparr>"

definition origin_init :: ekf_call where
  "origin_init = Init (f0, f0, f0) (f0, f0, f0) quat_identity"

lemma observe_dead:
  "f32_is_finite dt \<Longrightarrow> \<not> f32_le dt f0 \<Longrightarrow> observe M pow cfg st dead_sensors None dt = Some (tick_aiding_age dt st)"
  by (simp add: observe_def imu_selected_def fuse_mag_def fuse_baro_def fuse_gnss_def dead_sensors_def dead_reading_def)

lemma dead_run:
  assumes "f32_is_finite dt" "\<not> f32_le dt f0"
  shows "\<exists>st'. fold (ekf_step M pow cfg) (replicate n (Observe dead_sensors None dt)) (Some st) = Some st'"
  using assms by (induction n arbitrary: st) (simp_all add: observe_dead)

lemma ekf_run_append: "ekf_run M pow cfg (cs @ ds) = fold (ekf_step M pow cfg) ds (ekf_run M pow cfg cs)"
  by (simp add: ekf_run_def)

lemma default_limits_nonneg: "limits_nonneg ekf_config_default"
  by code_simp

section \<open>Properties\<close>

text \<open>C22: The filter's memory in every run. Under bias limits that are not negative, whatever sensors, overrides and
  periods (NaN included) the filter observes, with resets and seeds of normalised attitude in between, as long as the
  calls return: its covariance is 15 by 15 and equal to its transpose bit for bit, every component of a bias is NaN (which
  a NaN declination can cause) or within its configured limit, the attitude is normalised within \<open>QUAT_NORM_EPS\<close>, and
  every age is a number between zero and its saturation.\<close>

theorem filter_memory_bounded:
  assumes "f32_le f0 (gyro_bias_limit cfg)" "f32_le f0 (accel_bias_limit cfg)"
    and "list_all ekf_call_ok calls" "ekf_run M pow cfg calls = Some st"
  shows "mat_dim 15 15 (ek_p_cov st)
    \<and> (\<forall>r < 15. \<forall>c < 15. mat_get (ek_p_cov st) r c = mat_get (ek_p_cov st) c r)
    \<and> vec3_all (f32_bounded (gyro_bias_limit cfg)) (ek_gyro_bias st)
    \<and> vec3_all (f32_bounded (accel_bias_limit cfg)) (ek_accel_bias st)
    \<and> quat_is_normalized (ek_quat st) quat_norm_eps
    \<and> (\<forall>a \<in> {ek_gnss_pos_age_s st, ek_gnss_vel_age_s st, ek_baro_age_s st, ek_imu_age_s st}.
         f32_le f0 a \<and> f32_le a AGE_SATURATION_S)"
  using ekf_run_inv [of cfg calls M pow st] assms
  by (simp add: ekf_inv_def limits_nonneg_def mat_symmetric_def STATE_DIM_15 age_ok_def)

theorem filter_memory_bounded_witness:
  "\<exists>st. ekf_run level_libm (\<lambda>x y. x) ekf_config_default [origin_init, Observe dead_sensors None f_half] = Some st
     \<and> quat_is_normalized (ek_quat st) quat_norm_eps
     \<and> vec3_all (f32_bounded (gyro_bias_limit ekf_config_default)) (ek_gyro_bias st)"
proof -
  have "f32_is_finite f_half" "\<not> f32_le f_half f0" by code_simp+
  then obtain st where st: "ekf_run level_libm (\<lambda>x y. x) ekf_config_default [origin_init, Observe dead_sensors None f_half] = Some st"
    by (simp add: ekf_run_def origin_init_def observe_dead)
  moreover have "list_all ekf_call_ok [origin_init, Observe dead_sensors None f_half]"
    by (simp add: origin_init_def)
  ultimately show ?thesis
    using filter_memory_bounded [OF _ _ _ st] default_limits_nonneg by (auto simp: limits_nonneg_def)
qed

text \<open>C23: Validity does not outlive the aiding. In every run, once an initialised filter has observed 5121
  cycles in a row (each of at least 1/1024 s, so just over five seconds) in which no usable GNSS reading reached
  it, and the last of them returned, its estimate has neither the position nor the velocity flag and its quality
  is not good; the attitude flag still depends on the attitude fault alone.\<close>

theorem validity_expires:
  assumes "f32_le f0 (gyro_bias_limit cfg)" "f32_le f0 (accel_bias_limit cfg)"
    and "list_all ekf_call_ok calls" "ekf_run M pow cfg calls = Some st" "ek_initialized st"
    and "list_all unaided cycles" "5121 \<le> length cycles" "ekf_run M pow cfg (calls @ cycles) = Some st'"
  shows "\<not> flag_contains (valid_flags (get_estimate st')) POSITION
    \<and> \<not> flag_contains (valid_flags (get_estimate st')) VELOCITY
    \<and> quality (get_estimate st') \<noteq> GoodQuality
    \<and> (flag_contains (valid_flags (get_estimate st')) ATTITUDE \<longleftrightarrow> \<not> ek_quat_fault st')"
proof -
  have lim: "limits_nonneg cfg" using assms(1,2) by (simp add: limits_nonneg_def)
  have inv: "ekf_inv cfg st" by (rule ekf_run_inv [OF lim assms(3,4)])
  have "age_key 0 = 0" by (simp add: age_key_def f32_round_key_def)
  then have "aged 0 st" using inv assms(5) by (simp add: aged_def ekf_inv_def age_ok_def f32_le_def)
  from unaided_run [OF lim inv this _ assms(6), of M pow st'] have "aged 5121 st'"
    using assms(4,7,8) by (simp add: ekf_run_append min_absorb1)
  then show ?thesis using aged_out [of st']
    by (auto simp: estimate_flags aged_def) (auto simp: get_estimate_def Let_def split: if_splits)
qed

theorem validity_expires_witness:
  "\<exists>st'. ekf_run level_libm (\<lambda>x y. x) ekf_config_default ([origin_init] @ replicate 5121 (Observe dead_sensors None f_half)) = Some st'
     \<and> \<not> flag_contains (valid_flags (get_estimate st')) POSITION"
proof -
  have dt: "f32_is_finite f_half" "\<not> f32_le f_half f0" "f32_le 0x3A800000 f_half" by code_simp+
  have run: "ekf_run level_libm (\<lambda>x y. x) ekf_config_default [origin_init]
      = Some (ekf_init (f0, f0, f0) (f0, f0, f0) quat_identity ekf_new)"
    by (simp add: ekf_run_def origin_init_def)
  obtain st' where st': "ekf_run level_libm (\<lambda>x y. x) ekf_config_default ([origin_init] @ replicate 5121 (Observe dead_sensors None f_half)) = Some st'"
    using dead_run [OF dt(1,2)] by (simp only: ekf_run_append run) blast
  have denied: "gnss_denied dead_sensors None" by (simp add: gnss_denied_def dead_sensors_def dead_reading_def)
  have un: "list_all unaided (replicate 5121 (Observe dead_sensors None f_half))"
    using denied dt by (simp add: list_all_iff)
  have init: "ek_initialized (ekf_init (f0, f0, f0) (f0, f0, f0) quat_identity ekf_new)" by (simp add: ekf_init_def)
  have ok: "list_all ekf_call_ok [origin_init]" by (simp add: origin_init_def)
  have lim: "f32_le f0 (gyro_bias_limit ekf_config_default)" "f32_le f0 (accel_bias_limit ekf_config_default)"
    using default_limits_nonneg by (simp_all add: limits_nonneg_def)
  have len: "5121 \<le> length (replicate 5121 (Observe dead_sensors None f_half))" by simp
  show ?thesis using validity_expires [OF lim ok run init un len st'] st' by blast
qed

text \<open>A bad cycle moves nothing (LLR-EST-204). A cycle with a period that is not a positive number, or whose
  selected IMU sample has a non-finite component, returns and leaves attitude, position, velocity, biases, last
  rate, covariance, barometer datum and latches exactly as they were, whatever the aiding sensors report.\<close>

lemma bad_cycle_freezes:
  assumes "\<not> f32_is_finite dt \<or> f32_le dt f0 \<or> imu_selected ss \<and> \<not> imu_is_finite (rd_value (imus ss ! 0))"
  shows "\<exists>a b c d. observe M pow cfg st ss ov dt = Some (st\<lparr>ek_gnss_pos_age_s := a, ek_gnss_vel_age_s := b,
    ek_baro_age_s := c, ek_imu_age_s := d\<rparr>)"
proof -
  define s where "s = (if \<not> f32_is_finite dt \<or> f32_le dt f0 then st else tick_aiding_age dt st)"
  have "observe M pow cfg st ss ov dt = Some s"
    using assms by (auto simp: observe_def Let_def s_def)
  moreover have "s = st\<lparr>ek_gnss_pos_age_s := ek_gnss_pos_age_s s, ek_gnss_vel_age_s := ek_gnss_vel_age_s s,
      ek_baro_age_s := ek_baro_age_s s, ek_imu_age_s := ek_imu_age_s s\<rparr>"
    by (simp add: s_def tick_aiding_age_def)
  ultimately show ?thesis by metis
qed

lemma bad_cycle_freezes_witness:
  "\<exists>a b c d. observe level_libm (\<lambda>x y. x) ekf_config_default ekf_new dead_sensors None f32_nan
     = Some (ekf_new\<lparr>ek_gnss_pos_age_s := a, ek_gnss_vel_age_s := b, ek_baro_age_s := c, ek_imu_age_s := d\<rparr>)"
  by (rule bad_cycle_freezes) code_simp

text \<open>What fusing a measurement does. A rejected scalar measurement (innovation gate, degenerate variance,
  no such state) leaves the filter exactly as it was. An accepted one leaves a symmetric covariance whose
  fifteen variances are finite and at least \<open>COV_VAR_FLOOR\<close>, biases NaN or within their limits and a normalised
  attitude, whatever the covariance and the measurement were.\<close>

lemma scalar_update_gated:
  assumes "scalar_update M cfg idx meas r st = (st', accepted)"
    and "f32_le f0 (gyro_bias_limit cfg)" "f32_le f0 (accel_bias_limit cfg)"
  shows "if accepted
    then idx < 6 \<and> mat_symmetric 15 (ek_p_cov st')
      \<and> (\<forall>i < 15. f32_is_finite (mat_get (ek_p_cov st') i i) \<and> f32_le COV_VAR_FLOOR (mat_get (ek_p_cov st') i i))
      \<and> vec3_all (f32_bounded (gyro_bias_limit cfg)) (ek_gyro_bias st')
      \<and> vec3_all (f32_bounded (accel_bias_limit cfg)) (ek_accel_bias st')
      \<and> quat_is_normalized (ek_quat st') quat_norm_eps
    else st' = st"
proof (cases accepted)
  case False
  then show ?thesis using assms scalar_rejected [of M cfg idx meas r st] by simp
next
  case True
  then obtain pred innov s where p: "predicted st idx = Some pred" and st': "st' = scalar_fuse M cfg idx innov s r st"
    using scalar_accepted [of M cfg idx meas r st st'] assms(1) by metis
  have "idx < 6" using p by (auto simp: predicted_def split: if_splits)
  then show ?thesis
    using True assms(2,3) joseph_keeps unfolding st'
    by (cases rule: scalar_fuse_result [of M cfg idx innov s r st]) (simp add: STATE_DIM_15 [symmetric])
qed

lemma scalar_update_gated_witness:
  "\<exists>st' b. scalar_update level_libm ekf_config_default 7 f1 f1 ekf_new = (st', b) \<and> st' = ekf_new"
proof -
  have u: "scalar_update level_libm ekf_config_default 7 f1 f1 ekf_new = (ekf_new, False)"
    by (simp add: scalar_update_def predicted_def)
  show ?thesis using scalar_update_gated [OF u] default_limits_nonneg u by (auto simp: limits_nonneg_def)
qed

text \<open>Magnetometer fusion never moves the gyro bias. In every run, a magnetometer update that returns leaves
  the gyro bias bit for bit as it was, so a heading error cannot be integrated as a turn rate.\<close>

lemma mag_spares_gyro_bias:
  assumes "f32_le f0 (gyro_bias_limit cfg)" "f32_le f0 (accel_bias_limit cfg)"
    and "list_all ekf_call_ok calls" "ekf_run M pow cfg calls = Some st"
    and "update_mag_state M cfg rd d st = Some st'"
  shows "ek_gyro_bias st' = ek_gyro_bias st"
proof -
  have "limits_nonneg cfg" using assms(1,2) by (simp add: limits_nonneg_def)
  from ekf_run_inv [OF this assms(3,4)] have "vec3_all (f32_bounded (gyro_bias_limit cfg)) (ek_gyro_bias st)"
    by (simp add: ekf_inv_def)
  then show ?thesis using assms(5)
    by (auto simp: update_mag_state_def Let_def split_beta mag_gyro_bias split: option.splits if_splits)
qed

definition north_field :: "mag_data sensor_reading" where
  "north_field = (dead_reading \<lparr>field_ut = (f32_lit 5 1, f0, f0)\<rparr>)\<lparr>rd_valid := True, rd_health := SensorGood\<rparr>"

lemma north_weight: "mag_weight level_libm ekf_config_default (field_ut (rd_value north_field)) = Some f1"
  by code_simp

lemma origin_run:
  "ekf_run level_libm (\<lambda>x y. x) ekf_config_default [origin_init] = Some (ekf_init (f0, f0, f0) (f0, f0, f0) quat_identity ekf_new)"
  by (simp add: ekf_run_def origin_init_def)

lemma north_update_returns:
  "\<exists>st'. update_mag_state level_libm ekf_config_default north_field f0 (ekf_init (f0, f0, f0) (f0, f0, f0) quat_identity ekf_new) = Some st'"
proof -
  have z: "atan2f level_libm y x = f0" for y x by (simp add: level_libm_def)
  have "f32_sub (f32_add f0 f0) f0 = f0" by code_simp
  moreover have "wrap_heading_error f0 = Some f0"
  proof -
    have "\<not> f32_lt f32_pi f0" "\<not> f32_lt f0 (f32_neg f32_pi)" by code_simp+
    then show ?thesis by (simp add: wrap_heading_error_def wrap_above_skips wrap_below_skips)
  qed
  ultimately show ?thesis
    by (simp add: update_mag_state_def north_weight heading_of_field_def quat_to_euler_def Let_def z ekf_init_def)
qed

lemma mag_spares_gyro_bias_witness:
  "\<exists>st'. update_mag_state level_libm ekf_config_default north_field f0 (ekf_init (f0, f0, f0) (f0, f0, f0) quat_identity ekf_new) = Some st'
     \<and> ek_gyro_bias st' = (f0, f0, f0)"
proof -
  obtain st' where u: "update_mag_state level_libm ekf_config_default north_field f0 (ekf_init (f0, f0, f0) (f0, f0, f0) quat_identity ekf_new) = Some st'"
    using north_update_returns by blast
  have ok: "list_all ekf_call_ok [origin_init]" by (simp add: origin_init_def)
  have "ek_gyro_bias (ekf_init (f0, f0, f0) (f0, f0, f0) quat_identity ekf_new) = (f0, f0, f0)" by (simp add: ekf_init_def)
  then show ?thesis using mag_spares_gyro_bias [OF _ _ ok origin_run u] default_limits_nonneg u
    by (auto simp: limits_nonneg_def)
qed

text \<open>When a magnetometer update returns. With an arc tangent within plus and minus four, and a declination
  that is not finite or of magnitude at most 2^25, the update fails to return exactly when it fuses the reading
  with an infinite declination: no guard keeps that value out of the heading wrap.\<close>

lemma mag_update_returns:
  assumes "\<And>y x. f32_within 2 (atan2f M y x)" and "f32_within 25 d \<or> \<not> f32_is_finite d"
  shows "update_mag_state M cfg rd d st = None
    \<longleftrightarrow> ek_initialized st \<and> rd_health rd = SensorGood \<and> mag_weight M cfg (field_ut (rd_value rd)) \<noteq> None \<and> f32_is_inf d"
proof -
  obtain h yaw where hy: "heading_of_field M (ek_quat st) (field_ut (rd_value rd)) = (h, yaw)" by fastforce
  note w = heading_within [OF assms(1) hy]
  have "wrap_heading_error (f32_sub (f32_add h d) yaw) = None \<longleftrightarrow> f32_is_inf d"
  proof (cases "f32_is_inf d")
    case True
    then show ?thesis using wrap_infinite_sum [OF w] by simp
  next
    case False
    then show ?thesis using wrap_number_sum [OF w, of d] assms(2) by (auto simp: f32_not_finite)
  qed
  then show ?thesis by (auto simp: update_mag_state_def hy Let_def split: option.splits)
qed

lemma mag_update_returns_witness:
  "update_mag_state level_libm ekf_config_default north_field 0x7F800000
     (ekf_init (f0, f0, f0) (f0, f0, f0) quat_identity ekf_new) = None"
proof -
  have "f32_within 2 (atan2f level_libm y x)" for y x by (simp add: level_libm_def) code_simp
  moreover have "f32_within 25 0x7F800000 \<or> \<not> f32_is_finite 0x7F800000" "f32_is_inf 0x7F800000" by code_simp+
  moreover have "rd_health north_field = SensorGood" by (simp add: north_field_def)
  ultimately show ?thesis by (simp add: mag_update_returns north_weight) (simp add: ekf_init_def)
qed

text \<open>A non-finite attitude is replaced without a fault. With a square root that keeps infinities and NaNs
  out of the finite values, \<open>sanitize_quat\<close> answers a quaternion whose squared norm is not finite with the
  identity and leaves the numeric-fault latch alone: \<open>normalize\<close> has already replaced it by the identity, which
  is normalised.\<close>

lemma nonfinite_attitude_unlatched:
  assumes "\<And>x. \<not> f32_is_finite x \<Longrightarrow> \<not> f32_is_finite (sqrtf M x)" and "\<not> f32_is_finite (quat_norm_sq q)"
  shows "sanitize_quat M q st = (st, quat_identity)"
  using assms by (simp add: sanitize_quat_def quat_normalize_def Let_def)

lemma nonfinite_attitude_unlatched_witness:
  "sanitize_quat level_libm \<lparr>q_w = f32_nan, q_x = f0, q_y = f0, q_z = f0\<rparr> ekf_new = (ekf_new, quat_identity)"
proof (rule nonfinite_attitude_unlatched)
  show "\<not> f32_is_finite x \<Longrightarrow> \<not> f32_is_finite (sqrtf level_libm x)" for x
    by (simp add: level_libm_def small_angle_libm_def)
qed code_simp

section \<open>Non-finite values\<close>

text \<open>A NaN variance does not count against the bound of the position flag.\<close>

lemma nan_variance_is_bounded:
  assumes "\<And>i. i < 3 \<Longrightarrow> f32_is_nan (mat_get (ek_p_cov st) (b + i) (b + i))"
  shows "max_block_variance b st = f32_MIN"
  using assms [of 0] assms [of 1] assms [of 2]
  by (simp add: max_block_variance_def upt3 f32_max_def) (simp add: f32_MIN_def f32_is_nan_def f32_mag_def)

text \<open>A NaN declination passes the gates and makes position and velocity NaN.\<close>

lemma nan_declination_poisons:
  assumes "f32_is_nan d" "ek_initialized st" "rd_health rd = SensorGood"
    and "mag_weight M cfg (field_ut (rd_value rd)) = Some w" "f32_lt (f32_lit 1 10) w"
    and "\<not> f32_lt (f32_add (mat_get (ek_p_cov st) 8 8) (f32_div (meas_noise_mag cfg) (f32_mul w w))) (f32_lit 1 1000000000)"
  shows "\<exists>st'. update_mag_state M cfg rd d st = Some st' \<and> vec3_all f32_is_nan (ek_pos st') \<and> vec3_all f32_is_nan (ek_vel st')"
proof -
  obtain h yaw where hy: "heading_of_field M (ek_quat st) (field_ut (rd_value rd)) = (h, yaw)" by fastforce
  let ?i = "f32_sub (f32_add h d) yaw"
  have n: "f32_is_nan ?i" using assms(1) by (simp add: f32_nan_operand)
  have "f32_is_nan (f32_div (f32_mul ?i ?i) s)" for s
    using f32_nan_operand(3) [of ?i ?i] n by (simp add: f32_div_def)
  then have acc: "\<not> innovation_rejected cfg ?i (f32_add (mat_get (ek_p_cov st) (IDX_ATT + 2) (IDX_ATT + 2))
      (f32_div (meas_noise_mag cfg) (f32_mul w w)))"
    using assms(6) by (simp add: innovation_rejected_def f32_lt_def IDX_values)
  have c: "vec3_all f32_is_nan (corrected k b ?i v)" for k b v
    using n by (simp add: corrected_def f32_nan_operand)
  have "update_mag_state M cfg rd d st = Some (heading_fuse M cfg ?i
      (f32_add (mat_get (ek_p_cov st) (IDX_ATT + 2) (IDX_ATT + 2)) (f32_div (meas_noise_mag cfg) (f32_mul w w)))
      (f32_div (meas_noise_mag cfg) (f32_mul w w)) st)"
    using assms(2-5) heading_wrap_cases(1) [OF n] acc
    by (simp add: update_mag_state_def hy heading_update_def Let_def)
  then show ?thesis
    using c by (cases rule: heading_fuse_result [of M cfg ?i "f32_add (mat_get (ek_p_cov st) (IDX_ATT + 2) (IDX_ATT + 2))
      (f32_div (meas_noise_mag cfg) (f32_mul w w))" "f32_div (meas_noise_mag cfg) (f32_mul w w)" st]) simp
qed

end
