(* ===== verification/CascadeCycle.thy ===== *)
theory CascadeCycle
  imports CascadeLoops
begin

text \<open>
  One cycle of the multirotor cascade as a whole: when it returns, what it may command, how it
  behaves at the edge between two topologies, under an automatic fallback and without a valid
  cycle interval.
\<close>

section \<open>When a cycle returns\<close>

lemma run_velocity_loop_none:
  "run_velocity_loop M c st cmd v pr r = None \<longleftrightarrow>
     (\<exists>h. sp_heading (cmd_setpoint cmd) = Some h
        \<and> f32_lt heading_wrap_limit (f32_abs (f32_sub h (quat_yaw M (attitude st)))))"
  by (simp add: run_velocity_loop_def Let_def velocity_step_none)

lemma run_vertical_loop_some: "run_vertical_loop M c st cmd lim pr r \<noteq> None"
  using velocity_step_none [of M "mc_gains c" "mc_hover_thrust c" "mr_velocity_loop r" _ _ _ "attitude st" None "mr_dt r"]
  by (auto simp: run_vertical_loop_def Let_def split: option.splits)

lemma cycle_returns_iff:
  "run_step M c r st cmd flags lim = None \<longleftrightarrow>
     effective_topology flags (cmd_mode cmd) (cmd_setpoint cmd) \<in> {PositionTopology, VelocityTopology}
     \<and> (\<exists>h. sp_heading (cmd_setpoint cmd) = Some h
          \<and> f32_lt heading_wrap_limit (f32_abs (f32_sub h (quat_yaw M (attitude st)))))"
  by (auto simp: run_step_def prepare_cascade_def Let_def effective_topology_def run_velocity_loop_none
        run_vertical_loop_some split: outer_loop_selection.splits if_splits)

section \<open>The shape of a cycle\<close>

lemma align_frame [simp]:
  "mr_velocity_loop (align_topology_state r st t) =
     (if mr_previous_topology r \<noteq> Some t \<and> (t = PositionTopology \<or> t = VelocityTopology \<or> t = VerticalTopology)
      then (mr_velocity_loop r)\<lparr>vl_last_vel_filt := velocity_ned st, vl_primed := False\<rparr> else mr_velocity_loop r)"
  "rl_integral (mr_rate_loop (align_topology_state r st t)) = rl_integral (mr_rate_loop r)"
  "mr_dt (align_topology_state r st t) = mr_dt r"
  "mr_last_axis (align_topology_state r st t) = mr_last_axis r"
  "mr_axis_primed (align_topology_state r st t) = mr_axis_primed r"
  "mr_vel_sp_primed (align_topology_state r st t) = (mr_vel_sp_primed r \<and> mr_previous_topology r = Some t)"
  by (simp_all add: align_topology_state_def Let_def)

lemma prepare_frame:
  assumes "prepare_cascade M c st cmd flags lim t r = Some (r', pr)"
  shows "mr_rate_loop r' = mr_rate_loop r" "mr_dt r' = mr_dt r" "mr_last_axis r' = mr_last_axis r"
    "mr_axis_primed r' = mr_axis_primed r" "pr_topology pr = t"
  using assms
  by (auto simp: prepare_cascade_def run_velocity_loop_def run_vertical_loop_def Let_def
      split: outer_loop_selection.splits option.splits if_splits prod.splits)

lemma fallback_frame [simp]:
  "pr_topology (apply_automatic_fallback c r st flags pr) = pr_topology pr"
  "pr_velocity_loop (apply_automatic_fallback c r st flags pr) = pr_velocity_loop pr"
  by (simp_all add: apply_automatic_fallback_def Let_def)

lemma fallback_other: "pr_topology pr \<noteq> AttitudeTopology \<Longrightarrow> apply_automatic_fallback c r st flags pr = pr"
  by (simp add: apply_automatic_fallback_def)

lemma run_step_cases [consumes 1, case_names rejected silent active]:
  assumes run: "run_step M c r st cmd flags lim = Some (r', out)"
  obtains
    "effective_topology flags (cmd_mode cmd) (cmd_setpoint cmd) = UnsupportedTopology"
    "(r', out) = reject_unsupported r cmd (mr_previous_mode r) (mr_previous_topology r)"
  | t r1 pr0 pr where
    "t = effective_topology flags (cmd_mode cmd) (cmd_setpoint cmd)" "t \<noteq> UnsupportedTopology"
    "prepare_cascade M c st cmd flags lim t (align_topology_state r st t) = Some (r1, pr0)"
    "pr = apply_automatic_fallback c r1 st flags pr0"
    "f32_lt (es_collective (pr_setpoints pr)) DISARMED_COLLECTIVE_THRESHOLD"
    "(r', out) = reset_for_zero_thrust r1 cmd (mr_previous_mode r) (mr_previous_topology r) pr"
  | t r1 pr0 pr r2 pr2 axis obs where
    "t = effective_topology flags (cmd_mode cmd) (cmd_setpoint cmd)" "t \<noteq> UnsupportedTopology"
    "prepare_cascade M c st cmd flags lim t (align_topology_state r st t) = Some (r1, pr0)"
    "pr = apply_automatic_fallback c r1 st flags pr0"
    "\<not> f32_lt (es_collective (pr_setpoints pr)) DISARMED_COLLECTIVE_THRESHOLD"
    "run_inner_loops M c st pr r1 = (r2, pr2, axis, obs)"
    "(r', out) = record_step r2 cmd (mr_previous_mode r) (mr_previous_topology r) pr2 obs axis"
proof -
  let ?t = "effective_topology flags (cmd_mode cmd) (cmd_setpoint cmd)"
  show thesis
  proof (cases "?t = UnsupportedTopology")
    case True
    with run that(1) show ?thesis by (simp add: run_step_def Let_def)
  next
    case False
    with run obtain r1 pr0 where p: "prepare_cascade M c st cmd flags lim ?t (align_topology_state r st ?t) = Some (r1, pr0)"
      by (auto simp: run_step_def Let_def)
    let ?pr = "apply_automatic_fallback c r1 st flags pr0"
    obtain r2 pr2 axis obs where i: "run_inner_loops M c st ?pr r1 = (r2, pr2, axis, obs)"
      by (metis prod_cases4)
    show ?thesis
    proof (cases "f32_lt (es_collective (pr_setpoints ?pr)) DISARMED_COLLECTIVE_THRESHOLD")
      case True
      with run False p show ?thesis by (intro that(2) [OF refl False p refl]) (simp_all add: run_step_def Let_def)
    next
      case neg: False
      with run False p i have "record_step r2 cmd (mr_previous_mode r) (mr_previous_topology r) pr2 obs axis = (r', out)"
        by (simp add: run_step_def Let_def)
      then show ?thesis by (intro that(3) [OF refl False p refl neg i]) simp
    qed
  qed
qed

lemma inner_loops_result:
  assumes "run_inner_loops M c st pr r = (r2, pr2, axis, obs)"
  shows "f32_bounded f1 (ax_roll axis)" "f32_bounded f1 (ax_pitch axis)" "f32_bounded f1 (ax_yaw axis)"
    "ax_collective axis = es_collective (pr_setpoints pr)" "pr_topology pr2 = pr_topology pr"
    "mr_velocity_loop r2 = mr_velocity_loop r" "mr_dt r2 = mr_dt r" "pr_velocity_loop pr2 = pr_velocity_loop pr"
    "mr_vel_sp_primed r2 = mr_vel_sp_primed r"
    "es_collective (pr_setpoints pr2) = es_collective (pr_setpoints pr)"
    "es_attitude (pr_setpoints pr2) = es_attitude (pr_setpoints pr)"
    "es_acceleration_ned (pr_setpoints pr2) = es_acceleration_ned (pr_setpoints pr)"
    "vec3_all integral_ok (rl_integral (mr_rate_loop r)) \<Longrightarrow> vec3_all f32_is_finite (rate_i (mc_gains c))
       \<Longrightarrow> f32_is_finite (mr_dt r) \<Longrightarrow> vec3_all integral_ok (rl_integral (mr_rate_loop r2))"
proof -
  obtain rl torque where rs: "rate_step (mc_gains c) (mr_rate_loop r)
      (attitude_step M (mc_att c) (es_attitude (pr_setpoints pr)) (attitude st)) (angular_velocity st) (mr_dt r)
      = (rl, torque, obs)"
    and r2: "r2 = r\<lparr>mr_rate_loop := rl\<rparr>"
    and pr2: "pr2 = pr\<lparr>pr_setpoints := (pr_setpoints pr)\<lparr>es_angular_rate :=
      attitude_step M (mc_att c) (es_attitude (pr_setpoints pr)) (attitude st)\<rparr>\<rparr>"
    and axis: "axis = \<lparr>ax_roll = ix0 torque, ax_pitch = ix1 torque, ax_yaw = ix2 torque,
      ax_collective = es_collective (pr_setpoints pr)\<rparr>"
    using assms by (auto simp: run_inner_loops_def Let_def simp del: ix0.simps ix1.simps ix2.simps split: prod.splits)
  note rr = rate_step_result [OF rs]
  show "f32_bounded f1 (ax_roll axis)" "f32_bounded f1 (ax_pitch axis)" "f32_bounded f1 (ax_yaw axis)"
    "ax_collective axis = es_collective (pr_setpoints pr)" "pr_topology pr2 = pr_topology pr"
    "mr_velocity_loop r2 = mr_velocity_loop r" "mr_dt r2 = mr_dt r" "pr_velocity_loop pr2 = pr_velocity_loop pr"
    "mr_vel_sp_primed r2 = mr_vel_sp_primed r"
    "es_collective (pr_setpoints pr2) = es_collective (pr_setpoints pr)"
    "es_attitude (pr_setpoints pr2) = es_attitude (pr_setpoints pr)"
    "es_acceleration_ned (pr_setpoints pr2) = es_acceleration_ned (pr_setpoints pr)"
    using rr(1) by (simp_all add: r2 pr2 axis vec3_all_def)
  show "vec3_all integral_ok (rl_integral (mr_rate_loop r2))"
    if "vec3_all integral_ok (rl_integral (mr_rate_loop r))" "vec3_all f32_is_finite (rate_i (mc_gains c))"
      "f32_is_finite (mr_dt r)"
    using rr(2) that by (simp add: r2)
qed

lemma record_step_result:
  assumes "(r', out) = record_step r cmd pm pt pr obs axis"
  shows "cs_axis_command out = axis" "mr_last_axis r' = axis" "mr_axis_primed r'"
    "mr_previous_topology r' = Some (pr_topology pr)" "mr_previous_mode r' = Some (cmd_mode cmd)"
    "mr_rate_loop r' = mr_rate_loop r" "mr_velocity_loop r' = mr_velocity_loop r" "mr_dt r' = mr_dt r"
    "mr_vel_sp_primed r' = mr_vel_sp_primed r" "mr_last_vel_sp r' = mr_last_vel_sp r"
  using assms by (simp_all add: record_step_def)

section \<open>Commands\<close>

definition axis_torque :: "axis_command \<Rightarrow> vec3" where
  "axis_torque a = (ax_roll a, ax_pitch a, ax_yaw a)"

definition silent_axis :: "axis_command \<Rightarrow> bool" where
  "silent_axis a \<longleftrightarrow> axis_torque a = (f0, f0, f0)"

lemma f0_bounded: "f32_bounded f1 f0" by code_simp

lemma axis_default_silent: "silent_axis axis_command_default"
  by (simp add: silent_axis_def axis_torque_def axis_command_default_def)

lemma zero_thrust_result:
  assumes "(r', out) = reset_for_zero_thrust r cmd pm pt pr"
  shows "silent_axis (cs_axis_command out)" "mr_rate_loop r' = rate_loop_default"
    "mr_velocity_loop r' = velocity_loop_default" "\<not> mr_vel_sp_primed r'"
    "mr_previous_topology r' = Some ZeroThrust" "mr_last_axis r' = cs_axis_command out"
    "ax_collective (cs_axis_command out) = es_collective (pr_setpoints pr)" "mr_dt r' = mr_dt r"
    "mr_axis_primed r'"
  using assms
  by (simp_all add: reset_for_zero_thrust_def record_step_def Let_def silent_axis_def axis_torque_def axis_command_default_def)

lemma reject_result:
  assumes "(r', out) = reject_unsupported r cmd pm pt"
  shows "cs_axis_command out = axis_command_default" "mr_rate_loop r' = mr_rate_loop r"
    "mr_velocity_loop r' = mr_velocity_loop r" "mr_last_axis r' = axis_command_default"
    "mr_previous_topology r' = Some UnsupportedTopology" "mr_dt r' = mr_dt r" "mr_axis_primed r'"
  using assms by (simp_all add: reject_unsupported_def)

lemma cycle_command:
  assumes "run_step M c r st cmd flags lim = Some (r', out)"
  shows "vec3_all (f32_bounded f1) (axis_torque (cs_axis_command out))
    \<and> (f32_lt (ax_collective (cs_axis_command out)) DISARMED_COLLECTIVE_THRESHOLD
         \<longrightarrow> silent_axis (cs_axis_command out))
    \<and> mr_last_axis r' = cs_axis_command out \<and> mr_axis_primed r'"
  using assms
proof (cases rule: run_step_cases)
  case rejected
  then show ?thesis
    using reject_result [OF rejected(2)] axis_default_silent f0_bounded
    by (simp add: silent_axis_def)
next
  case (silent t r1 pr0 pr)
  then show ?thesis
    using zero_thrust_result [OF silent(6)] f0_bounded by (simp add: silent_axis_def)
next
  case (active t r1 pr0 pr r2 pr2 axis obs)
  note i = inner_loops_result [OF active(6)] and d = record_step_result [OF active(7)]
  have "\<not> f32_lt (ax_collective axis) DISARMED_COLLECTIVE_THRESHOLD" using active(5) i(4) by simp
  then show ?thesis using i(1-3) d(1-3) by (simp add: axis_torque_def)
qed



lemma prepare_velocity_none:
  assumes "outer_loop flags (cmd_setpoint cmd) = NoOuterLoop"
  shows "run_step M c r st cmd flags lim \<noteq> None"
  using assms by (simp add: cycle_returns_iff effective_topology_def)



text \<open>An unsupported mode commands nothing and keeps the loop memory.\<close>

lemma rejected_cycle:
  assumes "effective_topology flags (cmd_mode cmd) (cmd_setpoint cmd) = UnsupportedTopology"
  shows "\<exists>r' out. run_step M c r st cmd flags lim = Some (r', out) \<and> cs_axis_command out = axis_command_default
    \<and> mr_velocity_loop r' = mr_velocity_loop r \<and> mr_rate_loop r' = mr_rate_loop r"
  using assms by (simp add: run_step_def reject_unsupported_def Let_def)

section \<open>First cycle of a topology\<close>

lemma velocity_step_unprimed:
  assumes "velocity_step M g trim s sp cur acc att heading dt = Some (s', out, obs)" "\<not> vl_primed s"
  shows "lo_d obs = (f0, f0, f0)"
  using velocity_step_fields(2) [OF assms(1)] assms(2) by (simp add: velocity_vertical_def Let_def)

lemma velocity_loop_ran:
  assumes "run_velocity_loop M c st cmd v pr0 r = Some (r1, pr)"
  obtains vl out obs where
    "velocity_step M (mc_gains c) (mc_hover_thrust c) (mr_velocity_loop r) v
      (velocity_ned st) (acceleration_feedforward r v) (attitude st) (sp_heading (cmd_setpoint cmd)) (mr_dt r)
      = Some (vl, out, obs)"
    "mr_velocity_loop r1 = vl" "pr_velocity_loop pr = obs"
    "es_acceleration_ned (pr_setpoints pr) = acceleration_feedforward r v"
    "es_collective (pr_setpoints pr) = vc_collective out"
proof -
  obtain vl out obs where step: "velocity_step M (mc_gains c) (mc_hover_thrust c) (mr_velocity_loop r) v
      (velocity_ned st) (acceleration_feedforward r v) (attitude st) (sp_heading (cmd_setpoint cmd)) (mr_dt r)
      = Some (vl, out, obs)" (is "?step = _")
    using assms by (cases ?step) (auto simp add: run_velocity_loop_def Let_def)
  from assms step have "r1 = r\<lparr>mr_last_vel_sp := v, mr_vel_sp_primed := True, mr_velocity_loop := vl\<rparr>
      \<and> pr = pr0\<lparr>pr_setpoints := (pr_setpoints pr0)
          \<lparr>es_velocity_ned := Some v, es_acceleration_ned := acceleration_feedforward r v,
           es_collective := vc_collective out, es_attitude := vc_attitude out\<rparr>,
           pr_velocity_loop := obs\<rparr>"
    by (simp add: run_velocity_loop_def Let_def)
  with step show thesis by (intro that) simp_all
qed

lemma velocity_loop_unprimed:
  assumes "run_velocity_loop M c st cmd v pr0 r = Some (r1, pr)" "\<not> vl_primed (mr_velocity_loop r)"
  shows "lo_d (pr_velocity_loop pr) = (f0, f0, f0)"
    and "\<not> mr_vel_sp_primed r \<Longrightarrow> es_acceleration_ned (pr_setpoints pr) = (f0, f0, f0)"
proof -
  from velocity_loop_ran [OF assms(1)] show "lo_d (pr_velocity_loop pr) = (f0, f0, f0)"
    using velocity_step_unprimed [OF _ assms(2)] by metis
  from velocity_loop_ran [OF assms(1)]
  show "\<not> mr_vel_sp_primed r \<Longrightarrow> es_acceleration_ned (pr_setpoints pr) = (f0, f0, f0)"
    by (metis acceleration_feedforward_def)
qed

lemma vertical_loop_unprimed:
  assumes "run_vertical_loop M c st cmd lim pr0 r = Some (r1, pr)"
  shows "es_acceleration_ned (pr_setpoints pr) = es_acceleration_ned (pr_setpoints pr0)"
    and "lo_d (pr_velocity_loop pr0) = (f0, f0, f0) \<Longrightarrow>
      (vertical_velocity_setpoint M c (cmd_setpoint cmd) st lim \<noteq> None \<Longrightarrow> \<not> vl_primed (mr_velocity_loop r)) \<Longrightarrow>
      lo_d (pr_velocity_loop pr) = (f0, f0, f0)"
  using assms velocity_step_unprimed [of M "mc_gains c" "mc_hover_thrust c" "mr_velocity_loop r" _ _ _
      "attitude st" None "mr_dt r"]
  by (auto simp: run_vertical_loop_def Let_def split: option.splits)

lemma prepare_edge:
  assumes run: "prepare_cascade M c st cmd flags lim t (align_topology_state r st t) = Some (r1, pr)"
    and t: "t = effective_topology flags (cmd_mode cmd) (cmd_setpoint cmd)" "t \<noteq> UnsupportedTopology"
    and edge: "mr_previous_topology r \<noteq> Some t"
  shows "es_acceleration_ned (pr_setpoints pr) = (f0, f0, f0)" "lo_d (pr_velocity_loop pr) = (f0, f0, f0)"
proof -
  let ?r = "align_topology_state r st t"
  have np: "\<not> mr_vel_sp_primed ?r" using edge by simp
  have vl: "\<not> vl_primed (mr_velocity_loop ?r)" if "t \<in> {PositionTopology, VelocityTopology, VerticalTopology}"
    using that edge by auto
  have loop: "es_acceleration_ned (pr_setpoints pr) = (f0, f0, f0) \<and> lo_d (pr_velocity_loop pr) = (f0, f0, f0)"
    if "run_velocity_loop M c st cmd v pr0 ?r = Some (r1, pr)" "t \<in> {PositionTopology, VelocityTopology, VerticalTopology}" for v pr0
    using velocity_loop_unprimed [OF that(1) vl [OF that(2)]] np by simp
  have vert: "lo_d (pr_velocity_loop pr) = (f0, f0, f0) \<and> es_acceleration_ned (pr_setpoints pr) = (f0, f0, f0)"
    if "run_vertical_loop M c st cmd lim pr0 ?r = Some (r1, pr)"
      "es_acceleration_ned (pr_setpoints pr0) = (f0, f0, f0)" "lo_d (pr_velocity_loop pr0) = (f0, f0, f0)"
      "flag_control_altitude_enabled flags" "outer_loop flags (cmd_setpoint cmd) = NoOuterLoop" for pr0
  proof -
    have "\<not> vl_primed (mr_velocity_loop ?r)" if "vertical_velocity_setpoint M c (cmd_setpoint cmd) st lim \<noteq> None"
    proof -
      have "sp_altitude (cmd_setpoint cmd) \<noteq> None \<or> sp_vertical_speed (cmd_setpoint cmd) \<noteq> None"
        using that by (auto simp: vertical_velocity_setpoint_def split: option.splits)
      then have "t = VerticalTopology"
        using t \<open>flag_control_altitude_enabled flags\<close> \<open>outer_loop flags (cmd_setpoint cmd) = NoOuterLoop\<close>
        by (auto simp: effective_topology_def split: if_splits)
      then show ?thesis by (intro vl) simp
    qed
    then show ?thesis using vertical_loop_unprimed [OF that(1)] that(2,3) by simp
  qed
  have pos: "outer_loop flags (cmd_setpoint cmd) = PositionLoop v \<Longrightarrow> t = PositionTopology"
    "outer_loop flags (cmd_setpoint cmd) = VelocityLoop v \<Longrightarrow> t = VelocityTopology" for v
    using t by (auto simp: effective_topology_def split: if_splits)
  have "es_acceleration_ned (pr_setpoints pr) = (f0, f0, f0) \<and> lo_d (pr_velocity_loop pr) = (f0, f0, f0)"
  proof (cases "outer_loop flags (cmd_setpoint cmd)")
    case (PositionLoop v)
    then show ?thesis using run pos(1) [OF PositionLoop] by (intro loop) (auto simp: prepare_cascade_def Let_def)
  next
    case (VelocityLoop v)
    then show ?thesis using run pos(2) [OF VelocityLoop] by (intro loop) (auto simp: prepare_cascade_def Let_def)
  next
    case NoOuterLoop
    show ?thesis
    proof (cases "flag_control_altitude_enabled flags")
      case True
      then show ?thesis
        using run NoOuterLoop vert
        by (auto simp: prepare_cascade_def Let_def setpoint_observation_default_def inactive_observation_def
            loop_observation_default_def)
    next
      case False
      then show ?thesis
        using run NoOuterLoop
        by (auto simp: prepare_cascade_def Let_def setpoint_observation_default_def inactive_observation_def
            loop_observation_default_def)
    qed
  qed
  then show "es_acceleration_ned (pr_setpoints pr) = (f0, f0, f0)" "lo_d (pr_velocity_loop pr) = (f0, f0, f0)" by simp_all
qed

lemma rate_axis_unprimed: "ra_d (rate_axis False dt p i d filtered prev integral sp cur) = f0"
  by (simp add: rate_axis_def Let_def)

lemma rate_axis_untimed: "\<not> f32_lt f0 dt \<Longrightarrow> ra_integral (rate_axis primed dt p i d filtered prev integral sp cur) = integral"
  by (simp add: rate_axis_def Let_def)

lemma rate_step_more:
  assumes "rate_step g s sp cur dt = (s', out, obs)"
  shows "\<not> rl_primed s \<Longrightarrow> lo_d obs = (f0, f0, f0)" and "\<not> f32_lt f0 dt \<Longrightarrow> rl_integral s' = rl_integral s"
  using assms
  by (cases "rl_integral s", auto simp: rate_step_def Let_def rate_axis_unprimed rate_axis_untimed)+

lemma inner_loops_unprimed:
  assumes "run_inner_loops M c st pr r = (r2, pr2, axis, obs)"
  shows "\<not> rl_primed (mr_rate_loop r) \<Longrightarrow> lo_d obs = (f0, f0, f0)"
    and "\<not> f32_lt f0 (mr_dt r) \<Longrightarrow> rl_integral (mr_rate_loop r2) = rl_integral (mr_rate_loop r)"
proof -
  obtain torque where rs: "rate_step (mc_gains c) (mr_rate_loop r)
      (attitude_step M (mc_att c) (es_attitude (pr_setpoints pr)) (attitude st)) (angular_velocity st) (mr_dt r)
      = (mr_rate_loop r2, torque, obs)"
    using assms by (auto simp: run_inner_loops_def Let_def split: prod.splits)
  show "\<not> rl_primed (mr_rate_loop r) \<Longrightarrow> lo_d obs = (f0, f0, f0)"
    "\<not> f32_lt f0 (mr_dt r) \<Longrightarrow> rl_integral (mr_rate_loop r2) = rl_integral (mr_rate_loop r)"
    using rate_step_more [OF rs] by simp_all
qed

lemma velocity_step_untimed:
  assumes "velocity_step M g trim s sp cur acc att heading dt = Some (s', out, obs)" "\<not> f32_lt f0 dt"
  shows "vl_integrator s' = vl_integrator s"
  using velocity_step_fields(3) [OF assms(1)] assms(2) by (auto simp: velocity_integrate_def)

lemma prepare_untimed:
  assumes "prepare_cascade M c st cmd flags lim t r = Some (r', pr)" "\<not> f32_lt f0 (mr_dt r)"
  shows "vl_integrator (mr_velocity_loop r') = vl_integrator (mr_velocity_loop r)"
proof -
  have a: "vl_integrator (mr_velocity_loop r') = vl_integrator (mr_velocity_loop r)"
    if "run_velocity_loop M c st cmd v pr0 r = Some (r', pr)" for v pr0
    using velocity_loop_ran [OF that] velocity_step_untimed [OF _ assms(2)] by metis
  have b: "vl_integrator (mr_velocity_loop r') = vl_integrator (mr_velocity_loop r)"
    if "run_vertical_loop M c st cmd lim pr0 r = Some (r', pr)" for pr0
    using that velocity_step_untimed [of M "mc_gains c" "mc_hover_thrust c" "mr_velocity_loop r" _ _ _
        "attitude st" None "mr_dt r"] assms(2)
    by (auto simp: run_vertical_loop_def Let_def split: option.splits)
  show ?thesis
    using assms(1) a b
    by (auto simp: prepare_cascade_def Let_def split: outer_loop_selection.splits if_splits)
qed



lemma position_loop_within_caps:
  assumes "vec3_all (f32_le f0) (pc_vel_caps c)"
  shows "f32_bounded (ix0 (pc_vel_caps c)) (ix0 (position_step M c sp cur))
    \<and> f32_bounded (ix1 (pc_vel_caps c)) (ix1 (position_step M c sp cur))
    \<and> f32_bounded (ix2 (pc_vel_caps c)) (ix2 (position_step M c sp cur))"
  using assms by (simp add: position_step_def sqrt_shape_def Let_def vec3_all_def f32_clamp_bounded)

lemma cycle_observed:
  assumes "run_step M c r st cmd flags lim = Some (r', out)"
  shows "\<exists>mo. cso_multirotor (cs_observation out) = Some mo"
  using assms
  by (cases rule: run_step_cases)
    (simp_all add: reject_unsupported_def reset_for_zero_thrust_def record_step_def from_multirotor_def Let_def)

section \<open>Examples\<close>

definition demo_controller :: multirotor_controller where
  "demo_controller = from_gains x500_defaults f_half"

definition demo_command :: "control_mode \<Rightarrow> f32 \<Rightarrow> command" where
  "demo_command m thrust =
     \<lparr>cmd_mode = m, cmd_setpoint = setpoint_default\<lparr>sp_collective_thrust := thrust\<rparr>,
      cmd_config_mode_request = None, cmd_sensor_overrides = None, cmd_sequence = 1, cmd_source = Pilot\<rparr>"

lemma demo_topology:
  "effective_topology (with_mode_entry (from_control_mode m) d) (cmd_mode (demo_command m x))
     (cmd_setpoint (demo_command m x)) =
     (if multirotor_mode_capability_of m = NoCapability then UnsupportedTopology else AttitudeTopology)"
  by (simp add: effective_topology_def outer_loop_def demo_command_def setpoint_default_def)

lemma demo_returns:
  "\<exists>r' out. run_step M c r st (demo_command m x) (with_mode_entry (from_control_mode m) d) lim = Some (r', out)"
proof -
  have "run_step M c r st (demo_command m x) (with_mode_entry (from_control_mode m) d) lim \<noteq> None"
    by (rule prepare_velocity_none) (simp add: outer_loop_def demo_command_def setpoint_default_def)
  then show ?thesis by auto
qed

section \<open>Properties\<close>

text \<open>C12: a controller cycle returns except in one case, and in that case never: an outer position or
  velocity loop is selected and the commanded heading is more than \<open>2^27\<close> radians from the present
  yaw.\<close>

theorem cycle_returns_exactly:
  "run_step M c r st cmd flags lim = None \<longleftrightarrow>
     effective_topology flags (cmd_mode cmd) (cmd_setpoint cmd) \<in> {PositionTopology, VelocityTopology}
     \<and> (\<exists>h. sp_heading (cmd_setpoint cmd) = Some h
          \<and> f32_lt heading_wrap_limit (f32_abs (f32_sub h (quat_yaw M (attitude st)))))"
  by (rule cycle_returns_iff)

text \<open>C10: what a cycle commands, for every input: each torque is a number of the unit range or NaN, a
  collective below the disarmed threshold comes with zero torque, and the command is the one the
  runtime state records for the next cycle.\<close>

theorem cycle_command_safe:
  assumes "run_step M c r st cmd flags lim = Some (r', out)"
  shows "vec3_all (f32_bounded f1) (axis_torque (cs_axis_command out))
    \<and> (f32_lt (ax_collective (cs_axis_command out)) DISARMED_COLLECTIVE_THRESHOLD
         \<longrightarrow> silent_axis (cs_axis_command out))
    \<and> mr_last_axis r' = cs_axis_command out \<and> mr_axis_primed r'"
  using assms by (rule cycle_command)

theorem cycle_command_safe_witness:
  "\<exists>r' out. run_step small_angle_libm demo_controller multirotor_runtime_default state_estimate_default
      (demo_command Attitude f_half) (with_mode_entry (from_control_mode Attitude) (Granted Attitude)) default_limits
      = Some (r', out) \<and> vec3_all (f32_bounded f1) (axis_torque (cs_axis_command out))"
  using demo_returns [of small_angle_libm demo_controller multirotor_runtime_default state_estimate_default
      Attitude f_half "Granted Attitude" default_limits] cycle_command_safe by metis

text \<open>output continuity under an automatic fallback: when the mode gate has taken the vehicle from
  an outer-loop mode to attitude control, the cycle holds the measured attitude and commands
  exactly the collective of the preceding cycle, or the hover trim when there was none.\<close>

lemma fallback_holds_output:
  assumes "run_step M c r st cmd flags lim = Some (r', out)"
    and "effective_topology flags (cmd_mode cmd) (cmd_setpoint cmd) = AttitudeTopology"
    and "automatic_fallback_from flags = Some m" "m \<in> {AltitudeHold, PositionHold, VelocityControl, DeviationTracking}"
  shows "ax_collective (cs_axis_command out) =
      (if mr_axis_primed r then ax_collective (mr_last_axis r) else mc_hover_thrust c)
    \<and> (\<exists>mo. cso_multirotor (cs_observation out) = Some mo \<and> es_attitude (mo_setpoints mo) = attitude st)"
  using assms(1)
proof (cases rule: run_step_cases)
  case rejected
  with assms(2) show ?thesis by simp
next
  case (silent t r1 pr0 pr)
  note p = prepare_frame [OF silent(3)]
  have "pr_setpoints pr = (pr_setpoints pr0)\<lparr>es_attitude := attitude st,
      es_collective := (if mr_axis_primed r then ax_collective (mr_last_axis r) else mc_hover_thrust c)\<rparr>"
    using assms(2-4) silent(1,4) p by (simp add: apply_automatic_fallback_def)
  then show ?thesis
    using zero_thrust_result(7) [OF silent(6)] silent(6)
    by (simp add: reset_for_zero_thrust_def record_step_def Let_def from_multirotor_def)
next
  case (active t r1 pr0 pr r2 pr2 axis obs)
  note p = prepare_frame [OF active(3)]
  have "pr_setpoints pr = (pr_setpoints pr0)\<lparr>es_attitude := attitude st,
      es_collective := (if mr_axis_primed r then ax_collective (mr_last_axis r) else mc_hover_thrust c)\<rparr>"
    using assms(2-4) active(1,4) p by (simp add: apply_automatic_fallback_def)
  then show ?thesis
    using inner_loops_result [OF active(6)] active(7)
    by (simp add: record_step_def from_multirotor_def)
qed

lemma fallback_holds_output_witness:
  "\<exists>r' out. run_step small_angle_libm demo_controller multirotor_runtime_default state_estimate_default
      (demo_command Attitude f1)
      (with_mode_entry (from_control_mode Attitude) (FallenBack PositionHold Attitude POSITION)) default_limits
      = Some (r', out) \<and> ax_collective (cs_axis_command out) = f_half"
proof -
  let ?v = "with_mode_entry (from_control_mode Attitude) (FallenBack PositionHold Attitude POSITION)"
  obtain r' out where run: "run_step small_angle_libm demo_controller multirotor_runtime_default state_estimate_default
      (demo_command Attitude f1) ?v default_limits = Some (r', out)"
    using demo_returns by blast
  have t: "effective_topology ?v (cmd_mode (demo_command Attitude f1)) (cmd_setpoint (demo_command Attitude f1)) = AttitudeTopology"
    by (simp only: demo_topology) simp
  have f: "automatic_fallback_from ?v = Some PositionHold" by (simp add: with_mode_entry_def)
  have "ax_collective (cs_axis_command out) = mc_hover_thrust demo_controller"
    using fallback_holds_output [OF run t f] by (simp add: multirotor_runtime_default_def)
  then show ?thesis using run by (simp add: demo_controller_def from_gains_def)
qed

text \<open>no derivative kick at the edge between two topologies: in the first cycle of a topology the
  acceleration feedforward and the derivative term of the velocity loop are zero, and in the first
  cycle after an unsupported mode so is the derivative term of the rate loop.\<close>

lemma topology_edge_has_no_kick:
  assumes "run_step M c r st cmd flags lim = Some (r', out)"
    and "cso_multirotor (cs_observation out) = Some mo"
  shows "(mr_previous_topology r \<noteq> Some (effective_topology flags (cmd_mode cmd) (cmd_setpoint cmd)) \<longrightarrow>
            es_acceleration_ned (mo_setpoints mo) = (f0, f0, f0) \<and> lo_d (mo_velocity_loop mo) = (f0, f0, f0))
    \<and> (mr_previous_topology r = Some UnsupportedTopology \<longrightarrow> lo_d (mo_rate_loop mo) = (f0, f0, f0))"
  using assms(1)
proof (cases rule: run_step_cases)
  case rejected
  then show ?thesis using assms(2)
    by (auto simp: reject_unsupported_def from_multirotor_def setpoint_observation_default_def inactive_observation_def
        loop_observation_default_def)
next
  case (silent t r1 pr0 pr)
  have mo: "mo_setpoints mo = pr_setpoints pr" "lo_d (mo_velocity_loop mo) = lo_d (pr_velocity_loop pr0)"
    "lo_d (mo_rate_loop mo) = (f0, f0, f0)"
    using silent(4,6) assms(2)
    by (auto simp: reset_for_zero_thrust_def record_step_def Let_def from_multirotor_def reset_observation_def
        loop_observation_default_def)
  have "es_acceleration_ned (pr_setpoints pr) = es_acceleration_ned (pr_setpoints pr0)"
    by (simp add: silent(4) apply_automatic_fallback_def Let_def)
  then show ?thesis using mo prepare_edge [OF silent(3,1,2)] silent(1) by simp
next
  case (active t r1 pr0 pr r2 pr2 axis obs)
  have mo: "mo_setpoints mo = pr_setpoints pr2" "mo_velocity_loop mo = pr_velocity_loop pr0" "mo_rate_loop mo = obs"
    using active(4,7) assms(2) inner_loops_result(8) [OF active(6)]
    by (auto simp: record_step_def from_multirotor_def)
  have acc: "es_acceleration_ned (pr_setpoints pr2) = es_acceleration_ned (pr_setpoints pr0)"
    using inner_loops_result(12) [OF active(6)] by (simp add: active(4) apply_automatic_fallback_def Let_def)
  have rate: "lo_d obs = (f0, f0, f0)" if "mr_previous_topology r = Some UnsupportedTopology"
  proof -
    have "\<not> rl_primed (mr_rate_loop (align_topology_state r st t))"
      using that active(2) by (simp add: align_topology_state_def Let_def)
    then show ?thesis using inner_loops_unprimed(1) [OF active(6)] prepare_frame(1) [OF active(3)] by simp
  qed
  show ?thesis using mo acc rate prepare_edge [OF active(3,1,2)] active(1) by simp
qed

lemma topology_edge_has_no_kick_witness:
  "\<exists>r' out mo. run_step small_angle_libm demo_controller multirotor_runtime_default state_estimate_default
      (demo_command Attitude f_half) (with_mode_entry (from_control_mode Attitude) (Granted Attitude)) default_limits
      = Some (r', out) \<and> cso_multirotor (cs_observation out) = Some mo
      \<and> es_acceleration_ned (mo_setpoints mo) = (f0, f0, f0)"
proof -
  obtain r' out where run: "run_step small_angle_libm demo_controller multirotor_runtime_default state_estimate_default
      (demo_command Attitude f_half) (with_mode_entry (from_control_mode Attitude) (Granted Attitude)) default_limits
      = Some (r', out)"
    using demo_returns by blast
  obtain mo where mo: "cso_multirotor (cs_observation out) = Some mo" using cycle_observed [OF run] by blast
  have "es_acceleration_ned (mo_setpoints mo) = (f0, f0, f0)"
    using topology_edge_has_no_kick [OF run mo] by (simp add: multirotor_runtime_default_def)
  then show ?thesis using run mo by blast
qed

text \<open>a cycle without a valid interval moves no integrator: whatever the error, both loops keep
  their integrals, unless the commanded collective is below the disarmed threshold, when both are
  cleared.\<close>

lemma untimed_cycle_freezes_integrators:
  assumes "run_step M c (mr_set_cycle_interval r dt) st cmd flags lim = Some (r', out)"
    and "\<not> (f32_is_finite dt \<and> f32_lt f0 dt)"
  shows "if mr_previous_topology r' = Some ZeroThrust
     then vl_integrator (mr_velocity_loop r') = (f0, f0, f0) \<and> rl_integral (mr_rate_loop r') = (f0, f0, f0)
     else vl_integrator (mr_velocity_loop r') = vl_integrator (mr_velocity_loop r)
       \<and> rl_integral (mr_rate_loop r') = rl_integral (mr_rate_loop r)"
  using assms(1)
proof (cases rule: run_step_cases)
  case rejected
  then show ?thesis using reject_result [OF rejected(2)] by (simp add: mr_set_cycle_interval_def)
next
  case (silent t r1 pr0 pr)
  then show ?thesis
    using zero_thrust_result [OF silent(6)] by (simp add: rate_loop_default_def velocity_loop_default_def)
next
  case (active t r1 pr0 pr r2 pr2 axis obs)
  let ?r = "mr_set_cycle_interval r dt"
  have dt: "mr_dt ?r = f0" using assms(2) by (auto simp: mr_set_cycle_interval_def)
  have neg: "\<not> f32_lt f0 f0" by (simp add: f32_lt_def)
  have r1: "mr_dt r1 = f0" "rl_integral (mr_rate_loop r1) = rl_integral (mr_rate_loop r)"
    "vl_integrator (mr_velocity_loop r1) = vl_integrator (mr_velocity_loop r)"
    using prepare_frame [OF active(3)] prepare_untimed [OF active(3)] dt neg by (simp_all add: mr_set_cycle_interval_def)
  have "pr_topology pr2 \<noteq> ZeroThrust"
    using inner_loops_result(5) [OF active(6)] prepare_frame(5) [OF active(3)] active(1,4)
    by (auto simp: effective_topology_def split: outer_loop_selection.splits if_splits)
  then show ?thesis
    using r1 neg inner_loops_result(6) [OF active(6)] inner_loops_unprimed(2) [OF active(6)]
      record_step_result(4,6,7) [OF active(7)] by simp
qed

lemma untimed_cycle_freezes_integrators_witness:
  "\<exists>r' out. run_step small_angle_libm demo_controller (mr_set_cycle_interval multirotor_runtime_default f32_nan)
      state_estimate_default (demo_command Attitude f0)
      (with_mode_entry (from_control_mode Attitude) (Granted Attitude)) default_limits = Some (r', out)
      \<and> rl_integral (mr_rate_loop r') = (f0, f0, f0)"
proof -
  obtain r' out where run: "run_step small_angle_libm demo_controller
      (mr_set_cycle_interval multirotor_runtime_default f32_nan)
      state_estimate_default (demo_command Attitude f0)
      (with_mode_entry (from_control_mode Attitude) (Granted Attitude)) default_limits = Some (r', out)"
    using demo_returns by blast
  have "rl_integral (mr_rate_loop r') = (f0, f0, f0)"
    using untimed_cycle_freezes_integrators [OF run]
    by (simp add: f32_lt_def multirotor_runtime_default_def rate_loop_default_def split: if_splits)
  then show ?thesis using run by blast
qed

end
