(* ===== verification/Update.thy ===== *)
theory Update
  imports Kernel
begin

text \<open>
  The cycle of the kernel (\<open>kernel_update.rs\<close>). \<open>update\<close> is split where the source has its
  numbered steps: the timing statistics, the three early returns (corrupted command, not armed,
  critical fault) and the armed cycle with its checks, law, control and actuator stages.
\<close>

record cycle_input =
  ci_time :: time_delta
  ci_sensors :: sensor_set
  ci_command :: command
  ci_command_age_ms :: u32

definition safe_effective_command :: "u32 \<Rightarrow> command" where
  "safe_effective_command sequence =
     \<lparr>cmd_mode = Attitude, cmd_setpoint = setpoint_default, cmd_config_mode_request = None,
      cmd_sensor_overrides = None, cmd_sequence = sequence, cmd_source = Failsafe\<rparr>"

definition update_timing :: "u32 \<Rightarrow> ('e, 'r) kernel_state \<Rightarrow> ('e, 'r) kernel_state" where
  "update_timing dt_us s =
     (let t = ks_timing_stats s
      in s\<lparr>ks_timing_stats :=
           t\<lparr>last_cycle_us := dt_us, total_cycles := sat_add (total_cycles t) 1,
             max_cycle_us := (if max_cycle_us t < dt_us then dt_us else max_cycle_us t),
             min_cycle_us := (if dt_us < min_cycle_us t \<or> min_cycle_us t = 0 then dt_us
                              else min_cycle_us t)\<rparr>\<rparr>)"

text \<open>The safe actuator pattern with the masks of the branch that emits it.\<close>

definition safe_actuator_cmd :: "resolved_config \<Rightarrow> u16 \<Rightarrow> u8 \<Rightarrow> u32 \<Rightarrow> timestamp \<Rightarrow> actuator_cmd" where
  "safe_actuator_cmd cfg active fb_mask sequence ts =
     \<lparr>outputs = cfg_safe_output cfg, active_mask = active, ac_sequence = sequence,
      ac_timestamp = ts, fallback_mask = fb_mask, sanitized = True\<rparr>"

text \<open>The result of the early returns: safe output, law \<open>Backup\<close>, no protection, no degradation.\<close>

definition safe_result ::
  "('e, 'r) pipeline \<Rightarrow> ('e, 'r) kernel_state \<Rightarrow> control_mode \<Rightarrow> actuator_cmd \<Rightarrow> u32 \<Rightarrow> update_result" where
  "safe_result p s mode act sequence =
     \<lparr>ur_effective_command = safe_effective_command sequence,
      ur_controller_observation = observation_default,
      ur_actuator = act,
      ur_status =
        \<lparr>st_mode = mode, st_config_mode = ks_mode s, st_transition_state = Stable (ks_mode s),
         st_law = Backup, st_health = Operative, st_faults = ks_faults s,
         st_confidence = quality (p_estimate p (ks_estimator s)),
         st_envelope_margin = envelope_margin_default, st_sequence = sequence,
         st_protection = protection_status_default, st_sanitize_report = sanitize_report_default,
         st_mode_entry = Granted mode\<rparr>,
      ur_estimate = p_estimate p (ks_estimator s), ur_timing = cycle_timing_default,
      ur_degradation = None\<rparr>"

definition observe_sensors :: "('e, 'r) pipeline \<Rightarrow> cycle_input \<Rightarrow> ('e, 'r) kernel_state \<Rightarrow> ('e, 'r) kernel_state" where
  "observe_sensors p ci s =
     s\<lparr>ks_estimator := p_observe p (ks_estimator s) (ci_sensors ci)
          (cmd_sensor_overrides (ci_command ci)) (dt_sec (ci_time ci))\<rparr>"

text \<open>Steps 3 to 4a: in-flight checks, the airborne latch, and the release of a command-loss terminal.\<close>

definition refresh_checks ::
  "resolved_config \<Rightarrow> cycle_input \<Rightarrow> state_estimate \<Rightarrow> ('e, 'r) kernel_state \<Rightarrow> ('e, 'r) kernel_state" where
  "refresh_checks cfg ci est s =
     (let s1 = upd_in_flight (\<lambda>c. fl_update_from_state c est) s;
          s2 = upd_in_flight (\<lambda>c. fl_update_from_sensors c (ci_sensors ci)) s1;
          altitude_m = f32_neg (ix2 (position_ned est));
          altitude_ok = (f32_le (min_altitude (cfg_limits cfg)) altitude_m
                         \<and> f32_le altitude_m (max_altitude (cfg_limits cfg)));
          s3 = upd_in_flight (\<lambda>c. fl_update_altitude c altitude_ok) s2;
          s4 = s3\<lparr>ks_flight_phase := flight_phase_update (ks_flight_phase s3) est
                     (ks_init_state s3 = Armed) (dt_sec (ci_time ci)) flight_phase_limits_default\<rparr>
      in upd_in_flight
           (\<lambda>c. fl_update_command_status c (ci_command_age_ms ci) (cfg_command_timeout_ms cfg)) s4)"

definition terminal_release :: "('e, 'r) pipeline \<Rightarrow> ('e, 'r) kernel_state \<Rightarrow> ('e, 'r) kernel_state" where
  "terminal_release p s =
     (if ks_control_law s = Direct \<and> ks_terminal_cause s = CommandLoss
         \<and> flag_contains (fl_current (in_flight (ks_checks s))) FL_COMMAND_RECENT
      then reset_controller p (s\<lparr>ks_control_law := Primary, ks_terminal_cause := NoTerminal\<rparr>)
      else s)"

definition decide_degradation ::
  "('e, 'r) pipeline \<Rightarrow> timestamp \<Rightarrow> ('e, 'r) kernel_state \<Rightarrow> ('e, 'r) kernel_state \<times> degradation_event option" where
  "decide_degradation p ts s =
     (if TIMING_VIOLATION_THRESHOLD \<le> consecutive_violations (ks_timing_stats s)
      then handle_degradation p TimingViolation ts s
      else case get_degradation_trigger (in_flight (ks_checks s)) of
             Some reason \<Rightarrow> handle_degradation p reason ts s
           | None \<Rightarrow> (s, None))"

definition decide_mode_entry ::
  "('e, 'r) pipeline \<Rightarrow> ('e, 'r) kernel_state \<Rightarrow> command \<Rightarrow> state_valid_flags \<Rightarrow> mode_entry_decision" where
  "decide_mode_entry p s constrained valid =
     (case ks_control_law s of
        Backup \<Rightarrow> Granted (cmd_mode constrained)
      | Direct \<Rightarrow> Granted AltitudeHold
      | Primary \<Rightarrow> gate_controller_mode_entry (cmd_mode constrained) valid
                    (p_supports_mode p (cmd_mode constrained))
      | Alternate \<Rightarrow> gate_controller_mode_entry (cmd_mode constrained) valid
                    (p_supports_mode p (cmd_mode constrained)))"

fun is_unsupported :: "mode_entry_decision \<Rightarrow> bool" where
  "is_unsupported (Unsupported _) = True"
| "is_unsupported (Granted _) = False"
| "is_unsupported (FallenBack _ _ _) = False"
| "is_unsupported (Refused _ _) = False"

definition select_command ::
  "('e, 'r) pipeline \<Rightarrow> resolved_config \<Rightarrow> bool \<Rightarrow> control_law \<Rightarrow> state_estimate \<Rightarrow> command \<Rightarrow> mode_entry_decision \<Rightarrow> command" where
  "select_command p cfg safe_control law est constrained entry =
     (if safe_control then safe_effective_command (cmd_sequence constrained)
      else if law = Direct then descend_command (p_libm p) est (cfg_limits cfg) (cmd_sequence constrained)
      else apply_mode_entry constrained entry)"

definition control_stage ::
  "('e, 'r) pipeline \<Rightarrow> resolved_config \<Rightarrow> cycle_input \<Rightarrow> timestamp \<Rightarrow> bool \<Rightarrow> state_estimate \<Rightarrow> command
     \<Rightarrow> mode_entry_decision \<Rightarrow> ('e, 'r) kernel_state
     \<Rightarrow> ('e, 'r) kernel_state \<times> actuator_cmd \<times> controller_step_observation" where
  "control_stage p cfg ci ts safe_control est effective_cmd entry s =
     (if safe_control
      then (s, safe_actuator_cmd cfg 0xF 0xFF (cmd_sequence (ci_command ci)) ts, observation_default)
      else let flags = with_mode_entry (from_control_mode (cmd_mode effective_cmd)) entry;
               r1 = p_set_cycle_interval p (ks_controller s) (dt_sec (ci_time ci));
               (step, r2) = p_step p r1 est effective_cmd flags (ks_mode s) (cfg_limits cfg)
           in (s\<lparr>ks_controller := r2\<rparr>, p_mix p (cs_axis_command step), cs_observation step))"

definition actuator_stage ::
  "('e, 'r) pipeline \<Rightarrow> resolved_config \<Rightarrow> timestamp \<Rightarrow> bool \<Rightarrow> actuator_cmd \<Rightarrow> ('e, 'r) kernel_state
     \<Rightarrow> ('e, 'r) kernel_state \<times> actuator_cmd \<times> sanitize_report" where
  "actuator_stage p cfg ts safe_control cmd s =
     (let previous_outputs = as_commanded (ks_actuator_state s);
          (cmd1, fb, report) =
            (if safe_control then (cmd, ks_fallback s, sanitize_report_default)
             else p_sanitize p cmd (cfg_mode_config cfg) (ks_fallback s));
          cmd2 = apply_slew_limit cmd1 previous_outputs (cfg_slew_limit_per_cycle cfg)
      in (s\<lparr>ks_fallback := fb, ks_actuator_state := update_commanded (ks_actuator_state s) cmd2 ts\<rparr>,
          cmd2, report))"

text \<open>Steps 3 to 11 of an armed cycle without a critical fault.\<close>

definition armed_cycle ::
  "('e, 'r) pipeline \<Rightarrow> resolved_config \<Rightarrow> cycle_input \<Rightarrow> timestamp \<Rightarrow> u32 \<Rightarrow> ('e, 'r) kernel_state
     \<Rightarrow> ('e, 'r) kernel_state \<times> update_result" where
  "armed_cycle p cfg ci ts dt_us s =
     (let command = ci_command ci;
          s1 = observe_sensors p ci s;
          est = p_estimate p (ks_estimator s1);
          s2 = terminal_release p (refresh_checks cfg ci est s1);
          (s3, degradation) = decide_degradation p ts s2;
          (constrained_sp, protection) =
            constrain (p_libm p) (cmd_setpoint command) est (cfg_limits cfg) HardEnvelope;
          s4 = upd_in_flight (\<lambda>c. fl_update_from_envelope c protection) s3;
          constrained_cmd = command\<lparr>cmd_setpoint := constrained_sp\<rparr>;
          entry = decide_mode_entry p s4 constrained_cmd (valid_flags est);
          refused = is_unsupported entry;
          s5 = (if refused then reset_controller p s4 else s4);
          safe_control = (ks_control_law s5 = Backup \<or> refused);
          effective_cmd = select_command p cfg safe_control (ks_control_law s5) est constrained_cmd entry;
          (s6, cmd1, observation) = control_stage p cfg ci ts safe_control est effective_cmd entry s5;
          (s7, cmd2, report) = actuator_stage p cfg ts safe_control cmd1 s6
      in (s7,
          \<lparr>ur_effective_command = effective_cmd, ur_controller_observation = observation,
           ur_actuator = cmd2,
           ur_status =
             \<lparr>st_mode = effective entry, st_config_mode = ks_mode s7,
              st_transition_state = Stable (ks_mode s7), st_law = ks_control_law s7,
              st_health = Operative, st_faults = ks_faults s7, st_confidence = quality est,
              st_envelope_margin = envelope_margin_default, st_sequence = cmd_sequence command,
              st_protection = protection, st_sanitize_report = report, st_mode_entry = entry\<rparr>,
           ur_estimate = est,
           ur_timing = \<lparr>cycle_start_us = 0, cycle_end_us = dt_us, duration_us = dt_us,
                        deadline_met = (consecutive_violations (ks_timing_stats s7) = 0)\<rparr>,
           ur_degradation = degradation\<rparr>))"

definition update ::
  "('e, 'r) pipeline \<Rightarrow> resolved_config \<Rightarrow> cycle_input \<Rightarrow> ('e, 'r) kernel_state
     \<Rightarrow> ('e, 'r) kernel_state \<times> update_result" where
  "update p cfg ci s =
     (let dt_us = ucast (as_micros (ci_time ci));
          s0 = update_timing dt_us s;
          ts = \<lparr>ts_ticks = tick_delta (ci_time ci), ts_source = Internal\<rparr>;
          sequence = cmd_sequence (ci_command ci)
      in if \<not> validate_enums (ci_command ci)
         then let s1 = s0\<lparr>ks_faults := flag_insert (ks_faults s0) ENUM_INVALID\<rparr>
              in (s1, safe_result p s1 Attitude (safe_actuator_cmd cfg 0 0 sequence ts) sequence)
         else let s1 = update_sensor_faults (ci_sensors ci) s0
         in if \<not> allows_active_control (ks_init_state s1)
            then let s2 = (if flag_intersects (ks_faults s1) critical_faults then s1
                           else observe_sensors p ci s1)
                 in (s2, safe_result p s2 (cmd_mode (ci_command ci))
                           (safe_actuator_cmd cfg 0 0 sequence ts) sequence)
            else let (s2, critical) = check_critical_faults p s1
                 in if critical
                    then (s2, safe_result p s2 (cmd_mode (ci_command ci))
                                (safe_actuator_cmd cfg 0xF 0xFF sequence ts) sequence)
                    else armed_cycle p cfg ci ts dt_us s2)"

end
