(* ===== verification/KernelRun.thy ===== *)
theory KernelRun
  imports Update
begin

text \<open>
  Runs of the kernel: the calls an integrator makes, the states they reach, and what holds of
  all of them. Besides the kernel's own operations a call can be one of the two writes the
  boards make to the public check state (throttle and RC status) and the test hook that
  injects a fault.
\<close>

section \<open>Calls and runs\<close>

datatype kernel_call =
  InitStepCall sensor_set
| ArmCall
| DisarmCall
| TerminateCall
| UpdateCall cycle_input
| RequestModeCall config_mode
| DegradeCall degradation_reason timestamp
| ResetFromFaultCall
| GroundResetCall
| TimingCall bool
| ThrottleCall bool
| RcStatusCall bool
| InjectFaultCall fault_flags

fun kernel_step ::
  "('e, 'r) pipeline \<Rightarrow> resolved_config \<Rightarrow> kernel_call \<Rightarrow> ('e, 'r) kernel_state \<Rightarrow> ('e, 'r) kernel_state" where
  "kernel_step p cfg (InitStepCall sensors) s = fst (init_step p sensors s)"
| "kernel_step p cfg ArmCall s = fst (arm p s)"
| "kernel_step p cfg DisarmCall s = fst (disarm p s)"
| "kernel_step p cfg TerminateCall s = terminate p s"
| "kernel_step p cfg (UpdateCall ci) s = fst (update p cfg ci s)"
| "kernel_step p cfg (RequestModeCall m) s = fst (request_config_mode p m s)"
| "kernel_step p cfg (DegradeCall r ts) s = fst (handle_degradation p r ts s)"
| "kernel_step p cfg ResetFromFaultCall s = fst (reset_from_fault s)"
| "kernel_step p cfg GroundResetCall s = ground_reset p s"
| "kernel_step p cfg (TimingCall v) s = report_timing_violation v s"
| "kernel_step p cfg (ThrottleCall low) s = upd_pre_arm (\<lambda>c. pa_update_throttle c low) s"
| "kernel_step p cfg (RcStatusCall a) s = upd_in_flight (\<lambda>c. fl_update_rc_status c a) s"
| "kernel_step p cfg (InjectFaultCall f) s = inject_fault f s"

definition kernel_run ::
  "('e, 'r) pipeline \<Rightarrow> resolved_config \<Rightarrow> kernel_call list \<Rightarrow> ('e, 'r) kernel_state \<Rightarrow> ('e, 'r) kernel_state" where
  "kernel_run p cfg calls s = fold (kernel_step p cfg) calls s"

inductive kreachable ::
  "('e, 'r) pipeline \<Rightarrow> resolved_config \<Rightarrow> ('e, 'r) kernel_state \<Rightarrow> ('e, 'r) kernel_state \<Rightarrow> bool"
  for p :: "('e, 'r) pipeline" and cfg :: resolved_config and s0 :: "('e, 'r) kernel_state" where
  kstart: "kreachable p cfg s0 s0"
| kstep: "kreachable p cfg s0 s \<Longrightarrow> kreachable p cfg s0 (kernel_step p cfg c s)"

lemma kreachable_run: "kreachable p cfg s0 s \<longleftrightarrow> (\<exists>calls. s = kernel_run p cfg calls s0)"
proof
  show "kreachable p cfg s0 s \<Longrightarrow> \<exists>calls. s = kernel_run p cfg calls s0"
  proof (induction rule: kreachable.induct)
    case kstart
    show ?case by (rule exI [of _ "[]"]) (simp add: kernel_run_def)
  next
    case (kstep s c)
    then obtain calls where "s = kernel_run p cfg calls s0" by blast
    then show ?case by (intro exI [of _ "calls @ [c]"]) (simp add: kernel_run_def)
  qed
next
  have "kreachable p cfg s0 (kernel_run p cfg calls s0)" for calls
    by (induction calls rule: rev_induct) (auto simp: kernel_run_def intro: kreachable.intros)
  then show "\<exists>calls. s = kernel_run p cfg calls s0 \<Longrightarrow> kreachable p cfg s0 s" by blast
qed

section \<open>Frames\<close>

named_theorems kernel_frame \<open>the fields an operation leaves alone\<close>

lemma upd_frame [simp]:
  "ks_init_state (upd_pre_arm f s) = ks_init_state s" "ks_faults (upd_pre_arm f s) = ks_faults s"
  "ks_control_law (upd_pre_arm f s) = ks_control_law s" "ks_terminal_cause (upd_pre_arm f s) = ks_terminal_cause s"
  "ks_flight_phase (upd_pre_arm f s) = ks_flight_phase s" "ks_estimator (upd_pre_arm f s) = ks_estimator s"
  "ks_mode (upd_pre_arm f s) = ks_mode s" "ks_timing_stats (upd_pre_arm f s) = ks_timing_stats s"
  "ks_controller (upd_pre_arm f s) = ks_controller s" "ks_fallback (upd_pre_arm f s) = ks_fallback s"
  "ks_actuator_state (upd_pre_arm f s) = ks_actuator_state s"
  "pre_arm (ks_checks (upd_pre_arm f s)) = f (pre_arm (ks_checks s))"
  "in_flight (ks_checks (upd_pre_arm f s)) = in_flight (ks_checks s)"
  "transition (ks_checks (upd_pre_arm f s)) = transition (ks_checks s)"
  "ks_init_state (upd_in_flight g s) = ks_init_state s" "ks_faults (upd_in_flight g s) = ks_faults s"
  "ks_control_law (upd_in_flight g s) = ks_control_law s" "ks_terminal_cause (upd_in_flight g s) = ks_terminal_cause s"
  "ks_flight_phase (upd_in_flight g s) = ks_flight_phase s" "ks_estimator (upd_in_flight g s) = ks_estimator s"
  "ks_mode (upd_in_flight g s) = ks_mode s" "ks_timing_stats (upd_in_flight g s) = ks_timing_stats s"
  "ks_controller (upd_in_flight g s) = ks_controller s" "ks_fallback (upd_in_flight g s) = ks_fallback s"
  "ks_actuator_state (upd_in_flight g s) = ks_actuator_state s"
  "pre_arm (ks_checks (upd_in_flight g s)) = pre_arm (ks_checks s)"
  "in_flight (ks_checks (upd_in_flight g s)) = g (in_flight (ks_checks s))"
  "transition (ks_checks (upd_in_flight g s)) = transition (ks_checks s)"
  "ks_init_state (upd_transition h s) = ks_init_state s" "ks_faults (upd_transition h s) = ks_faults s"
  "ks_control_law (upd_transition h s) = ks_control_law s" "ks_terminal_cause (upd_transition h s) = ks_terminal_cause s"
  "ks_flight_phase (upd_transition h s) = ks_flight_phase s" "ks_estimator (upd_transition h s) = ks_estimator s"
  "ks_mode (upd_transition h s) = ks_mode s" "ks_timing_stats (upd_transition h s) = ks_timing_stats s"
  "ks_controller (upd_transition h s) = ks_controller s"
  "ks_actuator_state (upd_transition h s) = ks_actuator_state s"
  "pre_arm (ks_checks (upd_transition h s)) = pre_arm (ks_checks s)"
  "in_flight (ks_checks (upd_transition h s)) = in_flight (ks_checks s)"
  "transition (ks_checks (upd_transition h s)) = h (transition (ks_checks s))"
  "ks_fallback (upd_transition h s) = ks_fallback s"
  by (simp_all add: upd_pre_arm_def upd_in_flight_def upd_transition_def)

lemma reset_controller_frame [simp]:
  "ks_init_state (reset_controller p s) = ks_init_state s" "ks_faults (reset_controller p s) = ks_faults s"
  "ks_control_law (reset_controller p s) = ks_control_law s"
  "ks_terminal_cause (reset_controller p s) = ks_terminal_cause s"
  "ks_flight_phase (reset_controller p s) = ks_flight_phase s" "ks_estimator (reset_controller p s) = ks_estimator s"
  "ks_mode (reset_controller p s) = ks_mode s" "ks_timing_stats (reset_controller p s) = ks_timing_stats s"
  "ks_fallback (reset_controller p s) = ks_fallback s" "ks_checks (reset_controller p s) = ks_checks s"
  "ks_actuator_state (reset_controller p s) = ks_actuator_state s"
  "ks_controller (reset_controller p s) = p_controller_reset p (ks_controller s)"
  by (simp_all add: reset_controller_def)

text \<open>
  The part of the state the run-level properties speak about. Every stage of an armed cycle
  after the degradation decision leaves it alone.
\<close>

definition kview :: "('e, 'r) kernel_state \<Rightarrow> init_state \<times> fault_flags \<times> control_law \<times> terminal_cause
    \<times> flight_phase_state \<times> pre_arm_status \<times> config_mode" where
  "kview s = (ks_init_state s, ks_faults s, ks_control_law s, ks_terminal_cause s, ks_flight_phase s,
     pre_arm (ks_checks s), ks_mode s)"

lemma kview_stage [simp]:
  "kview (upd_in_flight f s) = kview s" "kview (reset_controller p s) = kview s"
  "kview (upd_transition h s) = kview s"
  "kview (observe_sensors p ci s) = kview s"
  "kview (fst (control_stage p cfg ci ts b est c e s)) = kview s"
  "kview (fst (actuator_stage p cfg ts b cmd s)) = kview s"
  "kview (update_timing dt s) = kview s"
  by (simp_all add: kview_def observe_sensors_def control_stage_def actuator_stage_def update_timing_def
      split_beta Let_def)

lemma kview_refresh:
  "kview (refresh_checks cfg ci est s) =
     kview (s\<lparr>ks_flight_phase := flight_phase_update (ks_flight_phase s) est (ks_init_state s = Armed)
              (dt_sec (ci_time ci)) flight_phase_limits_default\<rparr>)"
  by (simp add: kview_def refresh_checks_def Let_def)

text \<open>The state an armed cycle hands to the degradation decision, and the view it leaves.\<close>

definition before_degradation ::
  "('e, 'r) pipeline \<Rightarrow> resolved_config \<Rightarrow> cycle_input \<Rightarrow> ('e, 'r) kernel_state \<Rightarrow> ('e, 'r) kernel_state" where
  "before_degradation p cfg ci s =
     (let s1 = observe_sensors p ci s
      in terminal_release p (refresh_checks cfg ci (p_estimate p (ks_estimator s1)) s1))"

lemma kview_armed_cycle:
  "kview (fst (armed_cycle p cfg ci ts dt s)) =
     kview (fst (decide_degradation p ts (before_degradation p cfg ci s)))"
  by (simp add: armed_cycle_def before_degradation_def split_beta Let_def)

section \<open>The terminal cause and the branches of a cycle\<close>

definition law_inv :: "('e, 'r) kernel_state \<Rightarrow> bool" where
  "law_inv s \<longleftrightarrow>
     (ks_terminal_cause s \<noteq> NoTerminal \<longleftrightarrow> ks_control_law s = Direct)
     \<and> (ks_init_state s \<in> {Disarmed, Fault} \<longrightarrow> ks_control_law s = Backup)
     \<and> (is_airborne (ks_flight_phase s) \<longrightarrow> ks_init_state s \<in> {Armed, Fault, PreArm, Ready})"

lemma law_inv_kview: "kview s = kview t \<Longrightarrow> law_inv s = law_inv t"
  by (simp add: law_inv_def kview_def)


lemma handle_degradation_fields:
  "ks_faults (fst (handle_degradation p r ts s)) =
     (case latched_fault r of Some f \<Rightarrow> flag_insert (ks_faults s) f | None \<Rightarrow> ks_faults s)"
  "ks_init_state (fst (handle_degradation p r ts s)) = ks_init_state s"
  "ks_flight_phase (fst (handle_degradation p r ts s)) = ks_flight_phase s"
  "ks_checks (fst (handle_degradation p r ts s)) = ks_checks s"
  "ks_mode (fst (handle_degradation p r ts s)) = ks_mode s"
  "ks_timing_stats (fst (handle_degradation p r ts s)) = ks_timing_stats s"
  "ks_estimator (fst (handle_degradation p r ts s)) = ks_estimator s"
  "ks_control_law (fst (handle_degradation p r ts s)) =
     (if ks_control_law s < degraded_law r then degraded_law r else ks_control_law s)"
  "ks_terminal_cause (fst (handle_degradation p r ts s)) =
     (if ks_control_law s < degraded_law r
      then (if degraded_law r = Direct then (if r = CommandTimeout then CommandLoss else Commanded) else NoTerminal)
      else ks_terminal_cause s)"
  by (auto simp: handle_degradation_def severity_less_iff Let_def split: option.split)

lemma handle_degradation_event:
  "snd (handle_degradation p r ts s) =
     (if ks_control_law s < degraded_law r
      then Some \<lparr>de_from = ks_control_law s, de_to = degraded_law r, de_reason = r, de_timestamp = ts\<rparr> else None)"
  by (auto simp: handle_degradation_def severity_less_iff Let_def split: option.split)

lemma law_inv_handle_degradation: "law_inv s \<Longrightarrow> law_inv (fst (handle_degradation p r ts s))"
proof -
  have b: "\<not> Backup < l" for l by (cases l) (simp_all add: less_control_law_def)
  show "law_inv s \<Longrightarrow> law_inv (fst (handle_degradation p r ts s))"
    using b by (auto simp: law_inv_def handle_degradation_fields)
qed

lemma law_inv_decide: "law_inv s \<Longrightarrow> law_inv (fst (decide_degradation p ts s))"
  by (auto simp: decide_degradation_def law_inv_handle_degradation split: option.split)

lemma law_inv_terminal_release:
  "law_inv s \<Longrightarrow> law_inv (terminal_release p s)"
  by (auto simp: terminal_release_def law_inv_def)

lemma law_inv_armed_cycle:
  assumes "law_inv s" "ks_init_state s = Armed"
  shows "law_inv (fst (armed_cycle p cfg ci ts dt s))"
proof -
  have "law_inv (refresh_checks cfg ci e (observe_sensors p ci s))" for e
    using assms by (simp add: law_inv_def refresh_checks_def observe_sensors_def Let_def)
  then have "law_inv (fst (decide_degradation p ts (before_degradation p cfg ci s)))"
    by (simp add: before_degradation_def Let_def law_inv_decide law_inv_terminal_release)
  then show ?thesis using law_inv_kview [OF kview_armed_cycle] by blast
qed

lemma update_sensor_faults_frame [simp]:
  "ks_init_state (update_sensor_faults x s) = ks_init_state s"
  "ks_control_law (update_sensor_faults x s) = ks_control_law s"
  "ks_terminal_cause (update_sensor_faults x s) = ks_terminal_cause s"
  "ks_flight_phase (update_sensor_faults x s) = ks_flight_phase s"
  "ks_checks (update_sensor_faults x s) = ks_checks s"
  "ks_mode (update_sensor_faults x s) = ks_mode s"
  "ks_timing_stats (update_sensor_faults x s) = ks_timing_stats s"
  "ks_estimator (update_sensor_faults x s) = ks_estimator s"
  by (simp_all add: update_sensor_faults_def Let_def)

lemma update_timing_frame [simp]:
  "ks_init_state (update_timing x s) = ks_init_state s" "ks_faults (update_timing x s) = ks_faults s"
  "ks_control_law (update_timing x s) = ks_control_law s"
  "ks_terminal_cause (update_timing x s) = ks_terminal_cause s"
  "ks_flight_phase (update_timing x s) = ks_flight_phase s"
  "ks_checks (update_timing x s) = ks_checks s" "ks_mode (update_timing x s) = ks_mode s"
  "consecutive_violations (ks_timing_stats (update_timing x s)) = consecutive_violations (ks_timing_stats s)"
  "ks_estimator (update_timing x s) = ks_estimator s"
  by (simp_all add: update_timing_def Let_def)

text \<open>The four branches of a cycle: a command value always passes enum validation.\<close>

definition after_sensors :: "cycle_input \<Rightarrow> ('e, 'r) kernel_state \<Rightarrow> ('e, 'r) kernel_state" where
  "after_sensors ci s = update_sensor_faults (ci_sensors ci) (update_timing (ucast (as_micros (ci_time ci))) s)"

definition cycle_timestamp :: "cycle_input \<Rightarrow> timestamp" where
  "cycle_timestamp ci = \<lparr>ts_ticks = tick_delta (ci_time ci), ts_source = Internal\<rparr>"

lemma update_unarmed:
  "ks_init_state s \<noteq> Armed \<Longrightarrow>
   update p cfg ci s =
     (let s1 = after_sensors ci s;
          s2 = (if flag_intersects (ks_faults s1) critical_faults then s1 else observe_sensors p ci s1)
      in (s2, safe_result p s2 (cmd_mode (ci_command ci))
                (safe_actuator_cmd cfg 0 0 (cmd_sequence (ci_command ci)) (cycle_timestamp ci))
                (cmd_sequence (ci_command ci))))"
  by (simp add: update_def after_sensors_def cycle_timestamp_def Let_def)

lemma update_critical:
  "ks_init_state s = Armed \<Longrightarrow> flag_intersects (ks_faults (after_sensors ci s)) critical_faults \<Longrightarrow>
   update p cfg ci s =
     (let s1 = fst (check_critical_faults p (after_sensors ci s))
      in (s1, safe_result p s1 (cmd_mode (ci_command ci))
                (safe_actuator_cmd cfg 0xF 0xFF (cmd_sequence (ci_command ci)) (cycle_timestamp ci))
                (cmd_sequence (ci_command ci))))"
  by (simp add: update_def after_sensors_def cycle_timestamp_def check_critical_faults_def Let_def)

lemma update_armed:
  "ks_init_state s = Armed \<Longrightarrow> \<not> flag_intersects (ks_faults (after_sensors ci s)) critical_faults \<Longrightarrow>
   update p cfg ci s =
     armed_cycle p cfg ci (cycle_timestamp ci) (ucast (as_micros (ci_time ci))) (after_sensors ci s)"
  by (simp add: update_def after_sensors_def cycle_timestamp_def check_critical_faults_def Let_def)

lemma law_inv_update:
  assumes "law_inv s" shows "law_inv (fst (update p cfg ci s))"
proof (cases "ks_init_state s = Armed")
  case False
  then show ?thesis using assms
    by (simp add: update_unarmed Let_def law_inv_def after_sensors_def observe_sensors_def)
next
  case True
  have i: "law_inv (after_sensors ci s)" "ks_init_state (after_sensors ci s) = Armed"
    using assms True by (simp_all add: law_inv_def after_sensors_def)
  show ?thesis
  proof (cases "flag_intersects (ks_faults (after_sensors ci s)) critical_faults")
    case crit: True
    then show ?thesis
      using i by (simp add: update_critical [OF True crit] check_critical_faults_def law_inv_def Let_def)
  next
    case False
    then show ?thesis using law_inv_armed_cycle [OF i] by (simp add: update_armed [OF True False])
  qed
qed

lemma init_step_state:
  "fst (init_step p sensors s) =
     init_transition (upd_pre_arm (\<lambda>c. pa_update_ekf (pa_update_from_faults (pa_update_from_sensors c sensors)
        (ks_faults s)) (quality (p_estimate p (ks_estimator s)) \<noteq> Unusable)) s)"
  by (simp add: init_step_def upd_pre_arm_def Let_def)

lemma init_transition_frame [simp]:
  "ks_control_law (init_transition s) = ks_control_law s" "ks_faults (init_transition s) = ks_faults s"
  "ks_terminal_cause (init_transition s) = ks_terminal_cause s"
  "ks_flight_phase (init_transition s) = ks_flight_phase s" "ks_mode (init_transition s) = ks_mode s"
  "ks_estimator (init_transition s) = ks_estimator s" "ks_timing_stats (init_transition s) = ks_timing_stats s"
  "in_flight (ks_checks (init_transition s)) = in_flight (ks_checks s)"
  by (cases "ks_init_state s"; simp add: init_transition_def)+

lemma init_transition_next:
  "ks_init_state (init_transition s) \<noteq> ks_init_state s \<Longrightarrow>
     (ks_init_state s, ks_init_state (init_transition s)) \<in>
       {(PowerOn, ConfigLoading), (ConfigLoading, SensorInit), (SensorInit, EstimatorConverging),
        (EstimatorConverging, PreArm), (PreArm, Ready), (Ready, PreArm), (Disarmed, PreArm)}"
  by (cases "ks_init_state s") (auto simp: init_transition_def split: if_splits)

lemma law_inv_init_step: "law_inv s \<Longrightarrow> law_inv (fst (init_step p sensors s))"
  using init_transition_next [of "upd_pre_arm (\<lambda>c. pa_update_ekf (pa_update_from_faults (pa_update_from_sensors c sensors)
        (ks_faults s)) (quality (p_estimate p (ks_estimator s)) \<noteq> Unusable)) s"]
  unfolding init_step_state
  by (cases "ks_init_state (init_transition (upd_pre_arm (\<lambda>c. pa_update_ekf (pa_update_from_faults
        (pa_update_from_sensors c sensors) (ks_faults s))
        (quality (p_estimate p (ks_estimator s)) \<noteq> Unusable)) s)) = ks_init_state s")
    (auto simp: law_inv_def)

lemma fp_reset_ground [simp]: "\<not> is_airborne (fp_reset x)" "\<not> is_airborne (begin_flight_period x e)"
  by (simp_all add: is_airborne_def fp_reset_def flight_phase_state_default_def begin_flight_period_def)

lemma end_flight_period_fields [simp]:
  "ks_init_state (end_flight_period p s) = Disarmed" "ks_control_law (end_flight_period p s) = Backup"
  "ks_terminal_cause (end_flight_period p s) = NoTerminal" "ks_faults (end_flight_period p s) = ks_faults s"
  "ks_flight_phase (end_flight_period p s) = flight_phase_state_default"
  "pre_arm (ks_checks (end_flight_period p s)) = pre_arm (ks_checks s)"
  by (simp_all add: end_flight_period_def fp_reset_def)

lemma law_inv_step: "law_inv s \<Longrightarrow> law_inv (kernel_step p cfg c s)"
proof (cases c)
  case (UpdateCall ci)
  then show "law_inv s \<Longrightarrow> law_inv (kernel_step p cfg c s)" by (simp add: law_inv_update)
next
  case (InitStepCall sensors)
  then show "law_inv s \<Longrightarrow> law_inv (kernel_step p cfg c s)" by (simp add: law_inv_init_step)
next
  case (DegradeCall r ts)
  then show "law_inv s \<Longrightarrow> law_inv (kernel_step p cfg c s)" by (simp add: law_inv_handle_degradation)
next
  case (RequestModeCall m)
  then show "law_inv s \<Longrightarrow> law_inv (kernel_step p cfg c s)"
    by (auto simp: request_config_mode_def law_inv_def Let_def split: sum.split)
qed (auto simp: law_inv_def arm_def disarm_def terminate_def reset_from_fault_def ground_reset_def
    report_timing_violation_def inject_fault_def Let_def is_airborne_def flight_phase_state_default_def
    begin_flight_period_def fp_reset_def)

section \<open>An example pipeline\<close>

text \<open>A concrete pipeline for the witnesses: the estimator state is the estimate itself, the
  controller is stateless and commands its setpoint's collective, the mixer and the sanitizer
  are the X500 mixer and the sanitizer of the repository.\<close>

definition demo_pipeline :: "(state_estimate, unit) pipeline" where
  "demo_pipeline =
     \<lparr>p_observe = (\<lambda>e sensors ov dt. e), p_estimate = (\<lambda>e. e), p_estimator_reset = (\<lambda>e. e),
      p_verify_config_binding = (\<lambda>cfg. Ok ()), p_supports_mode = (\<lambda>m. True),
      p_set_cycle_interval = (\<lambda>r dt. r),
      p_step = (\<lambda>r est cmd flags mode lim.
        (\<lparr>cs_axis_command = \<lparr>ax_roll = f0, ax_pitch = f0, ax_yaw = f0, ax_collective = f0\<rparr>,
          cs_observation = observation_default\<rparr>, r)),
      p_controller_reset = (\<lambda>r. r), p_geometry = QuadXX500,
      p_mix = quad_x500_mix timestamp_default, p_sanitize = sanitize, p_libm = small_angle_libm\<rparr>"

definition demo_estimate :: state_estimate where
  "demo_estimate = state_estimate_default\<lparr>quality := GoodQuality, valid_flags := 15\<rparr>"

definition demo_state :: "(state_estimate, unit) kernel_state" where
  "demo_state = kernel_state_new demo_estimate () kernel_checks_new"

end
