(* ===== verification/KernelSafety.thy ===== *)
theory KernelSafety
  imports KernelRun Runs
begin

text \<open>
  What holds of every run of the kernel: the contracts its step satisfies (interpretations of
  the locales of \<open>Runs\<close>), latched faults, the terminal cause, and the conditions of arming.
\<close>

section \<open>Contracts of the kernel's step\<close>


text \<open>The fault bits the sensor monitor sets and clears by itself; every other bit is latched.\<close>

definition live_faults :: fault_flags where
  "live_faults = ALL_IMU_FAILED OR BARO_FAILED OR MAG_FAILED OR ALL_GNSS_LOST"

fun is_ground_reset :: "kernel_call \<Rightarrow> bool" where
  "is_ground_reset GroundResetCall = True"
| "is_ground_reset _ = False"

lemma kview_faults: "kview s = kview t \<Longrightarrow> ks_faults s = ks_faults t"
  by (simp add: kview_def)

lemma kview_law: "kview s = kview t \<Longrightarrow> ks_control_law s = ks_control_law t"
  by (simp add: kview_def)

lemma kview_init_state: "kview s = kview t \<Longrightarrow> ks_init_state s = ks_init_state t"
  by (simp add: kview_def)

lemma kview_pre_arm: "kview s = kview t \<Longrightarrow> pre_arm (ks_checks s) = pre_arm (ks_checks t)"
  by (simp add: kview_def)

lemmas armed_cycle_view =
  kview_faults [OF kview_armed_cycle] kview_law [OF kview_armed_cycle]
  kview_init_state [OF kview_armed_cycle] kview_pre_arm [OF kview_armed_cycle]

lemma before_degradation_frame [simp]:
  "ks_faults (before_degradation p cfg ci s) = ks_faults s"
  "ks_init_state (before_degradation p cfg ci s) = ks_init_state s"
  "ks_timing_stats (before_degradation p cfg ci s) = ks_timing_stats s"
  "pre_arm (ks_checks (before_degradation p cfg ci s)) = pre_arm (ks_checks s)"
  by (simp_all add: before_degradation_def terminal_release_def refresh_checks_def observe_sensors_def Let_def)

lemma decide_degradation_frame [simp]:
  "ks_init_state (fst (decide_degradation p ts s)) = ks_init_state s"
  "ks_checks (fst (decide_degradation p ts s)) = ks_checks s"
  by (simp_all add: decide_degradation_def handle_degradation_fields split: option.split)

lemma decide_degradation_faults:
  "bit (ks_faults s) k \<Longrightarrow> bit (ks_faults (fst (decide_degradation p ts s))) k"
  by (auto simp: decide_degradation_def handle_degradation_fields flag_simps split: option.split)

lemma update_sensor_faults_bit:
  "bit (ks_faults (update_sensor_faults x s)) k \<longleftrightarrow>
     (if k = 3 then \<not> any_good (imus x) else if k = 7 then \<not> any_good (baros x)
      else if k = 8 then \<not> any_good (mags x) else if k = 6 then \<not> any_good (gnss x)
      else bit (ks_faults s) k)"
  by (simp add: update_sensor_faults_def fault_bits flag_simps Let_def)

lemma live_faults_bit: "bit live_faults k \<longleftrightarrow> k \<in> {3, 6, 7, 8}"
  by (auto simp: live_faults_def fault_bits flag_simps)

lemma after_sensors_fields [simp]:
  "ks_init_state (after_sensors ci s) = ks_init_state s" "ks_control_law (after_sensors ci s) = ks_control_law s"
  "ks_terminal_cause (after_sensors ci s) = ks_terminal_cause s" "ks_checks (after_sensors ci s) = ks_checks s"
  "ks_flight_phase (after_sensors ci s) = ks_flight_phase s" "ks_estimator (after_sensors ci s) = ks_estimator s"
  "ks_mode (after_sensors ci s) = ks_mode s"
  "consecutive_violations (ks_timing_stats (after_sensors ci s)) = consecutive_violations (ks_timing_stats s)"
  by (simp_all add: after_sensors_def)

lemma after_sensors_latched:
  "\<not> bit live_faults k \<Longrightarrow> bit (ks_faults (after_sensors ci s)) k = bit (ks_faults s) k"
  by (simp add: after_sensors_def update_sensor_faults_bit live_faults_bit)

text \<open>A cycle, by its effect on the fields the run-level properties speak about.\<close>

lemma update_cases:
  obtains (unarmed) "ks_init_state s \<noteq> Armed"
      "fst (update p cfg ci s) = after_sensors ci s \<or> fst (update p cfg ci s) = observe_sensors p ci (after_sensors ci s)"
  | (critical) "ks_init_state s = Armed" "flag_intersects (ks_faults (after_sensors ci s)) critical_faults"
      "fst (update p cfg ci s) = fst (check_critical_faults p (after_sensors ci s))"
  | (armed) "ks_init_state s = Armed" "\<not> flag_intersects (ks_faults (after_sensors ci s)) critical_faults"
      "update p cfg ci s = armed_cycle p cfg ci (cycle_timestamp ci) (ucast (as_micros (ci_time ci))) (after_sensors ci s)"
  using update_unarmed [of s p cfg ci] update_critical [of s ci p cfg] update_armed [of s ci p cfg]
  by (cases "ks_init_state s = Armed"; cases "flag_intersects (ks_faults (after_sensors ci s)) critical_faults")
    (simp_all add: Let_def)

lemma observe_sensors_frame [simp]:
  "ks_init_state (observe_sensors p ci s) = ks_init_state s" "ks_faults (observe_sensors p ci s) = ks_faults s"
  "ks_checks (observe_sensors p ci s) = ks_checks s" "ks_control_law (observe_sensors p ci s) = ks_control_law s"
  "ks_fallback (observe_sensors p ci s) = ks_fallback s" "ks_actuator_state (observe_sensors p ci s) = ks_actuator_state s"
  by (simp_all add: observe_sensors_def)

lemma update_latched:
  assumes "bit (ks_faults s) k" "\<not> bit live_faults k"
  shows "bit (ks_faults (fst (update p cfg ci s))) k"
proof (cases rule: update_cases [of s p cfg ci])
  case unarmed
  then show ?thesis using assms by (auto simp: after_sensors_latched)
next
  case critical
  then show ?thesis using assms by (simp add: check_critical_faults_def after_sensors_latched)
next
  case armed
  then show ?thesis using assms
    by (simp add: armed_cycle_view decide_degradation_faults after_sensors_latched)
qed

interpretation faults: latch "kernel_step p cfg" "\<lambda>c. \<not> is_ground_reset c" ks_faults live_faults
  for p :: "('e, 'r) pipeline" and cfg
proof
  fix c :: kernel_call and s :: "('e, 'r) kernel_state" and k :: nat
  assume "\<not> is_ground_reset c" "bit (ks_faults s) k" "\<not> bit live_faults k"
  then show "bit (ks_faults (kernel_step p cfg c s)) k"
    by (cases c)
      (auto simp: update_latched arm_def disarm_def terminate_def reset_from_fault_def inject_fault_def
        report_timing_violation_def init_step_state request_config_mode_def handle_degradation_fields
        flag_simps Let_def split: option.split sum.split)
qed

text \<open>C5: a latched fault survives every call but \<open>ground_reset\<close>: whatever cycles, disarms, arms,
  sensor recoveries and fault resets follow a degradation that latches a fault, the bit is still
  set at the end and arming is refused with \<open>Faulted\<close> (or because the vehicle is still armed).\<close>

theorem latched_fault_blocks_arming:
  assumes "latched_fault r = Some f" "list_all (\<lambda>c. \<not> is_ground_reset c) calls"
  shows "let s' = kernel_run p cfg calls (fst (handle_degradation p r ts s))
         in flag_contains (ks_faults s') f \<and> fst (arm p s') = s'
            \<and> snd (arm p s') = Err (if ks_init_state s' = Armed then ArmAlreadyArmed else ArmFaulted)"
proof -
  define s' where "s' = kernel_run p cfg calls (fst (handle_degradation p r ts s))"
  have f: "\<not> flag_intersects f live_faults" "f \<noteq> 0"
    using assms(1)
    by (cases r; auto simp: live_faults_def fault_bits flag_simps flag_nonzero)+
  have "flag_contains (ks_faults (fst (handle_degradation p r ts s))) f"
    using assms(1) by (simp add: handle_degradation_fields)
  then have c: "flag_contains (ks_faults s') f"
    unfolding s'_def kernel_run_def by (rule faults.run_contains [OF assms(2) _ f(1)])
  then have "ks_faults s' \<noteq> 0" using f(2) by (auto simp: flag_contains_def)
  then show ?thesis unfolding s'_def [symmetric] using c by (simp add: arm_def)
qed


theorem latched_fault_blocks_arming_witness:
  "snd (arm demo_pipeline (kernel_run demo_pipeline resolved_config_default [DisarmCall]
      (fst (handle_degradation demo_pipeline AttitudeLost timestamp_default demo_state)))) = Err ArmFaulted"
  using latched_fault_blocks_arming [of AttitudeLost ATTITUDE_LOST "[DisarmCall]" demo_pipeline
      resolved_config_default timestamp_default demo_state]
  by (simp add: Let_def kernel_run_def disarm_def demo_state_def kernel_state_new_def
      flight_phase_state_default_def is_airborne_def handle_degradation_fields)

section \<open>Properties\<close>


lemma kreachable_fold: "kreachable p cfg s0 s \<Longrightarrow> \<exists>calls. s = fold (kernel_step p cfg) calls s0"
  by (simp add: kreachable_run kernel_run_def)







subsection \<open>Arming\<close>

text \<open>\<open>arm\<close> succeeds exactly in \<open>Ready\<close> without any fault; a refusal changes nothing and names its
  reason in the source's order; a success starts a flight period: law \<open>Primary\<close>, no terminal
  cause, on the ground, with the datum of the estimate of that moment.\<close>

lemma arm_exact:
  "snd (arm p s) =
     (if ks_init_state s = Armed then Err ArmAlreadyArmed else if ks_faults s \<noteq> 0 then Err ArmFaulted
      else if ks_init_state s \<noteq> Ready then Err ArmNotReady else Ok ())
   \<and> (\<not> is_ok (snd (arm p s)) \<longrightarrow> fst (arm p s) = s)
   \<and> (is_ok (snd (arm p s)) \<longrightarrow>
        ks_init_state (fst (arm p s)) = Armed \<and> ks_control_law (fst (arm p s)) = Primary
        \<and> ks_terminal_cause (fst (arm p s)) = NoTerminal
        \<and> \<not> is_airborne (ks_flight_phase (fst (arm p s)))
        \<and> fp_ground_datum (ks_flight_phase (fst (arm p s))) = altitude_of (p_estimate p (ks_estimator s))
        \<and> ks_checks (fst (arm p s)) = ks_checks s)"
  by (simp add: arm_def) (simp add: begin_flight_period_def)

lemma arm_exact_witness:
  "snd (arm demo_pipeline (demo_state\<lparr>ks_init_state := Ready\<rparr>)) = Ok ()
   \<and> ks_init_state (fst (arm demo_pipeline (demo_state\<lparr>ks_init_state := Ready\<rparr>))) = Armed"
  using arm_exact [of demo_pipeline "demo_state\<lparr>ks_init_state := Ready\<rparr>"]
  by (simp add: demo_state_def kernel_state_new_def)

definition ready_inv :: "pre_arm_flags \<Rightarrow> ('e, 'r) kernel_state \<Rightarrow> bool" where
  "ready_inv r s \<longleftrightarrow>
     pa_required (pre_arm (ks_checks s)) = r
     \<and> (ks_init_state s = Ready \<longrightarrow>
          (\<forall>k. k \<noteq> 8 \<longrightarrow> bit r k \<longrightarrow> bit (pa_current (pre_arm (ks_checks s))) k))"

lemma update_pre_arm [simp]: "pre_arm (ks_checks (fst (update p cfg ci s))) = pre_arm (ks_checks s)"
  by (cases rule: update_cases [of s p cfg ci]) (auto simp: check_critical_faults_def armed_cycle_view)

lemma update_init_state:
  "ks_init_state (fst (update p cfg ci s)) =
     (if ks_init_state s = Armed \<and> flag_intersects (ks_faults (after_sensors ci s)) critical_faults
      then Fault else ks_init_state s)"
  by (cases rule: update_cases [of s p cfg ci]) (auto simp: check_critical_faults_def armed_cycle_view)

lemma init_transition_pre_arm:
  "pa_required (pre_arm (ks_checks (init_transition s))) = pa_required (pre_arm (ks_checks s))"
  "ks_init_state (init_transition s) = Ready \<Longrightarrow>
     pa_is_satisfied (pre_arm (ks_checks s)) \<and> pre_arm (ks_checks (init_transition s)) = pre_arm (ks_checks s)"
  by (cases "ks_init_state s"; simp add: init_transition_def split: if_splits)+

lemma init_step_ready:
  "ks_init_state (fst (init_step p sensors s)) = Ready \<Longrightarrow> pa_is_satisfied (pre_arm (ks_checks (fst (init_step p sensors s))))"
  "pa_required (pre_arm (ks_checks (fst (init_step p sensors s)))) = pa_required (pre_arm (ks_checks s))"
  unfolding init_step_state by (auto simp: init_transition_pre_arm dest: init_transition_pre_arm(2))

lemma ready_inv_step: "ready_inv r s \<Longrightarrow> ready_inv r (kernel_step p cfg c s)"
proof (cases c)
  case (InitStepCall sensors)
  show "ready_inv r s \<Longrightarrow> ready_inv r (kernel_step p cfg c s)"
    using init_step_ready [of p sensors s]
    by (auto simp: InitStepCall ready_inv_def pa_is_satisfied_def flag_contains_iff)
next
  case (ThrottleCall low)
  then show "ready_inv r s \<Longrightarrow> ready_inv r (kernel_step p cfg c s)"
    by (simp add: ready_inv_def pa_update_throttle_bit)
qed (auto simp: ready_inv_def update_init_state arm_def disarm_def terminate_def reset_from_fault_def
    ground_reset_def report_timing_violation_def inject_fault_def request_config_mode_def
    handle_degradation_fields Let_def split: sum.split)

interpretation ready: preserved "kernel_step p cfg" "\<lambda>_. True" "ready_inv r"
  for p :: "('e, 'r) pipeline" and cfg and r
  by unfold_locales (rule ready_inv_step)

end
