(* ===== verification/KernelCycle.thy ===== *)
theory KernelCycle
  imports KernelSafety
begin

text \<open>
  What one cycle does: the unarmed and the critical-fault branches, the \<open>Backup\<close> branch, and the
  degradation decision with its priorities.
\<close>

subsection \<open>Cycles\<close>

text \<open>C16: A cycle that is not armed has no authority: its actuator command is the configured safe pattern with no
  active channel, it reports \<open>Backup\<close> and no degradation, and of the kernel's state it writes the fault word, the
  timing statistics and the estimator only; lifecycle state, law, terminal cause, flight phase, mode, checks,
  controller, sanitizer memory and commanded outputs are as they were. With a critical fault it does not even
  observe.\<close>

theorem unarmed_cycle_safe:
  assumes "ks_init_state s \<noteq> Armed" "update p cfg ci s = (s', r)"
  shows "outputs (ur_actuator r) = cfg_safe_output cfg \<and> active_mask (ur_actuator r) = 0
    \<and> st_law (ur_status r) = Backup \<and> ur_degradation r = None
    \<and> s' = s\<lparr>ks_faults := ks_faults s', ks_timing_stats := ks_timing_stats s', ks_estimator := ks_estimator s'\<rparr>
    \<and> (flag_intersects (ks_faults s') critical_faults \<longrightarrow> ks_estimator s' = ks_estimator s)"
proof -
  have "after_sensors ci s = s\<lparr>ks_faults := ks_faults (after_sensors ci s),
      ks_timing_stats := ks_timing_stats (after_sensors ci s)\<rparr>"
    by (simp add: after_sensors_def update_sensor_faults_def update_timing_def Let_def)
  then obtain f t where a: "after_sensors ci s = s\<lparr>ks_faults := f, ks_timing_stats := t\<rparr>" by blast
  show ?thesis
    using assms by (auto simp: update_unarmed a Let_def safe_result_def safe_actuator_cmd_def observe_sensors_def
        split: if_splits)
qed

definition no_sensors :: sensor_set where
  "no_sensors = \<lparr>imus = [], gnss = [], mags = [], baros = [], airspeeds = [], geometry = None, geomagnetic = None\<rparr>"

definition demo_input :: cycle_input where
  "demo_input =
     \<lparr>ci_time = \<lparr>dt_sec = f32_lit 1 1000, tick_delta = 1000\<rparr>, ci_sensors = no_sensors,
      ci_command = safe_effective_command 7, ci_command_age_ms = 0\<rparr>"

theorem unarmed_cycle_safe_witness:
  "st_law (ur_status (snd (update demo_pipeline resolved_config_default demo_input demo_state))) = Backup"
  using unarmed_cycle_safe [of demo_state demo_pipeline resolved_config_default demo_input]
  by (cases "update demo_pipeline resolved_config_default demo_input demo_state")
    (simp add: demo_state_def kernel_state_new_def)

text \<open>total loss of the IMUs, like any other critical fault, is answered in the cycle that sees
  it: an armed vehicle goes to \<open>Fault\<close> under \<open>Backup\<close> and the command of that same cycle is the
  safe pattern on all four motors with every group marked as fallback.\<close>

lemma critical_fault_same_cycle:
  assumes "ks_init_state s = Armed" "update p cfg ci s = (s', r)"
    and "\<not> any_good (imus (ci_sensors ci)) \<or> bit (ks_faults s) 24 \<or> bit (ks_faults s) 27"
  shows "ks_init_state s' = Fault \<and> ks_control_law s' = Backup \<and> ks_terminal_cause s' = NoTerminal
    \<and> ks_controller s' = p_controller_reset p (ks_controller s)
    \<and> outputs (ur_actuator r) = cfg_safe_output cfg \<and> active_mask (ur_actuator r) = 0xF
    \<and> fallback_mask (ur_actuator r) = 0xFF \<and> st_law (ur_status r) = Backup"
proof -
  have "flag_intersects (ks_faults (after_sensors ci s)) critical_faults"
    using assms(3)
    by (auto simp: critical_faults_def fault_bits flag_simps after_sensors_def update_sensor_faults_bit)
  moreover have "ks_controller (after_sensors ci s) = ks_controller s"
    by (simp add: after_sensors_def update_sensor_faults_def update_timing_def Let_def)
  ultimately show ?thesis
    using assms(1,2)
    by (auto simp: update_critical Let_def check_critical_faults_def safe_result_def safe_actuator_cmd_def)
qed

lemma critical_fault_same_cycle_witness:
  "ks_init_state (fst (update demo_pipeline resolved_config_default demo_input
      (demo_state\<lparr>ks_init_state := Armed, ks_faults := flag 27\<rparr>))) = Fault"
  using critical_fault_same_cycle [of "demo_state\<lparr>ks_init_state := Armed, ks_faults := flag 27\<rparr>"
      demo_pipeline resolved_config_default demo_input]
  by (cases "update demo_pipeline resolved_config_default demo_input
      (demo_state\<lparr>ks_init_state := Armed, ks_faults := flag 27\<rparr>)") (simp add: flag_simps)

text \<open>The stages of an armed cycle, as the result they build.\<close>

lemma actuation_frame [simp]:
  "ks_actuator_state (terminal_release p s) = ks_actuator_state s" "ks_fallback (terminal_release p s) = ks_fallback s"
  "ks_actuator_state (refresh_checks cfg ci e s) = ks_actuator_state s" "ks_fallback (refresh_checks cfg ci e s) = ks_fallback s"
  "ks_actuator_state (fst (decide_degradation p ts s)) = ks_actuator_state s"
  "ks_fallback (fst (decide_degradation p ts s)) = ks_fallback s"
  "ks_actuator_state (fst (control_stage p cfg ci ts b e c m s)) = ks_actuator_state s"
  "ks_fallback (fst (control_stage p cfg ci ts b e c m s)) = ks_fallback s"
  by (auto simp: terminal_release_def refresh_checks_def decide_degradation_def handle_degradation_def
      control_stage_def upd_in_flight_def Let_def split_beta split: option.split)

lemma after_sensors_actuation [simp]:
  "ks_actuator_state (after_sensors ci s) = ks_actuator_state s" "ks_fallback (after_sensors ci s) = ks_fallback s"
  by (simp_all add: after_sensors_def update_sensor_faults_def update_timing_def Let_def)

lemma law_frame [simp]:
  "ks_control_law (fst (control_stage p cfg ci ts b e c m s)) = ks_control_law s"
  "ks_control_law (fst (actuator_stage p cfg ts b cmd s)) = ks_control_law s"
  by (simp_all add: control_stage_def actuator_stage_def split_beta Let_def)

lemma safe_control_stage [simp]:
  "fst (snd (control_stage p cfg ci ts True e c m s)) = safe_actuator_cmd cfg 0xF 0xFF (cmd_sequence (ci_command ci)) ts"
  by (simp add: control_stage_def)

lemma safe_actuator_stage [simp]:
  "snd (actuator_stage p cfg ts True cmd s) =
     (apply_slew_limit cmd (as_commanded (ks_actuator_state s)) (cfg_slew_limit_per_cycle cfg), sanitize_report_default)"
  by (simp add: actuator_stage_def Let_def)

lemma armed_cycle_backup:
  assumes "armed_cycle p cfg ci ts dt s = (s', r)" "ks_control_law s' = Backup"
  shows "ur_actuator r = apply_slew_limit (safe_actuator_cmd cfg 0xF 0xFF (cmd_sequence (ci_command ci)) ts)
      (as_commanded (ks_actuator_state s)) (cfg_slew_limit_per_cycle cfg)
    \<and> ur_effective_command r = safe_effective_command (cmd_sequence (ci_command ci))
    \<and> st_sanitize_report (ur_status r) = sanitize_report_default"
  using assms
  by (auto simp: armed_cycle_def Let_def split_beta select_command_def)


text \<open>whenever a cycle reports the \<open>Backup\<close> law, the controller's output is out of the loop: the
  effective command is the synthesized failsafe one, no sanitizer fallback is reported, and the
  actuators get the configured safe pattern, in an armed cycle through the slew limiter from the
  previous outputs, otherwise at once.\<close>

lemma backup_means_safe_pattern:
  assumes "update p cfg ci s = (s', r)" "st_law (ur_status r) = Backup"
  shows "ur_effective_command r = safe_effective_command (cmd_sequence (ci_command ci))
    \<and> st_sanitize_report (ur_status r) = sanitize_report_default
    \<and> outputs (ur_actuator r) =
        (if ks_init_state s' = Armed
         then map (\<lambda>i. slew_channel (cfg_slew_limit_per_cycle cfg ! i) (as_commanded (ks_actuator_state s) ! i)
                     (cfg_safe_output cfg ! i)) [0..<MAX_ACTUATORS]
         else cfg_safe_output cfg)"
proof (cases rule: update_cases [of s p cfg ci])
  case unarmed
  then show ?thesis
    using assms by (auto simp: update_unarmed Let_def safe_result_def safe_actuator_cmd_def split: if_splits)
next
  case critical
  then show ?thesis
    using assms by (auto simp: update_critical Let_def check_critical_faults_def safe_result_def safe_actuator_cmd_def)
next
  case armed
  then have a: "armed_cycle p cfg ci (cycle_timestamp ci) (ucast (as_micros (ci_time ci))) (after_sensors ci s) = (s', r)"
    using assms(1) by simp
  have "st_law (ur_status r) = ks_control_law s'" using a by (auto simp: armed_cycle_def Let_def split_beta)
  moreover have "ks_init_state s' = Armed" using a armed(1) armed_cycle_view(3) by (metis after_sensors_fields(1)
      before_degradation_frame(2) decide_degradation_frame(1) fst_conv)
  ultimately show ?thesis
    using armed_cycle_backup [OF a] assms(2) by (simp add: apply_slew_limit_def safe_actuator_cmd_def)
qed

lemma backup_means_safe_pattern_witness:
  "outputs (ur_actuator (snd (update demo_pipeline resolved_config_default demo_input demo_state)))
     = cfg_safe_output resolved_config_default"
  using backup_means_safe_pattern [of demo_pipeline resolved_config_default demo_input demo_state]
  by (simp add: update_unarmed demo_state_def kernel_state_new_def Let_def safe_result_def split: if_splits)

text \<open>The in-flight bits the cycle decides on.\<close>

lemma refresh_checks_bits:
  "fl_required (in_flight (ks_checks (refresh_checks cfg ci e s))) = fl_required (in_flight (ks_checks s))"
  "bit (fl_current (in_flight (ks_checks (refresh_checks cfg ci e s)))) 0 = flag_contains (valid_flags e) ATTITUDE"
  "bit (fl_current (in_flight (ks_checks (refresh_checks cfg ci e s)))) 8 =
     (ci_command_age_ms ci < cfg_command_timeout_ms cfg)"
  "bit (fl_current (in_flight (ks_checks (refresh_checks cfg ci e s)))) 12 = any_good (imus (ci_sensors ci))"
  by (simp_all add: refresh_checks_def Let_def fl_update_command_status_def fl_update_altitude_def
      fl_update_from_sensors_def fl_update_from_state_def fl_bits flag_simps)

lemma terminal_release_checks [simp]: "ks_checks (terminal_release p s) = ks_checks s"
  by (simp add: terminal_release_def)

definition cycle_estimate :: "('e, 'r) pipeline \<Rightarrow> cycle_input \<Rightarrow> ('e, 'r) kernel_state \<Rightarrow> state_estimate" where
  "cycle_estimate p ci s = p_estimate p (p_observe p (ks_estimator s) (ci_sensors ci)
      (cmd_sensor_overrides (ci_command ci)) (dt_sec (ci_time ci)))"

lemma before_degradation_bits:
  "fl_required (in_flight (ks_checks (before_degradation p cfg ci s))) = fl_required (in_flight (ks_checks s))"
  "bit (fl_current (in_flight (ks_checks (before_degradation p cfg ci s)))) 0 =
     flag_contains (valid_flags (cycle_estimate p ci s)) ATTITUDE"
  "bit (fl_current (in_flight (ks_checks (before_degradation p cfg ci s)))) 8 =
     (ci_command_age_ms ci < cfg_command_timeout_ms cfg)"
  by (simp_all add: before_degradation_def Let_def refresh_checks_bits cycle_estimate_def)
    (simp_all add: observe_sensors_def)

lemma before_degradation_law:
  "ks_control_law (before_degradation p cfg ci s) =
     (if ks_control_law s = Direct \<and> ks_terminal_cause s = CommandLoss
         \<and> ci_command_age_ms ci < cfg_command_timeout_ms cfg then Primary else ks_control_law s)"
  by (simp add: before_degradation_def Let_def terminal_release_def check_bits flag_simps refresh_checks_bits)
    (simp add: refresh_checks_def observe_sensors_def Let_def)

subsection \<open>Degradation\<close>

text \<open>The reason an armed cycle degrades for, if any.\<close>

definition cycle_reason ::
  "('e, 'r) pipeline \<Rightarrow> resolved_config \<Rightarrow> cycle_input \<Rightarrow> ('e, 'r) kernel_state \<Rightarrow> degradation_reason option" where
  "cycle_reason p cfg ci s =
     (if TIMING_VIOLATION_THRESHOLD \<le> consecutive_violations (ks_timing_stats s) then Some TimingViolation
      else get_degradation_trigger (in_flight (ks_checks (before_degradation p cfg ci s))))"

definition released_law :: "resolved_config \<Rightarrow> cycle_input \<Rightarrow> ('e, 'r) kernel_state \<Rightarrow> control_law" where
  "released_law cfg ci s =
     (if ks_control_law s = Direct \<and> ks_terminal_cause s = CommandLoss
         \<and> ci_command_age_ms ci < cfg_command_timeout_ms cfg then Primary else ks_control_law s)"

lemma decide_degradation_law:
  "ks_control_law (fst (decide_degradation p ts s)) =
     (case (if TIMING_VIOLATION_THRESHOLD \<le> consecutive_violations (ks_timing_stats s) then Some TimingViolation
            else get_degradation_trigger (in_flight (ks_checks s))) of
        None \<Rightarrow> ks_control_law s
      | Some r \<Rightarrow> if ks_control_law s < degraded_law r then degraded_law r else ks_control_law s)"
  by (simp add: decide_degradation_def handle_degradation_fields del: degraded_law.simps split: option.split)

lemma decide_degradation_latches:
  "ks_faults (fst (decide_degradation p ts s)) =
     (case Option.bind (if TIMING_VIOLATION_THRESHOLD \<le> consecutive_violations (ks_timing_stats s)
                        then Some TimingViolation else get_degradation_trigger (in_flight (ks_checks s))) latched_fault of
        None \<Rightarrow> ks_faults s | Some f \<Rightarrow> flag_insert (ks_faults s) f)"
  by (simp add: decide_degradation_def handle_degradation_fields del: latched_fault.simps split: option.split)

lemma armed_cycle_law:
  "ks_control_law (fst (armed_cycle p cfg ci ts dt s)) =
     (case cycle_reason p cfg ci s of None \<Rightarrow> released_law cfg ci s
      | Some r \<Rightarrow> if released_law cfg ci s < degraded_law r then degraded_law r else released_law cfg ci s)"
  unfolding armed_cycle_view(2) decide_degradation_law cycle_reason_def before_degradation_law
    released_law_def before_degradation_frame(3) ..

lemma armed_cycle_faults:
  "ks_faults (fst (armed_cycle p cfg ci ts dt s)) =
     (case Option.bind (cycle_reason p cfg ci s) latched_fault of None \<Rightarrow> ks_faults s
      | Some f \<Rightarrow> flag_insert (ks_faults s) f)"
  unfolding armed_cycle_view(1) decide_degradation_latches cycle_reason_def before_degradation_frame(1,3) ..

lemma before_degradation_in_flight:
  "in_flight (ks_checks (before_degradation p cfg ci s)) =
     (let e = cycle_estimate p ci s; a = f32_neg (ix2 (position_ned e))
      in fl_update_command_status
           (fl_update_altitude
             (fl_update_from_sensors (fl_update_from_state (in_flight (ks_checks s)) e) (ci_sensors ci))
             (f32_le (min_altitude (cfg_limits cfg)) a \<and> f32_le a (max_altitude (cfg_limits cfg))))
           (ci_command_age_ms ci) (cfg_command_timeout_ms cfg))"
  by (simp add: before_degradation_def refresh_checks_def observe_sensors_def cycle_estimate_def Let_def)

lemma after_sensors_cycle [simp]:
  "cycle_estimate p ci (after_sensors ci s) = cycle_estimate p ci s"
  "cycle_reason p cfg ci (after_sensors ci s) = cycle_reason p cfg ci s"
  "released_law cfg ci (after_sensors ci s) = released_law cfg ci s"
proof -
  show e: "cycle_estimate p ci (after_sensors ci s) = cycle_estimate p ci s" by (simp add: cycle_estimate_def)
  show "cycle_reason p cfg ci (after_sensors ci s) = cycle_reason p cfg ci s"
    unfolding cycle_reason_def before_degradation_in_flight e after_sensors_fields ..
  show "released_law cfg ci (after_sensors ci s) = released_law cfg ci s"
    by (simp add: released_law_def)
qed

lemma cycle_reason_attitude:
  assumes "\<not> flag_contains (valid_flags (cycle_estimate p ci s)) ATTITUDE"
    and "bit (fl_required (in_flight (ks_checks s))) 0"
    and "consecutive_violations (ks_timing_stats s) < TIMING_VIOLATION_THRESHOLD"
  shows "cycle_reason p cfg ci s = Some AttitudeLost"
proof -
  have "bit (fl_missing (in_flight (ks_checks (before_degradation p cfg ci s)))) 0"
    using assms(1,2) by (simp add: fl_missing_bit before_degradation_bits)
  then have "flag_contains (fl_missing (in_flight (ks_checks (before_degradation p cfg ci s)))) FL_ATTITUDE_VALID"
    by (simp add: fl_bits flag_simps)
  then show ?thesis using assms(3) by (simp add: cycle_reason_def get_degradation_trigger_def not_le)
qed

text \<open>C15: within a flight the law only gets worse, with one exception: an armed cycle ends with a law at
  least as severe as before unless it released a command-loss descent because the command became
  recent again, and the new law is exactly the worse of the law it started from and the one the
  cycle's first degradation reason asks for.\<close>

theorem degradation_monotone:
  assumes "ks_init_state s = Armed" "s' = fst (update p cfg ci s)"
  shows "ks_control_law s \<le> ks_control_law s'
    \<or> (ks_control_law s = Direct \<and> ks_terminal_cause s = CommandLoss
       \<and> ci_command_age_ms ci < cfg_command_timeout_ms cfg)"
proof (cases rule: update_cases [of s p cfg ci])
  case unarmed
  then show ?thesis using assms by simp
next
  case critical
  have "l \<le> Backup" for l by (cases l) (simp_all add: less_eq_control_law_def)
  then show ?thesis using assms critical by (simp add: check_critical_faults_def)
next
  case armed
  then show ?thesis using assms
    by (auto simp: armed_cycle_law released_law_def less_imp_le split: option.split)
qed

text \<open>an armed vehicle whose attitude estimate becomes invalid flies \<open>Backup\<close> from that very cycle,
  latches \<open>ATTITUDE_LOST\<close> and outputs the slewed safe pattern, provided attitude validity is
  required and no persistent timing violation is being handled instead.\<close>

lemma attitude_loss_response:
  assumes "ks_init_state s = Armed" "update p cfg ci s = (s', r)"
    and "\<not> flag_contains (valid_flags (cycle_estimate p ci s)) ATTITUDE"
    and "bit (fl_required (in_flight (ks_checks s))) 0"
    and "consecutive_violations (ks_timing_stats s) < TIMING_VIOLATION_THRESHOLD"
    and "\<not> flag_intersects (ks_faults (after_sensors ci s)) critical_faults"
  shows "ks_control_law s' = Backup \<and> st_law (ur_status r) = Backup \<and> bit (ks_faults s') 10
    \<and> ur_actuator r = apply_slew_limit
        (safe_actuator_cmd cfg 0xF 0xFF (cmd_sequence (ci_command ci)) (cycle_timestamp ci))
        (as_commanded (ks_actuator_state s)) (cfg_slew_limit_per_cycle cfg)"
proof -
  have a: "armed_cycle p cfg ci (cycle_timestamp ci) (ucast (as_micros (ci_time ci))) (after_sensors ci s) = (s', r)"
    using assms(2) update_armed [OF assms(1,6)] by simp
  note reason = cycle_reason_attitude [OF assms(3-5)]
  have "l = Backup" if "\<not> l < Backup" for l :: control_law
    using that by (cases l) (simp_all add: less_control_law_def)
  then have "ks_control_law (fst (armed_cycle p cfg ci ts dt (after_sensors ci s))) = Backup" for ts dt
    by (simp add: armed_cycle_law reason)
  moreover have "bit (ks_faults (fst (armed_cycle p cfg ci ts dt (after_sensors ci s)))) 10" for ts dt
    by (simp add: armed_cycle_faults reason fault_bits flag_simps)
  ultimately have "ks_control_law s' = Backup" "bit (ks_faults s') 10"
    using a by (metis fst_conv)+
  then show ?thesis
    using armed_cycle_backup [OF a] a by (auto simp: armed_cycle_def Let_def split_beta)
qed


theorem degradation_monotone_witness:
  "Backup \<le> ks_control_law (fst (update demo_pipeline resolved_config_default demo_input
      (demo_state\<lparr>ks_init_state := Armed, ks_control_law := Backup\<rparr>)))"
  using degradation_monotone [OF _ refl, of "demo_state\<lparr>ks_init_state := Armed, ks_control_law := Backup\<rparr>"
      demo_pipeline resolved_config_default demo_input] by simp

definition good_reading :: "'a \<Rightarrow> 'a sensor_reading" where
  "good_reading v = \<lparr>rd_value = v, rd_valid = True, rd_source_id = 0, rd_timestamp = timestamp_default,
     rd_health = SensorGood\<rparr>"

definition good_sensors :: sensor_set where
  "good_sensors =
     no_sensors\<lparr>imus := [good_reading \<lparr>accel = (0, 0, 0), gyro = (0, 0, 0)\<rparr>],
       baros := [good_reading \<lparr>baro_altitude = Some 0, baro_air =
         \<lparr>static_pressure = None, dynamic_pressure = None, total_pressure = None, temperature = None,
          indicated_airspeed = None, true_airspeed = None\<rparr>\<rparr>]\<rparr>"

lemma good_sensors_good: "any_good (imus good_sensors)" "any_good (baros good_sensors)"
  by (simp_all add: any_good_def good_sensors_def good_reading_def)

lemma attitude_loss_response_witness:
  "ks_control_law (fst (update demo_pipeline resolved_config_default (demo_input\<lparr>ci_sensors := good_sensors\<rparr>)
      (demo_state\<lparr>ks_init_state := Armed, ks_estimator := state_estimate_default\<rparr>))) = Backup"
proof -
  let ?s = "demo_state\<lparr>ks_init_state := Armed, ks_estimator := state_estimate_default\<rparr>"
  let ?ci = "demo_input\<lparr>ci_sensors := good_sensors\<rparr>"
  have "\<not> flag_intersects (ks_faults (after_sensors ?ci ?s)) critical_faults"
    by (simp add: critical_faults_def fault_bits flag_simps after_sensors_def update_sensor_faults_bit
        good_sensors_good demo_state_def kernel_state_new_def)
  moreover have "\<not> flag_contains (valid_flags (cycle_estimate demo_pipeline ?ci ?s)) ATTITUDE"
    "bit (fl_required (in_flight (ks_checks ?s))) 0"
    "consecutive_violations (ks_timing_stats ?s) < TIMING_VIOLATION_THRESHOLD"
    by (simp_all add: cycle_estimate_def demo_pipeline_def demo_state_def kernel_state_new_def
        state_estimate_default_def ATTITUDE_def kernel_checks_new_def in_flight_default_def ATTITUDE_FLIGHT_def
        check_bits flag_simps timing_stats_default_def TIMING_VIOLATION_THRESHOLD_def)
  ultimately show ?thesis
    using attitude_loss_response [of ?s demo_pipeline resolved_config_default ?ci]
    by (cases "update demo_pipeline resolved_config_default ?ci ?s") simp
qed

text \<open>a persistent timing violation takes the place of the in-flight triggers: with three or more
  consecutive violations reported, an armed cycle under \<open>Primary\<close> or \<open>Alternate\<close> ends in
  \<open>Alternate\<close> and latches \<open>TIMING_PERSISTENT\<close> whatever the estimate, the command age and the
  envelope say, so an attitude loss in such a cycle is not answered with \<open>Backup\<close>.\<close>

lemma timing_violation_outranks_triggers:
  assumes "ks_init_state s = Armed" "update p cfg ci s = (s', r)"
    and "TIMING_VIOLATION_THRESHOLD \<le> consecutive_violations (ks_timing_stats s)"
    and "ks_control_law s = Primary \<or> ks_control_law s = Alternate"
    and "\<not> flag_intersects (ks_faults (after_sensors ci s)) critical_faults"
  shows "ks_control_law s' = Alternate \<and> flag_contains (ks_faults s') TIMING_PERSISTENT
    \<and> (ur_degradation r = None \<longleftrightarrow> ks_control_law s = Alternate)"
proof -
  have a: "armed_cycle p cfg ci (cycle_timestamp ci) (ucast (as_micros (ci_time ci))) (after_sensors ci s) = (s', r)"
    using assms(2) update_armed [OF assms(1,5)] by simp
  have reason: "cycle_reason p cfg ci s = Some TimingViolation"
    using assms(3) by (simp add: cycle_reason_def)
  have rel: "released_law cfg ci s = ks_control_law s" using assms(4) by (auto simp: released_law_def)
  have "ks_control_law (fst (armed_cycle p cfg ci ts dt (after_sensors ci s))) = Alternate" for ts dt
    using assms(4) by (auto simp: armed_cycle_law reason rel less_control_law_def)
  moreover have "flag_contains (ks_faults (fst (armed_cycle p cfg ci ts dt (after_sensors ci s)))) TIMING_PERSISTENT" for ts dt
    by (simp add: armed_cycle_faults reason)
  moreover have "ur_degradation r = snd (decide_degradation p (cycle_timestamp ci) (before_degradation p cfg ci (after_sensors ci s)))"
    using a by (auto simp: armed_cycle_def before_degradation_def Let_def split_beta)
  then have "ur_degradation r = None \<longleftrightarrow> ks_control_law s = Alternate"
    using assms(3,4)
    by (auto simp: decide_degradation_def handle_degradation_event before_degradation_law less_control_law_def
        released_law_def split: if_splits)
  ultimately show ?thesis using a by (metis fst_conv)
qed

lemma timing_violation_outranks_triggers_witness:
  "ks_control_law (fst (update demo_pipeline resolved_config_default (demo_input\<lparr>ci_sensors := good_sensors\<rparr>)
      (demo_state\<lparr>ks_init_state := Armed, ks_estimator := state_estimate_default,
         ks_timing_stats := timing_stats_default\<lparr>consecutive_violations := 3\<rparr>\<rparr>))) = Alternate"
proof -
  let ?s = "demo_state\<lparr>ks_init_state := Armed, ks_estimator := state_estimate_default,
         ks_timing_stats := timing_stats_default\<lparr>consecutive_violations := 3\<rparr>\<rparr>"
  let ?ci = "demo_input\<lparr>ci_sensors := good_sensors\<rparr>"
  have "\<not> flag_intersects (ks_faults (after_sensors ?ci ?s)) critical_faults"
    by (simp add: critical_faults_def fault_bits flag_simps after_sensors_def update_sensor_faults_bit
        good_sensors_good demo_state_def kernel_state_new_def)
  then show ?thesis
    using timing_violation_outranks_triggers [of ?s demo_pipeline resolved_config_default ?ci]
    by (cases "update demo_pipeline resolved_config_default ?ci ?s")
      (simp add: demo_state_def kernel_state_new_def TIMING_VIOLATION_THRESHOLD_def)
qed

end
