(* ===== verification/CascadeKernel.thy ===== *)
theory CascadeKernel
  imports CascadeCycle KernelCycle
begin

text \<open>
  The multirotor controller inside the kernel: the pipeline it provides, the contract
  \<open>controller_contract\<close> under which a kernel keeps any predicate of the controller's state, its
  interpretation by the multirotor controller, and what the mode gate and the terminal descent
  guarantee the controller.
\<close>

section \<open>Runtime invariant\<close>

definition runtime_inv :: "multirotor_controller \<Rightarrow> multirotor_runtime_state \<Rightarrow> bool" where
  "runtime_inv c r \<longleftrightarrow>
     f32_is_finite (mr_dt r) \<and> f32_le f0 (mr_dt r)
     \<and> vec3_all (f32_bounded f1) (axis_torque (mr_last_axis r))
     \<and> (vec3_all f32_is_finite (rate_i (mc_gains c)) \<longrightarrow> vec3_all integral_ok (rl_integral (mr_rate_loop r)))"

lemma runtime_inv_default: "runtime_inv c multirotor_runtime_default"
  using rate_limit_consts(4) f0_bounded integral_ok_zero
  by (simp add: runtime_inv_def multirotor_runtime_default_def rate_loop_default_def axis_torque_def
      axis_command_default_def f32_le_refl f32_finite_not_nan)

lemma mr_reset_default: "mr_reset r = multirotor_runtime_default"
  by (simp add: mr_reset_def multirotor_runtime_default_def)

lemma runtime_inv_interval: "runtime_inv c r \<Longrightarrow> runtime_inv c (mr_set_cycle_interval r dt)"
  using rate_limit_consts(4)
  by (auto simp: runtime_inv_def mr_set_cycle_interval_def f32_le_refl f32_finite_not_nan)
    (auto simp: f32_le_def f32_lt_def)

lemma runtime_inv_run_step:
  assumes inv: "runtime_inv c r" and run: "run_step M c r st cmd flags lim = Some (r', out)"
  shows "runtime_inv c r'"
proof -
  have "vec3_all (f32_bounded f1) (axis_torque (mr_last_axis r'))"
    using cycle_command [OF run] by simp
  moreover have "mr_dt r' = mr_dt r \<and>
    (vec3_all f32_is_finite (rate_i (mc_gains c)) \<longrightarrow> vec3_all integral_ok (rl_integral (mr_rate_loop r')))"
    using run
  proof (cases rule: run_step_cases)
    case rejected
    then show ?thesis using inv reject_result [OF rejected(2)] by (simp add: runtime_inv_def)
  next
    case (silent t r1 pr0 pr)
    then show ?thesis
      using inv zero_thrust_result [OF silent(6)] prepare_frame [OF silent(3)] integral_ok_zero
      by (simp add: runtime_inv_def rate_loop_default_def)
  next
    case (active t r1 pr0 pr r2 pr2 axis obs)
    then show ?thesis
      using inv inner_loops_result(7,13) [OF active(6)] record_step_result(6,8) [OF active(7)]
        prepare_frame(1,2) [OF active(3)]
      by (auto simp: runtime_inv_def)
  qed
  ultimately show ?thesis using inv by (simp add: runtime_inv_def)
qed

section \<open>The multirotor controller in the kernel\<close>

text \<open>
  The pipeline of a kernel that flies this controller (\<open>VehicleController for
  MultirotorController\<close>). A cycle that does not return leaves no later state; the model keeps
  the runtime state there and commands nothing.
\<close>

definition multirotor_step ::
  "libm \<Rightarrow> multirotor_controller \<Rightarrow> multirotor_runtime_state \<Rightarrow> state_estimate \<Rightarrow> command
     \<Rightarrow> vehicle_control_mode \<Rightarrow> config_mode \<Rightarrow> limits \<Rightarrow> controller_step \<times> multirotor_runtime_state" where
  "multirotor_step M c r st cmd flags mode lim =
     (case run_step M c r st cmd flags lim of
        Some (r', out) \<Rightarrow> (out, r')
      | None \<Rightarrow> (\<lparr>cs_axis_command = axis_command_default, cs_observation = observation_default\<rparr>, r))"

definition multirotor_pipeline ::
  "multirotor_controller \<Rightarrow> ('e, multirotor_runtime_state) pipeline \<Rightarrow> ('e, multirotor_runtime_state) pipeline" where
  "multirotor_pipeline c p =
     p\<lparr>p_verify_config_binding := mc_verify_config_binding c, p_supports_mode := mc_supports_mode,
       p_set_cycle_interval := mr_set_cycle_interval, p_step := multirotor_step (p_libm p) c,
       p_controller_reset := mr_reset\<rparr>"

text \<open>What a kernel keeps of any controller state predicate its controller's operations keep.\<close>

locale controller_contract =
  fixes p :: "('e, 'r) pipeline" and ctl_inv :: "'r \<Rightarrow> bool"
  assumes set_interval: "ctl_inv r \<Longrightarrow> ctl_inv (p_set_cycle_interval p r dt)"
    and stepped: "ctl_inv r \<Longrightarrow> ctl_inv (snd (p_step p r est cmd flags mode lim))"
    and reset: "ctl_inv (p_controller_reset p r)"
begin

lemma control_stage_inv:
  "ctl_inv (ks_controller s) \<Longrightarrow> ctl_inv (ks_controller (fst (control_stage p cfg ci ts b est cmd e s)))"
  by (simp add: control_stage_def split_beta Let_def set_interval stepped)

lemma actuator_stage_frame: "ks_controller (fst (actuator_stage p cfg ts b cmd s)) = ks_controller s"
  by (simp add: actuator_stage_def split_beta Let_def)

lemma handle_degradation_inv:
  "ctl_inv (ks_controller s) \<Longrightarrow> ctl_inv (ks_controller (fst (handle_degradation p r ts s)))"
  by (auto simp: handle_degradation_def Let_def reset split: option.split)

lemma armed_cycle_inv:
  assumes "ctl_inv (ks_controller s)"
  shows "ctl_inv (ks_controller (fst (armed_cycle p cfg ci ts dt s)))"
proof -
  have "ctl_inv (ks_controller (refresh_checks cfg ci est (observe_sensors p ci s)))" for est
    using assms by (simp add: refresh_checks_def observe_sensors_def Let_def)
  then have a: "ctl_inv (ks_controller (terminal_release p (refresh_checks cfg ci est (observe_sensors p ci s))))" for est
    by (simp add: terminal_release_def reset)
  have b: "ctl_inv (ks_controller (fst (decide_degradation p ts t)))" if "ctl_inv (ks_controller t)" for t
    using that by (simp add: decide_degradation_def handle_degradation_inv split: option.split)
  show ?thesis
    unfolding armed_cycle_def Let_def
    by (simp add: split_beta actuator_stage_frame, intro conjI impI control_stage_inv) (simp_all add: a b reset)
qed

lemma kernel_step_inv: "ctl_inv (ks_controller s) \<Longrightarrow> ctl_inv (ks_controller (kernel_step p cfg c s))"
proof (cases c)
  case (UpdateCall ci)
  assume inv: "ctl_inv (ks_controller s)"
  have s: "ctl_inv (ks_controller (after_sensors ci s))"
    using inv by (simp add: after_sensors_def update_sensor_faults_def update_timing_def Let_def)
  show ?thesis
  proof (cases "ks_init_state s = Armed")
    case False
    then show ?thesis using s by (simp add: UpdateCall update_unarmed Let_def observe_sensors_def)
  next
    case armed: True
    show ?thesis
    proof (cases "flag_intersects (ks_faults (after_sensors ci s)) critical_faults")
      case True
      then show ?thesis
        by (simp add: UpdateCall update_critical [OF armed True] Let_def check_critical_faults_def reset s)
    next
      case False
      then show ?thesis using armed_cycle_inv [OF s] by (simp add: UpdateCall update_armed [OF armed False])
    qed
  qed
next
  case (InitStepCall x)
  assume inv: "ctl_inv (ks_controller s)"
  have "ks_controller (init_transition t) = ks_controller t" for t :: "('e, 'r) kernel_state"
    by (cases "ks_init_state t"; simp add: init_transition_def)
  then show ?thesis using inv by (simp add: InitStepCall init_step_state)
qed (simp_all add: arm_def disarm_def terminate_def end_flight_period_def request_config_mode_def Let_def
    handle_degradation_inv reset_from_fault_def ground_reset_def report_timing_violation_def inject_fault_def reset
    split: sum.split)

end

sublocale controller_contract \<subseteq> keeps: preserved "kernel_step p cfg" "\<lambda>_. True" "\<lambda>s. ctl_inv (ks_controller s)"
  for cfg
  by unfold_locales (rule kernel_step_inv)

interpretation multirotor: controller_contract "multirotor_pipeline c p" "runtime_inv c"
  for c and p :: "('e, multirotor_runtime_state) pipeline"
  by unfold_locales
    (auto simp: multirotor_pipeline_def multirotor_step_def mr_reset_default
      intro: runtime_inv_interval runtime_inv_default runtime_inv_run_step split: option.splits)

lemma gate_supported:
  assumes "multirotor_mode_capability_of m \<noteq> NoCapability"
    and "gate_controller_mode_entry m valid (mc_supports_mode m) = e"
  shows "multirotor_mode_capability_of (effective e) \<noteq> NoCapability"
  using assms(1) unfolding assms(2) [symmetric]
  by (cases m) (simp_all add: gate_controller_mode_entry_def mc_supports_mode_def gate_cases Let_def split: if_split)

section \<open>Properties\<close>

text \<open>C11: the controller memory in every run of a kernel that flies the multirotor controller: the cycle
  interval is a finite number and not negative, the recorded torques are NaN or in the unit range,
  and, with finite integral gains, every rate integral is a number within the integral limit,
  whatever sensors and commands (NaN included) the kernel is given.\<close>

theorem controller_memory_bounded:
  assumes "kreachable (multirotor_pipeline c p) cfg (kernel_state_new e0 multirotor_runtime_default checks) s"
  shows "runtime_inv c (ks_controller s)"
proof -
  obtain calls where "s = kernel_run (multirotor_pipeline c p) cfg calls (kernel_state_new e0 multirotor_runtime_default checks)"
    using assms by (auto simp: kreachable_run)
  then show ?thesis
    using multirotor.keeps.run [of c "kernel_state_new e0 multirotor_runtime_default checks" calls p cfg]
    by (simp add: kernel_run_def kernel_state_new_def runtime_inv_default list_all_iff)
qed

theorem controller_memory_bounded_witness:
  "runtime_inv demo_controller (ks_controller
     (kernel_state_new state_estimate_default multirotor_runtime_default kernel_checks_new))"
  using controller_memory_bounded [OF kstart]
  by (metis)

text \<open>the terminal descent always completes its cycle: whatever the estimate, the limits and the
  controller memory, the controller returns on the command the kernel flies under \<open>Direct\<close>.\<close>

lemma terminal_descent_returns:
  "run_step M c r st (descend_command M' est lim n)
     (with_mode_entry (from_control_mode (cmd_mode (descend_command M' est lim n))) entry) lim \<noteq> None"
  by (rule prepare_velocity_none) (simp add: descend_command_def setpoint_default_def outer_loop_def split_beta)

end
