(* ===== verification/ReplicationProps.thy ===== *)
theory ReplicationProps
  imports Replication EkfClaims CascadeKernel
begin

text \<open>
  What the encoders write, and what agreement of two channels means. \<open>writes e bs\<close> is the contract of the trait:
  the buffer's prefix is overwritten by as much of \<open>bs\<close> as fits, and that much is counted. The locale
  \<open>replicable\<close> adds the constant length, \<open>faithful\<close> that the bytes are equal exactly when the part \<open>core\<close> of
  the states is (the whole of it, except in the filter); the parts of the
  kernel's state interpret them, and the locale \<open>kernel_parts\<close> composes an estimator and a controller.
\<close>

section \<open>Writing\<close>

definition writes :: "encoder \<Rightarrow> u8 list \<Rightarrow> bool" where
  "writes e bs \<longleftrightarrow> (\<forall>buf. e buf = (take (length buf) bs @ drop (length bs) buf, min (length buf) (length bs)))"

text \<open>The state of a walk that has written \<open>bs\<close>.\<close>

definition written :: "u8 list \<Rightarrow> u8 list \<Rightarrow> u8 list \<times> nat" where
  "written buf bs = (take (length buf) bs @ drop (length bs) buf, min (length buf) (length bs))"

lemma writes_written: "writes e bs \<longleftrightarrow> (\<forall>buf. e buf = written buf bs)"
  by (simp add: writes_def written_def)

lemma writesI: "(\<And>buf. e buf = written buf bs) \<Longrightarrow> writes e bs"
  by (simp add: writes_written)

lemma writesD: "writes e bs \<Longrightarrow> e buf = written buf bs"
  by (simp add: writes_written)

lemma written_Nil [simp]: "written buf [] = (buf, 0)"
  by (simp add: written_def)

lemma copy_into_written: "copy_into buf 0 bs = written buf bs"
proof (cases "0 < min (length buf) (length bs)")
  case True
  then show ?thesis by (cases "length buf \<le> length bs") (auto simp: copy_into_def written_def Let_def)
next
  case False
  then have "buf = [] \<or> bs = []" by simp
  then show ?thesis by (auto simp: copy_into_def written_def Let_def)
qed

lemma put_field_written: "put_field bs (written buf cs) = written buf (cs @ bs)"
proof (cases "length cs < length buf \<and> bs \<noteq> []")
  case False
  then show ?thesis by (auto simp: put_field_def written_def copy_into_def Let_def)
next
  case True
  show ?thesis
  proof (cases "length buf \<le> length cs + length bs")
    case fits: True
    then have "length buf - length cs \<le> length bs" "min (length buf) (length cs) = length cs" using True by simp_all
    then show ?thesis using True fits by (simp add: put_field_def written_def copy_into_def Let_def)
  next
    case fits: False
    then have "length bs \<le> length buf - length cs" "min (length buf) (length cs) = length cs" using True by simp_all
    then show ?thesis using True fits
      by (simp add: put_field_def written_def copy_into_def Let_def add.commute)
  qed
qed

lemma nest_tail:
  assumes "length cs < length buf" "writes e bs"
  shows "take (length cs) (fst (written buf cs)) @ fst (e (drop (length cs) (fst (written buf cs)))) = fst (written buf (cs @ bs))"
    "length cs + snd (e (drop (length cs) (fst (written buf cs)))) = snd (written buf (cs @ bs))"
proof -
  have d: "drop (length cs) (fst (written buf cs)) = drop (length cs) buf" using assms(1) by (simp add: written_def)
  show "take (length cs) (fst (written buf cs)) @ fst (e (drop (length cs) (fst (written buf cs)))) = fst (written buf (cs @ bs))"
    unfolding d writesD [OF assms(2)] using assms(1) by (simp add: written_def add.commute)
  show "length cs + snd (e (drop (length cs) (fst (written buf cs)))) = snd (written buf (cs @ bs))"
    unfolding d writesD [OF assms(2)] using assms(1) by (auto simp: written_def min_def)
qed

lemma written_cursor: "written buf cs = (fst (written buf cs), min (length buf) (length cs))" "length (fst (written buf cs)) = length buf"
  by (simp_all add: written_def)

lemma nest_written:
  assumes "writes e bs" shows "nest e (written buf cs) = written buf (cs @ bs)"
proof (cases "length cs < length buf")
  case True
  then show ?thesis using nest_tail [OF True assms]
    by (subst written_cursor(1)) (simp add: nest_def Let_def split_beta written_cursor(2) prod_eq_iff)
next
  case False
  then show ?thesis by (simp add: nest_def written_def Let_def)
qed

lemma nest_at_written:
  assumes "writes e bs" shows "nest_at e (written buf cs) = written buf (cs @ bs)"
proof (cases "length cs < length buf")
  case True
  then show ?thesis using nest_tail [OF True assms]
    by (subst written_cursor(1)) (simp add: nest_at_def Let_def split_beta written_cursor(2) prod_eq_iff)
next
  case False
  then show ?thesis using writesD [OF assms, of "[]"] by (simp add: nest_at_def written_def Let_def)
qed

lemma fold_put_written: "fold put_field fs (written buf cs) = written buf (cs @ concat fs)"
  by (induction fs arbitrary: cs) (simp_all add: put_field_written)

lemma fold_nest_at_written:
  assumes "\<And>x. writes (e x) (b x)"
  shows "fold (\<lambda>x. nest_at (e x)) xs (written buf cs) = written buf (cs @ concat (map b xs))"
  by (induction xs arbitrary: cs) (simp_all add: nest_at_written [OF assms])

lemma written_start: "(buf, 0) = written buf []" by simp

lemma fold_nest_at_start:
  assumes "\<And>x. writes (e x) (b x)"
  shows "fold (\<lambda>x. nest_at (e x)) xs (buf, 0) = written buf (concat (map b xs))"
  using fold_nest_at_written [of e b, OF assms, of xs buf "[]"] by simp

lemma writes_walk: "writes (walk fs) (concat fs)"
  unfolding writes_written walk_def by (subst written_start) (simp only: fold_put_written append_Nil simp_thms)

lemma writes_copy: "writes (\<lambda>buf. copy_into buf 0 bs) bs"
  by (simp add: writes_written copy_into_written)

section \<open>The contract\<close>

locale replicable =
  fixes encode :: "'a \<Rightarrow> encoder" and bytes :: "'a \<Rightarrow> u8 list" and ENCODED_LEN :: nat and ok :: "'a \<Rightarrow> bool"
  assumes encode_writes: "writes (encode x) (bytes x)"
    and bytes_length: "ok x \<Longrightarrow> length (bytes x) = ENCODED_LEN"
begin

lemma full_buffer: "ok x \<Longrightarrow> length buf = ENCODED_LEN \<Longrightarrow> encode x buf = (bytes x, ENCODED_LEN)"
  using writesD [OF encode_writes, of x buf] by (simp add: written_def bytes_length)

lemma count: "ok x \<Longrightarrow> snd (encode x buf) = min (length buf) ENCODED_LEN"
  using writesD [OF encode_writes, of x buf] by (simp add: written_def bytes_length)

lemma keeps_length: "length (fst (encode x buf)) = length buf"
  using writesD [OF encode_writes, of x buf] by (simp add: written_def)

end

locale faithful = replicable +
  fixes core :: "'a \<Rightarrow> 'b"
  assumes bytes_prefix: "ok x \<Longrightarrow> ok y \<Longrightarrow> bytes x @ r = bytes y @ s \<longleftrightarrow> core x = core y \<and> r = s"
begin

lemma bytes_inj: "ok x \<Longrightarrow> ok y \<Longrightarrow> bytes x = bytes y \<longleftrightarrow> core x = core y"
  using bytes_prefix [of x y "[]" "[]"] by simp

end

section \<open>Bytes of the parts\<close>

lemma faithful_le_bytes:
  "8 dvd LENGTH('a) \<Longrightarrow> faithful (\<lambda>w :: 'a::len word. \<lambda>buf. copy_into buf 0 (le_bytes w)) le_bytes (LENGTH('a) div 8) (\<lambda>_. True) (\<lambda>x. x)"
  by unfold_locales (simp_all add: writes_copy le_bytes_prefix_iff del: append_eq_append_conv)

lemma faithful_byte:
  assumes "inj disc"
  shows "faithful (\<lambda>x buf. copy_into buf 0 [disc x]) (\<lambda>x. [disc x]) 1 (\<lambda>_. True) (\<lambda>x. x)"
  using assms by unfold_locales (auto simp: writes_copy inj_def)

interpretation init_state: faithful encode_init_state "\<lambda>x. [init_state_disc x]" 1 "\<lambda>_. True" "\<lambda>x. x"
proof -
  have "inj init_state_disc" by (rule injI) (rename_tac x y, case_tac x; case_tac y; simp)
  then show "faithful encode_init_state (\<lambda>x. [init_state_disc x]) 1 (\<lambda>_. True) (\<lambda>x. x)"
    using faithful_byte by (simp add: encode_init_state_def [abs_def])
qed

interpretation config_mode: faithful encode_config_mode "\<lambda>x. [config_mode_disc x]" 1 "\<lambda>_. True" "\<lambda>x. x"
proof -
  have "inj config_mode_disc" by (rule injI) (rename_tac x y, case_tac x; case_tac y; simp)
  then show "faithful encode_config_mode (\<lambda>x. [config_mode_disc x]) 1 (\<lambda>_. True) (\<lambda>x. x)"
    using faithful_byte by (simp add: encode_config_mode_def [abs_def])
qed

interpretation control_law: faithful encode_control_law "\<lambda>x. [control_law_disc x]" 1 "\<lambda>_. True" "\<lambda>x. x"
proof -
  have "inj control_law_disc" by (rule injI) (rename_tac x y, case_tac x; case_tac y; simp)
  then show "faithful encode_control_law (\<lambda>x. [control_law_disc x]) 1 (\<lambda>_. True) (\<lambda>x. x)"
    using faithful_byte by (simp add: encode_control_law_def [abs_def])
qed

interpretation terminal_cause: faithful encode_terminal_cause "\<lambda>x. [terminal_cause_disc x]" 1 "\<lambda>_. True" "\<lambda>x. x"
proof -
  have "inj terminal_cause_disc" by (rule injI) (rename_tac x y, case_tac x; case_tac y; simp)
  then show "faithful encode_terminal_cause (\<lambda>x. [terminal_cause_disc x]) 1 (\<lambda>_. True) (\<lambda>x. x)"
    using faithful_byte by (simp add: encode_terminal_cause_def [abs_def])
qed

interpretation faults: faithful encode_faults le_bytes 8 "\<lambda>_. True" "\<lambda>x. x"
  using faithful_le_bytes [where 'a = 64] by (simp add: encode_faults_def [abs_def])

definition kernel_checks_bytes :: "kernel_checks \<Rightarrow> u8 list" where
  "kernel_checks_bytes c =
     le_bytes (pa_required (pre_arm c)) @ le_bytes (pa_current (pre_arm c))
     @ le_bytes (sc_imu (pa_samples (pre_arm c))) @ le_bytes (sc_baro (pa_samples (pre_arm c)))
     @ le_bytes (sc_mag (pa_samples (pre_arm c))) @ le_bytes (sc_gnss (pa_samples (pre_arm c)))
     @ le_bytes (sc_min_required (pa_samples (pre_arm c)))
     @ le_bytes (fl_required (in_flight c)) @ le_bytes (fl_current (in_flight c))
     @ le_bytes (tr_required (transition c)) @ le_bytes (tr_current (transition c))
     @ le_bytes (tl_min_altitude (tr_limits (transition c))) @ le_bytes (tl_max_attitude_rate (tr_limits (transition c)))
     @ le_bytes (tl_min_airspeed (tr_limits (transition c))) @ le_bytes (tl_max_asymmetry (tr_limits (transition c)))"

lemma writes_flags:
  "writes (encode_pre_arm_flags f) (le_bytes f)" "writes (encode_in_flight_flags f) (le_bytes f)"
  "writes (encode_transition_flags f) (le_bytes f)"
  by (simp_all add: writes_written encode_pre_arm_flags_def encode_in_flight_flags_def encode_transition_flags_def copy_into_written)

lemma writes_samples:
  "writes (encode_sample_counts c) (le_bytes (sc_imu c) @ le_bytes (sc_baro c) @ le_bytes (sc_mag c)
     @ le_bytes (sc_gnss c) @ le_bytes (sc_min_required c))"
  "writes (encode_transition_limits l) (le_bytes (tl_min_altitude l) @ le_bytes (tl_max_attitude_rate l)
     @ le_bytes (tl_min_airspeed l) @ le_bytes (tl_max_asymmetry l))"
  using writes_walk [of "[le_bytes (sc_imu c), le_bytes (sc_baro c), le_bytes (sc_mag c), le_bytes (sc_gnss c), le_bytes (sc_min_required c)]"]
    writes_walk [of "[le_bytes (tl_min_altitude l), le_bytes (tl_max_attitude_rate l), le_bytes (tl_min_airspeed l), le_bytes (tl_max_asymmetry l)]"]
  by (simp_all add: encode_sample_counts_def encode_transition_limits_def)

interpretation kernel_checks: faithful encode_kernel_checks kernel_checks_bytes 60 "\<lambda>_. True" "\<lambda>x. x"
proof
  fix c :: kernel_checks
  have pa: "writes (encode_pre_arm_status s) (le_bytes (pa_required s) @ le_bytes (pa_current s)
      @ le_bytes (sc_imu (pa_samples s)) @ le_bytes (sc_baro (pa_samples s)) @ le_bytes (sc_mag (pa_samples s))
      @ le_bytes (sc_gnss (pa_samples s)) @ le_bytes (sc_min_required (pa_samples s)))" for s
    by (rule writesI) (simp add: encode_pre_arm_status_def Let_def writesD [OF writes_flags(1)]
        nest_written [OF writes_flags(1)] nest_written [OF writes_samples(1)])
  have fl: "writes (encode_in_flight_status s) (le_bytes (fl_required s) @ le_bytes (fl_current s))" for s
    by (rule writesI) (simp add: encode_in_flight_status_def writesD [OF writes_flags(2)] nest_written [OF writes_flags(2)])
  have tr: "writes (encode_transition_status s) (le_bytes (tr_required s) @ le_bytes (tr_current s)
      @ le_bytes (tl_min_altitude (tr_limits s)) @ le_bytes (tl_max_attitude_rate (tr_limits s))
      @ le_bytes (tl_min_airspeed (tr_limits s)) @ le_bytes (tl_max_asymmetry (tr_limits s)))" for s
    by (rule writesI) (simp add: encode_transition_status_def Let_def writesD [OF writes_flags(3)]
        nest_written [OF writes_flags(3)] nest_written [OF writes_samples(2)])
  show "writes (encode_kernel_checks c) (kernel_checks_bytes c)"
    by (rule writesI) (simp add: encode_kernel_checks_def kernel_checks_bytes_def Let_def writesD [OF pa]
        nest_written [OF fl] nest_written [OF tr])
  show "length (kernel_checks_bytes c) = 60" by (simp add: kernel_checks_bytes_def)
next
  fix a b :: kernel_checks and r s
  have e: "a = b \<longleftrightarrow> pre_arm a = pre_arm b \<and> in_flight a = in_flight b \<and> transition a = transition b" for a b :: kernel_checks
    by (cases a; cases b) simp
  have p: "x = y \<longleftrightarrow> pa_required x = pa_required y \<and> pa_current x = pa_current y \<and> pa_samples x = pa_samples y" for x y :: pre_arm_status
    by (cases x; cases y) simp
  have c: "x = y \<longleftrightarrow> sc_imu x = sc_imu y \<and> sc_baro x = sc_baro y \<and> sc_mag x = sc_mag y \<and> sc_gnss x = sc_gnss y
      \<and> sc_min_required x = sc_min_required y" for x y :: sample_counts
    by (cases x; cases y) simp
  have f: "x = y \<longleftrightarrow> fl_required x = fl_required y \<and> fl_current x = fl_current y" for x y :: in_flight_status
    by (cases x; cases y) simp
  have t: "x = y \<longleftrightarrow> tr_required x = tr_required y \<and> tr_current x = tr_current y \<and> tr_limits x = tr_limits y" for x y :: transition_status
    by (cases x; cases y) simp
  have l: "x = y \<longleftrightarrow> tl_min_altitude x = tl_min_altitude y \<and> tl_max_attitude_rate x = tl_max_attitude_rate y
      \<and> tl_min_airspeed x = tl_min_airspeed y \<and> tl_max_asymmetry x = tl_max_asymmetry y" for x y :: transition_limits
    by (cases x; cases y) simp
  show "kernel_checks_bytes a @ r = kernel_checks_bytes b @ s \<longleftrightarrow> a = b \<and> r = s"
    unfolding kernel_checks_bytes_def e p c f t l append.assoc le_bytes_prefix by auto
qed


text \<open>Lists of words and of tags of a fixed length.\<close>

lemma concat_le_bytes_prefix:
  assumes "8 dvd LENGTH('a)" "length xs = length ys"
  shows "concat (map le_bytes (xs :: 'a::len word list)) @ r = concat (map le_bytes ys) @ s \<longleftrightarrow> xs = ys \<and> r = s"
  using assms(2) by (induction xs ys rule: list_induct2) (auto simp: le_bytes_prefix_iff [OF assms(1)])

lemma f32_lanes_prefix:
  "length xs = length ys \<Longrightarrow> concat (map le_bytes (xs :: f32 list)) @ r = concat (map le_bytes ys) @ s \<longleftrightarrow> xs = ys \<and> r = s"
  "length us = length vs \<Longrightarrow> concat (map le_bytes (us :: u16 list)) @ r = concat (map le_bytes vs) @ s \<longleftrightarrow> us = vs \<and> r = s"
  by (simp_all add: concat_le_bytes_prefix)

lemma concat_le_bytes_length [simp]:
  "length (concat (map le_bytes (xs :: 'a::len word list))) = (LENGTH('a) div 8) * length xs"
  by (induction xs) simp_all

lemma bool_byte_inj [simp]: "bool_byte a = bool_byte b \<longleftrightarrow> a = b"
  by (simp add: bool_byte_def)

lemma bool_lane_inj [simp]: "bool_lane a = bool_lane b \<longleftrightarrow> a = b"
  by (simp add: bool_lane_def)

lemma tag_inj [simp]:
  "actuator_health_tag a = actuator_health_tag b \<longleftrightarrow> a = b" "time_source_tag c = time_source_tag d \<longleftrightarrow> c = d"
  "mode_option_tag e = mode_option_tag f \<longleftrightarrow> e = f" "topology_option_tag g = topology_option_tag h \<longleftrightarrow> g = h"
proof -
  show "actuator_health_tag a = actuator_health_tag b \<longleftrightarrow> a = b" by (cases a; cases b) simp_all
  show "time_source_tag c = time_source_tag d \<longleftrightarrow> c = d" by (cases c; cases d) simp_all
  show "mode_option_tag e = mode_option_tag f \<longleftrightarrow> e = f"
    by (cases e rule: mode_option_tag.cases; cases f rule: mode_option_tag.cases) simp_all
  show "topology_option_tag g = topology_option_tag h \<longleftrightarrow> g = h"
    by (cases g rule: topology_option_tag.cases; cases h rule: topology_option_tag.cases) simp_all
qed

lemma vec3_lanes_inj [simp]: "vec3_lanes v = vec3_lanes w \<longleftrightarrow> v = w"
  by (cases v; cases w) (simp add: vec3_lanes_def)

lemma vec3_lanes_length [simp]: "length (vec3_lanes v) = 3"
  by (simp add: vec3_lanes_def)

section \<open>Timing, flight phase, controller\<close>

definition timing_bytes :: "timing_stats \<Rightarrow> u8 list" where
  "timing_bytes t = le_bytes (last_cycle_us t) @ le_bytes (max_cycle_us t) @ le_bytes (min_cycle_us t)
     @ le_bytes (deadline_violations t) @ le_bytes (consecutive_violations t) @ le_bytes (total_cycles t)"

interpretation timing_stats: faithful encode_timing_stats timing_bytes 28 "\<lambda>_. True" "\<lambda>x. x"
proof
  fix t :: timing_stats
  show "writes (encode_timing_stats t) (timing_bytes t)"
    using writes_walk [of "[le_bytes (last_cycle_us t), le_bytes (max_cycle_us t), le_bytes (min_cycle_us t),
      le_bytes (deadline_violations t), le_bytes (consecutive_violations t), le_bytes (total_cycles t)]"]
    by (simp add: encode_timing_stats_def timing_bytes_def)
  show "length (timing_bytes t) = 28" by (simp add: timing_bytes_def)
next
  fix a b :: timing_stats and r s
  show "timing_bytes a @ r = timing_bytes b @ s \<longleftrightarrow> a = b \<and> r = s"
    unfolding timing_bytes_def append.assoc le_bytes_prefix by (cases a; cases b) auto
qed

definition flight_phase_bytes :: "flight_phase_state \<Rightarrow> u8 list" where
  "flight_phase_bytes s = [if fp_phase s = Airborne then 1 else 0] @ le_bytes (fp_ground_datum s)
     @ [bool_byte (fp_datum_valid s)] @ le_bytes (fp_landed_elapsed s)"

interpretation flight_phase: faithful encode_flight_phase_state flight_phase_bytes 10 "\<lambda>_. True" "\<lambda>x. x"
proof
  fix t :: flight_phase_state
  show "writes (encode_flight_phase_state t) (flight_phase_bytes t)"
    by (rule writesI) (simp only: encode_flight_phase_state_def encode_flight_phase_def copy_into_written fold_put_written
        flight_phase_bytes_def concat.simps append_Nil2 append.assoc)
  show "length (flight_phase_bytes t) = 10" by (simp add: flight_phase_bytes_def)
next
  fix a b :: flight_phase_state and r s
  have e: "a = b \<longleftrightarrow> fp_phase a = fp_phase b \<and> fp_ground_datum a = fp_ground_datum b
      \<and> fp_datum_valid a = fp_datum_valid b \<and> fp_landed_elapsed a = fp_landed_elapsed b" by (cases a; cases b) simp
  show "flight_phase_bytes a @ r = flight_phase_bytes b @ s \<longleftrightarrow> a = b \<and> r = s"
    unfolding flight_phase_bytes_def append.assoc e
    by (cases "fp_phase a"; cases "fp_phase b") (simp_all add: le_bytes_prefix)
qed

definition multirotor_bytes :: "multirotor_runtime_state \<Rightarrow> u8 list" where
  "multirotor_bytes r =
     concat (map le_bytes (multirotor_lanes r)) @ [mode_option_tag (mr_previous_mode r), topology_option_tag (mr_previous_topology r)]
     @ concat (map le_bytes [ax_roll (mr_last_axis r), ax_pitch (mr_last_axis r), ax_yaw (mr_last_axis r), ax_collective (mr_last_axis r)])
     @ [bool_byte (mr_axis_primed r)]"

lemma multirotor_lanes_inj:
  "multirotor_lanes a = multirotor_lanes b \<longleftrightarrow>
     mr_velocity_loop a = mr_velocity_loop b \<and> mr_rate_loop a = mr_rate_loop b \<and> mr_last_vel_sp a = mr_last_vel_sp b
     \<and> mr_vel_sp_primed a = mr_vel_sp_primed b \<and> mr_dt a = mr_dt b"
proof -
  have v: "x = y \<longleftrightarrow> vl_integrator x = vl_integrator y \<and> vl_last_vel_filt x = vl_last_vel_filt y \<and> vl_primed x = vl_primed y"
    for x y :: velocity_loop_state by (cases x; cases y) simp
  have r: "x = y \<longleftrightarrow> rl_meas_prev x = rl_meas_prev y \<and> rl_integral x = rl_integral y \<and> rl_primed x = rl_primed y"
    for x y :: rate_loop_state by (cases x; cases y) simp
  show ?thesis unfolding multirotor_lanes_def v r by auto
qed

interpretation multirotor_state: faithful encode_multirotor multirotor_bytes 95 "\<lambda>_. True" "\<lambda>x. x"
proof
  fix m :: multirotor_runtime_state
  show "writes (encode_multirotor m) (multirotor_bytes m)"
    unfolding encode_multirotor_def multirotor_bytes_def
    by (rule back_subst [of "writes (walk _)", OF writes_walk]) simp
  show "length (multirotor_bytes m) = 95"
    by (simp add: multirotor_bytes_def concat_le_bytes_length multirotor_lanes_def)
next
  fix a b :: multirotor_runtime_state and r s
  have l: "length (multirotor_lanes a) = length (multirotor_lanes b)" by (simp add: multirotor_lanes_def)
  have e: "a = b \<longleftrightarrow> mr_velocity_loop a = mr_velocity_loop b \<and> mr_rate_loop a = mr_rate_loop b \<and> mr_last_vel_sp a = mr_last_vel_sp b
     \<and> mr_vel_sp_primed a = mr_vel_sp_primed b \<and> mr_dt a = mr_dt b \<and> mr_previous_mode a = mr_previous_mode b
     \<and> mr_previous_topology a = mr_previous_topology b \<and> mr_last_axis a = mr_last_axis b \<and> mr_axis_primed a = mr_axis_primed b"
    by (cases a; cases b) auto
  have x: "x = y \<longleftrightarrow> ax_roll x = ax_roll y \<and> ax_pitch x = ax_pitch y \<and> ax_yaw x = ax_yaw y \<and> ax_collective x = ax_collective y"
    for x y :: axis_command by (cases x; cases y) simp
  show "multirotor_bytes a @ r = multirotor_bytes b @ s \<longleftrightarrow> a = b \<and> r = s"
    unfolding multirotor_bytes_def append.assoc f32_lanes_prefix(1) [OF l] multirotor_lanes_inj
    by (subst f32_lanes_prefix(1) | simp add: e x f32_lanes_prefix(1) del: append_eq_append_conv concat.simps list.map)+
qed


section \<open>Actuators\<close>

definition group_vector_bytes :: "group_vector \<Rightarrow> u8 list" where
  "group_vector_bytes v = concat (map le_bytes (gv_outputs v)) @ le_bytes (gv_mask v) @ [bool_byte (gv_valid v)]"

definition group_vector_ok :: "group_vector \<Rightarrow> bool" where
  "group_vector_ok v \<longleftrightarrow> length (gv_outputs v) = MAX_ACTUATORS"

interpretation group_vector: faithful encode_group_vector group_vector_bytes 67 group_vector_ok "\<lambda>x. x"
proof
  fix v :: group_vector
  show "writes (encode_group_vector v) (group_vector_bytes v)"
    unfolding encode_group_vector_def group_vector_bytes_def
    by (rule back_subst [of "writes (walk _)", OF writes_walk]) simp
  show "group_vector_ok v \<Longrightarrow> length (group_vector_bytes v) = 67"
    by (simp add: group_vector_bytes_def group_vector_ok_def MAX_ACTUATORS_def)
next
  fix a b :: group_vector and r s
  assume ok: "group_vector_ok a" "group_vector_ok b"
  have e: "a = b \<longleftrightarrow> gv_outputs a = gv_outputs b \<and> gv_mask a = gv_mask b \<and> gv_valid a = gv_valid b" by (cases a; cases b) simp
  show "group_vector_bytes a @ r = group_vector_bytes b @ s \<longleftrightarrow> a = b \<and> r = s"
    using ok unfolding group_vector_bytes_def append.assoc e group_vector_ok_def
    by (simp add: f32_lanes_prefix(1) le_bytes_prefix del: append_eq_append_conv)
qed

definition actual_bytes :: "f32 list option \<Rightarrow> u8 list" where
  "actual_bytes o' = (case o' of Some arr \<Rightarrow> 1 # concat (map le_bytes arr)
     | None \<Rightarrow> 0 # concat (map le_bytes (replicate MAX_ACTUATORS f0)))"

definition actuator_bytes :: "actuator_state \<Rightarrow> u8 list" where
  "actuator_bytes a =
     map actuator_health_tag (as_health a) @ concat (map le_bytes (as_commanded a)) @ actual_bytes (as_actual a)
     @ le_bytes (ts_ticks (as_timestamp a)) @ [time_source_tag (ts_source (as_timestamp a))]"

definition actuator_ok :: "actuator_state \<Rightarrow> bool" where
  "actuator_ok a \<longleftrightarrow> length (as_health a) = MAX_ACTUATORS \<and> length (as_commanded a) = MAX_ACTUATORS
     \<and> (case as_actual a of Some arr \<Rightarrow> length arr = MAX_ACTUATORS | None \<Rightarrow> True)"

lemma actual_prefix:
  assumes "case a of Some x \<Rightarrow> length x = MAX_ACTUATORS | None \<Rightarrow> True" "case b of Some x \<Rightarrow> length x = MAX_ACTUATORS | None \<Rightarrow> True"
  shows "actual_bytes a @ r = actual_bytes b @ s \<longleftrightarrow> a = b \<and> r = s"
  using assms by (cases a; cases b) (simp_all add: actual_bytes_def f32_lanes_prefix(1) del: append_eq_append_conv)

lemma health_writes: "writes (encode_actuator_health h) [actuator_health_tag h]"
  by (simp add: writes_written encode_actuator_health_def copy_into_written)

interpretation actuator_state: faithful encode_actuator_state actuator_bytes 154 actuator_ok "\<lambda>x. x"
proof
  fix a :: actuator_state
  have h: "concat (map (\<lambda>h. [actuator_health_tag h]) hs) = map actuator_health_tag hs" for hs by (induction hs) simp_all
  show "writes (encode_actuator_state a) (actuator_bytes a)"
  proof (rule writesI)
    fix buf
    show "encode_actuator_state a buf = written buf (actuator_bytes a)"
      unfolding encode_actuator_state_def Let_def actuator_bytes_def actual_bytes_def fold_nest_at_start [OF health_writes] h
      by (cases "as_actual a") (simp_all only: option.case fold_put_written concat.simps append_Nil append_Nil2
          append.assoc append_Cons map_replicate)
  qed
  show "actuator_ok a \<Longrightarrow> length (actuator_bytes a) = 154"
    using concat_le_bytes_length [of "replicate 16 f0"]
    by (auto simp: actuator_bytes_def actual_bytes_def actuator_ok_def MAX_ACTUATORS_def split: option.splits)
next
  fix a b :: actuator_state and r s
  assume ok: "actuator_ok a" "actuator_ok b"
  have e: "a = b \<longleftrightarrow> as_health a = as_health b \<and> as_commanded a = as_commanded b \<and> as_actual a = as_actual b
      \<and> as_timestamp a = as_timestamp b" by (cases a; cases b) simp
  have t: "x = y \<longleftrightarrow> ts_ticks x = ts_ticks y \<and> ts_source x = ts_source y" for x y :: timestamp by (cases x; cases y) simp
  have l: "length (map actuator_health_tag (as_health a)) = length (map actuator_health_tag (as_health b))"
    "length (as_commanded a) = length (as_commanded b)"
    using ok by (simp_all add: actuator_ok_def)
  have i: "map actuator_health_tag xs = map actuator_health_tag ys \<longleftrightarrow> xs = ys" for xs ys
    by (rule inj_map_eq_map) (simp add: inj_def)
  note p = actual_prefix [OF ok(1) [unfolded actuator_ok_def, THEN conjunct2, THEN conjunct2]
      ok(2) [unfolded actuator_ok_def, THEN conjunct2, THEN conjunct2]]
  show "actuator_bytes a @ r = actuator_bytes b @ s \<longleftrightarrow> a = b \<and> r = s"
    unfolding actuator_bytes_def append.assoc e t append_eq_append_conv [OF disjI1, OF l(1)] i
      f32_lanes_prefix(1) [OF l(2)] p le_bytes_prefix by auto
qed

definition fallback_bytes :: "actuator_fallback_state \<Rightarrow> u8 list" where
  "fallback_bytes s = concat (map group_vector_bytes (last_good s)) @ concat (map le_bytes (age s))
     @ concat (map le_bytes (consecutive_fallback s))"

definition fallback_ok :: "actuator_fallback_state \<Rightarrow> bool" where
  "fallback_ok s \<longleftrightarrow> length (last_good s) = MAX_GROUPS \<and> list_all group_vector_ok (last_good s)
     \<and> length (age s) = MAX_GROUPS \<and> length (consecutive_fallback s) = MAX_GROUPS"

lemma group_vectors_prefix:
  assumes "length xs = length ys" "list_all group_vector_ok xs" "list_all group_vector_ok ys"
  shows "concat (map group_vector_bytes xs) @ r = concat (map group_vector_bytes ys) @ s \<longleftrightarrow> xs = ys \<and> r = s"
  using assms by (induction xs ys rule: list_induct2)
    (auto simp: group_vector.bytes_prefix simp del: append_eq_append_conv)

interpretation fallback_state: faithful encode_fallback fallback_bytes 568 fallback_ok "\<lambda>x. x"
proof
  fix a :: actuator_fallback_state
  show "writes (encode_fallback a) (fallback_bytes a)"
    by (rule writesI) (simp only: encode_fallback_def Let_def fallback_bytes_def
        fold_nest_at_start [OF group_vector.encode_writes] fold_put_written append.assoc)
  have "list_all group_vector_ok vs \<Longrightarrow> length (concat (map group_vector_bytes vs)) = 67 * length vs" for vs
    by (induction vs) (simp_all add: group_vector.bytes_length)
  then show "fallback_ok a \<Longrightarrow> length (fallback_bytes a) = 568"
    by (simp add: fallback_ok_def fallback_bytes_def MAX_GROUPS_def del: length_concat)
next
  fix a b :: actuator_fallback_state and r s
  assume ok: "fallback_ok a" "fallback_ok b"
  have e: "a = b \<longleftrightarrow> last_good a = last_good b \<and> age a = age b \<and> consecutive_fallback a = consecutive_fallback b"
    by (cases a; cases b) simp
  show "fallback_bytes a @ r = fallback_bytes b @ s \<longleftrightarrow> a = b \<and> r = s"
    using ok unfolding fallback_bytes_def append.assoc e fallback_ok_def
    by (simp add: group_vectors_prefix f32_lanes_prefix(2) del: append_eq_append_conv)
qed


section \<open>The filter\<close>

definition ekf_bytes :: "ekf_state \<Rightarrow> u8 list" where
  "ekf_bytes st =
     concat (map le_bytes (ekf_lanes st))
     @ [bool_byte (ek_initialized st), bool_byte (ek_quat_fault st), case ek_baro_ref st of Some r \<Rightarrow> 1 | None \<Rightarrow> 0]
     @ le_bytes (case ek_baro_ref st of Some r \<Rightarrow> r | None \<Rightarrow> f0)
     @ le_bytes (ek_baro_ref_var st) @ le_bytes (ek_imu_age_s st) @ le_bytes (ek_accel_clip_s st)"

definition ekf_ok :: "ekf_state \<Rightarrow> bool" where
  "ekf_ok st \<longleftrightarrow> mat_dim STATE_DIM STATE_DIM (ek_p_cov st)"

text \<open>What of the filter the bytes determine: all but the three aiding ages.\<close>

definition ekf_core :: "ekf_state \<Rightarrow> ekf_state" where
  "ekf_core st = st\<lparr>ek_gnss_pos_age_s := f0, ek_gnss_vel_age_s := f0, ek_baro_age_s := f0\<rparr>"

lemma ekf_core_eq:
  "ekf_core a = ekf_core b \<longleftrightarrow> ek_quat a = ek_quat b \<and> ek_pos a = ek_pos b \<and> ek_vel a = ek_vel b
     \<and> ek_gyro_bias a = ek_gyro_bias b \<and> ek_accel_bias a = ek_accel_bias b \<and> ek_last_gyro_body a = ek_last_gyro_body b
     \<and> ek_p_cov a = ek_p_cov b \<and> ek_initialized a = ek_initialized b \<and> ek_quat_fault a = ek_quat_fault b
     \<and> ek_baro_ref a = ek_baro_ref b \<and> ek_baro_ref_var a = ek_baro_ref_var b
     \<and> ek_imu_age_s a = ek_imu_age_s b \<and> ek_accel_clip_s a = ek_accel_clip_s b"
  by (cases a; cases b) (auto simp: ekf_core_def)

lemma concat_rows_inj:
  assumes "length xs = length ys" "\<forall>x \<in> set xs. length x = n" "\<forall>y \<in> set ys. length y = n"
  shows "concat xs = concat ys \<longleftrightarrow> xs = ys"
  using assms by (induction xs ys rule: list_induct2) auto

lemma concat_rows_length: "\<forall>x \<in> set xs. length x = n \<Longrightarrow> length (concat xs) = n * length xs"
  by (induction xs) simp_all

lemma ekf_lanes_inj:
  assumes "ekf_ok a" "ekf_ok b"
  shows "ekf_lanes a = ekf_lanes b \<longleftrightarrow> ek_quat a = ek_quat b \<and> ek_pos a = ek_pos b \<and> ek_vel a = ek_vel b
     \<and> ek_gyro_bias a = ek_gyro_bias b \<and> ek_accel_bias a = ek_accel_bias b \<and> ek_last_gyro_body a = ek_last_gyro_body b
     \<and> ek_p_cov a = ek_p_cov b"
proof -
  have q: "x = y \<longleftrightarrow> q_w x = q_w y \<and> q_x x = q_x y \<and> q_y x = q_y y \<and> q_z x = q_z y" for x y :: quaternion
    by (cases x; cases y) simp
  have "concat (ek_p_cov a) = concat (ek_p_cov b) \<longleftrightarrow> ek_p_cov a = ek_p_cov b"
    using assms by (intro concat_rows_inj) (auto simp: ekf_ok_def mat_dim_def)
  then show ?thesis unfolding ekf_lanes_def q by auto
qed

lemma ekf_lanes_length: "ekf_ok st \<Longrightarrow> length (ekf_lanes st) = 244"
  using concat_rows_length [of "ek_p_cov st" STATE_DIM]
  by (simp add: ekf_lanes_def ekf_ok_def mat_dim_def STATE_DIM_def del: length_concat)

interpretation filter_state: faithful encode_ekf ekf_bytes 995 ekf_ok ekf_core
proof
  fix st :: ekf_state
  show "writes (encode_ekf st) (ekf_bytes st)"
    unfolding encode_ekf_def ekf_bytes_def
    by (rule back_subst [of "writes (walk _)", OF writes_walk]) simp
  show "ekf_ok st \<Longrightarrow> length (ekf_bytes st) = 995"
    by (simp add: ekf_bytes_def ekf_lanes_length del: length_concat)
next
  fix a b :: ekf_state and r s
  assume ok: "ekf_ok a" "ekf_ok b"
  have l: "length (ekf_lanes a) = length (ekf_lanes b)" using ok by (simp add: ekf_lanes_length)
  show "ekf_bytes a @ r = ekf_bytes b @ s \<longleftrightarrow> ekf_core a = ekf_core b \<and> r = s"
    unfolding ekf_bytes_def append.assoc f32_lanes_prefix(1) [OF l] ekf_lanes_inj [OF ok] ekf_core_eq append_Cons append_Nil
      list.inject le_bytes_prefix
    by (cases "ek_baro_ref a"; cases "ek_baro_ref b") auto
qed

section \<open>The kernel\<close>

definition kernel_bytes ::
  "('e \<Rightarrow> u8 list) \<Rightarrow> ('r \<Rightarrow> u8 list) \<Rightarrow> ('e, 'r) kernel_state \<Rightarrow> u8 list" where
  "kernel_bytes be br s =
     [init_state_disc (ks_init_state s)] @ [config_mode_disc (ks_mode s)] @ le_bytes (ks_faults s)
     @ [control_law_disc (ks_control_law s)] @ [terminal_cause_disc (ks_terminal_cause s)]
     @ kernel_checks_bytes (ks_checks s) @ actuator_bytes (ks_actuator_state s) @ timing_bytes (ks_timing_stats s)
     @ be (ks_estimator s) @ fallback_bytes (ks_fallback s) @ br (ks_controller s)
     @ flight_phase_bytes (ks_flight_phase s)"

definition kernel_ok :: "('e \<Rightarrow> bool) \<Rightarrow> ('r \<Rightarrow> bool) \<Rightarrow> ('e, 'r) kernel_state \<Rightarrow> bool" where
  "kernel_ok oke okr s \<longleftrightarrow> actuator_ok (ks_actuator_state s) \<and> fallback_ok (ks_fallback s)
     \<and> oke (ks_estimator s) \<and> okr (ks_controller s)"

definition kernel_core :: "('e \<Rightarrow> 'f) \<Rightarrow> ('r \<Rightarrow> 'q) \<Rightarrow> ('e, 'r) kernel_state \<Rightarrow> ('f, 'q) kernel_state" where
  "kernel_core ce cr s =
     \<lparr>ks_init_state = ks_init_state s, ks_mode = ks_mode s, ks_faults = ks_faults s, ks_control_law = ks_control_law s,
      ks_terminal_cause = ks_terminal_cause s, ks_checks = ks_checks s, ks_actuator_state = ks_actuator_state s,
      ks_timing_stats = ks_timing_stats s, ks_estimator = ce (ks_estimator s), ks_fallback = ks_fallback s,
      ks_controller = cr (ks_controller s), ks_flight_phase = ks_flight_phase s\<rparr>"

locale kernel_parts =
  e: faithful enc_e bytes_e len_e ok_e core_e + r: faithful enc_r bytes_r len_r ok_r core_r
  for enc_e :: "'e \<Rightarrow> encoder" and bytes_e len_e ok_e and core_e :: "'e \<Rightarrow> 'f"
    and enc_r :: "'r \<Rightarrow> encoder" and bytes_r len_r ok_r and core_r :: "'r \<Rightarrow> 'q"

sublocale kernel_parts \<subseteq> kernel: faithful "encode_kernel_state enc_e enc_r" "kernel_bytes bytes_e bytes_r"
  "832 + len_e + len_r" "kernel_ok ok_e ok_r" "kernel_core core_e core_r"
proof
  fix s
  show "writes (encode_kernel_state enc_e enc_r s) (kernel_bytes bytes_e bytes_r s)"
    by (rule writesI, subst encode_kernel_state_def)
      (simp only: fold.simps o_apply id_apply written_start nest_written [OF init_state.encode_writes]
        nest_written [OF config_mode.encode_writes] nest_written [OF faults.encode_writes]
        nest_written [OF control_law.encode_writes] nest_written [OF terminal_cause.encode_writes]
        nest_written [OF kernel_checks.encode_writes] nest_written [OF actuator_state.encode_writes]
        nest_written [OF timing_stats.encode_writes] nest_written [OF e.encode_writes]
        nest_written [OF fallback_state.encode_writes] nest_written [OF r.encode_writes]
        nest_written [OF flight_phase.encode_writes] kernel_bytes_def append_Nil append.assoc)
  show "kernel_ok ok_e ok_r s \<Longrightarrow> length (kernel_bytes bytes_e bytes_r s) = 832 + len_e + len_r"
    by (simp add: kernel_ok_def kernel_bytes_def kernel_checks.bytes_length actuator_state.bytes_length
        timing_stats.bytes_length e.bytes_length fallback_state.bytes_length r.bytes_length flight_phase.bytes_length)
next
  fix a b r' s'
  assume "kernel_ok ok_e ok_r a" "kernel_ok ok_e ok_r b"
  then have ok: "actuator_ok (ks_actuator_state a)" "fallback_ok (ks_fallback a)" "ok_e (ks_estimator a)" "ok_r (ks_controller a)"
    "actuator_ok (ks_actuator_state b)" "fallback_ok (ks_fallback b)" "ok_e (ks_estimator b)" "ok_r (ks_controller b)"
    by (simp_all add: kernel_ok_def)
  show "kernel_bytes bytes_e bytes_r a @ r' = kernel_bytes bytes_e bytes_r b @ s'
      \<longleftrightarrow> kernel_core core_e core_r a = kernel_core core_e core_r b \<and> r' = s'"
    unfolding kernel_bytes_def append.assoc
    by (simp only: init_state.bytes_prefix config_mode.bytes_prefix faults.bytes_prefix control_law.bytes_prefix
        terminal_cause.bytes_prefix kernel_checks.bytes_prefix actuator_state.bytes_prefix [OF ok(1,5)]
        timing_stats.bytes_prefix e.bytes_prefix [OF ok(3,7)] fallback_state.bytes_prefix [OF ok(2,6)]
        r.bytes_prefix [OF ok(4,8)] flight_phase.bytes_prefix kernel_core_def kernel_state.simps simp_thms)
      blast
qed

interpretation flown: kernel_parts encode_ekf ekf_bytes 995 ekf_ok ekf_core
  encode_multirotor multirotor_bytes 95 "\<lambda>_. True" "\<lambda>x. x"
  by unfold_locales


section \<open>The gate\<close>

text \<open>The first present peer that disagrees is on channel \<open>c\<close> and satisfies \<open>P\<close>.\<close>

definition first_disagreement ::
  "channel_snapshot \<Rightarrow> channel_snapshot option list \<Rightarrow> (channel_snapshot \<Rightarrow> bool) \<Rightarrow> channel_id \<Rightarrow> bool" where
  "first_disagreement l peers P c \<longleftrightarrow>
     (\<exists>ps p qs. peers = ps @ Some p # qs \<and> sn_channel p = c \<and> (\<forall>q. Some q \<in> set ps \<longrightarrow> agrees_with l q) \<and> P p)"

lemma first_disagreement_here: "P p \<Longrightarrow> first_disagreement l (Some p # ps) P (sn_channel p)"
  by (auto simp: first_disagreement_def intro!: exI [of _ "[]"])

lemma first_disagreement_later:
  assumes "first_disagreement l ps P c" "\<And>q. x = Some q \<Longrightarrow> agrees_with l q"
  shows "first_disagreement l (x # ps) P c"
proof -
  obtain ts p qs where "ps = ts @ Some p # qs" "sn_channel p = c" "\<forall>q. Some q \<in> set ts \<longrightarrow> agrees_with l q" "P p"
    using assms(1) by (auto simp: first_disagreement_def)
  then show ?thesis using assms(2) unfolding first_disagreement_def by (intro exI [of _ "x # ts"]) auto
qed

lemma inspect_peers_cases:
  "case inspect_peers l peers of
     Enter \<Rightarrow> \<forall>p. Some p \<in> set peers \<longrightarrow> agrees_with l p
   | RefuseHashMismatch c \<Rightarrow> first_disagreement l peers (\<lambda>p. sn_algorithm_hash p \<noteq> sn_algorithm_hash l) c
   | RefuseConfigMismatch c \<Rightarrow> first_disagreement l peers
       (\<lambda>p. sn_algorithm_hash p = sn_algorithm_hash l \<and> sn_config_hash p \<noteq> sn_config_hash l) c
   | RefuseStateMismatch c \<Rightarrow> first_disagreement l peers
       (\<lambda>p. sn_algorithm_hash p = sn_algorithm_hash l \<and> sn_config_hash p = sn_config_hash l
          \<and> sn_state_bytes p \<noteq> sn_state_bytes l) c
   | RefuseQuorum m n \<Rightarrow> False"
proof (induction l peers rule: inspect_peers.induct)
  case (2 l ps)
  then show ?case by (auto split: lockstep_decision.splits intro: first_disagreement_later)
next
  case (3 l p ps)
  show ?case
  proof (cases "agrees_with l p")
    case False
    then show ?thesis by (auto simp: agrees_with_def intro!: first_disagreement_here)
  next
    case True
    then show ?thesis using 3 by (auto simp: agrees_with_def split: lockstep_decision.splits intro: first_disagreement_later)
  qed
qed simp

lemma full_projection:
  assumes "kernel_ok ekf_ok (\<lambda>_. True) s" "length buf = 1922"
  shows "sn_state_bytes (project_for_cross_channel encode_ekf encode_multirotor alg cfg s seq ch buf)
    = kernel_bytes ekf_bytes multirotor_bytes s"
  using flown.kernel.full_buffer [OF assms(1), of buf] assms(2) flown.kernel.bytes_length [OF assms(1)]
  by (simp add: project_for_cross_channel_def)

lemma projection_length:
  assumes "kernel_ok ekf_ok (\<lambda>_. True) s"
  shows "length (sn_state_bytes (project_for_cross_channel encode_ekf encode_multirotor alg cfg s seq ch buf)) = min (length buf) 1922"
  using flown.kernel.count [OF assms, of buf] flown.kernel.keeps_length [of s buf]
  by (simp add: project_for_cross_channel_def split_beta)

lemma projection_fields [simp]:
  "sn_algorithm_hash (project_for_cross_channel ee er alg cfg s seq ch buf) = alg"
  "sn_config_hash (project_for_cross_channel ee er alg cfg s seq ch buf) = canonical_hash cfg"
  "sn_channel (project_for_cross_channel ee er alg cfg s seq ch buf) = ch"
  by (simp_all add: project_for_cross_channel_def split_beta)

lemma start_ok: "ekf_ok e \<Longrightarrow> kernel_ok ekf_ok (\<lambda>_. True) (kernel_state_new e r c)"
  by (simp add: kernel_ok_def kernel_state_new_def actuator_ok_def actuator_state_default_def fallback_ok_def
      actuator_fallback_state_default_def group_vector_ok_def group_vector_default_def list_all_iff)

section \<open>Properties\<close>

text \<open>C31: The lockstep gate. It answers \<open>RefuseQuorum\<close> exactly when fewer peers than the quorum are present,
  whatever they say; otherwise it enters exactly when every present peer agrees with the local snapshot, and
  refuses naming the first present peer that does not, for the algorithm before the configuration before the
  state.\<close>

theorem lockstep_gate_exact:
  "let n = length (filter (\<lambda>p. p \<noteq> None) peers)
   in (case decide_lockstep l peers quorum of
     Enter \<Rightarrow> quorum \<le> n \<and> (\<forall>p. Some p \<in> set peers \<longrightarrow> agrees_with l p)
   | RefuseHashMismatch c \<Rightarrow> quorum \<le> n \<and> first_disagreement l peers (\<lambda>p. sn_algorithm_hash p \<noteq> sn_algorithm_hash l) c
   | RefuseConfigMismatch c \<Rightarrow> quorum \<le> n \<and> first_disagreement l peers
       (\<lambda>p. sn_algorithm_hash p = sn_algorithm_hash l \<and> sn_config_hash p \<noteq> sn_config_hash l) c
   | RefuseStateMismatch c \<Rightarrow> quorum \<le> n \<and> first_disagreement l peers
       (\<lambda>p. sn_algorithm_hash p = sn_algorithm_hash l \<and> sn_config_hash p = sn_config_hash l
          \<and> sn_state_bytes p \<noteq> sn_state_bytes l) c
   | RefuseQuorum a b \<Rightarrow> a = n \<and> b = quorum \<and> n < quorum)"
  using inspect_peers_cases [where l = l and peers = peers]
  by (auto simp: decide_lockstep_def Let_def split: lockstep_decision.splits)

definition quiet_snapshot :: channel_snapshot where
  "quiet_snapshot = \<lparr>sn_channel = 0, sn_cycle_seq = 0, sn_algorithm_hash = 1, sn_config_hash = 2, sn_state_bytes = [3]\<rparr>"

theorem lockstep_gate_exact_witness:
  "agrees_with quiet_snapshot quiet_snapshot
   \<and> decide_lockstep quiet_snapshot [None, Some quiet_snapshot] 1 = Enter"
proof -
  have d: "decide_lockstep quiet_snapshot [None, Some quiet_snapshot] 1 = Enter"
    by (simp add: decide_lockstep_def quiet_snapshot_def)
  show ?thesis using lockstep_gate_exact [where peers = "[None, Some quiet_snapshot]" and l = quiet_snapshot and quorum = 1]
    unfolding d by simp
qed

text \<open>C30: What agreement of two flying channels pins down. Two kernels with this filter and the multirotor
  controller, projected into full buffers of 1922 bytes, agree exactly when their algorithm and configuration
  hashes are equal and their whole states are, lifecycle, faults, law, checks, actuators, timing, fallback
  memory, controller memory and flight phase, with the filters equal in all but the three aiding ages. A
  channel with a shorter buffer never agrees with a full one.\<close>

theorem agreement_pins_state:
  assumes "kernel_ok ekf_ok (\<lambda>_. True) a" "kernel_ok ekf_ok (\<lambda>_. True) b" "length buf_b = 1922"
  shows "agrees_with (project_for_cross_channel encode_ekf encode_multirotor alg_a cfg_a a seq_a ch_a buf_a)
      (project_for_cross_channel encode_ekf encode_multirotor alg_b cfg_b b seq_b ch_b buf_b)
    \<longleftrightarrow> 1922 \<le> length buf_a \<and> alg_a = alg_b \<and> canonical_hash cfg_a = canonical_hash cfg_b
      \<and> a\<lparr>ks_estimator := ekf_core (ks_estimator a)\<rparr> = b\<lparr>ks_estimator := ekf_core (ks_estimator b)\<rparr>"
proof -
  let ?pa = "project_for_cross_channel encode_ekf encode_multirotor alg_a cfg_a a seq_a ch_a buf_a"
  let ?pb = "project_for_cross_channel encode_ekf encode_multirotor alg_b cfg_b b seq_b ch_b buf_b"
  have core: "kernel_core ekf_core (\<lambda>x. x) s = s\<lparr>ks_estimator := ekf_core (ks_estimator s)\<rparr>" for s :: "(ekf_state, multirotor_runtime_state) kernel_state"
    by (simp add: kernel_core_def)
  have lens: "length (sn_state_bytes ?pa) = min (length buf_a) 1922" "length (sn_state_bytes ?pb) = 1922"
    using projection_length [OF assms(1)] projection_length [OF assms(2)] assms(3) by simp_all
  show ?thesis
  proof (cases "1922 \<le> length buf_a")
    case False
    then show ?thesis using lens by (simp add: agrees_with_def)
  next
    case True
    have "sn_state_bytes ?pa = kernel_bytes ekf_bytes multirotor_bytes a"
      using True writesD [OF flown.kernel.encode_writes, of a buf_a] flown.kernel.bytes_length [OF assms(1)]
      by (simp add: project_for_cross_channel_def written_def)
    then show ?thesis
      using True flown.kernel.bytes_inj [OF assms(1,2)] full_projection [OF assms(2,3)]
      by (auto simp: agrees_with_def core)
  qed
qed

theorem agreement_pins_state_witness:
  "agrees_with (project_for_cross_channel encode_ekf encode_multirotor 1 resolved_config_default
       (kernel_state_new ekf_new multirotor_runtime_default kernel_checks_new) 5 0 (replicate 1922 0))
     (project_for_cross_channel encode_ekf encode_multirotor 1 resolved_config_default
       (kernel_state_new (ekf_new\<lparr>ek_baro_age_s := f0\<rparr>) multirotor_runtime_default kernel_checks_new) 9 1 (replicate 1922 0))"
proof -
  have ok: "ekf_ok ekf_new" "ekf_ok (ekf_new\<lparr>ek_baro_age_s := f0\<rparr>)"
    by (simp_all add: ekf_ok_def ekf_new_def initial_covariance_keeps)
  show ?thesis
    by (subst agreement_pins_state [OF start_ok [OF ok(1)] start_ok [OF ok(2)]])
      (simp_all add: kernel_state_new_def ekf_core_def ekf_new_def)
qed

definition aided_filter :: ekf_state where
  "aided_filter = (ekf_init (f0, f0, f0) (f0, f0, f0) quat_identity ekf_new)\<lparr>ek_gnss_pos_age_s := f0, ek_gnss_vel_age_s := f0, ek_baro_age_s := f0\<rparr>"

lemma initial_diagonal:
  assumes "i < 9" shows "mat_get initial_covariance i i = 0x3DCCCCCD"
proof -
  have v: "f32_mul f1 (f32_lit 1 10) = 0x3DCCCCCD" by code_simp
  have d: "mat_dim 15 15 (mul_scalar 15 15 (mat_identity 15) x)" for x by simp
  have g: "mat_get (mat_set k k x m) i i = mat_get m i i" if "mat_dim 15 15 m" "9 \<le> k" "k < 15" for k x m
    using assms that by (simp add: mat_get_set [OF that(1,3,3)])
  show ?thesis unfolding initial_covariance_def upt3 STATE_DIM_15 IDX_values
    using assms by (simp add: g mat_dim_set) (simp add: mul_scalar_def v)
qed

lemma initial_bounded:
  "f32_lt (fold (\<lambda>i m. f32_max m (mat_get initial_covariance (IDX_POS + i) (IDX_POS + i))) [0..<3] f32_MIN) POSITION_COV_BOUND_M2"
  "f32_lt (fold (\<lambda>i m. f32_max m (mat_get initial_covariance (IDX_VEL + i) (IDX_VEL + i))) [0..<3] f32_MIN) VELOCITY_COV_BOUND_M2S2"
proof -
  have "f32_lt (f32_max (f32_max (f32_max f32_MIN 0x3DCCCCCD) 0x3DCCCCCD) 0x3DCCCCCD) POSITION_COV_BOUND_M2"
    "f32_lt (f32_max (f32_max (f32_max f32_MIN 0x3DCCCCCD) 0x3DCCCCCD) 0x3DCCCCCD) VELOCITY_COV_BOUND_M2S2"
    by code_simp+
  then show "f32_lt (fold (\<lambda>i m. f32_max m (mat_get initial_covariance (IDX_POS + i) (IDX_POS + i))) [0..<3] f32_MIN) POSITION_COV_BOUND_M2"
    "f32_lt (fold (\<lambda>i m. f32_max m (mat_get initial_covariance (IDX_VEL + i) (IDX_VEL + i))) [0..<3] f32_MIN) VELOCITY_COV_BOUND_M2S2"
    by (simp_all add: upt3 IDX_values initial_diagonal)
qed

lemma age_limits:
  "f32_le f0 GNSS_POS_AIDING_TIMEOUT_S" "f32_le f0 GNSS_VEL_AIDING_TIMEOUT_S" "f32_le f0 BARO_AIDING_TIMEOUT_S"
  "\<not> f32_le AGE_SATURATION_S GNSS_POS_AIDING_TIMEOUT_S"
  by code_simp+

text \<open>The gate does not see the aiding. Two channels that differ only in how long ago their filters were last
  aided enter lockstep, although one of them reports a valid position and velocity with good quality and the
  other reports neither: the encoding leaves out fields on which the published validity depends.\<close>

lemma lockstep_blind_to_aiding:
  "let a = kernel_state_new aided_filter multirotor_runtime_default kernel_checks_new;
       b = kernel_state_new (ekf_init (f0, f0, f0) (f0, f0, f0) quat_identity ekf_new) multirotor_runtime_default kernel_checks_new
   in check_lockstep_agreement encode_ekf encode_multirotor alg cfg a seq ch (replicate 1922 0)
        [Some (project_for_cross_channel encode_ekf encode_multirotor alg cfg b seq' ch' (replicate 1922 0))] 1 = Enter
      \<and> quality (get_estimate (ks_estimator a)) = GoodQuality \<and> quality (get_estimate (ks_estimator b)) = DegradedQuality"
proof -
  let ?i = "ekf_init (f0, f0, f0) (f0, f0, f0) quat_identity ekf_new"
  define a b where "a = kernel_state_new aided_filter multirotor_runtime_default kernel_checks_new"
    and "b = kernel_state_new ?i multirotor_runtime_default kernel_checks_new"
  have ok: "ekf_ok aided_filter" "ekf_ok ?i"
    by (simp_all add: ekf_ok_def aided_filter_def ekf_init_def initial_covariance_keeps)
  have "kernel_bytes ekf_bytes multirotor_bytes a = kernel_bytes ekf_bytes multirotor_bytes b"
    by (subst flown.kernel.bytes_inj)
      (simp_all add: a_def b_def start_ok ok, simp add: kernel_core_def kernel_state_new_def aided_filter_def ekf_core_def ekf_init_def)
  then have "check_lockstep_agreement encode_ekf encode_multirotor alg cfg a seq ch (replicate 1922 0)
        [Some (project_for_cross_channel encode_ekf encode_multirotor alg cfg b seq' ch' (replicate 1922 0))] 1 = Enter"
    by (simp add: check_lockstep_agreement_def decide_lockstep_def full_projection a_def b_def start_ok ok)
  moreover have "quality (get_estimate aided_filter) = GoodQuality" "quality (get_estimate ?i) = DegradedQuality"
    using initial_bounded age_limits
    by (simp_all add: get_estimate_def Let_def aided_filter_def ekf_init_def vec3_finite_def max_block_variance_def)
  ultimately show ?thesis by (simp add: a_def b_def kernel_state_new_def Let_def)
qed

end
