(* ===== verification/Seqlock.thy ===== *)
theory Seqlock
  imports Prelude
begin

text \<open>
  The sequence lock over the shared blocks (\<open>contract/src/seqlock.rs\<close>), as interleaved atomic steps of one
  writer and one reader.

  A block is the sequence word and the payload lanes. \<open>seqlock_write\<close> is \<open>enter\<close> (the first \<open>fetch_add\<close>), one
  \<open>store\<close> for each lane the closure writes, and \<open>leave\<close> (the second \<open>fetch_add\<close>); a crashed writer is one that
  takes no more steps. \<open>seqlock_read\<close> is the automaton \<open>read_step\<close>: one load of the sequence word, one load for
  each lane in the order of the closure, one load to compare; \<open>call\<close> starts a new read at any time. The acquire and release operations of the source
  order every access to the lanes between the accesses to the sequence word that surround it, which is the
  interleaving here; reorderings a machine could make without them are not modelled. \<open>sl_published\<close> is a history
  variable: the payloads that were current so far, the oldest first.
\<close>

section \<open>The protocol\<close>

type_synonym payload = "u64 list"

type_synonym lane_store = "nat \<times> u64"

definition SEQLOCK_MAX_RETRIES :: nat where
  "SEQLOCK_MAX_RETRIES = 16"

record seq_block =
  sb_seq :: u32
  sb_lanes :: payload

datatype reader = Poll nat | Copy nat u32 payload | Returned "payload option"

definition seqlock_read :: reader where
  "seqlock_read = Poll SEQLOCK_MAX_RETRIES"

fun read_step :: "nat list \<Rightarrow> seq_block \<Rightarrow> reader \<Rightarrow> reader" where
  "read_step order b (Poll 0) = Returned None"
| "read_step order b (Poll (Suc k)) =
     (let s1 = sb_seq b in if s1 AND 1 \<noteq> 0 then Poll k else Copy k s1 [])"
| "read_step order b (Copy k s1 copied) =
     (if length copied < length order
      then Copy k s1 (copied @ [sb_lanes b ! (order ! length copied)])
      else if s1 = sb_seq b then Returned (Some copied) else Poll k)"
| "read_step order b (Returned r) = Returned r"

datatype writer = Quiet | Writing "lane_store list"

record seqlock =
  sl_block :: seq_block
  sl_writer :: writer
  sl_reader :: reader
  sl_published :: "payload list"

definition advance_seq :: "seq_block \<Rightarrow> seq_block" where
  "advance_seq b = b\<lparr>sb_seq := sb_seq b + 1\<rparr>"

definition store_lane :: "lane_store \<Rightarrow> seq_block \<Rightarrow> seq_block" where
  "store_lane iv b = b\<lparr>sb_lanes := (sb_lanes b)[fst iv := snd iv]\<rparr>"

inductive seqlock_step :: "nat list \<Rightarrow> (lane_store list \<Rightarrow> bool) \<Rightarrow> seqlock \<Rightarrow> seqlock \<Rightarrow> bool"
  for order :: "nat list" and allowed :: "lane_store list \<Rightarrow> bool" where
  enter: "sl_writer c = Quiet \<Longrightarrow> allowed ws
    \<Longrightarrow> seqlock_step order allowed c (c\<lparr>sl_block := advance_seq (sl_block c), sl_writer := Writing ws\<rparr>)"
| store: "sl_writer c = Writing (w # ws)
    \<Longrightarrow> seqlock_step order allowed c (c\<lparr>sl_block := store_lane w (sl_block c), sl_writer := Writing ws\<rparr>)"
| leave: "sl_writer c = Writing []
    \<Longrightarrow> seqlock_step order allowed c (c\<lparr>sl_block := advance_seq (sl_block c), sl_writer := Quiet,
          sl_published := sl_published c @ [sb_lanes (sl_block c)]\<rparr>)"
| read: "seqlock_step order allowed c (c\<lparr>sl_reader := read_step order (sl_block c) (sl_reader c)\<rparr>)"
| call: "seqlock_step order allowed c (c\<lparr>sl_reader := seqlock_read\<rparr>)"

inductive_cases seqlock_stepE: "seqlock_step order allowed c c'"

definition seqlock_start :: "payload \<Rightarrow> seqlock" where
  "seqlock_start lanes = \<lparr>sl_block = \<lparr>sb_seq = 0, sb_lanes = lanes\<rparr>, sl_writer = Quiet,
     sl_reader = Returned None, sl_published = [lanes]\<rparr>"

definition seqlock_reachable :: "nat list \<Rightarrow> (lane_store list \<Rightarrow> bool) \<Rightarrow> payload \<Rightarrow> seqlock \<Rightarrow> bool" where
  "seqlock_reachable order allowed lanes c \<longleftrightarrow> (seqlock_step order allowed)\<^sup>*\<^sup>* (seqlock_start lanes) c"

section \<open>The writer's side\<close>

text \<open>How often the sequence word has been advanced.\<close>

definition advances :: "seqlock \<Rightarrow> nat" where
  "advances c = 2 * (length (sl_published c) - 1) + (if sl_writer c = Quiet then 0 else 1)"

definition writer_ok :: "seqlock \<Rightarrow> bool" where
  "writer_ok c \<longleftrightarrow> sl_published c \<noteq> [] \<and> sb_seq (sl_block c) = of_nat (advances c)
     \<and> (sl_writer c = Quiet \<longrightarrow> sb_lanes (sl_block c) = last (sl_published c))"

text \<open>The steps that advance the word, and what a step leaves of the writer's state.\<close>

lemma advances_step:
  assumes "seqlock_step order allowed c c'" "sl_published c \<noteq> []"
  shows "advances c' \<le> Suc (advances c) \<and> advances c \<le> advances c'
    \<and> (\<exists>ps. sl_published c' = sl_published c @ ps)
    \<and> sb_seq (sl_block c') = sb_seq (sl_block c) + of_nat (advances c' - advances c)"
  using assms
  by (cases "sl_published c") (auto elim!: seqlock_stepE simp: advances_def advance_seq_def store_lane_def)

lemma writer_ok_step:
  assumes "seqlock_step order allowed c c'" "writer_ok c" shows "writer_ok c'"
proof -
  have ne: "sl_published c \<noteq> []" using assms(2) by (simp add: writer_ok_def)
  have "sl_writer c' = Quiet \<Longrightarrow> sb_lanes (sl_block c') = last (sl_published c')"
    using assms by (auto elim!: seqlock_stepE simp: writer_ok_def advance_seq_def)
  then show ?thesis using advances_step [OF assms(1) ne] assms(2)
    by (auto simp: writer_ok_def of_nat_diff)
qed

lemma writer_ok_start: "writer_ok (seqlock_start lanes)"
  by (simp add: writer_ok_def seqlock_start_def advances_def)

lemma writer_ok_reachable: "seqlock_reachable order allowed lanes c \<Longrightarrow> writer_ok c"
  unfolding seqlock_reachable_def
  by (induction rule: rtranclp_induct) (use writer_ok_start writer_ok_step in blast)+

lemma even_advances: "of_nat (advances c) AND 1 = (0::u32) \<longleftrightarrow> sl_writer c = Quiet"
  by (simp add: and_one_eq mod_2_eq_odd advances_def)

lemma advances_eq:
  assumes "of_nat a = (of_nat b :: u32)" "a \<le> b" "b < a + 2 ^ 32" shows "a = b"
proof -
  have "of_nat (b - a) = (0::u32)" using assms(1,2) by (simp add: of_nat_diff)
  then have "2 ^ 32 dvd b - a" by (simp add: word_of_nat_eq_0_iff)
  then show ?thesis using assms(2,3) by (auto dest: dvd_imp_le)
qed

text \<open>What the writer does between two states of a run.\<close>

definition later :: "nat \<Rightarrow> seqlock \<Rightarrow> seqlock \<Rightarrow> bool" where
  "later n c c' \<longleftrightarrow> advances c \<le> advances c' \<and> advances c' \<le> advances c + n
     \<and> (\<exists>ps. sl_published c' = sl_published c @ ps)"

lemma later_refl: "later 0 c c"
  by (simp add: later_def)

lemma later_step: "seqlock_step order allowed c c' \<Longrightarrow> writer_ok c \<Longrightarrow> later 1 c c'"
  using advances_step [of order allowed c c'] by (auto simp: later_def writer_ok_def)

lemma later_trans: "later m a b \<Longrightarrow> later n b c \<Longrightarrow> later (m + n) a c"
  by (auto simp: later_def)

section \<open>The reader's side\<close>

text \<open>
  The reader in a state \<open>c\<close> of a run from \<open>c0\<close>: the payload it is copying is the \<open>j\<close>-th, unless the writer has
  moved on, and then the sequence word tells it.
\<close>

definition payload_at :: "seqlock \<Rightarrow> nat \<Rightarrow> nat list \<Rightarrow> payload" where
  "payload_at c j order = map (\<lambda>i. sl_published c ! j ! i) order"

definition reader_ok :: "nat list \<Rightarrow> nat \<Rightarrow> seqlock \<Rightarrow> bool" where
  "reader_ok order a c \<longleftrightarrow>
     (case sl_reader c of
        Poll k \<Rightarrow> True
      | Copy k s1 copied \<Rightarrow>
          length copied \<le> length order
          \<and> (\<exists>j. a \<le> 2 * j \<and> 2 * j \<le> advances c \<and> s1 = of_nat (2 * j)
              \<and> (advances c = 2 * j \<longrightarrow> copied = payload_at c j (take (length copied) order)))
      | Returned None \<Rightarrow> True
      | Returned (Some snap) \<Rightarrow> \<exists>j. a \<le> 2 * j \<and> 2 * j \<le> advances c \<and> snap = payload_at c j order)"

lemma reader_frame [simp]:
  "advances (c\<lparr>sl_reader := r\<rparr>) = advances c" "payload_at (c\<lparr>sl_reader := r\<rparr>) j xs = payload_at c j xs"
  by (simp_all add: advances_def payload_at_def)

lemma published_index: "sl_published c \<noteq> [] \<Longrightarrow> 2 * j \<le> advances c \<Longrightarrow> j < length (sl_published c)"
  by (auto simp: advances_def split: if_splits) (cases "sl_published c"; simp)+

lemma payload_at_later:
  "sl_published c \<noteq> [] \<Longrightarrow> 2 * j \<le> advances c \<Longrightarrow> later n c c' \<Longrightarrow> payload_at c' j order = payload_at c j order"
  using published_index [of c j] by (auto simp: payload_at_def later_def nth_append)

lemma quiet_lanes:
  "writer_ok c \<Longrightarrow> advances c = 2 * j \<Longrightarrow> sb_lanes (sl_block c) = sl_published c ! j"
  by (auto simp: writer_ok_def advances_def last_conv_nth split: if_splits) presburger

lemma reader_ok_writer:
  assumes "writer_ok c" "reader_ok order a c" "later n c c'" "sl_reader c' = sl_reader c"
  shows "reader_ok order a c'"
proof -
  have ne: "sl_published c \<noteq> []" using assms(1) by (simp add: writer_ok_def)
  note p = payload_at_later [OF ne _ assms(3)]
  have le: "advances c \<le> advances c'" using assms(3) by (simp add: later_def)
  show ?thesis
  proof (cases "sl_reader c")
    case (Copy k s1 copied)
    then obtain j where j: "length copied \<le> length order" "a \<le> 2 * j" "2 * j \<le> advances c" "s1 = of_nat (2 * j)"
        "advances c = 2 * j \<longrightarrow> copied = payload_at c j (take (length copied) order)"
      using assms(2) by (auto simp: reader_ok_def)
    then show ?thesis using Copy assms(4) le p [OF j(3)]
      by (auto simp: reader_ok_def intro!: exI [of _ j])
  next
    case (Returned r)
    then show ?thesis using assms(2,4) le p
      by (cases r) (fastforce simp: reader_ok_def)+
  qed (use assms(4) in \<open>simp add: reader_ok_def\<close>)
qed

lemma reader_ok_read:
  assumes ok: "writer_ok c" and r: "reader_ok order a c" and a: "a \<le> advances c" "advances c < a + 2 ^ 32"
    and c': "c' = c\<lparr>sl_reader := read_step order (sl_block c) (sl_reader c)\<rparr>"
  shows "reader_ok order a c'"
proof -
  have seq: "sb_seq (sl_block c) = of_nat (advances c)" using ok by (simp add: writer_ok_def)
  show ?thesis
  proof (cases "sl_reader c")
    case (Poll k)
    show ?thesis
    proof (cases k)
      case (Suc m)
      show ?thesis
      proof (cases "sl_writer c = Quiet")
        case True
        then have "advances c = 2 * (length (sl_published c) - 1)" by (simp add: advances_def)
        then show ?thesis using a Poll Suc True even_advances [of c]
          by (auto simp: reader_ok_def c' seq payload_at_def intro!: exI [of _ "length (sl_published c) - 1"])
      next
        case False
        then show ?thesis using Poll Suc even_advances [of c] by (simp add: c' seq reader_ok_def)
      qed
    qed (use Poll in \<open>simp add: c' reader_ok_def\<close>)
  next
    case (Copy k s1 copied)
    then obtain j where j: "length copied \<le> length order" "a \<le> 2 * j" "2 * j \<le> advances c" "s1 = of_nat (2 * j)"
        "advances c = 2 * j \<longrightarrow> copied = payload_at c j (take (length copied) order)"
      using r by (auto simp: reader_ok_def)
    show ?thesis
    proof (cases "length copied < length order")
      case True
      then show ?thesis using j Copy quiet_lanes [OF ok, of j]
        by (auto simp: reader_ok_def c' payload_at_def take_Suc_conv_app_nth intro!: exI [of _ j])
    next
      case False
      have eq: "s1 = sb_seq (sl_block c) \<Longrightarrow> 2 * j = advances c"
        using advances_eq [of "2 * j" "advances c"] j(2,3,4) a seq by simp
      then show ?thesis using j Copy False
        by (auto simp: reader_ok_def c' payload_at_def intro!: exI [of _ j])
    qed
  next
    case (Returned x)
    then show ?thesis using r by (cases x) (auto simp: reader_ok_def c')
  qed
qed

section \<open>Runs\<close>

lemma reader_ok_step:
  assumes "seqlock_step order allowed c c'" "writer_ok c" "reader_ok order a c" "a \<le> advances c" "advances c < a + 2 ^ 32"
  shows "reader_ok order a c'"
  using assms(1)
proof (cases rule: seqlock_step.cases)
  case read
  then show ?thesis using reader_ok_read [OF assms(2-5)] by blast
next
  case call
  then show ?thesis by (simp add: reader_ok_def seqlock_read_def)
qed (rule reader_ok_writer [OF assms(2,3) later_step [OF assms(1,2)]], simp)+

lemma seqlock_run:
  assumes "(seqlock_step order allowed ^^ n) c c'" "writer_ok c" "reader_ok order (advances c) c" "n < 2 ^ 32"
  shows "writer_ok c' \<and> later n c c' \<and> reader_ok order (advances c) c'"
  using assms
proof (induction n arbitrary: c')
  case 0
  then show ?case by (simp add: later_refl)
next
  case (Suc n)
  obtain d where d: "(seqlock_step order allowed ^^ n) c d" "seqlock_step order allowed d c'"
    using Suc.prems(1) by (rule relpowp_Suc_E)
  have ih: "writer_ok d" "later n c d" "reader_ok order (advances c) d"
    using Suc.IH [OF d(1) Suc.prems(2,3)] Suc.prems(4) by simp_all
  have "advances c \<le> advances d" "advances d < advances c + 2 ^ 32"
    using ih(2) Suc.prems(4) by (simp_all add: later_def)
  then show ?case
    using writer_ok_step [OF d(2) ih(1)] reader_ok_step [OF d(2) ih(1,3)] later_trans [OF ih(2) later_step [OF d(2) ih(1)]]
    by simp
qed

section \<open>Reads of a fixed block\<close>

lemma read_steps_run:
  "(seqlock_step order allowed ^^ n) c (c\<lparr>sl_reader := (read_step order (sl_block c) ^^ n) (sl_reader c)\<rparr>)"
proof (induction n)
  case (Suc n)
  let ?d = "c\<lparr>sl_reader := (read_step order (sl_block c) ^^ n) (sl_reader c)\<rparr>"
  have "seqlock_step order allowed ?d (?d\<lparr>sl_reader := read_step order (sl_block ?d) (sl_reader ?d)\<rparr>)"
    by (rule read)
  then have "seqlock_step order allowed ?d (c\<lparr>sl_reader := (read_step order (sl_block c) ^^ Suc n) (sl_reader c)\<rparr>)"
    by simp
  with Suc.IH show ?case by (rule relpowp_Suc_I)
qed simp

text \<open>How many steps a read still has at most.\<close>

fun read_fuel :: "nat list \<Rightarrow> reader \<Rightarrow> nat" where
  "read_fuel order (Poll k) = Suc (k * (length order + 2))"
| "read_fuel order (Copy k s1 copied) = Suc (k * (length order + 2)) + Suc (length order - length copied)"
| "read_fuel order (Returned r) = 0"

lemma read_step_fuel: "read_fuel order r \<noteq> 0 \<Longrightarrow> read_fuel order (read_step order b r) < read_fuel order r"
  by (cases "(order, b, r)" rule: read_step.cases) (auto simp: Let_def)

lemma reads_return:
  "read_fuel order r \<le> length blocks \<Longrightarrow> \<exists>res. fold (read_step order) blocks r = Returned res"
proof (induction blocks arbitrary: r)
  case Nil
  then show ?case by (cases r) simp_all
next
  case (Cons b bs)
  have "read_fuel order (read_step order b r) \<le> length bs"
  proof (cases "read_fuel order r = 0")
    case True
    then show ?thesis by (cases r) simp_all
  next
    case False
    then show ?thesis using read_step_fuel [of order r b] Cons.prems by simp
  qed
  then show ?case using Cons.IH by simp
qed

lemma copy_fixed:
  assumes "copied = map ((!) (sb_lanes b)) (take m order)" "m \<le> length order"
  shows "(read_step order b ^^ Suc (length order - m)) (Copy k (sb_seq b) copied)
    = Returned (Some (map ((!) (sb_lanes b)) order))"
  using assms
proof (induction "length order - m" arbitrary: m copied)
  case 0
  then show ?case by simp
next
  case (Suc d)
  then have m: "m < length order" "length order - m = Suc (length order - Suc m)" by simp_all
  have "read_step order b (Copy k (sb_seq b) copied) = Copy k (sb_seq b) (map ((!) (sb_lanes b)) (take (Suc m) order))"
    using m(1) Suc.prems by (simp add: take_Suc_conv_app_nth)
  then show ?case using Suc.hyps(1) [of "Suc m"] Suc.hyps(2) m
    by (simp add: funpow_swap1 del: read_step.simps)
qed

lemma poll_quiet:
  assumes "sb_seq b AND 1 = 0"
  shows "(read_step order b ^^ (length order + 2)) (Poll (Suc k)) = Returned (Some (map ((!) (sb_lanes b)) order))"
  using copy_fixed [of "[]" b 0 order k] assms by (simp add: funpow_swap1)

lemma returned_stays: "(read_step order b ^^ n) (Returned r) = Returned r"
  by (induction n) simp_all

lemma poll_stuck: "sb_seq b AND 1 \<noteq> 0 \<Longrightarrow> (read_step order b ^^ Suc k) (Poll k) = Returned None"
  by (induction k) (simp_all add: funpow_Suc_right o_def del: funpow.simps(2))

section \<open>Publications\<close>

text \<open>What the stores of a closure make of the lanes.\<close>

definition stored :: "lane_store list \<Rightarrow> payload \<Rightarrow> payload" where
  "stored ws lanes = fold (\<lambda>w l. l[fst w := snd w]) ws lanes"

lemma stored_simps [simp]: "stored [] l = l" "stored (w # ws) l = stored ws (l[fst w := snd w])"
  by (simp_all add: stored_def)

lemma stored_length [simp]: "length (stored ws l) = length l"
  by (induction ws arbitrary: l) simp_all

text \<open>
  What a reader can rely on, given what every closure of the writer makes of the lanes: the contract of the two
  blocks that are published this way.
\<close>

locale publications =
  fixes allowed :: "lane_store list \<Rightarrow> bool" and good :: "payload \<Rightarrow> bool" and initial :: payload
  assumes initial_good: "good initial"
    and closure_good: "allowed ws \<Longrightarrow> good lanes \<Longrightarrow> good (stored ws lanes)"
begin

definition good_run :: "seqlock \<Rightarrow> bool" where
  "good_run c \<longleftrightarrow> writer_ok c \<and> list_all good (sl_published c)
     \<and> (\<forall>ws. sl_writer c = Writing ws \<longrightarrow> good (stored ws (sb_lanes (sl_block c))))"

lemma good_run_step: "seqlock_step order allowed c c' \<Longrightarrow> good_run c \<Longrightarrow> good_run c'"
proof -
  assume s: "seqlock_step order allowed c c'" and g: "good_run c"
  have "writer_ok c'" using writer_ok_step [OF s] g by (simp add: good_run_def)
  moreover have "good (sb_lanes (sl_block c))" if "sl_writer c = Quiet"
    using g that by (auto simp: good_run_def writer_ok_def list_all_iff)
  ultimately show ?thesis using s g
    by (auto elim!: seqlock_stepE simp: good_run_def advance_seq_def store_lane_def closure_good)
qed

lemma good_run_reachable: "seqlock_reachable order allowed initial c \<Longrightarrow> good_run c"
  unfolding seqlock_reachable_def
proof (induction rule: rtranclp_induct)
  case base
  then show ?case using writer_ok_start by (simp add: good_run_def seqlock_start_def initial_good)
qed (rule good_run_step)

lemma good_run_steps: "(seqlock_step order allowed ^^ n) c c' \<Longrightarrow> good_run c \<Longrightarrow> good_run c'"
  by (induction n arbitrary: c') (auto elim!: relpowp_Suc_E intro: good_run_step simp del: relpowp.simps(2))

lemma reads_good:
  assumes "seqlock_reachable order allowed initial c" "sl_reader c = seqlock_read"
    and "(seqlock_step order allowed ^^ n) c c'" "n < 2 ^ 32" "sl_reader c' = Returned (Some snap)"
  shows "\<exists>p. good p \<and> snap = map ((!) p) order"
proof -
  have g: "good_run c" "good_run c'" using good_run_reachable [OF assms(1)] good_run_steps [OF assms(3)] by simp_all
  have "reader_ok order (advances c) c" using assms(2) by (simp add: reader_ok_def seqlock_read_def)
  then have "reader_ok order (advances c) c'"
    using seqlock_run [OF assms(3) _ _ assms(4)] g(1) by (simp add: good_run_def)
  then obtain j where j: "2 * j \<le> advances c'" "snap = payload_at c' j order"
    using assms(5) by (auto simp: reader_ok_def)
  have "j < length (sl_published c')" using g(2) j(1) by (intro published_index) (simp_all add: good_run_def writer_ok_def)
  then have "good (sl_published c' ! j)" using g(2) by (simp add: good_run_def list_all_length)
  then show ?thesis using j(2) by (auto simp: payload_at_def)
qed

end

section \<open>Properties\<close>

text \<open>C35: A read is linearizable. From any reachable state in which a read starts, and over any interleaving of
  fewer than \<open>2^32\<close> steps of writer and reader: if the read has returned a snapshot, then every lane of it comes
  from one and the same payload, and that payload was the current one at some moment since the read started.
  Whatever the closures store and in whatever order the lanes are copied, no torn and no outdated snapshot
  escapes; the bound keeps the sequence word from wrapping around under the read.\<close>

theorem seqlock_read_linearizable:
  assumes "seqlock_reachable order allowed lanes c" "sl_reader c = seqlock_read"
    and "(seqlock_step order allowed ^^ n) c c'" "n < 2 ^ 32" "sl_reader c' = Returned (Some snap)"
  shows "\<exists>j. length (sl_published c) \<le> Suc j \<and> j < length (sl_published c')
    \<and> snap = map (\<lambda>i. sl_published c' ! j ! i) order"
proof -
  note w = writer_ok_reachable [OF assms(1)]
  have "reader_ok order (advances c) c" using assms(2) by (simp add: reader_ok_def seqlock_read_def)
  from seqlock_run [OF assms(3) w this assms(4)] have r: "writer_ok c'" "reader_ok order (advances c) c'" by simp_all
  then obtain j where j: "advances c \<le> 2 * j" "2 * j \<le> advances c'" "snap = payload_at c' j order"
    using assms(5) by (auto simp: reader_ok_def)
  have "j < length (sl_published c')" using r(1) j(2) by (intro published_index) (simp_all add: writer_ok_def)
  moreover have "length (sl_published c) \<le> Suc j" using j(1) by (simp add: advances_def)
  ultimately show ?thesis using j(3) by (auto simp: payload_at_def)
qed

theorem seqlock_read_linearizable_witness:
  "\<exists>c'. (seqlock_step [1, 0] (\<lambda>_. True) ^^ 4) ((seqlock_start [5, 6])\<lparr>sl_reader := seqlock_read\<rparr>) c'
    \<and> sl_reader c' = Returned (Some [6, 5]) \<and> (\<exists>j < length (sl_published c'). [6, 5] = map ((!) (sl_published c' ! j)) [1, 0])"
proof -
  let ?c = "(seqlock_start [5, 6])\<lparr>sl_reader := seqlock_read\<rparr>"
  let ?d = "?c\<lparr>sl_reader := (read_step [1, 0] (sl_block ?c) ^^ 4) (sl_reader ?c)\<rparr>"
  have "seqlock_step [1, 0] (\<lambda>_. True) (seqlock_start [5, 6]) ?c"
    by (rule call)
  then have c: "seqlock_reachable [1, 0] (\<lambda>_. True) [5, 6] ?c" by (simp add: seqlock_reachable_def r_into_rtranclp)
  have run: "(seqlock_step [1, 0] (\<lambda>_. True) ^^ 4) ?c ?d" by (rule read_steps_run)
  have ret: "sl_reader ?d = Returned (Some [6, 5])"
    using poll_quiet [of "sl_block ?c" "[1, 0]" 15]
    by (simp add: seqlock_start_def seqlock_read_def SEQLOCK_MAX_RETRIES_def numeral_eq_Suc)
  show ?thesis
    using seqlock_read_linearizable [OF c _ run _ ret] run ret by (intro exI [of _ ?d]) auto
qed

text \<open>C36: A read always returns, after at most \<open>16 * (lanes + 2) + 1\<close> of its own steps, whatever the block holds
  at each of them; and on a block that does not change it returns that block's lanes when no write is in flight,
  and nothing when a writer has stopped in the middle of one.\<close>

theorem seqlock_read_returns:
  "(16 * (length order + 2) < length blocks \<longrightarrow> (\<exists>r. fold (read_step order) blocks seqlock_read = Returned r))
    \<and> (read_step order b ^^ (16 * (length order + 2) + 1)) seqlock_read
      = Returned (if sb_seq b AND 1 = 0 then Some (map ((!) (sb_lanes b)) order) else None)"
proof
  show "16 * (length order + 2) < length blocks \<longrightarrow> (\<exists>r. fold (read_step order) blocks seqlock_read = Returned r)"
    using reads_return [of order seqlock_read blocks] by (simp add: seqlock_read_def SEQLOCK_MAX_RETRIES_def)
  have more: "(read_step order b ^^ m) x = Returned r \<Longrightarrow> m \<le> n \<Longrightarrow> (read_step order b ^^ n) x = Returned r" for m n x r
    using funpow_add [of "n - m" m "read_step order b"] by (simp add: returned_stays)
  show "(read_step order b ^^ (16 * (length order + 2) + 1)) seqlock_read
      = Returned (if sb_seq b AND 1 = 0 then Some (map ((!) (sb_lanes b)) order) else None)"
  proof (cases "sb_seq b AND 1 = 0")
    case True
    then show ?thesis using more [OF poll_quiet [OF True, of order 15]]
      by (simp add: seqlock_read_def SEQLOCK_MAX_RETRIES_def)
  next
    case False
    then show ?thesis using more [OF poll_stuck [OF False, of 16 order]]
      by (simp add: seqlock_read_def SEQLOCK_MAX_RETRIES_def)
  qed
qed

theorem seqlock_read_returns_witness:
  "\<exists>r. fold (read_step [0]) (replicate 49 \<lparr>sb_seq = 7, sb_lanes = [3]\<rparr>) seqlock_read = Returned r"
  using seqlock_read_returns [of "[0]" "replicate 49 \<lparr>sb_seq = 7, sb_lanes = [3]\<rparr>"] by simp

end
