(* ===== verification/SharedBlock.thy ===== *)
theory SharedBlock
  imports Seqlock
begin

text \<open>
  The block of memory the simulator and the flight controller share (\<open>contract/src/layout.rs\<close>,
  \<open>layout/attach_rules.rs\<close>, \<open>shm/src/mapping.rs\<close>, \<open>mapping/attach.rs\<close>, \<open>roles.rs\<close>): the packed control words,
  the rules of attaching, and the publication of model states under the sequence lock and the reset generation.

  An f64 lane is its bit pattern, as it is on the wire. A lane of a block is a 64-bit word; the two 32-bit lanes
  of the model state are widened.
\<close>

section \<open>Control words\<close>

datatype lifecycle_request = RequestNone | RequestReset | RequestStop | RequestStart

fun lifecycle_word :: "lifecycle_request \<Rightarrow> u32" where
  "lifecycle_word RequestNone = 0"
| "lifecycle_word RequestReset = 1"
| "lifecycle_word RequestStop = 2"
| "lifecycle_word RequestStart = 3"

definition lifecycle_from_u32 :: "u32 \<Rightarrow> lifecycle_request" where
  "lifecycle_from_u32 v =
     (if v = 1 then RequestReset else if v = 2 then RequestStop else if v = 3 then RequestStart else RequestNone)"

datatype fc_state = FcInit | FcResetting | FcConverging | FcReady | FcStopped

fun fc_state_word :: "fc_state \<Rightarrow> u32" where
  "fc_state_word FcInit = 0"
| "fc_state_word FcResetting = 1"
| "fc_state_word FcConverging = 2"
| "fc_state_word FcReady = 3"
| "fc_state_word FcStopped = 4"

definition fc_state_from_u32 :: "u32 \<Rightarrow> fc_state" where
  "fc_state_from_u32 v =
     (if v = 1 then FcResetting else if v = 2 then FcConverging else if v = 3 then FcReady
      else if v = 4 then FcStopped else FcInit)"

definition pack_lifecycle_request :: "u32 \<Rightarrow> lifecycle_request \<Rightarrow> u64" where
  "pack_lifecycle_request nonce req = push_bit 32 (ucast nonce) OR ucast (lifecycle_word req)"

definition unpack_lifecycle_request :: "u64 \<Rightarrow> u32 \<times> lifecycle_request" where
  "unpack_lifecycle_request v = (ucast (drop_bit 32 v), lifecycle_from_u32 (ucast v))"

definition pack_fc_status :: "u32 \<Rightarrow> fc_state \<Rightarrow> u64" where
  "pack_fc_status generation st = push_bit 32 (ucast generation) OR ucast (fc_state_word st)"

definition unpack_fc_status :: "u64 \<Rightarrow> u32 \<times> fc_state" where
  "unpack_fc_status v = (ucast (drop_bit 32 v), fc_state_from_u32 (ucast v))"

text \<open>\<open>FcSession::attach\<close> and the nonce of \<open>HostSession::post_lifecycle_request\<close>.\<close>

definition next_session_nonce :: "u32 \<Rightarrow> u32" where
  "next_session_nonce previous = (let next = previous + 1 in if next = 0 then 1 else next)"

definition post_lifecycle_request :: "lifecycle_request \<Rightarrow> u64 \<Rightarrow> u64 \<times> u32" where
  "post_lifecycle_request req current =
     (let (prev_nonce, _) = unpack_lifecycle_request current; nonce = prev_nonce + 1
      in (pack_lifecycle_request nonce req, nonce))"

section \<open>Attaching\<close>

definition SHM_MAGIC :: u64 where "SHM_MAGIC = 0x415649415445475A"
definition LAYOUT_VERSION :: u32 where "LAYOUT_VERSION = 3"
definition EXPECTED_SIZE :: nat where "EXPECTED_SIZE = 448"

datatype attach_error =
  BadMagic u64
| VersionMismatch u32
| DeclaredSizeMismatch u32
| MappingTooSmall nat
| AttachInitializing

definition validate_attach :: "u64 \<Rightarrow> u32 \<Rightarrow> u32 \<Rightarrow> nat \<Rightarrow> (unit, attach_error) result" where
  "validate_attach magic layout_version declared_size actual_object_size =
     (if actual_object_size = 0 then Err AttachInitializing
      else if actual_object_size < EXPECTED_SIZE then Err (MappingTooSmall actual_object_size)
      else if magic \<noteq> SHM_MAGIC then Err (BadMagic magic)
      else if layout_version \<noteq> LAYOUT_VERSION then Err (VersionMismatch layout_version)
      else if unat declared_size \<noteq> EXPECTED_SIZE then Err (DeclaredSizeMismatch declared_size)
      else Ok ())"

text \<open>The header as one inspection loads it: the ready flag before and after the other words.\<close>

record header_loads =
  hl_ready_first :: u32
  hl_magic :: u64
  hl_version :: u32
  hl_declared :: u32
  hl_incarnation :: u64
  hl_ready_again :: u32

datatype writer_state = WsCurrent | WsGone | WsInitializing | WsReplaced | WsContractMismatch

definition inspect :: "header_loads \<Rightarrow> u64 \<Rightarrow> writer_state" where
  "inspect h attached_incarnation =
     (if hl_ready_first h = 0 then WsInitializing
      else if hl_ready_again h = 0 then WsInitializing
      else if validate_attach (hl_magic h) (hl_version h) (hl_declared h) EXPECTED_SIZE \<noteq> Ok () then WsContractMismatch
      else if hl_incarnation h \<noteq> attached_incarnation then WsReplaced
      else WsCurrent)"

text \<open>What the operating system answers when a name is opened and mapped.\<close>

datatype mapped_object = NotMapped | Mapped nat header_loads

text \<open>\<open>writer_state\<close> of \<open>attach.rs\<close>: the name does not resolve or cannot be mapped, or what the mapping says.\<close>

fun writer_state_of :: "mapped_object \<Rightarrow> u64 \<Rightarrow> writer_state" where
  "writer_state_of NotMapped attached_incarnation = WsGone"
| "writer_state_of (Mapped actual h) attached_incarnation =
     (if actual = 0 then WsInitializing
      else if actual < EXPECTED_SIZE then WsContractMismatch
      else inspect h attached_incarnation)"

datatype writer_liveness = LiveAlive | LiveDead (takeover_in_progress: bool) | LiveUnknown

fun confirm_alive :: "writer_liveness \<Rightarrow> writer_state \<Rightarrow> writer_state" where
  "confirm_alive l WsCurrent =
     (case l of LiveAlive \<Rightarrow> WsCurrent | LiveDead True \<Rightarrow> WsReplaced | LiveDead False \<Rightarrow> WsGone | LiveUnknown \<Rightarrow> WsGone)"
| "confirm_alive l WsGone = WsGone"
| "confirm_alive l WsInitializing = WsInitializing"
| "confirm_alive l WsReplaced = WsReplaced"
| "confirm_alive l WsContractMismatch = WsContractMismatch"

datatype attach_failure = AttachIo | AttachContract attach_error | AttachNotReady

text \<open>\<open>Mapping::attach\<close>: the incarnation attached to, or why not; \<open>probe\<close> is the liveness of an incarnation.\<close>

fun attach :: "(u64 \<Rightarrow> writer_liveness) \<Rightarrow> mapped_object \<Rightarrow> (u64, attach_failure) result" where
  "attach probe NotMapped = Err AttachIo"
| "attach probe (Mapped actual h) =
     (if actual = 0 then Err AttachNotReady
      else if actual < EXPECTED_SIZE then Err (AttachContract (MappingTooSmall actual))
      else if hl_ready_first h = 0 then Err AttachNotReady
      else case validate_attach (hl_magic h) (hl_version h) (hl_declared h) actual of
             Err e \<Rightarrow> Err (AttachContract e)
           | Ok _ \<Rightarrow>
               if hl_ready_again h = 0 then Err AttachNotReady
               else case probe (hl_incarnation h) of
                      LiveAlive \<Rightarrow> Ok (hl_incarnation h)
                    | LiveDead _ \<Rightarrow> Err AttachNotReady
                    | LiveUnknown \<Rightarrow> Err AttachIo)"

section \<open>Model states\<close>

record model_snapshot =
  ms_reset_generation :: u32
  ms_sim_step :: u64
  ms_time_us :: u64
  ms_pos :: "u64 list"
  ms_quat :: "u64 list"
  ms_vel :: "u64 list"
  ms_ang_vel :: "u64 list"

text \<open>The array lengths of the struct.\<close>

definition snapshot_ok :: "model_snapshot \<Rightarrow> bool" where
  "snapshot_ok s \<longleftrightarrow> length (ms_pos s) = 3 \<and> length (ms_quat s) = 4 \<and> length (ms_vel s) = 3 \<and> length (ms_ang_vel s) = 3"

text \<open>The lanes of the block: generation, step, time, position, attitude, velocity, rate, valid.\<close>

definition VALID_LANE :: nat where "VALID_LANE = 16"

definition snapshot_lanes :: "model_snapshot \<Rightarrow> u64 \<Rightarrow> payload" where
  "snapshot_lanes s valid =
     [ucast (ms_reset_generation s), ms_sim_step s, ms_time_us s] @ ms_pos s @ ms_quat s @ ms_vel s @ ms_ang_vel s @ [valid]"

text \<open>The stores of \<open>write_model_state\<close> and of \<open>invalidate_model_state\<close>, and the loads of \<open>read_model_state\<close>.\<close>

definition write_model_state :: "model_snapshot \<Rightarrow> lane_store list" where
  "write_model_state s = zip [0..<17] (snapshot_lanes s 1)"

definition invalidate_model_state :: "u32 \<Rightarrow> lane_store list" where
  "invalidate_model_state generation = [(VALID_LANE, 0), (0, ucast generation)]"

definition model_loads :: "nat list" where
  "model_loads = VALID_LANE # [0..<16]"

definition loaded_valid :: "payload \<Rightarrow> u32" where
  "loaded_valid lanes = ucast (lanes ! 0)"

definition loaded_snapshot :: "payload \<Rightarrow> model_snapshot" where
  "loaded_snapshot lanes =
     \<lparr>ms_reset_generation = ucast (lanes ! 1), ms_sim_step = lanes ! 2, ms_time_us = lanes ! 3,
      ms_pos = take 3 (drop 4 lanes), ms_quat = take 4 (drop 7 lanes), ms_vel = take 3 (drop 11 lanes),
      ms_ang_vel = take 3 (drop 14 lanes)\<rparr>"

text \<open>
  The simulation writer and one consumer. \<open>bump_reset_generation\<close> of the writer session is two operations of the
  mapping: the header's generation is advanced, and then the old model state is retired under the lock.
  \<open>read_model_state\<close> loads the ready flag, reads under the lock, tests the valid lane and then the generation.
\<close>

datatype sim_writer = SimIdle | Bumped u32

datatype model_read = CheckReady | Reading | CheckEpoch model_snapshot | Served "model_snapshot option"

record model_block =
  mb_plugin_ready :: u32
  mb_reset_generation :: u32
  mb_lock :: seqlock
  mb_writer :: sim_writer
  mb_reader :: model_read

abbreviation enter_lock :: "lane_store list \<Rightarrow> seqlock \<Rightarrow> seqlock" where
  "enter_lock ws c \<equiv> c\<lparr>sl_block := advance_seq (sl_block c), sl_writer := Writing ws\<rparr>"

inductive model_step :: "model_block \<Rightarrow> model_block \<Rightarrow> bool" where
  publish: "mb_writer m = SimIdle \<Longrightarrow> sl_writer (mb_lock m) = Quiet \<Longrightarrow> snapshot_ok s
    \<Longrightarrow> model_step m (m\<lparr>mb_lock := enter_lock (write_model_state s) (mb_lock m)\<rparr>)"
| bump: "mb_writer m = SimIdle \<Longrightarrow> sl_writer (mb_lock m) = Quiet
    \<Longrightarrow> model_step m (m\<lparr>mb_reset_generation := mb_reset_generation m + 1, mb_writer := Bumped (mb_reset_generation m + 1)\<rparr>)"
| retire: "mb_writer m = Bumped g \<Longrightarrow> sl_writer (mb_lock m) = Quiet
    \<Longrightarrow> model_step m (m\<lparr>mb_lock := enter_lock (invalidate_model_state g) (mb_lock m), mb_writer := SimIdle\<rparr>)"
| model_store: "sl_writer (mb_lock m) = Writing (w # ws)
    \<Longrightarrow> model_step m (m\<lparr>mb_lock := (mb_lock m)\<lparr>sl_block := store_lane w (sl_block (mb_lock m)), sl_writer := Writing ws\<rparr>\<rparr>)"
| model_leave: "sl_writer (mb_lock m) = Writing []
    \<Longrightarrow> model_step m (m\<lparr>mb_lock := (mb_lock m)\<lparr>sl_block := advance_seq (sl_block (mb_lock m)), sl_writer := Quiet,
          sl_published := sl_published (mb_lock m) @ [sb_lanes (sl_block (mb_lock m))]\<rparr>\<rparr>)"
| writer_drop: "mb_writer m = SimIdle \<Longrightarrow> sl_writer (mb_lock m) = Quiet \<Longrightarrow> model_step m (m\<lparr>mb_plugin_ready := 0\<rparr>)"
| read_call: "mb_reader m = Served r
    \<Longrightarrow> model_step m (m\<lparr>mb_reader := CheckReady, mb_lock := (mb_lock m)\<lparr>sl_reader := seqlock_read\<rparr>\<rparr>)"
| read_ready: "mb_reader m = CheckReady
    \<Longrightarrow> model_step m (m\<lparr>mb_reader := (if mb_plugin_ready m = 0 then Served None else Reading)\<rparr>)"
| read_lock: "mb_reader m = Reading
    \<Longrightarrow> model_step m (m\<lparr>mb_lock := (mb_lock m)\<lparr>sl_reader := read_step model_loads (sl_block (mb_lock m)) (sl_reader (mb_lock m))\<rparr>\<rparr>)"
| read_busy: "mb_reader m = Reading \<Longrightarrow> sl_reader (mb_lock m) = Returned None \<Longrightarrow> model_step m (m\<lparr>mb_reader := Served None\<rparr>)"
| read_copied: "mb_reader m = Reading \<Longrightarrow> sl_reader (mb_lock m) = Returned (Some lanes)
    \<Longrightarrow> model_step m (m\<lparr>mb_reader :=
          (if loaded_valid lanes = 0 then Served None else CheckEpoch (loaded_snapshot lanes))\<rparr>)"
| read_epoch: "mb_reader m = CheckEpoch s
    \<Longrightarrow> model_step m (m\<lparr>mb_reader := Served (if ms_reset_generation s = mb_reset_generation m then Some s else None)\<rparr>)"

inductive_cases model_stepE: "model_step m m'"

text \<open>A created block is zero, with generation 1 and the ready flag set.\<close>

definition model_start :: model_block where
  "model_start = \<lparr>mb_plugin_ready = 1, mb_reset_generation = 1, mb_lock = seqlock_start (replicate 17 0),
     mb_writer = SimIdle, mb_reader = Served None\<rparr>"

definition model_reachable :: "model_block \<Rightarrow> bool" where
  "model_reachable m \<longleftrightarrow> model_step\<^sup>*\<^sup>* model_start m"

section \<open>Lanes\<close>

lemma snapshot_lanes_length: "snapshot_ok s \<Longrightarrow> length (snapshot_lanes s v) = 17"
  by (simp add: snapshot_ok_def snapshot_lanes_def)

lemma widened [simp]: "ucast (ucast x :: u64) = (x :: u32)"
  by (rule bit_word_eqI) (simp add: bit_ucast_iff)

lemma list_of_3: "length xs = 3 \<Longrightarrow> \<exists>a b c. xs = [a, b, c]"
  by (auto simp: numeral_eq_Suc length_Suc_conv)

lemma list_of_4: "length xs = 4 \<Longrightarrow> \<exists>a b c d. xs = [a, b, c, d]"
  by (auto simp: numeral_eq_Suc length_Suc_conv)

lemma valid_lane: "snapshot_ok s \<Longrightarrow> snapshot_lanes s v ! VALID_LANE = v"
proof -
  assume "snapshot_ok s"
  then have "length ([ucast (ms_reset_generation s), ms_sim_step s, ms_time_us s] @ ms_pos s @ ms_quat s @ ms_vel s @ ms_ang_vel s :: u64 list) = 16"
    by (simp add: snapshot_ok_def)
  then show ?thesis unfolding snapshot_lanes_def VALID_LANE_def by (metis append_assoc nth_append_length)
qed

lemma stored_zip:
  "length l = length pre + length vs \<Longrightarrow> take (length pre) l = pre
    \<Longrightarrow> stored (zip [length pre..<length pre + length vs] vs) l = pre @ vs"
proof (induction vs arbitrary: pre l)
  case (Cons v vs)
  have e: "[length pre..<length pre + length (v # vs)] = length pre # [length (pre @ [v])..<length (pre @ [v]) + length vs]"
    by (simp add: upt_rec)
  have "take (length (pre @ [v])) (l[length pre := v]) = pre @ [v]"
    using Cons.prems by (simp add: take_Suc_conv_app_nth take_update_swap)
  then show ?case using Cons.IH [of "l[length pre := v]" "pre @ [v]"] Cons.prems(1) unfolding e by simp
qed simp

lemma stored_model_state: "snapshot_ok s \<Longrightarrow> length l = 17 \<Longrightarrow> stored (write_model_state s) l = snapshot_lanes s 1"
  using stored_zip [of l "[]" "snapshot_lanes s 1"] snapshot_lanes_length [of s 1] by (simp add: write_model_state_def)

lemma stored_invalidated: "length l = 17 \<Longrightarrow> stored (invalidate_model_state g) l ! VALID_LANE = 0"
  by (simp add: invalidate_model_state_def VALID_LANE_def)

lemma loads_of_snapshot:
  assumes "snapshot_ok s"
  shows "loaded_snapshot (map ((!) (snapshot_lanes s v)) model_loads) = s"
proof -
  obtain a b c where p: "ms_pos s = [a, b, c]" using assms list_of_3 by (metis snapshot_ok_def)
  obtain d e f g where q: "ms_quat s = [d, e, f, g]" using assms list_of_4 by (metis snapshot_ok_def)
  obtain h i j where u: "ms_vel s = [h, i, j]" using assms list_of_3 by (metis snapshot_ok_def)
  obtain k l m where w: "ms_ang_vel s = [k, l, m]" using assms list_of_3 by (metis snapshot_ok_def)
  have "[0..<16] = [0, 1, 2, 3, 4, 5, 6, 7, 8, 9, 10, 11, 12, 13, 14, 15]" by (simp add: upt_rec)
  then show ?thesis
    by (simp add: loaded_snapshot_def model_loads_def snapshot_lanes_def VALID_LANE_def p q u w widened
        numeral_2_eq_2 numeral_3_eq_3)
qed

text \<open>A payload no consumer is to use, or one that a single publication wrote.\<close>

definition lanes_ok :: "payload \<Rightarrow> bool" where
  "lanes_ok p \<longleftrightarrow> length p = 17 \<and> (p ! VALID_LANE = 0 \<or> (\<exists>s. snapshot_ok s \<and> p = snapshot_lanes s 1))"

lemma lanes_ok_stores:
  assumes "length l = 17"
  shows "snapshot_ok s \<Longrightarrow> lanes_ok (stored (write_model_state s) l)" "lanes_ok (stored (invalidate_model_state g) l)"
  using assms by (auto simp: lanes_ok_def stored_model_state snapshot_lanes_length stored_invalidated)

definition model_ok :: "model_block \<Rightarrow> bool" where
  "model_ok m \<longleftrightarrow> writer_ok (mb_lock m) \<and> list_all lanes_ok (sl_published (mb_lock m))
     \<and> length (sb_lanes (sl_block (mb_lock m))) = 17
     \<and> (\<forall>ws. sl_writer (mb_lock m) = Writing ws \<longrightarrow> lanes_ok (stored ws (sb_lanes (sl_block (mb_lock m)))))
     \<and> (mb_reader m = CheckReady \<longrightarrow> sl_reader (mb_lock m) = seqlock_read)"

text \<open>A step of the model block is a step of its lock, or leaves the lock alone.\<close>

lemma model_step_lock:
  "model_step m m' \<Longrightarrow> mb_lock m' = mb_lock m \<or> seqlock_step model_loads (\<lambda>_. True) (mb_lock m) (mb_lock m')"
  by (erule model_stepE) (auto intro: seqlock_step.intros)

lemma model_ok_step:
  assumes "model_step m m'" "model_ok m" shows "model_ok m'"
proof -
  have "writer_ok (mb_lock m')"
    using model_step_lock [OF assms(1)] assms(2) by (auto simp: model_ok_def intro: writer_ok_step)
  then show ?thesis using assms
    by (auto elim!: model_stepE simp: model_ok_def advance_seq_def store_lane_def lanes_ok_stores split: if_splits)
qed

lemma model_ok_start: "model_ok model_start"
  using writer_ok_start [of "replicate 17 0"]
  by (simp add: model_ok_def model_start_def seqlock_start_def lanes_ok_def VALID_LANE_def)

lemma model_ok_reachable: "model_reachable m \<Longrightarrow> model_ok m"
  unfolding model_reachable_def
  by (induction rule: rtranclp_induct) (use model_ok_start model_ok_step in blast)+

section \<open>Reads\<close>

text \<open>Where a snapshot in the reader's hands comes from, in a run from \<open>m\<close>.\<close>

definition published_since :: "model_block \<Rightarrow> model_block \<Rightarrow> model_snapshot \<Rightarrow> bool" where
  "published_since m m' s \<longleftrightarrow> snapshot_ok s
     \<and> (\<exists>j. length (sl_published (mb_lock m)) \<le> Suc j \<and> j < length (sl_published (mb_lock m'))
        \<and> sl_published (mb_lock m') ! j = snapshot_lanes s 1)"

text \<open>The header had the generation at some state of the run.\<close>

definition generation_during :: "nat \<Rightarrow> model_block \<Rightarrow> model_block \<Rightarrow> u32 \<Rightarrow> bool" where
  "generation_during n m m' g \<longleftrightarrow>
     (\<exists>i mk. i \<le> n \<and> (model_step ^^ i) m mk \<and> (model_step ^^ (n - i)) mk m' \<and> mb_reset_generation mk = g)"

definition model_read_ok :: "nat \<Rightarrow> model_block \<Rightarrow> model_block \<Rightarrow> bool" where
  "model_read_ok n m m' \<longleftrightarrow>
     (case mb_reader m' of
        CheckReady \<Rightarrow> True
      | Reading \<Rightarrow> True
      | CheckEpoch s \<Rightarrow> published_since m m' s
      | Served None \<Rightarrow> True
      | Served (Some s) \<Rightarrow> published_since m m' s \<and> generation_during n m m' (ms_reset_generation s))"

lemma published_since_step: "published_since m d s \<Longrightarrow> later k (mb_lock d) (mb_lock m') \<Longrightarrow> published_since m m' s"
  by (fastforce simp: published_since_def later_def nth_append)

lemma generation_during_step: "generation_during n m d g \<Longrightarrow> model_step d m' \<Longrightarrow> generation_during (Suc n) m m' g"
  unfolding generation_during_def by (metis Suc_diff_le le_SucI relpowp_Suc_I)

lemma generation_now: "(model_step ^^ n) m d \<Longrightarrow> model_step d m' \<Longrightarrow> generation_during (Suc n) m m' (mb_reset_generation d)"
  by (auto simp: generation_during_def intro!: exI [of _ n] exI [of _ d])

text \<open>What a copy that passed the check and is valid decodes to.\<close>

lemma copied_snapshot:
  assumes "model_ok m'" "reader_ok model_loads (advances (mb_lock m)) (mb_lock m')"
    and "sl_reader (mb_lock m') = Returned (Some lanes)" "loaded_valid lanes \<noteq> 0"
  shows "published_since m m' (loaded_snapshot lanes)"
proof -
  obtain j where j: "advances (mb_lock m) \<le> 2 * j" "2 * j \<le> advances (mb_lock m')" "lanes = payload_at (mb_lock m') j model_loads"
    using assms(2,3) by (auto simp: reader_ok_def)
  have len: "j < length (sl_published (mb_lock m'))"
    using assms(1) j(2) by (intro published_index) (simp_all add: model_ok_def writer_ok_def)
  then have ok: "lanes_ok (sl_published (mb_lock m') ! j)" using assms(1) by (simp add: model_ok_def list_all_length)
  have "sl_published (mb_lock m') ! j ! VALID_LANE \<noteq> 0"
    using assms(4) j(3) by (auto simp: loaded_valid_def payload_at_def model_loads_def)
  then obtain s where s: "snapshot_ok s" "sl_published (mb_lock m') ! j = snapshot_lanes s 1"
    using ok by (auto simp: lanes_ok_def)
  have "loaded_snapshot lanes = s" using loads_of_snapshot [OF s(1), of 1] j(3) s(2) by (simp add: payload_at_def)
  moreover have "length (sl_published (mb_lock m)) \<le> Suc j" using j(1) by (simp add: advances_def)
  ultimately show ?thesis using s len by (auto simp: published_since_def)
qed

lemma model_run:
  assumes "(model_step ^^ n) m m'" "model_ok m" "mb_reader m = CheckReady" "n < 2 ^ 32"
  shows "model_ok m' \<and> (\<exists>k \<le> n. (seqlock_step model_loads (\<lambda>_. True) ^^ k) (mb_lock m) (mb_lock m')) \<and> model_read_ok n m m'"
  using assms
proof (induction n arbitrary: m')
  case 0
  then show ?case by (auto simp: model_read_ok_def)
next
  case (Suc n)
  obtain d where d: "(model_step ^^ n) m d" "model_step d m'" using Suc.prems(1) by (rule relpowp_Suc_E)
  obtain k where ih: "model_ok d" "k \<le> n" "(seqlock_step model_loads (\<lambda>_. True) ^^ k) (mb_lock m) (mb_lock d)"
      "model_read_ok n m d"
    using Suc.IH [OF d(1) Suc.prems(2,3)] Suc.prems(4) by auto
  have lock: "\<exists>k \<le> Suc n. (seqlock_step model_loads (\<lambda>_. True) ^^ k) (mb_lock m) (mb_lock m')"
    using model_step_lock [OF d(2)] ih(2,3) by (metis le_SucI not_less_eq_eq relpowp_Suc_I)
  have start: "writer_ok (mb_lock m)" "reader_ok model_loads (advances (mb_lock m)) (mb_lock m)"
    using Suc.prems(2,3) by (simp_all add: model_ok_def reader_ok_def seqlock_read_def)
  have reader: "reader_ok model_loads (advances (mb_lock m)) (mb_lock d)"
    using seqlock_run [OF ih(3) start] ih(2) Suc.prems(4) by simp
  have later: "\<exists>k. later k (mb_lock d) (mb_lock m')"
    using model_step_lock [OF d(2)] ih(1) later_step later_refl by (metis model_ok_def)
  have keep: "published_since m m' s" if "published_since m d s" for s
    using later published_since_step [OF that] by blast
  have "model_read_ok (Suc n) m m'"
    using d(2)
  proof (cases rule: model_step.cases)
    case (read_copied lanes)
    then show ?thesis using copied_snapshot [OF ih(1) reader read_copied(3)] keep
      by (cases "loaded_valid lanes = 0") (auto simp: model_read_ok_def)
  next
    case (read_epoch s)
    then have "published_since m d s" using ih(4) by (simp add: model_read_ok_def)
    then show ?thesis using read_epoch keep generation_now [OF d]
      by (cases "ms_reset_generation s = mb_reset_generation d") (auto simp: model_read_ok_def)
  qed (use ih(4) keep generation_during_step [OF _ d(2)] in
    \<open>auto simp: model_read_ok_def split: model_read.splits option.splits\<close>)
  then show ?case using model_ok_step [OF d(2) ih(1)] lock by blast
qed

text \<open>The header's generation only advances, by at most one in a step.\<close>

lemma generation_run: "(model_step ^^ n) m m' \<Longrightarrow> \<exists>b \<le> n. mb_reset_generation m' = mb_reset_generation m + of_nat b"
proof (induction n arbitrary: m')
  case (Suc n)
  obtain d where d: "(model_step ^^ n) m d" "model_step d m'" using Suc.prems(1) by (rule relpowp_Suc_E)
  obtain b where b: "b \<le> n" "mb_reset_generation d = mb_reset_generation m + of_nat b" using Suc.IH [OF d(1)] by blast
  have "mb_reset_generation m' = mb_reset_generation d \<or> mb_reset_generation m' = mb_reset_generation d + 1"
    using d(2) by (rule model_stepE) simp_all
  then show ?case
  proof
    assume "mb_reset_generation m' = mb_reset_generation d + 1"
    then show ?thesis using b by (intro exI [of _ "Suc b"]) simp
  qed (use b in \<open>auto intro!: exI [of _ b]\<close>)
qed (auto intro: exI [of _ 0])

lemma unchanged_generation:
  assumes "generation_during n m m' g" "n < 2 ^ 32" "mb_reset_generation m' = mb_reset_generation m"
  shows "g = mb_reset_generation m"
proof -
  obtain i mk where r: "i \<le> n" "(model_step ^^ i) m mk" "(model_step ^^ (n - i)) mk m'" "mb_reset_generation mk = g"
    using assms(1) by (auto simp: generation_during_def)
  obtain a b where ab: "a \<le> i" "g = mb_reset_generation m + of_nat a" "b \<le> n - i" "mb_reset_generation m' = g + of_nat b"
    using generation_run [OF r(2)] generation_run [OF r(3)] r(4) by metis
  have "of_nat (a + b) = (0::u32)" using ab(2,4) assms(3) by simp
  then have "2 ^ 32 dvd a + b" unfolding word_of_nat_eq_0_iff by simp
  then have "a + b = 0" using ab(1,3) r(1) assms(2) by (auto dest!: dvd_imp_le)
  then show ?thesis using ab(2) by simp
qed

section \<open>Progress\<close>

lemma stores_run:
  "sl_writer (mb_lock m) = Writing ws
    \<Longrightarrow> model_step\<^sup>*\<^sup>* m (m\<lparr>mb_lock := (mb_lock m)\<lparr>sl_block := (sl_block (mb_lock m))\<lparr>sb_lanes := stored ws (sb_lanes (sl_block (mb_lock m)))\<rparr>,
         sl_writer := Writing []\<rparr>\<rparr>)"
proof (induction ws arbitrary: m)
  case (Cons w ws)
  let ?d = "m\<lparr>mb_lock := (mb_lock m)\<lparr>sl_block := store_lane w (sl_block (mb_lock m)), sl_writer := Writing ws\<rparr>\<rparr>"
  have "model_step m ?d" by (rule model_store) (rule Cons.prems)
  moreover have "model_step\<^sup>*\<^sup>* ?d (m\<lparr>mb_lock := (mb_lock m)\<lparr>sl_block :=
      (sl_block (mb_lock m))\<lparr>sb_lanes := stored (w # ws) (sb_lanes (sl_block (mb_lock m)))\<rparr>, sl_writer := Writing []\<rparr>\<rparr>)"
    using Cons.IH [of ?d] by (simp add: store_lane_def)
  ultimately show ?case by (rule converse_rtranclp_into_rtranclp)
next
  case Nil
  then have "(mb_lock m)\<lparr>sl_writer := Writing []\<rparr> = mb_lock m" by (cases "mb_lock m") simp
  then show ?case by simp
qed

lemma lock_reads_run:
  assumes "mb_reader m = Reading"
  shows "(model_step ^^ n) m (m\<lparr>mb_lock := (mb_lock m)\<lparr>sl_reader := (read_step model_loads (sl_block (mb_lock m)) ^^ n) (sl_reader (mb_lock m))\<rparr>\<rparr>)"
proof (induction n)
  case (Suc n)
  let ?d = "m\<lparr>mb_lock := (mb_lock m)\<lparr>sl_reader := (read_step model_loads (sl_block (mb_lock m)) ^^ n) (sl_reader (mb_lock m))\<rparr>\<rparr>"
  have "model_step ?d (m\<lparr>mb_lock := (mb_lock m)\<lparr>sl_reader := (read_step model_loads (sl_block (mb_lock m)) ^^ Suc n) (sl_reader (mb_lock m))\<rparr>\<rparr>)"
    using read_lock [of ?d] assms by simp
  with Suc.IH show ?case by (rule relpowp_Suc_I)
qed simp

text \<open>A read of a ready block whose writer is quiet serves the published snapshot, 21 steps and two tests later.\<close>

lemma quiet_read_serves:
  assumes "mb_reader m = CheckReady" "sl_reader (mb_lock m) = seqlock_read" "mb_plugin_ready m \<noteq> 0"
    and "sb_seq (sl_block (mb_lock m)) AND 1 = 0" "sb_lanes (sl_block (mb_lock m)) = snapshot_lanes s 1"
    and "snapshot_ok s" "ms_reset_generation s = mb_reset_generation m"
  shows "\<exists>m'. (model_step ^^ 22) m m' \<and> mb_reader m' = Served (Some s)"
proof -
  let ?b = "sl_block (mb_lock m)"
  let ?x = "map ((!) (sb_lanes ?b)) model_loads"
  let ?r = "m\<lparr>mb_reader := Reading\<rparr>"
  let ?c = "?r\<lparr>mb_lock := (mb_lock m)\<lparr>sl_reader := Returned (Some ?x)\<rparr>\<rparr>"
  have s: "loaded_snapshot ?x = s" using loads_of_snapshot [OF assms(6), of 1] assms(5) by simp
  have v: "loaded_valid ?x = 1"
    using valid_lane [OF assms(6), of 1] assms(5) by (simp add: loaded_valid_def model_loads_def)
  have r: "model_step m ?r" using read_ready [OF assms(1)] assms(3) by simp
  have "length model_loads + 2 = 19" by (simp add: model_loads_def)
  then have "(read_step model_loads ?b ^^ 19) seqlock_read = Returned (Some ?x)"
    using poll_quiet [OF assms(4), of model_loads 15] by (simp add: seqlock_read_def SEQLOCK_MAX_RETRIES_def)
  then have c: "(model_step ^^ 19) ?r ?c" using lock_reads_run [of ?r 19] assms(2) by simp
  let ?e = "?c\<lparr>mb_reader := CheckEpoch s\<rparr>"
  have e: "model_step ?c ?e" using read_copied [of ?c ?x] v s by simp
  let ?f = "?e\<lparr>mb_reader := Served (Some s)\<rparr>"
  have f: "model_step ?e ?f" using read_epoch [of ?e s] assms(7) by simp
  have "(model_step ^^ Suc 19) ?r ?e" by (rule relpowp_Suc_I [where P = model_step, OF c e])
  then have "(model_step ^^ Suc (Suc 19)) ?r ?f" by (rule relpowp_Suc_I [where P = model_step, OF _ f])
  then have "(model_step ^^ Suc (Suc (Suc 19))) m ?f" by (rule relpowp_Suc_I2 [where P = model_step, OF r])
  then show ?thesis by (intro exI [of _ ?f]) (simp add: numeral_eq_Suc)
qed

section \<open>Motor commands\<close>

text \<open>The lanes of a command: eight velocities, padded with zeros, and their number.\<close>

definition motor_lanes :: "u64 list \<Rightarrow> payload" where
  "motor_lanes velocities =
     (let n = min (length velocities) 8 in take n velocities @ replicate (8 - n) 0 @ [of_nat n])"

definition write_motor_command :: "u64 list \<Rightarrow> lane_store list" where
  "write_motor_command velocities = zip [0..<9] (motor_lanes velocities)"

definition motor_loads :: "nat list" where
  "motor_loads = [0..<9]"

lemma motor_lanes_length: "length (motor_lanes v) = 9"
  by (simp add: motor_lanes_def Let_def min_def)

interpretation motor: publications "\<lambda>ws. \<exists>v. ws = write_motor_command v"
  "\<lambda>p. length p = 9 \<and> (p = replicate 9 0 \<or> (\<exists>v. p = motor_lanes v))" "replicate 9 0"
proof unfold_locales
  fix ws l
  assume "\<exists>v. ws = write_motor_command v" "length l = 9 \<and> (l = replicate 9 0 \<or> (\<exists>v. l = motor_lanes v))"
  then obtain v where v: "ws = write_motor_command v" "length l = 9" by blast
  have "stored ws l = motor_lanes v"
    using stored_zip [of l "[]" "motor_lanes v"] v motor_lanes_length [of v] by (simp add: write_motor_command_def)
  then show "length (stored ws l) = 9 \<and> (stored ws l = replicate 9 0 \<or> (\<exists>v. stored ws l = motor_lanes v))"
    using motor_lanes_length by auto
qed simp

text \<open>The simulator reads the lanes of one command of the flight controller, or those of the fresh block.\<close>

lemma motor_command_coherent:
  assumes "seqlock_reachable motor_loads (\<lambda>ws. \<exists>v. ws = write_motor_command v) (replicate 9 0) c"
    and "sl_reader c = seqlock_read" "(seqlock_step motor_loads (\<lambda>ws. \<exists>v. ws = write_motor_command v) ^^ n) c c'"
    and "n < 2 ^ 32" "sl_reader c' = Returned (Some snap)"
  shows "snap = replicate 9 0 \<or> (\<exists>v. snap = motor_lanes v)"
proof -
  obtain p where p: "length p = 9" "p = replicate 9 0 \<or> (\<exists>v. p = motor_lanes v)" "snap = map ((!) p) motor_loads"
    using motor.reads_good [OF assms] by blast
  have "map ((!) p) [0..<9] = p" using map_nth [of p] p(1) by simp
  then show ?thesis using p(2,3) by (simp add: motor_loads_def)
qed

section \<open>Properties\<close>

text \<open>C37: What a consumer is served. From any reachable state in which a consumer starts \<open>read_model_state\<close>, over
  any interleaving of fewer than \<open>2^32\<close> steps with a writer that publishes, resets the world and drops: a served
  snapshot is, lane for lane, the argument of one single \<open>write_model_state\<close> whose payload was current at some
  moment since the read started, never the zero block of a fresh object and never a retired or half-written one;
  its generation is one the header had during the read, the current one when no reset came in between.\<close>

theorem served_snapshot_published:
  assumes "model_reachable m" "mb_reader m = CheckReady" "(model_step ^^ n) m m'" "n < 2 ^ 32"
    and "mb_reader m' = Served (Some s)"
  shows "(\<exists>j. length (sl_published (mb_lock m)) \<le> Suc j \<and> j < length (sl_published (mb_lock m'))
        \<and> sl_published (mb_lock m') ! j = snapshot_lanes s 1)
    \<and> (\<exists>i mk. i \<le> n \<and> (model_step ^^ i) m mk \<and> (model_step ^^ (n - i)) mk m'
        \<and> mb_reset_generation mk = ms_reset_generation s)
    \<and> (mb_reset_generation m' = mb_reset_generation m \<longrightarrow> ms_reset_generation s = mb_reset_generation m)"
proof -
  from model_run [OF assms(3) model_ok_reachable [OF assms(1)] assms(2,4)] assms(5)
  have "published_since m m' s" "generation_during n m m' (ms_reset_generation s)" by (simp_all add: model_read_ok_def)
  then show ?thesis using unchanged_generation [OF _ assms(4)]
    unfolding published_since_def generation_during_def by blast
qed

definition parked :: model_snapshot where
  "parked = \<lparr>ms_reset_generation = 1, ms_sim_step = 40, ms_time_us = 40000, ms_pos = [0, 0, 9], ms_quat = [1, 0, 0, 0],
     ms_vel = [0, 0, 0], ms_ang_vel = [0, 0, 0]\<rparr>"

lemma parked_published:
  "\<exists>m. model_reachable m \<and> mb_reader m = CheckReady \<and> sl_reader (mb_lock m) = seqlock_read \<and> mb_plugin_ready m \<noteq> 0
     \<and> sb_seq (sl_block (mb_lock m)) AND 1 = 0 \<and> sb_lanes (sl_block (mb_lock m)) = snapshot_lanes parked 1
     \<and> mb_reset_generation m = 1"
proof -
  have ok: "snapshot_ok parked" by (simp add: parked_def snapshot_ok_def)
  define a where "a = model_start\<lparr>mb_lock := enter_lock (write_model_state parked) (mb_lock model_start)\<rparr>"
  define b where "b = a\<lparr>mb_lock := (mb_lock a)\<lparr>sl_block := (sl_block (mb_lock a))\<lparr>sb_lanes := snapshot_lanes parked 1\<rparr>, sl_writer := Writing []\<rparr>\<rparr>"
  define c where "c = b\<lparr>mb_lock := (mb_lock b)\<lparr>sl_block := advance_seq (sl_block (mb_lock b)), sl_writer := Quiet,
      sl_published := sl_published (mb_lock b) @ [sb_lanes (sl_block (mb_lock b))]\<rparr>\<rparr>"
  define d where "d = c\<lparr>mb_reader := CheckReady, mb_lock := (mb_lock c)\<lparr>sl_reader := seqlock_read\<rparr>\<rparr>"
  have "model_step model_start a" unfolding a_def
    by (rule publish) (simp_all add: ok model_start_def seqlock_start_def)
  moreover have "model_step\<^sup>*\<^sup>* a b"
    using stores_run [of a "write_model_state parked"] stored_model_state [OF ok, of "replicate 17 0"]
    unfolding b_def by (simp add: a_def model_start_def seqlock_start_def advance_seq_def)
  moreover have "model_step b c" unfolding c_def by (rule model_leave) (simp add: b_def)
  moreover have "model_step c d" unfolding d_def by (rule read_call [of _ None]) (simp add: c_def b_def a_def model_start_def)
  ultimately have "model_step\<^sup>*\<^sup>* model_start d" by (meson converse_rtranclp_into_rtranclp rtranclp.rtrancl_into_rtrancl)
  then have "model_reachable d" by (simp add: model_reachable_def)
  then show ?thesis
    by (intro exI [of _ d]) (simp add: d_def c_def b_def a_def model_start_def seqlock_start_def advance_seq_def and_one_eq)
qed

theorem served_snapshot_published_witness:
  "\<exists>m m' j. model_reachable m \<and> (model_step ^^ 22) m m' \<and> mb_reader m' = Served (Some parked)
     \<and> sl_published (mb_lock m') ! j = snapshot_lanes parked 1"
proof -
  obtain m where m: "model_reachable m" "mb_reader m = CheckReady" "sl_reader (mb_lock m) = seqlock_read"
    "mb_plugin_ready m \<noteq> 0" "sb_seq (sl_block (mb_lock m)) AND 1 = 0"
    "sb_lanes (sl_block (mb_lock m)) = snapshot_lanes parked 1" "mb_reset_generation m = 1"
    using parked_published by blast
  have ok: "snapshot_ok parked" "ms_reset_generation parked = mb_reset_generation m"
    by (simp_all add: parked_def snapshot_ok_def m)
  obtain m' where m': "(model_step ^^ 22) m m'" "mb_reader m' = Served (Some parked)"
    using quiet_read_serves [OF m(2-6) ok] by blast
  show ?thesis using served_snapshot_published [OF m(1,2) m'(1) _ m'(2)] m(1) m' by auto
qed

text \<open>C38: Attaching fails closed. An attachment succeeds exactly when the object is big enough, both loads of the ready
  flag see a writer, magic, version and declared size are this build's, and the writer that stamped the loaded
  incarnation is alive; a session's view of its writer is \<open>Current\<close> only when, moreover, that incarnation is the
  one it attached to, and everything a broken probe could vouch for is refused.\<close>

theorem attach_fails_closed:
  "(attach probe obj = Ok i \<longleftrightarrow>
      (\<exists>actual h. obj = Mapped actual h \<and> EXPECTED_SIZE \<le> actual \<and> hl_ready_first h \<noteq> 0 \<and> hl_ready_again h \<noteq> 0
        \<and> hl_magic h = SHM_MAGIC \<and> hl_version h = LAYOUT_VERSION \<and> unat (hl_declared h) = EXPECTED_SIZE
        \<and> hl_incarnation h = i \<and> probe i = LiveAlive))
   \<and> (confirm_alive (probe j) (writer_state_of obj j) = WsCurrent \<longleftrightarrow> attach probe obj = Ok j)"
proof (cases obj)
  case (Mapped actual h)
  then show ?thesis
    by (cases "probe (hl_incarnation h)")
      (auto simp: validate_attach_def inspect_def EXPECTED_SIZE_def split: writer_liveness.split bool.split)
qed auto

text \<open>The packed control words round-trip: request and status decode to what was packed, every other 64-bit word
  decodes to its high half and the conservative value, and the next nonces differ from the ones before.\<close>

lemma control_words_roundtrip:
  "unpack_lifecycle_request (pack_lifecycle_request n r) = (n, r)
   \<and> unpack_fc_status (pack_fc_status g st) = (g, st)
   \<and> (let (word, nonce) = post_lifecycle_request r w
      in unpack_lifecycle_request word = (nonce, r) \<and> nonce \<noteq> fst (unpack_lifecycle_request w))
   \<and> next_session_nonce n \<noteq> 0 \<and> next_session_nonce n \<noteq> n"
proof -
  have hi: "ucast (drop_bit 32 (push_bit 32 (ucast n) OR ucast x :: u64)) = (n :: u32)" for n x :: u32
    by (rule bit_word_eqI) (auto simp: bit_simps dest: bit_imp_le_length)
  have lo: "ucast (push_bit 32 (ucast n) OR ucast x :: u64) = (x :: u32)" for n x :: u32
    by (rule bit_word_eqI) (auto simp: bit_simps dest: bit_imp_le_length)
  have words: "lifecycle_from_u32 (lifecycle_word r) = r" "fc_state_from_u32 (fc_state_word st) = st" for r st
    by (cases r; simp add: lifecycle_from_u32_def) (cases st; simp add: fc_state_from_u32_def)
  have req: "unpack_lifecycle_request (pack_lifecycle_request n r) = (n, r)" for n r
    by (simp only: unpack_lifecycle_request_def pack_lifecycle_request_def hi lo words)
  moreover have "unpack_fc_status (pack_fc_status g st) = (g, st)"
    by (simp only: unpack_fc_status_def pack_fc_status_def hi lo words)
  moreover have "next_session_nonce n \<noteq> n" by (auto simp: next_session_nonce_def Let_def)
  ultimately show ?thesis
    by (simp add: post_lifecycle_request_def Let_def split_beta) (simp add: next_session_nonce_def Let_def)
qed

end
