(* ===== verification/Lease.thy ===== *)
theory Lease
  imports SharedBlock
begin

text \<open>
  The writer lease (\<open>shm/src/mapping/lease.rs\<close>) and the life of the shared object (\<open>attach.rs\<close>, \<open>mapping.rs\<close>), as
  interleaved steps of any number of writer processes that start, crash and exit.

  A process walks through \<open>WriterLease::acquire\<close>, \<open>Mapping::create\<close> and the \<open>Drop\<close> of both, one step for each call
  another process can observe. \<open>flock\<close> gives an exclusive lock to one holder at a time and releases it when the
  holder exits; a killed process loses its two locks in either order, at any later time. An unlinked token path
  has no holder, whoever still holds the orphaned file. A write of the eight counter bytes is taken to
  have effect whole or not at all; one torn in between could lower the counter, which the code does not exclude.
  \<open>lw_grants\<close> is a history variable.
\<close>

section \<open>The lease file\<close>

text \<open>The counter after a grant, with the previous one; the errors of reading and writing the file are steps below.\<close>

definition advance_counter :: "u64 \<Rightarrow> u64 \<times> u64" where
  "advance_counter prev = (let next = prev + 1 in (prev, if next = 0 then 1 else next))"

datatype flock_verdict = FlockAcquired | FlockHeld | FlockInterrupted | FlockFailed

definition classify_flock :: "int \<Rightarrow> int \<Rightarrow> int \<Rightarrow> int \<Rightarrow> int \<Rightarrow> flock_verdict" where
  "classify_flock EINTR EWOULDBLOCK EAGAIN rc errno =
     (if rc = 0 then FlockAcquired
      else if errno = EINTR then FlockInterrupted
      else if errno = EWOULDBLOCK \<or> errno = EAGAIN then FlockHeld
      else FlockFailed)"

text \<open>The calls over the answers the system gives; \<open>None\<close> is a call still interrupted when the answers end.\<close>

fun flock_nb :: "flock_verdict list \<Rightarrow> (flock_verdict \<times> flock_verdict list) option" where
  "flock_nb [] = None"
| "flock_nb (v # vs) = (if v = FlockInterrupted then flock_nb vs else Some (v, vs))"

definition ACQUIRE_ATTEMPTS :: nat where
  "ACQUIRE_ATTEMPTS = 25"

datatype lock_error = LockConflict | LockFault

fun flock_attempts :: "nat \<Rightarrow> flock_verdict list \<Rightarrow> (unit, lock_error) result option" where
  "flock_attempts 0 vs = Some (Err LockConflict)"
| "flock_attempts (Suc k) vs =
     (case flock_nb vs of
        None \<Rightarrow> None
      | Some (FlockAcquired, rest) \<Rightarrow> Some (Ok ())
      | Some (FlockHeld, rest) \<Rightarrow> flock_attempts k rest
      | Some (_, rest) \<Rightarrow> Some (Err LockFault))"

definition flock_exclusive :: "flock_verdict list \<Rightarrow> (unit, lock_error) result option" where
  "flock_exclusive = flock_attempts ACQUIRE_ATTEMPTS"

lemma flock_nb_none: "flock_nb vs = None \<longleftrightarrow> filter (\<lambda>v. v \<noteq> FlockInterrupted) vs = []"
  by (induction vs) auto

lemma flock_nb_rest:
  "flock_nb vs = Some (v, rest) \<Longrightarrow>
     v \<noteq> FlockInterrupted \<and> filter (\<lambda>v. v \<noteq> FlockInterrupted) vs = v # filter (\<lambda>v. v \<noteq> FlockInterrupted) rest"
  by (induction vs) (auto split: if_splits)

text \<open>The lock is taken exactly when one of the first 25 answers that are not interruptions is a grant and all
  before it are conflicts: a live holder is never waited out, a failed call is never retried.\<close>

lemma flock_attempts_ok:
  "flock_attempts k vs = Some (Ok ()) \<longleftrightarrow>
     (\<exists>n rest. n < k \<and> filter (\<lambda>v. v \<noteq> FlockInterrupted) vs = replicate n FlockHeld @ FlockAcquired # rest)"
proof (induction k vs rule: flock_attempts.induct)
  case (2 k vs)
  show ?case
  proof (cases "flock_nb vs")
    case None
    then have "filter (\<lambda>v. v \<noteq> FlockInterrupted) vs = []" by (simp add: flock_nb_none)
    with None show ?thesis by simp
  next
    case (Some r)
    obtain v rest where r: "flock_nb vs = Some (v, rest)" using Some by (cases r) auto
    note answers = flock_nb_rest [OF r]
    show ?thesis
    proof (cases v)
      case FlockHeld
      have "(\<exists>n zs. n < Suc k \<and> FlockHeld # ys = replicate n FlockHeld @ FlockAcquired # zs)
          \<longleftrightarrow> (\<exists>n zs. n < k \<and> ys = replicate n FlockHeld @ FlockAcquired # zs)" for ys
      proof safe
        fix n zs assume n: "n < Suc k" "FlockHeld # ys = replicate n FlockHeld @ FlockAcquired # zs"
        then show "\<exists>n zs. n < k \<and> ys = replicate n FlockHeld @ FlockAcquired # zs" by (cases n) auto
      next
        fix n zs assume "n < k"
        then show "\<exists>m xs. m < Suc k \<and> FlockHeld # replicate n FlockHeld @ FlockAcquired # zs
            = replicate m FlockHeld @ FlockAcquired # xs" by (intro exI [of _ "Suc n"] exI [of _ zs]) simp
      qed
      then show ?thesis using 2 [OF r refl FlockHeld] r FlockHeld answers by simp
    next
      case FlockAcquired
      have "0 < Suc k \<and> filter (\<lambda>v. v \<noteq> FlockInterrupted) vs
          = replicate 0 FlockHeld @ FlockAcquired # filter (\<lambda>v. v \<noteq> FlockInterrupted) rest"
        using answers FlockAcquired by simp
      then show ?thesis using r FlockAcquired by auto
    next
      case FlockFailed
      have "FlockFailed # ys \<noteq> replicate n FlockHeld @ FlockAcquired # zs" for n ys zs by (cases n) auto
      then show ?thesis using r answers FlockFailed by simp
    next
      case FlockInterrupted
      then show ?thesis using answers by simp
    qed
  qed
qed simp

datatype lock_probe = HeldExclusively | Unlocked | Missing | Broken

fun writer_liveness :: "lock_probe \<Rightarrow> lock_probe \<Rightarrow> writer_liveness" where
  "writer_liveness HeldExclusively global = LiveAlive"
| "writer_liveness Broken global = LiveUnknown"
| "writer_liveness Unlocked global =
     (case global of HeldExclusively \<Rightarrow> LiveDead True | Unlocked \<Rightarrow> LiveDead False | Missing \<Rightarrow> LiveDead False
      | Broken \<Rightarrow> LiveUnknown)"
| "writer_liveness Missing global =
     (case global of HeldExclusively \<Rightarrow> LiveDead True | Unlocked \<Rightarrow> LiveDead False | Missing \<Rightarrow> LiveDead False
      | Broken \<Rightarrow> LiveUnknown)"

section \<open>Writers\<close>

datatype phase =
  Outside
| Locked
| Advanced u64 u64
| Granted u64 u64
| Leased u64
| Unlinked u64
| Creating u64
| Stamped u64
| Owner u64
| Cleared u64 bool
| Retired u64
| Closing
| Exiting bool "u64 option"

text \<open>The object behind the name: the incarnation in its header (0 before the stamp) and its ready flag.\<close>

record lease_world =
  lw_counter :: u64
  lw_global :: "nat option"
  lw_tokens :: "u64 \<Rightarrow> nat option"
  lw_object :: "(u64 \<times> bool) option"
  lw_phase :: "nat \<Rightarrow> phase"
  lw_grants :: "u64 list"

fun holds_global :: "phase \<Rightarrow> bool" where
  "holds_global Outside = False"
| "holds_global (Exiting g t) = g"
| "holds_global _ = True"

fun token_of :: "phase \<Rightarrow> u64 option" where
  "token_of (Granted prev i) = Some i"
| "token_of (Leased i) = Some i"
| "token_of (Unlinked i) = Some i"
| "token_of (Creating i) = Some i"
| "token_of (Stamped i) = Some i"
| "token_of (Owner i) = Some i"
| "token_of (Cleared i ours) = Some i"
| "token_of (Retired i) = Some i"
| "token_of (Exiting g t) = t"
| "token_of _ = None"

definition to_phase :: "nat \<Rightarrow> phase \<Rightarrow> lease_world \<Rightarrow> lease_world" where
  "to_phase p x w = w\<lparr>lw_phase := (lw_phase w)(p := x)\<rparr>"

section \<open>What a consumer sees\<close>

text \<open>
  A probe of the two lock files. \<open>ok\<close> says whether opening and locking answered or failed otherwise; a missing file
  has no holder, and is judged as an unlocked one.
\<close>

definition probe_token :: "bool \<Rightarrow> lease_world \<Rightarrow> u64 \<Rightarrow> lock_probe" where
  "probe_token ok w i = (if \<not> ok then Broken else if lw_tokens w i = None then Unlocked else HeldExclusively)"

definition probe_global :: "bool \<Rightarrow> lease_world \<Rightarrow> lock_probe" where
  "probe_global ok w = (if \<not> ok then Broken else if lw_global w = None then Unlocked else HeldExclusively)"

text \<open>
  The block is mapped first, then the token is probed, then the global lease: a read spans three moments. \<open>ok\<close> tells of
  both probes whether they answer.
\<close>

definition liveness :: "bool \<times> bool \<Rightarrow> lease_world \<Rightarrow> lease_world \<Rightarrow> u64 \<Rightarrow> writer_liveness" where
  "liveness ok wt wg i = writer_liveness (probe_token (fst ok) wt i) (probe_global (snd ok) wg)"

text \<open>What mapping the name gives: an object of this layout, whose fingerprint is written before the ready flag.\<close>

definition mapped_of :: "lease_world \<Rightarrow> mapped_object" where
  "mapped_of w =
     (case lw_object w of
        None \<Rightarrow> NotMapped
      | Some (i, r) \<Rightarrow>
          Mapped EXPECTED_SIZE
            \<lparr>hl_ready_first = of_bool r, hl_magic = SHM_MAGIC, hl_version = LAYOUT_VERSION,
             hl_declared = of_nat EXPECTED_SIZE, hl_incarnation = i, hl_ready_again = of_bool r\<rparr>)"

definition session_view :: "bool \<times> bool \<Rightarrow> lease_world \<Rightarrow> lease_world \<Rightarrow> lease_world \<Rightarrow> u64 \<Rightarrow> writer_state" where
  "session_view ok wb wt wg attached =
     confirm_alive (liveness ok wt wg attached) (writer_state_of (mapped_of wb) attached)"

section \<open>Steps\<close>

text \<open>\<open>acquire\<close> up to the token, \<open>create\<close> up to the ready flag, the owner's drop, and the ways a process ends.\<close>

inductive lease_step :: "lease_world \<Rightarrow> lease_world \<Rightarrow> bool" where
  lock_global: "lw_phase w p = Outside \<Longrightarrow> lw_global w = None \<Longrightarrow> lease_step w (to_phase p Locked (w\<lparr>lw_global := Some p\<rparr>))"
| counter_fault: "lw_phase w p = Locked \<Longrightarrow> lease_step w (to_phase p Outside (w\<lparr>lw_global := None\<rparr>))"
| advance: "lw_phase w p = Locked \<Longrightarrow> advance_counter (lw_counter w) = (prev, i)
    \<Longrightarrow> lease_step w (to_phase p (Advanced prev i) (w\<lparr>lw_counter := i, lw_grants := i # lw_grants w\<rparr>))"
| token_fault: "lw_phase w p = Advanced prev i \<Longrightarrow> lease_step w (to_phase p Outside (w\<lparr>lw_global := None\<rparr>))"
| lock_token: "lw_phase w p = Advanced prev i \<Longrightarrow> lw_tokens w i = None
    \<Longrightarrow> lease_step w (to_phase p (Granted prev i) (w\<lparr>lw_tokens := (lw_tokens w)(i := Some p)\<rparr>))"
| unlink_token: "lw_phase w p = Granted prev i
    \<Longrightarrow> lease_step w (to_phase p (Leased i)
          (w\<lparr>lw_tokens := (if prev \<noteq> 0 \<and> prev \<noteq> i then (lw_tokens w)(prev := None) else lw_tokens w)\<rparr>))"
| unlink_object: "lw_phase w p = Leased i \<Longrightarrow> lease_step w (to_phase p (Unlinked i) (w\<lparr>lw_object := None\<rparr>))"
| open_object: "lw_phase w p = Unlinked i \<Longrightarrow> lease_step w (to_phase p (Creating i) (w\<lparr>lw_object := Some (0, False)\<rparr>))"
| open_fault: "lw_phase w p = Unlinked i \<Longrightarrow> lease_step w (to_phase p (Retired i) w)"
| map_fault: "lw_phase w p = Creating i \<Longrightarrow> lease_step w (to_phase p (Retired i) (w\<lparr>lw_object := None\<rparr>))"
| stamp: "lw_phase w p = Creating i \<Longrightarrow> lease_step w (to_phase p (Stamped i) (w\<lparr>lw_object := Some (i, False)\<rparr>))"
| ready: "lw_phase w p = Stamped i \<Longrightarrow> lease_step w (to_phase p (Owner i) (w\<lparr>lw_object := Some (i, True)\<rparr>))"
| clear_ready: "lw_phase w p = Owner i \<Longrightarrow> ours = (writer_state_of (mapped_of w) i \<in> {WsCurrent, WsInitializing})
    \<Longrightarrow> lease_step w (to_phase p (Cleared i ours)
          (w\<lparr>lw_object := (if map_option fst (lw_object w) = Some i then Some (i, False) else lw_object w)\<rparr>))"
| retire_object: "lw_phase w p = Cleared i ours
    \<Longrightarrow> lease_step w (to_phase p (Retired i) (w\<lparr>lw_object := (if ours then None else lw_object w)\<rparr>))"
| close_token: "lw_phase w p = Retired i
    \<Longrightarrow> lease_step w (to_phase p Closing (w\<lparr>lw_tokens := (lw_tokens w)(i := None)\<rparr>))"
| close_global: "lw_phase w p = Closing \<Longrightarrow> lease_step w (to_phase p Outside (w\<lparr>lw_global := None\<rparr>))"
| killed: "lw_phase w p \<noteq> Outside \<Longrightarrow> (\<And>g t. lw_phase w p \<noteq> Exiting g t)
    \<Longrightarrow> lease_step w (to_phase p (Exiting (holds_global (lw_phase w p)) (token_of (lw_phase w p))) w)"
| release_global: "lw_phase w p = Exiting True t \<Longrightarrow> lease_step w (to_phase p (Exiting False t) (w\<lparr>lw_global := None\<rparr>))"
| release_token: "lw_phase w p = Exiting g (Some i)
    \<Longrightarrow> lease_step w (to_phase p (Exiting g None)
          (w\<lparr>lw_tokens := (if lw_tokens w i = Some p then (lw_tokens w)(i := None) else lw_tokens w)\<rparr>))"
| gone: "lw_phase w p = Exiting False None \<Longrightarrow> lease_step w (to_phase p Outside w)"

definition lease_start :: lease_world where
  "lease_start = \<lparr>lw_counter = 0, lw_global = None, lw_tokens = (\<lambda>_. None), lw_object = None,
     lw_phase = (\<lambda>_. Outside), lw_grants = []\<rparr>"

definition lease_reachable :: "lease_world \<Rightarrow> bool" where
  "lease_reachable w \<longleftrightarrow> lease_step\<^sup>*\<^sup>* lease_start w"

lemma block_current: "writer_state_of (mapped_of w) i = WsCurrent \<longleftrightarrow> lw_object w = Some (i, True)"
  by (auto simp: mapped_of_def inspect_def validate_attach_def EXPECTED_SIZE_def split: option.split)

lemma session_current:
  "session_view ok wb wt wg i = WsCurrent \<longleftrightarrow> fst ok \<and> lw_object wb = Some (i, True) \<and> lw_tokens wt i \<noteq> None"
proof -
  have "session_view ok wb wt wg i = WsCurrent
    \<longleftrightarrow> writer_state_of (mapped_of wb) i = WsCurrent \<and> liveness ok wt wg i = LiveAlive"
    unfolding session_view_def
    by (cases "writer_state_of (mapped_of wb) i") (auto split: writer_liveness.split bool.split)
  also have "liveness ok wt wg i = LiveAlive \<longleftrightarrow> fst ok \<and> lw_tokens wt i \<noteq> None"
    by (simp add: liveness_def probe_token_def probe_global_def)
  finally show ?thesis by (auto simp: block_current)
qed

section \<open>Invariants\<close>

text \<open>What the phase of a process says about the locks, the tokens and the object.\<close>

fun proc_ok :: "nat option \<Rightarrow> (u64 \<Rightarrow> nat option) \<Rightarrow> (u64 \<times> bool) option \<Rightarrow> nat \<Rightarrow> phase \<Rightarrow> bool" where
  "proc_ok g T ob p Outside \<longleftrightarrow> g \<noteq> Some p \<and> (\<forall>j. T j \<noteq> Some p)"
| "proc_ok g T ob p (Exiting gl t) \<longleftrightarrow> (g = Some p) = gl \<and> (\<forall>j. t \<noteq> Some j \<longrightarrow> T j \<noteq> Some p)"
| "proc_ok g T ob p Locked \<longleftrightarrow> g = Some p \<and> (\<forall>j. T j \<noteq> Some p)"
| "proc_ok g T ob p Closing \<longleftrightarrow> g = Some p \<and> (\<forall>j. T j \<noteq> Some p)"
| "proc_ok g T ob p (Advanced prev i) \<longleftrightarrow> g = Some p \<and> (\<forall>j. T j \<noteq> Some p) \<and> ob \<noteq> Some (i, True)"
| "proc_ok g T ob p (Granted prev i) \<longleftrightarrow> g = Some p \<and> (\<forall>j. T j = Some p \<longleftrightarrow> j = i) \<and> ob \<noteq> Some (i, True)"
| "proc_ok g T ob p (Leased i) \<longleftrightarrow> g = Some p \<and> (\<forall>j. T j = Some p \<longleftrightarrow> j = i) \<and> ob \<noteq> Some (i, True)"
| "proc_ok g T ob p (Unlinked i) \<longleftrightarrow> g = Some p \<and> (\<forall>j. T j = Some p \<longleftrightarrow> j = i) \<and> ob = None"
| "proc_ok g T ob p (Creating i) \<longleftrightarrow> g = Some p \<and> (\<forall>j. T j = Some p \<longleftrightarrow> j = i) \<and> ob = Some (0, False)"
| "proc_ok g T ob p (Stamped i) \<longleftrightarrow> g = Some p \<and> (\<forall>j. T j = Some p \<longleftrightarrow> j = i) \<and> ob = Some (i, False)"
| "proc_ok g T ob p (Owner i) \<longleftrightarrow> g = Some p \<and> (\<forall>j. T j = Some p \<longleftrightarrow> j = i) \<and> ob = Some (i, True)"
| "proc_ok g T ob p (Cleared i ours) \<longleftrightarrow> g = Some p \<and> (\<forall>j. T j = Some p \<longleftrightarrow> j = i) \<and> ours \<and> ob = Some (i, False)"
| "proc_ok g T ob p (Retired i) \<longleftrightarrow> g = Some p \<and> (\<forall>j. T j = Some p \<longleftrightarrow> j = i) \<and> ob = None"

definition procs_ok :: "lease_world \<Rightarrow> bool" where
  "procs_ok w \<longleftrightarrow> (\<forall>p. proc_ok (lw_global w) (lw_tokens w) (lw_object w) p (lw_phase w p))"

fun number_of :: "phase \<Rightarrow> u64 option" where
  "number_of (Advanced prev i) = Some i"
| "number_of x = token_of x"

definition numbers_ok :: "lease_world \<Rightarrow> bool" where
  "numbers_ok w \<longleftrightarrow> unat (lw_counter w) = length (lw_grants w) \<and> distinct (lw_grants w)
     \<and> (\<forall>i \<in> set (lw_grants w). 0 < unat i \<and> unat i \<le> length (lw_grants w))
     \<and> (\<forall>p i. number_of (lw_phase w p) = Some i \<longrightarrow> i \<in> set (lw_grants w))
     \<and> (\<forall>i. lw_object w = Some (i, True) \<longrightarrow> i \<in> set (lw_grants w))"

lemma to_phase_fields [simp]:
  "lw_counter (to_phase p x w) = lw_counter w" "lw_global (to_phase p x w) = lw_global w"
  "lw_tokens (to_phase p x w) = lw_tokens w" "lw_object (to_phase p x w) = lw_object w"
  "lw_grants (to_phase p x w) = lw_grants w" "lw_phase (to_phase p x w) = (lw_phase w)(p := x)"
  by (simp_all add: to_phase_def)

lemma procsD: "procs_ok w \<Longrightarrow> lw_phase w p = x \<Longrightarrow> proc_ok (lw_global w) (lw_tokens w) (lw_object w) p x"
  by (auto simp: procs_ok_def)

lemma holder_global: "proc_ok g T ob p x \<Longrightarrow> holds_global x \<Longrightarrow> g = Some p"
  by (cases x) auto

text \<open>A process without the global lock depends on nothing but its own locks.\<close>

lemma bystander:
  assumes "proc_ok g T ob q x" "g \<noteq> Some q" "g' \<noteq> Some q" "\<And>j. T' j = Some q \<Longrightarrow> T j = Some q"
  shows "proc_ok g' T' ob' q x"
  using assms by (cases x) auto

lemma procs_ok_holder:
  assumes "procs_ok w" "lw_phase w p = y" "holds_global y" "lw_phase w' = lw_phase w"
    and "proc_ok (lw_global w') (lw_tokens w') (lw_object w') p x"
    and "\<And>q. q \<noteq> p \<Longrightarrow> lw_global w' \<noteq> Some q"
    and "\<And>q j. q \<noteq> p \<Longrightarrow> lw_tokens w' j = Some q \<Longrightarrow> lw_tokens w j = Some q"
  shows "procs_ok (to_phase p x w')"
  unfolding procs_ok_def
proof
  fix q
  have g: "lw_global w = Some p" using holder_global procsD [OF assms(1,2)] assms(3) by blast
  show "proc_ok (lw_global (to_phase p x w')) (lw_tokens (to_phase p x w')) (lw_object (to_phase p x w')) q
          (lw_phase (to_phase p x w') q)"
  proof (cases "q = p")
    case False
    have "proc_ok (lw_global w') (lw_tokens w') (lw_object w') q (lw_phase w q)"
      by (rule bystander [OF procsD [OF assms(1) refl]]) (use g False assms(6,7) in auto)
    then show ?thesis using False assms(4) by simp
  qed (use assms(5) in simp)
qed

lemma procs_ok_other:
  assumes "procs_ok w" "lw_phase w' = lw_phase w" "lw_object w' = lw_object w"
    and "proc_ok (lw_global w') (lw_tokens w') (lw_object w') p x"
    and "\<And>q. q \<noteq> p \<Longrightarrow> lw_global w' = Some q \<longleftrightarrow> lw_global w = Some q"
    and "\<And>q j. q \<noteq> p \<Longrightarrow> lw_tokens w' j = Some q \<longleftrightarrow> lw_tokens w j = Some q"
  shows "procs_ok (to_phase p x w')"
  unfolding procs_ok_def
proof
  fix q
  show "proc_ok (lw_global (to_phase p x w')) (lw_tokens (to_phase p x w')) (lw_object (to_phase p x w')) q
          (lw_phase (to_phase p x w') q)"
  proof (cases "q = p")
    case False
    then have "proc_ok (lw_global w') (lw_tokens w') (lw_object w') q (lw_phase w q)"
      using procsD [OF assms(1) refl, of q] assms(3,5,6) by (cases "lw_phase w q") auto
    then show ?thesis using False assms(2) by simp
  qed (use assms(4) in simp)
qed

lemma next_number:
  assumes "numbers_ok w" "length (lw_grants w) < 2 ^ 64 - 1" "advance_counter (lw_counter w) = (prev, i)"
  shows "prev = lw_counter w" "unat i = Suc (length (lw_grants w))" "i \<notin> set (lw_grants w)"
proof -
  have "unat (lw_counter w) < 2 ^ 64 - 1" using assms(1,2) by (simp add: numbers_ok_def)
  then have u: "unat (lw_counter w + 1) = Suc (unat (lw_counter w))"
    by (simp add: unat_word_ariths(1))
  then have "lw_counter w + 1 \<noteq> 0" by (metis nat.distinct(1) unsigned_0)
  then have i: "i = lw_counter w + 1" "prev = lw_counter w" using assms(3) by (auto simp: advance_counter_def Let_def)
  show "prev = lw_counter w" "unat i = Suc (length (lw_grants w))"
    using i u assms(1) by (auto simp: numbers_ok_def)
  then show "i \<notin> set (lw_grants w)" using assms(1) by (auto simp: numbers_ok_def)
qed

lemma procs_ok_step:
  assumes "lease_step w w'" "procs_ok w" "numbers_ok w" "length (lw_grants w') < 2 ^ 64"
  shows "procs_ok w'"
  using assms(1)
proof (cases rule: lease_step.cases)
  case (lock_global p)
  show ?thesis unfolding lock_global(1)
    by (rule procs_ok_other [OF assms(2)]) (use lock_global procsD [OF assms(2) lock_global(2)] in auto)
next
  case (advance p prev i)
  then have "length (lw_grants w) < 2 ^ 64 - 1" using assms(4) by simp
  from next_number(3) [OF assms(3) this advance(3)] have "lw_object w \<noteq> Some (i, True)"
    using assms(3) by (auto simp: numbers_ok_def)
  then show ?thesis unfolding advance(1)
    by (intro procs_ok_holder [OF assms(2) advance(2)]) (use procsD [OF assms(2) advance(2)] in auto)
next
  case (clear_ready p i ours)
  have "lw_object w = Some (i, True)" using procsD [OF assms(2) clear_ready(2)] by auto
  then have "ours" using clear_ready(3) by (simp add: block_current)
  then show ?thesis unfolding clear_ready(1)
    by (intro procs_ok_holder [OF assms(2) clear_ready(2)]) (use procsD [OF assms(2) clear_ready(2)] in auto)
next
  case (killed p)
  show ?thesis unfolding killed(1)
    by (rule procs_ok_other [OF assms(2)])
      (use procsD [OF assms(2) refl, of p] killed(2,3) in \<open>cases "lw_phase w p"; auto\<close>)+
next
  case (release_global p t)
  show ?thesis unfolding release_global(1)
    by (rule procs_ok_other [OF assms(2)]) (use procsD [OF assms(2) release_global(2)] in auto)
next
  case (release_token p g i)
  show ?thesis unfolding release_token(1)
    by (rule procs_ok_other [OF assms(2)]) (use procsD [OF assms(2) release_token(2)] in auto)
next
  case (gone p)
  show ?thesis unfolding gone(1)
    by (rule procs_ok_other [OF assms(2)]) (use procsD [OF assms(2) gone(2)] in auto)
next
  case (counter_fault p)
  show ?thesis unfolding counter_fault(1)
    by (rule procs_ok_holder [OF assms(2) counter_fault(2)]) (use procsD [OF assms(2) counter_fault(2)] counter_fault in \<open>auto split: if_splits\<close>)
next
  case (token_fault p prev i)
  show ?thesis unfolding token_fault(1)
    by (rule procs_ok_holder [OF assms(2) token_fault(2)]) (use procsD [OF assms(2) token_fault(2)] token_fault in \<open>auto split: if_splits\<close>)
next
  case (lock_token p prev i)
  show ?thesis unfolding lock_token(1)
    by (rule procs_ok_holder [OF assms(2) lock_token(2)]) (use procsD [OF assms(2) lock_token(2)] lock_token in \<open>auto split: if_splits\<close>)
next
  case (unlink_token p prev i)
  show ?thesis unfolding unlink_token(1)
    by (rule procs_ok_holder [OF assms(2) unlink_token(2)]) (use procsD [OF assms(2) unlink_token(2)] unlink_token in \<open>auto split: if_splits\<close>)
next
  case (unlink_object p i)
  show ?thesis unfolding unlink_object(1)
    by (rule procs_ok_holder [OF assms(2) unlink_object(2)]) (use procsD [OF assms(2) unlink_object(2)] unlink_object in \<open>auto split: if_splits\<close>)
next
  case (open_object p i)
  show ?thesis unfolding open_object(1)
    by (rule procs_ok_holder [OF assms(2) open_object(2)]) (use procsD [OF assms(2) open_object(2)] open_object in \<open>auto split: if_splits\<close>)
next
  case (open_fault p i)
  show ?thesis unfolding open_fault(1)
    by (rule procs_ok_holder [OF assms(2) open_fault(2)]) (use procsD [OF assms(2) open_fault(2)] open_fault in \<open>auto split: if_splits\<close>)
next
  case (map_fault p i)
  show ?thesis unfolding map_fault(1)
    by (rule procs_ok_holder [OF assms(2) map_fault(2)]) (use procsD [OF assms(2) map_fault(2)] map_fault in \<open>auto split: if_splits\<close>)
next
  case (stamp p i)
  show ?thesis unfolding stamp(1)
    by (rule procs_ok_holder [OF assms(2) stamp(2)]) (use procsD [OF assms(2) stamp(2)] stamp in \<open>auto split: if_splits\<close>)
next
  case (ready p i)
  show ?thesis unfolding ready(1)
    by (rule procs_ok_holder [OF assms(2) ready(2)]) (use procsD [OF assms(2) ready(2)] ready in \<open>auto split: if_splits\<close>)
next
  case (retire_object p i ours)
  show ?thesis unfolding retire_object(1)
    by (rule procs_ok_holder [OF assms(2) retire_object(2)]) (use procsD [OF assms(2) retire_object(2)] retire_object in \<open>auto split: if_splits\<close>)
next
  case (close_token p i)
  show ?thesis unfolding close_token(1)
    by (rule procs_ok_holder [OF assms(2) close_token(2)]) (use procsD [OF assms(2) close_token(2)] close_token in \<open>auto split: if_splits\<close>)
next
  case (close_global p)
  show ?thesis unfolding close_global(1)
    by (rule procs_ok_holder [OF assms(2) close_global(2)]) (use procsD [OF assms(2) close_global(2)] close_global in \<open>auto split: if_splits\<close>)
qed

lemma numbersD:
  assumes "numbers_ok w"
  shows "number_of (lw_phase w p) = Some i \<Longrightarrow> i \<in> set (lw_grants w)" "lw_object w = Some (i, True) \<Longrightarrow> i \<in> set (lw_grants w)"
    "distinct (lw_grants w)"
  using assms by (auto simp: numbers_ok_def)

lemma number_of_token: "token_of x = Some i \<Longrightarrow> number_of x = Some i"
  by (cases x) auto

lemma numbers_ok_move:
  assumes "numbers_ok w" "lw_counter w' = lw_counter w" "lw_grants w' = lw_grants w" "lw_phase w' = lw_phase w"
    and "\<And>i. number_of x = Some i \<Longrightarrow> number_of (lw_phase w p) = Some i"
    and "\<And>i. lw_object w' = Some (i, True) \<Longrightarrow> lw_object w = Some (i, True) \<or> number_of (lw_phase w p) = Some i"
  shows "numbers_ok (to_phase p x w')"
  using assms unfolding numbers_ok_def by (auto split: if_splits)

lemma numbers_ok_step:
  assumes "lease_step w w'" "numbers_ok w" "length (lw_grants w') < 2 ^ 64"
  shows "numbers_ok w'"
  using assms(1)
proof (cases rule: lease_step.cases)
  case (advance p prev i)
  then have "length (lw_grants w) < 2 ^ 64 - 1" using assms(3) by simp
  note new = next_number [OF assms(2) this advance(3)]
  show ?thesis unfolding advance(1) numbers_ok_def using new(2,3) assms(2) by (auto simp: numbers_ok_def)
next
  case (killed p)
  show ?thesis unfolding killed(1)
    by (rule numbers_ok_move [OF assms(2)]) (use number_of_token in auto)
qed (auto intro!: numbers_ok_move [OF assms(2)] split: if_splits)

lemma grants_grow: "lease_step\<^sup>*\<^sup>* w w' \<Longrightarrow> length (lw_grants w) \<le> length (lw_grants w')"
proof (induction rule: rtranclp_induct)
  case (step y z)
  have "length (lw_grants y) \<le> length (lw_grants z)" using step(2) by (cases rule: lease_step.cases) auto
  then show ?case using step by simp
qed simp

lemma run_ok:
  assumes "lease_step\<^sup>*\<^sup>* w w'" "procs_ok w" "numbers_ok w" "length (lw_grants w') < 2 ^ 64"
  shows "procs_ok w' \<and> numbers_ok w'"
  using assms
proof (induction rule: rtranclp_induct)
  case (step y z)
  have "length (lw_grants y) < 2 ^ 64" using grants_grow [OF r_into_rtranclp [of lease_step, OF step(2)]] step.prems(3) by simp
  with step show ?case using procs_ok_step numbers_ok_step by blast
qed simp

lemma lease_start_ok: "procs_ok lease_start" "numbers_ok lease_start"
  by (simp_all add: lease_start_def procs_ok_def numbers_ok_def)

lemma reachable_ok: "lease_reachable w \<Longrightarrow> length (lw_grants w) < 2 ^ 64 \<Longrightarrow> procs_ok w \<and> numbers_ok w"
  using run_ok [OF _ lease_start_ok] by (simp add: lease_reachable_def)

text \<open>An incarnation that is granted, whose token nobody holds and nobody is about to take, stays so.\<close>

definition spent :: "u64 \<Rightarrow> lease_world \<Rightarrow> bool" where
  "spent i w \<longleftrightarrow> i \<in> set (lw_grants w) \<and> lw_tokens w i = None \<and> (\<forall>p prev. lw_phase w p \<noteq> Advanced prev i)"

lemma spent_step:
  assumes "lease_step w w'" "spent i w" "numbers_ok w" "length (lw_grants w') < 2 ^ 64"
  shows "spent i w'"
  using assms(1)
proof (cases rule: lease_step.cases)
  case (advance p prev j)
  then have "length (lw_grants w) < 2 ^ 64 - 1" using assms(4) by simp
  from next_number(3) [OF assms(3) this advance(3)] have "j \<noteq> i" using assms(2) by (auto simp: spent_def)
  then show ?thesis using assms(2) advance by (auto simp: spent_def)
qed (use assms(2) in \<open>auto simp: spent_def split: if_splits\<close>)

lemma spent_run:
  assumes "lease_step\<^sup>*\<^sup>* w w'" "spent i w" "procs_ok w" "numbers_ok w" "length (lw_grants w') < 2 ^ 64"
  shows "spent i w'"
  using assms
proof (induction rule: rtranclp_induct)
  case (step y z)
  have "length (lw_grants y) < 2 ^ 64" using grants_grow [OF r_into_rtranclp [of lease_step, OF step(2)]] step.prems(4) by simp
  with step show ?case using run_ok [OF step(1)] spent_step [OF step(2)] by simp
qed simp

lemma corpse_spent:
  assumes "procs_ok w" "numbers_ok w" "lw_object w = Some (i, True)" "lw_tokens w i = None"
  shows "spent i w"
  using assms procsD [OF assms(1)] numbersD(2) [OF assms(2)] unfolding spent_def by fastforce

lemma token_holder:
  assumes "procs_ok w" "lw_tokens w i = Some p" shows "token_of (lw_phase w p) = Some i"
  using procsD [OF assms(1) refl, of p] assms(2) by (cases "lw_phase w p") auto

section \<open>Claims\<close>

text \<open>A world with a live writer, and one in which that writer has been killed and its token is released.\<close>

definition writer_up :: "nat \<Rightarrow> u64 \<Rightarrow> u64 \<Rightarrow> lease_world \<Rightarrow> lease_world" where
  "writer_up p prev i w = to_phase p (Owner i)
     \<lparr>lw_counter = i, lw_global = Some p,
      lw_tokens = (let T = (lw_tokens w)(i := Some p) in if prev \<noteq> 0 \<and> prev \<noteq> i then T(prev := None) else T),
      lw_object = Some (i, True), lw_phase = lw_phase w, lw_grants = i # lw_grants w\<rparr>"

definition leased_world :: "nat \<Rightarrow> lease_world \<Rightarrow> phase \<Rightarrow> u64 \<Rightarrow> (u64 \<Rightarrow> nat option) \<Rightarrow> (u64 \<times> bool) option \<Rightarrow> u64 list \<Rightarrow> lease_world" where
  "leased_world p w x c T ob gs =
     \<lparr>lw_counter = c, lw_global = Some p, lw_tokens = T, lw_object = ob, lw_phase = (lw_phase w)(p := x), lw_grants = gs\<rparr>"

lemma leased_step:
  assumes "lease_step (leased_world p w x c T ob gs) (to_phase p y w')"
    and "w' = leased_world p w x c' T' ob' gs'"
  shows "lease_step\<^sup>*\<^sup>* (leased_world p w x c T ob gs) (leased_world p w y c' T' ob' gs')"
  using assms by (auto simp: leased_world_def to_phase_def)

lemma takes_over:
  assumes "lw_phase w p = Outside" "lw_global w = None" "advance_counter (lw_counter w) = (prev, i)" "lw_tokens w i = None"
  shows "lease_step\<^sup>*\<^sup>* w (writer_up p prev i w)"
proof -
  define F where "F = leased_world p w"
  define T where "T = (lw_tokens w)(i := Some p)"
  define U where "U = (if prev \<noteq> 0 \<and> prev \<noteq> i then T(prev := None) else T)"
  define gs where "gs = i # lw_grants w"
  note F = F_def leased_world_def
  have "F Locked (lw_counter w) (lw_tokens w) (lw_object w) (lw_grants w) = to_phase p Locked (w\<lparr>lw_global := Some p\<rparr>)"
    by (rule lease_world.equality) (simp_all add: F)
  then have 1: "lease_step\<^sup>*\<^sup>* w (F Locked (lw_counter w) (lw_tokens w) (lw_object w) (lw_grants w))"
    using lock_global [OF assms(1,2)] by (simp add: r_into_rtranclp)
  have 2: "lease_step\<^sup>*\<^sup>* (F Locked (lw_counter w) (lw_tokens w) (lw_object w) (lw_grants w)) (F (Advanced prev i) i (lw_tokens w) (lw_object w) gs)"
    unfolding F_def gs_def by (rule leased_step [OF advance]) (use assms(3) in \<open>simp_all add: leased_world_def\<close>)
  have 3: "lease_step\<^sup>*\<^sup>* (F (Advanced prev i) i (lw_tokens w) (lw_object w) gs) (F (Granted prev i) i T (lw_object w) gs)"
    unfolding F_def T_def by (rule leased_step [OF lock_token]) (use assms(4) in \<open>simp_all add: leased_world_def\<close>)
  have 4: "lease_step\<^sup>*\<^sup>* (F (Granted prev i) i T (lw_object w) gs) (F (Leased i) i U (lw_object w) gs)"
    unfolding F_def by (rule leased_step [OF unlink_token]) (auto simp: leased_world_def U_def)
  have 5: "lease_step\<^sup>*\<^sup>* (F (Leased i) i U (lw_object w) gs) (F (Unlinked i) i U None gs)"
    unfolding F_def by (rule leased_step [OF unlink_object]) (simp_all add: leased_world_def)
  have 6: "lease_step\<^sup>*\<^sup>* (F (Unlinked i) i U None gs) (F (Creating i) i U (Some (0, False)) gs)"
    unfolding F_def by (rule leased_step [OF open_object]) (simp_all add: leased_world_def)
  have 7: "lease_step\<^sup>*\<^sup>* (F (Creating i) i U (Some (0, False)) gs) (F (Stamped i) i U (Some (i, False)) gs)"
    unfolding F_def by (rule leased_step [OF stamp]) (simp_all add: leased_world_def)
  have 8: "lease_step\<^sup>*\<^sup>* (F (Stamped i) i U (Some (i, False)) gs) (F (Owner i) i U (Some (i, True)) gs)"
    unfolding F_def by (rule leased_step [OF ready]) (simp_all add: leased_world_def)
  have "F (Owner i) i U (Some (i, True)) gs = writer_up p prev i w"
    by (simp add: F U_def T_def gs_def writer_up_def to_phase_def Let_def)
  moreover note rtranclp_trans [OF rtranclp_trans [OF rtranclp_trans [OF 1 2] rtranclp_trans [OF 3 4]]
    rtranclp_trans [OF rtranclp_trans [OF 5 6] rtranclp_trans [OF 7 8]]]
  ultimately show ?thesis by simp
qed

definition live_world :: lease_world where
  "live_world = writer_up 0 0 1 lease_start"

definition crashed_world :: lease_world where
  "crashed_world =
     to_phase 0 (Exiting True None)
       ((to_phase 0 (Exiting True (Some 1)) live_world)\<lparr>lw_tokens := (lw_tokens live_world)(1 := None)\<rparr>)"

lemma live_world_reachable: "lease_reachable live_world"
  unfolding lease_reachable_def live_world_def
  by (rule takes_over) (simp_all add: lease_start_def advance_counter_def)

lemma live_world_fields:
  "lw_phase live_world 0 = Owner 1" "lw_object live_world = Some (1, True)" "lw_tokens live_world 1 = Some 0"
  "lw_global live_world = Some 0" "lw_grants live_world = [1]"
  by (simp_all add: live_world_def writer_up_def lease_start_def)

lemma crash_steps: "lease_step\<^sup>*\<^sup>* live_world crashed_world"
proof -
  let ?k = "to_phase 0 (Exiting True (Some 1)) live_world"
  have "lease_step live_world ?k"
    using killed [of live_world 0] by (simp add: live_world_fields)
  moreover have "lease_step ?k crashed_world"
    using release_token [of ?k 0 True 1] by (simp add: live_world_fields crashed_world_def)
  ultimately show ?thesis by (auto intro: rtranclp.rtrancl_into_rtrancl)
qed

lemma crashed_world_fields:
  "lw_object crashed_world = Some (1, True)" "lw_tokens crashed_world 1 = None" "lw_grants crashed_world = [1]"
  by (simp_all add: crashed_world_def live_world_fields)

text \<open>C33: One owner, and its sessions read it as current. In every reachable world (before \<open>2^64\<close> grants), however
  writers start, crash and exit around it, a process that owns the block with incarnation \<open>i\<close> at both ends of a
  read makes a consumer attached to \<open>i\<close>, if its token probe answers, read \<open>Current\<close>, and meanwhile every other process is outside the lease, with at
  most a token it is losing: no second writer can replace or unlink the object. No incarnation is granted twice.\<close>

theorem owner_serves_alone:
  assumes "lease_reachable w" "lease_step\<^sup>*\<^sup>* w w'" "length (lw_grants w') < 2 ^ 64"
    and "lw_phase w p = Owner i" "lw_phase w' p = Owner i"
  shows "session_view (True, g) w w' wg i = WsCurrent \<and> distinct (lw_grants w')
    \<and> (\<forall>q. q = p \<or> lw_phase w' q = Outside \<or> (\<exists>t. lw_phase w' q = Exiting False t))"
proof -
  have "length (lw_grants w) < 2 ^ 64" using grants_grow [OF assms(2)] assms(3) by simp
  note ok = reachable_ok [OF assms(1) this]
  then have ok': "procs_ok w'" "numbers_ok w'" using run_ok [OF assms(2) _ _ assms(3)] by auto
  have own: "lw_global w' = Some p" "lw_tokens w' i = Some p" "lw_object w = Some (i, True)"
    using procsD [OF ok'(1) assms(5)] procsD [OF conjunct1 [OF ok] assms(4)] by auto
  have "q = p \<or> lw_phase w' q = Outside \<or> (\<exists>t. lw_phase w' q = Exiting False t)" for q
    using procsD [OF ok'(1) refl, of q] own(1) by (cases "lw_phase w' q") auto
  then show ?thesis using own ok' numbersD(3) by (auto simp: session_current)
qed

theorem owner_serves_alone_witness:
  "session_view (True, False) live_world live_world lease_start 1 = WsCurrent \<and> distinct (lw_grants live_world)
    \<and> (\<forall>q. q = 0 \<or> lw_phase live_world q = Outside \<or> (\<exists>t. lw_phase live_world q = Exiting False t))"
  by (rule owner_serves_alone [OF live_world_reachable rtranclp.rtrancl_refl]) (simp_all add: live_world_fields)

text \<open>Current means written by a live holder. In every reachable world, a consumer attached to incarnation \<open>i\<close> that
  reads \<open>Current\<close> (its block mapped in \<open>wb\<close>, the token probed later in \<open>wt\<close>) had before it the finished block of the
  process that held the token of \<open>i\<close>, the owner or one that has just been killed; never a half-made block, and
  never the block of a writer that was dead when the block was read.\<close>

lemma current_is_held:
  assumes "lease_reachable wb" "lease_step\<^sup>*\<^sup>* wb wt" "length (lw_grants wt) < 2 ^ 64" "session_view ok wb wt wg i = WsCurrent"
  shows "lw_object wb = Some (i, True) \<and> (\<exists>p. lw_tokens wb i = Some p
    \<and> (lw_phase wb p = Owner i \<or> (\<exists>g. lw_phase wb p = Exiting g (Some i))))"
proof -
  have "length (lw_grants wb) < 2 ^ 64" using grants_grow [OF assms(2)] assms(3) by simp
  note ok = reachable_ok [OF assms(1) this]
  have cur: "lw_object wb = Some (i, True)" "lw_tokens wt i \<noteq> None" using assms(4) by (auto simp: session_current)
  have "lw_tokens wb i \<noteq> None"
    using spent_run [OF assms(2) corpse_spent [OF _ _ cur(1)]] ok assms(3) cur(2) by (auto simp: spent_def)
  then obtain p where p: "lw_tokens wb i = Some p" by blast
  then have "lw_phase wb p = Owner i \<or> (\<exists>g. lw_phase wb p = Exiting g (Some i))"
    using procsD [OF conjunct1 [OF ok] refl, of p] token_holder [OF conjunct1 [OF ok] p] cur(1)
    by (cases "lw_phase wb p") auto
  with p cur(1) show ?thesis by blast
qed

lemma current_is_held_witness:
  "lw_object live_world = Some (1, True) \<and> (\<exists>p. lw_tokens live_world 1 = Some p
    \<and> (lw_phase live_world p = Owner 1 \<or> (\<exists>g. lw_phase live_world p = Exiting g (Some 1))))"
  by (rule current_is_held [OF live_world_reachable rtranclp.rtrancl_refl, where wg = lease_start and ok = "(True, True)"])
    (simp_all add: live_world_fields session_current)

text \<open>C32: A corpse is never revived. Once the block of incarnation \<open>i\<close> is there and its token is free, no later
  sequence of starts, crashes and takeovers makes a consumer attached to \<open>i\<close> read \<open>Current\<close> again, whatever moments of
  it the read spans and whether its probes answer or fail, not even inside a successor's takeover, when the name still
  resolves to the dead writer's block and the global lease is held.\<close>

theorem corpse_never_revived:
  assumes "lease_reachable w" "lw_object w = Some (i, True)" "lw_tokens w i = None"
    and "lease_step\<^sup>*\<^sup>* w w'" "length (lw_grants w') < 2 ^ 64"
  shows "lw_tokens w' i = None \<and> session_view ok wb w' wg i \<noteq> WsCurrent"
proof -
  have "length (lw_grants w) < 2 ^ 64" using grants_grow [OF assms(4)] assms(5) by simp
  note ok = reachable_ok [OF assms(1) this]
  have "spent i w'" using spent_run [OF assms(4) corpse_spent] ok assms(2,3,5) by blast
  then show ?thesis by (simp add: spent_def session_current)
qed

definition taken_over_world :: lease_world where
  "taken_over_world = writer_up 1 1 2 (to_phase 0 (Exiting False None) (crashed_world\<lparr>lw_global := None\<rparr>))"

lemma takeover_steps: "lease_step\<^sup>*\<^sup>* crashed_world taken_over_world"
proof -
  have "lease_step crashed_world (to_phase 0 (Exiting False None) (crashed_world\<lparr>lw_global := None\<rparr>))"
    using release_global [of crashed_world 0 None] by (simp add: crashed_world_def)
  moreover have "lease_step\<^sup>*\<^sup>* (to_phase 0 (Exiting False None) (crashed_world\<lparr>lw_global := None\<rparr>)) taken_over_world"
    unfolding taken_over_world_def
    by (rule takes_over) (simp_all add: crashed_world_def live_world_def writer_up_def lease_start_def advance_counter_def)
  ultimately show ?thesis by (rule converse_rtranclp_into_rtranclp)
qed

theorem corpse_never_revived_witness:
  "lw_tokens taken_over_world 1 = None \<and> session_view (True, True) crashed_world taken_over_world lease_start 1 \<noteq> WsCurrent"
proof (rule corpse_never_revived [OF _ crashed_world_fields(1,2) takeover_steps])
  show "lease_reachable crashed_world"
    using live_world_reachable crash_steps unfolding lease_reachable_def by (rule rtranclp_trans)
  show "length (lw_grants taken_over_world) < 2 ^ 64"
    by (simp add: taken_over_world_def writer_up_def crashed_world_fields)
qed

text \<open>C34: A dead writer never bars its successor. In every reachable world in which the global lease is free, any process
  outside it can take over: a run of the code's own steps leads to a world where it owns a new block, and consumers of
  that block whose token probe answers read \<open>Current\<close>.\<close>

theorem successor_takes_over:
  assumes "lease_reachable w" "length (lw_grants w) < 2 ^ 64 - 1" "lw_global w = None" "lw_phase w p = Outside"
  shows "\<exists>w' i. lease_step\<^sup>*\<^sup>* w w' \<and> lw_phase w' p = Owner i \<and> i \<notin> set (lw_grants w) \<and> session_view (True, g) w' w' w' i = WsCurrent"
proof -
  note ok = reachable_ok [OF assms(1)]
  obtain prev i where adv: "advance_counter (lw_counter w) = (prev, i)" by fastforce
  have fresh: "i \<notin> set (lw_grants w)" using next_number(3) [OF _ assms(2) adv] ok assms(2) by simp
  have "lw_tokens w i = None"
  proof (rule ccontr)
    assume "lw_tokens w i \<noteq> None"
    then obtain q where "lw_tokens w i = Some q" by blast
    then show False using token_holder numbersD(1) number_of_token ok assms(2) fresh by fastforce
  qed
  then have "lease_step\<^sup>*\<^sup>* w (writer_up p prev i w)" by (rule takes_over [OF assms(4,3) adv])
  moreover have "i \<noteq> prev" using next_number(1,2) [OF _ assms(2) adv] ok assms(2) by (auto simp: numbers_ok_def)
  ultimately show ?thesis using fresh
    by (intro exI [of _ "writer_up p prev i w"] exI [of _ i]) (simp add: writer_up_def session_current Let_def)
qed

theorem successor_takes_over_witness:
  "\<exists>w' i. lease_step\<^sup>*\<^sup>* lease_start w' \<and> lw_phase w' 7 = Owner i \<and> i \<notin> set (lw_grants lease_start)
    \<and> session_view (True, True) w' w' w' i = WsCurrent"
  by (rule successor_takes_over) (simp_all add: lease_reachable_def lease_start_def)

end
