(* ===== verification/F64.thy ===== *)
theory F64
  imports Domain MavlinkWire
begin

text \<open>
  IEEE-754 binary64 as 64-bit patterns, for the geodetic angles of the source, and the casts of the language from a
  float to an integer. The scheme is that of \<open>F32\<close>: a finite value is an integer multiple of \<open>2 ^ -1074\<close>, and an
  operation is the exact one on those integers, rounded once to nearest even.
\<close>

section \<open>Casts to integers\<close>

text \<open>\<open>x as iN\<close>: truncation toward zero, saturating at the bounds of the target, zero for NaN.\<close>

definition saturate :: "int \<Rightarrow> int \<Rightarrow> int \<Rightarrow> int" where
  "saturate lo hi n = max lo (min hi n)"

definition f32_to_int :: "int \<Rightarrow> int \<Rightarrow> f32 \<Rightarrow> int" where
  "f32_to_int lo hi x =
     (if f32_is_nan x then 0
      else if f32_is_inf x then (if f32_sign x then lo else hi)
      else let n = f32_scaled_mag (f32_mag x) div 2 ^ 149
           in saturate lo hi (if f32_sign x then - n else n))"

definition f32_to_i16 :: "f32 \<Rightarrow> i16" where
  "f32_to_i16 x = word_of_int (f32_to_int (- (2 ^ 15)) (2 ^ 15 - 1) x)"

definition f32_to_i32 :: "f32 \<Rightarrow> i32" where
  "f32_to_i32 x = word_of_int (f32_to_int (- (2 ^ 31)) (2 ^ 31 - 1) x)"

definition f32_to_u16 :: "f32 \<Rightarrow> u16" where
  "f32_to_u16 x = word_of_int (f32_to_int 0 (2 ^ 16 - 1) x)"

definition f32_to_u32 :: "f32 \<Rightarrow> u32" where
  "f32_to_u32 x = word_of_int (f32_to_int 0 (2 ^ 32 - 1) x)"

text \<open>\<open>n as f32\<close>.\<close>

definition f32_of_int :: "int \<Rightarrow> f32" where
  "f32_of_int n = f32_pack (n < 0) (f32_round_mag (\<bar>n\<bar> * 2 ^ 149) 1)"

text \<open>\<open>a % b\<close>: the exact remainder, with the sign of the dividend.\<close>

definition f32_rem :: "f32 \<Rightarrow> f32 \<Rightarrow> f32" where
  "f32_rem a b =
     (if f32_is_nan a \<or> f32_is_nan b \<or> f32_is_inf a \<or> f32_mag b = 0 then f32_nan
      else if f32_is_inf b then a
      else f32_pack (f32_sign a)
             (f32_round_mag (f32_scaled_mag (f32_mag a) mod f32_scaled_mag (f32_mag b)) 1))"

section \<open>Doubles\<close>

type_synonym f64 = "64 word"

definition f64_sign :: "f64 \<Rightarrow> bool" where
  "f64_sign x = bit x 63"

definition f64_mag :: "f64 \<Rightarrow> int" where
  "f64_mag x = uint (take_bit 63 x)"

definition f64_is_nan :: "f64 \<Rightarrow> bool" where
  "f64_is_nan x \<longleftrightarrow> 0x7FF0000000000000 < f64_mag x"

definition f64_is_inf :: "f64 \<Rightarrow> bool" where
  "f64_is_inf x \<longleftrightarrow> f64_mag x = 0x7FF0000000000000"

definition f64_pack :: "bool \<Rightarrow> int \<Rightarrow> f64" where
  "f64_pack neg m = (if neg then 0x8000000000000000 else 0) + word_of_int m"

definition f64_nan :: f64 where
  "f64_nan = 0x7FF8000000000000"

definition f64_neg :: "f64 \<Rightarrow> f64" where
  "f64_neg x = x XOR 0x8000000000000000"

definition f64_abs :: "f64 \<Rightarrow> f64" where
  "f64_abs x = take_bit 63 x"

definition f64_key :: "f64 \<Rightarrow> int" where
  "f64_key x = (if f64_sign x then - f64_mag x else f64_mag x)"

definition f64_lt :: "f64 \<Rightarrow> f64 \<Rightarrow> bool" where
  "f64_lt a b \<longleftrightarrow> \<not> f64_is_nan a \<and> \<not> f64_is_nan b \<and> f64_key a < f64_key b"

definition f64_round_mag :: "int \<Rightarrow> int \<Rightarrow> int" where
  "f64_round_mag num den =
     (let k = bitlen (num div den) - 53
      in min (round_div_even num (den * 2 ^ k) + int k * 2 ^ 52) 0x7FF0000000000000)"

definition f64_scaled_mag :: "int \<Rightarrow> int" where
  "f64_scaled_mag m =
     (let e = m div 2 ^ 52; f = m mod 2 ^ 52
      in if e = 0 then f else (2 ^ 52 + f) * 2 ^ nat (e - 1))"

definition f64_scaled :: "f64 \<Rightarrow> int" where
  "f64_scaled x = (if f64_sign x then - f64_scaled_mag (f64_mag x) else f64_scaled_mag (f64_mag x))"

definition f64_add :: "f64 \<Rightarrow> f64 \<Rightarrow> f64" where
  "f64_add a b =
     (if f64_is_nan a \<or> f64_is_nan b then f64_nan
      else if f64_is_inf a then (if f64_is_inf b \<and> f64_sign a \<noteq> f64_sign b then f64_nan else a)
      else if f64_is_inf b then b
      else (let s = f64_scaled a + f64_scaled b
            in if s = 0 then f64_pack (f64_sign a \<and> f64_sign b) 0
               else f64_pack (s < 0) (f64_round_mag \<bar>s\<bar> 1)))"

definition f64_sub :: "f64 \<Rightarrow> f64 \<Rightarrow> f64" where
  "f64_sub a b = f64_add a (f64_neg b)"

definition f64_mul :: "f64 \<Rightarrow> f64 \<Rightarrow> f64" where
  "f64_mul a b =
     (let neg = (f64_sign a \<noteq> f64_sign b)
      in if f64_is_nan a \<or> f64_is_nan b then f64_nan
         else if f64_is_inf a \<or> f64_is_inf b
           then (if f64_mag a = 0 \<or> f64_mag b = 0 then f64_nan else f64_pack neg 0x7FF0000000000000)
         else f64_pack neg (f64_round_mag \<bar>f64_scaled a * f64_scaled b\<bar> (2 ^ 1074)))"

definition f64_div :: "f64 \<Rightarrow> f64 \<Rightarrow> f64" where
  "f64_div a b =
     (let neg = (f64_sign a \<noteq> f64_sign b)
      in if f64_is_nan a \<or> f64_is_nan b then f64_nan
         else if f64_is_inf a then (if f64_is_inf b then f64_nan else f64_pack neg 0x7FF0000000000000)
         else if f64_is_inf b then f64_pack neg 0
         else if f64_mag b = 0 then (if f64_mag a = 0 then f64_nan else f64_pack neg 0x7FF0000000000000)
         else f64_pack neg (f64_round_mag (\<bar>f64_scaled a\<bar> * 2 ^ 1074) \<bar>f64_scaled b\<bar>))"

definition f64_lit :: "int \<Rightarrow> int \<Rightarrow> f64" where
  "f64_lit num den = f64_pack False (f64_round_mag (num * 2 ^ 1074) den)"

definition f64_is_finite :: "f64 \<Rightarrow> bool" where
  "f64_is_finite x \<longleftrightarrow> f64_mag x < 0x7FF0000000000000"

definition f64_of_int :: "int \<Rightarrow> f64" where
  "f64_of_int n = f64_pack (n < 0) (f64_round_mag (\<bar>n\<bar> * 2 ^ 1074) 1)"

text \<open>\<open>f64::from(x)\<close> is exact; \<open>x as f32\<close> rounds; \<open>x as i32\<close> truncates and saturates.\<close>

definition f64_of_f32 :: "f32 \<Rightarrow> f64" where
  "f64_of_f32 x =
     (if f32_is_nan x then f64_nan
      else if f32_is_inf x then f64_pack (f32_sign x) 0x7FF0000000000000
      else f64_pack (f32_sign x) (f64_round_mag (f32_scaled_mag (f32_mag x) * 2 ^ 925) 1))"

definition f32_of_f64 :: "f64 \<Rightarrow> f32" where
  "f32_of_f64 x =
     (if f64_is_nan x then f32_nan
      else if f64_is_inf x then f32_pack (f64_sign x) 0x7F800000
      else f32_pack (f64_sign x) (f32_round_mag (f64_scaled_mag (f64_mag x)) (2 ^ 925)))"

definition f64_to_i32 :: "f64 \<Rightarrow> i32" where
  "f64_to_i32 x =
     (if f64_is_nan x then 0
      else if f64_is_inf x then word_of_int (if f64_sign x then - (2 ^ 31) else 2 ^ 31 - 1)
      else let n = f64_scaled_mag (f64_mag x) div 2 ^ 1074
           in word_of_int (saturate (- (2 ^ 31)) (2 ^ 31 - 1) (if f64_sign x then - n else n)))"

section \<open>Ranges\<close>

lemma saturate_range: "lo \<le> hi \<Longrightarrow> lo \<le> saturate lo hi n \<and> saturate lo hi n \<le> hi"
  by (auto simp: saturate_def)

lemma f32_to_int_range: "lo \<le> 0 \<Longrightarrow> 0 \<le> hi \<Longrightarrow> lo \<le> f32_to_int lo hi x \<and> f32_to_int lo hi x \<le> hi"
  using saturate_range [of lo hi] by (auto simp: f32_to_int_def Let_def)

end
