(* ===== verification/BoardHal.thy ===== *)
theory BoardHal
  imports F64 Actuators
begin

text \<open>
  The board HAL (\<open>aviate-hal/io\<close>: \<open>board_hal.rs\<close>, \<open>traits.rs\<close>, \<open>error.rs\<close>): what the drivers answer becomes the
  readings the kernel sees, and the kernel's command becomes what the actuator driver buffers (\<open>fake.rs\<close>).
  A driver is a trait; what it answers when it is asked is its input here.
\<close>

section \<open>Sensor drivers\<close>

datatype sensor_error =
  BusError | SensorTimeout | DeviceNotFound | InvalidData | InvalidState | CalibrationError | InitFailed | ConfigFailed

fun to_health :: "sensor_error \<Rightarrow> sensor_health" where
  "to_health BusError = SensorFailed"
| "to_health DeviceNotFound = SensorFailed"
| "to_health InitFailed = SensorFailed"
| "to_health SensorTimeout = SensorDegraded"
| "to_health InvalidData = SensorDegraded"
| "to_health InvalidState = SensorDegraded"
| "to_health CalibrationError = SensorDegraded"
| "to_health ConfigFailed = SensorDegraded"

text \<open>The answers of a driver in one poll, the clock at that moment and the driver's id.\<close>

record 'a driver =
  dv_ready :: "(bool, sensor_error) result"
  dv_read :: "('a, sensor_error) result"
  dv_source :: u8
  dv_now :: u64

record raw_imu_reading =
  ri_accel :: vec3
  ri_gyro :: vec3
  ri_temperature :: "f32 option"

record raw_baro_reading =
  rb_pressure_pa :: f32
  rb_differential_pressure_pa :: "f32 option"
  rb_pressure_altitude_m :: "f32 option"
  rb_temperature_c :: f32

record raw_mag_reading =
  rm_field_ut :: vec3

text \<open>The kernel is given position, velocity and kind of fix; the other fields go to telemetry.\<close>

record raw_gnss_reading =
  rg_lat_deg :: f64
  rg_lon_deg :: f64
  rg_alt_m :: f32
  rg_position_ned :: vec3
  rg_vel_ned :: vec3
  rg_fix :: gnss_fix
  rg_h_acc :: f32
  rg_v_acc :: f32
  rg_satellites :: u8

definition altitude_m :: "(f32 \<Rightarrow> f32 \<Rightarrow> f32) \<Rightarrow> raw_baro_reading \<Rightarrow> f32" where
  "altitude_m pow raw =
     (let ratio = f32_div (rb_pressure_pa raw) (f32_lit 101325 1)
      in f32_mul (f32_lit 4433077 100) (f32_sub f1 (pow ratio (f32_lit 190284 1000000))))"

section \<open>Defaults\<close>

definition sensor_reading_default :: "'a \<Rightarrow> 'a sensor_reading" where
  "sensor_reading_default v =
     \<lparr>rd_value = v, rd_valid = False, rd_source_id = 0, rd_timestamp = timestamp_default, rd_health = NotAvailable\<rparr>"

definition imu_data_default :: imu_data where
  "imu_data_default = \<lparr>accel = (f0, f0, f0), gyro = (f0, f0, f0)\<rparr>"

definition gnss_data_default :: gnss_data where
  "gnss_data_default =
     \<lparr>gnss_position_ned = (f0, f0, f0), gnss_velocity_ned = (f0, f0, f0), gnss_fix_type = NoFix, gnss_health_state = Lost\<rparr>"

definition mag_data_default :: mag_data where
  "mag_data_default = \<lparr>field_ut = (f0, f0, f0)\<rparr>"

definition air_data_default :: air_data where
  "air_data_default =
     \<lparr>static_pressure = None, dynamic_pressure = None, total_pressure = None, temperature = None,
      indicated_airspeed = None, true_airspeed = None\<rparr>"

definition baro_data_default :: baro_data where
  "baro_data_default = \<lparr>baro_altitude = None, baro_air = air_data_default\<rparr>"

definition airspeed_data_default :: airspeed_data where
  "airspeed_data_default = \<lparr>airspeed_air = air_data_default\<rparr>"

section \<open>Readings\<close>

definition hal_timestamp :: "u64 \<Rightarrow> timestamp" where
  "hal_timestamp now = \<lparr>ts_ticks = now, ts_source = Internal\<rparr>"

definition read_imu :: "raw_imu_reading driver \<Rightarrow> imu_data sensor_reading option" where
  "read_imu d =
     (case dv_ready d of
        Ok True \<Rightarrow>
          Some (case dv_read d of
                  Ok raw \<Rightarrow> \<lparr>rd_value = \<lparr>accel = ri_accel raw, gyro = ri_gyro raw\<rparr>, rd_valid = True,
                             rd_source_id = dv_source d, rd_timestamp = hal_timestamp (dv_now d), rd_health = SensorGood\<rparr>
                | Err e \<Rightarrow> \<lparr>rd_value = imu_data_default, rd_valid = False, rd_source_id = dv_source d,
                            rd_timestamp = hal_timestamp (dv_now d), rd_health = to_health e\<rparr>)
      | Ok False \<Rightarrow> None
      | Err _ \<Rightarrow> None)"

definition read_baro :: "(f32 \<Rightarrow> f32 \<Rightarrow> f32) \<Rightarrow> raw_baro_reading driver \<Rightarrow> baro_data sensor_reading option" where
  "read_baro pow d =
     (case dv_ready d of
        Ok True \<Rightarrow>
          Some (case dv_read d of
                  Ok raw \<Rightarrow>
                    \<lparr>rd_value =
                       \<lparr>baro_altitude = Some (case rb_pressure_altitude_m raw of Some a \<Rightarrow> a | None \<Rightarrow> altitude_m pow raw),
                        baro_air =
                          \<lparr>static_pressure = Some (rb_pressure_pa raw), dynamic_pressure = rb_differential_pressure_pa raw,
                           total_pressure = None, temperature = Some (rb_temperature_c raw),
                           indicated_airspeed = None, true_airspeed = None\<rparr>\<rparr>,
                     rd_valid = True, rd_source_id = dv_source d, rd_timestamp = hal_timestamp (dv_now d),
                     rd_health = SensorGood\<rparr>
                | Err e \<Rightarrow> \<lparr>rd_value = baro_data_default, rd_valid = False, rd_source_id = dv_source d,
                            rd_timestamp = hal_timestamp (dv_now d), rd_health = to_health e\<rparr>)
      | Ok False \<Rightarrow> None
      | Err _ \<Rightarrow> None)"

definition read_mag :: "raw_mag_reading driver \<Rightarrow> mag_data sensor_reading option" where
  "read_mag d =
     (case dv_ready d of
        Ok True \<Rightarrow>
          Some (case dv_read d of
                  Ok raw \<Rightarrow> \<lparr>rd_value = \<lparr>field_ut = rm_field_ut raw\<rparr>, rd_valid = True, rd_source_id = dv_source d,
                             rd_timestamp = hal_timestamp (dv_now d), rd_health = SensorGood\<rparr>
                | Err e \<Rightarrow> \<lparr>rd_value = mag_data_default, rd_valid = False, rd_source_id = dv_source d,
                            rd_timestamp = hal_timestamp (dv_now d), rd_health = to_health e\<rparr>)
      | Ok False \<Rightarrow> None
      | Err _ \<Rightarrow> None)"

definition read_gnss :: "raw_gnss_reading driver \<Rightarrow> gnss_data sensor_reading option" where
  "read_gnss d =
     (case dv_ready d of
        Ok True \<Rightarrow>
          Some (case dv_read d of
                  Ok raw \<Rightarrow>
                    (let health = (if rg_fix raw = NoFix then Lost else GnssGood)
                     in \<lparr>rd_value =
                           \<lparr>gnss_position_ned = rg_position_ned raw, gnss_velocity_ned = rg_vel_ned raw,
                            gnss_fix_type = rg_fix raw, gnss_health_state = health\<rparr>,
                         rd_valid = (rg_fix raw \<noteq> NoFix), rd_source_id = dv_source d,
                         rd_timestamp = hal_timestamp (dv_now d),
                         rd_health = (if health = GnssGood then SensorGood else SensorFailed)\<rparr>)
                | Err e \<Rightarrow> \<lparr>rd_value = gnss_data_default, rd_valid = False, rd_source_id = dv_source d,
                            rd_timestamp = hal_timestamp (dv_now d), rd_health = to_health e\<rparr>)
      | Ok False \<Rightarrow> None
      | Err _ \<Rightarrow> None)"

section \<open>The actuator driver\<close>

definition MAX_ACTUATOR_OUTPUTS :: nat where
  "MAX_ACTUATOR_OUTPUTS = 16"

record raw_actuator_cmd =
  ra_outputs :: "f32 list"
  ra_count :: u8

record fake_actuator =
  fa_cmd :: "raw_actuator_cmd option"
  fa_armed :: bool

definition fake_actuator_new :: fake_actuator where
  "fake_actuator_new = \<lparr>fa_cmd = None, fa_armed = False\<rparr>"

definition fa_write :: "raw_actuator_cmd \<Rightarrow> fake_actuator \<Rightarrow> fake_actuator" where
  "fa_write c a = a\<lparr>fa_cmd := Some c\<rparr>"

definition fa_take_cmd :: "fake_actuator \<Rightarrow> fake_actuator \<times> raw_actuator_cmd option" where
  "fa_take_cmd a = (a\<lparr>fa_cmd := None\<rparr>, fa_cmd a)"

definition fa_arm :: "fake_actuator \<Rightarrow> fake_actuator" where
  "fa_arm a = a\<lparr>fa_armed := True\<rparr>"

definition fa_disarm :: "fake_actuator \<Rightarrow> fake_actuator" where
  "fa_disarm a = a\<lparr>fa_armed := False, fa_cmd := None\<rparr>"

text \<open>\<open>BoardHal::write\<close>: the normalised outputs in their places, zero beyond them, and the number of active channels.\<close>

definition raw_command :: "actuator_cmd \<Rightarrow> raw_actuator_cmd" where
  "raw_command cmd =
     \<lparr>ra_outputs = map (\<lambda>i. if i < length (outputs cmd) then outputs cmd ! i else f0) [0..<MAX_ACTUATOR_OUTPUTS],
      ra_count = of_nat (length (filter (bit (active_mask cmd)) [0..<16]))\<rparr>"

definition hal_write :: "actuator_cmd \<Rightarrow> fake_actuator \<Rightarrow> fake_actuator" where
  "hal_write cmd a = fa_write (raw_command cmd) a"

section \<open>What a reading says\<close>

text \<open>A reading that claims to be good carries the driver's data; an error never reads as good; a receiver
  without a fix never does either.\<close>

lemma to_health_not_good: "to_health e \<noteq> SensorGood"
  by (cases e) simp_all

lemma imu_reading_good:
  "read_imu d = Some r \<Longrightarrow> rd_valid r \<or> rd_health r = SensorGood
     \<Longrightarrow> \<exists>raw. dv_read d = Ok raw \<and> rd_value r = \<lparr>accel = ri_accel raw, gyro = ri_gyro raw\<rparr>"
  using to_health_not_good by (auto simp: read_imu_def split: sum.splits bool.splits)

lemma gnss_reading_good:
  "read_gnss d = Some r \<Longrightarrow> rd_valid r \<or> rd_health r = SensorGood
     \<Longrightarrow> \<exists>raw. dv_read d = Ok raw \<and> rg_fix raw \<noteq> NoFix \<and> gnss_position_ned (rd_value r) = rg_position_ned raw
           \<and> gnss_velocity_ned (rd_value r) = rg_vel_ned raw \<and> rd_valid r \<and> rd_health r = SensorGood"
  using to_health_not_good by (auto simp: read_gnss_def Let_def split: sum.splits bool.splits if_splits)

lemma raw_command_nth:
  "k < MAX_ACTUATOR_OUTPUTS \<Longrightarrow> length (outputs c) = MAX_ACTUATORS \<Longrightarrow> ra_outputs (raw_command c) ! k = outputs c ! k"
  by (simp add: raw_command_def MAX_ACTUATOR_OUTPUTS_def MAX_ACTUATORS_def)

end
