(* ===== verification/CycleControl.thy ===== *)
theory CycleControl
  imports CascadeKernel
begin

text \<open>
  What a cycle of the kernel asks of its controller. A whole \<open>update\<close> either withholds the command and emits the safe
  pattern, or calls the controller exactly once, on the command, the flags and the estimate that its result reports,
  and sends what the controller answers through mixer, sanitizer and slew limiter. The command it is called on is one
  the controller supports, and closes its loops over valid state only.
\<close>

section \<open>The controller's call\<close>

text \<open>The flags a result stands for, and the call of a controller in state \<open>ctl\<close> on what the result reports.\<close>

definition reported_flags :: "update_result \<Rightarrow> vehicle_control_mode" where
  "reported_flags r = with_mode_entry (from_control_mode (cmd_mode (ur_effective_command r))) (st_mode_entry (ur_status r))"

definition controller_call ::
  "('e, 'r) pipeline \<Rightarrow> resolved_config \<Rightarrow> cycle_input \<Rightarrow> update_result \<Rightarrow> config_mode \<Rightarrow> 'r \<Rightarrow> controller_step \<times> 'r" where
  "controller_call p cfg ci r mode ctl =
     p_step p (p_set_cycle_interval p ctl (dt_sec (ci_time ci))) (ur_estimate r) (ur_effective_command r)
       (reported_flags r) mode (cfg_limits cfg)"

text \<open>The cycle withheld the command, the controller being left in state \<open>ctl\<close>.\<close>

definition withheld ::
  "('e, 'r) pipeline \<Rightarrow> resolved_config \<Rightarrow> cycle_input \<Rightarrow> ('e, 'r) kernel_state \<Rightarrow> ('e, 'r) kernel_state \<Rightarrow> update_result
   \<Rightarrow> 'r \<Rightarrow> bool" where
  "withheld p cfg ci s s' r ctl \<longleftrightarrow>
     ks_controller s' = ctl \<and> ur_controller_observation r = observation_default
     \<and> ur_effective_command r = safe_effective_command (cmd_sequence (ci_command ci))
     \<and> (outputs (ur_actuator r) = cfg_safe_output cfg
        \<or> ur_actuator r = apply_slew_limit (safe_actuator_cmd cfg 0xF 0xFF (cmd_sequence (ci_command ci)) (cycle_timestamp ci))
             (as_commanded (ks_actuator_state s)) (cfg_slew_limit_per_cycle cfg))"

text \<open>The cycle called the controller, from state \<open>ctl\<close>, and flew its answer.\<close>

definition flown ::
  "('e, 'r) pipeline \<Rightarrow> resolved_config \<Rightarrow> cycle_input \<Rightarrow> ('e, 'r) kernel_state \<Rightarrow> ('e, 'r) kernel_state \<Rightarrow> update_result
   \<Rightarrow> 'r \<Rightarrow> bool" where
  "flown p cfg ci s s' r ctl \<longleftrightarrow>
     (let (step, ctl') = controller_call p cfg ci r (ks_mode s) ctl
      in ks_controller s' = ctl' \<and> ur_controller_observation r = cs_observation step
         \<and> ur_actuator r = apply_slew_limit (fst (p_sanitize p (p_mix p (cs_axis_command step)) (cfg_mode_config cfg) (ks_fallback s)))
             (as_commanded (ks_actuator_state s)) (cfg_slew_limit_per_cycle cfg))"

section \<open>An armed cycle\<close>

lemma controller_reset_times:
  "\<exists>n. ks_controller (terminal_release p (refresh_checks cfg ci e s)) = (p_controller_reset p ^^ n) (ks_controller s)"
  "\<exists>n. ks_controller (fst (decide_degradation p ts s)) = (p_controller_reset p ^^ n) (ks_controller s)"
proof -
  have step: "\<exists>n. x = (f ^^ n) c" if "x = c \<or> x = f c" for x c and f :: "'r \<Rightarrow> 'r"
  proof -
    have "x = (f ^^ 0) c \<or> x = (f ^^ 1) c" using that by auto
    then show ?thesis by blast
  qed
  show "\<exists>n. ks_controller (terminal_release p (refresh_checks cfg ci e s)) = (p_controller_reset p ^^ n) (ks_controller s)"
    by (rule step) (auto simp: terminal_release_def refresh_checks_def upd_in_flight_def reset_controller_def Let_def)
  show "\<exists>n. ks_controller (fst (decide_degradation p ts s)) = (p_controller_reset p ^^ n) (ks_controller s)"
    by (rule step)
      (auto simp: decide_degradation_def handle_degradation_def reset_controller_def Let_def split: option.split)
qed

lemma mode_frame [simp]:
  "ks_mode (terminal_release p s) = ks_mode s" "ks_mode (refresh_checks cfg ci e s) = ks_mode s"
  "ks_mode (fst (decide_degradation p ts s)) = ks_mode s" "ks_mode (observe_sensors p ci s) = ks_mode s"
  "ks_controller (observe_sensors p ci s) = ks_controller s"
  by (simp_all add: terminal_release_def refresh_checks_def decide_degradation_def handle_degradation_fields
      observe_sensors_def upd_in_flight_def Let_def split: option.split)

text \<open>The selection of an armed cycle, as its result reports it.\<close>

lemma armed_cycle_controlled:
  assumes "armed_cycle p cfg ci (cycle_timestamp ci) dt s = (s', r)"
  obtains s4 constrained n where
    "cmd_mode constrained = cmd_mode (ci_command ci)" "cmd_sequence constrained = cmd_sequence (ci_command ci)"
    "ks_control_law s4 = st_law (ur_status r)"
    "st_mode_entry (ur_status r) = decide_mode_entry p s4 constrained (valid_flags (ur_estimate r))"
    "ur_effective_command r = select_command p cfg
       (ks_control_law s4 = Backup \<or> is_unsupported (st_mode_entry (ur_status r))) (ks_control_law s4) (ur_estimate r)
       constrained (st_mode_entry (ur_status r))"
    "if ks_control_law s4 = Backup \<or> is_unsupported (st_mode_entry (ur_status r))
     then withheld p cfg ci s s' r ((p_controller_reset p ^^ n) (ks_controller s))
     else flown p cfg ci s s' r ((p_controller_reset p ^^ n) (ks_controller s))"
proof -
  let ?ts = "cycle_timestamp ci"
  define s1 est where "s1 = observe_sensors p ci s" and "est = p_estimate p (ks_estimator s1)"
  define s2 where "s2 = terminal_release p (refresh_checks cfg ci est s1)"
  define s3 dg where "s3 = fst (decide_degradation p ?ts s2)" and "dg = snd (decide_degradation p ?ts s2)"
  define con where "con = constrain (p_libm p) (cmd_setpoint (ci_command ci)) est (cfg_limits cfg) HardEnvelope"
  define s4 where "s4 = upd_in_flight (\<lambda>c. fl_update_from_envelope c (snd con)) s3"
  define cc where "cc = (ci_command ci)\<lparr>cmd_setpoint := fst con\<rparr>"
  define entry where "entry = decide_mode_entry p s4 cc (valid_flags est)"
  define s5 where "s5 = (if is_unsupported entry then reset_controller p s4 else s4)"
  define safe where "safe = (ks_control_law s5 = Backup \<or> is_unsupported entry)"
  define eff where "eff = select_command p cfg safe (ks_control_law s5) est cc entry"
  define c6 where "c6 = control_stage p cfg ci ?ts safe est eff entry s5"
  define a7 where "a7 = actuator_stage p cfg ?ts safe (fst (snd c6)) (fst c6)"
  note folds = s1_def [symmetric] est_def [symmetric] s2_def [symmetric] s3_def [symmetric] dg_def [symmetric]
    con_def [symmetric] s4_def [symmetric] cc_def [symmetric] entry_def [symmetric] s5_def [symmetric]
    safe_def [symmetric] eff_def [symmetric] c6_def [symmetric] a7_def [symmetric]
  note cycle = assms [unfolded armed_cycle_def Let_def split_beta, unfolded folds, symmetric]
  have s': "s' = fst a7" and r: "ur_effective_command r = eff" "ur_controller_observation r = snd (snd c6)"
    "ur_actuator r = fst (snd a7)" "ur_estimate r = est" "st_mode_entry (ur_status r) = entry"
    "st_law (ur_status r) = ks_control_law (fst a7)"
    using cycle by simp_all
  have law: "ks_control_law s5 = ks_control_law s4" "ks_control_law (fst a7) = ks_control_law s4"
    by (simp_all add: s5_def a7_def c6_def)
  have keep: "ks_actuator_state s5 = ks_actuator_state s" "ks_fallback s5 = ks_fallback s" "ks_mode s5 = ks_mode s"
    by (simp_all add: s5_def s4_def s3_def s2_def s1_def upd_in_flight_def reset_controller_def)
  obtain m where "ks_controller s3 = (p_controller_reset p ^^ m) (ks_controller s)"
  proof -
    obtain a where a: "ks_controller s2 = (p_controller_reset p ^^ a) (ks_controller s)"
      using controller_reset_times(1) [of p cfg ci est s1] by (auto simp: s2_def s1_def)
    obtain b where "ks_controller s3 = (p_controller_reset p ^^ b) (ks_controller s2)"
      using controller_reset_times(2) [of p ?ts s2] by (auto simp: s3_def)
    then have "ks_controller s3 = (p_controller_reset p ^^ (b + a)) (ks_controller s)" by (simp add: a funpow_add)
    then show thesis by (rule that)
  qed
  then have "ks_controller s5 = (p_controller_reset p ^^ (if is_unsupported entry then Suc m else m)) (ks_controller s)"
    by (simp add: s5_def s4_def upd_in_flight_def reset_controller_def)
  then obtain n where n: "ks_controller s5 = (p_controller_reset p ^^ n) (ks_controller s)" by blast
  have a7c: "ks_controller (fst a7) = ks_controller (fst c6)" by (simp add: a7_def actuator_stage_def Let_def split_beta)
  show ?thesis
  proof (rule that [of cc s4 n])
    show "if ks_control_law s4 = Backup \<or> is_unsupported (st_mode_entry (ur_status r))
      then withheld p cfg ci s s' r ((p_controller_reset p ^^ n) (ks_controller s))
      else flown p cfg ci s s' r ((p_controller_reset p ^^ n) (ks_controller s))"
    proof (cases safe)
      case True
      then have "withheld p cfg ci s s' r ((p_controller_reset p ^^ n) (ks_controller s))"
        by (simp add: withheld_def s' r a7c a7_def c6_def n [symmetric] eff_def cc_def select_command_def keep)
          (simp add: control_stage_def actuator_stage_def Let_def keep)
      then show ?thesis using True by (simp add: safe_def law r)
    next
      case False
      then have "flown p cfg ci s s' r ((p_controller_reset p ^^ n) (ks_controller s))"
        by (simp add: flown_def controller_call_def reported_flags_def s' r a7c a7_def c6_def n [symmetric]
            control_stage_def actuator_stage_def Let_def split_beta keep)
      then show ?thesis using False by (simp add: safe_def law r)
    qed
  qed (simp_all add: cc_def r law entry_def eff_def safe_def)
qed

text \<open>A cycle that does not reach the controller.\<close>

lemma unarmed_withheld:
  assumes "ks_init_state s \<noteq> Armed" "update p cfg ci s = (s', r)"
  shows "withheld p cfg ci s s' r (ks_controller s) \<and> st_law (ur_status r) = Backup"
  using assms by (auto simp: update_unarmed withheld_def Let_def safe_result_def safe_actuator_cmd_def after_sensors_def
      update_sensor_faults_def update_timing_def observe_sensors_def split: if_splits)

lemma critical_withheld:
  assumes "ks_init_state s = Armed" "flag_intersects (ks_faults (after_sensors ci s)) critical_faults"
    and "update p cfg ci s = (s', r)"
  shows "withheld p cfg ci s s' r (p_controller_reset p (ks_controller s)) \<and> st_law (ur_status r) = Backup"
  using assms by (auto simp: update_critical withheld_def Let_def safe_result_def safe_actuator_cmd_def after_sensors_def
      check_critical_faults_def update_sensor_faults_def update_timing_def reset_controller_def)

lemma after_sensors_parts [simp]:
  "ks_controller (after_sensors ci s) = ks_controller s"
  by (simp add: after_sensors_def update_sensor_faults_def update_timing_def Let_def)

lemma parts_of_after_sensors [simp]:
  "withheld p cfg ci (after_sensors ci s) s' r ctl = withheld p cfg ci s s' r ctl"
  "flown p cfg ci (after_sensors ci s) s' r ctl = flown p cfg ci s s' r ctl"
  by (simp_all add: withheld_def flown_def)

lemma update_controlled:
  assumes "update p cfg ci s = (s', r)"
  obtains n where "withheld p cfg ci s s' r ((p_controller_reset p ^^ n) (ks_controller s))" "st_law (ur_status r) = Backup"
  | n s4 constrained where
    "cmd_mode constrained = cmd_mode (ci_command ci)" "cmd_sequence constrained = cmd_sequence (ci_command ci)"
    "ks_control_law s4 = st_law (ur_status r)"
    "st_mode_entry (ur_status r) = decide_mode_entry p s4 constrained (valid_flags (ur_estimate r))"
    "ur_effective_command r = select_command p cfg
       (ks_control_law s4 = Backup \<or> is_unsupported (st_mode_entry (ur_status r))) (ks_control_law s4) (ur_estimate r)
       constrained (st_mode_entry (ur_status r))"
    "if ks_control_law s4 = Backup \<or> is_unsupported (st_mode_entry (ur_status r))
     then withheld p cfg ci s s' r ((p_controller_reset p ^^ n) (ks_controller s))
     else flown p cfg ci s s' r ((p_controller_reset p ^^ n) (ks_controller s))"
proof (cases "ks_init_state s = Armed")
  case False
  then show thesis using that(1) [of 0] unarmed_withheld [OF _ assms] by simp
next
  case armed: True
  show thesis
  proof (cases "flag_intersects (ks_faults (after_sensors ci s)) critical_faults")
    case True
    then show thesis using that(1) [of 1] critical_withheld [OF armed True assms] by simp
  next
    case False
    have "armed_cycle p cfg ci (cycle_timestamp ci) (ucast (as_micros (ci_time ci))) (after_sensors ci s) = (s', r)"
      using assms by (simp add: update_armed [OF armed False])
    then obtain s4 constrained n where
      "cmd_mode constrained = cmd_mode (ci_command ci)" "cmd_sequence constrained = cmd_sequence (ci_command ci)"
      "ks_control_law s4 = st_law (ur_status r)"
      "st_mode_entry (ur_status r) = decide_mode_entry p s4 constrained (valid_flags (ur_estimate r))"
      "ur_effective_command r = select_command p cfg
         (ks_control_law s4 = Backup \<or> is_unsupported (st_mode_entry (ur_status r))) (ks_control_law s4) (ur_estimate r)
         constrained (st_mode_entry (ur_status r))"
      "if ks_control_law s4 = Backup \<or> is_unsupported (st_mode_entry (ur_status r))
       then withheld p cfg ci s s' r ((p_controller_reset p ^^ n) (ks_controller s))
       else flown p cfg ci s s' r ((p_controller_reset p ^^ n) (ks_controller s))"
      by (rule armed_cycle_controlled) (simp only: parts_of_after_sensors after_sensors_parts)
    then show thesis by (rule that(2))
  qed
qed

section \<open>Supported modes\<close>

lemma supported_topology: "multirotor_mode_capability_of m \<noteq> NoCapability \<Longrightarrow> effective_topology v m sp \<noteq> UnsupportedTopology"
  by (auto simp: effective_topology_def split: outer_loop_selection.splits)

lemma selected_mode_supported:
  assumes "p_supports_mode p = mc_supports_mode" "entry = decide_mode_entry p s cmd valid"
    and "ks_control_law s \<noteq> Backup" "\<not> is_unsupported entry"
  shows "multirotor_mode_capability_of (cmd_mode (select_command p cfg False (ks_control_law s) est cmd entry)) \<noteq> NoCapability"
proof (cases "ks_control_law s = Direct")
  case True
  then show ?thesis by (simp add: select_command_def descend_command_def split_beta)
next
  case False
  then have e: "entry = gate_controller_mode_entry (cmd_mode cmd) valid (mc_supports_mode (cmd_mode cmd))"
    using assms by (cases "ks_control_law s") (auto simp: decide_mode_entry_def)
  have "mc_supports_mode (cmd_mode cmd)" using assms(4) by (simp add: e gate_controller_mode_entry_def split: if_splits)
  then have "multirotor_mode_capability_of (effective entry) \<noteq> NoCapability"
    by (intro gate_supported [OF _ e [symmetric]]) (simp add: mc_supports_mode_def)
  then show ?thesis using False by (simp add: select_command_def)
qed

lemma unsupported_mode:
  assumes "p_supports_mode p = mc_supports_mode" "is_unsupported (decide_mode_entry p s cmd valid)"
  shows "multirotor_mode_capability_of (cmd_mode cmd) = NoCapability"
  using assms
  by (auto simp: decide_mode_entry_def gate_controller_mode_entry_def gate_cases mc_supports_mode_def Let_def
      split: control_law.splits if_splits)

text \<open>C13: Every cycle of a kernel whose controller supports the modes the multirotor supports, from any state and on any
  input, does one of two things. It withholds the command, under \<open>Backup\<close> or because the commanded mode has no
  capability: the controller is at most reset, and the actuators get the safe pattern, at once or through the slew
  limiter. Or it calls the controller exactly once, on the estimate, the effective command and the flags its result
  reports, which the controller does not reject, and the actuators get that call's answer, mixed, sanitized and
  slew-limited.\<close>

theorem kernel_never_flies_unsupported_mode:
  assumes "p_supports_mode p = mc_supports_mode" "update p cfg ci s = (s', r)"
  shows "\<exists>n. let ctl = (p_controller_reset p ^^ n) (ks_controller s)
    in withheld p cfg ci s s' r ctl
         \<and> (st_law (ur_status r) = Backup \<or> multirotor_mode_capability_of (cmd_mode (ci_command ci)) = NoCapability)
     \<or> flown p cfg ci s s' r ctl \<and> st_law (ur_status r) \<noteq> Backup
         \<and> effective_topology (reported_flags r) (cmd_mode (ur_effective_command r))
             (cmd_setpoint (ur_effective_command r)) \<noteq> UnsupportedTopology"
proof (rule update_controlled [OF assms(2)])
  fix n assume "withheld p cfg ci s s' r ((p_controller_reset p ^^ n) (ks_controller s))" "st_law (ur_status r) = Backup"
  then show ?thesis by (intro exI [of _ n]) simp
next
  fix n s4 cmd
  assume cmd: "cmd_mode cmd = cmd_mode (ci_command ci)"
    and law: "ks_control_law s4 = st_law (ur_status r)"
    and entry: "st_mode_entry (ur_status r) = decide_mode_entry p s4 cmd (valid_flags (ur_estimate r))"
    and eff: "ur_effective_command r = select_command p cfg
       (ks_control_law s4 = Backup \<or> is_unsupported (st_mode_entry (ur_status r))) (ks_control_law s4) (ur_estimate r)
       cmd (st_mode_entry (ur_status r))"
    and split: "if ks_control_law s4 = Backup \<or> is_unsupported (st_mode_entry (ur_status r))
     then withheld p cfg ci s s' r ((p_controller_reset p ^^ n) (ks_controller s))
     else flown p cfg ci s s' r ((p_controller_reset p ^^ n) (ks_controller s))"
  show ?thesis
  proof (cases "ks_control_law s4 = Backup \<or> is_unsupported (st_mode_entry (ur_status r))")
    case True
    then have "st_law (ur_status r) = Backup \<or> multirotor_mode_capability_of (cmd_mode (ci_command ci)) = NoCapability"
      using unsupported_mode [OF assms(1), of s4 cmd "valid_flags (ur_estimate r)"] by (auto simp: entry law cmd)
    then show ?thesis using split True by (intro exI [of _ n]) simp
  next
    case False
    then have "multirotor_mode_capability_of (cmd_mode (ur_effective_command r)) \<noteq> NoCapability"
      using selected_mode_supported [OF assms(1) entry] eff by simp
    then show ?thesis using split False by (intro exI [of _ n]) (simp add: supported_topology law)
  qed
qed

text \<open>A kernel that flies the multirotor controller, armed, on a command in \<open>Attitude\<close>.\<close>

definition plain_pipeline :: "(state_estimate, multirotor_runtime_state) pipeline" where
  "plain_pipeline =
     multirotor_pipeline demo_controller
       \<lparr>p_observe = (\<lambda>e sensors ov dt. e), p_estimate = (\<lambda>e. e), p_estimator_reset = (\<lambda>e. e),
        p_verify_config_binding = (\<lambda>cfg. Ok ()), p_supports_mode = (\<lambda>m. True), p_set_cycle_interval = (\<lambda>r dt. r),
        p_step = multirotor_step small_angle_libm demo_controller, p_controller_reset = mr_reset, p_geometry = QuadXX500,
        p_mix = quad_x500_mix timestamp_default, p_sanitize = sanitize, p_libm = small_angle_libm\<rparr>"

definition plain_flight :: "(state_estimate, multirotor_runtime_state) kernel_state" where
  "plain_flight =
     (kernel_state_new demo_estimate multirotor_runtime_default kernel_checks_new)\<lparr>ks_init_state := Armed, ks_control_law := Primary\<rparr>"

theorem kernel_never_flies_unsupported_mode_witness:
  "let r = snd (update plain_pipeline resolved_config_default demo_input plain_flight)
   in st_law (ur_status r) = Backup
      \<or> effective_topology (reported_flags r) (cmd_mode (ur_effective_command r)) (cmd_setpoint (ur_effective_command r))
          \<noteq> UnsupportedTopology"
proof -
  obtain s' r where u: "update plain_pipeline resolved_config_default demo_input plain_flight = (s', r)" by (rule prod.exhaust)
  have "p_supports_mode plain_pipeline = mc_supports_mode" by (simp add: plain_pipeline_def multirotor_pipeline_def)
  moreover have "multirotor_mode_capability_of (cmd_mode (ci_command demo_input)) \<noteq> NoCapability"
    by (simp add: demo_input_def safe_effective_command_def)
  ultimately show ?thesis using kernel_never_flies_unsupported_mode [OF _ u] by (auto simp: u Let_def)
qed

section \<open>Loops and validity\<close>

lemma descent_loop: "outer_loop v (cmd_setpoint (descend_command M st l n)) = NoOuterLoop"
  by (simp add: descend_command_def setpoint_default_def outer_loop_def split_beta)

lemma safe_command_loop:
  assumes "ur_effective_command r = safe_effective_command n"
  shows "outer_loop (reported_flags r) (cmd_setpoint (ur_effective_command r)) = NoOuterLoop"
    "effective_topology (reported_flags r) (cmd_mode (ur_effective_command r)) (cmd_setpoint (ur_effective_command r))
      \<noteq> VerticalTopology"
  by (simp_all add: assms reported_flags_def safe_effective_command_def setpoint_default_def outer_loop_def
      effective_topology_def with_mode_entry_def)

text \<open>C14: In every cycle of the kernel, from any state and on any input, the loops the controller is called with close
  over an estimate that is valid for them. The cycle withholds the command, or calls the controller on the command and
  flags it reports; there the position loop is selected only with attitude, velocity and position valid in the estimate
  the controller is given, the velocity loop only with attitude and velocity valid, and the vertical topology only with
  attitude and velocity valid or for the terminal descent of the \<open>Direct\<close> law, which descends whatever is valid.\<close>

theorem loops_backed_by_estimate:
  assumes "update p cfg ci s = (s', r)"
  shows "(\<exists>n. withheld p cfg ci s s' r ((p_controller_reset p ^^ n) (ks_controller s))
            \<or> flown p cfg ci s s' r ((p_controller_reset p ^^ n) (ks_controller s)))
    \<and> (let cmd = ur_effective_command r; valid = valid_flags (ur_estimate r)
       in case outer_loop (reported_flags r) (cmd_setpoint cmd) of
            PositionLoop _ \<Rightarrow> flag_contains valid (ATTITUDE OR VELOCITY OR POSITION)
          | VelocityLoop _ \<Rightarrow> flag_contains valid (ATTITUDE OR VELOCITY)
          | NoOuterLoop \<Rightarrow> effective_topology (reported_flags r) (cmd_mode cmd) (cmd_setpoint cmd) = VerticalTopology
              \<longrightarrow> flag_contains valid (ATTITUDE OR VELOCITY)
                \<or> st_law (ur_status r) = Direct
                  \<and> cmd = descend_command (p_libm p) (ur_estimate r) (cfg_limits cfg) (cmd_sequence (ci_command ci)))"
proof (rule update_controlled [OF assms])
  fix n assume w: "withheld p cfg ci s s' r ((p_controller_reset p ^^ n) (ks_controller s))"
  then have "ur_effective_command r = safe_effective_command (cmd_sequence (ci_command ci))" by (simp add: withheld_def)
  from w safe_command_loop [OF this] show ?thesis by (auto simp: Let_def)
next
  fix n s4 cmd
  assume cmd: "cmd_sequence cmd = cmd_sequence (ci_command ci)"
    and law: "ks_control_law s4 = st_law (ur_status r)"
    and entry: "st_mode_entry (ur_status r) = decide_mode_entry p s4 cmd (valid_flags (ur_estimate r))"
    and eff: "ur_effective_command r = select_command p cfg
       (ks_control_law s4 = Backup \<or> is_unsupported (st_mode_entry (ur_status r))) (ks_control_law s4) (ur_estimate r)
       cmd (st_mode_entry (ur_status r))"
    and split: "if ks_control_law s4 = Backup \<or> is_unsupported (st_mode_entry (ur_status r))
     then withheld p cfg ci s s' r ((p_controller_reset p ^^ n) (ks_controller s))
     else flown p cfg ci s s' r ((p_controller_reset p ^^ n) (ks_controller s))"
  show ?thesis
  proof (cases "ks_control_law s4 = Backup \<or> is_unsupported (st_mode_entry (ur_status r)) \<or> ks_control_law s4 = Direct")
    case True
    then consider "ur_effective_command r = safe_effective_command (cmd_sequence cmd)"
      | "st_law (ur_status r) = Direct"
        "ur_effective_command r = descend_command (p_libm p) (ur_estimate r) (cfg_limits cfg) (cmd_sequence cmd)"
      using eff by (cases "ks_control_law s4 = Backup \<or> is_unsupported (st_mode_entry (ur_status r))")
        (fastforce simp: select_command_def law)+
    then have "outer_loop (reported_flags r) (cmd_setpoint (ur_effective_command r)) = NoOuterLoop
      \<and> (effective_topology (reported_flags r) (cmd_mode (ur_effective_command r)) (cmd_setpoint (ur_effective_command r))
          = VerticalTopology \<longrightarrow> st_law (ur_status r) = Direct \<and> ur_effective_command r
              = descend_command (p_libm p) (ur_estimate r) (cfg_limits cfg) (cmd_sequence (ci_command ci)))"
    proof cases
      case 1
      from safe_command_loop [OF this] show ?thesis by simp
    next
      case 2
      then show ?thesis by (simp add: descent_loop cmd)
    qed
    then show ?thesis using split by (auto simp: Let_def split: if_splits)
  next
    case False
    let ?d = "st_mode_entry (ur_status r)"
    have d: "?d = gate_controller_mode_entry (cmd_mode cmd) (valid_flags (ur_estimate r)) (p_supports_mode p (cmd_mode cmd))"
      using False entry by (cases "ks_control_law s4") (auto simp: decide_mode_entry_def)
    have "ur_effective_command r = apply_mode_entry cmd ?d" using False eff by (simp add: select_command_def)
    note gated_loops_backed [OF d this reported_flags_def]
    then show ?thesis using split False by (auto simp: Let_def split: outer_loop_selection.splits)
  qed
qed

theorem loops_backed_by_estimate_witness:
  "let r = snd (update plain_pipeline resolved_config_default demo_input plain_flight)
   in outer_loop (reported_flags r) (cmd_setpoint (ur_effective_command r)) = PositionLoop (f0, f0, f0)
      \<longrightarrow> bit (valid_flags (ur_estimate r)) 2"
proof -
  obtain s' r where u: "update plain_pipeline resolved_config_default demo_input plain_flight = (s', r)" by (rule prod.exhaust)
  from loops_backed_by_estimate [OF u] show ?thesis
    by (auto simp: u Let_def flag_contains_iff state_bits flag_simps)
qed

end
