(* ===== verification/FlightKernel.thy ===== *)
theory FlightKernel
  imports EkfClaims CycleControl
begin

text \<open>
  The vehicle as it flies: the kernel over the error-state filter and the multirotor controller. The locale
  \<open>estimator_contract\<close> says what a kernel keeps of any predicate of its estimator's state, as
  \<open>controller_contract\<close> does for the controller; the filter interprets it.
\<close>

section \<open>The filter in the kernel\<close>

text \<open>
  The pipeline of a kernel with this filter and the multirotor controller. A cycle that does not return (the
  heading wrap on an infinite declination) leaves no later state; the model keeps the filter's state there.
\<close>

definition ekf_observe ::
  "libm \<Rightarrow> (f32 \<Rightarrow> f32 \<Rightarrow> f32) \<Rightarrow> ekf_config \<Rightarrow> ekf_state \<Rightarrow> sensor_set \<Rightarrow> sensor_overrides option \<Rightarrow> f32 \<Rightarrow> ekf_state" where
  "ekf_observe M pow ec st ss ov dt = (case observe M pow ec st ss ov dt of Some st' \<Rightarrow> st' | None \<Rightarrow> st)"

definition flight_pipeline ::
  "(f32 \<Rightarrow> f32 \<Rightarrow> f32) \<Rightarrow> ekf_config \<Rightarrow> multirotor_controller \<Rightarrow> (ekf_state, multirotor_runtime_state) pipeline
     \<Rightarrow> (ekf_state, multirotor_runtime_state) pipeline" where
  "flight_pipeline pow ec c p =
     (multirotor_pipeline c p)\<lparr>p_observe := ekf_observe (p_libm p) pow ec, p_estimate := get_estimate,
       p_estimator_reset := ekf_reset\<rparr>"

lemma flight_pipeline_simps [simp]:
  "p_observe (flight_pipeline pow ec c p) = ekf_observe (p_libm p) pow ec"
  "p_estimate (flight_pipeline pow ec c p) = get_estimate"
  "p_estimator_reset (flight_pipeline pow ec c p) = ekf_reset"
  "p_supports_mode (flight_pipeline pow ec c p) = mc_supports_mode"
  "p_libm (flight_pipeline pow ec c p) = p_libm p"
  by (simp_all add: flight_pipeline_def multirotor_pipeline_def)

section \<open>What a cycle does to the estimator\<close>

text \<open>The cycle hands its sensors to the estimator: a vehicle with a critical fault does not observe.\<close>

definition reaches_estimator :: "cycle_input \<Rightarrow> ('e, 'r) kernel_state \<Rightarrow> bool" where
  "reaches_estimator ci s \<longleftrightarrow> \<not> flag_intersects (ks_faults (after_sensors ci s)) critical_faults"

definition observed :: "('e, 'r) pipeline \<Rightarrow> cycle_input \<Rightarrow> 'e \<Rightarrow> 'e" where
  "observed p ci e = p_observe p e (ci_sensors ci) (cmd_sensor_overrides (ci_command ci)) (dt_sec (ci_time ci))"

lemma observe_sensors_estimator [simp]: "ks_estimator (observe_sensors p ci s) = observed p ci (ks_estimator s)"
  by (simp add: observe_sensors_def observed_def)

lemma cycle_estimate_observed: "cycle_estimate p ci s = p_estimate p (observed p ci (ks_estimator s))"
  by (simp add: cycle_estimate_def observed_def)

lemma stages_estimator [simp]:
  "ks_estimator (fst (control_stage p cfg ci ts b est cmd e s)) = ks_estimator s"
  "ks_estimator (fst (actuator_stage p cfg ts b act s)) = ks_estimator s"
  by (simp_all add: control_stage_def actuator_stage_def split_beta Let_def)

lemma refresh_estimator [simp]: "ks_estimator (refresh_checks cfg ci est s) = ks_estimator s"
  by (simp add: refresh_checks_def Let_def)

lemma release_estimator [simp]: "ks_estimator (terminal_release p s) = ks_estimator s"
  by (simp add: terminal_release_def)

lemma decide_estimator [simp]: "ks_estimator (fst (decide_degradation p ts s)) = ks_estimator s"
  by (simp add: decide_degradation_def handle_degradation_fields split: option.split)

lemma armed_cycle_estimator:
  "ks_estimator (fst (armed_cycle p cfg ci ts dt s)) = observed p ci (ks_estimator s)"
  by (simp add: armed_cycle_def Let_def split_beta)

lemma update_estimator:
  "ks_estimator (fst (update p cfg ci s)) =
     (if reaches_estimator ci s then observed p ci (ks_estimator s) else ks_estimator s)"
proof -
  have a: "ks_estimator (after_sensors ci s) = ks_estimator s" by (simp add: after_sensors_def)
  show ?thesis
    by (cases rule: update_cases [of s p cfg ci])
      (auto simp: update_unarmed update_critical Let_def check_critical_faults_def armed_cycle_estimator a
        reaches_estimator_def)
qed

locale estimator_contract =
  fixes p :: "('e, 'r) pipeline" and est_inv :: "'e \<Rightarrow> bool"
  assumes observed: "est_inv e \<Longrightarrow> est_inv (p_observe p e ss ov dt)"
    and reset: "est_inv e \<Longrightarrow> est_inv (p_estimator_reset p e)"
begin

lemma step_estimator: "est_inv (ks_estimator s) \<Longrightarrow> est_inv (ks_estimator (kernel_step p cfg c s))"
proof (cases c)
  case (UpdateCall ci)
  then show "est_inv (ks_estimator s) \<Longrightarrow> ?thesis"
    by (simp add: update_estimator observed_def observed)
qed (auto simp: arm_def disarm_def terminate_def end_flight_period_def request_config_mode_def Let_def
    reset_from_fault_def ground_reset_def report_timing_violation_def inject_fault_def init_step_state reset
    handle_degradation_fields split: sum.split)

end

sublocale estimator_contract \<subseteq> estimates: preserved "kernel_step p cfg" "\<lambda>_. True" "\<lambda>s. est_inv (ks_estimator s)"
  for cfg
  by unfold_locales (rule step_estimator)

interpretation flight: estimator_contract "flight_pipeline pow ec c p" "\<lambda>e. limits_nonneg ec \<and> ekf_inv ec e"
  for pow ec c p
  by unfold_locales
    (auto simp: ekf_observe_def ekf_reset_def ekf_inv_new intro: ekf_inv_observe split: option.split)

section \<open>Loss of aiding\<close>

text \<open>
  A run of cycles in which no usable GNSS reading reaches the filter: each reaches the estimator, denies it
  the GNSS, lasts at least 1/1024 s, and returns.
\<close>

definition denied_cycle ::
  "libm \<Rightarrow> (f32 \<Rightarrow> f32 \<Rightarrow> f32) \<Rightarrow> ekf_config \<Rightarrow> cycle_input \<Rightarrow> (ekf_state, 'r) kernel_state \<Rightarrow> bool" where
  "denied_cycle M pow ec ci s \<longleftrightarrow>
     (let ss = ci_sensors ci; ov = cmd_sensor_overrides (ci_command ci); dt = dt_sec (ci_time ci)
      in reaches_estimator ci s \<and> gnss_denied ss ov \<and> f32_is_finite dt \<and> f32_le 0x3A800000 dt
         \<and> observe M pow ec (ks_estimator s) ss ov dt \<noteq> None)"

primrec denied_run ::
  "(f32 \<Rightarrow> f32 \<Rightarrow> f32) \<Rightarrow> ekf_config \<Rightarrow> (ekf_state, 'r) pipeline \<Rightarrow> resolved_config \<Rightarrow> cycle_input list
     \<Rightarrow> (ekf_state, 'r) kernel_state \<Rightarrow> bool" where
  "denied_run pow ec p cfg [] s = True"
| "denied_run pow ec p cfg (ci # cis) s =
     (denied_cycle (p_libm p) pow ec ci s \<and> denied_run pow ec p cfg cis (fst (update p cfg ci s)))"

definition cycle_call :: "cycle_input \<Rightarrow> ekf_call" where
  "cycle_call ci = Observe (ci_sensors ci) (cmd_sensor_overrides (ci_command ci)) (dt_sec (ci_time ci))"

text \<open>The filter inside the kernel runs as the filter on its own does.\<close>

lemma denied_step:
  assumes "denied_cycle (p_libm p) pow ec ci s"
  shows "unaided (cycle_call ci)"
    "ekf_call_step (p_libm p) pow ec (cycle_call ci) (ks_estimator s)
       = Some (ks_estimator (fst (update (flight_pipeline pow ec c p) cfg ci s)))"
  using assms
  by (auto simp: denied_cycle_def cycle_call_def update_estimator observed_def ekf_observe_def Let_def)

lemma denied_run_ekf:
  assumes "denied_run pow ec (flight_pipeline pow ec c p) cfg cis s"
  shows "list_all unaided (map cycle_call cis)"
    "fold (ekf_step (p_libm p) pow ec) (map cycle_call cis) (Some (ks_estimator s))
       = Some (ks_estimator (kernel_run (flight_pipeline pow ec c p) cfg (map UpdateCall cis) s))"
proof -
  have "list_all unaided (map cycle_call cis)
    \<and> fold (ekf_step (p_libm p) pow ec) (map cycle_call cis) (Some (ks_estimator s))
       = Some (ks_estimator (kernel_run (flight_pipeline pow ec c p) cfg (map UpdateCall cis) s))"
    using assms
  proof (induction cis arbitrary: s)
    case (Cons ci cis)
    then have d: "denied_cycle (p_libm p) pow ec ci s" by simp
    show ?case using Cons denied_step(1) [OF d] denied_step(2) [OF d, of c cfg] by (auto simp: kernel_run_def)
  qed (simp add: kernel_run_def)
  then show "list_all unaided (map cycle_call cis)"
    "fold (ekf_step (p_libm p) pow ec) (map cycle_call cis) (Some (ks_estimator s))
       = Some (ks_estimator (kernel_run (flight_pipeline pow ec c p) cfg (map UpdateCall cis) s))"
    by simp_all
qed

section \<open>What a cycle flies\<close>

lemma armed_cycle_estimate [simp]:
  "ur_estimate (snd (armed_cycle p cfg ci ts dt s)) = p_estimate p (observed p ci (ks_estimator s))"
  by (simp add: armed_cycle_def Let_def split_beta)

lemma update_estimate:
  "ur_estimate (snd (update p cfg ci s)) = p_estimate p (ks_estimator (fst (update p cfg ci s)))"
proof (cases "ks_init_state s = Armed")
  case False
  then show ?thesis by (simp add: update_unarmed Let_def safe_result_def)
next
  case armed: True
  show ?thesis
  proof (cases "flag_intersects (ks_faults (after_sensors ci s)) critical_faults")
    case True
    then show ?thesis by (simp add: update_critical [OF armed True] Let_def safe_result_def)
  next
    case False
    then show ?thesis by (simp add: update_armed [OF armed False] armed_cycle_estimator)
  qed
qed

text \<open>Without a valid velocity the gate lets a multirotor fly \<open>Attitude\<close> only.\<close>

lemma gate_without_velocity:
  assumes "\<not> bit valid 3" "mc_supports_mode m"
  shows "effective (gate_controller_mode_entry m valid True) = Attitude"
proof -
  have "m = Attitude \<or> m \<in> {AltitudeHold, VelocityControl, PositionHold, DeviationTracking}"
    using assms(2) by (cases m) (simp_all add: mc_supports_mode_def)
  then show ?thesis using assms(1)
    by (auto simp: gate_controller_mode_entry_def gate_cases Let_def required_contains_iff
        simp del: required_validity.simps)
qed

lemma selected_without_velocity:
  assumes "\<not> bit (valid_flags est) 3" "p_supports_mode p = mc_supports_mode" "entry = decide_mode_entry p s cmd (valid_flags est)"
    and "safe = (ks_control_law s = Backup \<or> is_unsupported entry)"
  shows "cmd_mode (select_command p cfg safe (ks_control_law s) est cmd entry) = Attitude
    \<or> ks_control_law s = Direct
      \<and> select_command p cfg safe (ks_control_law s) est cmd entry = descend_command (p_libm p) est (cfg_limits cfg) (cmd_sequence cmd)"
proof (cases "safe \<or> ks_control_law s = Direct")
  case True
  then show ?thesis by (auto simp: select_command_def safe_effective_command_def)
next
  case False
  then have e: "entry = gate_controller_mode_entry (cmd_mode cmd) (valid_flags est) (mc_supports_mode (cmd_mode cmd))"
    using assms by (cases "ks_control_law s") (auto simp: decide_mode_entry_def)
  moreover have "mc_supports_mode (cmd_mode cmd)"
    using False assms(4) by (auto simp: e gate_controller_mode_entry_def split: if_splits)
  ultimately show ?thesis using False gate_without_velocity [OF assms(1), of "cmd_mode cmd"]
    by (simp add: select_command_def)
qed

lemma update_without_velocity:
  assumes "p_supports_mode p = mc_supports_mode" "\<not> bit (valid_flags (ur_estimate (snd (update p cfg ci s)))) 3"
  shows "let r = snd (update p cfg ci s)
    in cmd_mode (ur_effective_command r) = Attitude
       \<or> st_law (ur_status r) = Direct
         \<and> ur_effective_command r = descend_command (p_libm p) (ur_estimate r) (cfg_limits cfg) (cmd_sequence (ci_command ci))"
proof -
  obtain s' r where u: "update p cfg ci s = (s', r)" by (rule prod.exhaust)
  show ?thesis
  proof (rule update_controlled [OF u])
    fix n assume "withheld p cfg ci s s' r ((p_controller_reset p ^^ n) (ks_controller s))"
    then show ?thesis by (simp add: u withheld_def safe_effective_command_def Let_def)
  next
    fix s4 cmd
    assume "cmd_sequence cmd = cmd_sequence (ci_command ci)" "ks_control_law s4 = st_law (ur_status r)"
      and entry: "st_mode_entry (ur_status r) = decide_mode_entry p s4 cmd (valid_flags (ur_estimate r))"
      and "ur_effective_command r = select_command p cfg
        (ks_control_law s4 = Backup \<or> is_unsupported (st_mode_entry (ur_status r))) (ks_control_law s4) (ur_estimate r)
        cmd (st_mode_entry (ur_status r))"
    then show ?thesis
      using selected_without_velocity [OF _ assms(1) entry refl, of cfg] assms(2) by (simp add: u Let_def)
  qed
qed

text \<open>No cycle sets the numeric-error or the divergence fault, so a vehicle without them that sees one good IMU
  reaches its estimator.\<close>

lemma update_keeps_clear:
  assumes "k \<in> {24, 27}" "\<not> bit (ks_faults s) k"
  shows "\<not> bit (ks_faults (fst (update p cfg ci s))) k"
proof -
  have a: "\<not> bit (ks_faults (after_sensors ci s)) k"
    using assms after_sensors_latched [of k ci s] by (auto simp: live_faults_bit)
  have l: "latched_fault r = Some f \<Longrightarrow> \<not> bit f k" for r f
    using assms(1) by (cases r) (auto simp: fault_bits flag_simps)
  show ?thesis
    by (cases rule: update_cases [of s p cfg ci])
      (auto simp: a check_critical_faults_def armed_cycle_faults flag_simps bind_eq_Some_conv dest: l split: option.splits)
qed

lemma reaches_estimator_iff:
  "reaches_estimator ci s \<longleftrightarrow> any_good (imus (ci_sensors ci)) \<and> \<not> bit (ks_faults s) 24 \<and> \<not> bit (ks_faults s) 27"
proof -
  have c: "flag_intersects x critical_faults \<longleftrightarrow> bit x 3 \<or> bit x 24 \<or> bit x 27" for x
    by (auto simp: critical_faults_def flag_intersects_iff fault_bits flag_simps)
  show ?thesis by (simp add: reaches_estimator_def c after_sensors_def update_sensor_faults_bit)
qed

lemma aged_start: "ekf_inv ec st \<Longrightarrow> ek_initialized st \<Longrightarrow> aged 0 st"
  by (simp add: aged_def ekf_inv_def age_ok_def f32_le_def age_key_def f32_round_key_def)

section \<open>Properties\<close>

text \<open>C7: Loss of GNSS ends position flight. Take a kernel that flies this filter (its bias limits not negative) and the
  multirotor controller, in any state whose filter is initialised and comes from a run of the filter with seeds of
  normalised attitude. Let it run 5121 cycles or more, of any commands, each of a finite period of at least 1/1024 s,
  none with a critical fault (which would keep it from observing), each of whose observations returns, and none with a
  usable GNSS reading, measured or forced. Then the estimate the last cycle publishes has neither position nor
  velocity, and the command it flies, whatever was asked, has mode \<open>Attitude\<close>, so no outer loop, unless the law is
  \<open>Direct\<close>, which flies the terminal descent.\<close>

theorem gnss_loss_ends_position_flight:
  assumes "f32_le f0 (gyro_bias_limit ec)" "f32_le f0 (accel_bias_limit ec)"
    and "list_all ekf_call_ok calls" "ekf_run (p_libm p) pow ec calls = Some (ks_estimator s)"
    and "ek_initialized (ks_estimator s)" "5120 \<le> length cis"
    and "denied_run pow ec (flight_pipeline pow ec c p) cfg (cis @ [ci]) s"
  shows "let r = snd (update (flight_pipeline pow ec c p) cfg ci (kernel_run (flight_pipeline pow ec c p) cfg (map UpdateCall cis) s))
    in \<not> flag_contains (valid_flags (ur_estimate r)) POSITION \<and> \<not> flag_contains (valid_flags (ur_estimate r)) VELOCITY
     \<and> (cmd_mode (ur_effective_command r) = Attitude
       \<or> st_law (ur_status r) = Direct
         \<and> ur_effective_command r = descend_command (p_libm p) (ur_estimate r) (cfg_limits cfg) (cmd_sequence (ci_command ci)))"
proof -
  let ?p = "flight_pipeline pow ec c p"
  let ?t = "kernel_run ?p cfg (map UpdateCall cis) s"
  have lim: "limits_nonneg ec" using assms(1,2) by (simp add: limits_nonneg_def)
  have inv: "ekf_inv ec (ks_estimator s)" by (rule ekf_run_inv [OF lim assms(3,4)])
  have "aged 0 (ks_estimator s)" using inv assms(5) by (rule aged_start)
  moreover note run = denied_run_ekf [OF assms(7)]
  ultimately have "aged 5121 (ks_estimator (kernel_run ?p cfg (map UpdateCall (cis @ [ci])) s))"
    using unaided_run [OF lim inv _ _ run(1,2)] assms(6) by (simp add: min_absorb1)
  then have aged: "aged 5121 (ks_estimator (fst (update ?p cfg ci ?t)))" by (simp add: kernel_run_def)
  have e: "ur_estimate (snd (update ?p cfg ci ?t)) = get_estimate (ks_estimator (fst (update ?p cfg ci ?t)))"
    by (simp add: update_estimate)
  have nv: "\<not> flag_contains (valid_flags (ur_estimate (snd (update ?p cfg ci ?t)))) POSITION"
    "\<not> flag_contains (valid_flags (ur_estimate (snd (update ?p cfg ci ?t)))) VELOCITY"
    unfolding e estimate_flags using aged_out [OF aged] by simp_all
  then have "\<not> bit (valid_flags (ur_estimate (snd (update ?p cfg ci ?t)))) 3"
    by (simp add: state_bits flag_simps)
  from update_without_velocity [OF _ this] nv show ?thesis by (simp add: Let_def)
qed

text \<open>An armed vehicle whose selected IMU is dead, with a spare one alive, and no aiding at all.\<close>

definition blind_input :: cycle_input where
  "blind_input = demo_input\<lparr>ci_time := \<lparr>dt_sec = f_half, tick_delta = 500000\<rparr>,
     ci_sensors := dead_sensors\<lparr>imus := (imus dead_sensors)[1 := good_reading \<lparr>accel = (f0, f0, f0), gyro = (f0, f0, f0)\<rparr>]\<rparr>\<rparr>"

definition armed_flight :: "(ekf_state, multirotor_runtime_state) kernel_state" where
  "armed_flight = (kernel_state_new (ekf_init (f0, f0, f0) (f0, f0, f0) quat_identity ekf_new)
     multirotor_runtime_default kernel_checks_new)\<lparr>ks_init_state := Armed\<rparr>"

definition x500_base :: "(ekf_state, multirotor_runtime_state) pipeline" where
  "x500_base =
     \<lparr>p_observe = (\<lambda>e sensors ov dt. e), p_estimate = get_estimate, p_estimator_reset = ekf_reset,
      p_verify_config_binding = (\<lambda>cfg. Ok ()), p_supports_mode = mc_supports_mode,
      p_set_cycle_interval = mr_set_cycle_interval, p_step = multirotor_step level_libm demo_controller,
      p_controller_reset = mr_reset, p_geometry = QuadXX500,
      p_mix = quad_x500_mix timestamp_default, p_sanitize = sanitize, p_libm = level_libm\<rparr>"

lemma blind_denied:
  assumes "\<not> bit (ks_faults s) 24" "\<not> bit (ks_faults s) 27"
  shows "denied_cycle M pow ec blind_input s"
proof -
  have dt: "f32_is_finite f_half" "\<not> f32_le f_half f0" "f32_le 0x3A800000 f_half" by code_simp+
  show ?thesis using assms dt
    by (simp add: denied_cycle_def reaches_estimator_iff blind_input_def demo_input_def safe_effective_command_def
        observe_def imu_selected_def fuse_mag_def fuse_baro_def fuse_gnss_def dead_sensors_def dead_reading_def
        good_reading_def any_good_def gnss_denied_def gnss_usable_def Let_def numeral_2_eq_2 numeral_3_eq_3)
qed

lemma blind_run:
  assumes "\<not> bit (ks_faults s) 24" "\<not> bit (ks_faults s) 27"
  shows "denied_run pow ec p cfg (replicate n blind_input) s"
  using assms by (induction n arbitrary: s) (simp_all add: blind_denied update_keeps_clear)

theorem gnss_loss_ends_position_flight_witness:
  "let p = flight_pipeline (\<lambda>x y. x) ekf_config_default demo_controller x500_base;
       r = snd (update p resolved_config_default blind_input
             (kernel_run p resolved_config_default (map UpdateCall (replicate 5120 blind_input)) armed_flight))
   in ks_init_state armed_flight = Armed \<and> \<not> flag_contains (valid_flags (ur_estimate r)) VELOCITY"
proof -
  let ?e = "ekf_init (f0, f0, f0) (f0, f0, f0) quat_identity ekf_new"
  have run: "ekf_run M (\<lambda>x y. x) ekf_config_default [origin_init] = Some ?e" for M
    by (simp add: ekf_run_def origin_init_def)
  have ok: "list_all ekf_call_ok [origin_init]" by code_simp
  have lim: "f32_le f0 (gyro_bias_limit ekf_config_default)" "f32_le f0 (accel_bias_limit ekf_config_default)"
    using default_limits_nonneg by (simp_all add: limits_nonneg_def)
  have s: "ks_estimator armed_flight = ?e" "ek_initialized ?e" "ks_faults armed_flight = 0" "ks_init_state armed_flight = Armed"
    by (simp_all add: armed_flight_def kernel_state_new_def ekf_init_def)
  have d: "denied_run (\<lambda>x y. x) ekf_config_default p cfg (replicate 5120 blind_input @ [blind_input]) armed_flight" for p cfg
    using blind_run [of armed_flight _ _ p cfg 5121] s(3) by (simp add: replicate_append_same flip: replicate_Suc)
  show ?thesis
    using gnss_loss_ends_position_flight [OF lim ok, of x500_base "\<lambda>x y. x" armed_flight
        "replicate 5120 blind_input" demo_controller resolved_config_default blind_input] run d s
    by (simp add: Let_def)
qed

end
