(* ===== verification/Lifecycle.thy ===== *)
theory Lifecycle
  imports KernelCycle
begin

text \<open>
  The lifecycle as an abstract machine the kernel refines, disarm and terminate, and the proof
  that initialization reaches \<open>Ready\<close>.
\<close>

subsection \<open>Lifecycle as an abstract machine\<close>

text \<open>
  The lifecycle the kernel promises: a labelled relation on the nine states. Every operation
  not named here, and every operation that is refused, stays where it is.
\<close>

datatype life_event = LInit | LArm | LDisarm | LCycle | LFaultReset | LGroundReset | LOther

inductive life_step :: "life_event \<Rightarrow> init_state \<Rightarrow> init_state \<Rightarrow> bool" where
  stay: "life_step e x x"
| load_config: "life_step LInit PowerOn ConfigLoading"
| init_sensors: "life_step LInit ConfigLoading SensorInit"
| converge: "life_step LInit SensorInit EstimatorConverging"
| converged: "life_step LInit EstimatorConverging PreArm"
| checks_pass: "life_step LInit PreArm Ready"
| checks_fail: "life_step LInit Ready PreArm"
| rearm: "life_step LInit Disarmed PreArm"
| arm: "life_step LArm Ready Armed"
| disarm: "life_step LDisarm x Disarmed"
| fault: "life_step LCycle Armed Fault"
| fault_reset: "life_step LFaultReset Fault PreArm"
| ground_reset: "x \<noteq> Armed \<Longrightarrow> life_step LGroundReset x ConfigLoading"

inductive_simps life_step_to_Armed: "life_step e x Armed"
inductive_simps life_step_from_Fault: "life_step e Fault y"

fun event_of :: "kernel_call \<Rightarrow> life_event" where
  "event_of (InitStepCall _) = LInit"
| "event_of ArmCall = LArm"
| "event_of DisarmCall = LDisarm"
| "event_of TerminateCall = LDisarm"
| "event_of (UpdateCall _) = LCycle"
| "event_of ResetFromFaultCall = LFaultReset"
| "event_of GroundResetCall = LGroundReset"
| "event_of (RequestModeCall _) = LOther"
| "event_of (DegradeCall _ _) = LOther"
| "event_of (TimingCall _) = LOther"
| "event_of (ThrottleCall _) = LOther"
| "event_of (RcStatusCall _) = LOther"
| "event_of (InjectFaultCall _) = LOther"

lemma init_transition_life: "life_step LInit (ks_init_state t) (ks_init_state (init_transition t))"
  by (cases "ks_init_state t") (auto simp: init_transition_def intro: life_step.intros)

lemma init_step_life: "life_step LInit (ks_init_state s) (ks_init_state (fst (init_step p sensors s)))"
  unfolding init_step_state by (rule init_transition_life [of "upd_pre_arm _ s", unfolded upd_frame(1)])

lemma kernel_step_life: "life_step (event_of c) (ks_init_state s) (ks_init_state (kernel_step p cfg c s))"
proof (cases c)
  case (InitStepCall sensors)
  then show ?thesis by (simp add: init_step_life)
qed (auto simp: update_init_state arm_def disarm_def terminate_def reset_from_fault_def ground_reset_def
    report_timing_violation_def inject_fault_def request_config_mode_def handle_degradation_fields Let_def
    intro: life_step.intros split: sum.split)

interpretation life: simulation "kernel_step p cfg" ks_init_state "\<lambda>c. life_step (event_of c)"
  for p :: "('e, 'r) pipeline" and cfg
  by unfold_locales (rule kernel_step_life)

text \<open>C3: the kernel refines the abstract lifecycle: whatever calls are made, in whatever order and with
  whatever inputs, the states it goes through form a path of the lifecycle relation.\<close>

theorem lifecycle_refined:
  "labelled_path (\<lambda>c. life_step (event_of c)) calls (ks_init_state s) (ks_init_state (kernel_run p cfg calls s))"
  unfolding kernel_run_def by (rule life.path)

text \<open>an ordinary disarm is refused exactly while the vehicle is airborne, and a refusal changes
  nothing; an accepted disarm and every terminate leave the vehicle disarmed under \<open>Backup\<close>, on
  the ground, with the controller reset, the in-flight checks cleared and every fault bit kept.\<close>

lemma disarm_terminate_exact:
  "(snd (disarm p s) = Err DisarmAirborne \<longleftrightarrow> is_airborne (ks_flight_phase s))
   \<and> disarm p s = (if is_airborne (ks_flight_phase s) then (s, Err DisarmAirborne) else (terminate p s, Ok ()))
   \<and> ks_init_state (terminate p s) = Disarmed \<and> ks_control_law (terminate p s) = Backup
   \<and> ks_terminal_cause (terminate p s) = NoTerminal \<and> \<not> is_airborne (ks_flight_phase (terminate p s))
   \<and> fl_current (in_flight (ks_checks (terminate p s))) = 0
   \<and> ks_controller (terminate p s) = p_controller_reset p (ks_controller s)
   \<and> ks_faults (terminate p s) = ks_faults s"
  by (simp add: disarm_def terminate_def is_airborne_def flight_phase_state_default_def)
    (simp add: end_flight_period_def fl_reset_def)

subsection \<open>Initialization reaches Ready\<close>

fun phase_after :: "nat \<Rightarrow> init_state" where
  "phase_after n =
     (if n = 0 then PowerOn else if n = 1 then ConfigLoading else if n = 2 then SensorInit
      else if n < 100 then EstimatorConverging else if n = 100 then PreArm else Ready)"

definition good_cycle :: "sensor_set \<Rightarrow> bool" where
  "good_cycle x \<longleftrightarrow> any_good (imus x) \<and> any_good (baros x)"

text \<open>The state after \<open>n\<close> initialization steps on good sensors.\<close>

definition init_progress :: "nat \<Rightarrow> ('e, 'r) kernel_state \<Rightarrow> bool" where
  "init_progress n s \<longleftrightarrow>
     ks_init_state s = phase_after n \<and> ks_faults s = 0
     \<and> pa_required (pre_arm (ks_checks s)) = QUAD_MINIMUM
     \<and> bit (pa_current (pre_arm (ks_checks s))) 8
     \<and> sc_min_required (pa_samples (pre_arm (ks_checks s))) = 100
     \<and> unat (sc_imu (pa_samples (pre_arm (ks_checks s)))) = min n (2 ^ 32 - 1)
     \<and> unat (sc_baro (pa_samples (pre_arm (ks_checks s)))) = min n (2 ^ 32 - 1)"

lemma min_sat: "min (min n m + 1) m = min (Suc n) m" for n m :: nat
  by simp

lemma init_progress_step:
  assumes "init_progress n s" "good_cycle x" "quality (p_estimate p (ks_estimator s)) \<noteq> Unusable"
  shows "init_progress (Suc n) (fst (init_step p x s))"
proof -
  define pa where "pa = pa_update_ekf (pa_update_from_faults (pa_update_from_sensors (pre_arm (ks_checks s)) x)
      (ks_faults s)) True"
  define t where "t = upd_pre_arm (\<lambda>_. pa) s"
  have st: "fst (init_step p x s) = init_transition t"
    using assms(3) by (simp add: init_step_state t_def pa_def upd_pre_arm_def)
  have req: "pa_required pa = QUAD_MINIMUM" using assms(1) by (simp add: pa_def init_progress_def)
  have smp: "pa_samples pa = count_samples x (pa_samples (pre_arm (ks_checks s)))"
    by (simp add: pa_def pa_update_ekf_def)
  have cnt: "sc_min_required (pa_samples pa) = 100" "unat (sc_imu (pa_samples pa)) = min (Suc n) (2 ^ 32 - 1)"
    "unat (sc_baro (pa_samples pa)) = min (Suc n) (2 ^ 32 - 1)"
    using assms(1,2) unfolding smp
    by (simp_all add: init_progress_def good_cycle_def count_samples_def unat_sat_add)
  have "(100 :: u32) \<le> w \<longleftrightarrow> 100 \<le> unat w" for w by (simp add: word_le_nat_alt)
  then have conv: "imu_converged (pa_samples pa) \<longleftrightarrow> 100 \<le> Suc n" "baro_converged (pa_samples pa) \<longleftrightarrow> 100 \<le> Suc n"
    by (simp_all add: imu_converged_def baro_converged_def cnt)
  have bits: "bit (pa_current pa) 0" "bit (pa_current pa) 1" "bit (pa_current pa) 4 \<longleftrightarrow> 100 \<le> Suc n"
    "bit (pa_current pa) 5 \<longleftrightarrow> 100 \<le> Suc n" "bit (pa_current pa) 7" "bit (pa_current pa) 8"
    "bit (pa_current pa) 9" "bit (pa_current pa) 10"
    using assms(1,2) conv
    by (simp_all add: pa_def pa_update_bits init_progress_def good_cycle_def smp [symmetric, unfolded pa_def])
  have sat: "pa_is_satisfied pa \<longleftrightarrow> 100 \<le> Suc n"
    using bits by (auto simp: pa_is_satisfied_def req QUAD_MINIMUM_def pa_bits flag_simps)
  have t: "ks_init_state t = phase_after n" "ks_faults t = 0" "pre_arm (ks_checks t) = pa"
    using assms(1) by (simp_all add: t_def init_progress_def)
  have keep: "pa_required (pre_arm (ks_checks (init_transition t))) = pa_required pa
      \<and> pa_samples (pre_arm (ks_checks (init_transition t))) = pa_samples pa
      \<and> bit (pa_current (pre_arm (ks_checks (init_transition t)))) 8"
    using t bits by (auto simp: init_transition_def pa_bits flag_simps split: if_splits)
  have "ks_init_state (init_transition t) = phase_after (Suc n)"
    using t bits sat
    by (auto simp: init_transition_def pa_bits flag_simps Let_def split: if_splits)
  then show ?thesis
    using keep cnt t by (simp add: st init_progress_def req)
qed

lemma init_step_estimator [simp]: "ks_estimator (fst (init_step p x s)) = ks_estimator s"
  by (simp add: init_step_state)

lemma init_progress_steps:
  assumes "init_progress n s" "list_all good_cycle xs" "quality (p_estimate p (ks_estimator s)) \<noteq> Unusable"
  shows "init_progress (n + length xs) (fold (\<lambda>x s. fst (init_step p x s)) xs s)"
  using assms
proof (induction xs arbitrary: n s)
  case (Cons x xs)
  then have "init_progress (Suc n) (fst (init_step p x s))" by (intro init_progress_step) simp_all
  from Cons.IH [OF this] Cons.prems show ?case by simp
qed simp

lemma fold_init_calls:
  "kernel_run p cfg (map InitStepCall xs) s = fold (\<lambda>x s. fst (init_step p x s)) xs s"
  by (induction xs arbitrary: s) (simp_all add: kernel_run_def)

lemma init_reaches_phase:
  assumes "list_all good_cycle xs" "quality (p_estimate p e0) \<noteq> Unusable"
  shows "init_progress (length xs) (kernel_run p cfg (ThrottleCall True # map InitStepCall xs)
           (kernel_state_new e0 r0 kernel_checks_new))"
proof -
  let ?s = "kernel_step p cfg (ThrottleCall True) (kernel_state_new e0 r0 kernel_checks_new)"
  have "init_progress 0 ?s"
    by (simp add: init_progress_def kernel_state_new_def kernel_checks_new_def pre_arm_default_def
        pa_update_throttle_def pa_bits flag_simps sample_counts_new_def DEFAULT_MIN_SAMPLES_def)
  then have "init_progress (0 + length xs) (fold (\<lambda>x s. fst (init_step p x s)) xs ?s)"
    using assms by (intro init_progress_steps) (simp_all add: kernel_state_new_def)
  then show ?thesis using fold_init_calls [of p cfg xs ?s] by (simp add: kernel_run_def)
qed

text \<open>C17: initialization always completes on healthy hardware: from power-on with the throttle low, as
  long as every sensor set has a good IMU and a good barometer and the estimator is not
  \<open>Unusable\<close>, the kernel is in the state the step count determines, is \<open>Ready\<close> after any 101 or
  more steps, and then \<open>arm\<close> succeeds. Fewer steps never arm it.\<close>

theorem initialization_reaches_ready:
  assumes "list_all good_cycle xs" "quality (p_estimate p e0) \<noteq> Unusable"
    and "s = kernel_run p cfg (ThrottleCall True # map InitStepCall xs) (kernel_state_new e0 r0 kernel_checks_new)"
  shows "ks_init_state s = phase_after (length xs)
    \<and> (snd (arm p s) = Ok () \<longleftrightarrow> 101 \<le> length xs)"
proof -
  have "init_progress (length xs) s" unfolding assms(3) by (rule init_reaches_phase [OF assms(1,2)])
  then have "ks_init_state s = phase_after (length xs)" "ks_faults s = 0" by (simp_all only: init_progress_def)
  then show ?thesis by (auto simp: arm_def)
qed

theorem initialization_reaches_ready_witness:
  "snd (arm demo_pipeline (kernel_run demo_pipeline resolved_config_default
      (ThrottleCall True # map InitStepCall (replicate 101 good_sensors)) demo_state)) = Ok ()"
  using initialization_reaches_ready [OF _ _ refl, of "replicate 101 good_sensors" demo_pipeline demo_estimate
      resolved_config_default "()"]
  by (simp add: list_all_length good_cycle_def good_sensors_good demo_pipeline_def demo_estimate_def
      state_estimate_default_def demo_state_def)


text \<open>C4: the vehicle becomes armed only through \<open>arm\<close>, only from \<open>Ready\<close>, only without faults, and
  only with every required pre-arm check holding, except that the throttle may have been raised
  since the check was made: in every reachable state, a call that enters \<open>Armed\<close> is \<open>arm\<close> and
  finds every required bit but \<open>THROTTLE_LOW\<close> set.\<close>

theorem arming_requires_checks:
  assumes "kreachable p cfg (kernel_state_new e0 r0 checks) s"
    and "ks_init_state s \<noteq> Armed" "ks_init_state (kernel_step p cfg c s) = Armed"
  shows "c = ArmCall \<and> ks_init_state s = Ready \<and> ks_faults s = 0
    \<and> flag_contains (flag_insert (pa_current (pre_arm (ks_checks s))) PA_THROTTLE_LOW) (pa_required (pre_arm checks))"
proof -
  obtain calls where "s = fold (kernel_step p cfg) calls (kernel_state_new e0 r0 checks)"
    using kreachable_fold [OF assms(1)] by blast
  moreover have "ready_inv (pa_required (pre_arm checks)) (kernel_state_new e0 r0 checks)"
    by (simp add: ready_inv_def kernel_state_new_def)
  ultimately have r: "ready_inv (pa_required (pre_arm checks)) s"
    using ready.run [of _ "kernel_state_new e0 r0 checks" calls] by (simp add: list_all_iff)
  have a: "c = ArmCall \<and> ks_init_state s = Ready \<and> ks_faults s = 0"
  proof (cases c)
    case (InitStepCall sensors)
    then show ?thesis
      using assms(2,3) init_transition_next [of "upd_pre_arm (\<lambda>c. pa_update_ekf (pa_update_from_faults
          (pa_update_from_sensors c sensors) (ks_faults s)) (quality (p_estimate p (ks_estimator s)) \<noteq> Unusable)) s"]
      by (auto simp: init_step_state)
  qed (use assms(2,3) in \<open>auto simp: update_init_state arm_def disarm_def terminate_def reset_from_fault_def
      ground_reset_def report_timing_violation_def inject_fault_def request_config_mode_def
      handle_degradation_fields Let_def split: if_splits sum.splits\<close>)
  then show ?thesis
    using r by (auto simp: ready_inv_def flag_contains_iff flag_simps check_bits)
qed

theorem arming_requires_checks_witness:
  "flag_contains (flag_insert (pa_current (pre_arm (ks_checks (kernel_run demo_pipeline resolved_config_default
      (ThrottleCall True # map InitStepCall (replicate 101 good_sensors)) demo_state)))) PA_THROTTLE_LOW) QUAD_MINIMUM"
proof -
  define xs where "xs = replicate 101 good_sensors"
  define s where "s = kernel_run demo_pipeline resolved_config_default (ThrottleCall True # map InitStepCall xs) demo_state"
  have "init_progress (length xs) s"
    unfolding s_def demo_state_def by (rule init_reaches_phase)
      (simp_all add: xs_def list_all_length good_cycle_def good_sensors_good demo_pipeline_def demo_estimate_def
        state_estimate_default_def)
  then have r: "ks_init_state s = Ready" "ks_faults s = 0" by (simp_all add: init_progress_def xs_def)
  have "kreachable demo_pipeline resolved_config_default demo_state s" by (auto simp: kreachable_run s_def)
  then show ?thesis
    using arming_requires_checks [of demo_pipeline resolved_config_default demo_estimate "()" kernel_checks_new s ArmCall] r
    unfolding s_def [symmetric] xs_def [symmetric]
    by (simp add: demo_state_def arm_def kernel_checks_new_def pre_arm_default_def)
qed

end
