(* ===== verification/MotorOutputs.thy ===== *)
theory MotorOutputs
  imports Lifecycle
begin

text \<open>
  The composition of mixer, sanitizer, slew limiter and kernel: no command outside \<open>[0, 1]\<close>
  reaches a driven motor in any run.
\<close>

subsection \<open>Every motor command of every run\<close>

lemma armed_cycle_stages:
  obtains s5 safe est c entry where
    "ks_fallback s5 = ks_fallback s" "ks_actuator_state s5 = ks_actuator_state s"
    "fst (armed_cycle p cfg ci ts dt s) = fst (actuator_stage p cfg ts safe
       (fst (snd (control_stage p cfg ci ts safe est c entry s5))) (fst (control_stage p cfg ci ts safe est c entry s5)))"
    "ur_actuator (snd (armed_cycle p cfg ci ts dt s)) = fst (snd (actuator_stage p cfg ts safe
       (fst (snd (control_stage p cfg ci ts safe est c entry s5))) (fst (control_stage p cfg ci ts safe est c entry s5))))"
proof -
  define s1 est where "s1 = observe_sensors p ci s" and "est = p_estimate p (ks_estimator s1)"
  define s3 where "s3 = fst (decide_degradation p ts (terminal_release p (refresh_checks cfg ci est s1)))"
  define con where "con = constrain (p_libm p) (cmd_setpoint (ci_command ci)) est (cfg_limits cfg) HardEnvelope"
  define s4 where "s4 = upd_in_flight (\<lambda>c. fl_update_from_envelope c (snd con)) s3"
  define cc where "cc = (ci_command ci)\<lparr>cmd_setpoint := fst con\<rparr>"
  define entry where "entry = decide_mode_entry p s4 cc (valid_flags est)"
  define s5 where "s5 = (if is_unsupported entry then reset_controller p s4 else s4)"
  define safe where "safe = (ks_control_law s5 = Backup \<or> is_unsupported entry)"
  define ec where "ec = select_command p cfg safe (ks_control_law s5) est cc entry"
  note defs = s1_def est_def s3_def con_def s4_def cc_def entry_def s5_def safe_def ec_def
  show ?thesis
  proof (rule that [of s5 safe est ec entry])
    show "ks_fallback s5 = ks_fallback s" "ks_actuator_state s5 = ks_actuator_state s"
      by (simp_all add: s5_def s4_def s3_def s1_def)
  qed (simp_all only: armed_cycle_def Let_def split_beta defs [symmetric] fst_conv snd_conv update_result.simps)
qed

text \<open>
  What the kernel relies on for a channel set \<open>chan\<close>: the mixer fills the sixteen outputs and the
  sanitizer, from a well-formed memory, returns outputs in \<open>[0, 1]\<close> on those channels and keeps
  its memory well-formed; the configured safe pattern is in \<open>[0, 1]\<close> there.
\<close>

definition actuation_inv :: "nat set \<Rightarrow> ('e, 'r) kernel_state \<Rightarrow> bool" where
  "actuation_inv chan s \<longleftrightarrow> fallback_wf (ks_fallback s)
     \<and> (\<forall>k \<in> chan. unit_range (as_commanded (ks_actuator_state s) ! k))"

locale safe_actuation =
  fixes p :: "('e, 'r) pipeline" and cfg :: resolved_config and chan :: "nat set"
  assumes mix_sanitized: "p_sanitize p (p_mix p a) (cfg_mode_config cfg) fb = (c', fb', rep) \<Longrightarrow> fallback_wf fb
      \<Longrightarrow> fallback_wf fb' \<and> (\<forall>k \<in> chan. unit_range (outputs c' ! k))"
    and safe_pattern: "k \<in> chan \<Longrightarrow> unit_range (cfg_safe_output cfg ! k)"
    and channels: "k \<in> chan \<Longrightarrow> k < MAX_ACTUATORS"
begin

lemma slewed:
  assumes "\<forall>k \<in> chan. unit_range (prev ! k)" "\<forall>k \<in> chan. unit_range (outputs c ! k)" "k \<in> chan"
  shows "unit_range (outputs (apply_slew_limit c prev l) ! k)"
  using assms channels [OF assms(3)] by (simp add: apply_slew_limit_def slew_channel_unit)

lemma stages_safe:
  assumes "actuation_inv chan s"
    and "control_stage p cfg ci ts safe e c m s = (s1, cmd, obs)"
    and "actuator_stage p cfg ts safe cmd s1 = (s2, cmd2, rep)"
  shows "actuation_inv chan s2 \<and> (\<forall>k \<in> chan. unit_range (outputs cmd2 ! k))"
proof -
  have s1: "ks_fallback s1 = ks_fallback s" "ks_actuator_state s1 = ks_actuator_state s"
    using assms(2) actuation_frame(7,8) [of p cfg ci ts safe e c m s] by simp_all
  obtain c1 fb r where st: "(if safe then (cmd, ks_fallback s1, sanitize_report_default)
      else p_sanitize p cmd (cfg_mode_config cfg) (ks_fallback s1)) = (c1, fb, r)"
    by (metis prod_cases3)
  have c1: "fallback_wf fb \<and> (\<forall>k \<in> chan. unit_range (outputs c1 ! k))"
  proof (cases safe)
    case True
    then have "c1 = safe_actuator_cmd cfg 0xF 0xFF (cmd_sequence (ci_command ci)) ts" "fb = ks_fallback s"
      using st assms(2) s1 by (auto simp: control_stage_def)
    then show ?thesis using assms(1) safe_pattern by (simp add: actuation_inv_def safe_actuator_cmd_def)
  next
    case False
    then obtain a where "cmd = p_mix p a" using assms(2) by (auto simp: control_stage_def Let_def split_beta)
    then show ?thesis
      using mix_sanitized [of a "ks_fallback s" c1 fb r] st False s1 assms(1) by (simp add: actuation_inv_def)
  qed
  have r: "cmd2 = apply_slew_limit c1 (as_commanded (ks_actuator_state s)) (cfg_slew_limit_per_cycle cfg)"
    "ks_fallback s2 = fb" "as_commanded (ks_actuator_state s2) = outputs cmd2"
    using assms(3) st s1 by (auto simp: actuator_stage_def Let_def update_commanded_def)
  have "\<forall>k \<in> chan. unit_range (outputs cmd2 ! k)"
    unfolding r(1) using c1 assms(1) slewed by (auto simp: actuation_inv_def)
  then show ?thesis using r c1 by (simp add: actuation_inv_def)
qed

lemma armed_cycle_safe:
  assumes "actuation_inv chan s"
  shows "actuation_inv chan (fst (armed_cycle p cfg ci ts dt s))
    \<and> (\<forall>k \<in> chan. unit_range (outputs (ur_actuator (snd (armed_cycle p cfg ci ts dt s))) ! k))"
proof (rule armed_cycle_stages [of s p cfg ci ts dt])
  fix s5 safe est c entry
  assume "ks_fallback s5 = ks_fallback s" "ks_actuator_state s5 = ks_actuator_state s"
    and r: "fst (armed_cycle p cfg ci ts dt s) = fst (actuator_stage p cfg ts safe
       (fst (snd (control_stage p cfg ci ts safe est c entry s5))) (fst (control_stage p cfg ci ts safe est c entry s5)))"
    "ur_actuator (snd (armed_cycle p cfg ci ts dt s)) = fst (snd (actuator_stage p cfg ts safe
       (fst (snd (control_stage p cfg ci ts safe est c entry s5))) (fst (control_stage p cfg ci ts safe est c entry s5))))"
  then have "actuation_inv chan s5" using assms by (simp add: actuation_inv_def)
  from stages_safe [OF this, of ci ts safe est c entry] show ?thesis
    unfolding r by (metis prod.collapse)
qed

lemma update_safe:
  assumes "actuation_inv chan s"
  shows "actuation_inv chan (fst (update p cfg ci s))
    \<and> (\<forall>k \<in> chan. unit_range (outputs (ur_actuator (snd (update p cfg ci s))) ! k))"
proof -
  have a: "actuation_inv chan (after_sensors ci s)" using assms by (simp add: actuation_inv_def)
  show ?thesis
  proof (cases rule: update_cases [of s p cfg ci])
    case unarmed
    then show ?thesis using a safe_pattern
      by (simp add: update_unarmed Let_def safe_result_def safe_actuator_cmd_def actuation_inv_def)
  next
    case critical
    then show ?thesis using a safe_pattern
      by (simp add: update_critical Let_def check_critical_faults_def safe_result_def safe_actuator_cmd_def
          actuation_inv_def)
  next
    case armed
    then show ?thesis using armed_cycle_safe [OF a] by simp
  qed
qed

lemma step_safe: "actuation_inv chan s \<Longrightarrow> actuation_inv chan (kernel_step p cfg c s)"
proof (cases c)
  case (UpdateCall ci)
  then show "actuation_inv chan s \<Longrightarrow> actuation_inv chan (kernel_step p cfg c s)" by (simp add: update_safe)
qed (auto simp: actuation_inv_def arm_def disarm_def terminate_def reset_from_fault_def ground_reset_def
    report_timing_violation_def inject_fault_def request_config_mode_def handle_degradation_def init_step_state
    init_transition_def end_flight_period_def actuator_state_default_def Let_def fallback_wf_default
    nth_replicate channels [simplified]
    split: sum.split option.split init_state.split)

end

sublocale safe_actuation \<subseteq> run: preserved "kernel_step p cfg" "\<lambda>_. True" "actuation_inv chan"
  by unfold_locales (rule step_safe)

context safe_actuation
begin

lemma reachable_outputs:
  assumes "kreachable p cfg (kernel_state_new e0 r0 checks) s" "k \<in> chan"
  shows "unit_range (outputs (ur_actuator (snd (update p cfg ci s))) ! k)"
proof -
  obtain calls where c: "s = fold (kernel_step p cfg) calls (kernel_state_new e0 r0 checks)"
    using kreachable_fold [OF assms(1)] by blast
  have "actuation_inv chan (kernel_state_new e0 r0 checks)"
    using channels by (auto simp: actuation_inv_def kernel_state_new_def actuator_state_default_def fallback_wf_default)
  then have "actuation_inv chan s" unfolding c by (rule run.run) (simp add: list_all_iff)
  then show ?thesis using update_safe assms(2) by blast
qed

end

text \<open>The sanitizer of the repository satisfies the contract on every channel its groups drive.\<close>

definition sanitized_pipeline ::
  "('e, 'r) pipeline \<Rightarrow> quad_signs \<Rightarrow> timestamp \<Rightarrow> ('e, 'r) pipeline" where
  "sanitized_pipeline p signs ts = p\<lparr>p_mix := quad_mix signs ts, p_sanitize := sanitize\<rparr>"

definition safe_channels :: "resolved_config \<Rightarrow> nat set" where
  "safe_channels cfg = {k. mode_config_wf (cfg_mode_config cfg) \<and> driven (cfg_mode_config cfg) k
     \<and> unit_range (cfg_safe_output cfg ! k)}"

lemma sanitize_from_fallback_wf:
  "fallback_wf (fst (snd st)) \<Longrightarrow> fallback_wf (fst (snd (sanitize_from i gs st)))"
proof (induction i gs st rule: sanitize_from.induct)
  case (2 i g gs st)
  have "fallback_wf (fst (snd (sanitize_group i g st)))"
    using sanitize_group_fallback_wf [OF 2(2), of i g "fst st" "snd (snd st)"] by simp
  then show ?case using 2 by simp
qed simp

lemma sanitize_fallback_wf: "sanitize c m fb = (c', fb', rep) \<Longrightarrow> fallback_wf fb \<Longrightarrow> fallback_wf fb'"
  using sanitize_from_fallback_wf [of "(c\<lparr>sanitized := True, fallback_mask := 0\<rparr>, fb, sanitize_report_default)" 0 "mc_groups m"]
  by (simp add: sanitize_def)

interpretation quad: safe_actuation "sanitized_pipeline p signs ts" cfg "safe_channels cfg"
  for p :: "('e, 'r) pipeline" and signs ts cfg
proof
  fix a fb c' fb' rep
  assume "p_sanitize (sanitized_pipeline p signs ts) (p_mix (sanitized_pipeline p signs ts) a) (cfg_mode_config cfg) fb
      = (c', fb', rep)" "fallback_wf fb"
  then show "fallback_wf fb' \<and> (\<forall>k \<in> safe_channels cfg. unit_range (outputs c' ! k))"
    using sanitize_spec [of "quad_mix signs ts a" "cfg_mode_config cfg" fb c' fb' rep]
    by (auto simp: sanitized_pipeline_def safe_channels_def quad_mix_outputs dest: sanitize_fallback_wf)
qed (auto simp: safe_channels_def driven_def)

text \<open>C1: no NaN, infinity or out-of-range value ever reaches a motor: from power-on, after any sequence
  of calls with any sensor data, commands, estimator and controller (whatever numbers these
  compute), every cycle's command on every channel that a group of the configuration drives is a
  finite number in \<open>[0, 1]\<close>, through mixing, sanitizing, slew limiting with any limits and all
  early returns, given that the configured safe patterns are themselves in range.\<close>

theorem motor_outputs_safe:
  assumes "kreachable (sanitized_pipeline p signs ts) cfg (kernel_state_new e0 r0 checks) s"
    and "mode_config_wf (cfg_mode_config cfg)" "driven (cfg_mode_config cfg) k"
    and "unit_range (cfg_safe_output cfg ! k)"
  shows "unit_range (outputs (ur_actuator (snd (update (sanitized_pipeline p signs ts) cfg ci s))) ! k)"
  using assms by (intro quad.reachable_outputs) (simp_all add: safe_channels_def)

theorem motor_outputs_safe_witness:
  "unit_range (outputs (ur_actuator (snd (update (sanitized_pipeline demo_pipeline QUAD_X500_SIGNS timestamp_default)
     (resolved_config_default\<lparr>cfg_mode_config := example_quad_mode\<rparr>) demo_input demo_state))) ! 2)"
proof -
  have "unit_range (cfg_safe_output (resolved_config_default\<lparr>cfg_mode_config := example_quad_mode\<rparr>) ! 2)"
    by code_simp
  then show ?thesis
    using motor_outputs_safe [of demo_pipeline QUAD_X500_SIGNS timestamp_default
        "resolved_config_default\<lparr>cfg_mode_config := example_quad_mode\<rparr>" demo_estimate "()" kernel_checks_new
        demo_state 2 demo_input]
    by (simp add: kstart demo_state_def example_quad_mode_wf example_quad_mode_driven)
qed

end
