(* ===== verification/Runner.thy ===== *)
theory Runner
  imports CommandFrames
begin

text \<open>
  The flight runner (\<open>aviate-runtime\<close>: \<open>command_ingress.rs\<close>, \<open>runner.rs\<close>): the retained setpoint
  with its own receive time, the link health, one control tick and the bounded catch-up of the scheduler. The
  board, the clock, the transport and the watchdog are traits; the functions the runner calls on them are the
  fields of \<open>runner_hals\<close>.
\<close>

section \<open>The command ingress\<close>

datatype command_class = ClassSetpoint | ClassDiscrete

fun system_command_class :: "system_command \<Rightarrow> command_class" where
  "system_command_class (FlightControl _) = ClassSetpoint"
| "system_command_class SysArm = ClassDiscrete"
| "system_command_class SysDisarm = ClassDiscrete"
| "system_command_class EmergencyTerminate = ClassDiscrete"

record 'c command_ingress =
  ci_setpoint :: "'c option"
  ci_setpoint_rx_us :: "u64 option"

definition ingress_default :: "'c command_ingress" where
  "ingress_default = \<lparr>ci_setpoint = None, ci_setpoint_rx_us = None\<rparr>"

definition ingress_receive ::
  "('c \<Rightarrow> command_class) \<Rightarrow> 'c \<Rightarrow> u64 \<Rightarrow> 'c command_ingress \<Rightarrow> 'c command_ingress \<times> command_class" where
  "ingress_receive cls cmd now_us g =
     (case cls cmd of
        ClassSetpoint \<Rightarrow> (g\<lparr>ci_setpoint := Some cmd, ci_setpoint_rx_us := Some now_us\<rparr>, ClassSetpoint)
      | ClassDiscrete \<Rightarrow> (g, ClassDiscrete))"

text \<open>\<open>u32::try_from(now.wrapping_sub(then) / 1_000).unwrap_or(u32::MAX)\<close>.\<close>

definition age_ms :: "u64 \<Rightarrow> u64 \<Rightarrow> u32" where
  "age_ms now_us then_us =
     (let ms = unat (now_us - then_us) div 1000 in if ms < 2 ^ 32 then of_nat ms else - 1)"

definition setpoint_age_ms :: "u64 \<Rightarrow> 'c command_ingress \<Rightarrow> u32" where
  "setpoint_age_ms now_us g = (case ci_setpoint_rx_us g of Some rx \<Rightarrow> age_ms now_us rx | None \<Rightarrow> - 1)"

section \<open>Health\<close>

definition LINK_TIMEOUT_US :: u64 where "LINK_TIMEOUT_US = 1000000"

definition MAX_CATCH_UP :: nat where "MAX_CATCH_UP = 3"

record runner_health =
  he_sensors_ok :: bool
  he_ekf_converged :: bool
  he_link_ok :: bool
  he_last_cmd_time_us :: u64
  he_ever_received :: bool
  he_overrun_count :: u32

definition health_new :: runner_health where
  "health_new = \<lparr>he_sensors_ok = False, he_ekf_converged = False, he_link_ok = False, he_last_cmd_time_us = 0,
     he_ever_received = False, he_overrun_count = 0\<rparr>"

definition update_link_status :: "u64 \<Rightarrow> runner_health \<Rightarrow> runner_health" where
  "update_link_status now_us h = h\<lparr>he_link_ok := now_us - he_last_cmd_time_us h < LINK_TIMEOUT_US\<rparr>"

definition command_received :: "u64 \<Rightarrow> runner_health \<Rightarrow> runner_health" where
  "command_received now_us h = h\<lparr>he_last_cmd_time_us := now_us, he_ever_received := True, he_link_ok := True\<rparr>"

definition command_age_ms :: "u64 \<Rightarrow> runner_health \<Rightarrow> u32" where
  "command_age_ms now_us h = (if \<not> he_ever_received h then - 1 else age_ms now_us (he_last_cmd_time_us h))"

section \<open>The runner\<close>

record 'c command_tick =
  ct_event :: "'c option"
  ct_setpoint :: "'c option"
  ct_setpoint_age_ms :: u32

record ('b, 'h, 't, 'w, 'c) runner_hals =
  rh_board_step :: "'b \<Rightarrow> u64 \<Rightarrow> u64 \<Rightarrow> u32 \<Rightarrow> 'c command_tick \<Rightarrow> bool \<Rightarrow> 'b"
  rh_sensors_ok :: "'b \<Rightarrow> bool"
  rh_ekf_converged :: "'b \<Rightarrow> bool"
  rh_now_us :: "'h \<Rightarrow> 'h \<times> u64"
  rh_sleep_until_us :: "'h \<Rightarrow> u64 \<Rightarrow> 'h"
  rh_try_recv_command :: "'t \<Rightarrow> 't \<times> 'c option"
  rh_poll :: "'t \<Rightarrow> 't"
  rh_kick :: "'w \<Rightarrow> 'w"
  rh_class :: "'c \<Rightarrow> command_class"

record ('b, 'h, 't, 'w, 'c) runner =
  ru_board :: 'b
  ru_time :: 'h
  ru_transport :: 't
  ru_watchdog :: 'w
  ru_ingress :: "'c command_ingress"
  ru_last_event :: "'c option"
  ru_health :: runner_health

definition runner_new :: "'b \<Rightarrow> 'h \<Rightarrow> 't \<Rightarrow> 'w \<Rightarrow> ('b, 'h, 't, 'w, 'c) runner" where
  "runner_new board time transport watchdog =
     \<lparr>ru_board = board, ru_time = time, ru_transport = transport, ru_watchdog = watchdog,
      ru_ingress = ingress_default, ru_last_event = None, ru_health = health_new\<rparr>"

text \<open>Receiving: the first part of \<open>step\<close>, up to the command view.\<close>

definition runner_receive ::
  "('b, 'h, 't, 'w, 'c) runner_hals \<Rightarrow> u64 \<Rightarrow> ('b, 'h, 't, 'w, 'c) runner \<Rightarrow> ('b, 'h, 't, 'w, 'c) runner" where
  "runner_receive H now_us r =
     (let (t, ev) = rh_try_recv_command H (ru_transport r);
          r = r\<lparr>ru_transport := t, ru_last_event := ev\<rparr>;
          r = (case ev of
                 Some cmd \<Rightarrow> r\<lparr>ru_health := command_received now_us (ru_health r),
                               ru_ingress := fst (ingress_receive (rh_class H) cmd now_us (ru_ingress r))\<rparr>
               | None \<Rightarrow> r)
      in r\<lparr>ru_health := update_link_status now_us (ru_health r)\<rparr>)"

definition runner_tick :: "u64 \<Rightarrow> ('b, 'h, 't, 'w, 'c) runner \<Rightarrow> 'c command_tick" where
  "runner_tick now_us r =
     \<lparr>ct_event = ru_last_event r, ct_setpoint = ci_setpoint (ru_ingress r),
      ct_setpoint_age_ms = setpoint_age_ms now_us (ru_ingress r)\<rparr>"

definition runner_step ::
  "('b, 'h, 't, 'w, 'c) runner_hals \<Rightarrow> u64 \<Rightarrow> u64 \<Rightarrow> u32 \<Rightarrow> ('b, 'h, 't, 'w, 'c) runner \<Rightarrow> ('b, 'h, 't, 'w, 'c) runner" where
  "runner_step H tick_us now_us dt_us r =
     (let r = runner_receive H now_us r;
          b = rh_board_step H (ru_board r) tick_us now_us dt_us (runner_tick now_us r) (he_link_ok (ru_health r));
          r = r\<lparr>ru_board := b\<rparr>;
          r = r\<lparr>ru_health := (ru_health r)\<lparr>he_sensors_ok := rh_sensors_ok H b\<rparr>\<rparr>;
          r = r\<lparr>ru_health := (ru_health r)\<lparr>he_ekf_converged := rh_ekf_converged H b\<rparr>\<rparr>
      in r\<lparr>ru_watchdog := rh_kick H (ru_watchdog r)\<rparr>)"

text \<open>The inner loop of \<open>run\<close>: \<open>k\<close> is \<open>MAX_CATCH_UP - 1\<close> minus the steps taken.\<close>

primrec catch_up ::
  "('b, 'h, 't, 'w, 'c) runner_hals \<Rightarrow> u32 \<Rightarrow> nat \<Rightarrow> u64 \<Rightarrow> ('b, 'h, 't, 'w, 'c) runner
   \<Rightarrow> ('b, 'h, 't, 'w, 'c) runner \<times> u64" where
  "catch_up H period_us 0 next_tick r =
     (let (h, now) = rh_now_us H (ru_time r); r = r\<lparr>ru_time := h\<rparr>
      in if sint (now - next_tick) < 0 then (r, next_tick)
         else let r = runner_step H next_tick now period_us r
              in (r\<lparr>ru_health := (ru_health r)\<lparr>he_overrun_count := sat_add (he_overrun_count (ru_health r)) 1\<rparr>\<rparr>, now))"
| "catch_up H period_us (Suc k) next_tick r =
     (let (h, now) = rh_now_us H (ru_time r); r = r\<lparr>ru_time := h\<rparr>
      in if sint (now - next_tick) < 0 then (r, next_tick)
         else catch_up H period_us k (next_tick + ucast period_us) (runner_step H next_tick now period_us r))"

text \<open>One round of the outer loop of \<open>run\<close>.\<close>

definition run_round ::
  "('b, 'h, 't, 'w, 'c) runner_hals \<Rightarrow> u32 \<Rightarrow> ('b, 'h, 't, 'w, 'c) runner \<times> u64 \<Rightarrow> ('b, 'h, 't, 'w, 'c) runner \<times> u64" where
  "run_round H period_us s =
     (let (r, next_tick) = s;
          r = r\<lparr>ru_transport := rh_poll H (ru_transport r)\<rparr>;
          (r, next_tick) = catch_up H period_us (MAX_CATCH_UP - 1) next_tick r
      in (r\<lparr>ru_time := rh_sleep_until_us H (ru_time r) next_tick\<rparr>, next_tick))"

section \<open>What the board sees\<close>

text \<open>A run of control ticks: for each its schedule time, the clock and the period.\<close>

definition runner_run ::
  "('b, 'h, 't, 'w, 'c) runner_hals \<Rightarrow> (u64 \<times> u64 \<times> u32) list \<Rightarrow> ('b, 'h, 't, 'w, 'c) runner \<Rightarrow> ('b, 'h, 't, 'w, 'c) runner" where
  "runner_run H ticks r = fold (\<lambda>(tick, now, dt). runner_step H tick now dt) ticks r"

text \<open>What the transport delivers over the ticks, by itself: the time of each tick and the command or nothing.\<close>

primrec deliveries ::
  "('b, 'h, 't, 'w, 'c) runner_hals \<Rightarrow> 't \<Rightarrow> (u64 \<times> u64 \<times> u32) list \<Rightarrow> (u64 \<times> 'c option) list" where
  "deliveries H t [] = []"
| "deliveries H t (x # xs) = (let (t', ev) = rh_try_recv_command H t in (fst (snd x), ev) # deliveries H t' xs)"

text \<open>The specification: a function of the receives so far, newest first.\<close>

fun last_setpoint :: "('c \<Rightarrow> command_class) \<Rightarrow> (u64 \<times> 'c option) list \<Rightarrow> (u64 \<times> 'c) option" where
  "last_setpoint cls [] = None"
| "last_setpoint cls ((now, Some c) # es) = (if cls c = ClassSetpoint then Some (now, c) else last_setpoint cls es)"
| "last_setpoint cls ((now, None) # es) = last_setpoint cls es"

fun last_receive :: "(u64 \<times> 'c option) list \<Rightarrow> u64" where
  "last_receive [] = 0"
| "last_receive ((now, Some c) # es) = now"
| "last_receive ((now, None) # es) = last_receive es"

fun spec_view :: "('c \<Rightarrow> command_class) \<Rightarrow> (u64 \<times> 'c option) list \<Rightarrow> u64 \<times> 'c command_tick \<times> bool" where
  "spec_view cls ((now, ev) # es) =
     (let s = last_setpoint cls ((now, ev) # es)
      in (now, \<lparr>ct_event = ev, ct_setpoint = map_option snd s,
                ct_setpoint_age_ms = (case s of Some (t, _) \<Rightarrow> age_ms now t | None \<Rightarrow> - 1)\<rparr>,
          now - last_receive ((now, ev) # es) < LINK_TIMEOUT_US))"

definition runner_abs ::
  "('c \<Rightarrow> command_class) \<Rightarrow> ('b, 'h, 't, 'w, 'c) runner \<Rightarrow> (u64 \<times> 'c option) list \<Rightarrow> bool" where
  "runner_abs cls r es \<longleftrightarrow>
     ci_setpoint (ru_ingress r) = map_option snd (last_setpoint cls es)
     \<and> ci_setpoint_rx_us (ru_ingress r) = map_option fst (last_setpoint cls es)
     \<and> he_last_cmd_time_us (ru_health r) = last_receive es"

lemma runner_receive_abs:
  assumes "runner_abs (rh_class H) r es"
  shows "runner_abs (rh_class H) (runner_receive H now r) ((now, ru_last_event (runner_receive H now r)) # es)"
    and "(now, runner_tick now (runner_receive H now r), he_link_ok (ru_health (runner_receive H now r)))
      = spec_view (rh_class H) ((now, ru_last_event (runner_receive H now r)) # es)"
proof -
  obtain t ev where tr: "rh_try_recv_command H (ru_transport r) = (t, ev)" by fastforce
  have ev: "ru_last_event (runner_receive H now r) = ev"
    by (auto simp: runner_receive_def tr Let_def split: option.split)
  show a: "runner_abs (rh_class H) (runner_receive H now r) ((now, ru_last_event (runner_receive H now r)) # es)"
    unfolding ev using assms
    by (auto simp: runner_abs_def runner_receive_def tr Let_def command_received_def update_link_status_def
        ingress_receive_def split: option.split command_class.split)
  have l: "he_link_ok (ru_health (runner_receive H now r))
      \<longleftrightarrow> now - he_last_cmd_time_us (ru_health (runner_receive H now r)) < LINK_TIMEOUT_US"
    by (auto simp: runner_receive_def Let_def update_link_status_def split: prod.split)
  show "(now, runner_tick now (runner_receive H now r), he_link_ok (ru_health (runner_receive H now r)))
      = spec_view (rh_class H) ((now, ru_last_event (runner_receive H now r)) # es)"
    using a l unfolding ev
    by (auto simp: runner_abs_def runner_tick_def Let_def setpoint_age_ms_def ev split: option.split)
qed

lemma runner_step_abs:
  "runner_abs cls (runner_receive H now r) es \<Longrightarrow> runner_abs cls (runner_step H tick now dt r) es"
  by (simp add: runner_step_def Let_def runner_abs_def)

text \<open>The views of successive ticks, each over the deliveries so far.\<close>

primrec spec_log :: "('c \<Rightarrow> command_class) \<Rightarrow> (u64 \<times> 'c option) list \<Rightarrow> (u64 \<times> 'c option) list
    \<Rightarrow> (u64 \<times> 'c command_tick \<times> bool) list" where
  "spec_log cls es [] = []"
| "spec_log cls es (e # evs) = spec_view cls (e # es) # spec_log cls (e # es) evs"

lemma spec_log_nth:
  "i < length evs \<Longrightarrow> spec_log cls es evs ! i = spec_view cls (rev (take (Suc i) evs) @ es)"
proof (induction evs arbitrary: es i)
  case (Cons e evs)
  then show ?case by (cases i) (simp_all del: spec_view.simps)
qed simp

lemma spec_log_length [simp]: "length (spec_log cls es evs) = length evs"
  by (induction evs arbitrary: es) simp_all

lemma deliveries_length [simp]: "length (deliveries H t ticks) = length ticks"
  by (induction ticks arbitrary: t) (simp_all add: split_beta)

lemma spec_log_prefixes:
  "spec_log cls [] evs = map (\<lambda>i. spec_view cls (rev (take (Suc i) evs))) [0..<length evs]"
  by (rule nth_equalityI) (simp_all add: spec_log_nth)

text \<open>The board handed a list of views, tick by tick.\<close>

definition board_run ::
  "('b, 'h, 't, 'w, 'c) runner_hals \<Rightarrow> ((u64 \<times> u64 \<times> u32) \<times> (u64 \<times> 'c command_tick \<times> bool)) list \<Rightarrow> 'b \<Rightarrow> 'b" where
  "board_run H handed b =
     fold (\<lambda>((tick, now, dt), (_, view, link_ok)) b. rh_board_step H b tick now dt view link_ok) handed b"

lemma runner_step_fields:
  assumes "rh_try_recv_command H (ru_transport r) = (t, ev)"
  shows "ru_transport (runner_step H tick now dt r) = t"
    and "ru_last_event (runner_receive H now r) = ev"
    and "ru_board (runner_step H tick now dt r)
      = rh_board_step H (ru_board r) tick now dt (runner_tick now (runner_receive H now r))
          (he_link_ok (ru_health (runner_receive H now r)))"
  by (simp_all add: runner_step_def runner_receive_def assms Let_def split: option.split)

lemma runner_run_abs:
  "runner_abs (rh_class H) r es
   \<Longrightarrow> ru_board (runner_run H ticks r)
     = board_run H (zip ticks (spec_log (rh_class H) es (deliveries H (ru_transport r) ticks))) (ru_board r)"
proof (induction ticks arbitrary: r es)
  case (Cons x xs)
  obtain tick now dt where x: "x = (tick, now, dt)" by (cases x)
  obtain t ev where t: "rh_try_recv_command H (ru_transport r) = (t, ev)" by fastforce
  note f = runner_step_fields [OF t]
  let ?r' = "runner_step H tick now dt r"
  have v: "(now, runner_tick now (runner_receive H now r), he_link_ok (ru_health (runner_receive H now r)))
      = spec_view (rh_class H) ((now, ev) # es)"
    using runner_receive_abs(2) [OF Cons.prems, of now] by (simp only: f(2))
  have a: "runner_abs (rh_class H) ?r' ((now, ev) # es)"
    using runner_step_abs [OF runner_receive_abs(1) [OF Cons.prems, of now]] by (simp only: f(2))
  have "ru_board (runner_run H (x # xs) r) = ru_board (runner_run H xs ?r')" by (simp add: runner_run_def x)
  also have "\<dots> = board_run H (zip xs (spec_log (rh_class H) ((now, ev) # es) (deliveries H t xs))) (ru_board ?r')"
    using Cons.IH [OF a] by (simp only: f(1))
  finally show ?case
    by (simp add: x t board_run_def f(3) v [symmetric] del: spec_view.simps)
qed (simp add: runner_run_def board_run_def)

lemma runner_abs_new: "runner_abs cls (runner_new b h t w) []"
  by (simp add: runner_abs_def runner_new_def ingress_default_def health_new_def)

text \<open>C40: Only setpoints refresh the setpoint. In every run of control ticks from boot, with any board, the board is
  stepped once per tick and handed that tick's times, the command the transport delivered in that tick, the latest
  setpoint-class command delivered so far, the milliseconds since THAT delivery (saturated at \<open>u32::MAX\<close>, and
  \<open>u32::MAX\<close> before the first), however many discrete commands arrived in between, and a link verdict that says
  whether the last command of any class arrived less than a second ago, counting from time zero before the first: the
  board ends in the state it reaches when it is handed exactly these.\<close>

theorem setpoint_view_exact:
  "ru_board (runner_run H ticks (runner_new board time transport watchdog))
   = board_run H
       (zip ticks (map (\<lambda>i. spec_view (rh_class H) (rev (take (Suc i) (deliveries H transport ticks)))) [0..<length ticks]))
       board"
  using runner_run_abs [OF runner_abs_new [of "rh_class H" board time transport watchdog], of ticks]
  by (simp add: spec_log_prefixes runner_new_def)

text \<open>A board that keeps what it is handed: a setpoint, then two discrete commands.\<close>

definition demo_hals :: "((u64 \<times> nat command_tick \<times> bool) list, unit, nat option list, nat, nat) runner_hals" where
  "demo_hals =
     \<lparr>rh_board_step = \<lambda>b tick now dt view link_ok. b @ [(now, view, link_ok)], rh_sensors_ok = \<lambda>_. True,
      rh_ekf_converged = \<lambda>_. True, rh_now_us = \<lambda>h. (h, 0), rh_sleep_until_us = \<lambda>h _. h,
      rh_try_recv_command = \<lambda>t. case t of [] \<Rightarrow> ([], None) | x # xs \<Rightarrow> (xs, x),
      rh_poll = \<lambda>t. t, rh_kick = Suc, rh_class = \<lambda>c. if c < 10 then ClassSetpoint else ClassDiscrete\<rparr>"

theorem setpoint_view_exact_witness:
  "ru_board (runner_run demo_hals [(0, 1000, 0), (0, 2000, 0), (0, 501000, 0)] (runner_new [] () [Some 3, Some 11, Some 12] 0))
     = [(1000, \<lparr>ct_event = Some 3, ct_setpoint = Some 3, ct_setpoint_age_ms = 0\<rparr>, True),
        (2000, \<lparr>ct_event = Some 11, ct_setpoint = Some 3, ct_setpoint_age_ms = 1\<rparr>, True),
        (501000, \<lparr>ct_event = Some 12, ct_setpoint = Some 3, ct_setpoint_age_ms = 500\<rparr>, True)]"
  by (subst setpoint_view_exact) (simp add: demo_hals_def board_run_def age_ms_def LINK_TIMEOUT_US_def Let_def upt_rec)

text \<open>Before the first command the link counts as alive for the first second after boot.\<close>

lemma link_ok_before_first_command:
  "he_link_ok (update_link_status now health_new) \<longleftrightarrow> now < 1000000"
  by (simp add: update_link_status_def health_new_def LINK_TIMEOUT_US_def)

section \<open>Catching up\<close>

lemma runner_step_watchdog: "ru_watchdog (runner_step H tick now dt r) = rh_kick H (ru_watchdog r)"
  by (auto simp: runner_step_def runner_receive_def Let_def split: prod.split option.split)

lemma runner_step_overrun: "he_overrun_count (ru_health (runner_step H tick now dt r)) = he_overrun_count (ru_health r)"
  by (auto simp: runner_step_def runner_receive_def Let_def command_received_def update_link_status_def
      split: prod.split option.split)

lemma catch_up_bounds:
  "\<exists>n \<le> Suc k. ru_watchdog (fst (catch_up H p k t r)) = (rh_kick H ^^ n) (ru_watchdog r)
     \<and> (n = Suc k \<longrightarrow> he_overrun_count (ru_health (fst (catch_up H p k t r))) = sat_add (he_overrun_count (ru_health r)) 1)
     \<and> (n < Suc k \<longrightarrow> he_overrun_count (ru_health (fst (catch_up H p k t r))) = he_overrun_count (ru_health r)
          \<and> snd (catch_up H p k t r) = t + of_nat n * ucast p)"
proof (induction k arbitrary: t r)
  case 0
  obtain h now where n: "rh_now_us H (ru_time r) = (h, now)" by fastforce
  show ?case
  proof (cases "sint (now - t) < 0")
    case True
    then show ?thesis by (intro exI [of _ 0]) (simp add: n Let_def)
  next
    case False
    then show ?thesis by (intro exI [of _ 1]) (simp add: n Let_def runner_step_watchdog runner_step_overrun)
  qed
next
  case (Suc k)
  obtain h now where n: "rh_now_us H (ru_time r) = (h, now)" by fastforce
  let ?r = "runner_step H t now p (r\<lparr>ru_time := h\<rparr>)"
  show ?case
  proof (cases "sint (now - t) < 0")
    case True
    then show ?thesis by (intro exI [of _ 0]) (simp add: n Let_def)
  next
    case False
    then have c: "catch_up H p (Suc k) t r = catch_up H p k (t + ucast p) ?r" by (simp add: n Let_def)
    obtain m where m: "m \<le> Suc k"
      "ru_watchdog (fst (catch_up H p k (t + ucast p) ?r)) = (rh_kick H ^^ m) (ru_watchdog ?r)"
      "m = Suc k \<longrightarrow> he_overrun_count (ru_health (fst (catch_up H p k (t + ucast p) ?r)))
         = sat_add (he_overrun_count (ru_health ?r)) 1"
      "m < Suc k \<longrightarrow> he_overrun_count (ru_health (fst (catch_up H p k (t + ucast p) ?r))) = he_overrun_count (ru_health ?r)
         \<and> snd (catch_up H p k (t + ucast p) ?r) = t + ucast p + of_nat m * ucast p"
      using Suc.IH [of "t + ucast p" ?r] by blast
    then show ?thesis
      unfolding c
      by (intro exI [of _ "Suc m"])
        (simp add: runner_step_watchdog runner_step_overrun funpow_swap1 algebra_simps)
  qed
qed

text \<open>Catching up is bounded. One round of the scheduler executes at most \<open>MAX_CATCH_UP\<close> control ticks and
  kicks the watchdog once for each; with fewer than that it leaves the overrun counter alone and advances the
  schedule by exactly one period per tick, and with exactly that many it counts one overrun (saturating).\<close>

lemma catch_up_bounded:
  "\<exists>n \<le> MAX_CATCH_UP. ru_watchdog (fst (run_round H period_us (r, next_tick))) = (rh_kick H ^^ n) (ru_watchdog r)
     \<and> he_overrun_count (ru_health (fst (run_round H period_us (r, next_tick))))
       = (if n = MAX_CATCH_UP then sat_add (he_overrun_count (ru_health r)) 1 else he_overrun_count (ru_health r))
     \<and> (n = MAX_CATCH_UP \<or> snd (run_round H period_us (r, next_tick)) = next_tick + of_nat n * ucast period_us)"
proof -
  let ?r = "r\<lparr>ru_transport := rh_poll H (ru_transport r)\<rparr>"
  obtain r' t' where c: "catch_up H period_us 2 next_tick ?r = (r', t')" by fastforce
  obtain n where "n \<le> 3" "ru_watchdog r' = (rh_kick H ^^ n) (ru_watchdog r)"
    "n = 3 \<longrightarrow> he_overrun_count (ru_health r') = sat_add (he_overrun_count (ru_health r)) 1"
    "n < 3 \<longrightarrow> he_overrun_count (ru_health r') = he_overrun_count (ru_health r) \<and> t' = next_tick + of_nat n * ucast period_us"
    using catch_up_bounds [of 2 H period_us next_tick ?r] c by auto
  then show ?thesis
    by (intro exI [of _ n]) (auto simp: run_round_def MAX_CATCH_UP_def c Let_def)
qed

end
