(* ===== verification/Sitl.thy ===== *)
theory Sitl
  imports BoardHal FlightKernel MotorOutputs Runner
begin

text \<open>
  The flight controller in the loop with a simulator (\<open>aviate-runtime\<close>: \<open>sim.rs\<close>, \<open>sim/step.rs\<close>, \<open>sim/lifecycle.rs\<close>,
  \<open>sensor_cache.rs\<close>): one step takes the drivers' readings and at most one command, boots the estimator and the
  kernel, runs the kernel's cycle and hands its outputs to the simulator. It is the composition of board HAL,
  ingress, kernel and actuator driver.

  Inputs of a step are the answers of the drivers, the command the transport has received, the clock, the live arm
  authorization and the declination reference. Left out are fault injection into the fake sensors and the provenance of
  commands, neither of which the kernel sees; where the declination comes from and what telemetry is told is in
  \<open>SitlTelemetry\<close>.
\<close>

section \<open>The sensor cache\<close>

record sensor_cache =
  sc_imu :: "imu_data sensor_reading option"
  sc_gnss :: "gnss_data sensor_reading option"
  sc_baro :: "baro_data sensor_reading option"
  sc_mag :: "mag_data sensor_reading option"

definition sensor_cache_new :: sensor_cache where
  "sensor_cache_new = \<lparr>sc_imu = None, sc_gnss = None, sc_baro = None, sc_mag = None\<rparr>"

definition unwrap_reading :: "'a \<Rightarrow> 'a sensor_reading option \<Rightarrow> 'a sensor_reading" where
  "unwrap_reading v r = (case r of Some x \<Rightarrow> x | None \<Rightarrow> sensor_reading_default v)"

definition to_sensor_set :: "sensor_cache \<Rightarrow> sensor_set" where
  "to_sensor_set c =
     \<lparr>imus = [unwrap_reading imu_data_default (sc_imu c), sensor_reading_default imu_data_default,
              sensor_reading_default imu_data_default],
      gnss = [unwrap_reading gnss_data_default (sc_gnss c), sensor_reading_default gnss_data_default],
      mags = [unwrap_reading mag_data_default (sc_mag c), sensor_reading_default mag_data_default],
      baros = [unwrap_reading baro_data_default (sc_baro c), sensor_reading_default baro_data_default],
      airspeeds = [sensor_reading_default airspeed_data_default, sensor_reading_default airspeed_data_default],
      geometry = None, geomagnetic = None\<rparr>"

section \<open>The runner's state\<close>

datatype mav_state =
  MavUninit | MavBoot | MavCalibrating | MavStandby | MavActive | MavCritical | MavEmergency | MavPoweroff
| MavFlightTermination

fun init_state_to_mav_state :: "init_state \<Rightarrow> mav_state" where
  "init_state_to_mav_state PowerOn = MavBoot"
| "init_state_to_mav_state ConfigLoading = MavBoot"
| "init_state_to_mav_state SensorInit = MavCalibrating"
| "init_state_to_mav_state EstimatorConverging = MavCalibrating"
| "init_state_to_mav_state PreArm = MavCalibrating"
| "init_state_to_mav_state Ready = MavStandby"
| "init_state_to_mav_state Armed = MavActive"
| "init_state_to_mav_state Disarmed = MavStandby"
| "init_state_to_mav_state Fault = MavCritical"

definition sitl_default_command :: command where
  "sitl_default_command =
     \<lparr>cmd_mode = Attitude, cmd_setpoint = setpoint_default\<lparr>sp_collective_thrust := f0\<rparr>,
      cmd_config_mode_request = None, cmd_sensor_overrides = None, cmd_sequence = 0, cmd_source = Failsafe\<rparr>"

record sim_actuator_cmd =
  sa_timestamp_us :: u64
  sa_outputs :: "f32 list"
  sa_count :: u8
  sa_armed :: bool

text \<open>The transport (\<open>SitlIO\<close>) is here the state the runner shares with it: armed flag, reported status, the command
  buffered for the simulator and the world's generation.\<close>

record 'r sitl =
  si_kernel :: "(ekf_state, 'r) kernel_state"
  si_actuator :: fake_actuator
  si_ingress :: "system_command command_ingress"
  si_last_effective :: command
  si_last_imu_time :: "u64 option"
  si_cache :: sensor_cache
  si_ekf_initialized :: bool
  si_iteration :: u32
  si_armed :: bool
  si_status :: mav_state
  si_command_out :: "sim_actuator_cmd option"
  si_world_generation :: "u32 option"
  si_generation_changed :: bool

definition sitl_new :: "(ekf_state, 'r) kernel_state \<Rightarrow> 'r sitl" where
  "sitl_new k =
     \<lparr>si_kernel = k, si_actuator = fake_actuator_new, si_ingress = ingress_default,
      si_last_effective = sitl_default_command, si_last_imu_time = None, si_cache = sensor_cache_new,
      si_ekf_initialized = False, si_iteration = 0, si_armed = False, si_status = MavBoot, si_command_out = None,
      si_world_generation = None, si_generation_changed = False\<rparr>"

definition sitl_is_armed :: "'r sitl \<Rightarrow> bool" where
  "sitl_is_armed s \<longleftrightarrow> ks_init_state (si_kernel s) = Armed"

record sitl_input =
  in_imu :: "raw_imu_reading driver"
  in_gnss :: "raw_gnss_reading driver"
  in_baro :: "raw_baro_reading driver"
  in_mag :: "raw_mag_reading driver"
  in_command :: "system_command option"
  in_receive_ticks :: u64
  in_cycle_ticks :: u64
  in_write_us :: u64
  in_authorization :: "(unit, arm_error) result"
  in_sim_delta_us :: "u64 option"
  in_reference :: "geomagnetic_reference option"

section \<open>A new world\<close>

definition clear_generation_state :: "'r sitl \<Rightarrow> 'r sitl" where
  "clear_generation_state s = s\<lparr>si_command_out := None, si_armed := False, si_status := MavBoot\<rparr>"

text \<open>\<open>feed_sensor_packet\<close>, as far as it is not sensor data: the epoch the sample states.\<close>

definition feed_generation :: "u32 option \<Rightarrow> 'r sitl \<Rightarrow> 'r sitl" where
  "feed_generation g s =
     (case g of
        None \<Rightarrow> s
      | Some generation \<Rightarrow>
          (if si_world_generation s \<noteq> None \<and> si_world_generation s \<noteq> Some generation
           then (clear_generation_state s)\<lparr>si_generation_changed := True\<rparr> else s)
            \<lparr>si_world_generation := Some generation\<rparr>)"

definition reset_runner_for_generation :: "(ekf_state, 'r) pipeline \<Rightarrow> 'r sitl \<Rightarrow> 'r sitl" where
  "reset_runner_for_generation p s =
     (let k0 = (if sitl_is_armed s then terminate p (si_kernel s) else si_kernel s);
          k1 = ground_reset p k0;
          k2 = upd_pre_arm (\<lambda>c. pa_update_throttle c True) k1
      in s\<lparr>si_kernel := k2, si_actuator := fa_disarm (si_actuator s), si_ingress := ingress_default,
           si_last_effective := sitl_default_command, si_last_imu_time := None, si_cache := sensor_cache_new,
           si_ekf_initialized := False, si_iteration := 0\<rparr>)"

definition reset_for_simulator_generation :: "(ekf_state, 'r) pipeline \<Rightarrow> 'r sitl \<Rightarrow> 'r sitl" where
  "reset_for_simulator_generation p s = reset_runner_for_generation p (clear_generation_state s)"

definition adopt_generation_change :: "(ekf_state, 'r) pipeline \<Rightarrow> 'r sitl \<Rightarrow> 'r sitl" where
  "adopt_generation_change p s =
     (if si_generation_changed s
      then reset_runner_for_generation p (s\<lparr>si_generation_changed := False\<rparr>) else s)"

section \<open>The stages of a step\<close>

text \<open>\<open>delta_us as f32\<close> rounds to nearest; the clamp keeps the cycle period between 0.1 ms and 100 ms.\<close>

definition f32_of_u64 :: "u64 \<Rightarrow> f32" where
  "f32_of_u64 n = f32_lit (uint n) 1"

definition sitl_dt :: "u64 \<Rightarrow> f32" where
  "sitl_dt delta_us = f32_clamp (f32_mul (f32_of_u64 delta_us) (f32_lit 1 1000000)) (f32_lit 1 10000) (f32_lit 1 10)"

definition cycle_delta :: "sitl_input \<Rightarrow> 'r sitl \<Rightarrow> 'r sitl \<times> time_delta" where
  "cycle_delta x s =
     (let (s, delta_us) =
            (case read_imu (in_imu x) of
               Some imu \<Rightarrow>
                 (let current_time = ts_ticks (rd_timestamp imu)
                  in (s\<lparr>si_last_imu_time := Some current_time, si_cache := (si_cache s)\<lparr>sc_imu := Some imu\<rparr>\<rparr>,
                      case si_last_imu_time s of Some prev \<Rightarrow> sat_sub current_time prev | None \<Rightarrow> 1000))
             | None \<Rightarrow> (s, 1000));
          delta_us = (case in_sim_delta_us x of Some d \<Rightarrow> d | None \<Rightarrow> delta_us)
      in (s, \<lparr>dt_sec = sitl_dt delta_us, tick_delta = delta_us\<rparr>))"

definition keep_latest :: "'a option \<Rightarrow> 'a option \<Rightarrow> 'a option" where
  "keep_latest new old = (case new of Some x \<Rightarrow> Some x | None \<Rightarrow> old)"

definition cache_sensors :: "(f32 \<Rightarrow> f32 \<Rightarrow> f32) \<Rightarrow> sitl_input \<Rightarrow> 'r sitl \<Rightarrow> 'r sitl" where
  "cache_sensors pow x s =
     s\<lparr>si_cache := (si_cache s)
         \<lparr>sc_gnss := keep_latest (read_gnss (in_gnss x)) (sc_gnss (si_cache s)),
          sc_baro := keep_latest (read_baro pow (in_baro x)) (sc_baro (si_cache s)),
          sc_mag := keep_latest (read_mag (in_mag x)) (sc_mag (si_cache s))\<rparr>\<rparr>"

definition enact_arm ::
  "(ekf_state, 'r) pipeline \<Rightarrow> (unit, arm_error) result \<Rightarrow> 'r sitl \<Rightarrow> 'r sitl \<times> command_outcome" where
  "enact_arm p authorization s =
     (let missing = pa_missing (pre_arm (ks_checks (si_kernel s)))
      in case authorization of
           Err e \<Rightarrow> (s, ArmRejected e missing)
         | Ok _ \<Rightarrow>
             (case arm p (si_kernel s) of
                (k, Ok _) \<Rightarrow> (s\<lparr>si_kernel := k, si_actuator := fa_arm (si_actuator s), si_armed := True\<rparr>, Accepted)
              | (k, Err e) \<Rightarrow> (s\<lparr>si_kernel := k\<rparr>, ArmRejected e (pa_missing (pre_arm (ks_checks k))))))"

definition enact_disarm :: "(ekf_state, 'r) pipeline \<Rightarrow> 'r sitl \<Rightarrow> 'r sitl \<times> command_outcome" where
  "enact_disarm p s =
     (case disarm p (si_kernel s) of
        (k, Ok _) \<Rightarrow> (s\<lparr>si_kernel := k, si_actuator := fa_disarm (si_actuator s), si_armed := False\<rparr>, Accepted)
      | (k, Err e) \<Rightarrow> (s\<lparr>si_kernel := k\<rparr>, DisarmRejected e))"

fun enact_discrete ::
  "(ekf_state, 'r) pipeline \<Rightarrow> (unit, arm_error) result \<Rightarrow> system_command \<Rightarrow> 'r sitl
   \<Rightarrow> 'r sitl \<times> command_outcome option" where
  "enact_discrete p a SysArm s = (let (s, out) = enact_arm p a s in (s, Some out))"
| "enact_discrete p a SysDisarm s = (let (s, out) = enact_disarm p s in (s, Some out))"
| "enact_discrete p a EmergencyTerminate s =
     (s\<lparr>si_kernel := terminate p (si_kernel s), si_actuator := fa_disarm (si_actuator s), si_armed := False\<rparr>,
      Some Accepted)"
| "enact_discrete p a (FlightControl c) s = (s, None)"

definition throttle_is_low :: "command \<Rightarrow> bool" where
  "throttle_is_low c = f32_lt (sp_collective_thrust (cmd_setpoint c)) (f32_lit 1 100)"

definition sitl_receive :: "(ekf_state, 'r) pipeline \<Rightarrow> sitl_input \<Rightarrow> 'r sitl \<Rightarrow> 'r sitl \<times> command_outcome option" where
  "sitl_receive p x s =
     (case in_command x of
        None \<Rightarrow> (s, None)
      | Some c \<Rightarrow>
          (let s = (case c of
                      FlightControl fc \<Rightarrow>
                        s\<lparr>si_kernel := upd_pre_arm (\<lambda>c. pa_update_throttle c (throttle_is_low fc)) (si_kernel s)\<rparr>
                    | _ \<Rightarrow> s);
               (s, out) = enact_discrete p (in_authorization x) c s
           in (s\<lparr>si_ingress := fst (ingress_receive system_command_class c (in_receive_ticks x) (si_ingress s))\<rparr>, out)))"

definition triad_init_quat :: "libm \<Rightarrow> vec3 \<Rightarrow> vec3 \<Rightarrow> f32 \<Rightarrow> quaternion" where
  "triad_init_quat M accel_body mag_body decl =
     (let ax = ix0 accel_body; ay = ix1 accel_body; az = ix2 accel_body;
          a_mag = sqrtf M (f32_add (f32_add (f32_mul ax ax) (f32_mul ay ay)) (f32_mul az az))
      in if \<not> f32_is_finite a_mag \<or> f32_lt a_mag f1 then quat_identity
         else let mx = ix0 mag_body; my = ix1 mag_body; mz = ix2 mag_body;
                  m_mag = sqrtf M (f32_add (f32_add (f32_mul mx mx) (f32_mul my my)) (f32_mul mz mz))
         in if \<not> f32_is_finite m_mag \<or> f32_lt m_mag f1 then quat_identity
            else let roll = atan2f M (f32_neg ay) (f32_neg az);
                     pitch = atan2f M ax (sqrtf M (f32_add (f32_mul ay ay) (f32_mul az az)));
                     sin_r = sinf M roll; cos_r = cosf M roll; sin_p = sinf M pitch; cos_p = cosf M pitch;
                     mag_n_level = f32_add (f32_add (f32_mul cos_p mx) (f32_mul (f32_mul sin_p sin_r) my))
                                     (f32_mul (f32_mul sin_p cos_r) mz);
                     mag_e_level = f32_sub (f32_mul cos_r my) (f32_mul sin_r mz);
                     yaw = f32_add (atan2f M (f32_neg mag_e_level) mag_n_level) decl;
                     qz = quat_from_axis_angle M (f0, f0, f1) yaw;
                     qy = quat_from_axis_angle M (f0, f1, f0) pitch;
                     qx = quat_from_axis_angle M (f1, f0, f0) roll
                 in quat_mul (quat_mul qz qy) qx)"

definition sitl_init_ekf :: "libm \<Rightarrow> sitl_input \<Rightarrow> 'r sitl \<Rightarrow> 'r sitl" where
  "sitl_init_ekf M x s =
     (if \<not> si_ekf_initialized s \<and> sc_imu (si_cache s) \<noteq> None \<and> sc_mag (si_cache s) \<noteq> None
      then let imu = (case sc_imu (si_cache s) of Some r \<Rightarrow> rd_value r | None \<Rightarrow> imu_data_default);
               mag = (case sc_mag (si_cache s) of Some r \<Rightarrow> rd_value r | None \<Rightarrow> mag_data_default);
               q = triad_init_quat M (accel imu) (field_ut mag)
                     (case in_reference x of Some r \<Rightarrow> declination r | None \<Rightarrow> f0);
               k = si_kernel s
           in s\<lparr>si_kernel := k\<lparr>ks_estimator := ekf_init (f0, f0, f0) (f0, f0, f0) q (ks_estimator k)\<rparr>,
                si_ekf_initialized := True\<rparr>
      else s)"

definition sitl_sensors :: "sitl_input \<Rightarrow> 'r sitl \<Rightarrow> sensor_set" where
  "sitl_sensors x s = (to_sensor_set (si_cache s))\<lparr>geomagnetic := in_reference x\<rparr>"

definition sitl_init_step :: "(ekf_state, 'r) pipeline \<Rightarrow> sensor_set \<Rightarrow> 'r sitl \<Rightarrow> 'r sitl" where
  "sitl_init_step p sensors s =
     (if is_ready (si_kernel s) then s
      else let prev_state = ks_init_state (si_kernel s);
               k = fst (init_step p sensors (si_kernel s));
               s = s\<lparr>si_kernel := k\<rparr>
           in if ks_init_state k \<noteq> prev_state then s\<lparr>si_status := init_state_to_mav_state (ks_init_state k)\<rparr> else s)"

definition sitl_command :: "'r sitl \<Rightarrow> command" where
  "sitl_command s = (case ci_setpoint (si_ingress s) of Some (FlightControl c) \<Rightarrow> c | _ \<Rightarrow> sitl_default_command)"

definition sitl_cycle_input :: "sitl_input \<Rightarrow> time_delta \<Rightarrow> sensor_set \<Rightarrow> 'r sitl \<Rightarrow> cycle_input" where
  "sitl_cycle_input x dt sensors s =
     \<lparr>ci_time = dt, ci_sensors = sensors, ci_command = sitl_command s,
      ci_command_age_ms = setpoint_age_ms (in_cycle_ticks x) (si_ingress s)\<rparr>"

definition sitl_update ::
  "(ekf_state, 'r) pipeline \<Rightarrow> resolved_config \<Rightarrow> cycle_input \<Rightarrow> 'r sitl \<Rightarrow> 'r sitl \<times> update_result" where
  "sitl_update p cfg ci s =
     (let (k, result) = update p cfg ci (si_kernel s)
      in (s\<lparr>si_kernel := k, si_last_effective := ur_effective_command result\<rparr>, result))"

definition sitl_write :: "u64 \<Rightarrow> actuator_cmd \<Rightarrow> 'r sitl \<Rightarrow> 'r sitl" where
  "sitl_write now_us cmd s =
     (let (a, raw) = fa_take_cmd (hal_write cmd (si_actuator s));
          s = s\<lparr>si_actuator := a\<rparr>
      in case raw of
           Some raw_cmd \<Rightarrow>
             s\<lparr>si_command_out := Some \<lparr>sa_timestamp_us = now_us, sa_outputs = ra_outputs raw_cmd,
                                      sa_count = ra_count raw_cmd, sa_armed = sitl_is_armed s\<rparr>\<rparr>
         | None \<Rightarrow> s)"

text \<open>\<open>step_clocked\<close>: with the result of the cycle and the sensors it saw, which telemetry is told.\<close>

definition sitl_cycle ::
  "(f32 \<Rightarrow> f32 \<Rightarrow> f32) \<Rightarrow> (ekf_state, 'r) pipeline \<Rightarrow> resolved_config \<Rightarrow> sitl_input \<Rightarrow> 'r sitl
   \<Rightarrow> 'r sitl \<times> update_result \<times> sensor_set \<times> command_outcome option" where
  "sitl_cycle pow p cfg x s =
     (let s = adopt_generation_change p s;
          (s, dt) = cycle_delta x s;
          s = cache_sensors pow x s;
          (s, outcome) = sitl_receive p x s;
          s = sitl_init_ekf (p_libm p) x s;
          sensors = sitl_sensors x s;
          s = sitl_init_step p sensors s;
          (s, result) = sitl_update p cfg (sitl_cycle_input x dt sensors s) s;
          s = sitl_write (in_write_us x) (ur_actuator result) s
      in (s\<lparr>si_iteration := si_iteration s + 1\<rparr>, result, sensors, outcome))"

definition sitl_step ::
  "(f32 \<Rightarrow> f32 \<Rightarrow> f32) \<Rightarrow> (ekf_state, 'r) pipeline \<Rightarrow> resolved_config \<Rightarrow> sitl_input \<Rightarrow> 'r sitl
   \<Rightarrow> 'r sitl \<times> actuator_cmd \<times> command_outcome option" where
  "sitl_step pow p cfg x s =
     (let (s, result, sensors, outcome) = sitl_cycle pow p cfg x s in (s, ur_actuator result, outcome))"

end
