(* ===== verification/SitlRuns.thy ===== *)
theory SitlRuns
  imports Sitl
begin

text \<open>
  Runs of the simulator-coupled runner: whatever every call of the kernel preserves holds of the kernel inside it
  (\<open>boarded\<close>), the runner, the actuator driver and the transport agree on who is armed, nothing out of range leaves
  for the simulator, and a new world starts disarmed.
\<close>

section \<open>Events\<close>

datatype sitl_event =
  FeedEvent "u32 option"
| StepEvent sitl_input
| ResetEvent
| TakeEvent

fun sitl_event_step ::
  "(f32 \<Rightarrow> f32 \<Rightarrow> f32) \<Rightarrow> (ekf_state, 'r) pipeline \<Rightarrow> resolved_config \<Rightarrow> sitl_event \<Rightarrow> 'r sitl \<Rightarrow> 'r sitl" where
  "sitl_event_step pow p cfg (FeedEvent g) s = feed_generation g s"
| "sitl_event_step pow p cfg (StepEvent x) s = fst (sitl_step pow p cfg x s)"
| "sitl_event_step pow p cfg ResetEvent s = reset_for_simulator_generation p s"
| "sitl_event_step pow p cfg TakeEvent s = s\<lparr>si_command_out := None\<rparr>"

definition sitl_run ::
  "(f32 \<Rightarrow> f32 \<Rightarrow> f32) \<Rightarrow> (ekf_state, 'r) pipeline \<Rightarrow> resolved_config \<Rightarrow> sitl_event list \<Rightarrow> 'r sitl \<Rightarrow> 'r sitl" where
  "sitl_run pow p cfg es s = fold (sitl_event_step pow p cfg) es s"

section \<open>The stages, one field at a time\<close>

lemma cycle_delta_fields [simp]:
  "si_kernel (fst (cycle_delta x s)) = si_kernel s" "si_actuator (fst (cycle_delta x s)) = si_actuator s"
  "si_armed (fst (cycle_delta x s)) = si_armed s" "si_generation_changed (fst (cycle_delta x s)) = si_generation_changed s"
  "si_command_out (fst (cycle_delta x s)) = si_command_out s" "sc_gnss (si_cache (fst (cycle_delta x s))) = sc_gnss (si_cache s)"
  "si_ingress (fst (cycle_delta x s)) = si_ingress s"
  by (simp_all add: cycle_delta_def Let_def split: option.split)

lemma cache_sensors_fields [simp]:
  "si_kernel (cache_sensors pow x s) = si_kernel s" "si_actuator (cache_sensors pow x s) = si_actuator s"
  "si_armed (cache_sensors pow x s) = si_armed s" "si_generation_changed (cache_sensors pow x s) = si_generation_changed s"
  "si_command_out (cache_sensors pow x s) = si_command_out s" "si_ingress (cache_sensors pow x s) = si_ingress s"
  by (simp_all add: cache_sensors_def)

lemma enact_discrete_cases:
  obtains (armed) k where "c = SysArm" "arm p (si_kernel s) = (k, Ok ())"
      "fst (enact_discrete p a c s) = s\<lparr>si_kernel := k, si_actuator := fa_arm (si_actuator s), si_armed := True\<rparr>"
  | (disarmed) k where "c = SysDisarm" "disarm p (si_kernel s) = (k, Ok ())"
      "fst (enact_discrete p a c s) = s\<lparr>si_kernel := k, si_actuator := fa_disarm (si_actuator s), si_armed := False\<rparr>"
  | (terminated) "c = EmergencyTerminate"
      "fst (enact_discrete p a c s) = s\<lparr>si_kernel := terminate p (si_kernel s), si_actuator := fa_disarm (si_actuator s), si_armed := False\<rparr>"
  | (unchanged) "fst (enact_discrete p a c s) = s"
proof (cases c)
  case SysArm
  show ?thesis
  proof (cases "a = Ok () \<and> snd (arm p (si_kernel s)) = Ok ()")
    case True
    then show ?thesis using SysArm
      by (intro armed [of "fst (arm p (si_kernel s))"]) (auto simp: enact_arm_def Let_def split_beta prod_eq_iff)
  next
    case False
    then show ?thesis using SysArm
      by (intro unchanged) (auto simp: enact_arm_def arm_def Let_def split: sum.split)
  qed
next
  case SysDisarm
  show ?thesis
  proof (cases "is_airborne (ks_flight_phase (si_kernel s))")
    case True
    then show ?thesis using SysDisarm by (intro unchanged) (simp add: enact_disarm_def disarm_def)
  next
    case False
    then show ?thesis using SysDisarm
      by (intro disarmed [of "end_flight_period p (si_kernel s)"]) (simp_all add: enact_disarm_def disarm_def)
  qed
qed (auto intro: terminated unchanged)

lemma enact_discrete_frame [simp]:
  "si_generation_changed (fst (enact_discrete p a c s)) = si_generation_changed s"
  "si_command_out (fst (enact_discrete p a c s)) = si_command_out s"
  "si_cache (fst (enact_discrete p a c s)) = si_cache s"
  "si_ingress (fst (enact_discrete p a c s)) = si_ingress s"
  by (cases rule: enact_discrete_cases [of c p s a]; simp)+

text \<open>A received setpoint writes the throttle check; then the command is enacted.\<close>

definition noted_setpoint :: "system_command \<Rightarrow> 'r sitl \<Rightarrow> 'r sitl" where
  "noted_setpoint c s =
     (case c of FlightControl fc \<Rightarrow> s\<lparr>si_kernel := upd_pre_arm (\<lambda>c. pa_update_throttle c (throttle_is_low fc)) (si_kernel s)\<rparr>
      | _ \<Rightarrow> s)"

lemma sitl_receive_some:
  "in_command x = Some c \<Longrightarrow> fst (sitl_receive p x s) =
     (fst (enact_discrete p (in_authorization x) c (noted_setpoint c s)))
       \<lparr>si_ingress := fst (ingress_receive system_command_class c (in_receive_ticks x) (si_ingress s))\<rparr>"
  using enact_discrete_frame(4) [of p "in_authorization x" c "noted_setpoint c s"]
  by (cases c) (simp_all add: sitl_receive_def noted_setpoint_def Let_def split_beta)

lemma noted_setpoint_fields [simp]:
  "si_actuator (noted_setpoint c s) = si_actuator s" "si_armed (noted_setpoint c s) = si_armed s"
  "si_generation_changed (noted_setpoint c s) = si_generation_changed s"
  "si_command_out (noted_setpoint c s) = si_command_out s" "si_cache (noted_setpoint c s) = si_cache s"
  "ks_init_state (si_kernel (noted_setpoint c s)) = ks_init_state (si_kernel s)"
  by (cases c; simp add: noted_setpoint_def upd_pre_arm_def)+

lemma sitl_init_ekf_fields [simp]:
  "si_actuator (sitl_init_ekf M x s) = si_actuator s" "si_armed (sitl_init_ekf M x s) = si_armed s"
  "si_generation_changed (sitl_init_ekf M x s) = si_generation_changed s"
  "si_command_out (sitl_init_ekf M x s) = si_command_out s" "si_cache (sitl_init_ekf M x s) = si_cache s"
  "ks_init_state (si_kernel (sitl_init_ekf M x s)) = ks_init_state (si_kernel s)"
  by (simp_all add: sitl_init_ekf_def Let_def)

lemma sitl_init_step_fields [simp]:
  "si_actuator (sitl_init_step p ss s) = si_actuator s" "si_armed (sitl_init_step p ss s) = si_armed s"
  "si_generation_changed (sitl_init_step p ss s) = si_generation_changed s"
  "si_command_out (sitl_init_step p ss s) = si_command_out s" "si_cache (sitl_init_step p ss s) = si_cache s"
  by (simp_all add: sitl_init_step_def Let_def)

lemma sitl_update_fields [simp]:
  "si_kernel (fst (sitl_update p cfg ci s)) = fst (update p cfg ci (si_kernel s))"
  "snd (sitl_update p cfg ci s) = snd (update p cfg ci (si_kernel s))"
  "si_actuator (fst (sitl_update p cfg ci s)) = si_actuator s" "si_armed (fst (sitl_update p cfg ci s)) = si_armed s"
  "si_generation_changed (fst (sitl_update p cfg ci s)) = si_generation_changed s"
  "si_command_out (fst (sitl_update p cfg ci s)) = si_command_out s" "si_cache (fst (sitl_update p cfg ci s)) = si_cache s"
  by (simp_all add: sitl_update_def split_beta)

lemma sitl_write_fields [simp]:
  "si_kernel (sitl_write t c s) = si_kernel s" "fa_armed (si_actuator (sitl_write t c s)) = fa_armed (si_actuator s)"
  "si_armed (sitl_write t c s) = si_armed s" "si_generation_changed (sitl_write t c s) = si_generation_changed s"
  "si_command_out (sitl_write t c s) = Some \<lparr>sa_timestamp_us = t, sa_outputs = ra_outputs (raw_command c),
     sa_count = ra_count (raw_command c), sa_armed = (ks_init_state (si_kernel s) = Armed)\<rparr>"
  "si_cache (sitl_write t c s) = si_cache s"
  by (simp_all add: sitl_write_def fa_take_cmd_def hal_write_def fa_write_def sitl_is_armed_def)

section \<open>The kernel inside the board\<close>

text \<open>
  What the client of the kernel needs to carry a predicate of the kernel through its own steps: every call keeps it,
  and so does writing the estimator's initial state, the one thing the runner does behind the kernel's back.
\<close>

locale boarded =
  fixes p :: "(ekf_state, 'r) pipeline" and cfg :: resolved_config
    and inv :: "(ekf_state, 'r) kernel_state \<Rightarrow> bool"
  assumes call: "inv k \<Longrightarrow> inv (kernel_step p cfg c k)"
    and seeded: "inv k \<Longrightarrow> inv (k\<lparr>ks_estimator := ekf_init (f0, f0, f0) (f0, f0, f0) q (ks_estimator k)\<rparr>)"
begin

lemma calls:
  assumes "inv k"
  shows "inv (fst (init_step p ss k))" "inv (fst (arm p k))" "inv (fst (disarm p k))" "inv (terminate p k)"
    "inv (fst (update p cfg ci k))" "inv (ground_reset p k)" "inv (upd_pre_arm (\<lambda>c. pa_update_throttle c low) k)"
  using call [OF assms, of "InitStepCall ss"] call [OF assms, of ArmCall] call [OF assms, of DisarmCall]
    call [OF assms, of TerminateCall] call [OF assms, of "UpdateCall ci"] call [OF assms, of GroundResetCall]
    call [OF assms, of "ThrottleCall low"]
  by simp_all

lemma reset: "inv (si_kernel s) \<Longrightarrow> inv (si_kernel (reset_runner_for_generation p s))"
  by (simp add: reset_runner_for_generation_def Let_def calls)

lemma adopted: "inv (si_kernel s) \<Longrightarrow> inv (si_kernel (adopt_generation_change p s))"
  by (simp add: adopt_generation_change_def reset)

lemma received: "inv (si_kernel s) \<Longrightarrow> inv (si_kernel (fst (sitl_receive p x s)))"
proof (cases "in_command x")
  case (Some c)
  assume "inv (si_kernel s)"
  then have n: "inv (si_kernel (noted_setpoint c s))" by (cases c) (simp_all add: noted_setpoint_def calls)
  show ?thesis
    by (cases rule: enact_discrete_cases [of c p "noted_setpoint c s" "in_authorization x"])
      (use n calls(2,3) [OF n] in \<open>auto simp: sitl_receive_some [OF Some] calls(4)\<close>)
qed (simp add: sitl_receive_def)

lemma booted: "inv (si_kernel s) \<Longrightarrow> inv (si_kernel (sitl_init_step p ss (sitl_init_ekf M x s)))"
  by (simp add: sitl_init_step_def sitl_init_ekf_def Let_def calls seeded)

lemma event: "inv (si_kernel s) \<Longrightarrow> inv (si_kernel (sitl_event_step pow p cfg e s))"
proof (cases e)
  case (FeedEvent g)
  then show "inv (si_kernel s) \<Longrightarrow> ?thesis"
    by (simp add: feed_generation_def clear_generation_state_def split: option.split)
next
  case (StepEvent x)
  then show "inv (si_kernel s) \<Longrightarrow> ?thesis"
    by (simp add: sitl_step_def sitl_cycle_def Let_def split_beta calls booted received adopted)
next
  case ResetEvent
  then show "inv (si_kernel s) \<Longrightarrow> ?thesis"
    by (simp add: reset_for_simulator_generation_def clear_generation_state_def reset)
qed simp

end

sublocale boarded \<subseteq> flown: preserved "sitl_event_step pow p cfg" "\<lambda>_. True" "\<lambda>s. inv (si_kernel s)"
  for pow
  by unfold_locales (rule event)

text \<open>What the outputs rest on holds on every channel that a group of the configuration drives.\<close>

interpretation boarded_quad: boarded "sanitized_pipeline p signs ts" cfg "actuation_inv (safe_channels cfg)"
  for p :: "(ekf_state, 'r) pipeline" and signs ts cfg
  by unfold_locales (erule quad.step_safe, simp add: actuation_inv_def)

interpretation boarded_law: boarded p cfg law_inv for p :: "(ekf_state, 'r) pipeline" and cfg
  by unfold_locales (erule law_inv_step, simp add: law_inv_def)

section \<open>Who is armed\<close>

definition arming_agrees :: "'r sitl \<Rightarrow> bool" where
  "arming_agrees s \<longleftrightarrow> (fa_armed (si_actuator s) \<longleftrightarrow> ks_init_state (si_kernel s) \<in> {Armed, Fault})
     \<and> (si_armed s \<longleftrightarrow> fa_armed (si_actuator s) \<and> \<not> si_generation_changed s)
     \<and> (\<forall>c. si_command_out s = Some c \<longrightarrow> sa_armed c = (ks_init_state (si_kernel s) = Armed))"

lemma armed_after:
  "ks_init_state (fst (update p cfg ci k)) = Armed \<Longrightarrow> ks_init_state k = Armed"
  "ks_init_state (fst (init_step p ss k)) = Armed \<Longrightarrow> ks_init_state k = Armed"
  "ks_init_state (terminate p k) \<noteq> Armed"
  "disarm p k = (k', Ok ()) \<Longrightarrow> ks_init_state k' \<noteq> Armed"
  "ks_init_state k \<noteq> Armed \<Longrightarrow> ks_init_state (ground_reset p k) = ConfigLoading"
  using kernel_step_life [of "UpdateCall ci" k p cfg] kernel_step_life [of "InitStepCall ss" k p cfg]
  by (auto simp: life_step_to_Armed terminate_def disarm_def ground_reset_def reset_controller_def Let_def
      upd_pre_arm_def upd_in_flight_def upd_transition_def split: if_splits)

text \<open>A cycle ends a flight only in \<open>Fault\<close>, and nothing but \<open>arm\<close> begins one.\<close>

lemma engaged_after:
  "ks_init_state (fst (update p cfg ci k)) \<in> {Armed, Fault} \<longleftrightarrow> ks_init_state k \<in> {Armed, Fault}"
  "ks_init_state (fst (init_step p ss k)) \<in> {Armed, Fault} \<longleftrightarrow> ks_init_state k \<in> {Armed, Fault}"
  "arm p k = (k', Ok ()) \<Longrightarrow> ks_init_state k' = Armed"
  "arm p k = (k', Err e) \<Longrightarrow> k' = k"
  "disarm p k = (k', Ok ()) \<Longrightarrow> ks_init_state k' = Disarmed"
  "disarm p k = (k', Err e') \<Longrightarrow> k' = k"
  "ks_init_state (terminate p k) = Disarmed"
proof -
  show "ks_init_state (fst (update p cfg ci k)) \<in> {Armed, Fault} \<longleftrightarrow> ks_init_state k \<in> {Armed, Fault}"
    by (cases rule: update_cases [of k p cfg ci]) (auto simp: check_critical_faults_def armed_cycle_view)
  show "ks_init_state (fst (init_step p ss k)) \<in> {Armed, Fault} \<longleftrightarrow> ks_init_state k \<in> {Armed, Fault}"
    by (cases "ks_init_state k") (auto simp: init_step_state init_transition_def upd_pre_arm_def)
qed (auto simp: arm_def disarm_def terminate_def end_flight_period_def reset_controller_def upd_in_flight_def split: if_splits)

lemma reset_disarmed:
  "ks_init_state (si_kernel (reset_runner_for_generation p s)) = ConfigLoading"
  "\<not> fa_armed (si_actuator (reset_runner_for_generation p s))"
  "si_armed (reset_runner_for_generation p s) = si_armed s"
  "si_generation_changed (reset_runner_for_generation p s) = si_generation_changed s"
  "si_command_out (reset_runner_for_generation p s) = si_command_out s"
  by (simp_all add: reset_runner_for_generation_def Let_def fa_disarm_def sitl_is_armed_def armed_after(3,5) upd_pre_arm_def)

text \<open>The agreement between the stages, before the command to the simulator is written.\<close>

definition armed_here :: "'r sitl \<Rightarrow> bool" where
  "armed_here s \<longleftrightarrow> \<not> si_generation_changed s \<and> si_armed s = fa_armed (si_actuator s)
     \<and> (fa_armed (si_actuator s) \<longleftrightarrow> ks_init_state (si_kernel s) \<in> {Armed, Fault})"

lemma adopted_here: "arming_agrees s \<Longrightarrow> armed_here (adopt_generation_change p s)"
  by (auto simp: arming_agrees_def armed_here_def adopt_generation_change_def reset_disarmed)

lemma received_here: "armed_here s \<Longrightarrow> armed_here (fst (sitl_receive p x s))"
proof (cases "in_command x")
  case (Some c)
  assume "armed_here s"
  then have "armed_here (noted_setpoint c s)" by (simp add: armed_here_def)
  then show ?thesis
    by (cases rule: enact_discrete_cases [of c p "noted_setpoint c s" "in_authorization x"])
      (auto simp: sitl_receive_some [OF Some] armed_here_def fa_arm_def fa_disarm_def engaged_after(7)
        dest: engaged_after(3,4,5,6))
qed (simp add: sitl_receive_def)

lemma booted_here: "armed_here s \<Longrightarrow> armed_here (sitl_init_step p ss (sitl_init_ekf M x s))"
  using engaged_after(2) [of p ss "si_kernel (sitl_init_ekf M x s)"] by (auto simp: armed_here_def sitl_init_step_def Let_def)

lemma updated_here: "armed_here s \<Longrightarrow> armed_here (fst (sitl_update p cfg ci s))"
  using engaged_after(1) [of p cfg ci "si_kernel s"] by (auto simp: armed_here_def)

lemma sitl_step_agrees:
  assumes "arming_agrees s"
  shows "arming_agrees (fst (sitl_step pow p cfg x s))" "\<not> si_generation_changed (fst (sitl_step pow p cfg x s))"
proof -
  define a where "a = adopt_generation_change p s"
  define b where "b = cache_sensors pow x (fst (cycle_delta x a))"
  define d where "d = sitl_init_ekf (p_libm p) x (fst (sitl_receive p x b))"
  define f where "f = sitl_init_step p (sitl_sensors x d) d"
  define ci where "ci = sitl_cycle_input x (snd (cycle_delta x a)) (sitl_sensors x d) f"
  define g where "g = fst (sitl_update p cfg ci f)"
  have st: "sitl_step pow p cfg x s = ((sitl_write (in_write_us x) (ur_actuator (snd (sitl_update p cfg ci f))) g)
      \<lparr>si_iteration := si_iteration (sitl_write (in_write_us x) (ur_actuator (snd (sitl_update p cfg ci f))) g) + 1\<rparr>,
      ur_actuator (snd (sitl_update p cfg ci f)), snd (sitl_receive p x b))"
    by (simp add: sitl_step_def sitl_cycle_def Let_def split_beta a_def b_def d_def f_def ci_def g_def)
  have "armed_here b" using adopted_here [OF assms] by (simp add: b_def a_def armed_here_def)
  then have "armed_here g" unfolding g_def f_def d_def by (intro updated_here booted_here received_here)
  then show "arming_agrees (fst (sitl_step pow p cfg x s))" "\<not> si_generation_changed (fst (sitl_step pow p cfg x s))"
    unfolding st by (auto simp: armed_here_def arming_agrees_def)
qed

lemma event_agrees: "arming_agrees s \<Longrightarrow> arming_agrees (sitl_event_step pow p cfg e s)"
proof (cases e)
  case (FeedEvent g)
  then show "arming_agrees s \<Longrightarrow> ?thesis"
    by (auto simp: feed_generation_def clear_generation_state_def arming_agrees_def split: option.split)
next
  case ResetEvent
  then show "arming_agrees s \<Longrightarrow> ?thesis"
    by (auto simp: reset_for_simulator_generation_def clear_generation_state_def arming_agrees_def reset_disarmed)
next
  case (StepEvent x)
  then show "arming_agrees s \<Longrightarrow> ?thesis" by (simp add: sitl_step_agrees)
qed (simp add: arming_agrees_def)

interpretation arming: preserved "sitl_event_step pow p cfg" "\<lambda>_. True" arming_agrees
  for pow cfg and p :: "(ekf_state, 'r) pipeline"
  by unfold_locales (rule event_agrees)

section \<open>A step, stage by stage\<close>

lemma sitl_step_stages:
  obtains k b f ci where
    "b = cache_sensors pow x (fst (cycle_delta x (adopt_generation_change p s)))"
    "f = sitl_init_step p (sitl_sensors x (sitl_init_ekf (p_libm p) x (fst (sitl_receive p x b))))
           (sitl_init_ekf (p_libm p) x (fst (sitl_receive p x b)))"
    "ci = sitl_cycle_input x (snd (cycle_delta x (adopt_generation_change p s)))
           (sitl_sensors x (sitl_init_ekf (p_libm p) x (fst (sitl_receive p x b)))) f"
    "k = fst (update p cfg ci (si_kernel f))"
    "si_kernel (fst (sitl_step pow p cfg x s)) = k"
    "fst (snd (sitl_step pow p cfg x s)) = ur_actuator (snd (update p cfg ci (si_kernel f)))"
    "si_actuator (fst (sitl_step pow p cfg x s)) = si_actuator (sitl_write (in_write_us x)
       (ur_actuator (snd (update p cfg ci (si_kernel f)))) (fst (sitl_update p cfg ci f)))"
    "si_armed (fst (sitl_step pow p cfg x s)) = si_armed f"
    "si_command_out (fst (sitl_step pow p cfg x s)) = Some \<lparr>sa_timestamp_us = in_write_us x,
       sa_outputs = ra_outputs (raw_command (ur_actuator (snd (update p cfg ci (si_kernel f))))),
       sa_count = ra_count (raw_command (ur_actuator (snd (update p cfg ci (si_kernel f))))),
       sa_armed = (ks_init_state k = Armed)\<rparr>"
    "si_cache (fst (sitl_step pow p cfg x s)) = si_cache f"
  by (rule that [OF refl refl refl refl]) (simp_all add: sitl_step_def sitl_cycle_def Let_def split_beta)

section \<open>What leaves for the simulator\<close>

definition outputs_inv :: "resolved_config \<Rightarrow> 'r sitl \<Rightarrow> bool" where
  "outputs_inv cfg s \<longleftrightarrow> actuation_inv (safe_channels cfg) (si_kernel s)
     \<and> (\<forall>c. si_command_out s = Some c \<longrightarrow> (\<forall>k \<in> safe_channels cfg. unit_range (sa_outputs c ! k)))"

lemma raw_command_unit:
  assumes "unit_range (outputs c ! k)" "k < MAX_ACTUATORS"
  shows "unit_range (ra_outputs (raw_command c) ! k)"
proof -
  have "ra_outputs (raw_command c) ! k = (if k < length (outputs c) then outputs c ! k else f0)"
    using assms(2) by (simp add: raw_command_def MAX_ACTUATOR_OUTPUTS_def MAX_ACTUATORS_def)
  moreover have "unit_range f0" by code_simp
  ultimately show ?thesis using assms(1) by simp
qed

lemma step_outputs:
  assumes "outputs_inv cfg s"
  shows "outputs_inv cfg (fst (sitl_step pow (sanitized_pipeline p signs ts) cfg x s))"
proof (rule sitl_step_stages [of pow x "sanitized_pipeline p signs ts" s cfg])
  fix k b f ci
  let ?p = "sanitized_pipeline p signs ts"
  assume b: "b = cache_sensors pow x (fst (cycle_delta x (adopt_generation_change ?p s)))"
    and f: "f = sitl_init_step ?p (sitl_sensors x (sitl_init_ekf (p_libm ?p) x (fst (sitl_receive ?p x b))))
       (sitl_init_ekf (p_libm ?p) x (fst (sitl_receive ?p x b)))"
    and k: "k = fst (update ?p cfg ci (si_kernel f))" "si_kernel (fst (sitl_step pow ?p cfg x s)) = k"
    and out: "si_command_out (fst (sitl_step pow ?p cfg x s)) = Some \<lparr>sa_timestamp_us = in_write_us x,
       sa_outputs = ra_outputs (raw_command (ur_actuator (snd (update ?p cfg ci (si_kernel f))))),
       sa_count = ra_count (raw_command (ur_actuator (snd (update ?p cfg ci (si_kernel f))))),
       sa_armed = (ks_init_state k = Armed)\<rparr>"
  have "actuation_inv (safe_channels cfg) (si_kernel (adopt_generation_change ?p s))"
    by (rule boarded_quad.adopted) (use assms in \<open>simp add: outputs_inv_def\<close>)
  then have "actuation_inv (safe_channels cfg) (si_kernel b)" by (simp add: b)
  then have "actuation_inv (safe_channels cfg) (si_kernel f)"
    unfolding f by (intro boarded_quad.booted boarded_quad.received)
  from quad.update_safe [OF this, of p signs ts ci] show ?thesis
    unfolding outputs_inv_def k(2) out using k(1) quad.channels by (auto intro!: raw_command_unit)
qed

lemma event_outputs:
  "outputs_inv cfg s \<Longrightarrow> outputs_inv cfg (sitl_event_step pow (sanitized_pipeline p signs ts) cfg e s)"
proof (cases e)
  case (StepEvent x)
  then show "outputs_inv cfg s \<Longrightarrow> ?thesis" by (simp add: step_outputs)
next
  case ResetEvent
  have "actuation_inv (safe_channels cfg) (si_kernel s) \<Longrightarrow>
      actuation_inv (safe_channels cfg) (si_kernel (reset_runner_for_generation (sanitized_pipeline p signs ts) (clear_generation_state s)))"
    by (rule boarded_quad.reset) (simp add: clear_generation_state_def)
  with ResetEvent show "outputs_inv cfg s \<Longrightarrow> ?thesis"
    by (simp add: outputs_inv_def reset_for_simulator_generation_def reset_disarmed(5))
      (simp add: clear_generation_state_def)
qed (auto simp: outputs_inv_def feed_generation_def clear_generation_state_def split: option.split)

interpretation outgoing: preserved "sitl_event_step pow (sanitized_pipeline p signs ts) cfg" "\<lambda>_. True" "outputs_inv cfg"
  for pow cfg signs ts and p :: "(ekf_state, 'r) pipeline"
  by unfold_locales (rule event_outputs)

section \<open>Claims\<close>

text \<open>C8: The layers agree on who is armed. From power-on, after any sequence of simulator packets, resets and steps
  with any readings, commands and authorizations: the actuator driver is armed exactly while the kernel is in \<open>Armed\<close>
  or in the \<open>Fault\<close> a flight ended in; the transport reports armed exactly while the driver is armed and no new world
  is pending; and the command waiting for the simulator is marked armed exactly when the kernel is in \<open>Armed\<close>. (A
  faulted kernel outputs the safe pattern until it is disarmed, terminated or reset.)\<close>

theorem sitl_arming_consistent:
  "let s = sitl_run pow p cfg es (sitl_new (kernel_state_new e0 r0 checks))
   in (fa_armed (si_actuator s) \<longleftrightarrow> ks_init_state (si_kernel s) \<in> {Armed, Fault})
      \<and> (si_armed s \<longleftrightarrow> fa_armed (si_actuator s) \<and> \<not> si_generation_changed s)
      \<and> (\<forall>c. si_command_out s = Some c \<longrightarrow> sa_armed c = (ks_init_state (si_kernel s) = Armed))"
proof -
  have "arming_agrees (sitl_new (kernel_state_new e0 r0 checks))"
    by (simp add: arming_agrees_def sitl_new_def kernel_state_new_def fake_actuator_new_def)
  then have "arming_agrees (sitl_run pow p cfg es (sitl_new (kernel_state_new e0 r0 checks)))"
    unfolding sitl_run_def by (rule arming.run) (simp add: list_all_iff)
  then show ?thesis unfolding Let_def arming_agrees_def .
qed

definition quiet_driver :: "'a driver" where
  "quiet_driver = \<lparr>dv_ready = Ok False, dv_read = Err SensorTimeout, dv_source = 0, dv_now = 0\<rparr>"

definition arm_request :: sitl_input where
  "arm_request =
     \<lparr>in_imu = quiet_driver, in_gnss = quiet_driver, in_baro = quiet_driver, in_mag = quiet_driver,
      in_command = Some SysArm, in_receive_ticks = 5000, in_cycle_ticks = 6000, in_write_us = 7000,
      in_authorization = Ok (), in_sim_delta_us = Some 4000, in_reference = None\<rparr>"

definition sitl_pipeline :: "(ekf_state, multirotor_runtime_state) pipeline" where
  "sitl_pipeline = sanitized_pipeline (flight_pipeline (\<lambda>x y. x) ekf_config_default demo_controller x500_base)
     QUAD_X500_SIGNS timestamp_default"

definition sitl_boot :: "multirotor_runtime_state sitl" where
  "sitl_boot = sitl_new (kernel_state_new ekf_new multirotor_runtime_default kernel_checks_new)"

theorem sitl_arming_consistent_witness:
  "let s = sitl_run (\<lambda>x y. x) sitl_pipeline resolved_config_default
             [FeedEvent (Some 1), StepEvent arm_request, FeedEvent (Some 2), StepEvent arm_request, TakeEvent] sitl_boot
   in si_armed s \<longrightarrow> fa_armed (si_actuator s)"
  using sitl_arming_consistent [of "\<lambda>x y. x" sitl_pipeline resolved_config_default
    "[FeedEvent (Some 1), StepEvent arm_request, FeedEvent (Some 2), StepEvent arm_request, TakeEvent]"
    ekf_new multirotor_runtime_default kernel_checks_new]
  by (simp only: sitl_boot_def Let_def) blast

text \<open>C2: Only safe outputs leave for the simulator. Whatever readings, commands, authorizations, resets and timing the
  runner is given, the command it has ready for the simulator holds, on every channel that a group of the
  configuration drives, a finite value in \<open>[0, 1]\<close>: the guarantee of the kernel's outputs survives the runner, the
  estimator it seeds from raw sensors, and the actuator driver.\<close>

theorem sitl_outputs_safe:
  assumes "mode_config_wf (cfg_mode_config cfg)" "driven (cfg_mode_config cfg) k" "unit_range (cfg_safe_output cfg ! k)"
    and "si_command_out (sitl_run pow (sanitized_pipeline p signs ts) cfg es (sitl_new (kernel_state_new e0 r0 checks))) = Some c"
  shows "unit_range (sa_outputs c ! k)"
proof -
  have ch: "k \<in> safe_channels cfg" using assms(1-3) by (simp add: safe_channels_def)
  have "actuation_inv (safe_channels cfg) (kernel_state_new e0 r0 checks)"
    using quad.channels by (auto simp: actuation_inv_def kernel_state_new_def actuator_state_default_def fallback_wf_default)
  then have "outputs_inv cfg (sitl_new (kernel_state_new e0 r0 checks))"
    by (simp add: outputs_inv_def sitl_new_def)
  then have "outputs_inv cfg (sitl_run pow (sanitized_pipeline p signs ts) cfg es (sitl_new (kernel_state_new e0 r0 checks)))"
    unfolding sitl_run_def by (rule outgoing.run) (simp add: list_all_iff)
  then show ?thesis using assms(4) ch by (simp add: outputs_inv_def)
qed

theorem sitl_outputs_safe_witness:
  "\<exists>c. si_command_out (sitl_run (\<lambda>x y. x) sitl_pipeline (resolved_config_default\<lparr>cfg_mode_config := example_quad_mode\<rparr>)
          [StepEvent arm_request] sitl_boot) = Some c \<and> unit_range (sa_outputs c ! 2)"
proof -
  let ?cfg = "resolved_config_default\<lparr>cfg_mode_config := example_quad_mode\<rparr>"
  obtain c where c: "si_command_out (sitl_run (\<lambda>x y. x) sitl_pipeline ?cfg [StepEvent arm_request] sitl_boot) = Some c"
    using sitl_step_stages [of "\<lambda>x y. x" arm_request sitl_pipeline sitl_boot ?cfg] by (auto simp: sitl_run_def)
  have "unit_range (cfg_safe_output ?cfg ! 2)" by code_simp
  then show ?thesis
    using sitl_outputs_safe [of ?cfg 2 "\<lambda>x y. x" "flight_pipeline (\<lambda>x y. x) ekf_config_default demo_controller x500_base"
        QUAD_X500_SIGNS timestamp_default "[StepEvent arm_request]" ekf_new multirotor_runtime_default kernel_checks_new c]
      c example_quad_mode_wf
    by (auto simp: sitl_pipeline_def sitl_boot_def example_quad_mode_driven)
qed

text \<open>C9: A new world starts disarmed. When a sample states a new world epoch, then whatever the vehicle was doing and
  whatever the next step is given, an arm command and its authorization included, after that step the kernel is not
  armed, the actuator driver is disarmed, the transport reports disarmed, and the command for the simulator is not
  marked armed.\<close>

theorem new_world_starts_disarmed:
  assumes "si_world_generation s = Some g" "g' \<noteq> g" "s' = fst (sitl_step pow p cfg x (feed_generation (Some g') s))"
  shows "ks_init_state (si_kernel s') \<noteq> Armed \<and> \<not> fa_armed (si_actuator s') \<and> \<not> si_armed s'
    \<and> (\<exists>c. si_command_out s' = Some c \<and> \<not> sa_armed c)"
proof -
  let ?s = "feed_generation (Some g') s"
  have fed: "si_generation_changed ?s" "\<not> si_armed ?s"
    using assms(1,2) by (auto simp: feed_generation_def clear_generation_state_def)
  show ?thesis
  proof (rule sitl_step_stages [of pow x p ?s cfg])
    fix k b f ci
    assume b: "b = cache_sensors pow x (fst (cycle_delta x (adopt_generation_change p ?s)))"
      and f: "f = sitl_init_step p (sitl_sensors x (sitl_init_ekf (p_libm p) x (fst (sitl_receive p x b))))
         (sitl_init_ekf (p_libm p) x (fst (sitl_receive p x b)))"
      and k: "k = fst (update p cfg ci (si_kernel f))" "si_kernel (fst (sitl_step pow p cfg x ?s)) = k"
      and act: "si_actuator (fst (sitl_step pow p cfg x ?s)) = si_actuator (sitl_write (in_write_us x)
         (ur_actuator (snd (update p cfg ci (si_kernel f)))) (fst (sitl_update p cfg ci f)))"
      and rest: "si_armed (fst (sitl_step pow p cfg x ?s)) = si_armed f"
        "si_command_out (fst (sitl_step pow p cfg x ?s)) = Some \<lparr>sa_timestamp_us = in_write_us x,
         sa_outputs = ra_outputs (raw_command (ur_actuator (snd (update p cfg ci (si_kernel f))))),
         sa_count = ra_count (raw_command (ur_actuator (snd (update p cfg ci (si_kernel f))))),
         sa_armed = (ks_init_state k = Armed)\<rparr>"
    have b0: "ks_init_state (si_kernel b) = ConfigLoading" "\<not> fa_armed (si_actuator b)" "\<not> si_armed b"
      using fed by (simp_all add: b adopt_generation_change_def reset_disarmed)
    have r: "ks_init_state (si_kernel (fst (sitl_receive p x b))) \<noteq> Armed
        \<and> \<not> fa_armed (si_actuator (fst (sitl_receive p x b))) \<and> \<not> si_armed (fst (sitl_receive p x b))"
    proof (cases "in_command x")
      case (Some c)
      show ?thesis
        by (cases rule: enact_discrete_cases [of c p "noted_setpoint c b" "in_authorization x"])
          (use b0 in \<open>auto simp: sitl_receive_some [OF Some] fa_disarm_def armed_after(3) arm_def
            split: if_splits dest: armed_after(4)\<close>)
    qed (use b0 in \<open>simp add: sitl_receive_def\<close>)
    have "ks_init_state (si_kernel f) \<noteq> Armed" "\<not> fa_armed (si_actuator f)" "\<not> si_armed f"
      using r by (auto simp: f sitl_init_step_def Let_def dest: armed_after(2))
    then show ?thesis unfolding assms(3) k(2) act rest using k(1) by (auto dest: armed_after(1))
  qed
qed


theorem new_world_starts_disarmed_witness:
  "\<not> fa_armed (si_actuator (fst (sitl_step (\<lambda>x y. x) sitl_pipeline resolved_config_default arm_request
       (feed_generation (Some 2) (sitl_boot\<lparr>si_world_generation := Some 1, si_actuator := fa_arm fake_actuator_new\<rparr>)))))"
  using new_world_starts_disarmed [of "sitl_boot\<lparr>si_world_generation := Some 1, si_actuator := fa_arm fake_actuator_new\<rparr>"
    1 2 _ "\<lambda>x y. x" sitl_pipeline resolved_config_default arm_request] by simp

text \<open>A sensor that falls silent is not noticed: as long as its driver has nothing ready and no new world comes, the
  cycle of every step sees its last reading as if it were current, whatever health that had.\<close>

lemma silent_gnss_trusted:
  assumes "\<not> si_generation_changed s" "read_gnss (in_gnss x) = None" "sc_gnss (si_cache s) = Some r"
  shows "sc_gnss (si_cache (fst (sitl_step pow p cfg x s))) = Some r
    \<and> (\<exists>ci k. si_kernel (fst (sitl_step pow p cfg x s)) = fst (update p cfg ci k) \<and> gnss (ci_sensors ci) ! 0 = r)"
proof (rule sitl_step_stages [of pow x p s cfg])
  fix k b f ci
  assume b: "b = cache_sensors pow x (fst (cycle_delta x (adopt_generation_change p s)))"
    and f: "f = sitl_init_step p (sitl_sensors x (sitl_init_ekf (p_libm p) x (fst (sitl_receive p x b))))
         (sitl_init_ekf (p_libm p) x (fst (sitl_receive p x b)))"
    and ci: "ci = sitl_cycle_input x (snd (cycle_delta x (adopt_generation_change p s)))
         (sitl_sensors x (sitl_init_ekf (p_libm p) x (fst (sitl_receive p x b)))) f"
    and k: "k = fst (update p cfg ci (si_kernel f))" "si_kernel (fst (sitl_step pow p cfg x s)) = k"
      "si_cache (fst (sitl_step pow p cfg x s)) = si_cache f"
  have kept: "sc_gnss (si_cache b) = Some r"
    using assms by (simp add: b adopt_generation_change_def cache_sensors_def keep_latest_def)
  have cache: "si_cache (fst (sitl_receive p x b)) = si_cache b"
    by (cases "in_command x") (simp_all add: sitl_receive_some, simp add: sitl_receive_def)
  have "gnss (ci_sensors ci) ! 0 = r"
    using kept cache by (simp add: ci sitl_cycle_input_def sitl_sensors_def to_sensor_set_def unwrap_reading_def)
  then show ?thesis using kept cache k f by auto
qed

end
