(* ===== verification/Telemetry.thy ===== *)
theory Telemetry
  imports TelemetryQueue MavlinkProps CommandFrames Kernel BoardHal
begin

text \<open>
  Telemetry as MAVLink frames (\<open>aviate-link/src/mavlink/telemetry.rs\<close> and \<open>telemetry/\<close>, \<open>telemetry.rs\<close>): the messages
  formatted from a snapshot of the vehicle, the group of an estimate with its status, and the formatter that emits
  each stream at its rate. A format function threads the sequence counter and its buffer. The tangent plane of
  \<open>world_core\<close>, which is not in the repository, is the argument \<open>to_geodetic\<close>: latitude, longitude (degrees) and height
  of an offset from an origin, or nothing for an origin that is no position.
\<close>

section \<open>Snapshot and errors\<close>

record geodetic_origin =
  go_latitude_deg :: f64
  go_longitude_deg :: f64
  go_altitude_msl_m :: f32

record telemetry_snapshot =
  ts_time_ms :: u32
  ts_iteration :: u32
  ts_status :: channel_status
  ts_state :: state_estimate
  ts_baro_pressure_pa :: "f32 option"
  ts_baro_temperature_c :: f32
  ts_geomagnetic :: "geomagnetic_reference option"
  ts_geodetic_origin :: "geodetic_origin option"
  ts_gnss_fix :: "raw_gnss_reading option"

definition channel_status_default :: channel_status where
  "channel_status_default =
     \<lparr>st_mode = Rate, st_config_mode = Hover, st_transition_state = Stable Hover, st_law = Primary,
      st_health = Operative, st_faults = 0, st_confidence = GoodQuality, st_envelope_margin = envelope_margin_default,
      st_sequence = 0, st_protection = protection_status_default, st_sanitize_report = sanitize_report_default,
      st_mode_entry = Granted Rate\<rparr>"

definition telemetry_snapshot_default :: telemetry_snapshot where
  "telemetry_snapshot_default =
     \<lparr>ts_time_ms = 0, ts_iteration = 0, ts_status = channel_status_default, ts_state = state_estimate_default,
      ts_baro_pressure_pa = None, ts_baro_temperature_c = f0, ts_geomagnetic = None, ts_geodetic_origin = None,
      ts_gnss_fix = None\<rparr>"

datatype telemetry_error = BufferTooSmall | TransportFailed transport_error | ProtocolFailed | ZeroRate string

text \<open>What a format function returns: the sequence counter, the buffer and the length written.\<close>

type_synonym formatted = "u8 \<times> byte list \<times> (nat, telemetry_error) result"

text \<open>The tail every format function shares: serialize, then advance the counter.\<close>

definition serialize_next :: "telemetry_error \<Rightarrow> mav_message \<Rightarrow> u8 \<times> u8 \<Rightarrow> u8 \<Rightarrow> byte list \<Rightarrow> formatted" where
  "serialize_next e msg ids seq buf =
     (case serialize_mavlink msg seq (fst ids) (snd ids) buf of
        None \<Rightarrow> (seq, buf, Err e)
      | Some (buf, len) \<Rightarrow> (seq + 1, buf, Ok len))"

section \<open>Messages\<close>

definition heartbeat_message :: "channel_status \<Rightarrow> mav_message" where
  "heartbeat_message status =
     Heartbeat \<lparr>hb_mav_type = 2, hb_autopilot = 0, hb_base_mode = 128, hb_custom_mode = 0, hb_system_status = 4,
                hb_mavlink_version = 3\<rparr>"

definition format_heartbeat :: "channel_status \<Rightarrow> u8 \<times> u8 \<Rightarrow> u8 \<Rightarrow> byte list \<Rightarrow> formatted" where
  "format_heartbeat status = serialize_next ProtocolFailed (heartbeat_message status)"

definition attitude_message :: "state_estimate \<Rightarrow> u32 \<Rightarrow> mav_message" where
  "attitude_message state time_ms =
     AttitudeQuaternion \<lparr>aq_time_boot_ms = time_ms, aq_q1 = q_w (attitude state), aq_q2 = q_x (attitude state),
       aq_q3 = q_y (attitude state), aq_q4 = q_z (attitude state), aq_rollspeed = ix0 (angular_velocity state),
       aq_pitchspeed = ix1 (angular_velocity state), aq_yawspeed = ix2 (angular_velocity state),
       aq_repr_offset_q = (f0, f0, f0, f0)\<rparr>"

definition format_attitude :: "state_estimate \<Rightarrow> u32 \<Rightarrow> u8 \<times> u8 \<Rightarrow> u8 \<Rightarrow> byte list \<Rightarrow> formatted" where
  "format_attitude state time_ms = serialize_next ProtocolFailed (attitude_message state time_ms)"

definition local_position_message :: "state_estimate \<Rightarrow> u32 \<Rightarrow> mav_message" where
  "local_position_message state time_ms =
     LocalPositionNed \<lparr>lp_time_boot_ms = time_ms, lp_x = ix0 (position_ned state), lp_y = ix1 (position_ned state),
       lp_z = ix2 (position_ned state), lp_vx = ix0 (velocity_ned state), lp_vy = ix1 (velocity_ned state),
       lp_vz = ix2 (velocity_ned state)\<rparr>"

definition format_local_position :: "state_estimate \<Rightarrow> u32 \<Rightarrow> u8 \<times> u8 \<Rightarrow> u8 \<Rightarrow> byte list \<Rightarrow> formatted" where
  "format_local_position state time_ms = serialize_next ProtocolFailed (local_position_message state time_ms)"

definition scaled_pressure_message :: "f32 \<Rightarrow> f32 \<Rightarrow> u32 \<Rightarrow> mav_message" where
  "scaled_pressure_message pressure_pa temperature_c time_ms =
     ScaledPressure \<lparr>sc_time_boot_ms = time_ms, sc_press_abs = f32_div pressure_pa (f32_lit 100 1), sc_press_diff = f0,
       sc_temperature = f32_to_i16 (f32_mul temperature_c (f32_lit 100 1))\<rparr>"

definition format_scaled_pressure :: "f32 \<Rightarrow> f32 \<Rightarrow> u32 \<Rightarrow> u8 \<times> u8 \<Rightarrow> u8 \<Rightarrow> byte list \<Rightarrow> formatted" where
  "format_scaled_pressure pressure_pa temperature_c time_ms =
     serialize_next BufferTooSmall (scaled_pressure_message pressure_pa temperature_c time_ms)"

definition format_actuators :: "actuator_cmd \<Rightarrow> u32 \<Rightarrow> u8 \<times> u8 \<Rightarrow> u8 \<Rightarrow> byte list \<Rightarrow> formatted" where
  "format_actuators cmd time_ms ids seq buf = (seq, buf, Ok 0)"

subsection \<open>Estimator status\<close>

text \<open>The standard flags of MAVLink; the private message carries the four flags of the estimate losslessly.\<close>

definition standard_estimator_flags :: "state_estimate \<Rightarrow> u16" where
  "standard_estimator_flags state =
     (if quality state \<noteq> GoodQuality then 0
      else let flags = 0;
               flags = (if flag_contains (valid_flags state) ATTITUDE then flags OR 1 else flags);
               flags = (if flag_contains (valid_flags state) VELOCITY then flags OR (2 OR 4) else flags);
               flags = (if flag_contains (valid_flags state) POSITION then flags OR 8 else flags)
           in flags)"

definition wire_valid_flags :: "state_valid_flags \<Rightarrow> u8" where
  "wire_valid_flags flags =
     (let wire = 0;
          wire = (if flag_contains flags ATTITUDE then wire OR 1 else wire);
          wire = (if flag_contains flags ANGULAR_RATE then wire OR 2 else wire);
          wire = (if flag_contains flags POSITION then wire OR 4 else wire);
          wire = (if flag_contains flags VELOCITY then wire OR 8 else wire)
      in wire)"

definition estimator_status_message :: "state_estimate \<Rightarrow> u32 \<Rightarrow> mav_message" where
  "estimator_status_message state time_ms =
     EstimatorStatus \<lparr>eo_time_usec = ucast time_ms * 1000, eo_vel_ratio = f32_nan, eo_pos_horiz_ratio = f32_nan,
       eo_pos_vert_ratio = f32_nan, eo_mag_ratio = f32_nan, eo_hagl_ratio = f32_nan, eo_tas_ratio = f32_nan,
       eo_pos_horiz_accuracy = f32_nan, eo_pos_vert_accuracy = f32_nan, eo_flags = standard_estimator_flags state\<rparr>"

definition format_estimator_status :: "state_estimate \<Rightarrow> u32 \<Rightarrow> u8 \<times> u8 \<Rightarrow> u8 \<Rightarrow> byte list \<Rightarrow> formatted" where
  "format_estimator_status state time_ms = serialize_next ProtocolFailed (estimator_status_message state time_ms)"

fun wire_quality :: "estimate_quality \<Rightarrow> u8" where
  "wire_quality GoodQuality = 2"
| "wire_quality DegradedQuality = 1"
| "wire_quality Unusable = 0"

definition aviate_estimator_status_message :: "state_estimate \<Rightarrow> u32 \<Rightarrow> mav_message" where
  "aviate_estimator_status_message state time_ms =
     AviateEstimatorStatus \<lparr>ae_time_usec = ucast time_ms * 1000, ae_valid_flags = wire_valid_flags (valid_flags state),
       ae_quality = wire_quality (quality state)\<rparr>"

definition format_aviate_estimator_status :: "state_estimate \<Rightarrow> u32 \<Rightarrow> u8 \<times> u8 \<Rightarrow> u8 \<Rightarrow> byte list \<Rightarrow> formatted" where
  "format_aviate_estimator_status state time_ms =
     serialize_next ProtocolFailed (aviate_estimator_status_message state time_ms)"

subsection \<open>Heading reference\<close>

definition geomagnetic_message :: "geomagnetic_reference option \<Rightarrow> u32 \<Rightarrow> mav_message" where
  "geomagnetic_message reference time_ms =
     (let (decl, source) =
            (case reference of
               Some r \<Rightarrow> (declination r, case geo_source r of Model \<Rightarrow> 1 | Configured \<Rightarrow> 2)
             | None \<Rightarrow> (f32_nan, 0))
      in AviateGeomagneticReference \<lparr>ag_time_usec = ucast time_ms * 1000, ag_declination = decl, ag_source = source\<rparr>)"

definition format_geomagnetic_reference ::
  "geomagnetic_reference option \<Rightarrow> u32 \<Rightarrow> u8 \<times> u8 \<Rightarrow> u8 \<Rightarrow> byte list \<Rightarrow> formatted" where
  "format_geomagnetic_reference reference time_ms = serialize_next ProtocolFailed (geomagnetic_message reference time_ms)"

subsection \<open>Global position\<close>

type_synonym tangent_plane = "f64 \<times> f64 \<times> f64 \<Rightarrow> f64 \<times> f64 \<times> f64 \<Rightarrow> (f64 \<times> f64 \<times> f64) option"

definition ned_to_geodetic :: "tangent_plane \<Rightarrow> geodetic_origin \<Rightarrow> vec3 \<Rightarrow> (f64 \<times> f64 \<times> f64) option" where
  "ned_to_geodetic to_geodetic origin ned_m =
     to_geodetic (go_latitude_deg origin, go_longitude_deg origin, f64_of_f32 (go_altitude_msl_m origin))
       (f64_of_f32 (ix0 ned_m), f64_of_f32 (ix1 ned_m), f64_of_f32 (ix2 ned_m))"

definition degrees_e7 :: "f64 \<Rightarrow> i32" where
  "degrees_e7 deg = f64_to_i32 (f64_mul deg (f64_lit 10000000 1))"

definition meters_to_mm :: "f32 \<Rightarrow> i32" where
  "meters_to_mm m = f32_to_i32 (f32_mul m (f32_lit 1000 1))"

definition cm_per_s :: "f32 \<Rightarrow> i16" where
  "cm_per_s mps =
     f32_to_i16 (f32_clamp (f32_mul mps (f32_lit 100 1)) (f32_neg (f32_lit 32768 1)) (f32_lit 32767 1))"

text \<open>\<open>to_degrees\<close> multiplies by the float nearest to 180 over pi.\<close>

definition to_degrees :: "f32 \<Rightarrow> f32" where
  "to_degrees x = f32_mul x (f32_lit 572957795130823208767981548141051703 (10 ^ 34))"

definition centidegrees :: "f32 \<Rightarrow> u16" where
  "centidegrees rad =
     (let cdeg = f32_rem (f32_mul (to_degrees rad) (f32_lit 100 1)) (f32_lit 36000 1);
          cdeg = (if f32_lt cdeg f0 then f32_add cdeg (f32_lit 36000 1) else cdeg)
      in min (f32_to_u16 cdeg) 35999)"

definition yaw_rad :: "libm \<Rightarrow> quaternion \<Rightarrow> f32" where
  "yaw_rad M q =
     atan2f M (f32_mul f2 (f32_add (f32_mul (q_w q) (q_z q)) (f32_mul (q_x q) (q_y q))))
       (f32_sub f1 (f32_mul f2 (f32_add (f32_mul (q_y q) (q_y q)) (f32_mul (q_z q) (q_z q)))))"

definition global_position_message ::
  "libm \<Rightarrow> tangent_plane \<Rightarrow> state_estimate \<Rightarrow> geodetic_origin \<Rightarrow> u32 \<Rightarrow> mav_message option" where
  "global_position_message M W state origin time_ms =
     (case ned_to_geodetic W origin (position_ned state) of
        None \<Rightarrow> None
      | Some (lat, lon, height) \<Rightarrow>
          Some (GlobalPositionInt \<lparr>gp_time_boot_ms = time_ms, gp_lat = degrees_e7 lat, gp_lon = degrees_e7 lon,
            gp_alt = meters_to_mm (f32_of_f64 height), gp_relative_alt = meters_to_mm (f32_neg (ix2 (position_ned state))),
            gp_vx = cm_per_s (ix0 (velocity_ned state)), gp_vy = cm_per_s (ix1 (velocity_ned state)),
            gp_vz = cm_per_s (ix2 (velocity_ned state)), gp_hdg = centidegrees (yaw_rad M (attitude state))\<rparr>))"

definition format_global_position ::
  "libm \<Rightarrow> tangent_plane \<Rightarrow> state_estimate \<Rightarrow> geodetic_origin \<Rightarrow> u32 \<Rightarrow> u8 \<times> u8 \<Rightarrow> u8 \<Rightarrow> byte list \<Rightarrow> formatted" where
  "format_global_position M W state origin time_ms ids seq buf =
     (case global_position_message M W state origin time_ms of
        None \<Rightarrow> (seq, buf, Err ProtocolFailed)
      | Some msg \<Rightarrow> serialize_next ProtocolFailed msg ids seq buf)"

fun wire_fix_type :: "gnss_fix \<Rightarrow> u8" where
  "wire_fix_type NoFix = 1"
| "wire_fix_type TwoD = 2"
| "wire_fix_type ThreeD = 3"
| "wire_fix_type RtkFloat = 5"
| "wire_fix_type RtkFixed = 6"

definition gps_raw_message :: "libm \<Rightarrow> raw_gnss_reading \<Rightarrow> u32 \<Rightarrow> mav_message" where
  "gps_raw_message M gps time_ms =
     (let vn = ix0 (rg_vel_ned gps); ve = ix1 (rg_vel_ned gps);
          ground_speed = sqrtf M (f32_add (f32_mul vn vn) (f32_mul ve ve));
          alt = meters_to_mm (rg_alt_m gps)
      in GpsRawInt \<lparr>gr_time_usec = ucast time_ms * 1000, gr_fix_type = wire_fix_type (rg_fix gps),
           gr_lat = degrees_e7 (rg_lat_deg gps), gr_lon = degrees_e7 (rg_lon_deg gps), gr_alt = alt,
           gr_eph = 0xFFFF, gr_epv = 0xFFFF,
           gr_vel = f32_to_u16 (f32_min (f32_mul ground_speed (f32_lit 100 1)) (f32_lit 65534 1)),
           gr_cog = (if f32_le (f32_lit 2 10) ground_speed then centidegrees (atan2f M ve vn) else 0xFFFF),
           gr_satellites_visible = rg_satellites gps, gr_alt_ellipsoid = alt,
           gr_h_acc = f32_to_u32 (f32_mul (rg_h_acc gps) (f32_lit 1000 1)),
           gr_v_acc = f32_to_u32 (f32_mul (rg_v_acc gps) (f32_lit 1000 1)),
           gr_vel_acc = 0, gr_hdg_acc = 0, gr_yaw = 0\<rparr>)"

definition format_gps_raw :: "libm \<Rightarrow> raw_gnss_reading \<Rightarrow> u32 \<Rightarrow> u8 \<times> u8 \<Rightarrow> u8 \<Rightarrow> byte list \<Rightarrow> formatted" where
  "format_gps_raw M gps time_ms = serialize_next ProtocolFailed (gps_raw_message M gps time_ms)"

section \<open>The direct sender\<close>

text \<open>\<open>MavlinkTelemetry\<close>: format and send at once; the transport answers each frame.\<close>

record 'tx mavlink_telemetry =
  mt_tx :: 'tx
  mt_sys_id :: u8
  mt_comp_id :: u8
  mt_seq :: u8

definition mavlink_telemetry_new :: "'tx \<Rightarrow> u8 \<Rightarrow> u8 \<Rightarrow> 'tx mavlink_telemetry" where
  "mavlink_telemetry_new tx sys_id comp_id = \<lparr>mt_tx = tx, mt_sys_id = sys_id, mt_comp_id = comp_id, mt_seq = 0\<rparr>"

definition send_formatted ::
  "('tx \<Rightarrow> byte list \<Rightarrow> 'tx \<times> (unit, transport_error) result) \<Rightarrow> (u8 \<times> u8 \<Rightarrow> u8 \<Rightarrow> byte list \<Rightarrow> formatted)
   \<Rightarrow> 'tx mavlink_telemetry \<Rightarrow> 'tx mavlink_telemetry \<times> (unit, telemetry_error) result" where
  "send_formatted try_send fmt t =
     (case fmt (mt_sys_id t, mt_comp_id t) (mt_seq t) (replicate 256 0) of
        (seq, buf, Err e) \<Rightarrow> (t\<lparr>mt_seq := seq\<rparr>, Err e)
      | (seq, buf, Ok len) \<Rightarrow>
          (let (tx, r) = try_send (mt_tx t) (take len buf)
           in (t\<lparr>mt_seq := seq, mt_tx := tx\<rparr>, case r of Ok _ \<Rightarrow> Ok () | Err e \<Rightarrow> Err (TransportFailed e))))"

definition send_status ::
  "('tx \<Rightarrow> byte list \<Rightarrow> 'tx \<times> (unit, transport_error) result) \<Rightarrow> channel_status
   \<Rightarrow> 'tx mavlink_telemetry \<Rightarrow> 'tx mavlink_telemetry \<times> (unit, telemetry_error) result" where
  "send_status try_send status = send_formatted try_send (format_heartbeat status)"

definition send_state ::
  "('tx \<Rightarrow> byte list \<Rightarrow> 'tx \<times> (unit, transport_error) result) \<Rightarrow> state_estimate \<Rightarrow> u32
   \<Rightarrow> 'tx mavlink_telemetry \<Rightarrow> 'tx mavlink_telemetry \<times> (unit, telemetry_error) result" where
  "send_state try_send state time_ms = send_formatted try_send (format_attitude state time_ms)"

definition send_actuators ::
  "('tx \<Rightarrow> byte list \<Rightarrow> 'tx \<times> (unit, transport_error) result) \<Rightarrow> actuator_cmd
   \<Rightarrow> 'tx mavlink_telemetry \<Rightarrow> 'tx mavlink_telemetry \<times> (unit, telemetry_error) result" where
  "send_actuators try_send cmd t =
     (case format_actuators cmd 0 (mt_sys_id t, mt_comp_id t) (mt_seq t) (replicate 256 0) of
        (seq, buf, Err e) \<Rightarrow> (t\<lparr>mt_seq := seq\<rparr>, Err e)
      | (seq, buf, Ok len) \<Rightarrow>
          if 0 < len
          then let (tx, r) = try_send (mt_tx t) (take len buf)
               in (t\<lparr>mt_seq := seq, mt_tx := tx\<rparr>, case r of Ok _ \<Rightarrow> Ok () | Err e \<Rightarrow> Err (TransportFailed e))
          else (t\<lparr>mt_seq := seq\<rparr>, Ok ()))"

section \<open>The estimate group\<close>

text \<open>Sequence counter, queue and scratch buffer, as the enqueueing functions hand them on.\<close>

type_synonym sender = "u8 \<times> telemetry_queue \<times> byte list"

definition queue_push :: "byte list \<Rightarrow> telemetry_queue \<Rightarrow> telemetry_queue \<times> (unit, queue_error) result" where
  "queue_push = tq_push TELEMETRY_MAX_QUEUE TELEMETRY_MAX_FRAME"

text \<open>\<open>if let Ok(len) = format(..) { queue.push(&buf[..len]).ok(); }\<close>\<close>

definition enqueue_formatted :: "(u8 \<Rightarrow> byte list \<Rightarrow> formatted) \<Rightarrow> sender \<Rightarrow> sender" where
  "enqueue_formatted fmt = (\<lambda>(seq, q, buf).
     case fmt seq buf of
       (seq, buf, Ok len) \<Rightarrow> (seq, fst (queue_push (take len buf) q), buf)
     | (seq, buf, Err _) \<Rightarrow> (seq, q, buf))"

definition enqueue_estimator_status :: "telemetry_snapshot \<Rightarrow> u8 \<times> u8 \<Rightarrow> sender \<Rightarrow> sender \<times> bool" where
  "enqueue_estimator_status snapshot ids = (\<lambda>(seq, q, buf).
     case format_estimator_status (ts_state snapshot) (ts_time_ms snapshot) ids seq buf of
       (seq, buf, Err _) \<Rightarrow> ((seq, q, buf), False)
     | (seq, buf, Ok len) \<Rightarrow>
         (case queue_push (take len buf) q of
            (q, Err _) \<Rightarrow> ((seq, q, buf), False)
          | (q, Ok _) \<Rightarrow>
              (case format_aviate_estimator_status (ts_state snapshot) (ts_time_ms snapshot) ids seq buf of
                 (seq, buf, Err _) \<Rightarrow> ((seq, q, buf), False)
               | (seq, buf, Ok len) \<Rightarrow>
                   (case queue_push (take len buf) q of
                      (q, Err _) \<Rightarrow> ((seq, q, buf), False)
                    | (q, Ok _) \<Rightarrow> ((seq, q, buf), True)))))"

definition enqueue_attitude :: "telemetry_snapshot \<Rightarrow> u8 \<times> u8 \<Rightarrow> sender \<Rightarrow> sender" where
  "enqueue_attitude snapshot ids = enqueue_formatted (format_attitude (ts_state snapshot) (ts_time_ms snapshot) ids)"

definition enqueue_position :: "telemetry_snapshot \<Rightarrow> u8 \<times> u8 \<Rightarrow> sender \<Rightarrow> sender" where
  "enqueue_position snapshot ids =
     enqueue_formatted (format_local_position (ts_state snapshot) (ts_time_ms snapshot) ids)"

text \<open>The numeric frames, behind the status.\<close>

definition enqueue_numeric ::
  "libm \<Rightarrow> tangent_plane \<Rightarrow> telemetry_snapshot \<Rightarrow> bool \<Rightarrow> bool \<Rightarrow> u8 \<times> u8 \<Rightarrow> sender \<Rightarrow> sender" where
  "enqueue_numeric M W snapshot emit_attitude emit_position ids s =
     (let s = (if emit_attitude then enqueue_attitude snapshot ids s else s);
          s = (if emit_position then enqueue_position snapshot ids s else s);
          s = (case (if emit_position then ts_geodetic_origin snapshot else None) of
                 None \<Rightarrow> s
               | Some origin \<Rightarrow>
                   enqueue_formatted
                     (format_global_position M W (ts_state snapshot) origin (ts_time_ms snapshot) ids) s);
          emit_pressure = (emit_position \<and> ts_baro_pressure_pa snapshot \<noteq> None)
      in case ts_baro_pressure_pa snapshot of
           None \<Rightarrow> s
         | Some pressure \<Rightarrow>
             if emit_pressure
             then enqueue_formatted
                    (format_scaled_pressure pressure (ts_baro_temperature_c snapshot) (ts_time_ms snapshot) ids) s
             else s)"

definition enqueue_estimate_group ::
  "libm \<Rightarrow> tangent_plane \<Rightarrow> telemetry_snapshot \<Rightarrow> bool \<Rightarrow> bool \<Rightarrow> bool \<Rightarrow> u8 \<times> u8 \<Rightarrow> u8 \<times> telemetry_queue
   \<Rightarrow> u8 \<times> telemetry_queue" where
  "enqueue_estimate_group M W snapshot emit_attitude emit_position emit_periodic_status ids = (\<lambda>(seq, q).
     let emit_pressure = (emit_position \<and> ts_baro_pressure_pa snapshot \<noteq> None);
         global_origin = (if emit_position then ts_geodetic_origin snapshot else None);
         numeric_count = of_bool emit_attitude + of_bool emit_position + of_bool emit_pressure
                         + of_bool (global_origin \<noteq> None)
     in if numeric_count = 0 \<and> \<not> emit_periodic_status then (seq, q)
        else if tq_remaining_capacity TELEMETRY_MAX_QUEUE q < numeric_count + 2 then (seq, q)
        else (case enqueue_estimator_status snapshot ids (seq, q, replicate TELEMETRY_MAX_FRAME 0) of
                ((seq, q, buf), False) \<Rightarrow> (seq, q)
              | (s, True) \<Rightarrow>
                  (let (seq, q, buf) = enqueue_numeric M W snapshot emit_attitude emit_position ids s in (seq, q))))"

section \<open>The cycle formatter\<close>

text \<open>Rates of the streams in Hz; frame size and queue length of the configuration are those of the types.\<close>

record telemetry_config =
  tc_frame_size :: nat
  tc_queue_len :: nat
  tc_heartbeat_hz :: u8
  tc_attitude_hz :: u8
  tc_position_hz :: u8
  tc_estimator_status_hz :: u8

definition telemetry_config_default :: telemetry_config where
  "telemetry_config_default =
     \<lparr>tc_frame_size = 280, tc_queue_len = 32, tc_heartbeat_hz = 1, tc_attitude_hz = 10, tc_position_hz = 4,
      tc_estimator_status_hz = 4\<rparr>"

record cycle_formatter =
  cf_heartbeat_div :: u32
  cf_attitude_div :: u32
  cf_position_div :: u32
  cf_estimator_status_div :: u32
  cf_seq :: u8
  cf_sys_id :: u8
  cf_comp_id :: u8

text \<open>\<open>div_ceil\<close>: rounding up without overflow.\<close>

definition div_ceil :: "u32 \<Rightarrow> u32 \<Rightarrow> u32" where
  "div_ceil a b = (if a mod b = 0 then a div b else a div b + 1)"

definition to_div :: "u32 \<Rightarrow> u8 \<Rightarrow> string \<Rightarrow> (u32, telemetry_error) result" where
  "to_div loop_hz msg_hz field_name =
     (if msg_hz = 0 then Err (ZeroRate field_name) else Ok (div_ceil loop_hz (ucast msg_hz)))"

definition formatter_with_ids :: "telemetry_config \<Rightarrow> u32 \<Rightarrow> u8 \<Rightarrow> u8 \<Rightarrow> (cycle_formatter, telemetry_error) result" where
  "formatter_with_ids cfg loop_hz sys_id comp_id =
     (if loop_hz = 0 then Err (ZeroRate ''loop_hz'')
      else case to_div loop_hz (tc_heartbeat_hz cfg) ''heartbeat_hz'' of Err e \<Rightarrow> Err e | Ok heartbeat_div \<Rightarrow>
           case to_div loop_hz (tc_attitude_hz cfg) ''attitude_hz'' of Err e \<Rightarrow> Err e | Ok attitude_div \<Rightarrow>
           case to_div loop_hz (tc_position_hz cfg) ''position_hz'' of Err e \<Rightarrow> Err e | Ok position_div \<Rightarrow>
           case to_div loop_hz (tc_estimator_status_hz cfg) ''estimator_status_hz'' of Err e \<Rightarrow> Err e | Ok status_div \<Rightarrow>
           Ok \<lparr>cf_heartbeat_div = heartbeat_div, cf_attitude_div = attitude_div, cf_position_div = position_div,
               cf_estimator_status_div = status_div, cf_seq = 0, cf_sys_id = sys_id, cf_comp_id = comp_id\<rparr>)"

definition formatter_new :: "telemetry_config \<Rightarrow> u32 \<Rightarrow> (cycle_formatter, telemetry_error) result" where
  "formatter_new cfg loop_hz = formatter_with_ids cfg loop_hz 1 1"

text \<open>\<open>is_multiple_of\<close>: of zero only zero is a multiple.\<close>

definition is_multiple_of :: "u32 \<Rightarrow> u32 \<Rightarrow> bool" where
  "is_multiple_of a b \<longleftrightarrow> (if b = 0 then a = 0 else a mod b = 0)"

definition format_cycle ::
  "libm \<Rightarrow> tangent_plane \<Rightarrow> cycle_formatter \<Rightarrow> telemetry_snapshot \<Rightarrow> telemetry_queue
   \<Rightarrow> cycle_formatter \<times> telemetry_queue" where
  "format_cycle M W f snapshot q =
     (let ids = (cf_sys_id f, cf_comp_id f);
          s = (cf_seq f, q, replicate TELEMETRY_MAX_FRAME 0);
          s = (if is_multiple_of (ts_iteration snapshot) (cf_heartbeat_div f)
               then let s = enqueue_formatted (format_heartbeat (ts_status snapshot) ids) s
                    in enqueue_formatted (format_geomagnetic_reference (ts_geomagnetic snapshot) (ts_time_ms snapshot) ids) s
               else s);
          emit_attitude = is_multiple_of (ts_iteration snapshot) (cf_attitude_div f);
          emit_position = is_multiple_of (ts_iteration snapshot) (cf_position_div f);
          emit_status = is_multiple_of (ts_iteration snapshot) (cf_estimator_status_div f);
          (seq, q, buf) = s;
          (seq, q) = enqueue_estimate_group M W snapshot emit_attitude emit_position emit_status ids (seq, q);
          s = (seq, q, buf);
          s = (case ts_gnss_fix snapshot of
                 Some gps \<Rightarrow>
                   if emit_position then enqueue_formatted (format_gps_raw M gps (ts_time_ms snapshot) ids) s else s
               | None \<Rightarrow> s);
          (seq, q, buf) = s
      in (f\<lparr>cf_seq := seq\<rparr>, q))"

end
