(* ===== verification/TelemetryProps.thy ===== *)
theory TelemetryProps
  imports Telemetry
begin

text \<open>
  What telemetry puts on the wire. Frames that carry a list of messages under consecutive sequence numbers; the
  messages a snapshot calls for, stated without queue, buffer or serializer; and the proofs that the formatter, its
  queue and the task deliver exactly those, and no stream faster than its configured rate.
\<close>

section \<open>Frames that carry messages\<close>

definition frame_carries :: "u8 \<times> u8 \<Rightarrow> u8 \<Rightarrow> mav_message \<Rightarrow> byte list \<Rightarrow> bool" where
  "frame_carries ids seq m frame \<longleftrightarrow>
     (\<exists>f. parse_mavlink_frame frame = Ok f \<and> pf_message f = m \<and> pf_consumed f = length frame \<and> pf_signature f = None
        \<and> mh_seq (pf_header f) = seq \<and> mh_sysid (pf_header f) = fst ids \<and> mh_compid (pf_header f) = snd ids)"

fun frames_carry :: "u8 \<times> u8 \<Rightarrow> u8 \<Rightarrow> mav_message list \<Rightarrow> byte list list \<Rightarrow> bool" where
  "frames_carry ids seq [] fs \<longleftrightarrow> fs = []"
| "frames_carry ids seq (m # ms) [] \<longleftrightarrow> False"
| "frames_carry ids seq (m # ms) (f # fs) \<longleftrightarrow> frame_carries ids seq m f \<and> frames_carry ids (seq + 1) ms fs"

lemma frames_carry_append:
  "frames_carry ids seq ms fs \<Longrightarrow> frames_carry ids (seq + of_nat (length ms)) ms' fs'
   \<Longrightarrow> frames_carry ids seq (ms @ ms') (fs @ fs')"
  by (induction ids seq ms fs rule: frames_carry.induct) (simp_all add: ac_simps)

lemma frames_carry_length: "frames_carry ids seq ms fs \<Longrightarrow> length fs = length ms"
  by (induction ids seq ms fs rule: frames_carry.induct) simp_all

text \<open>Every well-formed message fits a telemetry buffer.\<close>

lemma serialize_fits:
  assumes "mav_message_wf m" "length buf = TELEMETRY_MAX_FRAME"
  obtains buf' n where "serialize_mavlink m seq s c buf = Some (buf', n)"
proof -
  have "serialize_mavlink m seq s c buf \<noteq> None"
    using assms by (cases m)
      (simp_all add: TELEMETRY_MAX_FRAME_def payload_lens heartbeat.refused system_time.refused
        attitude_quaternion.refused local_position_ned.refused global_position_int.refused gps_raw_int.refused
        scaled_pressure.refused estimator_status.refused aviate_estimator_status.refused
        aviate_geomagnetic_reference.refused set_attitude_target.refused set_position_target_local_ned.refused
        command_long.refused command_ack.refused rc_channels_override.refused manual_control.refused
        sys_status.refused statustext.refused del: not_None_eq)
  with that show thesis by auto
qed

lemma serialize_next_frame:
  assumes "mav_message_wf m" "length buf = TELEMETRY_MAX_FRAME"
  obtains buf' n where "serialize_next e m ids seq buf = (seq + 1, buf', Ok n)" "length buf' = TELEMETRY_MAX_FRAME"
    "length (take n buf') \<le> TELEMETRY_MAX_FRAME" "frame_carries ids seq m (take n buf')"
proof -
  obtain buf' n where w: "serialize_mavlink m seq (fst ids) (snd ids) buf = Some (buf', n)"
    using serialize_fits [OF assms] .
  then have "frame_written m seq (fst ids) (snd ids) buf buf' n" using serialized_frame [OF assms(1)] by simp
  then obtain f where f: "length buf' = length buf" "n \<le> length buf" "parse_mavlink_frame buf' = Ok f" "pf_message f = m"
    "pf_consumed f = n" "pf_signature f = None" "mh_seq (pf_header f) = seq" "mh_sysid (pf_header f) = fst ids"
    "mh_compid (pf_header f) = snd ids" by (auto simp: frame_written_def)
  have "parse_mavlink_frame (take n buf' @ []) = Ok f" using frames_are_delimited [OF f(3), of "[]"] f(5) by simp
  then have "frame_carries ids seq m (take n buf')" using f by (auto simp: frame_carries_def)
  then show thesis using that [of buf' n] w f(1,2) assms(2) by (simp add: serialize_next_def)
qed

section \<open>Senders\<close>

abbreviation queue_wf :: "telemetry_queue \<Rightarrow> bool" where
  "queue_wf \<equiv> tq_wf TELEMETRY_MAX_QUEUE TELEMETRY_MAX_FRAME"

abbreviation queue_contents :: "telemetry_queue \<Rightarrow> byte list list" where
  "queue_contents \<equiv> tq_contents TELEMETRY_MAX_QUEUE"

abbreviation queue_room :: "telemetry_queue \<Rightarrow> nat" where
  "queue_room \<equiv> tq_remaining_capacity TELEMETRY_MAX_QUEUE"

definition sender_ok :: "sender \<Rightarrow> bool" where
  "sender_ok = (\<lambda>(seq, q, buf). queue_wf q \<and> length buf = TELEMETRY_MAX_FRAME)"

text \<open>From one sender state to another exactly the messages \<open>ms\<close> were queued.\<close>

definition sent :: "u8 \<times> u8 \<Rightarrow> mav_message list \<Rightarrow> sender \<Rightarrow> sender \<Rightarrow> bool" where
  "sent ids ms = (\<lambda>(seq, q, buf) (seq', q', buf').
     seq' = seq + of_nat (length ms) \<and> (\<exists>fs. queue_contents q' = queue_contents q @ fs \<and> frames_carry ids seq ms fs))"

definition sender_room :: "sender \<Rightarrow> nat" where
  "sender_room = (\<lambda>(seq, q, buf). queue_room q)"

lemma sent_nothing [simp]: "sent ids [] s s"
  by (cases s) (simp add: sent_def)

lemma sent_room: "sent ids ms s s' \<Longrightarrow> sender_room s' = sender_room s - length ms"
  by (cases s, cases s') (auto simp: sent_def sender_room_def tq_remaining_capacity_def frames_carry_length
      simp flip: tq_contents_length)

lemma sent_trans: "sent ids ms s s' \<Longrightarrow> sent ids ms' s' s'' \<Longrightarrow> sent ids (ms @ ms') s s''"
  by (cases s, cases s', cases s'') (auto simp: sent_def ac_simps intro: frames_carry_append)

lemma room_iff: "queue_wf q \<Longrightarrow> 0 < queue_room q \<longleftrightarrow> \<not> tq_full q"
  using tq_len_N [of TELEMETRY_MAX_QUEUE TELEMETRY_MAX_FRAME q] tq_len_le [of TELEMETRY_MAX_QUEUE TELEMETRY_MAX_FRAME q]
  by (auto simp: tq_remaining_capacity_def)

lemma queue_push_ok:
  assumes "queue_wf q" "0 < queue_room q" "length f \<le> TELEMETRY_MAX_FRAME"
  obtains q' where "queue_push f q = (q', Ok ())" "queue_wf q'" "queue_contents q' = queue_contents q @ [f]"
  using tq_push_ok [OF assms(1) _ assms(3)] assms(2) room_iff [OF assms(1)]
  by (auto simp: queue_push_def TELEMETRY_MAX_FRAME_def)

text \<open>A format function formats the message: it is \<open>serialize_next\<close> of it.\<close>

lemma enqueue_sends:
  assumes "sender_ok s" "0 < sender_room s" "mav_message_wf m"
  shows "sender_ok (enqueue_formatted (serialize_next e m ids) s)
    \<and> sent ids [m] s (enqueue_formatted (serialize_next e m ids) s)"
proof -
  obtain seq q buf where s: "s = (seq, q, buf)" by (cases s)
  with assms have wf: "queue_wf q" "length buf = TELEMETRY_MAX_FRAME" "0 < queue_room q"
    by (simp_all add: sender_ok_def sender_room_def)
  obtain buf' n where w: "serialize_next e m ids seq buf = (seq + 1, buf', Ok n)" "length buf' = TELEMETRY_MAX_FRAME"
    "length (take n buf') \<le> TELEMETRY_MAX_FRAME" "frame_carries ids seq m (take n buf')"
    using serialize_next_frame [OF assms(3) wf(2)] .
  obtain q' where "queue_push (take n buf') q = (q', Ok ())" "queue_wf q'"
    "queue_contents q' = queue_contents q @ [take n buf']" using queue_push_ok [OF wf(1,3) w(3)] .
  then show ?thesis using w s by (simp add: enqueue_formatted_def sender_ok_def sent_def)
qed

section \<open>What a snapshot calls for\<close>

text \<open>The numeric frames of an estimate, and the group they form behind the two status frames.\<close>

definition global_messages :: "libm \<Rightarrow> tangent_plane \<Rightarrow> telemetry_snapshot \<Rightarrow> mav_message list" where
  "global_messages M W snapshot =
     (case ts_geodetic_origin snapshot of
        None \<Rightarrow> []
      | Some origin \<Rightarrow>
          (case global_position_message M W (ts_state snapshot) origin (ts_time_ms snapshot) of
             None \<Rightarrow> [] | Some m \<Rightarrow> [m]))"

definition pressure_messages :: "telemetry_snapshot \<Rightarrow> mav_message list" where
  "pressure_messages snapshot =
     (case ts_baro_pressure_pa snapshot of
        None \<Rightarrow> []
      | Some pressure \<Rightarrow> [scaled_pressure_message pressure (ts_baro_temperature_c snapshot) (ts_time_ms snapshot)])"

definition numeric_messages :: "libm \<Rightarrow> tangent_plane \<Rightarrow> telemetry_snapshot \<Rightarrow> bool \<Rightarrow> bool \<Rightarrow> mav_message list" where
  "numeric_messages M W snapshot emit_attitude emit_position =
     (if emit_attitude then [attitude_message (ts_state snapshot) (ts_time_ms snapshot)] else [])
     @ (if emit_position
        then [local_position_message (ts_state snapshot) (ts_time_ms snapshot)]
             @ global_messages M W snapshot @ pressure_messages snapshot
        else [])"

definition status_messages :: "telemetry_snapshot \<Rightarrow> mav_message list" where
  "status_messages snapshot =
     [estimator_status_message (ts_state snapshot) (ts_time_ms snapshot),
      aviate_estimator_status_message (ts_state snapshot) (ts_time_ms snapshot)]"

definition group_messages ::
  "libm \<Rightarrow> tangent_plane \<Rightarrow> telemetry_snapshot \<Rightarrow> bool \<Rightarrow> bool \<Rightarrow> bool \<Rightarrow> mav_message list" where
  "group_messages M W snapshot emit_attitude emit_position emit_status =
     (if emit_attitude \<or> emit_position \<or> emit_status
      then status_messages snapshot @ numeric_messages M W snapshot emit_attitude emit_position else [])"

text \<open>The places a group reserves before its first frame.\<close>

definition group_size :: "telemetry_snapshot \<Rightarrow> bool \<Rightarrow> bool \<Rightarrow> nat" where
  "group_size snapshot emit_attitude emit_position =
     2 + of_bool emit_attitude
     + (if emit_position
        then 1 + of_bool (ts_baro_pressure_pa snapshot \<noteq> None) + of_bool (ts_geodetic_origin snapshot \<noteq> None) else 0)"

definition cycle_messages :: "libm \<Rightarrow> tangent_plane \<Rightarrow> cycle_formatter \<Rightarrow> telemetry_snapshot \<Rightarrow> mav_message list" where
  "cycle_messages M W f snapshot =
     (let due = is_multiple_of (ts_iteration snapshot)
      in (if due (cf_heartbeat_div f)
          then [heartbeat_message (ts_status snapshot), geomagnetic_message (ts_geomagnetic snapshot) (ts_time_ms snapshot)]
          else [])
         @ group_messages M W snapshot (due (cf_attitude_div f)) (due (cf_position_div f)) (due (cf_estimator_status_div f))
         @ (if due (cf_position_div f)
            then (case ts_gnss_fix snapshot of None \<Rightarrow> [] | Some gps \<Rightarrow> [gps_raw_message M gps (ts_time_ms snapshot)])
            else []))"

lemma messages_wf [simp]:
  "mav_message_wf (heartbeat_message st)"
  "mav_message_wf (attitude_message x t)"
  "mav_message_wf (local_position_message x t)"
  "mav_message_wf (scaled_pressure_message p c t)"
  "mav_message_wf (estimator_status_message x t)"
  "mav_message_wf (aviate_estimator_status_message x t)"
  "mav_message_wf (geomagnetic_message g t)"
  "mav_message_wf (gps_raw_message M r t)"
  by (simp_all add: heartbeat_message_def attitude_message_def local_position_message_def scaled_pressure_message_def
      estimator_status_message_def aviate_estimator_status_message_def geomagnetic_message_def gps_raw_message_def
      Let_def split: prod.split)

lemma global_message_wf: "global_position_message M W x g t = Some m \<Longrightarrow> mav_message_wf m"
  by (auto simp: global_position_message_def split: option.splits)

lemmas format_defs = format_heartbeat_def format_attitude_def format_local_position_def format_scaled_pressure_def
  format_estimator_status_def format_aviate_estimator_status_def format_geomagnetic_reference_def format_gps_raw_def

section \<open>Delivery\<close>

definition delivers :: "u8 \<times> u8 \<Rightarrow> sender \<Rightarrow> mav_message list \<Rightarrow> sender \<Rightarrow> bool" where
  "delivers ids s ms s' \<longleftrightarrow> sender_ok s' \<and> sent ids ms s s'"

lemma delivers_start: "sender_ok s \<Longrightarrow> delivers ids s [] s"
  by (simp add: delivers_def)

lemma delivers_one:
  assumes "delivers ids s0 ms s" "length ms < sender_room s0" "mav_message_wf m"
  shows "delivers ids s0 (ms @ [m]) (enqueue_formatted (serialize_next e m ids) s)"
  using assms enqueue_sends [of s m e ids] sent_room [of ids ms s0 s]
  by (auto simp: delivers_def intro: sent_trans)

lemma delivers_global:
  assumes "delivers ids s0 ms s" "length ms < sender_room s0"
  shows "delivers ids s0
    (ms @ (case global_position_message M W x g t of None \<Rightarrow> [] | Some m \<Rightarrow> [m]))
    (enqueue_formatted (format_global_position M W x g t ids) s)"
proof (cases "global_position_message M W x g t")
  case None
  then show ?thesis using assms(1) by (cases s) (simp add: enqueue_formatted_def format_global_position_def)
next
  case (Some m)
  then have "format_global_position M W x g t ids = serialize_next ProtocolFailed m ids"
    by (intro ext) (simp add: format_global_position_def)
  then show ?thesis using delivers_one [OF assms global_message_wf [OF Some]] Some by simp
qed

lemma delivers_status:
  assumes "sender_ok s" "2 \<le> sender_room s"
  obtains s' where "enqueue_estimator_status snapshot ids s = (s', True)" "delivers ids s (status_messages snapshot) s'"
proof -
  obtain seq q buf where s: "s = (seq, q, buf)" by (cases s)
  with assms have wf: "queue_wf q" "length buf = TELEMETRY_MAX_FRAME" "2 \<le> queue_room q"
    by (simp_all add: sender_ok_def sender_room_def)
  let ?e = "estimator_status_message (ts_state snapshot) (ts_time_ms snapshot)"
  let ?a = "aviate_estimator_status_message (ts_state snapshot) (ts_time_ms snapshot)"
  obtain b1 n1 where w1: "serialize_next ProtocolFailed ?e ids seq buf = (seq + 1, b1, Ok n1)"
    "length b1 = TELEMETRY_MAX_FRAME" "length (take n1 b1) \<le> TELEMETRY_MAX_FRAME" "frame_carries ids seq ?e (take n1 b1)"
    using serialize_next_frame [OF messages_wf(5) wf(2)] .
  obtain b2 n2 where w2: "serialize_next ProtocolFailed ?a ids (seq + 1) b1 = (seq + 1 + 1, b2, Ok n2)"
    "length b2 = TELEMETRY_MAX_FRAME" "length (take n2 b2) \<le> TELEMETRY_MAX_FRAME"
    "frame_carries ids (seq + 1) ?a (take n2 b2)"
    using serialize_next_frame [OF messages_wf(6) w1(2)] .
  have "0 < queue_room q" using wf by simp
  then obtain q1 where q1: "queue_push (take n1 b1) q = (q1, Ok ())" "queue_wf q1"
    "queue_contents q1 = queue_contents q @ [take n1 b1]"
    using queue_push_ok [OF wf(1) _ w1(3)] by blast
  have "tq_len TELEMETRY_MAX_QUEUE q1 = tq_len TELEMETRY_MAX_QUEUE q + 1"
    using q1(3) tq_contents_length [of TELEMETRY_MAX_QUEUE q1] by simp
  then have "0 < queue_room q1" using wf(3) by (simp add: tq_remaining_capacity_def)
  then obtain q2 where q2: "queue_push (take n2 b2) q1 = (q2, Ok ())" "queue_wf q2"
    "queue_contents q2 = queue_contents q1 @ [take n2 b2]"
    using queue_push_ok [OF q1(2) _ w2(3)] by blast
  have "enqueue_estimator_status snapshot ids s = ((seq + 1 + 1, q2, b2), True)"
    using s w1(1) w2(1) q1(1) q2(1) by (simp add: enqueue_estimator_status_def format_defs)
  moreover have "delivers ids s (status_messages snapshot) (seq + 1 + 1, q2, b2)"
    using s q1 q2 w1 w2 by (simp add: delivers_def sender_ok_def sent_def status_messages_def)
  ultimately show thesis by (rule that)
qed

lemma numeric_delivered:
  assumes s: "delivers ids s0 (status_messages snapshot) s" and room: "group_size snapshot att pos \<le> sender_room s0"
  shows "delivers ids s0 (status_messages snapshot @ numeric_messages M W snapshot att pos)
    (enqueue_numeric M W snapshot att pos ids s)"
proof -
  define s1 where "s1 = (if att then enqueue_attitude snapshot ids s else s)"
  define s2 where "s2 = (if pos then enqueue_position snapshot ids s1 else s1)"
  define s3 where "s3 = (case (if pos then ts_geodetic_origin snapshot else None) of
      None \<Rightarrow> s2
    | Some origin \<Rightarrow> enqueue_formatted
        (format_global_position M W (ts_state snapshot) origin (ts_time_ms snapshot) ids) s2)"
  define s4 where "s4 = enqueue_numeric M W snapshot att pos ids s"
  have s4: "s4 = (case ts_baro_pressure_pa snapshot of
      None \<Rightarrow> s3
    | Some pressure \<Rightarrow> if pos
        then enqueue_formatted (format_scaled_pressure pressure (ts_baro_temperature_c snapshot) (ts_time_ms snapshot) ids) s3
        else s3)"
    by (simp add: s4_def s3_def s2_def s1_def enqueue_numeric_def Let_def split: option.split)
  let ?st = "status_messages snapshot"
  let ?a = "if att then [attitude_message (ts_state snapshot) (ts_time_ms snapshot)] else []"
  let ?p = "if pos then [local_position_message (ts_state snapshot) (ts_time_ms snapshot)] else []"
  let ?g = "if pos then global_messages M W snapshot else []"
  have [simp]: "length ?st = 2" by (simp add: status_messages_def)
  have g: "length ?g \<le> of_bool (pos \<and> ts_geodetic_origin snapshot \<noteq> None)"
    by (simp add: global_messages_def split: option.split)
  have r: "2 + of_bool att + (if pos then 1 + of_bool (ts_baro_pressure_pa snapshot \<noteq> None)
      + of_bool (ts_geodetic_origin snapshot \<noteq> None) else 0) \<le> sender_room s0"
    using room by (simp add: group_size_def)
  have d1: "delivers ids s0 (?st @ ?a) s1"
    using delivers_one [OF s _ messages_wf(2)] r
    by (auto simp: s1_def enqueue_attitude_def format_defs s split: if_splits)
  have d2: "delivers ids s0 ((?st @ ?a) @ ?p) s2"
    using delivers_one [OF d1 _ messages_wf(3)] r d1
    by (auto simp: s2_def enqueue_position_def format_defs split: if_splits)
  have d3: "delivers ids s0 (((?st @ ?a) @ ?p) @ ?g) s3"
  proof (cases "if pos then ts_geodetic_origin snapshot else None")
    case None
    then have "?g = []" "s3 = s2" by (auto simp: s3_def global_messages_def split: if_splits)
    then show ?thesis using d2 by simp
  next
    case (Some origin)
    then have o: "pos" "ts_geodetic_origin snapshot = Some origin" by (simp_all split: if_splits)
    have "length ((?st @ ?a) @ ?p) < sender_room s0" using r o by (auto split: if_splits)
    from delivers_global [OF d2 this, of M W "ts_state snapshot" origin "ts_time_ms snapshot"] show ?thesis
      using o by (simp add: s3_def global_messages_def)
  qed
  have d4: "delivers ids s0 ((((?st @ ?a) @ ?p) @ ?g) @ (if pos then pressure_messages snapshot else [])) s4"
    using delivers_one [OF d3 _ messages_wf(4)] r d3 g
    by (auto simp: s4 pressure_messages_def format_defs split: if_splits option.splits)
  moreover have "(((?st @ ?a) @ ?p) @ ?g) @ (if pos then pressure_messages snapshot else [])
      = ?st @ numeric_messages M W snapshot att pos"
    by (simp add: numeric_messages_def)
  ultimately show ?thesis by (simp add: s4_def)
qed

lemma delivers_frames:
  "delivers ids (seq, q, buf) ms (seq', q', buf') \<longleftrightarrow>
     queue_wf q' \<and> length buf' = TELEMETRY_MAX_FRAME \<and> seq' = seq + of_nat (length ms)
     \<and> (\<exists>fs. queue_contents q' = queue_contents q @ fs \<and> frames_carry ids seq ms fs)"
  by (auto simp: delivers_def sender_ok_def sent_def)

text \<open>The group is queued whole or not at all.\<close>

lemma group_delivered:
  assumes "queue_wf q" "group_size snapshot att pos \<le> queue_room q"
  obtains seq' q' where "enqueue_estimate_group M W snapshot att pos status ids (seq, q) = (seq', q')"
    "queue_wf q'" "seq' = seq + of_nat (length (group_messages M W snapshot att pos status))"
    "\<exists>fs. queue_contents q' = queue_contents q @ fs \<and> frames_carry ids seq (group_messages M W snapshot att pos status) fs"
proof (cases "att \<or> pos \<or> status")
  case False
  then show thesis using that [of seq q] assms by (simp add: enqueue_estimate_group_def group_messages_def)
next
  case True
  let ?s = "(seq, q, replicate TELEMETRY_MAX_FRAME 0)"
  have ok: "sender_ok ?s" "group_size snapshot att pos \<le> sender_room ?s" using assms by (simp_all add: sender_ok_def sender_room_def)
  then have "2 \<le> sender_room ?s" by (simp add: group_size_def)
  then obtain s1 where st: "enqueue_estimator_status snapshot ids ?s = (s1, True)"
    "delivers ids ?s (status_messages snapshot) s1" using delivers_status [OF ok(1)] by blast
  obtain seq' q' buf' where s2: "enqueue_numeric M W snapshot att pos ids s1 = (seq', q', buf')" by (rule prod_cases3)
  then have "delivers ids ?s (group_messages M W snapshot att pos status) (seq', q', buf')"
    using numeric_delivered [OF st(2) ok(2), of M W] True by (simp add: group_messages_def)
  moreover have "enqueue_estimate_group M W snapshot att pos status ids (seq, q) = (seq', q')"
    using st(1) s2 True assms(2) by (auto simp: enqueue_estimate_group_def Let_def group_size_def)
  ultimately show thesis using that by (simp add: delivers_frames)
qed

lemma group_refused:
  assumes "queue_room q < group_size snapshot att pos"
  shows "enqueue_estimate_group M W snapshot att pos status ids (seq, q) = (seq, q)"
  using assms by (auto simp: enqueue_estimate_group_def Let_def group_size_def)

section \<open>One cycle\<close>

lemma cycle_delivered:
  assumes "queue_wf q" "queue_contents q = []"
  obtains q' fs where "format_cycle M W f snapshot q
      = (f\<lparr>cf_seq := cf_seq f + of_nat (length (cycle_messages M W f snapshot))\<rparr>, q')"
    "queue_wf q'" "queue_contents q' = fs"
    "frames_carry (cf_sys_id f, cf_comp_id f) (cf_seq f) (cycle_messages M W f snapshot) fs"
proof -
  let ?ids = "(cf_sys_id f, cf_comp_id f)"
  let ?due = "is_multiple_of (ts_iteration snapshot)"
  let ?hb = "if ?due (cf_heartbeat_div f)
    then [heartbeat_message (ts_status snapshot), geomagnetic_message (ts_geomagnetic snapshot) (ts_time_ms snapshot)] else []"
  let ?g = "group_messages M W snapshot (?due (cf_attitude_div f)) (?due (cf_position_div f)) (?due (cf_estimator_status_div f))"
  let ?gps = "if ?due (cf_position_div f)
    then (case ts_gnss_fix snapshot of None \<Rightarrow> [] | Some gps \<Rightarrow> [gps_raw_message M gps (ts_time_ms snapshot)]) else []"
  define s0 where "s0 = (cf_seq f, q, replicate TELEMETRY_MAX_FRAME (0 :: u8))"
  have ok: "sender_ok s0" using assms by (simp add: s0_def sender_ok_def)
  have room: "sender_room s0 = 32"
    using assms(2) tq_contents_length [of TELEMETRY_MAX_QUEUE q]
    by (simp add: s0_def sender_room_def tq_remaining_capacity_def TELEMETRY_MAX_QUEUE_def)
  obtain seq1 q1 b1 where s1: "(if ?due (cf_heartbeat_div f)
      then enqueue_formatted (format_geomagnetic_reference (ts_geomagnetic snapshot) (ts_time_ms snapshot) ?ids)
        (enqueue_formatted (format_heartbeat (ts_status snapshot) ?ids) s0) else s0) = (seq1, q1, b1)" by (rule prod_cases3)
  have d1: "delivers ?ids s0 ?hb (seq1, q1, b1)"
  proof (cases "?due (cf_heartbeat_div f)")
    case True
    have "delivers ?ids s0 ([] @ [heartbeat_message (ts_status snapshot)])
        (enqueue_formatted (format_heartbeat (ts_status snapshot) ?ids) s0)"
      unfolding format_defs using delivers_one [OF delivers_start [OF ok] _ messages_wf(1)] room by simp
    from delivers_one [OF this _ messages_wf(7)] show ?thesis
      unfolding s1 [symmetric] using True room by (simp add: format_defs)
  next
    case False
    then show ?thesis unfolding s1 [symmetric] using delivers_start [OF ok] by simp
  qed
  have r1: "queue_room q1 = 32 - length ?hb"
    using sent_room [of ?ids ?hb s0 "(seq1, q1, b1)"] d1 room by (simp add: delivers_def sender_room_def)
  have "length ?hb \<le> 2" by simp
  then have gs: "group_size snapshot (?due (cf_attitude_div f)) (?due (cf_position_div f)) \<le> queue_room q1"
    unfolding r1 by (simp add: group_size_def of_bool_def)
  obtain fs1 where fs1: "seq1 = cf_seq f + of_nat (length ?hb)" "queue_contents q1 = queue_contents q @ fs1"
      "frames_carry ?ids (cf_seq f) ?hb fs1"
    using d1 unfolding s0_def delivers_frames by blast
  have wf1: "queue_wf q1" "length b1 = TELEMETRY_MAX_FRAME" using d1 unfolding s0_def delivers_frames by simp_all
  obtain seq2 q2 where g: "enqueue_estimate_group M W snapshot (?due (cf_attitude_div f)) (?due (cf_position_div f))
      (?due (cf_estimator_status_div f)) ?ids (seq1, q1) = (seq2, q2)" "queue_wf q2"
      "seq2 = seq1 + of_nat (length ?g)"
      "\<exists>fs. queue_contents q2 = queue_contents q1 @ fs \<and> frames_carry ?ids seq1 ?g fs"
    by (rule group_delivered [OF wf1(1) gs])
  have d2: "delivers ?ids s0 (?hb @ ?g) (seq2, q2, b1)"
  proof -
    obtain fs2 where fs2: "queue_contents q2 = queue_contents q1 @ fs2" "frames_carry ?ids seq1 ?g fs2" using g(4) by blast
    have "frames_carry ?ids (cf_seq f) (?hb @ ?g) (fs1 @ fs2)"
      by (rule frames_carry_append [OF fs1(3)]) (use fs2(2) in \<open>simp only: fs1(1)\<close>)
    moreover have "seq2 = cf_seq f + of_nat (length (?hb @ ?g))"
      unfolding g(3) fs1(1) length_append of_nat_add by (simp only: ac_simps)
    moreover have "queue_contents q2 = queue_contents q @ fs1 @ fs2" by (simp only: fs1(2) fs2(1) append_assoc)
    ultimately show ?thesis using g(2) wf1(2) unfolding s0_def delivers_frames by blast
  qed
  have len: "length (?hb @ ?g) < 32"
    by (simp add: group_messages_def status_messages_def numeric_messages_def global_messages_def pressure_messages_def
        split: option.split)
  obtain seq3 q3 b3 where s3: "(case ts_gnss_fix snapshot of
      Some gps \<Rightarrow> if ?due (cf_position_div f)
        then enqueue_formatted (format_gps_raw M gps (ts_time_ms snapshot) ?ids) (seq2, q2, b1) else (seq2, q2, b1)
    | None \<Rightarrow> (seq2, q2, b1)) = (seq3, q3, b3)" by (rule prod_cases3)
  have d3: "delivers ?ids s0 ((?hb @ ?g) @ ?gps) (seq3, q3, b3)"
    using delivers_one [OF d2 _ messages_wf(8)] d2 len room
    by (auto simp: format_defs simp flip: s3 split: option.split)
  have c: "cycle_messages M W f snapshot = (?hb @ ?g) @ ?gps" by (simp add: cycle_messages_def Let_def)
  have "format_cycle M W f snapshot q = (f\<lparr>cf_seq := seq3\<rparr>, q3)"
    unfolding format_cycle_def Let_def s0_def [symmetric] s1 prod.case g(1) s3 ..
  then show thesis using that [of q3 "queue_contents q3"] d3 assms(2) unfolding c s0_def delivers_frames by auto
qed

section \<open>Runs of the telemetry task\<close>

text \<open>One control step per snapshot: the snapshot is copied, then formatted and flushed.\<close>

primrec run_telemetry ::
  "('tx \<Rightarrow> byte list \<Rightarrow> 'tx) \<Rightarrow> libm \<Rightarrow> tangent_plane \<Rightarrow> ('tx, cycle_formatter, telemetry_snapshot) telemetry_task
   \<Rightarrow> telemetry_snapshot list \<Rightarrow> ('tx, cycle_formatter, telemetry_snapshot) telemetry_task option" where
  "run_telemetry try_send M W t [] = Some t"
| "run_telemetry try_send M W t (s # ss) =
     (case tick_and_flush try_send (format_cycle M W) (task_update_state s t) of
        None \<Rightarrow> None
      | Some t \<Rightarrow> run_telemetry try_send M W t ss)"

definition task_idle :: "('tx, 'f, 's) telemetry_task \<Rightarrow> bool" where
  "task_idle t \<longleftrightarrow> queue_wf (tt_queue t) \<and> queue_contents (tt_queue t) = []"

lemma task_new_idle: "task_idle (task_new tx f s)"
  by (simp add: task_idle_def task_new_def tq_new_contents tq_new_wf TELEMETRY_MAX_QUEUE_def)

lemma tick_exact:
  fixes t :: "('tx, cycle_formatter, telemetry_snapshot) telemetry_task"
  assumes "task_idle t"
  obtains t' fs where "tick_and_flush try_send (format_cycle M W) (task_update_state s t) = Some t'" "task_idle t'"
    "tt_tx t' = fold (\<lambda>f tx. try_send tx f) fs (tt_tx t)"
    "frames_carry (cf_sys_id (tt_formatter t), cf_comp_id (tt_formatter t)) (cf_seq (tt_formatter t))
       (cycle_messages M W (tt_formatter t) s) fs"
    "tt_formatter t' = (tt_formatter t)
       \<lparr>cf_seq := cf_seq (tt_formatter t) + of_nat (length (cycle_messages M W (tt_formatter t) s))\<rparr>"
proof -
  let ?f = "tt_formatter t"
  obtain q fs where c: "format_cycle M W ?f s (tt_queue t)
      = (?f\<lparr>cf_seq := cf_seq ?f + of_nat (length (cycle_messages M W ?f s))\<rparr>, q)" "queue_wf q" "queue_contents q = fs"
    "frames_carry (cf_sys_id ?f, cf_comp_id ?f) (cf_seq ?f) (cycle_messages M W ?f s) fs"
    using cycle_delivered [of "tt_queue t"] assms unfolding task_idle_def by blast
  obtain q' where q': "flush_queue try_send (tt_tx t) q = Some (fold (\<lambda>f tx. try_send tx f) fs (tt_tx t), q')"
    "queue_wf q'" "queue_contents q' = []" using flush_returns [OF c(2), where try_send = try_send and tx = "tt_tx t"] c(3) by blast
  show thesis
    by (rule that [of "(task_update_state s t)
          \<lparr>tt_formatter := ?f\<lparr>cf_seq := cf_seq ?f + of_nat (length (cycle_messages M W ?f s))\<rparr>,
           tt_tx := fold (\<lambda>f tx. try_send tx f) fs (tt_tx t), tt_queue := q'\<rparr>" fs])
      (simp_all add: tick_and_flush_def task_update_state_def c q' task_idle_def)
qed

lemma cycle_messages_seq [simp]: "cycle_messages M W (f\<lparr>cf_seq := n\<rparr>) s = cycle_messages M W f s"
  by (simp add: cycle_messages_def)

section \<open>Rates\<close>

lemma div_ceil_covers: "b \<noteq> 0 \<Longrightarrow> unat a \<le> unat (div_ceil a b) * unat b"
proof -
  assume b: "b \<noteq> 0"
  show ?thesis
  proof (cases "a mod b = 0")
    case True
    then have "unat a mod unat b = 0" by (simp flip: unat_mod)
    then show ?thesis using True by (simp add: div_ceil_def unat_div) (metis mod_0_imp_dvd dvd_div_mult_self order_refl)
  next
    case False
    have "unat b \<noteq> 1"
    proof
      assume "unat b = 1"
      then have "b = 1" by (simp add: word_unat_eq_iff)
      with False show False by simp
    qed
    moreover have "unat b \<noteq> 0" using b by (simp add: unat_eq_zero)
    ultimately have two: "2 \<le> unat b" by linarith
    have "unat a div unat b \<le> unat a div 2" using two by (intro div_le_mono2) simp_all
    also have "\<dots> < 2 ^ 31" using unsigned_less [where w = a, where ?'a = nat] by simp
    finally have "unat (a div b + 1) = unat a div unat b + 1" by (simp add: unat_plus_if' unat_div)
    moreover have "unat a < (unat a div unat b + 1) * unat b"
      using two dividend_less_times_div [of "unat b" "unat a"] by (simp add: algebra_simps)
    ultimately show ?thesis using False by (simp add: div_ceil_def)
  qed
qed

lemma multiples_in_window: "0 < d \<Longrightarrow> card {i. a \<le> i \<and> i < a + d * r \<and> d dvd i} \<le> (r :: nat)"
proof (induction r)
  case (Suc r)
  let ?b = "a + d * r"
  have "{i. a \<le> i \<and> i < a + d * Suc r \<and> d dvd i}
      \<subseteq> {i. a \<le> i \<and> i < ?b \<and> d dvd i} \<union> {i. ?b \<le> i \<and> i < ?b + d \<and> d dvd i}" by auto
  moreover have "card {i. ?b \<le> i \<and> i < ?b + d \<and> d dvd i} \<le> 1"
  proof (rule card_le_Suc0_iff_eq [THEN iffD2, folded One_nat_def])
    show "finite {i. ?b \<le> i \<and> i < ?b + d \<and> d dvd i}" by (rule finite_subset [of _ "{..< ?b + d}"]) auto
    have "x = y" if "?b \<le> x" "x < ?b + d" "d dvd x" "?b \<le> y" "y < ?b + d" "d dvd y" "x \<le> y" for x y
    proof -
      have "d dvd y - x" "y - x < d" using that by (auto intro: dvd_diff_nat)
      then show ?thesis using that(7) by (auto dest: dvd_imp_le)
    qed
    then show "\<forall>x\<in>{i. ?b \<le> i \<and> i < ?b + d \<and> d dvd i}. \<forall>y\<in>{i. ?b \<le> i \<and> i < ?b + d \<and> d dvd i}. x = y"
      by (metis (no_types, lifting) mem_Collect_eq nat_le_linear)
  qed
  moreover have "finite ({i. a \<le> i \<and> i < ?b \<and> d dvd i} \<union> {i. ?b \<le> i \<and> i < ?b + d \<and> d dvd i})"
    by (rule finite_subset [of _ "{..< ?b + d}"]) auto
  ultimately have "card {i. a \<le> i \<and> i < a + d * Suc r \<and> d dvd i}
      \<le> card {i. a \<le> i \<and> i < ?b \<and> d dvd i} + 1"
    using card_mono card_Un_le [of "{i. a \<le> i \<and> i < ?b \<and> d dvd i}" "{i. ?b \<le> i \<and> i < ?b + d \<and> d dvd i}"]
    by (meson add_left_mono order_trans)
  then show ?case using Suc by simp
qed simp

text \<open>Each stream of a formatter, its divider and its configured rate.\<close>

definition streams :: "telemetry_config \<Rightarrow> cycle_formatter \<Rightarrow> (u32 \<times> u8) list" where
  "streams cfg f =
     [(cf_heartbeat_div f, tc_heartbeat_hz cfg), (cf_attitude_div f, tc_attitude_hz cfg),
      (cf_position_div f, tc_position_hz cfg), (cf_estimator_status_div f, tc_estimator_status_hz cfg)]"

lemma streams_divided:
  assumes "formatter_with_ids cfg loop_hz sys_id comp_id = Ok f" "(dv, rate) \<in> set (streams cfg f)"
  shows "rate \<noteq> 0" "loop_hz \<noteq> 0" "dv = div_ceil loop_hz (ucast rate)"
  using assms by (auto simp: formatter_with_ids_def to_div_def streams_def split: if_splits)

section \<open>Properties\<close>

text \<open>C27: What reaches the ground is exactly what the vehicle's snapshots call for. In every run of the telemetry
  task with the MAVLink formatter, whatever the snapshots hold, every tick returns and leaves the queue empty, and the
  transport is handed frames that parse, one by one and in order, to the messages the snapshots call for:
  heartbeat and heading reference at the heartbeat rate; at an estimate's rate the two status frames first and then
  its numeric frames, all stamped with the snapshot's time; the receiver's fix last. They bear the formatter's ids and
  consecutive sequence numbers, so none is lost, doubled, reordered or altered on the way through serializer and
  ring.\<close>

theorem telemetry_stream_exact:
  "\<exists>t fs. run_telemetry try_send M W (task_new tx f s0) snapshots = Some t
     \<and> tt_tx t = fold (\<lambda>frame tx. try_send tx frame) fs tx
     \<and> frames_carry (cf_sys_id f, cf_comp_id f) (cf_seq f) (concat (map (cycle_messages M W f) snapshots)) fs
     \<and> tq_contents TELEMETRY_MAX_QUEUE (tt_queue t) = []"
proof -
  have "\<exists>t' fs. run_telemetry try_send M W t snapshots = Some t'
      \<and> tt_tx t' = fold (\<lambda>frame tx. try_send tx frame) fs (tt_tx t)
      \<and> frames_carry (cf_sys_id f, cf_comp_id f) (cf_seq (tt_formatter t)) (concat (map (cycle_messages M W f) snapshots)) fs
      \<and> task_idle t'" if "task_idle t" "tt_formatter t = f\<lparr>cf_seq := n\<rparr>"
    for t :: "('a, cycle_formatter, telemetry_snapshot) telemetry_task" and n
    using that
  proof (induction snapshots arbitrary: t n)
    case (Cons s ss)
    obtain t1 fs where t1: "tick_and_flush try_send (format_cycle M W) (task_update_state s t) = Some t1" "task_idle t1"
      "tt_tx t1 = fold (\<lambda>f tx. try_send tx f) fs (tt_tx t)"
      "frames_carry (cf_sys_id f, cf_comp_id f) n (cycle_messages M W f s) fs"
      "tt_formatter t1 = f\<lparr>cf_seq := n + of_nat (length (cycle_messages M W f s))\<rparr>"
      by (rule tick_exact [OF Cons.prems(1), of try_send M W s]) (simp add: Cons.prems(2))
    from Cons.IH [OF t1(2,5)] t1(5) obtain t' fs' where
      "run_telemetry try_send M W t1 ss = Some t'" "tt_tx t' = fold (\<lambda>frame tx. try_send tx frame) fs' (tt_tx t1)"
      "frames_carry (cf_sys_id f, cf_comp_id f) (n + of_nat (length (cycle_messages M W f s)))
         (concat (map (cycle_messages M W f) ss)) fs'" "task_idle t'" by auto
    then show ?case using t1 Cons.prems(2) by (auto intro!: exI [of _ "fs @ fs'"] frames_carry_append)
  qed simp
  from this [OF task_new_idle, of tx f s0 "cf_seq f"] show ?thesis by (auto simp: task_new_def task_idle_def)
qed

text \<open>C28: An estimate is never sent half. Whatever else waits in the queue, the group of an estimate (its two
  status frames, then its numeric frames) is queued whole behind it, or, exactly when the queue cannot hold the places
  it reserves, nothing of it is queued and no sequence number is spent.\<close>

theorem estimate_group_atomic:
  assumes "tq_wf TELEMETRY_MAX_QUEUE TELEMETRY_MAX_FRAME q"
    and "enqueue_estimate_group M W snapshot att pos status ids (seq, q) = (seq', q')"
  shows "(if tq_remaining_capacity TELEMETRY_MAX_QUEUE q < group_size snapshot att pos
          then seq' = seq \<and> q' = q
          else seq' = seq + of_nat (length (group_messages M W snapshot att pos status))
             \<and> (\<exists>fs. tq_contents TELEMETRY_MAX_QUEUE q' = tq_contents TELEMETRY_MAX_QUEUE q @ fs
                  \<and> frames_carry ids seq (group_messages M W snapshot att pos status) fs))
    \<and> tq_wf TELEMETRY_MAX_QUEUE TELEMETRY_MAX_FRAME q'"
proof (cases "queue_room q < group_size snapshot att pos")
  case True
  then show ?thesis using assms group_refused [OF True, of M W status ids seq] by simp
next
  case False
  then have "group_size snapshot att pos \<le> queue_room q" by simp
  then obtain s' r' where "enqueue_estimate_group M W snapshot att pos status ids (seq, q) = (s', r')" "queue_wf r'"
    "s' = seq + of_nat (length (group_messages M W snapshot att pos status))"
    "\<exists>fs. queue_contents r' = queue_contents q @ fs \<and> frames_carry ids seq (group_messages M W snapshot att pos status) fs"
    by (rule group_delivered [OF assms(1)])
  then show ?thesis using assms(2) False by simp
qed

text \<open>No stream exceeds its rate. When the formatter accepts a configuration for a loop of \<open>loop_hz\<close>, then
  in any \<open>loop_hz\<close> consecutive iterations of a counter that does not wrap in between, each of its four streams is due
  at most as often as its configured rate in Hz, though \<open>loop_hz\<close> need not be a multiple of it.\<close>

lemma stream_rates_bounded:
  assumes "formatter_with_ids cfg loop_hz sys_id comp_id = Ok f" "(dv, rate) \<in> set (streams cfg f)"
    and "start + unat loop_hz \<le> 2 ^ 32"
  shows "card {i. start \<le> i \<and> i < start + unat loop_hz \<and> is_multiple_of (of_nat i) dv} \<le> unat rate"
proof -
  note d = streams_divided [OF assms(1,2)]
  have "unat rate < 2 ^ 8" using unsigned_less [where w = rate, where ?'a = nat] by simp
  then have r: "unat (ucast rate :: u32) = unat rate" by (simp add: unsigned_ucast_eq take_bit_nat_eq_self)
  have "(ucast rate :: u32) \<noteq> 0" using d(1) by (simp add: word_unat_eq_iff r)
  then have cover: "unat loop_hz \<le> unat dv * unat rate" using div_ceil_covers [of "ucast rate" loop_hz] d(3) r by simp
  moreover have "0 < unat loop_hz" using d(2) by (simp add: unat_gt_0)
  ultimately have pos: "0 < unat dv" by (cases "unat dv") auto
  then have nz: "dv \<noteq> 0" by auto
  have "is_multiple_of (of_nat i) dv \<longleftrightarrow> unat dv dvd i" if "i < 2 ^ 32" for i
    using that nz by (simp add: is_multiple_of_def word_unat_eq_iff unat_mod unat_of_nat take_bit_nat_eq_self dvd_eq_mod_eq_0)
  then have "{i. start \<le> i \<and> i < start + unat loop_hz \<and> is_multiple_of (of_nat i) dv}
      \<subseteq> {i. start \<le> i \<and> i < start + unat dv * unat rate \<and> unat dv dvd i}" using assms(3) cover by auto
  moreover have "finite {i. start \<le> i \<and> i < start + unat dv * unat rate \<and> unat dv dvd i}"
    by (rule finite_subset [of _ "{..< start + unat dv * unat rate}"]) auto
  ultimately show ?thesis using multiples_in_window [OF pos, of start "unat rate"] card_mono order_trans by blast
qed

text \<open>The standard flags never claim more than the private ones: nothing unless the quality is good, and then only
  what is valid.\<close>

lemma standard_flags_honest:
  assumes "standard_estimator_flags st \<noteq> 0"
  shows "quality st = GoodQuality"
    "standard_estimator_flags st AND 1 \<noteq> 0 \<longrightarrow> flag_contains (valid_flags st) ATTITUDE"
    "standard_estimator_flags st AND 6 \<noteq> 0 \<longrightarrow> flag_contains (valid_flags st) VELOCITY"
    "standard_estimator_flags st AND 8 \<noteq> 0 \<longrightarrow> flag_contains (valid_flags st) POSITION"
  using assms by (auto simp: standard_estimator_flags_def Let_def split: if_splits)

section \<open>Witnesses\<close>

theorem estimate_group_atomic_witness:
  "\<exists>seq' q' fs. enqueue_estimate_group small_angle_libm (\<lambda>_ _. None) telemetry_snapshot_default True True True (1, 1)
       (0, tq_new TELEMETRY_MAX_QUEUE TELEMETRY_MAX_FRAME) = (seq', q')
     \<and> tq_contents TELEMETRY_MAX_QUEUE q' = fs \<and> length fs = 4"
proof -
  let ?q = "tq_new TELEMETRY_MAX_QUEUE TELEMETRY_MAX_FRAME"
  let ?g = "group_messages small_angle_libm (\<lambda>_ _. None) telemetry_snapshot_default True True True"
  obtain seq' q' where e: "enqueue_estimate_group small_angle_libm (\<lambda>_ _. None) telemetry_snapshot_default True True True
      (1, 1) (0, ?q) = (seq', q')" by (rule prod.exhaust)
  have wf: "tq_wf TELEMETRY_MAX_QUEUE TELEMETRY_MAX_FRAME ?q" by (rule tq_new_wf) (simp add: TELEMETRY_MAX_QUEUE_def)
  have "\<not> tq_remaining_capacity TELEMETRY_MAX_QUEUE ?q < group_size telemetry_snapshot_default True True"
    by (simp add: tq_remaining_capacity_def tq_len_def tq_new_def TELEMETRY_MAX_QUEUE_def group_size_def
        telemetry_snapshot_default_def)
  with estimate_group_atomic [OF wf e]
  have g: "\<exists>fs. tq_contents TELEMETRY_MAX_QUEUE q' = tq_contents TELEMETRY_MAX_QUEUE ?q @ fs \<and> frames_carry (1, 1) 0 ?g fs"
    by simp
  have "length ?g = 4"
    by (simp add: group_messages_def status_messages_def numeric_messages_def global_messages_def pressure_messages_def
        telemetry_snapshot_default_def)
  with g e show ?thesis by (auto simp: tq_new_contents dest!: frames_carry_length)
qed

lemma stream_rates_bounded_witness:
  "card {i. 100 \<le> i \<and> i < 100 + unat (400 :: u32) \<and> is_multiple_of (of_nat i) 134} \<le> unat (3 :: u8)"
proof (rule stream_rates_bounded)
  show "formatter_with_ids (telemetry_config_default\<lparr>tc_attitude_hz := 3\<rparr>) 400 1 1
      = Ok \<lparr>cf_heartbeat_div = 400, cf_attitude_div = 134, cf_position_div = 100, cf_estimator_status_div = 100,
            cf_seq = 0, cf_sys_id = 1, cf_comp_id = 1\<rparr>"
    by (simp add: formatter_with_ids_def to_div_def div_ceil_def telemetry_config_default_def)
  show "(134, 3) \<in> set (streams (telemetry_config_default\<lparr>tc_attitude_hz := 3\<rparr>)
      \<lparr>cf_heartbeat_div = 400, cf_attitude_div = 134, cf_position_div = 100, cf_estimator_status_div = 100,
       cf_seq = 0, cf_sys_id = 1, cf_comp_id = 1\<rparr>)"
    by (simp add: streams_def)
qed simp

end
