(* ===== verification/SitlTelemetry.thy ===== *)
theory SitlTelemetry
  imports Sitl TelemetryProps
begin

text \<open>
  What the simulator runner tells the ground, and where its declination comes from (\<open>aviate-runtime/src/sim/geomagnetic.rs\<close>,
  \<open>sim/geodetic.rs\<close>, stages 2, 10 and 11 of \<open>sim/step.rs\<close>). The World Magnetic Model and the clock's date are third-party:
  the argument \<open>wmm\<close> answers the declination in radians at latitude, longitude (degrees), height and Unix time, or refuses.
\<close>

section \<open>The heading reference\<close>

record model_reference =
  mr_reference :: geomagnetic_reference
  mr_latitude_deg :: f64
  mr_longitude_deg :: f64

record geomagnetic_context =
  gx_model :: "model_reference option"
  gx_configured :: "f32 option"
  gx_refusal_reported :: bool

definition geomagnetic_context_default :: geomagnetic_context where
  "geomagnetic_context_default = \<lparr>gx_model = None, gx_configured = None, gx_refusal_reported = False\<rparr>"

type_synonym magnetic_model = "f64 \<Rightarrow> f64 \<Rightarrow> f64 \<Rightarrow> int \<Rightarrow> f64 option"

definition REEVALUATE_DEG :: f64 where "REEVALUATE_DEG = f64_lit 1 100"

definition near_last :: "raw_gnss_reading \<Rightarrow> model_reference \<Rightarrow> bool" where
  "near_last gps m \<longleftrightarrow>
     f64_lt (f64_abs (f64_sub (mr_latitude_deg m) (rg_lat_deg gps))) REEVALUATE_DEG
     \<and> f64_lt (f64_abs (f64_sub (mr_longitude_deg m) (rg_lon_deg gps))) REEVALUATE_DEG"

definition observe_fix :: "magnetic_model \<Rightarrow> int \<Rightarrow> raw_gnss_reading \<Rightarrow> geomagnetic_context \<Rightarrow> geomagnetic_context" where
  "observe_fix wmm now gps g =
     (if rg_fix gps = NoFix \<or> rg_fix gps = TwoD then g
      else if (case gx_model g of None \<Rightarrow> False | Some m \<Rightarrow> near_last gps m) then g
      else case wmm (rg_lat_deg gps) (rg_lon_deg gps) (f64_of_f32 (rg_alt_m gps)) now of
             Some declination_rad \<Rightarrow>
               g\<lparr>gx_model := Some \<lparr>mr_reference = \<lparr>declination = f32_of_f64 declination_rad, geo_source = Model\<rparr>,
                                  mr_latitude_deg = rg_lat_deg gps, mr_longitude_deg = rg_lon_deg gps\<rparr>\<rparr>
           | None \<Rightarrow> (if gx_refusal_reported g then g else g\<lparr>gx_refusal_reported := True\<rparr>))"

definition gx_reference :: "geomagnetic_context \<Rightarrow> geomagnetic_reference option" where
  "gx_reference g =
     (case gx_model g of
        Some m \<Rightarrow> Some (mr_reference m)
      | None \<Rightarrow> map_option (\<lambda>d. \<lparr>declination = d, geo_source = Configured\<rparr>) (gx_configured g))"

definition gx_declination :: "geomagnetic_context \<Rightarrow> f32" where
  "gx_declination g = (case gx_reference g of Some r \<Rightarrow> declination r | None \<Rightarrow> f0)"

definition forget_model :: "geomagnetic_context \<Rightarrow> geomagnetic_context" where
  "forget_model g = g\<lparr>gx_model := None\<rparr>"

definition set_configured_declination :: "f32 \<Rightarrow> geomagnetic_context \<Rightarrow> geomagnetic_context" where
  "set_configured_declination d g = g\<lparr>gx_configured := Some d\<rparr>"

section \<open>The geodetic context\<close>

record geodetic_context =
  gd_origin :: "geodetic_origin option"
  gd_last_fix :: "raw_gnss_reading option"

definition geodetic_context_default :: geodetic_context where
  "geodetic_context_default = \<lparr>gd_origin = None, gd_last_fix = None\<rparr>"

definition set_geodetic_origin :: "geodetic_origin \<Rightarrow> geodetic_context \<Rightarrow> geodetic_context" where
  "set_geodetic_origin origin g = g\<lparr>gd_origin := Some origin\<rparr>"

section \<open>The runner with its telemetry\<close>

record ('r, 'tx) station =
  sn_sitl :: "'r sitl"
  sn_geomagnetic :: geomagnetic_context
  sn_geodetic :: geodetic_context
  sn_telemetry :: "('tx, cycle_formatter, telemetry_snapshot) telemetry_task option"

record station_input =
  sx_sitl :: sitl_input
  sx_gps :: "raw_gnss_reading option"
  sx_unix_seconds :: int
  sx_boot_ms :: nat

text \<open>The world's contexts at the start of a step: dropped with the old world, then told the receiver's fix.\<close>

definition adopt_contexts :: "('r, 'tx) station \<Rightarrow> ('r, 'tx) station" where
  "adopt_contexts n =
     (if si_generation_changed (sn_sitl n)
      then n\<lparr>sn_geomagnetic := forget_model (sn_geomagnetic n), sn_geodetic := (sn_geodetic n)\<lparr>gd_last_fix := None\<rparr>\<rparr>
      else n)"

definition take_gps_data :: "magnetic_model \<Rightarrow> station_input \<Rightarrow> ('r, 'tx) station \<Rightarrow> ('r, 'tx) station" where
  "take_gps_data wmm x n =
     (case sx_gps x of
        None \<Rightarrow> n
      | Some gps \<Rightarrow>
          n\<lparr>sn_geomagnetic := observe_fix wmm (sx_unix_seconds x) gps (sn_geomagnetic n),
            sn_geodetic := (sn_geodetic n)\<lparr>gd_last_fix := Some gps\<rparr>\<rparr>)"

text \<open>\<open>u32::try_from(..).unwrap_or(u32::MAX)\<close>\<close>

definition time_boot_ms :: "nat \<Rightarrow> u32" where
  "time_boot_ms ms = (if ms < 2 ^ 32 then of_nat ms else - 1)"

definition sitl_snapshot ::
  "nat \<Rightarrow> 'r sitl \<Rightarrow> update_result \<Rightarrow> sensor_set \<Rightarrow> geodetic_context \<Rightarrow> telemetry_snapshot" where
  "sitl_snapshot boot_ms s result sensors geodetic =
     (let baro = map_option rd_value (sc_baro (si_cache s))
      in \<lparr>ts_time_ms = time_boot_ms boot_ms, ts_iteration = si_iteration s, ts_status = ur_status result,
          ts_state = ur_estimate result,
          ts_baro_pressure_pa = (case baro of None \<Rightarrow> None | Some b \<Rightarrow> static_pressure (baro_air b)),
          ts_baro_temperature_c =
            (case baro of None \<Rightarrow> f0
             | Some b \<Rightarrow> (case temperature (baro_air b) of None \<Rightarrow> f0 | Some t \<Rightarrow> t)),
          ts_geomagnetic = geomagnetic sensors, ts_geodetic_origin = gd_origin geodetic,
          ts_gnss_fix = gd_last_fix geodetic\<rparr>)"

definition station_step ::
  "('tx \<Rightarrow> byte list \<Rightarrow> 'tx) \<Rightarrow> tangent_plane \<Rightarrow> magnetic_model \<Rightarrow> (f32 \<Rightarrow> f32 \<Rightarrow> f32) \<Rightarrow> (ekf_state, 'r) pipeline
   \<Rightarrow> resolved_config \<Rightarrow> station_input \<Rightarrow> ('r, 'tx) station \<Rightarrow> (('r, 'tx) station \<times> actuator_cmd) option" where
  "station_step try_send W wmm pow p cfg x n =
     (let n = take_gps_data wmm x (adopt_contexts n);
          (s, result, sensors, outcome) =
            sitl_cycle pow p cfg ((sx_sitl x)\<lparr>in_reference := gx_reference (sn_geomagnetic n)\<rparr>) (sn_sitl n);
          n = n\<lparr>sn_sitl := s\<rparr>
      in case sn_telemetry n of
           None \<Rightarrow> Some (n, ur_actuator result)
         | Some t \<Rightarrow>
             (let t = task_update_state (sitl_snapshot (sx_boot_ms x) s result sensors (sn_geodetic n)) t
              in case tick_and_flush try_send (format_cycle (p_libm p) W) t of
                   None \<Rightarrow> None
                 | Some t \<Rightarrow> Some (n\<lparr>sn_telemetry := Some t\<rparr>, ur_actuator result)))"

text \<open>\<open>reset_for_simulator_generation\<close> with the contexts it also resets.\<close>

definition station_reset :: "(ekf_state, 'r) pipeline \<Rightarrow> ('r, 'tx) station \<Rightarrow> ('r, 'tx) station" where
  "station_reset p n =
     n\<lparr>sn_sitl := reset_for_simulator_generation p (sn_sitl n), sn_geomagnetic := forget_model (sn_geomagnetic n),
       sn_geodetic := (sn_geodetic n)\<lparr>gd_last_fix := None\<rparr>\<rparr>"

section \<open>Lemmas\<close>

text \<open>A dropout leaves the declination as it is; a new world falls back to the configured one.\<close>

lemma dropout_keeps_reference: "rg_fix gps = NoFix \<or> rg_fix gps = TwoD \<Longrightarrow> observe_fix wmm now gps g = g"
  by (simp add: observe_fix_def)

lemma refusal_keeps_reference:
  "wmm (rg_lat_deg gps) (rg_lon_deg gps) (f64_of_f32 (rg_alt_m gps)) now = None
   \<Longrightarrow> gx_reference (observe_fix wmm now gps g) = gx_reference g"
  by (auto simp: observe_fix_def gx_reference_def split: option.split)

lemma forgotten_falls_back:
  "gx_reference (forget_model g) = map_option (\<lambda>d. \<lparr>declination = d, geo_source = Configured\<rparr>) (gx_configured g)"
  by (simp add: forget_model_def gx_reference_def)

text \<open>The estimator's seed uses the declination of the context.\<close>

lemma seed_declination: "(case gx_reference g of Some r \<Rightarrow> declination r | None \<Rightarrow> f0) = gx_declination g"
  by (simp add: gx_declination_def)

text \<open>
  A step always returns, telemetry cannot hold it up; the kernel's step is the same with telemetry as without; and what
  is sent is what the snapshot of this very cycle calls for.
\<close>

definition station_idle :: "('r, 'tx) station \<Rightarrow> bool" where
  "station_idle n \<longleftrightarrow> (\<forall>t. sn_telemetry n = Some t \<longrightarrow> task_idle t)"

lemma station_step_exact:
  fixes n :: "('r, 'tx) station" and x wmm
  assumes "station_idle n"
  defines "n0 \<equiv> take_gps_data wmm x (adopt_contexts n)"
  defines "y \<equiv> (sx_sitl x)\<lparr>in_reference := gx_reference (sn_geomagnetic n0)\<rparr>"
  obtains n' where "station_step try_send W wmm pow p cfg x n = Some (n', fst (snd (sitl_step pow p cfg y (sn_sitl n))))"
    "sn_sitl n' = fst (sitl_step pow p cfg y (sn_sitl n))" "station_idle n'"
    "\<forall>t. sn_telemetry n = Some t \<longrightarrow> (\<exists>t' fs result sensors. sn_telemetry n' = Some t'
       \<and> fst (snd (sitl_cycle pow p cfg y (sn_sitl n))) = result
       \<and> fst (snd (snd (sitl_cycle pow p cfg y (sn_sitl n)))) = sensors
       \<and> tt_tx t' = fold (\<lambda>frame tx. try_send tx frame) fs (tt_tx t)
       \<and> frames_carry (cf_sys_id (tt_formatter t), cf_comp_id (tt_formatter t)) (cf_seq (tt_formatter t))
           (cycle_messages (p_libm p) W (tt_formatter t)
             (sitl_snapshot (sx_boot_ms x) (sn_sitl n') result sensors (sn_geodetic n0))) fs)"
proof -
  have same: "sn_sitl n0 = sn_sitl n" "sn_telemetry n0 = sn_telemetry n"
    by (simp_all add: n0_def take_gps_data_def adopt_contexts_def split: option.split)
  obtain s result sensors outcome where c: "sitl_cycle pow p cfg y (sn_sitl n) = (s, result, sensors, outcome)"
    by (rule prod_cases4)
  have st: "fst (sitl_step pow p cfg y (sn_sitl n)) = s" "fst (snd (sitl_step pow p cfg y (sn_sitl n))) = ur_actuator result"
    by (simp_all add: sitl_step_def c)
  note step = station_step_def [of try_send W wmm pow p cfg x n, folded n0_def, unfolded Let_def, folded y_def]
  show thesis
  proof (cases "sn_telemetry n")
    case None
    show thesis
      by (rule that [of "n0\<lparr>sn_sitl := s\<rparr>"]) (simp_all add: step c same None st station_idle_def)
  next
    case (Some t)
    then have idle: "task_idle t" using assms(1) by (simp add: station_idle_def)
    let ?snap = "sitl_snapshot (sx_boot_ms x) s result sensors (sn_geodetic n0)"
    obtain t' fs where t': "tick_and_flush try_send (format_cycle (p_libm p) W) (task_update_state ?snap t) = Some t'"
      "task_idle t'" "tt_tx t' = fold (\<lambda>f tx. try_send tx f) fs (tt_tx t)"
      "frames_carry (cf_sys_id (tt_formatter t), cf_comp_id (tt_formatter t)) (cf_seq (tt_formatter t))
         (cycle_messages (p_libm p) W (tt_formatter t) ?snap) fs"
      using tick_exact [OF idle, of try_send "p_libm p" W ?snap] by metis
    show thesis
    proof (rule that [of "n0\<lparr>sn_sitl := s, sn_telemetry := Some t'\<rparr>"])
      show "station_step try_send W wmm pow p cfg x n = Some (n0\<lparr>sn_sitl := s, sn_telemetry := Some t'\<rparr>,
          fst (snd (sitl_step pow p cfg y (sn_sitl n))))"
        by (simp add: step c same Some st t')
    qed (use t' Some c in \<open>auto simp: st station_idle_def\<close>)
  qed
qed

end
