(* ===== verification/HilWire.thy ===== *)
theory HilWire
  imports MavlinkWire
begin

text \<open>
  The MAVLink dialect between the flight controller and a simulator in the loop (\<open>aviate-hal/xil/backends/mavlink-hil\<close>:
  \<open>messages.rs\<close>, \<open>wire.rs\<close>): five messages with their payload bytes, the frame parser for both protocol versions and
  the serializer. It is a codec of its own, not that of the command link.
\<close>

section \<open>Messages\<close>

definition HEARTBEAT_ID :: u8 where "HEARTBEAT_ID = 0"

definition HIL_SENSOR_ID :: u8 where "HIL_SENSOR_ID = 107"

definition HIL_GPS_ID :: u8 where "HIL_GPS_ID = 113"

definition HIL_STATE_QUATERNION_ID :: u8 where "HIL_STATE_QUATERNION_ID = 115"

definition HIL_ACTUATOR_CONTROLS_ID :: u8 where "HIL_ACTUATOR_CONTROLS_ID = 93"

lemmas hil_ids = HEARTBEAT_ID_def HIL_SENSOR_ID_def HIL_GPS_ID_def HIL_STATE_QUATERNION_ID_def HIL_ACTUATOR_CONTROLS_ID_def

record hil_heartbeat =
  hh_mav_type :: u8
  hh_autopilot :: u8
  hh_base_mode :: u8
  hh_custom_mode :: u32
  hh_system_status :: u8
  hh_mavlink_version :: u8

definition new_quadrotor_hil :: "bool \<Rightarrow> hil_heartbeat" where
  "new_quadrotor_hil armed =
     \<lparr>hh_mav_type = 2, hh_autopilot = 0, hh_base_mode = 0x20 OR (if armed then 0x80 else 0), hh_custom_mode = 0,
      hh_system_status = (if armed then 4 else 3), hh_mavlink_version = 3\<rparr>"

definition heartbeat_to_bytes :: "hil_heartbeat \<Rightarrow> byte list" where
  "heartbeat_to_bytes m =
     le_bytes (hh_custom_mode m) @ [hh_mav_type m] @ [hh_autopilot m] @ [hh_base_mode m] @ [hh_system_status m]
     @ [hh_mavlink_version m]"

definition heartbeat_from_bytes :: "byte list \<Rightarrow> hil_heartbeat option" where
  "heartbeat_from_bytes data =
     (if length data < 9 then None
      else Some \<lparr>hh_mav_type = data ! 4, hh_autopilot = data ! 5, hh_base_mode = data ! 6,
                 hh_custom_mode = read_u32_le data 0, hh_system_status = data ! 7, hh_mavlink_version = data ! 8\<rparr>)"

record hil_sensor =
  hs_time_usec :: u64
  hs_xacc :: f32
  hs_yacc :: f32
  hs_zacc :: f32
  hs_xgyro :: f32
  hs_ygyro :: f32
  hs_zgyro :: f32
  hs_xmag :: f32
  hs_ymag :: f32
  hs_zmag :: f32
  hs_abs_pressure :: f32
  hs_diff_pressure :: f32
  hs_pressure_alt :: f32
  hs_temperature :: f32
  hs_fields_updated :: u32
  hs_id :: u8

definition sensor_to_bytes :: "hil_sensor \<Rightarrow> byte list" where
  "sensor_to_bytes m =
     le_bytes (hs_time_usec m) @ le_bytes (hs_xacc m) @ le_bytes (hs_yacc m) @ le_bytes (hs_zacc m)
     @ le_bytes (hs_xgyro m) @ le_bytes (hs_ygyro m) @ le_bytes (hs_zgyro m) @ le_bytes (hs_xmag m)
     @ le_bytes (hs_ymag m) @ le_bytes (hs_zmag m) @ le_bytes (hs_abs_pressure m) @ le_bytes (hs_diff_pressure m)
     @ le_bytes (hs_pressure_alt m) @ le_bytes (hs_temperature m) @ le_bytes (hs_fields_updated m) @ [hs_id m]"

definition sensor_from_bytes :: "byte list \<Rightarrow> hil_sensor option" where
  "sensor_from_bytes data =
     (if length data < 65 then None
      else Some \<lparr>hs_time_usec = read_u64_le data 0, hs_xacc = read_f32_le data 8, hs_yacc = read_f32_le data 12,
                 hs_zacc = read_f32_le data 16, hs_xgyro = read_f32_le data 20, hs_ygyro = read_f32_le data 24,
                 hs_zgyro = read_f32_le data 28, hs_xmag = read_f32_le data 32, hs_ymag = read_f32_le data 36,
                 hs_zmag = read_f32_le data 40, hs_abs_pressure = read_f32_le data 44,
                 hs_diff_pressure = read_f32_le data 48, hs_pressure_alt = read_f32_le data 52,
                 hs_temperature = read_f32_le data 56, hs_fields_updated = read_u32_le data 60, hs_id = data ! 64\<rparr>)"

record hil_gps =
  hg_time_usec :: u64
  hg_lat :: i32
  hg_lon :: i32
  hg_alt :: i32
  hg_eph :: u16
  hg_epv :: u16
  hg_vel :: u16
  hg_vn :: i16
  hg_ve :: i16
  hg_vd :: i16
  hg_cog :: u16
  hg_fix_type :: u8
  hg_satellites_visible :: u8
  hg_id :: u8
  hg_yaw :: u16

definition gps_to_bytes :: "hil_gps \<Rightarrow> byte list" where
  "gps_to_bytes m =
     le_bytes (hg_time_usec m) @ le_bytes (hg_lat m) @ le_bytes (hg_lon m) @ le_bytes (hg_alt m) @ le_bytes (hg_eph m)
     @ le_bytes (hg_epv m) @ le_bytes (hg_vel m) @ le_bytes (hg_vn m) @ le_bytes (hg_ve m) @ le_bytes (hg_vd m)
     @ le_bytes (hg_cog m) @ [hg_fix_type m] @ [hg_satellites_visible m] @ [hg_id m] @ le_bytes (hg_yaw m)"

definition gps_from_bytes :: "byte list \<Rightarrow> hil_gps option" where
  "gps_from_bytes data =
     (if length data < 36 then None
      else let msg = \<lparr>hg_time_usec = read_u64_le data 0, hg_lat = read_i32_le data 8, hg_lon = read_i32_le data 12,
                      hg_alt = read_i32_le data 16, hg_eph = read_u16_le data 20, hg_epv = read_u16_le data 22,
                      hg_vel = read_u16_le data 24, hg_vn = read_i16_le data 26, hg_ve = read_i16_le data 28,
                      hg_vd = read_i16_le data 30, hg_cog = read_u16_le data 32, hg_fix_type = data ! 34,
                      hg_satellites_visible = data ! 35, hg_id = 0, hg_yaw = 0\<rparr>
           in Some (if 39 \<le> length data then msg\<lparr>hg_id := data ! 36, hg_yaw := read_u16_le data 37\<rparr> else msg))"

record hil_state_quaternion =
  hq_time_usec :: u64
  hq_attitude_quaternion :: "f32 \<times> f32 \<times> f32 \<times> f32"
  hq_rollspeed :: f32
  hq_pitchspeed :: f32
  hq_yawspeed :: f32
  hq_lat :: i32
  hq_lon :: i32
  hq_alt :: i32
  hq_vx :: i16
  hq_vy :: i16
  hq_vz :: i16
  hq_ind_airspeed :: u16
  hq_true_airspeed :: u16
  hq_xacc :: i16
  hq_yacc :: i16
  hq_zacc :: i16

definition state_quaternion_to_bytes :: "hil_state_quaternion \<Rightarrow> byte list" where
  "state_quaternion_to_bytes m =
     (case hq_attitude_quaternion m of (q0, q1, q2, q3) \<Rightarrow>
        le_bytes (hq_time_usec m) @ le_bytes q0 @ le_bytes q1 @ le_bytes q2 @ le_bytes q3 @ le_bytes (hq_rollspeed m)
        @ le_bytes (hq_pitchspeed m) @ le_bytes (hq_yawspeed m) @ le_bytes (hq_lat m) @ le_bytes (hq_lon m)
        @ le_bytes (hq_alt m) @ le_bytes (hq_vx m) @ le_bytes (hq_vy m) @ le_bytes (hq_vz m)
        @ le_bytes (hq_ind_airspeed m) @ le_bytes (hq_true_airspeed m) @ le_bytes (hq_xacc m) @ le_bytes (hq_yacc m)
        @ le_bytes (hq_zacc m))"

definition state_quaternion_from_bytes :: "byte list \<Rightarrow> hil_state_quaternion option" where
  "state_quaternion_from_bytes data =
     (if length data < 64 then None
      else Some \<lparr>hq_time_usec = read_u64_le data 0,
                 hq_attitude_quaternion =
                   (read_f32_le data 8, read_f32_le data 12, read_f32_le data 16, read_f32_le data 20),
                 hq_rollspeed = read_f32_le data 24, hq_pitchspeed = read_f32_le data 28, hq_yawspeed = read_f32_le data 32,
                 hq_lat = read_i32_le data 36, hq_lon = read_i32_le data 40, hq_alt = read_i32_le data 44,
                 hq_vx = read_i16_le data 48, hq_vy = read_i16_le data 50, hq_vz = read_i16_le data 52,
                 hq_ind_airspeed = read_u16_le data 54, hq_true_airspeed = read_u16_le data 56,
                 hq_xacc = read_i16_le data 58, hq_yacc = read_i16_le data 60, hq_zacc = read_i16_le data 62\<rparr>)"

text \<open>The array of 16 controls is a list of that length; the flags precede it on the wire.\<close>

record hil_actuator_controls =
  hc_time_usec :: u64
  hc_controls :: "f32 list"
  hc_flags :: u64
  hc_mode :: u8

definition actuator_controls_default :: hil_actuator_controls where
  "actuator_controls_default = \<lparr>hc_time_usec = 0, hc_controls = replicate 16 0, hc_flags = 0, hc_mode = 0\<rparr>"

definition actuator_controls_to_bytes :: "hil_actuator_controls \<Rightarrow> byte list" where
  "actuator_controls_to_bytes m =
     le_bytes (hc_time_usec m) @ le_bytes (hc_flags m) @ concat (map le_bytes (hc_controls m)) @ [hc_mode m]"

definition actuator_controls_from_bytes :: "byte list \<Rightarrow> hil_actuator_controls option" where
  "actuator_controls_from_bytes data =
     (if length data < 81 then None
      else Some \<lparr>hc_time_usec = read_u64_le data 0, hc_controls = map (\<lambda>i. read_f32_le data (16 + i * 4)) [0..<16],
                 hc_flags = read_u64_le data 8, hc_mode = data ! 80\<rparr>)"

definition controls_is_armed :: "hil_actuator_controls \<Rightarrow> bool" where
  "controls_is_armed m \<longleftrightarrow> hc_mode m AND 0x80 \<noteq> 0"

datatype hil_message =
  HilHeartbeat hil_heartbeat
| HilSensor hil_sensor
| HilGps hil_gps
| HilStateQuaternion hil_state_quaternion
| HilActuatorControls hil_actuator_controls

fun hil_msg_id :: "hil_message \<Rightarrow> u8" where
  "hil_msg_id (HilHeartbeat m) = HEARTBEAT_ID"
| "hil_msg_id (HilSensor m) = HIL_SENSOR_ID"
| "hil_msg_id (HilGps m) = HIL_GPS_ID"
| "hil_msg_id (HilStateQuaternion m) = HIL_STATE_QUATERNION_ID"
| "hil_msg_id (HilActuatorControls m) = HIL_ACTUATOR_CONTROLS_ID"

section \<open>Frames\<close>

definition MAVLINK_STX_V1 :: byte where "MAVLINK_STX_V1 = 0xFE"

definition HEADER_SIZE :: nat where "HEADER_SIZE = 10"

definition HEADER_SIZE_V1 :: nat where "HEADER_SIZE_V1 = 6"

definition CRC_SIZE :: nat where "CRC_SIZE = 2"

definition MAX_FRAME_SIZE :: nat where "MAX_FRAME_SIZE = HEADER_SIZE + 255 + CRC_SIZE"

definition crc_extra :: "u8 \<Rightarrow> byte option" where
  "crc_extra msg_id =
     (if msg_id = HEARTBEAT_ID then Some 50
      else if msg_id = HIL_SENSOR_ID then Some 108
      else if msg_id = HIL_GPS_ID then Some 124
      else if msg_id = HIL_STATE_QUATERNION_ID then Some 4
      else if msg_id = HIL_ACTUATOR_CONTROLS_ID then Some 47
      else None)"

text \<open>The CRC in 16-bit arithmetic with explicit masks, as this crate writes it.\<close>

definition hil_crc_accumulate :: "byte \<Rightarrow> u16 \<Rightarrow> u16" where
  "hil_crc_accumulate b crc =
     (let tmp = (ucast b XOR crc) AND 0xFF;
          tmp = tmp XOR (push_bit 4 tmp AND 0xFF)
      in drop_bit 8 crc XOR push_bit 8 tmp XOR push_bit 3 tmp XOR drop_bit 4 tmp)"

definition crc_calculate :: "byte list \<Rightarrow> byte \<Rightarrow> u16" where
  "crc_calculate data extra = hil_crc_accumulate extra (fold hil_crc_accumulate data 0xFFFF)"

datatype hil_parse_error =
  Incomplete
| HilInvalidStartByte
| HilCrcMismatch
| UnknownMessage u8 nat
| HilInvalidPayload

record hil_frame =
  hf_seq :: u8
  hf_sys_id :: u8
  hf_comp_id :: u8
  hf_message :: hil_message

definition zero_extended :: "nat \<Rightarrow> byte list \<Rightarrow> byte list" where
  "zero_extended n payload = take n payload @ replicate (n - length payload) 0"

definition ok_payload :: "('a \<Rightarrow> hil_message) \<Rightarrow> 'a option \<Rightarrow> (hil_message, hil_parse_error) result" where
  "ok_payload C m = (case m of None \<Rightarrow> Err HilInvalidPayload | Some m \<Rightarrow> Ok (C m))"

definition parse_message :: "u8 \<Rightarrow> byte list \<Rightarrow> (hil_message, hil_parse_error) result" where
  "parse_message msg_id payload =
     (if msg_id = HEARTBEAT_ID then ok_payload HilHeartbeat (heartbeat_from_bytes (zero_extended 9 payload))
      else if msg_id = HIL_SENSOR_ID then ok_payload HilSensor (sensor_from_bytes (zero_extended 65 payload))
      else if msg_id = HIL_GPS_ID then ok_payload HilGps (gps_from_bytes payload)
      else if msg_id = HIL_STATE_QUATERNION_ID
        then ok_payload HilStateQuaternion (state_quaternion_from_bytes (zero_extended 64 payload))
      else if msg_id = HIL_ACTUATOR_CONTROLS_ID
        then ok_payload HilActuatorControls (actuator_controls_from_bytes (zero_extended 81 payload))
      else Err HilInvalidPayload)"

text \<open>The two versions of a frame differ in the header; the rest of the parser is the same text in both.\<close>

definition parse_body ::
  "nat \<Rightarrow> u8 \<Rightarrow> u8 \<Rightarrow> u8 \<Rightarrow> u8 \<Rightarrow> byte list \<Rightarrow> nat \<Rightarrow> (hil_frame \<times> nat, hil_parse_error) result" where
  "parse_body header_size seq sys_id comp_id msg_id data start_pos =
     (let len = unat (data ! 1);
          frame_len = header_size + len + CRC_SIZE
      in if length data < frame_len then Err Incomplete
         else case crc_extra msg_id of
                None \<Rightarrow> Err (UnknownMessage msg_id (start_pos + frame_len))
              | Some extra \<Rightarrow>
                  (let crc_data = drop 1 (take (header_size + len) data);
                       expected_crc = crc_calculate crc_data extra;
                       received_crc = read_u16_le data (header_size + len)
                   in if expected_crc \<noteq> received_crc then Err HilCrcMismatch
                      else case parse_message msg_id (take len (drop header_size data)) of
                             Err e \<Rightarrow> Err e
                           | Ok message \<Rightarrow>
                               Ok (\<lparr>hf_seq = seq, hf_sys_id = sys_id, hf_comp_id = comp_id, hf_message = message\<rparr>,
                                   start_pos + frame_len)))"

definition parse_frame_v2 :: "byte list \<Rightarrow> nat \<Rightarrow> (hil_frame \<times> nat, hil_parse_error) result" where
  "parse_frame_v2 data start_pos =
     (if length data < HEADER_SIZE then Err Incomplete
      else parse_body HEADER_SIZE (data ! 4) (data ! 5) (data ! 6) (data ! 7) data start_pos)"

definition parse_frame_v1 :: "byte list \<Rightarrow> nat \<Rightarrow> (hil_frame \<times> nat, hil_parse_error) result" where
  "parse_frame_v1 data start_pos =
     (if length data < HEADER_SIZE_V1 then Err Incomplete
      else parse_body HEADER_SIZE_V1 (data ! 2) (data ! 3) (data ! 4) (data ! 5) data start_pos)"

definition parse_frame :: "byte list \<Rightarrow> (hil_frame \<times> nat, hil_parse_error) result" where
  "parse_frame data =
     (case find_idx (\<lambda>b. b = MAVLINK_STX_V2 \<or> b = MAVLINK_STX_V1) data of
        None \<Rightarrow> Err Incomplete
      | Some start_pos \<Rightarrow>
          (let data = drop start_pos data
           in if data ! 0 = MAVLINK_STX_V2 then parse_frame_v2 data start_pos else parse_frame_v1 data start_pos))"

fun hil_payload :: "hil_message \<Rightarrow> u8 \<times> byte list" where
  "hil_payload (HilHeartbeat m) = (HEARTBEAT_ID, heartbeat_to_bytes m)"
| "hil_payload (HilSensor m) = (HIL_SENSOR_ID, sensor_to_bytes m)"
| "hil_payload (HilGps m) = (HIL_GPS_ID, gps_to_bytes m)"
| "hil_payload (HilStateQuaternion m) = (HIL_STATE_QUATERNION_ID, state_quaternion_to_bytes m)"
| "hil_payload (HilActuatorControls m) = (HIL_ACTUATOR_CONTROLS_ID, actuator_controls_to_bytes m)"

definition serialize_frame :: "hil_message \<Rightarrow> u8 \<Rightarrow> u8 \<Rightarrow> u8 \<Rightarrow> byte list \<Rightarrow> (byte list \<times> nat) option" where
  "serialize_frame msg seq sys_id comp_id buf =
     (let (msg_id, payload_bytes) = hil_payload msg;
          payload_len = length payload_bytes;
          frame_len = HEADER_SIZE + payload_len + CRC_SIZE
      in if length buf < frame_len then None
         else let buf = put buf 0 [MAVLINK_STX_V2, of_nat payload_len, 0, 0, seq, sys_id, comp_id, msg_id, 0, 0];
                  buf = put buf HEADER_SIZE payload_bytes
              in case crc_extra msg_id of
                   None \<Rightarrow> None
                 | Some extra \<Rightarrow>
                     (let crc = crc_calculate (drop 1 (take (HEADER_SIZE + payload_len) buf)) extra
                      in Some (put buf (HEADER_SIZE + payload_len) (le_bytes crc), frame_len)))"

section \<open>The checksum is the standard one\<close>

lemma hil_crc_same: "hil_crc_accumulate = crc_accumulate"
proof (intro ext)
  fix b :: byte and crc :: u16
  have m: "(0xFF :: u16) = mask 8" by (simp add: mask_eq_exp_minus_1)
  have "(ucast b XOR crc) AND 0xFF = (ucast (b XOR ucast crc) :: u16)"
    unfolding m take_bit_eq_mask [symmetric] by (rule bit_eqI) (auto simp: bit_simps dest: bit_imp_le_length)
  then show "hil_crc_accumulate b crc = crc_accumulate b crc" by (simp add: hil_crc_accumulate_def crc_accumulate_def Let_def)
qed

section \<open>Payloads round-trip\<close>

lemmas hil_read = read_words slice_simps nth_blocks

lemma heartbeat_bytes:
  "length (heartbeat_to_bytes m) = 9" "heartbeat_from_bytes (heartbeat_to_bytes m) = Some m"
  by (cases m; simp add: heartbeat_to_bytes_def heartbeat_from_bytes_def hil_read)+

lemma sensor_bytes: "length (sensor_to_bytes m) = 65" "sensor_from_bytes (sensor_to_bytes m) = Some m"
  by (cases m; simp add: sensor_to_bytes_def sensor_from_bytes_def hil_read)+

lemma gps_bytes: "length (gps_to_bytes m) = 39" "gps_from_bytes (gps_to_bytes m) = Some m"
  by (cases m; simp add: gps_to_bytes_def gps_from_bytes_def hil_read)+

lemma state_quaternion_bytes:
  "length (state_quaternion_to_bytes m) = 64" "state_quaternion_from_bytes (state_quaternion_to_bytes m) = Some m"
  by (cases m; simp add: state_quaternion_to_bytes_def state_quaternion_from_bytes_def hil_read split: prod.split)+

lemma words_read:
  "i < length xs \<Longrightarrow> slice 4 (i * 4) (concat (map le_bytes (xs :: u32 list)) @ ys) = le_bytes (xs ! i)"
proof (induction xs arbitrary: i)
  case (Cons x xs)
  show ?case
  proof (cases i)
    case (Suc j)
    then show ?thesis using Cons by (simp add: slice_simps)
  qed (simp add: slice_simps)
qed simp

lemma words_length: "length (concat (map le_bytes (xs :: u32 list))) = 4 * length xs"
  by (induction xs) simp_all

lemma actuator_controls_bytes:
  assumes "length (hc_controls m) = 16"
  shows "length (actuator_controls_to_bytes m) = 81" "actuator_controls_from_bytes (actuator_controls_to_bytes m) = Some m"
proof -
  let ?c = "concat (map le_bytes (hc_controls m))"
  have c: "length ?c = 64" using assms by (simp add: words_length)
  then show l: "length (actuator_controls_to_bytes m) = 81" by (simp add: actuator_controls_to_bytes_def)
  have "read_f32_le (actuator_controls_to_bytes m) (16 + i * 4) = hc_controls m ! i" if "i < 16" for i
  proof -
    have "16 + i * 4 + 4 \<le> length (actuator_controls_to_bytes m)" using l that by simp
    then have "read_f32_le (actuator_controls_to_bytes m) (16 + i * 4)
        = u32_of (slice 4 (16 + i * 4) (actuator_controls_to_bytes m))" by (simp add: read_words)
    also have "slice 4 (16 + i * 4) (actuator_controls_to_bytes m) = le_bytes (hc_controls m ! i)"
      using words_read [of i "hc_controls m" "[hc_mode m]"] that assms
      by (simp add: actuator_controls_to_bytes_def slice_simps)
    finally show ?thesis by simp
  qed
  then have "map (\<lambda>i. read_f32_le (actuator_controls_to_bytes m) (16 + i * 4)) [0..<16] = hc_controls m"
    using assms by (intro nth_equalityI) simp_all
  moreover have "read_u64_le (actuator_controls_to_bytes m) 0 = hc_time_usec m"
    "read_u64_le (actuator_controls_to_bytes m) 8 = hc_flags m" "actuator_controls_to_bytes m ! 80 = hc_mode m"
    using l c by (simp_all add: read_words) (simp_all add: actuator_controls_to_bytes_def slice_simps nth_append)
  ultimately show "actuator_controls_from_bytes (actuator_controls_to_bytes m) = Some m"
    using l by (simp add: actuator_controls_from_bytes_def)
qed

end
