(* ===== verification/HilLink.thy ===== *)
theory HilLink
  imports HilWire F64
begin

text \<open>
  The links to a simulator (\<open>mavlink-hil/src\<close>: \<open>transport.rs\<close>, \<open>transport_tcp.rs\<close>, \<open>link.rs\<close>, \<open>sensor_fields.rs\<close>,
  \<open>geodetic.rs\<close>, \<open>backend.rs\<close>): frames are reassembled from chunks, samples are kept or queued, actuator commands go
  back, and a reset is requested and acknowledged on the same stream. What the sockets answer and the clock are inputs.
  The first \<open>rx_len\<close> bytes of a receive buffer are a list; the bytes behind them are never read.
\<close>

section \<open>Reassembly\<close>

definition RX_BUF_LEN :: nat where "RX_BUF_LEN = 2048"

lemma parse_consumes:
  "parse_frame data = Ok (f, n) \<Longrightarrow> 0 < n" "parse_frame data = Err (UnknownMessage i n) \<Longrightarrow> 0 < n"
  by (auto simp: parse_frame_def parse_frame_v1_def parse_frame_v2_def parse_body_def Let_def CRC_SIZE_def ok_payload_def
      parse_message_def split: option.splits if_splits sum.splits)

text \<open>The loop over the buffered bytes: what is left over is kept for the next chunk.\<close>

function scan_frames ::
  "(hil_frame \<Rightarrow> 's \<Rightarrow> 's) \<Rightarrow> ('s \<Rightarrow> 's) \<Rightarrow> byte list \<Rightarrow> 's \<Rightarrow> 's \<times> byte list" where
  "scan_frames on_frame on_crc data s =
     (if data = [] then (s, [])
      else case parse_frame data of
             Ok (frame, consumed) \<Rightarrow> scan_frames on_frame on_crc (drop consumed data) (on_frame frame s)
           | Err Incomplete \<Rightarrow> (s, data)
           | Err HilCrcMismatch \<Rightarrow> scan_frames on_frame on_crc (drop 1 data) (on_crc s)
           | Err (UnknownMessage _ consumed) \<Rightarrow> scan_frames on_frame on_crc (drop consumed data) s
           | Err HilInvalidStartByte \<Rightarrow> scan_frames on_frame on_crc (drop 1 data) s
           | Err HilInvalidPayload \<Rightarrow> scan_frames on_frame on_crc (drop 1 data) s)"
  by pat_completeness auto
termination by (relation "measure (\<lambda>(_, _, data, _). length data)") (auto dest: parse_consumes)

declare scan_frames.simps [simp del]

section \<open>UDP\<close>

record hil_udp =
  hu_sys_id :: u8
  hu_comp_id :: u8
  hu_seq :: u8
  hu_rx :: "byte list"
  hu_rx_count :: u64
  hu_tx_count :: u64
  hu_crc_errors :: u64
  hu_last_sensor :: "hil_sensor option"
  hu_last_gps :: "hil_gps option"
  hu_last_state :: "hil_state_quaternion option"

definition hil_udp_new :: "u8 \<Rightarrow> u8 \<Rightarrow> hil_udp" where
  "hil_udp_new sys_id comp_id =
     \<lparr>hu_sys_id = sys_id, hu_comp_id = comp_id, hu_seq = 0, hu_rx = [], hu_rx_count = 0, hu_tx_count = 0,
      hu_crc_errors = 0, hu_last_sensor = None, hu_last_gps = None, hu_last_state = None\<rparr>"

definition udp_handle_frame :: "hil_frame \<Rightarrow> hil_udp \<Rightarrow> hil_udp" where
  "udp_handle_frame frame t =
     (case hf_message frame of
        HilHeartbeat _ \<Rightarrow> t
      | HilSensor m \<Rightarrow> t\<lparr>hu_last_sensor := Some m\<rparr>
      | HilGps m \<Rightarrow> t\<lparr>hu_last_gps := Some m\<rparr>
      | HilStateQuaternion m \<Rightarrow> t\<lparr>hu_last_state := Some m\<rparr>
      | HilActuatorControls _ \<Rightarrow> t)"

definition udp_on_frame :: "hil_frame \<Rightarrow> hil_udp \<Rightarrow> hil_udp" where
  "udp_on_frame frame t = (udp_handle_frame frame t)\<lparr>hu_rx_count := hu_rx_count t + 1\<rparr>"

definition udp_on_crc :: "hil_udp \<Rightarrow> hil_udp" where
  "udp_on_crc t = t\<lparr>hu_crc_errors := hu_crc_errors t + 1\<rparr>"

definition udp_process_data :: "byte list \<Rightarrow> hil_udp \<Rightarrow> hil_udp" where
  "udp_process_data data t =
     (let space = RX_BUF_LEN - length (hu_rx t);
          copy_len = min (length data) space;
          (t, rest) = scan_frames udp_on_frame udp_on_crc (hu_rx t @ take copy_len data) t
      in t\<lparr>hu_rx := rest\<rparr>)"

text \<open>\<open>poll\<close>: every datagram that waits, each cut at the size of the receive buffer.\<close>

definition udp_poll :: "byte list list \<Rightarrow> hil_udp \<Rightarrow> hil_udp" where
  "udp_poll datagrams t = fold (\<lambda>d. udp_process_data (take MAX_FRAME_SIZE d)) datagrams t"

definition udp_take_sensor :: "hil_udp \<Rightarrow> hil_udp \<times> hil_sensor option" where
  "udp_take_sensor t = (t\<lparr>hu_last_sensor := None\<rparr>, hu_last_sensor t)"

definition udp_take_gps :: "hil_udp \<Rightarrow> hil_udp \<times> hil_gps option" where
  "udp_take_gps t = (t\<lparr>hu_last_gps := None\<rparr>, hu_last_gps t)"

definition udp_take_state :: "hil_udp \<Rightarrow> hil_udp \<times> hil_state_quaternion option" where
  "udp_take_state t = (t\<lparr>hu_last_state := None\<rparr>, hu_last_state t)"

definition udp_clear_generation_state :: "byte list list \<Rightarrow> hil_udp \<Rightarrow> hil_udp" where
  "udp_clear_generation_state datagrams t =
     (udp_poll datagrams t)\<lparr>hu_rx := [], hu_last_sensor := None, hu_last_gps := None, hu_last_state := None\<rparr>"

datatype io_error = IoWouldBlock | IoNotConnected | IoWriteZero | IoInvalidData | IoAlreadyExists | IoUnsupported | IoOther

text \<open>The bytes handed to the socket and whether it took them.\<close>

definition udp_send_message ::
  "(unit, io_error) result \<Rightarrow> hil_message \<Rightarrow> hil_udp \<Rightarrow> hil_udp \<times> byte list option \<times> (unit, io_error) result" where
  "udp_send_message answer msg t =
     (case serialize_frame msg (hu_seq t) (hu_sys_id t) (hu_comp_id t) (replicate MAX_FRAME_SIZE 0) of
        None \<Rightarrow> (t, None, Ok ())
      | Some (buf, len) \<Rightarrow>
          (let t = t\<lparr>hu_seq := hu_seq t + 1\<rparr>
           in case answer of
                Err e \<Rightarrow> (t, Some (take len buf), Err e)
              | Ok _ \<Rightarrow> (t\<lparr>hu_tx_count := hu_tx_count t + 1\<rparr>, Some (take len buf), Ok ())))"

section \<open>TCP\<close>

definition SENSOR_QUEUE_DEPTH :: nat where "SENSOR_QUEUE_DEPTH = 16"

definition RECONNECT_INTERVAL_US :: nat where "RECONNECT_INTERVAL_US = 500000"

record hil_tcp =
  hp_connected :: bool
  hp_sys_id :: u8
  hp_comp_id :: u8
  hp_next_attempt_us :: nat
  hp_seq :: u8
  hp_rx :: "byte list"
  hp_rx_count :: u64
  hp_tx_count :: u64
  hp_tx_failures :: u64
  hp_crc_errors :: u64
  hp_connects :: u64
  hp_sensors :: "hil_sensor list"
  hp_dropped_sensors :: u64
  hp_gps :: "hil_gps list"
  hp_states :: "hil_state_quaternion list"

text \<open>\<open>try_connect\<close>: the clock, and whether connecting and setting up the socket succeeded.\<close>

definition tcp_try_connect :: "nat \<Rightarrow> bool \<Rightarrow> hil_tcp \<Rightarrow> hil_tcp" where
  "tcp_try_connect now_us answer t =
     (if hp_connected t \<or> now_us < hp_next_attempt_us t then t
      else let t = t\<lparr>hp_next_attempt_us := now_us + RECONNECT_INTERVAL_US\<rparr>
           in if \<not> answer then t
              else t\<lparr>hp_rx := [], hp_sensors := [], hp_gps := [], hp_states := [], hp_connected := True,
                     hp_connects := hp_connects t + 1\<rparr>)"

definition hil_tcp_new :: "u8 \<Rightarrow> u8 \<Rightarrow> nat \<Rightarrow> bool \<Rightarrow> hil_tcp" where
  "hil_tcp_new sys_id comp_id now_us answer =
     tcp_try_connect now_us answer
       \<lparr>hp_connected = False, hp_sys_id = sys_id, hp_comp_id = comp_id, hp_next_attempt_us = now_us, hp_seq = 0,
        hp_rx = [], hp_rx_count = 0, hp_tx_count = 0, hp_tx_failures = 0, hp_crc_errors = 0, hp_connects = 0,
        hp_sensors = [], hp_dropped_sensors = 0, hp_gps = [], hp_states = []\<rparr>"

definition tcp_disconnect :: "hil_tcp \<Rightarrow> hil_tcp" where
  "tcp_disconnect t = t\<lparr>hp_connected := False, hp_rx := []\<rparr>"

definition tcp_reconnect :: "nat \<Rightarrow> hil_tcp \<Rightarrow> hil_tcp" where
  "tcp_reconnect now_us t = (tcp_disconnect t)\<lparr>hp_next_attempt_us := now_us\<rparr>"

definition push_bounded :: "'a \<Rightarrow> 'a list \<Rightarrow> 'a list" where
  "push_bounded x queue = (if length queue = SENSOR_QUEUE_DEPTH then tl queue else queue) @ [x]"

definition tcp_handle_frame :: "hil_frame \<Rightarrow> hil_tcp \<Rightarrow> hil_tcp" where
  "tcp_handle_frame frame t =
     (case hf_message frame of
        HilSensor m \<Rightarrow>
          (let t = (if length (hp_sensors t) = SENSOR_QUEUE_DEPTH
                    then t\<lparr>hp_sensors := tl (hp_sensors t), hp_dropped_sensors := hp_dropped_sensors t + 1\<rparr> else t)
           in t\<lparr>hp_sensors := hp_sensors t @ [m]\<rparr>)
      | HilGps m \<Rightarrow> t\<lparr>hp_gps := push_bounded m (hp_gps t)\<rparr>
      | HilStateQuaternion m \<Rightarrow> t\<lparr>hp_states := push_bounded m (hp_states t)\<rparr>
      | HilHeartbeat _ \<Rightarrow> t
      | HilActuatorControls _ \<Rightarrow> t)"

definition tcp_on_frame :: "hil_frame \<Rightarrow> hil_tcp \<Rightarrow> hil_tcp" where
  "tcp_on_frame frame t = (tcp_handle_frame frame t)\<lparr>hp_rx_count := hp_rx_count t + 1\<rparr>"

definition tcp_on_crc :: "hil_tcp \<Rightarrow> hil_tcp" where
  "tcp_on_crc t = t\<lparr>hp_crc_errors := hp_crc_errors t + 1\<rparr>"

definition tcp_process_data :: "byte list \<Rightarrow> hil_tcp \<Rightarrow> hil_tcp" where
  "tcp_process_data data t =
     (let space = RX_BUF_LEN - length (hp_rx t);
          t = (if space < length data then t\<lparr>hp_rx := []\<rparr> else t);
          copy_len = min (length data) RX_BUF_LEN;
          (t, rest) = scan_frames tcp_on_frame tcp_on_crc (hp_rx t @ take copy_len data) t
      in t\<lparr>hp_rx := rest\<rparr>)"

text \<open>The answers of successive reads, no bytes being the end of the stream; none left is \<open>WouldBlock\<close>.\<close>

datatype tcp_read = ReadData "byte list" | ReadInterrupted | ReadFailed

fun tcp_reads :: "tcp_read list \<Rightarrow> hil_tcp \<Rightarrow> hil_tcp" where
  "tcp_reads [] t = t"
| "tcp_reads (ReadData d # rs) t =
     (if d = [] then tcp_disconnect t else tcp_reads rs (tcp_process_data (take MAX_FRAME_SIZE d) t))"
| "tcp_reads (ReadInterrupted # rs) t = tcp_reads rs t"
| "tcp_reads (ReadFailed # rs) t = tcp_disconnect t"

definition tcp_poll :: "nat \<Rightarrow> bool \<Rightarrow> tcp_read list \<Rightarrow> hil_tcp \<Rightarrow> hil_tcp" where
  "tcp_poll now_us answer rs t = (if \<not> hp_connected t then tcp_try_connect now_us answer t else tcp_reads rs t)"

definition pop_front :: "'a list \<Rightarrow> 'a list \<times> 'a option" where
  "pop_front xs = (case xs of [] \<Rightarrow> ([], None) | x # ys \<Rightarrow> (ys, Some x))"

definition tcp_take_sensor :: "hil_tcp \<Rightarrow> hil_tcp \<times> hil_sensor option" where
  "tcp_take_sensor t = (let (q, x) = pop_front (hp_sensors t) in (t\<lparr>hp_sensors := q\<rparr>, x))"

definition tcp_take_gps :: "hil_tcp \<Rightarrow> hil_tcp \<times> hil_gps option" where
  "tcp_take_gps t = (let (q, x) = pop_front (hp_gps t) in (t\<lparr>hp_gps := q\<rparr>, x))"

text \<open>\<open>position\<close> and \<open>remove\<close>: the first sample of that time.\<close>

definition take_at :: "('a \<Rightarrow> bool) \<Rightarrow> 'a list \<Rightarrow> 'a list \<times> 'a option" where
  "take_at P xs = (case find_idx P xs of None \<Rightarrow> (xs, None) | Some i \<Rightarrow> (take i xs @ drop (i + 1) xs, Some (xs ! i)))"

definition tcp_take_gps_at :: "u64 \<Rightarrow> hil_tcp \<Rightarrow> hil_tcp \<times> hil_gps option" where
  "tcp_take_gps_at timestamp_us t =
     (let (q, x) = take_at (\<lambda>g. hg_time_usec g = timestamp_us) (hp_gps t) in (t\<lparr>hp_gps := q\<rparr>, x))"

definition tcp_take_state :: "hil_tcp \<Rightarrow> hil_tcp \<times> hil_state_quaternion option" where
  "tcp_take_state t =
     (t\<lparr>hp_states := []\<rparr>, if hp_states t = [] then None else Some (last (hp_states t)))"

definition tcp_take_state_at :: "u64 \<Rightarrow> hil_tcp \<Rightarrow> hil_tcp \<times> hil_state_quaternion option" where
  "tcp_take_state_at timestamp_us t =
     (let (q, x) = take_at (\<lambda>g. hq_time_usec g = timestamp_us) (hp_states t) in (t\<lparr>hp_states := q\<rparr>, x))"

definition tcp_clear_generation_state :: "nat \<Rightarrow> bool \<Rightarrow> tcp_read list \<Rightarrow> hil_tcp \<Rightarrow> hil_tcp" where
  "tcp_clear_generation_state now_us answer rs t =
     (tcp_poll now_us answer rs t)\<lparr>hp_rx := [], hp_sensors := [], hp_gps := [], hp_states := []\<rparr>"

text \<open>A write answers how many bytes it took or an error.\<close>

definition tcp_send_message ::
  "(nat, io_error) result \<Rightarrow> hil_message \<Rightarrow> hil_tcp \<Rightarrow> hil_tcp \<times> byte list option \<times> (unit, io_error) result" where
  "tcp_send_message answer msg t =
     (case serialize_frame msg (hp_seq t) (hp_sys_id t) (hp_comp_id t) (replicate MAX_FRAME_SIZE 0) of
        None \<Rightarrow> (t\<lparr>hp_tx_failures := hp_tx_failures t + 1\<rparr>, None, Err IoInvalidData)
      | Some (buf, len) \<Rightarrow>
          if \<not> hp_connected t then (t\<lparr>hp_tx_failures := hp_tx_failures t + 1\<rparr>, None, Err IoNotConnected)
          else (case answer of
                  Ok written \<Rightarrow>
                    if written = len
                    then (t\<lparr>hp_seq := hp_seq t + 1, hp_tx_count := hp_tx_count t + 1\<rparr>, Some (take len buf), Ok ())
                    else (tcp_disconnect (t\<lparr>hp_tx_failures := hp_tx_failures t + 1\<rparr>), Some (take written (take len buf)),
                          Err IoWriteZero)
                | Err e \<Rightarrow>
                    (let t = t\<lparr>hp_tx_failures := hp_tx_failures t + 1\<rparr>
                     in if e \<noteq> IoWouldBlock then (tcp_disconnect t, None, Err e) else (t, None, Err e))))"

text \<open>What peeking for a byte answers; \<open>PeekIdle\<close> is a timeout.\<close>

datatype tcp_peek = PeekByte | PeekEof | PeekIdle | PeekFailed | PeekModeFailed

definition tcp_wait_readable :: "tcp_peek \<Rightarrow> bool \<Rightarrow> hil_tcp \<Rightarrow> hil_tcp \<times> bool" where
  "tcp_wait_readable peek restored t =
     (if hp_sensors t \<noteq> [] then (t, True)
      else if \<not> hp_connected t then (t, False)
      else if peek = PeekModeFailed then (tcp_disconnect t, False)
      else if \<not> restored then (tcp_disconnect t, False)
      else case peek of
             PeekByte \<Rightarrow> (t, True)
           | PeekEof \<Rightarrow> (tcp_disconnect t, False)
           | PeekIdle \<Rightarrow> (t, False)
           | _ \<Rightarrow> (tcp_disconnect t, False))"

end
