(* ===== verification/HilBackend.thy ===== *)
theory HilBackend
  imports HilLink
begin

text \<open>
  The adapter over a simulator link (\<open>mavlink-hil/src\<close>: \<open>link.rs\<close>, \<open>sensor_fields.rs\<close>, \<open>geodetic.rs\<close>, \<open>backend.rs\<close>): samples
  become sensor packets, a fix becomes local NED metres on a plane latched once, and a reset is held open until the
  simulator marks the first sample of its new world. The tangent plane of \<open>world_core\<close>, which is not in the repository, is
  two arguments: \<open>new_plane\<close> builds one at a position or refuses, \<open>to_ned\<close> projects or refuses.
\<close>

section \<open>Link selection\<close>

datatype hil_link = UdpLink hil_udp | TcpLink hil_tcp

text \<open>What the sockets answer during one poll.\<close>

record link_answers =
  la_datagrams :: "byte list list"
  la_now_us :: nat
  la_connect :: bool
  la_reads :: "tcp_read list"
  la_send :: "(unit, io_error) result"
  la_write :: "(nat, io_error) result"

fun link_poll :: "link_answers \<Rightarrow> hil_link \<Rightarrow> hil_link" where
  "link_poll x (UdpLink t) = UdpLink (udp_poll (la_datagrams x) t)"
| "link_poll x (TcpLink t) = TcpLink (tcp_poll (la_now_us x) (la_connect x) (la_reads x) t)"

fun link_take_sensor :: "hil_link \<Rightarrow> hil_link \<times> hil_sensor option" where
  "link_take_sensor (UdpLink t) = map_prod UdpLink id (udp_take_sensor t)"
| "link_take_sensor (TcpLink t) = map_prod TcpLink id (tcp_take_sensor t)"

fun link_take_gps :: "hil_link \<Rightarrow> hil_link \<times> hil_gps option" where
  "link_take_gps (UdpLink t) = map_prod UdpLink id (udp_take_gps t)"
| "link_take_gps (TcpLink t) = map_prod TcpLink id (tcp_take_gps t)"

definition keep_if :: "('a \<Rightarrow> bool) \<Rightarrow> 'a option \<Rightarrow> 'a option" where
  "keep_if P x = (case x of None \<Rightarrow> None | Some a \<Rightarrow> if P a then Some a else None)"

fun link_take_gps_at :: "u64 \<Rightarrow> hil_link \<Rightarrow> hil_link \<times> hil_gps option" where
  "link_take_gps_at t_us (UdpLink t) = map_prod UdpLink (keep_if (\<lambda>g. hg_time_usec g = t_us)) (udp_take_gps t)"
| "link_take_gps_at t_us (TcpLink t) = map_prod TcpLink id (tcp_take_gps_at t_us t)"

fun link_take_state :: "hil_link \<Rightarrow> hil_link \<times> hil_state_quaternion option" where
  "link_take_state (UdpLink t) = map_prod UdpLink id (udp_take_state t)"
| "link_take_state (TcpLink t) = map_prod TcpLink id (tcp_take_state t)"

fun link_take_state_at :: "u64 \<Rightarrow> hil_link \<Rightarrow> hil_link \<times> hil_state_quaternion option" where
  "link_take_state_at t_us (UdpLink t) = map_prod UdpLink (keep_if (\<lambda>g. hq_time_usec g = t_us)) (udp_take_state t)"
| "link_take_state_at t_us (TcpLink t) = map_prod TcpLink id (tcp_take_state_at t_us t)"

fun link_clear_generation_state :: "link_answers \<Rightarrow> hil_link \<Rightarrow> hil_link" where
  "link_clear_generation_state x (UdpLink t) = UdpLink (udp_clear_generation_state (la_datagrams x) t)"
| "link_clear_generation_state x (TcpLink t) =
     TcpLink (tcp_clear_generation_state (la_now_us x) (la_connect x) (la_reads x) t)"

fun link_send :: "link_answers \<Rightarrow> hil_message \<Rightarrow> hil_link \<Rightarrow> hil_link \<times> byte list option \<times> (unit, io_error) result" where
  "link_send x m (UdpLink t) = map_prod UdpLink id (udp_send_message (la_send x) m t)"
| "link_send x m (TcpLink t) = map_prod TcpLink id (tcp_send_message (la_write x) m t)"

section \<open>Presence of sensor lanes\<close>

definition fields_from_bits :: "u32 \<Rightarrow> u32" where
  "fields_from_bits bits = (if bits = 0 then - 1 else bits)"

definition fields_imu :: "u32 \<Rightarrow> bool" where
  "fields_imu f \<longleftrightarrow> f AND 0x7 = 0x7 \<and> f AND 0x38 = 0x38"

definition fields_mag :: "u32 \<Rightarrow> bool" where
  "fields_mag f \<longleftrightarrow> f AND 0x1C0 = 0x1C0"

definition fields_baro :: "u32 \<Rightarrow> bool" where
  "fields_baro f \<longleftrightarrow> f AND 0x200 \<noteq> 0"

definition fields_differential_pressure :: "u32 \<Rightarrow> bool" where
  "fields_differential_pressure f \<longleftrightarrow> f AND 0x400 \<noteq> 0"

definition fields_pressure_altitude :: "u32 \<Rightarrow> bool" where
  "fields_pressure_altitude f \<longleftrightarrow> f AND 0x800 \<noteq> 0"

definition known_presence_mask :: "u32 \<Rightarrow> u16" where
  "known_presence_mask f = ucast (f AND 0xFFF)"

section \<open>Packets\<close>

record sim_imu_data =
  sp_accel :: vec3
  sp_gyro :: vec3
  sp_temperature :: "f32 option"

record sim_baro_data =
  sp_pressure_pa :: f32
  sp_differential_pressure_pa :: "f32 option"
  sp_pressure_altitude_m :: "f32 option"
  sp_temperature_c :: f32

record sim_mag_data =
  sp_field_ut :: vec3

datatype sim_gnss_fix = SimNone | SimTwoD | SimThreeD | SimRtkFloat | SimRtkFixed

record sim_gnss_data =
  sp_lat_deg :: f64
  sp_lon_deg :: f64
  sp_alt_m :: f32
  sp_position_ned :: vec3
  sp_vel_ned :: vec3
  sp_fix :: sim_gnss_fix
  sp_h_acc :: f32
  sp_v_acc :: f32
  sp_satellites :: u8

record sim_sensor_packet =
  sp_timestamp_us :: u64
  sp_presence_mask :: u16
  sp_imu :: "sim_imu_data option"
  sp_baro :: "sim_baro_data option"
  sp_mag :: "sim_mag_data option"
  sp_gnss :: "sim_gnss_data option"
  sp_reset_generation :: "u32 option"

definition sim_sensor_packet_default :: sim_sensor_packet where
  "sim_sensor_packet_default =
     \<lparr>sp_timestamp_us = 0, sp_presence_mask = 0, sp_imu = None, sp_baro = None, sp_mag = None, sp_gnss = None,
      sp_reset_generation = None\<rparr>"

definition f100 :: f32 where "f100 = f32_lit 100 1"

definition apply_sensor :: "hil_sensor \<Rightarrow> sim_sensor_packet \<Rightarrow> sim_sensor_packet" where
  "apply_sensor sensor packet =
     (let updated = fields_from_bits (hs_fields_updated sensor);
          packet = packet\<lparr>sp_timestamp_us := hs_time_usec sensor, sp_presence_mask := known_presence_mask updated\<rparr>;
          packet = (if fields_imu updated
                    then packet\<lparr>sp_imu := Some \<lparr>sp_accel = (hs_xacc sensor, hs_yacc sensor, hs_zacc sensor),
                           sp_gyro = (hs_xgyro sensor, hs_ygyro sensor, hs_zgyro sensor),
                           sp_temperature = Some (hs_temperature sensor)\<rparr>\<rparr>
                    else packet);
          packet = (if fields_baro updated
                    then packet\<lparr>sp_baro := Some \<lparr>sp_pressure_pa = f32_mul (hs_abs_pressure sensor) f100,
                           sp_differential_pressure_pa =
                             (if fields_differential_pressure updated then Some (f32_mul (hs_diff_pressure sensor) f100) else None),
                           sp_pressure_altitude_m =
                             (if fields_pressure_altitude updated then Some (hs_pressure_alt sensor) else None),
                           sp_temperature_c = hs_temperature sensor\<rparr>\<rparr>
                    else packet)
      in if fields_mag updated
         then packet\<lparr>sp_mag := Some \<lparr>sp_field_ut = (f32_mul (hs_xmag sensor) f100, f32_mul (hs_ymag sensor) f100,
                                                    f32_mul (hs_zmag sensor) f100)\<rparr>\<rparr>
         else packet)"

definition decode_fix :: "u8 \<Rightarrow> sim_gnss_fix" where
  "decode_fix fix_type =
     (if fix_type = 2 then SimTwoD
      else if fix_type = 3 \<or> fix_type = 4 then SimThreeD
      else if fix_type = 5 then SimRtkFloat
      else if fix_type = 6 then SimRtkFixed
      else SimNone)"

section \<open>The latched origin\<close>

type_synonym position = "f64 \<times> f64 \<times> f64"

definition project ::
  "(position \<Rightarrow> 'plane option) \<Rightarrow> ('plane \<Rightarrow> position \<Rightarrow> (f64 \<times> f64 \<times> f64) option)
   \<Rightarrow> f64 \<Rightarrow> f64 \<Rightarrow> f32 \<Rightarrow> sim_gnss_fix \<Rightarrow> 'plane option \<Rightarrow> 'plane option \<times> vec3" where
  "project new_plane to_ned lat_deg lon_deg alt_m gps_fix latched =
     (let usable = (gps_fix \<in> {SimThreeD, SimRtkFloat, SimRtkFixed}
                    \<and> f64_is_finite lat_deg \<and> f64_is_finite lon_deg \<and> f32_is_finite alt_m)
      in if \<not> usable then (latched, (f0, f0, f0))
         else let position = (lat_deg, lon_deg, f64_of_f32 alt_m)
              in case (case latched of Some plane \<Rightarrow> Some plane | None \<Rightarrow> new_plane position) of
                   None \<Rightarrow> (latched, (f0, f0, f0))
                 | Some plane \<Rightarrow>
                     (Some plane,
                      case to_ned plane position of
                        Some (n, e, d) \<Rightarrow> (f32_of_f64 n, f32_of_f64 e, f32_of_f64 d)
                      | None \<Rightarrow> (f0, f0, f0)))"

text \<open>Degrees from 1e-7 degrees; metres per second from centimetres.\<close>

definition degrees_of_e7 :: "i32 \<Rightarrow> f64" where
  "degrees_of_e7 x = f64_div (f64_of_int (sint x)) (f64_lit 10000000 1)"

definition apply_gps ::
  "(position \<Rightarrow> 'plane option) \<Rightarrow> ('plane \<Rightarrow> position \<Rightarrow> (f64 \<times> f64 \<times> f64) option)
   \<Rightarrow> hil_gps \<Rightarrow> sim_sensor_packet \<Rightarrow> 'plane option \<Rightarrow> sim_sensor_packet \<times> 'plane option" where
  "apply_gps new_plane to_ned gps packet latched =
     (let packet = (if sp_timestamp_us packet = 0 then packet\<lparr>sp_timestamp_us := hg_time_usec gps\<rparr> else packet);
          gps_fix = decode_fix (hg_fix_type gps);
          lat_deg = degrees_of_e7 (hg_lat gps);
          lon_deg = degrees_of_e7 (hg_lon gps);
          alt_m = f32_div (f32_of_int (sint (hg_alt gps))) (f32_lit 1000 1);
          (latched, ned) = project new_plane to_ned lat_deg lon_deg alt_m gps_fix latched
      in (packet\<lparr>sp_gnss := Some
            \<lparr>sp_lat_deg = lat_deg, sp_lon_deg = lon_deg, sp_alt_m = alt_m, sp_position_ned = ned,
             sp_vel_ned = (f32_div (f32_of_int (sint (hg_vn gps))) f100, f32_div (f32_of_int (sint (hg_ve gps))) f100,
                           f32_div (f32_of_int (sint (hg_vd gps))) f100),
             sp_fix = gps_fix, sp_h_acc = f32_div (f32_of_int (uint (hg_eph gps))) f100,
             sp_v_acc = f32_div (f32_of_int (uint (hg_epv gps))) f100,
             sp_satellites = hg_satellites_visible gps\<rparr>\<rparr>, latched))"

section \<open>The adapter\<close>

definition LOCKSTEP_ACTUATOR_FLAG :: u64 where "LOCKSTEP_ACTUATOR_FLAG = 1"

definition RESET_REQUEST_ACTUATOR_FLAG :: u64 where "RESET_REQUEST_ACTUATOR_FLAG = 2"

definition RESET_ACK_SENSOR_FLAG :: u32 where "RESET_ACK_SENSOR_FLAG = 0x80000000"

record 'plane hil_backend =
  hb_link :: hil_link
  hb_origin :: "'plane option"
  hb_last_sensor_time_us :: u64
  hb_sample_paced :: bool
  hb_reset_pending :: bool
  hb_reset_truth :: "hil_state_quaternion option"

definition backend_new :: "hil_link \<Rightarrow> 'plane hil_backend" where
  "backend_new l =
     \<lparr>hb_link = l, hb_origin = None, hb_last_sensor_time_us = 0,
      hb_sample_paced = (case l of UdpLink _ \<Rightarrow> False | TcpLink _ \<Rightarrow> True), hb_reset_pending = False, hb_reset_truth = None\<rparr>"

definition send_reset_request :: "link_answers \<Rightarrow> u64 \<Rightarrow> 'plane hil_backend \<Rightarrow> 'plane hil_backend \<times> (unit, io_error) result" where
  "send_reset_request x now_us b =
     (let message = actuator_controls_default
            \<lparr>hc_time_usec := now_us, hc_flags := LOCKSTEP_ACTUATOR_FLAG OR RESET_REQUEST_ACTUATOR_FLAG\<rparr>;
          (l, sent, r) = link_send x (HilActuatorControls message) (hb_link b)
      in (b\<lparr>hb_link := l\<rparr>, r))"

definition poll_reset_ack ::
  "(position \<Rightarrow> 'plane option) \<Rightarrow> ('plane \<Rightarrow> position \<Rightarrow> (f64 \<times> f64 \<times> f64) option) \<Rightarrow> link_answers \<Rightarrow> u64
   \<Rightarrow> hil_sensor option \<Rightarrow> 'plane hil_backend \<Rightarrow> 'plane hil_backend \<times> sim_sensor_packet option" where
  "poll_reset_ack new_plane to_ned x now_us sensor b =
     (case sensor of
        None \<Rightarrow> (b, None)
      | Some sensor \<Rightarrow>
          if hs_fields_updated sensor AND RESET_ACK_SENSOR_FLAG = 0
          then (fst (send_reset_request x now_us b), None)
          else (let (l, gps) = link_take_gps_at (hs_time_usec sensor) (hb_link b);
                    (l, truth) = link_take_state_at (hs_time_usec sensor) l;
                    b = b\<lparr>hb_link := l\<rparr>
                in if \<not> (gps \<noteq> None \<and> truth \<noteq> None)
                   then (fst (send_reset_request x now_us b), None)
                   else (let b = b\<lparr>hb_reset_pending := False, hb_reset_truth := truth,
                                   hb_last_sensor_time_us := hs_time_usec sensor\<rparr>;
                             packet = apply_sensor sensor sim_sensor_packet_default
                         in case gps of
                              None \<Rightarrow> (b, Some packet)
                            | Some gps \<Rightarrow>
                                (let (packet, origin) = apply_gps new_plane to_ned gps packet (hb_origin b)
                                 in (b\<lparr>hb_origin := origin\<rparr>, Some packet)))))"

definition backend_poll ::
  "(position \<Rightarrow> 'plane option) \<Rightarrow> ('plane \<Rightarrow> position \<Rightarrow> (f64 \<times> f64 \<times> f64) option) \<Rightarrow> link_answers \<Rightarrow> u64
   \<Rightarrow> 'plane hil_backend \<Rightarrow> 'plane hil_backend \<times> sim_sensor_packet option" where
  "backend_poll new_plane to_ned x now_us b =
     (let (l, sensor) = link_take_sensor (link_poll x (hb_link b));
          b = b\<lparr>hb_link := l\<rparr>
      in if hb_reset_pending b then poll_reset_ack new_plane to_ned x now_us sensor b
         else if hb_sample_paced b \<and> sensor = None then (b, None)
         else (let (l, gps) = (if hb_sample_paced b
                               then (case sensor of
                                       Some s \<Rightarrow> link_take_gps_at (hs_time_usec s) (hb_link b)
                                     | None \<Rightarrow> (hb_link b, None))
                               else link_take_gps (hb_link b));
                   b = b\<lparr>hb_link := l\<rparr>
               in if sensor = None \<and> gps = None then (b, None)
                  else (let (b, packet) =
                              (case sensor of
                                 Some s \<Rightarrow> (b\<lparr>hb_last_sensor_time_us := hs_time_usec s\<rparr>, apply_sensor s sim_sensor_packet_default)
                               | None \<Rightarrow> (b, sim_sensor_packet_default))
                        in case gps of
                             Some g \<Rightarrow>
                               (let (packet, origin) = apply_gps new_plane to_ned g packet (hb_origin b)
                                in (b\<lparr>hb_origin := origin\<rparr>, Some packet))
                           | None \<Rightarrow> (b, Some packet))))"

definition backend_take_state_quaternion :: "'plane hil_backend \<Rightarrow> 'plane hil_backend \<times> hil_state_quaternion option" where
  "backend_take_state_quaternion b =
     (case hb_reset_truth b of
        Some q \<Rightarrow> (b\<lparr>hb_reset_truth := None\<rparr>, Some q)
      | None \<Rightarrow> (let (l, q) = link_take_state (hb_link b) in (b\<lparr>hb_link := l\<rparr>, q)))"

definition backend_clear_generation_state :: "link_answers \<Rightarrow> 'plane hil_backend \<Rightarrow> 'plane hil_backend" where
  "backend_clear_generation_state x b =
     b\<lparr>hb_link := link_clear_generation_state x (hb_link b), hb_last_sensor_time_us := 0, hb_reset_truth := None\<rparr>"

definition backend_request_reset ::
  "link_answers \<Rightarrow> u64 \<Rightarrow> 'plane hil_backend \<Rightarrow> 'plane hil_backend \<times> (unit, io_error) result" where
  "backend_request_reset x now_us b =
     (if hb_reset_pending b then (b, Err IoAlreadyExists)
      else let b = (backend_clear_generation_state x b)\<lparr>hb_reset_pending := True\<rparr>
           in case send_reset_request x now_us b of
                (b, Err e) \<Rightarrow> (b\<lparr>hb_reset_pending := False\<rparr>, Err e)
              | (b, Ok _) \<Rightarrow> (b, Ok ()))"

text \<open>The command for the simulator: the outputs, and the time of the sample they answer.\<close>

record sim_command =
  sk_outputs :: "f32 list"
  sk_count :: u8
  sk_armed :: bool

definition actuator_message :: "sim_command \<Rightarrow> u64 \<Rightarrow> u64 \<Rightarrow> hil_actuator_controls" where
  "actuator_message command last_sensor_time_us link_time_us =
     (let count = min (unat (sk_count command)) 16
      in \<lparr>hc_time_usec = (if last_sensor_time_us = 0 then link_time_us else last_sensor_time_us),
          hc_controls = take count (sk_outputs command) @ replicate (16 - count) f0,
          hc_flags = LOCKSTEP_ACTUATOR_FLAG, hc_mode = (if sk_armed command then 0x80 else 0)\<rparr>)"

record actuator_send_receipt =
  sr_echoed_timestamp_us :: u64
  sr_lockstep :: bool

definition send_actuators_with_receipt ::
  "link_answers \<Rightarrow> u64 \<Rightarrow> sim_command \<Rightarrow> 'plane hil_backend
   \<Rightarrow> 'plane hil_backend \<times> byte list option \<times> (actuator_send_receipt, io_error) result" where
  "send_actuators_with_receipt x now_us command b =
     (let message = actuator_message command (hb_last_sensor_time_us b) now_us;
          (l, sent, r) = link_send x (HilActuatorControls message) (hb_link b);
          b = b\<lparr>hb_link := l\<rparr>
      in case r of
           Err e \<Rightarrow> (b, sent, Err e)
         | Ok _ \<Rightarrow> (b, sent, Ok \<lparr>sr_echoed_timestamp_us = hc_time_usec message,
                                 sr_lockstep = (hc_flags message AND LOCKSTEP_ACTUATOR_FLAG \<noteq> 0)\<rparr>))"

definition backend_poll_truth :: "link_answers \<Rightarrow> 'plane hil_backend \<Rightarrow> 'plane hil_backend \<times> hil_state_quaternion option" where
  "backend_poll_truth x b = (let (l, q) = link_take_state (link_poll x (hb_link b)) in (b\<lparr>hb_link := l\<rparr>, q))"

definition send_actuators_at ::
  "link_answers \<Rightarrow> sim_command \<Rightarrow> u64 \<Rightarrow> 'plane hil_backend
   \<Rightarrow> 'plane hil_backend \<times> byte list option \<times> (actuator_send_receipt, io_error) result" where
  "send_actuators_at x command time_usec b =
     (let message = actuator_message command time_usec time_usec;
          (l, sent, r) = link_send x (HilActuatorControls message) (hb_link b);
          b = b\<lparr>hb_link := l\<rparr>
      in case r of
           Err e \<Rightarrow> (b, sent, Err e)
         | Ok _ \<Rightarrow> (b, sent, Ok \<lparr>sr_echoed_timestamp_us = hc_time_usec message,
                                 sr_lockstep = (hc_flags message AND LOCKSTEP_ACTUATOR_FLAG \<noteq> 0)\<rparr>))"

definition backend_restart_session :: "link_answers \<Rightarrow> 'plane hil_backend \<Rightarrow> 'plane hil_backend \<times> (unit, io_error) result" where
  "backend_restart_session x b =
     (case hb_link b of
        TcpLink t \<Rightarrow>
          (backend_clear_generation_state x (b\<lparr>hb_link := TcpLink (tcp_reconnect (la_now_us x) t)\<rparr>), Ok ())
      | UdpLink _ \<Rightarrow> (b, Err IoUnsupported))"

definition backend_send_heartbeat ::
  "link_answers \<Rightarrow> bool \<Rightarrow> 'plane hil_backend \<Rightarrow> 'plane hil_backend \<times> (unit, io_error) result" where
  "backend_send_heartbeat x armed b =
     (let (l, sent, r) = link_send x (HilHeartbeat (new_quadrotor_hil armed)) (hb_link b) in (b\<lparr>hb_link := l\<rparr>, r))"

end
