(* ===== verification/HilProps.thy ===== *)
theory HilProps
  imports HilBackend
begin

text \<open>
  What a link to a simulator delivers. A frame is parsed back however the stream is cut, so every sample that was sent
  arrives once and in order; a reset is acknowledged only by a complete group of the new world.
\<close>

section \<open>One frame\<close>

fun hil_message_wf :: "hil_message \<Rightarrow> bool" where
  "hil_message_wf (HilActuatorControls m) \<longleftrightarrow> length (hc_controls m) = 16"
| "hil_message_wf _ \<longleftrightarrow> True"

definition hil_header :: "nat \<Rightarrow> u8 \<Rightarrow> u8 \<Rightarrow> u8 \<Rightarrow> u8 \<Rightarrow> byte list" where
  "hil_header len seq sys_id comp_id msg_id = [MAVLINK_STX_V2, of_nat len, 0, 0, seq, sys_id, comp_id, msg_id, 0, 0]"

lemma header_facts [simp]:
  "length (hil_header n seq s c i) = 10" "hil_header n seq s c i ! 0 = MAVLINK_STX_V2"
  "hil_header n seq s c i ! Suc 0 = of_nat n" "hil_header n seq s c i ! 4 = seq" "hil_header n seq s c i ! 5 = s"
  "hil_header n seq s c i ! 6 = c" "hil_header n seq s c i ! 7 = i"
  by (simp_all add: hil_header_def)

definition hil_frame_bytes :: "hil_message \<Rightarrow> u8 \<Rightarrow> u8 \<Rightarrow> u8 \<Rightarrow> byte list" where
  "hil_frame_bytes msg seq sys_id comp_id =
     (let (i, p) = hil_payload msg;
          head = hil_header (length p) seq sys_id comp_id i @ p
      in head @ le_bytes (crc_calculate (drop 1 head) (the (crc_extra i))))"

text \<open>Every payload: known id, its length, and how it is read back.\<close>

lemma zero_extended_exact: "length p = n \<Longrightarrow> zero_extended n p = p"
  by (simp add: zero_extended_def)

lemma payload_facts:
  assumes "hil_message_wf msg" "hil_payload msg = (i, p)"
  shows "crc_extra i \<noteq> None" "0 < length p" "length p \<le> 81" "parse_message i p = Ok msg"
proof -
  have "crc_extra i \<noteq> None \<and> length p \<in> {9, 65, 39, 64, 81} \<and> parse_message i p = Ok msg"
  proof (cases msg)
    case (HilHeartbeat m)
    then show ?thesis using assms
      by (auto simp: crc_extra_def parse_message_def ok_payload_def zero_extended_exact heartbeat_bytes)
  next
    case (HilSensor m)
    then show ?thesis using assms
      by (auto simp: crc_extra_def hil_ids parse_message_def ok_payload_def zero_extended_exact sensor_bytes)
  next
    case (HilGps m)
    then show ?thesis using assms
      by (auto simp: crc_extra_def hil_ids parse_message_def ok_payload_def gps_bytes)
  next
    case (HilStateQuaternion m)
    then show ?thesis using assms
      by (auto simp: crc_extra_def hil_ids parse_message_def ok_payload_def zero_extended_exact state_quaternion_bytes)
  next
    case (HilActuatorControls m)
    then show ?thesis using assms
      by (auto simp: crc_extra_def hil_ids parse_message_def ok_payload_def zero_extended_exact actuator_controls_bytes)
  qed
  then show "crc_extra i \<noteq> None" "0 < length p" "length p \<le> 81" "parse_message i p = Ok msg" by auto
qed

lemma frame_bytes_length:
  assumes "hil_message_wf msg"
  shows "length (hil_frame_bytes msg seq s c) = 12 + length (snd (hil_payload msg))"
    "12 < length (hil_frame_bytes msg seq s c)" "length (hil_frame_bytes msg seq s c) \<le> 93"
proof -
  obtain i p where ip: "hil_payload msg = (i, p)" by (rule prod.exhaust)
  show "length (hil_frame_bytes msg seq s c) = 12 + length (snd (hil_payload msg))"
    by (simp add: hil_frame_bytes_def ip Let_def)
  with payload_facts(2,3) [OF assms ip] ip
  show "12 < length (hil_frame_bytes msg seq s c)" "length (hil_frame_bytes msg seq s c) \<le> 93" by simp_all
qed

lemma serialize_bytes:
  assumes "hil_message_wf msg"
  shows "serialize_frame msg seq s c (replicate MAX_FRAME_SIZE 0)
      = Some (put (replicate MAX_FRAME_SIZE 0) 0 (hil_frame_bytes msg seq s c), length (hil_frame_bytes msg seq s c))"
proof -
  obtain i p where ip: "hil_payload msg = (i, p)" by (rule prod.exhaust)
  note f = payload_facts [OF assms ip]
  obtain x where x: "crc_extra i = Some x" using f(1) by auto
  define h where "h = hil_header (length p) seq s c i"
  have h: "length h = 10" by (simp add: h_def)
  have room: "HEADER_SIZE + length p + CRC_SIZE \<le> MAX_FRAME_SIZE"
    using f(3) by (simp add: HEADER_SIZE_def CRC_SIZE_def MAX_FRAME_SIZE_def)
  have b: "put (put (replicate MAX_FRAME_SIZE 0) 0 h) HEADER_SIZE p = put (replicate MAX_FRAME_SIZE 0) 0 (h @ p)"
    using room h by (intro put_put) (simp_all add: HEADER_SIZE_def CRC_SIZE_def)
  have t: "take (HEADER_SIZE + length p) (put (replicate MAX_FRAME_SIZE 0) 0 (h @ p)) = h @ p"
    by (simp add: put_def HEADER_SIZE_def h)
  have e: "put (put (replicate MAX_FRAME_SIZE 0) 0 (h @ p)) (HEADER_SIZE + length p) (le_bytes w)
      = put (replicate MAX_FRAME_SIZE 0) 0 ((h @ p) @ le_bytes (w :: u16))" for w
    using room h by (intro put_put) (simp_all add: HEADER_SIZE_def CRC_SIZE_def)
  have "\<not> length (replicate MAX_FRAME_SIZE (0 :: byte)) < HEADER_SIZE + length p + CRC_SIZE" using room by simp
  then show ?thesis
    unfolding serialize_frame_def ip Let_def prod.case hil_header_def [symmetric] h_def [symmetric]
    by (simp only: if_False x option.case b t e)
      (simp add: hil_frame_bytes_def ip x Let_def HEADER_SIZE_def CRC_SIZE_def h_def [symmetric] h)
qed

lemma parse_at_start: "parse_frame (MAVLINK_STX_V2 # xs) = parse_frame_v2 (MAVLINK_STX_V2 # xs) 0"
  by (simp add: parse_frame_def)

lemma parse_bytes:
  assumes "hil_message_wf msg"
  shows "parse_frame (hil_frame_bytes msg seq s c @ rest)
      = Ok (\<lparr>hf_seq = seq, hf_sys_id = s, hf_comp_id = c, hf_message = msg\<rparr>, length (hil_frame_bytes msg seq s c))"
proof -
  obtain i p where ip: "hil_payload msg = (i, p)" by (rule prod.exhaust)
  note f = payload_facts [OF assms ip]
  obtain x where x: "crc_extra i = Some x" using f(1) by auto
  define h where "h = hil_header (length p) seq s c i"
  have h: "length h = 10" "h ! 4 = seq" "h ! 5 = s" "h ! 6 = c" "h ! 7 = i" "h ! 1 = of_nat (length p)" by (simp_all add: h_def)
  obtain tl where tl: "h = MAVLINK_STX_V2 # tl" by (simp add: h_def hil_header_def)
  define crc where "crc = crc_calculate (drop 1 (h @ p)) x"
  have b: "hil_frame_bytes msg seq s c = h @ p @ le_bytes crc" by (simp add: hil_frame_bytes_def ip x crc_def h_def Let_def)
  define d where "d = h @ p @ le_bytes crc @ rest"
  have n: "unat (of_nat (length p) :: byte) = length p" using f(3) by (simp add: unat_of_nat take_bit_nat_eq_self)
  have crc_slice: "crc_calculate (drop 1 (take (10 + length p) d)) x = crc" by (simp add: crc_def d_def h)
  have "read_u16_le d (10 + length p) = u16_of (slice 2 (10 + length p) d)" by (rule read_words) (simp add: d_def h)
  also have "slice 2 (10 + length p) d = le_bytes crc" by (simp add: slice_def d_def h)
  finally have received: "read_u16_le d (10 + length p) = crc" by simp
  have pay: "take (length p) (drop 10 d) = p" by (simp add: d_def h)
  have hd: "d ! 4 = seq" "d ! 5 = s" "d ! 6 = c" "d ! 7 = i" "d ! 1 = of_nat (length p)"
    unfolding d_def by (simp_all only: nth_append h) (simp_all add: h)
  have long: "\<not> length d < 10" "\<not> length d < 10 + length p + 2" by (simp_all add: d_def h)
  have "parse_frame d = parse_frame_v2 d 0" unfolding d_def tl by (simp add: parse_at_start)
  also have "\<dots> = Ok (\<lparr>hf_seq = seq, hf_sys_id = s, hf_comp_id = c, hf_message = msg\<rparr>, 12 + length p)"
    unfolding parse_frame_v2_def parse_body_def Let_def HEADER_SIZE_def CRC_SIZE_def hd n
    by (simp only: long if_False x option.case crc_slice received pay f(4) sum.case) simp
  finally show ?thesis unfolding b d_def using h by simp
qed

lemma parse_prefix:
  assumes "hil_message_wf msg" "k < length (hil_frame_bytes msg seq s c)"
  shows "parse_frame (take k (hil_frame_bytes msg seq s c)) = Err Incomplete"
proof (cases k)
  case 0
  then show ?thesis by (simp add: parse_frame_def)
next
  case (Suc j)
  obtain i p where ip: "hil_payload msg = (i, p)" by (rule prod.exhaust)
  note f = payload_facts [OF assms(1) ip]
  let ?b = "hil_frame_bytes msg seq s c"
  obtain tl where tl: "?b = MAVLINK_STX_V2 # tl" by (simp add: hil_frame_bytes_def hil_header_def ip Let_def)
  have n: "unat (of_nat (length p) :: byte) = length p" using f(3) by (simp add: unat_of_nat take_bit_nat_eq_self)
  have k: "k < 12 + length p" using assms frame_bytes_length(1) [OF assms(1)] ip by simp
  have len: "length (take k ?b) = k" using assms(2) by simp
  have "parse_frame (take k ?b) = parse_frame_v2 (take k ?b) 0" unfolding tl Suc by (simp add: parse_at_start)
  moreover have "parse_frame_v2 (take k ?b) 0 = Err Incomplete"
  proof (cases "k < 10")
    case False
    then have "take k ?b ! 1 = of_nat (length p)" using assms(2)
      by (simp add: hil_frame_bytes_def ip Let_def nth_append)
    then show ?thesis using False k len
      unfolding parse_frame_v2_def parse_body_def Let_def len HEADER_SIZE_def CRC_SIZE_def by (simp add: n)
  next
    case True
    then show ?thesis unfolding parse_frame_v2_def len HEADER_SIZE_def by simp
  qed
  ultimately show ?thesis by simp
qed

section \<open>A stream of frames\<close>

text \<open>The bytes of messages sent one after the other, with consecutive sequence numbers.\<close>

primrec hil_stream :: "u8 \<Rightarrow> u8 \<Rightarrow> u8 \<Rightarrow> hil_message list \<Rightarrow> byte list" where
  "hil_stream seq sys_id comp_id [] = []"
| "hil_stream seq sys_id comp_id (m # ms) =
     (case serialize_frame m seq sys_id comp_id (replicate MAX_FRAME_SIZE 0) of
        Some (buf, len) \<Rightarrow> take len buf | None \<Rightarrow> []) @ hil_stream (seq + 1) sys_id comp_id ms"

primrec hil_frames :: "u8 \<Rightarrow> u8 \<Rightarrow> u8 \<Rightarrow> hil_message list \<Rightarrow> hil_frame list" where
  "hil_frames seq sys_id comp_id [] = []"
| "hil_frames seq sys_id comp_id (m # ms) =
     \<lparr>hf_seq = seq, hf_sys_id = sys_id, hf_comp_id = comp_id, hf_message = m\<rparr> # hil_frames (seq + 1) sys_id comp_id ms"

lemma stream_Cons:
  "hil_message_wf m \<Longrightarrow> hil_stream seq s c (m # ms) = hil_frame_bytes m seq s c @ hil_stream (seq + 1) s c ms"
  using serialize_bytes [of m seq s c] by (simp add: put_def)

lemma frames_messages [simp]: "map hf_message (hil_frames seq s c ms) = ms"
  by (induction ms arbitrary: seq) simp_all

text \<open>Scanning a beginning of the stream handles the whole frames in it and keeps the rest, a beginning of a frame.\<close>

lemma scan_prefix:
  assumes "\<forall>m \<in> set ms. hil_message_wf m" "xs @ ys = hil_stream seq s c ms"
  obtains got todo rest where "ms = got @ todo" "scan_frames f g xs t = (fold f (hil_frames seq s c got) t, rest)"
    "rest @ ys = hil_stream (seq + of_nat (length got)) s c todo" "length rest < 93"
    "todo \<noteq> [] \<longrightarrow> length rest < length (hil_frame_bytes (hd todo) (seq + of_nat (length got)) s c)"
  using assms
proof (induction ms arbitrary: xs seq t thesis)
  case Nil
  then show ?case by (intro Nil.prems(1) [of "[]" "[]" "[]"]) (simp_all add: scan_frames.simps)
next
  case (Cons m ms)
  let ?b = "hil_frame_bytes m seq s c"
  have m: "hil_message_wf m" and ms: "\<forall>m \<in> set ms. hil_message_wf m" using Cons.prems(2) by simp_all
  have st: "xs @ ys = ?b @ hil_stream (seq + 1) s c ms" using Cons.prems(3) stream_Cons [OF m] by simp
  note len = frame_bytes_length [OF m, of seq s c]
  show ?case
  proof (cases "length ?b \<le> length xs")
    case True
    then obtain xs' where xs: "xs = ?b @ xs'" "xs' @ ys = hil_stream (seq + 1) s c ms"
      using st by (metis append_eq_append_conv_if append_take_drop_id same_append_eq append_assoc)
    let ?f = "\<lparr>hf_seq = seq, hf_sys_id = s, hf_comp_id = c, hf_message = m\<rparr>"
    obtain dn todo rest where IH: "ms = dn @ todo"
      "scan_frames f g xs' (f ?f t) = (fold f (hil_frames (seq + 1) s c dn) (f ?f t), rest)"
      "rest @ ys = hil_stream (seq + 1 + of_nat (length dn)) s c todo" "length rest < 93"
      "todo \<noteq> [] \<longrightarrow> length rest < length (hil_frame_bytes (hd todo) (seq + 1 + of_nat (length dn)) s c)"
      using Cons.IH [OF _ ms xs(2)] by metis
    have ne: "xs \<noteq> []" using xs(1) len(2) by auto
    have parsed: "parse_frame xs = Ok (?f, length ?b)" unfolding xs(1) by (rule parse_bytes [OF m])
    have left: "drop (length ?b) xs = xs'" by (simp add: xs(1))
    have "scan_frames f g xs t = scan_frames f g xs' (f ?f t)"
      using ne parsed left by (simp add: scan_frames.simps [of f g xs])
    then show ?thesis using IH by (intro Cons.prems(1) [of "m # dn" todo rest]) (simp_all add: ac_simps)
  next
    case False
    then have xs: "xs = take (length xs) ?b" using st by (metis append_eq_append_conv_if nat_le_linear)
    have "parse_frame xs = Err Incomplete" using parse_prefix [OF m, of "length xs" seq s c] False xs by simp
    then have "scan_frames f g xs t = (t, xs)" by (simp add: scan_frames.simps [of f g xs])
    then show ?thesis using False len Cons.prems(3) by (intro Cons.prems(1) [of "[]" "m # ms" xs]) simp_all
  qed
qed

lemma frames_append: "hil_frames seq s c (xs @ ys) = hil_frames seq s c xs @ hil_frames (seq + of_nat (length xs)) s c ys"
  by (induction xs arbitrary: seq) (simp_all add: ac_simps)

text \<open>
  The contract of a receiver: what it has buffered, how it handles a frame, and a step that scans what is buffered and
  what arrived, as long as that fits its buffer.
\<close>

locale frame_receiver =
  fixes rx :: "'t \<Rightarrow> byte list" and set_rx :: "byte list \<Rightarrow> 't \<Rightarrow> 't"
    and on_frame :: "hil_frame \<Rightarrow> 't \<Rightarrow> 't" and on_crc :: "'t \<Rightarrow> 't"
    and process :: "byte list \<Rightarrow> 't \<Rightarrow> 't"
  assumes rx_set: "rx (set_rx bs t) = bs"
    and set_rx_same: "set_rx (rx t) t = t"
    and set_rx_twice: "set_rx bs (set_rx bs' t) = set_rx bs t"
    and frame_set_rx: "on_frame fr (set_rx bs t) = set_rx bs (on_frame fr t)"
    and process_scans: "length (rx t) < 93 \<Longrightarrow> length data \<le> MAX_FRAME_SIZE
      \<Longrightarrow> process data t = (let (t', rest) = scan_frames on_frame on_crc (rx t @ data) t in set_rx rest t')"
begin

lemma frames_set_rx: "fold on_frame fs (set_rx bs t) = set_rx bs (fold on_frame fs t)"
  by (induction fs arbitrary: t) (simp_all add: frame_set_rx)

lemma stream_received:
  assumes "\<forall>m \<in> set ms. hil_message_wf m" "\<forall>d \<in> set chunks. length d \<le> MAX_FRAME_SIZE"
    and "rx t @ concat chunks = hil_stream seq s c ms"
    and "length (rx t) < 93"
    and "ms \<noteq> [] \<longrightarrow> length (rx t) < length (hil_frame_bytes (hd ms) seq s c)"
  shows "fold process chunks t = set_rx [] (fold on_frame (hil_frames seq s c ms) t)"
  using assms
proof (induction chunks arbitrary: t ms seq)
  case Nil
  have "ms = []"
  proof (cases ms)
    case (Cons m ms')
    then show ?thesis using Nil.prems stream_Cons [of m seq s c ms'] by (auto simp del: hil_stream.simps(2))
  qed simp
  then show ?case using Nil.prems(3) set_rx_same [of t] by simp
next
  case (Cons d ds)
  have st: "(rx t @ d) @ concat ds = hil_stream seq s c ms" using Cons.prems(3) by simp
  obtain got todo rest where r: "ms = got @ todo"
    "scan_frames on_frame on_crc (rx t @ d) t = (fold on_frame (hil_frames seq s c got) t, rest)"
    "rest @ concat ds = hil_stream (seq + of_nat (length got)) s c todo" "length rest < 93"
    "todo \<noteq> [] \<longrightarrow> length rest < length (hil_frame_bytes (hd todo) (seq + of_nat (length got)) s c)"
    using scan_prefix [OF Cons.prems(1) st, of on_frame on_crc t] by metis
  have p: "process d t = set_rx rest (fold on_frame (hil_frames seq s c got) t)"
    using process_scans [OF Cons.prems(4), of d] Cons.prems(2) r(2) by simp
  have "fold process ds (process d t)
      = set_rx [] (fold on_frame (hil_frames (seq + of_nat (length got)) s c todo) (process d t))"
    by (rule Cons.IH) (use Cons.prems r in \<open>simp_all add: p rx_set\<close>)
  then show ?case by (simp add: p frames_set_rx set_rx_twice r(1) frames_append)
qed

end

interpretation udp: frame_receiver hu_rx "\<lambda>bs t. t\<lparr>hu_rx := bs\<rparr>" udp_on_frame udp_on_crc udp_process_data
proof
  fix fr bs and t :: hil_udp
  show "udp_on_frame fr (t\<lparr>hu_rx := bs\<rparr>) = (udp_on_frame fr t)\<lparr>hu_rx := bs\<rparr>"
    by (simp add: udp_on_frame_def udp_handle_frame_def split: hil_message.split)
next
  fix data :: "byte list" and t :: hil_udp
  assume "length (hu_rx t) < 93" "length data \<le> MAX_FRAME_SIZE"
  then have "min (length data) (RX_BUF_LEN - length (hu_rx t)) = length data"
    by (simp add: MAX_FRAME_SIZE_def HEADER_SIZE_def CRC_SIZE_def RX_BUF_LEN_def)
  then show "udp_process_data data t = (let (t', rest) = scan_frames udp_on_frame udp_on_crc (hu_rx t @ data) t
      in t'\<lparr>hu_rx := rest\<rparr>)"
    by (simp add: udp_process_data_def)
qed simp_all

interpretation tcp: frame_receiver hp_rx "\<lambda>bs t. t\<lparr>hp_rx := bs\<rparr>" tcp_on_frame tcp_on_crc tcp_process_data
proof
  fix fr bs and t :: hil_tcp
  show "tcp_on_frame fr (t\<lparr>hp_rx := bs\<rparr>) = (tcp_on_frame fr t)\<lparr>hp_rx := bs\<rparr>"
    by (simp add: tcp_on_frame_def tcp_handle_frame_def Let_def split: hil_message.split)
next
  fix data :: "byte list" and t :: hil_tcp
  assume "length (hp_rx t) < 93" "length data \<le> MAX_FRAME_SIZE"
  then have "\<not> RX_BUF_LEN - length (hp_rx t) < length data" "min (length data) RX_BUF_LEN = length data"
    by (simp_all add: MAX_FRAME_SIZE_def HEADER_SIZE_def CRC_SIZE_def RX_BUF_LEN_def)
  then show "tcp_process_data data t = (let (t', rest) = scan_frames tcp_on_frame tcp_on_crc (hp_rx t @ data) t
      in t'\<lparr>hp_rx := rest\<rparr>)"
    by (simp add: tcp_process_data_def)
qed simp_all

section \<open>What the queues hold\<close>

text \<open>The newest samples that fit a queue.\<close>

definition newest :: "nat \<Rightarrow> 'a list \<Rightarrow> 'a list" where
  "newest n xs = drop (length xs - n) xs"

lemma newest_length: "length (newest n xs) = min n (length xs)"
  by (simp add: newest_def)

lemma newest_all: "length xs \<le> n \<Longrightarrow> newest n xs = xs"
  by (simp add: newest_def)

lemma newest_push: "newest n (newest n xs @ ys) = newest n (xs @ ys)"
  by (cases "length xs \<le> n") (simp_all add: newest_def add.commute)

lemma pushed:
  assumes "length q \<le> SENSOR_QUEUE_DEPTH"
  shows "push_bounded x q = newest SENSOR_QUEUE_DEPTH (q @ [x])"
  using assms by (cases q) (auto simp: push_bounded_def newest_def SENSOR_QUEUE_DEPTH_def)

fun sensor_of :: "hil_message \<Rightarrow> hil_sensor option" where
  "sensor_of (HilSensor m) = Some m" | "sensor_of _ = None"

fun gps_of :: "hil_message \<Rightarrow> hil_gps option" where
  "gps_of (HilGps m) = Some m" | "gps_of _ = None"

fun state_of :: "hil_message \<Rightarrow> hil_state_quaternion option" where
  "state_of (HilStateQuaternion m) = Some m" | "state_of _ = None"

definition tcp_bounded :: "hil_tcp \<Rightarrow> bool" where
  "tcp_bounded t \<longleftrightarrow> length (hp_sensors t) \<le> SENSOR_QUEUE_DEPTH \<and> length (hp_gps t) \<le> SENSOR_QUEUE_DEPTH
     \<and> length (hp_states t) \<le> SENSOR_QUEUE_DEPTH"

text \<open>The state a receiver reaches by handling messages.\<close>

definition tcp_after :: "hil_message list \<Rightarrow> hil_tcp \<Rightarrow> hil_tcp" where
  "tcp_after ms t =
     (let sensors = hp_sensors t @ List.map_filter sensor_of ms
      in t\<lparr>hp_rx_count := hp_rx_count t + of_nat (length ms),
           hp_sensors := newest SENSOR_QUEUE_DEPTH sensors,
           hp_dropped_sensors := hp_dropped_sensors t + of_nat (length sensors - SENSOR_QUEUE_DEPTH),
           hp_gps := newest SENSOR_QUEUE_DEPTH (hp_gps t @ List.map_filter gps_of ms),
           hp_states := newest SENSOR_QUEUE_DEPTH (hp_states t @ List.map_filter state_of ms)\<rparr>)"

lemma tcp_one:
  assumes "tcp_bounded t"
  shows "tcp_on_frame fr t = tcp_after [hf_message fr] t"
proof (cases "hf_message fr")
  case (HilSensor m)
  have "(if length (hp_sensors t) = SENSOR_QUEUE_DEPTH then tl (hp_sensors t) else hp_sensors t) @ [m]
      = newest SENSOR_QUEUE_DEPTH (hp_sensors t @ [m])"
    using pushed [of "hp_sensors t" m] assms by (simp add: push_bounded_def tcp_bounded_def)
  moreover have "length (hp_sensors t) + 1 - SENSOR_QUEUE_DEPTH = (if length (hp_sensors t) = SENSOR_QUEUE_DEPTH then 1 else 0)"
    using assms by (auto simp: tcp_bounded_def)
  ultimately show ?thesis using assms
    by (auto simp: tcp_on_frame_def tcp_handle_frame_def tcp_after_def HilSensor Let_def map_filter_simps tcp_bounded_def newest_all)
qed (use assms in \<open>auto simp: tcp_on_frame_def tcp_handle_frame_def tcp_after_def Let_def map_filter_simps tcp_bounded_def
      newest_all pushed\<close>)

lemma tcp_after_bounded [simp]: "tcp_bounded (tcp_after ms t)"
  by (simp add: tcp_after_def tcp_bounded_def Let_def newest_length)

lemma map_filter_join [simp]: "List.map_filter f (xs @ ys) = List.map_filter f xs @ List.map_filter f ys"
  by (simp add: List.map_filter_def)

lemma tcp_after_append: "tcp_after ns (tcp_after ms t) = tcp_after (ms @ ns) t"
proof -
  have "a - n + (min n a + b - n) = a + b - n" for a b n :: nat by simp
  then have k: "of_nat (a - n) + of_nat (min n a + b - n) = (of_nat (a + b - n) :: u64)" for a b n
    by (simp flip: of_nat_add)
  show ?thesis
    by (simp add: tcp_after_def Let_def newest_push newest_length add.assoc k [unfolded add.assoc])
qed

lemma tcp_after_none: "tcp_bounded t \<Longrightarrow> tcp_after [] t = t"
  by (simp add: tcp_after_def Let_def newest_all map_filter_simps tcp_bounded_def)

lemma frames_handled:
  "tcp_bounded t \<Longrightarrow> fold tcp_on_frame fs t = tcp_after (map hf_message fs) t"
proof (induction fs arbitrary: t)
  case (Cons fr fs)
  have "fold tcp_on_frame (fr # fs) t = tcp_after (map hf_message fs) (tcp_after [hf_message fr] t)"
    using Cons by (simp add: tcp_one)
  then show ?case by (simp add: tcp_after_append)
qed (simp add: tcp_after_none)

lemma reads_fold:
  "\<forall>d \<in> set chunks. d \<noteq> [] \<and> length d \<le> MAX_FRAME_SIZE
    \<Longrightarrow> tcp_reads (map ReadData chunks) t = fold tcp_process_data chunks t"
  by (induction chunks arbitrary: t) simp_all

lemma tcp_after_rx [simp]: "hp_rx (tcp_after ms t) = hp_rx t"
  by (simp add: tcp_after_def Let_def)

text \<open>C26: However a TCP stream of HIL frames is cut into reads, the receiver ends with an empty buffer having parsed every
  message once and in order: its count rises by the number of messages, no CRC error is recorded, each queue holds the
  newest sixteen of what it held and what arrived, and the sensor samples that did not fit are the ones counted dropped.\<close>

theorem hil_stream_delivered:
  assumes "\<forall>m \<in> set ms. hil_message_wf m"
    and "\<forall>d \<in> set chunks. d \<noteq> [] \<and> length d \<le> MAX_FRAME_SIZE"
    and "concat chunks = hil_stream seq sys_id comp_id ms"
    and "hp_connected t" "hp_rx t = []" "tcp_bounded t"
  shows "tcp_poll now_us answer (map ReadData chunks) t = tcp_after ms t"
proof -
  have "\<forall>d \<in> set chunks. length d \<le> MAX_FRAME_SIZE" using assms(2) by simp
  moreover have "ms \<noteq> [] \<longrightarrow> length (hp_rx t) < length (hil_frame_bytes (hd ms) seq sys_id comp_id)"
    using frame_bytes_length(2) [of "hd ms" seq sys_id comp_id] assms(1,5) by (auto dest: hd_in_set)
  ultimately have "fold tcp_process_data chunks t
      = (fold tcp_on_frame (hil_frames seq sys_id comp_id ms) t)\<lparr>hp_rx := []\<rparr>"
    using tcp.stream_received [of ms chunks t seq sys_id comp_id] assms by simp
  also have "fold tcp_on_frame (hil_frames seq sys_id comp_id ms) t = tcp_after ms t"
    using frames_handled [OF assms(6)] by simp
  also have "(tcp_after ms t)\<lparr>hp_rx := []\<rparr> = tcp_after ms t"
    using tcp.set_rx_same [of "tcp_after ms t"] assms(5) by simp
  finally show ?thesis using assms(2,4) by (simp add: tcp_poll_def reads_fold)
qed


text \<open>A heartbeat and a sensor sample, cut inside the second frame.\<close>

definition two_messages :: "hil_sensor \<Rightarrow> hil_message list" where
  "two_messages sample = [HilHeartbeat (new_quadrotor_hil True), HilSensor sample]"

definition level_sample :: hil_sensor where
  "level_sample =
     \<lparr>hs_time_usec = 4000, hs_xacc = f0, hs_yacc = f0, hs_zacc = f32_lit (- 981) 100, hs_xgyro = f0, hs_ygyro = f0,
      hs_zgyro = f0, hs_xmag = f0, hs_ymag = f0, hs_zmag = f0, hs_abs_pressure = f0, hs_diff_pressure = f0,
      hs_pressure_alt = f0, hs_temperature = f0, hs_fields_updated = 7, hs_id = 0\<rparr>"

definition cut_at :: "nat \<Rightarrow> byte list \<Rightarrow> byte list list" where
  "cut_at n bs = [take n bs, drop n bs]"

lemma two_messages_length: "length (hil_stream seq s c (two_messages sample)) = 98"
  by (simp add: two_messages_def stream_Cons frame_bytes_length(1) heartbeat_bytes sensor_bytes del: hil_stream.simps(2))

theorem hil_stream_delivered_witness:
  "\<exists>t. hp_connected t \<and> hp_rx t = []
     \<and> tcp_poll 7 True (map ReadData (cut_at 30 (hil_stream 250 1 1 (two_messages level_sample)))) t = tcp_after (two_messages level_sample) t
     \<and> hp_sensors (tcp_after (two_messages level_sample) t) = [level_sample]"
proof -
  let ?t = "hil_tcp_new 1 1 0 True" and ?ms = "two_messages level_sample"
  let ?c = "cut_at 30 (hil_stream 250 1 1 ?ms)"
  have t: "hp_connected ?t" "hp_rx ?t = []" "tcp_bounded ?t" "hp_sensors ?t = []"
    by (simp_all add: hil_tcp_new_def tcp_try_connect_def tcp_bounded_def)
  have len: "length (take 30 (hil_stream 250 1 1 ?ms)) = 30" "length (drop 30 (hil_stream 250 1 1 ?ms)) = 68"
    by (simp_all add: two_messages_length)
  have "tcp_poll 7 True (map ReadData ?c) ?t = tcp_after ?ms ?t"
  proof (rule hil_stream_delivered [where seq = 250 and sys_id = 1 and comp_id = 1])
    show "\<forall>m \<in> set ?ms. hil_message_wf m" by (simp add: two_messages_def)
    have ne: "hil_stream 250 1 1 ?ms \<noteq> []" using two_messages_length [of 250 1 1 level_sample] by (metis list.size(3) zero_neq_numeral)
    show "\<forall>d \<in> set ?c. d \<noteq> [] \<and> length d \<le> MAX_FRAME_SIZE"
      by (simp add: cut_at_def ne two_messages_length MAX_FRAME_SIZE_def HEADER_SIZE_def CRC_SIZE_def)
    show "concat ?c = hil_stream 250 1 1 ?ms" by (simp add: cut_at_def)
  qed (use t in simp_all)
  moreover have "hp_sensors (tcp_after ?ms ?t) = [level_sample]"
    by (simp add: tcp_after_def two_messages_def t Let_def map_filter_simps newest_def SENSOR_QUEUE_DEPTH_def)
  ultimately show ?thesis using t by blast
qed

section \<open>A reset\<close>

text \<open>
  While a reset is open, a poll produces a packet only for a sensor sample that carries the mark, and closes the reset
  then; every other poll leaves it open, and asks again when a sample arrived.
\<close>

lemma reset_ack_cases:
  assumes "poll_reset_ack new_plane to_ned x now_us sensor b = (b', r)" "hb_reset_pending b"
  shows "r = None \<and> hb_reset_pending b' \<and> hb_origin b' = hb_origin b
      \<or> (\<exists>m q. sensor = Some m \<and> hs_fields_updated m AND RESET_ACK_SENSOR_FLAG \<noteq> 0 \<and> r \<noteq> None
          \<and> \<not> hb_reset_pending b' \<and> hb_last_sensor_time_us b' = hs_time_usec m \<and> hb_reset_truth b' = Some q)"
  using assms
  by (auto simp: poll_reset_ack_def send_reset_request_def Let_def split: option.splits prod.splits if_splits)

section \<open>A receiver that is full\<close>

text \<open>
  Without a start byte in it the buffer is never emptied: once it is full of such bytes, the UDP receiver drops all that
  arrives. The TCP receiver drops the buffer instead.
\<close>

lemma no_start_incomplete:
  "\<forall>b \<in> set bs. b \<noteq> MAVLINK_STX_V2 \<and> b \<noteq> MAVLINK_STX_V1 \<Longrightarrow> parse_frame bs = Err Incomplete"
  by (simp add: parse_frame_def find_idx_None_iff [THEN iffD2])

lemma udp_full_deaf:
  assumes "\<forall>b \<in> set (hu_rx t). b \<noteq> MAVLINK_STX_V2 \<and> b \<noteq> MAVLINK_STX_V1" "length (hu_rx t) = RX_BUF_LEN"
  shows "udp_process_data data t = t"
proof -
  have "hu_rx t \<noteq> []" using assms(2) by (auto simp: RX_BUF_LEN_def)
  then have "scan_frames udp_on_frame udp_on_crc (hu_rx t) t = (t, hu_rx t)"
    using no_start_incomplete [OF assms(1)] by (subst scan_frames.simps) simp
  then show ?thesis using assms(2) by (simp add: udp_process_data_def)
qed

lemma tcp_full_recovers:
  assumes "length (hp_rx t) = RX_BUF_LEN" "data \<noteq> []" "length data \<le> RX_BUF_LEN"
  shows "tcp_process_data data t = tcp_process_data data (t\<lparr>hp_rx := []\<rparr>)"
  using assms by (simp add: tcp_process_data_def)

end
