(* ===== verification/Spec2Isabelle.thy ===== *)
theory Spec2Isabelle
  imports GatewayProps TelemetryQueue ReplicationProps Lease SitlRuns SitlTelemetry HilProps
begin

text \<open>
  Aviate is a flight-control stack in Rust: a kernel that runs once per cycle (\<open>aviate-core\<close>), the
  MAVLink link (\<open>aviate-link\<close>), the command boundary (\<open>aviate-security\<close>), the runner and the board glue
  (\<open>aviate-runtime\<close>, \<open>aviate-hal\<close>) and the shared-memory transport to a simulator
  (\<open>aviate-hal/xil\<close>). This development models the core logic of each and proves what makes it
  correct. The numbered properties C1, C2, ... stand right after the text that states them.

  \<^bold>\<open>How the parts interact.\<close> Frames arrive through a transport, are parsed and checked
  (\<open>MavlinkCodec\<close>, \<open>CommandFrames\<close>), authenticated by an admission adapter (\<open>Admission\<close>) and pass the
  gateway with its authorization and replay window (\<open>Gateway\<close>). The ingress retains the last setpoint and
  the runner calls the kernel at its rate (\<open>Runner\<close>). A cycle of the kernel (\<open>Update\<close>) takes sensors and
  the command, lets the estimator observe (\<open>Ekf\<close>), evaluates the checks and degradation (\<open>Checks\<close>,
  \<open>Kernel\<close>), protects the envelope (\<open>Envelope\<close>), grants or falls back a mode (\<open>ModeGate\<close>), runs the
  cascade (\<open>Cascade\<close>), mixes, sanitizes and slews the outputs (\<open>Mixer\<close>, \<open>Actuators\<close>). Replicated
  channels compare the canonical encoding of that state (\<open>Replication\<close>); telemetry is formatted from a snapshot of
  each cycle (\<open>Telemetry\<close>) and leaves through a queue (\<open>TelemetryQueue\<close>). The simulator runner (\<open>Sitl\<close>) polls a board adapter (\<open>BoardHal\<close>) for samples and
  lifecycle events, steps the kernel, writes the outputs back through the adapter and reports
  (\<open>SitlTelemetry\<close>). Samples come over a MAVLink stream (\<open>HilBackend\<close>) or through a block of memory that the
  kernel's process shares with the simulator's (\<open>Seqlock\<close>, \<open>SharedBlock\<close>).

  \<^bold>\<open>The theories and the code.\<close>
  \<^item> \<open>Prelude\<close>: names of the Rust integers (words of their width), saturating arithmetic, flag sets,
    generic facts. \<open>F32\<close>: IEEE-754 binary32 as 32-bit patterns, with addition, multiplication, division,
    comparison and rounding to nearest even computed on integers, so the models evaluate;
    \<open>F64\<close>: binary64 in the same way, and the casts between floats and integers.
  \<^item> \<open>Domain\<close> (\<open>fault.rs\<close>, \<open>sensor.rs\<close>, \<open>time.rs\<close>, \<open>state.rs\<close>, \<open>control.rs\<close>), \<open>Enums\<close>
    (\<open>control/enums.rs\<close>, the center codes and their decoding), \<open>Checks\<close> (\<open>checks/\<close>), \<open>FlightPhase\<close>
    (\<open>flight_phase.rs\<close>), \<open>ModeGate\<close> (\<open>control/mode_gate.rs\<close>, \<open>vehicle_control_mode.rs\<close>,
    \<open>transfer.rs\<close>), \<open>Envelope\<close> (\<open>control/envelope.rs\<close>, \<open>kernel/descend.rs\<close>), \<open>Config\<close>
    (\<open>kernel/config.rs\<close>, \<open>config/actuation.rs\<close>, \<open>config/canonical.rs\<close>, \<open>control/cascade_gains.rs\<close>).
  \<^item> \<open>Mixer\<close> (\<open>mixer.rs\<close>, \<open>mixer/desaturate.rs\<close>), \<open>Actuators\<close> (\<open>mixer/actuators.rs\<close>,
    \<open>mixer/sanitizer_impl.rs\<close>, \<open>kernel/slew.rs\<close>).
  \<^item> \<open>Kernel\<close> (\<open>kernel.rs\<close>, \<open>kernel/state.rs\<close>, \<open>kernel/builder.rs\<close>, \<open>kernel_logic.rs\<close>,
    \<open>kernel_logic/lifecycle.rs\<close>, \<open>kernel_types.rs\<close>), \<open>Update\<close> (\<open>kernel_update.rs\<close>). The kernel is
    generic in its estimator, controller and mixer as the source is: they are the record \<open>pipeline\<close>, whose
    fields are the trait operations. \<open>KernelRun\<close>: the calls an integrator makes and the states they reach;
    \<open>Runs\<close>: the locales of the run arguments; \<open>KernelSafety\<close>, \<open>KernelCycle\<close>, \<open>Lifecycle\<close>,
    \<open>MotorOutputs\<close>: the kernel's properties.
  \<^item> \<open>Cascade\<close> (\<open>control/multirotor.rs\<close>, \<open>multirotor/step.rs\<close>, \<open>position.rs\<close>, \<open>velocity.rs\<close>,
    \<open>attitude.rs\<close>, \<open>rate.rs\<close>), \<open>CascadeLoops\<close>, \<open>CascadeCycle\<close> and \<open>CascadeKernel\<close>: its loops, one
    cycle, and the controller as the kernel runs it; \<open>CycleControl\<close>: what a whole cycle of the kernel asks of its
    controller.
  \<^item> \<open>Matrices\<close> (\<open>math.rs\<close>), \<open>Ekf\<close> (\<open>ekf.rs\<close> and \<open>ekf/\<close>), \<open>EkfProps\<close>, \<open>EkfRuns\<close>,
    \<open>EkfClaims\<close>; \<open>FlightKernel\<close>: kernel, filter and controller together.
  \<^item> \<open>Replication\<close>, \<open>ReplicationProps\<close> (\<open>replicable.rs\<close>, every \<open>Replicable\<close> impl, \<open>kernel/snapshot.rs\<close>).
  \<^item> \<open>MavlinkWire\<close>, \<open>MavlinkMessages\<close>, \<open>MavlinkCodec\<close>, \<open>MavlinkFrames\<close>, \<open>MavlinkProps\<close>
    (\<open>mavlink/protocol.rs\<close> and \<open>protocol/\<close>), \<open>CommandFrames\<close> (\<open>command.rs\<close>, \<open>mavlink/command.rs\<close>).
  \<^item> \<open>Gateway\<close> (\<open>anti_replay.rs\<close>, \<open>gateway.rs\<close>, \<open>gateway/\<close>, \<open>principal.rs\<close>), \<open>Admission\<close>
    (\<open>auth.rs\<close>, \<open>admission/\<close>), \<open>GatewayRuns\<close>, \<open>GatewayProps\<close>.
  \<^item> \<open>TelemetryQueue\<close> (\<open>queue.rs\<close>, \<open>runtime/telemetry.rs\<close>), \<open>Telemetry\<close> (\<open>mavlink/telemetry.rs\<close>, \<open>mavlink/telemetry/\<close>:
    format functions, the group of an estimate, the formatter and its rates), \<open>TelemetryProps\<close> (the messages a
    snapshot calls for, and their delivery); \<open>Runner\<close> (\<open>runner.rs\<close>, \<open>command_ingress.rs\<close>).
  \<^item> \<open>Seqlock\<close> (\<open>contract/src/seqlock.rs\<close>), \<open>SharedBlock\<close> (\<open>contract/src/layout.rs\<close>,
    \<open>layout/attach_rules.rs\<close>, \<open>shm/src/mapping.rs\<close>, \<open>mapping/attach.rs\<close>, \<open>mapping/lanes.rs\<close>), \<open>Lease\<close>
    (\<open>mapping/lease.rs\<close>, creation in \<open>attach.rs\<close>, \<open>Drop\<close> in \<open>mapping.rs\<close>: file locks, owner tokens and the
    named object as interleaved steps of processes that may die anywhere).
  \<^item> \<open>BoardHal\<close> (\<open>hal/io\<close>: \<open>board_hal.rs\<close>, \<open>traits.rs\<close>, \<open>error.rs\<close>, the fake actuator), \<open>Sitl\<close> (\<open>runtime\<close>:
    \<open>sim.rs\<close>, \<open>sim/step.rs\<close>, \<open>sim/lifecycle.rs\<close>, \<open>sensor_cache.rs\<close>), \<open>SitlRuns\<close> (the runs of the simulator
    runner and their properties), \<open>SitlTelemetry\<close> (\<open>sim/geomagnetic.rs\<close>, \<open>sim/geodetic.rs\<close> and the last stages of
    \<open>sim/step.rs\<close>: a step with its heading reference and its report).
  \<^item> \<open>HilWire\<close> (\<open>xil/backends/mavlink-hil\<close>: \<open>messages.rs\<close>, \<open>wire.rs\<close>), \<open>HilLink\<close> (\<open>transport.rs\<close>,
    \<open>transport_tcp.rs\<close>), \<open>HilBackend\<close> (\<open>link.rs\<close>, \<open>sensor_fields.rs\<close>, \<open>geodetic.rs\<close>, \<open>backend.rs\<close>), \<open>HilProps\<close>
    (frames, streams, queues and resets of that link).

  \<^bold>\<open>Interfaces.\<close> Every locale is interpreted on the model's own definitions. \<open>preserved\<close>, \<open>latch\<close> and
  \<open>simulation\<close> (\<open>Runs\<close>) turn a fact about one call into one about every run: control law, faults,
  readiness and lifecycle of the kernel, runs of the filter. \<open>controller_contract\<close> (interpreted by the
  multirotor), \<open>estimator_contract\<close> (by the flown filter) and \<open>safe_actuation\<close> (by the sanitized quad
  pipeline) state what the kernel needs of what it is built from. \<open>actuator_sanitizer\<close>,
  \<open>center_coded\<close> (seven enumerations), \<open>message_codec\<close> (eighteen messages), \<open>rising_guard\<close> (replay
  window and gateway), \<open>bounded_fifo\<close>, \<open>replicable\<close>, \<open>faithful\<close> and \<open>kernel_parts\<close> (encoders),
  \<open>publications\<close> (what may be published under the lock),
  \<open>frame_receiver\<close> (reassembly of a byte stream; interpreted by the UDP and the TCP receiver) and
  \<open>boarded\<close> (the simulator runner around any kernel invariant; interpreted for the output ranges and for the
  law and lifecycle of the kernel) are the contracts of the other components.

  \<^bold>\<open>What is shown.\<close> No run of the kernel drives a motor output outside its range, neither at the kernel's
  own outputs nor, in the simulator runner, at the actuator the board adapter writes (C1, C2); the lifecycle
  refines a small machine, and arming, faults, the terminal cause and the loss of navigation behave as
  specified (C3 to C9); every cycle commands within limits, the controller's memory stays bounded and a cycle
  returns exactly when its heading wrap does (C10 to C12); a cycle calls its controller on what it reports, in supported
  modes and with loops closed over valid state (C13, C14); degradation is monotone, an unarmed cycle is safe, and initialization
  comes to its end (C15 to C17); no command is replayed, admitted out of its window or in another's name (C18 to
  C21); the filter keeps its invariant and expires validity (C22, C23); the codec round-trips and rejects corrupted
  bytes (C24, C25); a simulator's samples arrive whole and in order however the stream is cut (C26), and telemetry
  hands over exactly the messages the snapshots call for, an estimate never half (C27, C28); the canonical encodings
  separate configurations and the agreement of channels pins their state (C29 to C31); one owner at a time serves
  a shared block, a dead block stays dead and a successor takes over (C32 to C34); a snapshot read under the
  sequence lock was published as it is, and attaching fails closed (C35 to C38); the telemetry queue refines a
  bounded FIFO (C39); at every tick the board is handed exactly the latest setpoint the transport delivered
  and its age (C40).

  \<^bold>\<open>Bounds and fuel.\<close> Loops of the source are structural recursions or carry a measure, except the heading wrap
  of the velocity loop and of the magnetometer update: subtracting two pi from a float of magnitude \<open>2 ^ 27\<close>
  and more is absorbed by rounding, so the loop is \<open>partial_function (option)\<close> and not returning is
  \<open>None\<close>; for every smaller error it is shown to return. The covariance code runs over 15 states. The runner
  catches up at most 3 ticks. The examples of expiring validity use 5121 cycles of 1/1024 s (over the five
  seconds of the source). A reader of the sequence lock retries 16 times, and fewer than \<open>2 ^ 32\<close> steps of
  the machine happen within one run (a wrapped 32-bit sequence number would look unchanged); the incarnations
  of a lease are counted for fewer than \<open>2 ^ 64\<close> grants.

  \<^bold>\<open>Parameters.\<close> Code that is not in the repository is an argument: the square root and the transcendental functions of libm,
  and \<open>powf\<close> (a record; the properties hold for every choice unless one is named), SHA-256 and the key store,
  transports, clocks, the results of system calls, the tangent plane of \<open>world_core\<close> and the magnetic model. The sequence lock is an interleaving of atomic
  steps over a sequentially consistent memory; the fences of the source are what entitles it to that order. A write of the lease
  counter's eight bytes takes effect whole or not at all. A controller cycle or a filter update that does not return
  (C12 says when) leaves no later state; in a run of the kernel the model keeps the component's state there and commands
  nothing.

  \<^bold>\<open>Not modelled.\<close> Panics of \<open>f32::clamp\<close> on inverted or NaN bounds are not represented as values (the
  model's clamp gives one there); the validated configuration limits exclude them. The controllers for fixed-wing and VTOL vehicles, the STM32H7 peripherals,
  boards, chips and drivers, bootloader and signing tool, the simulator harness and the other backends,
  configuration files, applications and build tooling are I/O, placeholders or assembly of the parts above; the manifest lists each with its reason.
\<close>

end
